(* ===== verification/Prelude.thy ===== *)
theory Prelude
  imports
    Complex_Main
    "HOL-Library.Finite_Map"
    "HOL-Library.List_Lexorder"
    "HOL-Library.Char_ord"
    "HOL-Library.Product_Lexorder"
begin

text \<open>
  Shared vocabulary of the development: Python exceptions as values of a sum type and their
  sequencing, JSON documents with the Python operations the code applies to them
  (\<^verbatim>\<open>dict.get\<close>, \<^verbatim>\<open>isinstance\<close>, truthiness, iteration), database tables as lists of
  rows, and the lemma collections the component theories use.

  A Python \<^verbatim>\<open>str\<close> is a \<^typ>\<open>string\<close> holding its UTF-8 encoding (theory Pytext decodes it
  where the code counts or classifies characters). A Python \<^verbatim>\<open>dict\<close> with string keys is a
  finite map: Python compares dicts without regard to order, and so does HOL equality here.
\<close>

named_theorems outcome_simps \<open>decomposing a computation that ended without an exception\<close>
named_theorems dict_simps \<open>reading documents built by literals, updates and merges\<close>
named_theorems frame_simps \<open>tables an operation leaves alone\<close>

section \<open>Exceptions as values\<close>

text \<open>
  The exception classes the modelled code raises or lets through, with their message. The last
  nine are raised by the language and by the database driver.
\<close>

datatype py_error =
    UnsupportedWorkflowError string
  | InvalidWorkflowError string
  | IncidentRuntimeError string
  | IncidentNotFoundError string
  | RunNotFoundError string
  | InvalidTransitionError string
  | PreconditionFailedError string
  | MissingIncidentVersionError string
  | ApprovalRequiredError string
  | IncidentStaleWriteError string
  | IncidentIdempotencyConflictError string
  | UnsupportedWorkflowDataError string
  | MissingDecisionError string
  | InvalidPostmortemError string
  | SignalRejected string string
  | ValueError string
  | RuntimeError string
  | TypeError string
  | KeyError string
  | IndexError string
  | AttributeError string
  | IntegrityError string
  | DataError string
  | ArithmeticError string

type_synonym 'a outcome = "py_error + 'a"

definition and_then :: "'e + 'a \<Rightarrow> ('a \<Rightarrow> 'e + 'b) \<Rightarrow> 'e + 'b" where
  "and_then m f = (case m of Inl e \<Rightarrow> Inl e | Inr x \<Rightarrow> f x)"

definition raise_if :: "bool \<Rightarrow> 'e \<Rightarrow> 'e + unit" where
  "raise_if c e = (if c then Inl e else Inr ())"

lemma and_then_simps [simp]:
  "and_then (Inl e) f = Inl e"
  "and_then (Inr x) f = f x"
  by (simp_all add: and_then_def)

lemma and_then_Inr_iff [outcome_simps]:
  "and_then m f = Inr y \<longleftrightarrow> (\<exists>x. m = Inr x \<and> f x = Inr y)"
  by (cases m) simp_all

lemma and_then_pair_Inr:
  "and_then m (\<lambda>(x, y). f x y) = Inr z \<longleftrightarrow> (\<exists>x y. m = Inr (x, y) \<and> f x y = Inr z)"
  by (cases m) auto

lemma and_then_Inl_iff:
  "and_then m f = Inl e \<longleftrightarrow> m = Inl e \<or> (\<exists>x. m = Inr x \<and> f x = Inl e)"
  by (cases m) simp_all

lemma and_then_assoc: "and_then (and_then m f) g = and_then m (\<lambda>x. and_then (f x) g)"
  by (cases m) simp_all

lemma raise_if_simps [simp]:
  "raise_if True e = Inl e"
  "raise_if False e = Inr ()"
  by (simp_all add: raise_if_def)

lemma raise_if_Inr_iff [outcome_simps]: "raise_if c e = Inr u \<longleftrightarrow> \<not> c"
  by (simp add: raise_if_def)

lemma raise_if_Inl_iff: "raise_if c e = Inl e' \<longleftrightarrow> c \<and> e' = e"
  by (auto simp: raise_if_def)

lemma if_Inl_eq_Inr_iff [outcome_simps]:
  "(if c then Inl e else m) = Inr y \<longleftrightarrow> \<not> c \<and> m = Inr y"
  by simp

text \<open>A Python loop that may raise: the first exception ends it.\<close>

fun map_raise :: "('a \<Rightarrow> 'e + 'b) \<Rightarrow> 'a list \<Rightarrow> 'e + 'b list" where
  "map_raise f [] = Inr []"
| "map_raise f (x # xs) = and_then (f x) (\<lambda>y. and_then (map_raise f xs) (\<lambda>ys. Inr (y # ys)))"

fun fold_raise :: "('a \<Rightarrow> 's \<Rightarrow> 'e + 's) \<Rightarrow> 'a list \<Rightarrow> 's \<Rightarrow> 'e + 's" where
  "fold_raise f [] s = Inr s"
| "fold_raise f (x # xs) s = and_then (f x s) (fold_raise f xs)"

lemma map_raise_Inr_iff:
  "map_raise f xs = Inr ys \<longleftrightarrow> list_all2 (\<lambda>x y. f x = Inr y) xs ys"
  by (induction xs arbitrary: ys) (auto simp: and_then_Inr_iff list_all2_Cons1)

lemma map_raise_total: "(\<And>x. x \<in> set xs \<Longrightarrow> f x = Inr (g x)) \<Longrightarrow> map_raise f xs = Inr (map g xs)"
  by (induction xs) auto

lemma fold_raise_invariant:
  assumes "fold_raise f xs s = Inr s'" and "P s"
    and "\<And>x t t'. x \<in> set xs \<Longrightarrow> f x t = Inr t' \<Longrightarrow> P t \<Longrightarrow> P t'"
  shows "P s'"
  using assms by (induction xs arbitrary: s) (auto simp: and_then_Inr_iff)

text \<open>
  One transaction (\<^verbatim>\<open>async with self._unit_of_work() as work\<close>): an exception leaves the
  block with the transaction rolled back, so the store is the one it began with.
\<close>

definition transact :: "('s \<Rightarrow> 'e + 'a \<times> 's) \<Rightarrow> 's \<Rightarrow> ('e + 'a) \<times> 's" where
  "transact body s = (case body s of Inl e \<Rightarrow> (Inl e, s) | Inr (x, s') \<Rightarrow> (Inr x, s'))"

lemma transact_cases:
  obtains (raised) e where "body s = Inl e" "transact body s = (Inl e, s)"
  | (returned) x s' where "body s = Inr (x, s')" "transact body s = (Inr x, s')"
  by (cases "body s") (auto simp: transact_def split: prod.splits)

section \<open>JSON documents\<close>

text \<open>
  The values \<^verbatim>\<open>json\<close> reads and writes. Every finite double is a rational number.
\<close>

datatype json =
    JNull
  | JBool bool
  | JInt int
  | JFloat rat
  | JStr string
  | JList "json list"
  | JObj "(string, json) fmap"

type_synonym dict = "(string, json) fmap"

abbreviation dict :: "(string \<times> json) list \<Rightarrow> dict" where
  "dict kvs \<equiv> fmap_of_list kvs"

text \<open>\<^verbatim>\<open>d.get(k)\<close>, with \<^verbatim>\<open>None\<close> for a missing key, and \<^verbatim>\<open>d.get(k, default)\<close>.\<close>

definition getd :: "dict \<Rightarrow> string \<Rightarrow> json \<Rightarrow> json" where
  "getd d k v = (case fmlookup d k of None \<Rightarrow> v | Some x \<Rightarrow> x)"

definition get :: "dict \<Rightarrow> string \<Rightarrow> json" where
  "get d k = getd d k JNull"

text \<open>\<^verbatim>\<open>d[k]\<close>, which raises on a missing key.\<close>

definition item :: "dict \<Rightarrow> string \<Rightarrow> json outcome" where
  "item d k = (case fmlookup d k of None \<Rightarrow> Inl (KeyError k) | Some x \<Rightarrow> Inr x)"

fun is_obj :: "json \<Rightarrow> bool" where
  "is_obj (JObj m) = True"
| "is_obj _ = False"

fun is_list :: "json \<Rightarrow> bool" where
  "is_list (JList xs) = True"
| "is_list _ = False"

fun is_str :: "json \<Rightarrow> bool" where
  "is_str (JStr s) = True"
| "is_str _ = False"

fun is_bool :: "json \<Rightarrow> bool" where
  "is_bool (JBool b) = True"
| "is_bool _ = False"

text \<open>The object behind a value the code has checked with \<^verbatim>\<open>isinstance\<close>; \<^verbatim>\<open>{}\<close> otherwise.\<close>

fun obj :: "json \<Rightarrow> dict" where
  "obj (JObj m) = m"
| "obj _ = fmempty"

fun elems :: "json \<Rightarrow> json list" where
  "elems (JList xs) = xs"
| "elems _ = []"

text \<open>\<^verbatim>\<open>bool(x)\<close>.\<close>

fun truthy :: "json \<Rightarrow> bool" where
  "truthy JNull = False"
| "truthy (JBool b) = b"
| "truthy (JInt i) = (i \<noteq> 0)"
| "truthy (JFloat r) = (r \<noteq> 0)"
| "truthy (JStr s) = (s \<noteq> [])"
| "truthy (JList xs) = (xs \<noteq> [])"
| "truthy (JObj m) = (m \<noteq> fmempty)"

text \<open>\<^verbatim>\<open>x or y\<close>.\<close>

definition py_or :: "json \<Rightarrow> json \<Rightarrow> json" where
  "py_or x y = (if truthy x then x else y)"

text \<open>\<^verbatim>\<open>None\<close> or a string, as a JSON value.\<close>

fun jopt :: "string option \<Rightarrow> json" where
  "jopt None = JNull"
| "jopt (Some s) = JStr s"

fun jdict :: "dict option \<Rightarrow> json" where
  "jdict None = JNull"
| "jdict (Some d) = JObj d"

text \<open>\<^verbatim>\<open>x in names\<close> for a set of strings: only a string can be a member.\<close>

fun str_in :: "json \<Rightarrow> string list \<Rightarrow> bool" where
  "str_in (JStr s) names = (s \<in> set names)"
| "str_in _ names = False"

text \<open>\<^verbatim>\<open>x in names\<close> for a hashed container, which refuses lists and mappings.\<close>

fun hash_in :: "json \<Rightarrow> string list \<Rightarrow> bool outcome" where
  "hash_in (JStr s) names = Inr (s \<in> set names)"
| "hash_in (JList xs) names = Inl (TypeError ''unhashable type: list'')"
| "hash_in (JObj m) names = Inl (TypeError ''unhashable type: dict'')"
| "hash_in _ names = Inr False"

lemma hash_in_Inr: "hash_in j names = Inr b \<Longrightarrow> b = str_in j names"
  by (cases j) simp_all

lemma hash_in_True: "hash_in j names = Inr True \<longleftrightarrow> str_in j names"
  by (cases j) simp_all

text \<open>The first of two computations that yields a value.\<close>

definition or_else :: "'a option outcome \<Rightarrow> 'a outcome \<Rightarrow> 'a outcome" where
  "or_else m n = and_then m (\<lambda>x. case x of Some y \<Rightarrow> Inr y | None \<Rightarrow> n)"

text \<open>\<^verbatim>\<open>x if isinstance(x, str) else None\<close>.\<close>

fun str_or_null :: "json \<Rightarrow> json" where
  "str_or_null (JStr s) = JStr s"
| "str_or_null _ = JNull"

text \<open>\<^verbatim>\<open>set(d)\<close> compared with a set of names.\<close>

definition keys_within :: "dict \<Rightarrow> string list \<Rightarrow> bool" where
  "keys_within d ks = (fmdom' d \<subseteq> set ks)"

definition keys_exactly :: "dict \<Rightarrow> string list \<Rightarrow> bool" where
  "keys_exactly d ks = (fmdom' d = set ks)"

lemma fmdom'_dict [simp, dict_simps]: "fmdom' (dict kvs) = fst ` set kvs"
  by (simp add: fmdom'_alt_def fset_of_list.rep_eq)

lemma keys_within_code [code]: "keys_within (dict kvs) ks \<longleftrightarrow> list_all (\<lambda>(k, _). k \<in> set ks) kvs"
  by (auto simp: keys_within_def list_all_iff)

lemma keys_exactly_code [code]:
  "keys_exactly (dict kvs) ks \<longleftrightarrow>
     list_all (\<lambda>(k, _). k \<in> set ks) kvs \<and> list_all (\<lambda>k. k \<in> fst ` set kvs) ks"
  by (auto simp: keys_exactly_def list_all_iff image_iff) force+

lemma get_empty [simp, dict_simps]: "get fmempty k = JNull"
  by (simp add: get_def getd_def)

lemma get_upd [simp, dict_simps]: "get (fmupd k v d) k' = (if k = k' then v else get d k')"
  by (simp add: get_def getd_def)

lemma get_add: "get (d ++\<^sub>f e) k = (if k \<in> fmdom' e then get e k else get d k)"
  by (simp add: get_def getd_def fmdom'_alt_def)

lemma get_add_outside: "keys_within e ks \<Longrightarrow> k \<notin> set ks \<Longrightarrow> get (d ++\<^sub>f e) k = get d k"
  by (auto simp: get_add keys_within_def)

lemma get_dict_Nil [simp, dict_simps]: "get (dict []) k = JNull"
  by (simp add: get_def getd_def fmlookup_of_list)

lemma get_dict_Cons [simp, dict_simps]:
  "get (dict ((k, v) # kvs)) k' = (if k = k' then v else get (dict kvs) k')"
  by (simp add: get_def getd_def fmlookup_of_list)

lemma get_drop [simp, dict_simps]: "get (fmdrop k d) k' = (if k = k' then JNull else get d k')"
  by (auto simp: get_def getd_def)

lemma get_obj_null [simp]: "get (obj JNull) k = JNull"
  by simp

lemma is_obj_iff: "is_obj j \<longleftrightarrow> (\<exists>m. j = JObj m)"
  by (cases j) simp_all

lemma is_list_iff: "is_list j \<longleftrightarrow> (\<exists>xs. j = JList xs)"
  by (cases j) simp_all

lemma is_str_iff: "is_str j \<longleftrightarrow> (\<exists>s. j = JStr s)"
  by (cases j) simp_all

lemma str_in_iff: "str_in j ns \<longleftrightarrow> (\<exists>s. j = JStr s \<and> s \<in> set ns)"
  by (cases j) simp_all

lemma jopt_eq_iff [simp]: "jopt a = jopt b \<longleftrightarrow> a = b"
  by (cases a; cases b) simp_all

lemma jopt_eq_str [simp]: "jopt a = JStr s \<longleftrightarrow> a = Some s"
  by (cases a) simp_all

lemma item_Inr_iff [outcome_simps]: "item d k = Inr v \<longleftrightarrow> fmlookup d k = Some v"
  by (auto simp: item_def split: option.splits)

lemma get_lookup: "fmlookup d k = Some v \<Longrightarrow> get d k = v"
  by (simp add: get_def getd_def)

text \<open>Case analysis on membership in a literal list, for the code's closed tables.\<close>

lemma list_memE:
  "x \<in> set (y # ys) \<Longrightarrow> (x = y \<Longrightarrow> P) \<Longrightarrow> (x \<in> set ys \<Longrightarrow> P) \<Longrightarrow> P"
  "x \<in> set [] \<Longrightarrow> P"
  by auto

section \<open>Tables\<close>

text \<open>
  A table is the list of its rows in the order they were inserted. The queries the code runs are
  \<^verbatim>\<open>SELECT\<close> by key (at most one row), \<^verbatim>\<open>UPDATE\<close> by key and \<^verbatim>\<open>INSERT\<close>.
\<close>

definition select_one :: "('r \<Rightarrow> bool) \<Rightarrow> 'r list \<Rightarrow> 'r option" where
  "select_one p rows = find p rows"

definition update_where :: "('r \<Rightarrow> bool) \<Rightarrow> ('r \<Rightarrow> 'r) \<Rightarrow> 'r list \<Rightarrow> 'r list" where
  "update_where p f rows = map (\<lambda>r. if p r then f r else r) rows"

lemma select_one_Some: "select_one p rows = Some r \<Longrightarrow> r \<in> set rows \<and> p r"
  by (auto simp: select_one_def find_Some_iff)

lemma select_one_None: "select_one p rows = None \<longleftrightarrow> (\<forall>r\<in>set rows. \<not> p r)"
  by (auto simp: select_one_def find_None_iff)

lemma select_one_append:
  "select_one p (xs @ ys) = (case select_one p xs of None \<Rightarrow> select_one p ys | Some r \<Rightarrow> Some r)"
  by (induction xs) (simp_all add: select_one_def)

lemma select_one_key:
  assumes "distinct (map key rows)" and "r \<in> set rows"
  shows "select_one (\<lambda>x. key x = key r) rows = Some r"
  using assms by (induction rows) (force simp: select_one_def)+

lemma select_one_update_where:
  assumes "\<And>r. p (f r) = p r"
  shows "select_one p (update_where p f rows) = map_option f (select_one p rows)"
  using assms by (induction rows) (auto simp: select_one_def update_where_def)

lemma select_one_update_other:
  assumes "\<And>r. q r \<Longrightarrow> p r = False" and "\<And>r. q r \<Longrightarrow> p (f r) = False"
  shows "select_one p (update_where q f rows) = select_one p rows"
  using assms by (induction rows) (auto simp: select_one_def update_where_def)

lemma map_update_where [simp]:
  "(\<And>r. k (f r) = k r) \<Longrightarrow> map k (update_where p f rows) = map k rows"
  by (simp add: update_where_def)

lemma set_update_where:
  "r \<in> set (update_where p f rows) \<longleftrightarrow> (\<exists>x\<in>set rows. r = (if p x then f x else x))"
  by (auto simp: update_where_def)

lemma length_update_where [simp]: "length (update_where p f rows) = length rows"
  by (simp add: update_where_def)

end
