(* ===== verification/Pytext.thy ===== *)
theory Pytext
  imports Prelude
begin

text \<open>
  Python text and timestamps. A \<^verbatim>\<open>str\<close> is kept as its UTF-8 bytes; the operations that count
  or classify characters (\<^verbatim>\<open>len\<close>, \<^verbatim>\<open>strip\<close>, slicing, \<^verbatim>\<open>split\<close>, \<^verbatim>\<open>\d\<close>) decode it to
  code points. The regular expressions of the code are predicates. A \<^verbatim>\<open>datetime\<close> is an aware
  UTC timestamp, as the clock and the \<^verbatim>\<open>timestamptz\<close> columns give it.
\<close>

section \<open>UTF-8\<close>

fun utf8_char :: "nat \<Rightarrow> string" where
  "utf8_char n =
     (if n < 128 then [char_of n]
      else if n < 2048 then [char_of (192 + n div 64), char_of (128 + n mod 64)]
      else if n < 65536 then
        [char_of (224 + n div 4096), char_of (128 + n div 64 mod 64), char_of (128 + n mod 64)]
      else
        [char_of (240 + n div 262144), char_of (128 + n div 4096 mod 64),
         char_of (128 + n div 64 mod 64), char_of (128 + n mod 64)])"

definition utf8_encode :: "nat list \<Rightarrow> string" where
  "utf8_encode cps = concat (map utf8_char cps)"

text \<open>Continuation bytes that follow a lead byte, and the bits the lead byte carries.\<close>

definition utf8_rest :: "nat \<Rightarrow> nat" where
  "utf8_rest b = (if b < 128 then 0 else if b < 224 then 1 else if b < 240 then 2 else 3)"

definition utf8_lead :: "nat \<Rightarrow> nat" where
  "utf8_lead b = (if b < 128 then b else if b < 224 then b mod 32 else if b < 240 then b mod 16
                  else b mod 8)"

function utf8_decode :: "string \<Rightarrow> nat list" where
  "utf8_decode [] = []"
| "utf8_decode (c # cs) =
     (let b = of_char c; n = utf8_rest b
      in fold (\<lambda>k a. a * 64 + of_char k mod 64) (take n cs) (utf8_lead b) # utf8_decode (drop n cs))"
  by pat_completeness auto
termination
  by (relation "measure length") auto

text \<open>
  The numbers four UTF-8 bytes can carry. Every Unicode scalar value is one, and the decoder
  produces no other, whatever the bytes.
\<close>

definition scalar :: "nat \<Rightarrow> bool" where
  "scalar n = (n < 2097152)"

lemma continuation_bits: "(128 + n mod 64) mod 64 = (n mod 64 :: nat)"
  using mod_mult_self3 [of 2 64 "n mod 64"] by simp

lemma lead_bits:
  "m < 32 \<Longrightarrow> (192 + m) mod 32 = (m :: nat)"
  "m < 16 \<Longrightarrow> (224 + m) mod 16 = m"
  "m < 8 \<Longrightarrow> (240 + m) mod 8 = m"
  using mod_mult_self3 [of 6 32 m] mod_mult_self3 [of 14 16 m] mod_mult_self3 [of 30 8 m] by simp_all

lemma regroup_bits: "n div 4096 * 64 + n div 64 mod 64 = (n div 64 :: nat)"
  using div_mult_mod_eq [of "n div 64" 64] div_mult2_eq [of n 64 64] by simp

lemma utf8_decode_char: "scalar n \<Longrightarrow> utf8_decode (utf8_char n @ s) = n # utf8_decode s"
proof -
  assume "scalar n"
  then have n: "n < 2097152" by (simp add: scalar_def)
  consider "n < 128" | "128 \<le> n" "n < 2048" | "2048 \<le> n" "n < 65536" | "65536 \<le> n"
    by linarith
  then show ?thesis
  proof cases
    case 1
    then show ?thesis by (simp add: utf8_rest_def utf8_lead_def)
  next
    case 2
    then have "n div 64 < 32" by auto
    then show ?thesis using 2 \<open>n div 64 < 32\<close>
      by (simp add: utf8_rest_def utf8_lead_def continuation_bits lead_bits)
  next
    case 3
    then have "n div 4096 < 16" by auto
    then show ?thesis using 3 \<open>n div 4096 < 16\<close>
      by (simp add: utf8_rest_def utf8_lead_def numeral_2_eq_2 continuation_bits regroup_bits lead_bits)
  next
    case 4
    have "n div 262144 < 8" using n by auto
    have "n div 262144 * 64 + n div 4096 mod 64 = n div 4096"
      using regroup_bits [of "n div 64"] by (simp add: div_mult2_eq [symmetric])
    then show ?thesis using 4 \<open>n div 262144 < 8\<close>
      by (simp add: utf8_rest_def utf8_lead_def numeral_3_eq_3 continuation_bits regroup_bits lead_bits)
  qed
qed

lemma utf8_decode_encode: "list_all scalar cps \<Longrightarrow> utf8_decode (utf8_encode cps) = cps"
  by (induction cps) (simp_all add: utf8_encode_def utf8_decode_char del: utf8_char.simps)

lemma fold_shift_bound:
  "a < 2 ^ b \<Longrightarrow> fold (\<lambda>k a. a * 64 + of_char k mod 64) (ks :: char list) a < (2::nat) ^ (b + 6 * length ks)"
proof (induction ks arbitrary: a b)
  case Nil
  then show ?case by simp
next
  case (Cons k ks)
  have "of_char k mod 64 < (64::nat)" by simp
  moreover have "a + 1 \<le> 2 ^ b" using Cons.prems by simp
  then have "(a + 1) * 64 \<le> 2 ^ b * 64" by (rule mult_right_mono) simp
  ultimately have "a * 64 + of_char k mod 64 < (2::nat) ^ (b + 6)"
    by (simp add: power_add)
  from Cons.IH [OF this] show ?case by (simp add: algebra_simps)
qed

lemma scalar_utf8_decode: "list_all scalar (utf8_decode s)"
proof (induction s rule: utf8_decode.induct)
  case 1
  then show ?case by simp
next
  case (2 c cs)
  let ?b = "of_char c :: nat" and ?n = "utf8_rest (of_char c)"
  let ?ks = "take ?n cs"
  have "length ?ks \<le> ?n" by simp
  obtain w where w: "utf8_lead ?b < 2 ^ w" "w + 6 * ?n \<le> 21"
  proof -
    consider "?b < 128" | "128 \<le> ?b" "?b < 224" | "224 \<le> ?b" "?b < 240" | "240 \<le> ?b"
      by linarith
    then show thesis
      by cases (auto intro: that [of 7] that [of 5] that [of 4] that [of 3]
          simp: utf8_lead_def utf8_rest_def)
  qed
  have "fold (\<lambda>k a. a * 64 + of_char k mod 64) ?ks (utf8_lead ?b) < 2 ^ (w + 6 * length ?ks)"
    by (rule fold_shift_bound) (rule w)
  also have "\<dots> \<le> 2 ^ 21"
    using w \<open>length ?ks \<le> ?n\<close> by (intro power_increasing) auto
  finally have "scalar (fold (\<lambda>k a. a * 64 + of_char k mod 64) ?ks (utf8_lead ?b))"
    by (simp add: scalar_def)
  with 2 show ?case by (simp add: Let_def)
qed

lemma utf8_recode: "set cps \<subseteq> set (utf8_decode s) \<Longrightarrow> utf8_decode (utf8_encode cps) = cps"
  using scalar_utf8_decode [of s] by (intro utf8_decode_encode) (auto simp: list_all_iff subset_iff)

lemma utf8_decode_nonempty: "s \<noteq> [] \<Longrightarrow> utf8_decode s \<noteq> []"
  by (cases s) (simp_all add: Let_def)

lemma utf8_char_nonempty [simp]: "utf8_char n \<noteq> []"
  by simp

declare utf8_char.simps [simp del]

lemma utf8_encode_nonempty: "cps \<noteq> [] \<Longrightarrow> utf8_encode cps \<noteq> []"
  by (cases cps) (simp_all add: utf8_encode_def)

definition ascii :: "string \<Rightarrow> bool" where
  "ascii s = list_all (\<lambda>c. of_char c < (128::nat)) s"

lemma utf8_decode_ascii: "ascii s \<Longrightarrow> utf8_decode s = map of_char s"
  by (induction s) (simp_all add: ascii_def utf8_rest_def utf8_lead_def)

lemma utf8_encode_append: "utf8_encode (xs @ ys) = utf8_encode xs @ utf8_encode ys"
  by (simp add: utf8_encode_def)

section \<open>Lengths, blanks, slices\<close>

definition py_len :: "string \<Rightarrow> nat" where
  "py_len s = length (utf8_decode s)"

text \<open>The characters \<^verbatim>\<open>str.isspace\<close> accepts, which \<^verbatim>\<open>strip\<close> and \<^verbatim>\<open>split\<close> remove.\<close>

definition py_space :: "nat \<Rightarrow> bool" where
  "py_space n = ((9 \<le> n \<and> n \<le> 13) \<or> (28 \<le> n \<and> n \<le> 32) \<or> n = 133 \<or> n = 160 \<or> n = 5760 \<or>
     (8192 \<le> n \<and> n \<le> 8202) \<or> n = 8232 \<or> n = 8233 \<or> n = 8239 \<or> n = 8287 \<or> n = 12288)"

definition strip_cps :: "nat list \<Rightarrow> nat list" where
  "strip_cps cps = rev (dropWhile py_space (rev (dropWhile py_space cps)))"

definition py_strip :: "string \<Rightarrow> string" where
  "py_strip s = utf8_encode (strip_cps (utf8_decode s))"

text \<open>\<^verbatim>\<open>not s.strip()\<close>.\<close>

definition blank :: "string \<Rightarrow> bool" where
  "blank s = (strip_cps (utf8_decode s) = [])"

text \<open>\<^verbatim>\<open>s[:n]\<close>.\<close>

definition py_prefix :: "nat \<Rightarrow> string \<Rightarrow> string" where
  "py_prefix n s = utf8_encode (take n (utf8_decode s))"

text \<open>\<^verbatim>\<open>s.split()\<close> on code points, and \<^verbatim>\<open>" ".join(...)\<close>.\<close>

fun split_ws :: "nat list \<Rightarrow> nat list \<Rightarrow> nat list list" where
  "split_ws acc [] = (if acc = [] then [] else [rev acc])"
| "split_ws acc (c # cs) =
     (if py_space c then (if acc = [] then split_ws [] cs else rev acc # split_ws [] cs)
      else split_ws (c # acc) cs)"

fun join_with :: "'a list \<Rightarrow> 'a list list \<Rightarrow> 'a list" where
  "join_with sep [] = []"
| "join_with sep [x] = x"
| "join_with sep (x # y # ys) = x @ sep @ join_with sep (y # ys)"

lemma strip_cps_Nil_iff: "strip_cps cps = [] \<longleftrightarrow> list_all py_space cps"
proof -
  have "strip_cps cps = [] \<longleftrightarrow> (\<forall>c\<in>set (dropWhile py_space cps). py_space c)"
    by (simp add: strip_cps_def dropWhile_eq_Nil_conv)
  also have "\<dots> \<longleftrightarrow> dropWhile py_space cps = []"
    by (metis dropWhile_eq_Nil_conv empty_iff hd_dropWhile hd_in_set list.set(1))
  finally show ?thesis by (simp add: dropWhile_eq_Nil_conv list_all_iff)
qed

lemma blank_iff: "blank s \<longleftrightarrow> list_all py_space (utf8_decode s)"
  by (simp add: blank_def strip_cps_Nil_iff)

lemma set_strip_cps: "set (strip_cps cps) \<subseteq> set cps"
  by (auto simp: strip_cps_def dest!: set_dropWhileD)

lemma utf8_decode_strip: "utf8_decode (py_strip s) = strip_cps (utf8_decode s)"
  unfolding py_strip_def by (rule utf8_recode) (rule set_strip_cps)

lemma utf8_decode_prefix: "utf8_decode (py_prefix n s) = take n (utf8_decode s)"
  unfolding py_prefix_def by (rule utf8_recode) (rule set_take_subset)

lemma py_len_prefix: "py_len (py_prefix n s) = min n (py_len s)"
  by (simp add: py_len_def utf8_decode_prefix)

lemma py_len_eq_0_iff [simp]: "py_len s = 0 \<longleftrightarrow> s = []"
  using utf8_decode_nonempty by (auto simp: py_len_def)

section \<open>Patterns\<close>

definition lower_digit :: "char \<Rightarrow> bool" where
  "lower_digit c = ((CHR ''a'' \<le> c \<and> c \<le> CHR ''z'') \<or> (CHR ''0'' \<le> c \<and> c \<le> CHR ''9''))"

definition slug_char :: "char \<Rightarrow> bool" where
  "slug_char c = (lower_digit c \<or> c = CHR ''_'' \<or> c = CHR ''-'')"

definition hex_char :: "char \<Rightarrow> bool" where
  "hex_char c = ((CHR ''0'' \<le> c \<and> c \<le> CHR ''9'') \<or> (CHR ''a'' \<le> c \<and> c \<le> CHR ''f''))"

text \<open>\<^verbatim>\<open>[class]{lo,hi}\<close> with \<^verbatim>\<open>re.fullmatch\<close>; the classes are ASCII, so bytes are characters.\<close>

definition class_run :: "(char \<Rightarrow> bool) \<Rightarrow> nat \<Rightarrow> nat \<Rightarrow> string \<Rightarrow> bool" where
  "class_run p lo hi s = (list_all p s \<and> lo \<le> length s \<and> length s \<le> hi)"

text \<open>\<^verbatim>\<open>[a-z][a-z0-9_-]{2,63}\<close>.\<close>

definition identifier_pattern :: "string \<Rightarrow> bool" where
  "identifier_pattern s = (case s of [] \<Rightarrow> False
     | c # cs \<Rightarrow> CHR ''a'' \<le> c \<and> c \<le> CHR ''z'' \<and> class_run slug_char 2 63 cs)"

text \<open>\<^verbatim>\<open>prefix + "[...]{lo,hi}"\<close>: the rest after a literal prefix.\<close>

definition after_prefix :: "string \<Rightarrow> string \<Rightarrow> string option" where
  "after_prefix p s = (if take (length p) s = p then Some (drop (length p) s) else None)"

lemma after_prefix_append [simp]: "after_prefix p (p @ s) = Some s"
  by (simp add: after_prefix_def)

lemma after_prefix_Some: "after_prefix p s = Some r \<Longrightarrow> s = p @ r"
  by (auto simp: after_prefix_def split: if_splits) (metis append_take_drop_id)

definition starts_with :: "string \<Rightarrow> string \<Rightarrow> bool" where
  "starts_with p s = (after_prefix p s \<noteq> None)"

definition ends_with :: "string \<Rightarrow> string \<Rightarrow> bool" where
  "ends_with q s = (length q \<le> length s \<and> drop (length s - length q) s = q)"

lemma ends_with_append [simp]: "ends_with q (s @ q)"
  by (simp add: ends_with_def)

text \<open>\<^verbatim>\<open>s.replace(old, new)\<close> for a nonempty \<^verbatim>\<open>old\<close>, left to right without overlaps.\<close>

function py_replace :: "string \<Rightarrow> string \<Rightarrow> string \<Rightarrow> string" where
  "py_replace old new [] = []"
| "py_replace old new (c # cs) =
     (if old \<noteq> [] \<and> take (length old) (c # cs) = old
      then new @ py_replace old new (drop (length old) (c # cs))
      else c # py_replace old new cs)"
  by pat_completeness auto
termination
  by (relation "measure (\<lambda>(_, _, s). length s)") auto

section \<open>Decimal numbers\<close>

definition digit_char :: "nat \<Rightarrow> char" where
  "digit_char d = char_of (48 + d)"

definition digit_value :: "char \<Rightarrow> nat" where
  "digit_value c = of_char c - 48"

definition ascii_digit :: "char \<Rightarrow> bool" where
  "ascii_digit c = (CHR ''0'' \<le> c \<and> c \<le> CHR ''9'')"

lemma digit_value_digit_char [simp]: "d < 10 \<Longrightarrow> digit_value (digit_char d) = d"
  by (simp add: digit_value_def digit_char_def)

lemma ascii_digit_digit_char [simp]: "d < 10 \<Longrightarrow> ascii_digit (digit_char d)"
  by (simp add: ascii_digit_def digit_char_def less_eq_char_def)

lemma of_char_digit_char: "d < 10 \<Longrightarrow> of_char (digit_char d) = 48 + d"
  by (simp add: digit_char_def)

text \<open>\<^verbatim>\<open>str(n)\<close>.\<close>

fun nat_str :: "nat \<Rightarrow> string" where
  "nat_str n = (if n < 10 then [digit_char n] else nat_str (n div 10) @ [digit_char (n mod 10)])"

declare nat_str.simps [simp del]

definition int_str :: "int \<Rightarrow> string" where
  "int_str i = (if i < 0 then ''-'' @ nat_str (nat (- i)) else nat_str (nat i))"

text \<open>
  The decimal digits of \<^verbatim>\<open>\d\<close> and \<^verbatim>\<open>int()\<close>: every Unicode character of category Nd
  (Unicode 15.0), given by the zeros of its runs of ten.
\<close>

definition unicode_zeros :: "nat list" where
  "unicode_zeros = [48, 1632, 1776, 1984, 2406, 2534, 2662, 2790, 2918, 3046, 3174, 3302, 3430,
     3558, 3664, 3792, 3872, 4160, 4240, 6112, 6160, 6470, 6608, 6784, 6800, 6992, 7088, 7232, 7248,
     42528, 43216, 43264, 43472, 43504, 43600, 44016, 65296, 66720, 68912, 69734, 69872, 69942,
     70096, 70384, 70736, 70864, 71248, 71360, 71472, 71904, 72016, 72784, 73040, 73120, 73552,
     92768, 92864, 93008, 120782, 120792, 120802, 120812, 120822, 123200, 123632, 124144, 125264,
     130032]"

definition decimal :: "nat \<Rightarrow> nat option" where
  "decimal c = map_option (\<lambda>z. c - z) (find (\<lambda>z. z \<le> c \<and> c < z + 10) unicode_zeros)"

text \<open>The value of one or more digits, \<^verbatim>\<open>None\<close> when a character is not a digit.\<close>

fun decimal_value :: "nat \<Rightarrow> nat list \<Rightarrow> nat option" where
  "decimal_value acc [] = Some acc"
| "decimal_value acc (c # cs) =
     (case decimal c of None \<Rightarrow> None | Some d \<Rightarrow> decimal_value (acc * 10 + d) cs)"

lemma decimal_digit: "d < 10 \<Longrightarrow> decimal (48 + d) = Some d"
  by (simp add: decimal_def unicode_zeros_def)

lemma decimal_value_append:
  "decimal_value acc (xs @ ys) =
     (case decimal_value acc xs of None \<Rightarrow> None | Some v \<Rightarrow> decimal_value v ys)"
  by (induction xs arbitrary: acc) (auto split: option.splits)

lemma ascii_nat_str: "ascii (nat_str n)"
proof (induction n rule: nat_str.induct)
  case (1 n)
  then show ?case
    by (subst nat_str.simps) (auto simp: ascii_def of_char_digit_char)
qed

lemma nat_str_nonempty [simp]: "nat_str n \<noteq> []"
  by (subst nat_str.simps) simp

lemma hd_nat_str: "ascii_digit (hd (nat_str n))"
proof (induction n rule: nat_str.induct)
  case (1 n)
  then show ?case by (subst nat_str.simps) (auto simp: hd_append)
qed

lemma decimal_value_nat_str: "decimal_value 0 (map of_char (nat_str n)) = Some n"
proof (induction n rule: nat_str.induct)
  case (1 n)
  show ?case
  proof (cases "n < 10")
    case True
    then show ?thesis by (subst nat_str.simps) (simp add: of_char_digit_char decimal_digit)
  next
    case False
    with 1 have "decimal_value 0 (map of_char (nat_str (n div 10))) = Some (n div 10)" by simp
    with False show ?thesis
      by (subst nat_str.simps)
         (simp add: decimal_value_append of_char_digit_char decimal_digit)
  qed
qed

section \<open>Timestamps\<close>

datatype datetime =
  Datetime (dt_year: nat) (dt_month: nat) (dt_day: nat)
    (dt_hour: nat) (dt_minute: nat) (dt_second: nat) (dt_micro: nat)

definition dt_key :: "datetime \<Rightarrow> nat \<times> nat \<times> nat \<times> nat \<times> nat \<times> nat \<times> nat" where
  "dt_key t = (dt_year t, dt_month t, dt_day t, dt_hour t, dt_minute t, dt_second t, dt_micro t)"

lemma dt_key_inject: "dt_key a = dt_key b \<longleftrightarrow> a = b"
  by (cases a; cases b) (simp add: dt_key_def)

text \<open>Timestamps in one zone compare field by field.\<close>

instantiation datetime :: linorder
begin

definition less_eq_datetime :: "datetime \<Rightarrow> datetime \<Rightarrow> bool" where
  "less_eq_datetime a b = (dt_key a \<le> dt_key b)"

definition less_datetime :: "datetime \<Rightarrow> datetime \<Rightarrow> bool" where
  "less_datetime a b = (dt_key a < dt_key b)"

instance
  by standard
    (auto simp: less_eq_datetime_def less_datetime_def dt_key_inject less_le_not_le
      intro: order_trans)

end

definition valid_datetime :: "datetime \<Rightarrow> bool" where
  "valid_datetime t = (1 \<le> dt_year t \<and> dt_year t \<le> 9999 \<and> 1 \<le> dt_month t \<and> dt_month t \<le> 12 \<and>
     1 \<le> dt_day t \<and> dt_day t \<le> 31 \<and> dt_hour t < 24 \<and> dt_minute t < 60 \<and> dt_second t < 60 \<and>
     dt_micro t < 1000000)"

primrec pad :: "nat \<Rightarrow> nat \<Rightarrow> string" where
  "pad 0 k = []"
| "pad (Suc n) k = pad n (k div 10) @ [digit_char (k mod 10)]"

text \<open>\<^verbatim>\<open>datetime.isoformat\<close> of an aware UTC value: microseconds only when there are any.\<close>

definition isoformat :: "datetime \<Rightarrow> string" where
  "isoformat t =
     pad 4 (dt_year t) @ ''-'' @ pad 2 (dt_month t) @ ''-'' @ pad 2 (dt_day t) @ ''T'' @
     pad 2 (dt_hour t) @ '':'' @ pad 2 (dt_minute t) @ '':'' @ pad 2 (dt_second t) @
     (if dt_micro t = 0 then [] else ''.'' @ pad 6 (dt_micro t)) @ ''+00:00''"

definition digits_value :: "string \<Rightarrow> nat" where
  "digits_value s = foldl (\<lambda>a c. a * 10 + digit_value c) 0 s"

text \<open>
  \<^verbatim>\<open>datetime.fromisoformat\<close> on the texts \<^const>\<open>isoformat\<close> writes, the only ones the code hands
  it here; every other text is refused.
\<close>

definition fromisoformat :: "string \<Rightarrow> datetime outcome" where
  "fromisoformat s =
     (let field = (\<lambda>i n. digits_value (take n (drop i s)));
          t = Datetime (field 0 4) (field 5 2) (field 8 2) (field 11 2) (field 14 2) (field 17 2)
                (if length s = 32 then field 20 6 else 0)
      in if valid_datetime t \<and> isoformat t = s then Inr t
         else Inl (ValueError ''Invalid isoformat string''))"

lemma length_pad [simp]: "length (pad n k) = n"
  by (induction n arbitrary: k) simp_all

lemma digits_value_pad: "digits_value (pad n k) = k mod 10 ^ n"
proof (induction n arbitrary: k)
  case 0
  then show ?case by (simp add: digits_value_def)
next
  case (Suc n)
  have "digits_value (pad (Suc n) k) = digits_value (pad n (k div 10)) * 10 + k mod 10"
    by (simp add: digits_value_def)
  also have "\<dots> = k mod 10 ^ Suc n"
    using Suc by (simp add: mod_mult2_eq)
  finally show ?case .
qed

lemma length_isoformat: "length (isoformat t) = (if dt_micro t = 0 then 25 else 32)"
  by (simp add: isoformat_def)

lemma fromisoformat_isoformat:
  assumes "valid_datetime t"
  shows "fromisoformat (isoformat t) = Inr t"
proof -
  let ?s = "isoformat t"
  have year: "take 4 (drop 0 ?s) = pad 4 (dt_year t)"
    and month: "take 2 (drop 5 ?s) = pad 2 (dt_month t)"
    and day: "take 2 (drop 8 ?s) = pad 2 (dt_day t)"
    and hour: "take 2 (drop 11 ?s) = pad 2 (dt_hour t)"
    and minute: "take 2 (drop 14 ?s) = pad 2 (dt_minute t)"
    and second: "take 2 (drop 17 ?s) = pad 2 (dt_second t)"
    by (simp_all add: isoformat_def)
  have micro: "dt_micro t \<noteq> 0 \<Longrightarrow> take 6 (drop 20 ?s) = pad 6 (dt_micro t)"
    by (simp add: isoformat_def)
  have "(if length ?s = 32 then digits_value (take 6 (drop 20 ?s)) else 0) = dt_micro t"
    using assms micro by (simp add: length_isoformat digits_value_pad valid_datetime_def)
  with assms have "Datetime (digits_value (take 4 (drop 0 ?s))) (digits_value (take 2 (drop 5 ?s)))
      (digits_value (take 2 (drop 8 ?s))) (digits_value (take 2 (drop 11 ?s)))
      (digits_value (take 2 (drop 14 ?s))) (digits_value (take 2 (drop 17 ?s)))
      (if length ?s = 32 then digits_value (take 6 (drop 20 ?s)) else 0) = t"
    unfolding year month day hour minute second
    by (cases t) (simp add: digits_value_pad valid_datetime_def)
  with assms show ?thesis unfolding fromisoformat_def Let_def by simp
qed

text \<open>\<^verbatim>\<open>utc_iso\<close> of \<^verbatim>\<open>incident/projections.py\<close>: the zone is written \<^verbatim>\<open>Z\<close>.\<close>

definition utc_iso :: "datetime \<Rightarrow> string" where
  "utc_iso t = py_replace ''+00:00'' ''Z'' (isoformat t)"

text \<open>The timestamp the concrete examples use.\<close>

definition sample_time :: datetime where
  "sample_time = Datetime 2026 11 3 9 30 0 0"

lemma valid_sample_time [simp]: "valid_datetime sample_time"
  by (simp add: valid_datetime_def sample_time_def)

end
