(* ===== verification/Workflow.thy ===== *)
theory Workflow
  imports Pytext
begin

text \<open>
  The workflow contract (\<^verbatim>\<open>incident/workflow.py\<close>) and the pinned artifact it loads
  (\<^verbatim>\<open>agent/workflows/incident-response.yaml\<close>). \<open>from_document\<close> is the loader with every
  check and exception; \<open>incident_response\<close> is what it returns for the pinned document. The
  lemmas say what the loader guarantees for any document, and which edges the pinned graph has.
\<close>

section \<open>Reading a document\<close>

text \<open>
  \<^verbatim>\<open>str(x)\<close>: the text Python prints for floats and containers is the argument
  \<open>render\<close>; nothing proved depends on it.
\<close>

fun py_str :: "(json \<Rightarrow> string) \<Rightarrow> json \<Rightarrow> string" where
  "py_str render (JStr s) = s"
| "py_str render (JInt i) = int_str i"
| "py_str render (JBool b) = (if b then ''True'' else ''False'')"
| "py_str render JNull = ''None''"
| "py_str render j = render j"

text \<open>\<^verbatim>\<open>for x in j\<close>: a list gives its items, a mapping its keys, a string its characters.\<close>

fun py_iter :: "json \<Rightarrow> json list outcome" where
  "py_iter (JList xs) = Inr xs"
| "py_iter (JObj m) = Inr (map JStr (sorted_list_of_fset (fmdom m)))"
| "py_iter (JStr s) = Inr (map (\<lambda>c. JStr (utf8_char c)) (utf8_decode s))"
| "py_iter _ = Inl (TypeError ''object is not iterable'')"

record transition =
  t_id :: string
  t_source :: string
  t_target :: string
  t_actors :: "string set"
  t_requires_approval :: bool
  t_decision_point :: "string option"
  t_outcomes :: "string list"
  t_records_decision :: bool
  t_records_approval :: bool

record workflow =
  w_id :: string
  w_version :: string
  w_initial_state :: string
  w_terminal_states :: "string set"
  w_states :: "string set"
  w_transitions :: "(string, transition) fmap"

definition supported_workflows :: "(string \<times> string) list" where
  "supported_workflows = [(''incident-response'', ''1.0.0'')]"

text \<open>\<^verbatim>\<open>x in workflow.states\<close>, a frozenset.\<close>

fun in_states :: "json \<Rightarrow> workflow \<Rightarrow> bool outcome" where
  "in_states (JStr s) w = Inr (s \<in> w_states w)"
| "in_states (JList xs) w = Inl (TypeError ''unhashable type: list'')"
| "in_states (JObj m) w = Inl (TypeError ''unhashable type: dict'')"
| "in_states _ w = Inr False"

lemma in_states_True: "in_states j w = Inr True \<longleftrightarrow> (\<exists>s. j = JStr s \<and> s \<in> w_states w)"
  by (cases j) simp_all

text \<open>\<^verbatim>\<open>IncidentWorkflow.transition\<close>.\<close>

definition workflow_transition :: "workflow \<Rightarrow> string \<Rightarrow> transition outcome" where
  "workflow_transition w tid =
     (case fmlookup (w_transitions w) tid of
        None \<Rightarrow> Inl (InvalidWorkflowError (''unknown transition '' @ tid))
      | Some t \<Rightarrow> Inr t)"

text \<open>The outcomes of one transition: a list, a single value, or none.\<close>

definition raw_outcomes :: "(json \<Rightarrow> string) \<Rightarrow> dict \<Rightarrow> string list" where
  "raw_outcomes render raw =
     (let o' = getd raw ''on_outcome'' (JList [])
      in if is_list o' then map (py_str render) (elems o')
         else if truthy o' then [py_str render o'] else [])"

text \<open>The \<^verbatim>\<open>Transition\<close> built from one raw entry, its actors already iterated.\<close>

definition read_transition :: "(json \<Rightarrow> string) \<Rightarrow> dict \<Rightarrow> json list \<Rightarrow> transition" where
  "read_transition render r actor =
     \<lparr>t_id = py_str render (getd r ''id'' (JStr [])),
      t_source = py_str render (getd r ''from'' (JStr [])),
      t_target = py_str render (getd r ''to'' (JStr [])),
      t_actors = set (map (py_str render) actor),
      t_requires_approval = truthy (getd r ''requires_approval'' (JBool False)),
      t_decision_point =
        (if truthy (get r ''decision_point'') then Some (py_str render (get r ''decision_point''))
         else None),
      t_outcomes = raw_outcomes render r,
      t_records_decision = truthy (getd r ''records_decision'' (JBool False)),
      t_records_approval = truthy (getd r ''records_approval'' (JBool False))\<rparr>"

text \<open>One turn of the loader's loop: the transition is checked and added to those read so far.\<close>

definition add_transition ::
  "(json \<Rightarrow> string) \<Rightarrow> string set \<Rightarrow> json \<Rightarrow> (string, transition) fmap
     \<Rightarrow> (string, transition) fmap outcome" where
  "add_transition render states raw seen =
     and_then (raise_if (\<not> is_obj raw)
       (InvalidWorkflowError ''workflow transition must be an object'')) (\<lambda>_.
     and_then (py_iter (getd (obj raw) ''actor'' (JList []))) (\<lambda>actor.
     let t = read_transition render (obj raw) actor
     in and_then (raise_if (t_id t = [] \<or> t_id t \<in> fmdom' seen)
          (InvalidWorkflowError (''duplicate or empty transition '' @ t_id t))) (\<lambda>_.
        and_then (raise_if (t_source t \<notin> states \<or> t_target t \<notin> states \<or> t_actors t = {})
          (InvalidWorkflowError (''transition '' @ t_id t @ '' is incomplete''))) (\<lambda>_.
        Inr (fmupd (t_id t) t seen)))))"

definition from_document ::
  "(json \<Rightarrow> string) \<Rightarrow> (string \<times> string) list \<Rightarrow> dict \<Rightarrow> workflow outcome" where
  "from_document render supported document =
     (let wid = py_str render (getd document ''workflow_id'' (JStr []));
          version = py_str render (getd document ''workflow_version'' (JStr []));
          raw_states = get document ''states'';
          raw_transitions = get document ''transitions'';
          states = set (map (py_str render) (map JStr (sorted_list_of_fset (fmdom (obj raw_states)))));
          initial = py_str render (getd document ''initial_state'' (JStr []))
      in and_then (raise_if (map_of supported wid \<noteq> Some version)
           (UnsupportedWorkflowError (''unsupported workflow '' @ wid @ '' version '' @ version))) (\<lambda>_.
         and_then (raise_if (\<not> is_obj raw_states \<or> \<not> is_list raw_transitions)
           (InvalidWorkflowError ''workflow must declare states and transitions'')) (\<lambda>_.
         and_then (py_iter (getd document ''terminal_states'' (JList []))) (\<lambda>terminal_names.
         let terminal = set (map (py_str render) terminal_names)
         in and_then (raise_if (initial \<notin> states \<or> \<not> terminal \<subseteq> states)
              (InvalidWorkflowError ''workflow initial or terminal state is undeclared'')) (\<lambda>_.
            and_then (fold_raise (add_transition render states) (elems raw_transitions) fmempty)
              (\<lambda>transitions.
            Inr \<lparr>w_id = wid, w_version = version, w_initial_state = initial,
                 w_terminal_states = terminal, w_states = states,
                 w_transitions = transitions\<rparr>))))))"

text \<open>\<^verbatim>\<open>load_incident_workflow\<close>, after YAML has been read into a value.\<close>

definition load_incident_workflow :: "(json \<Rightarrow> string) \<Rightarrow> json \<Rightarrow> workflow outcome" where
  "load_incident_workflow render document =
     (if \<not> is_obj document then Inl (InvalidWorkflowError ''workflow document must be an object'')
      else from_document render supported_workflows (obj document))"

section \<open>The pinned document\<close>

text \<open>
  The fields of the YAML artifact the loader reads; titles, descriptions and the process-stage
  metadata have no field in \<^typ>\<open>workflow\<close>.
\<close>

definition raw_transition :: "string \<Rightarrow> string \<Rightarrow> string \<Rightarrow> string list \<Rightarrow> (string \<times> json) list \<Rightarrow> json" where
  "raw_transition tid source target actors rest =
     JObj (dict ([(''id'', JStr tid), (''from'', JStr source), (''to'', JStr target),
       (''actor'', JList (map JStr actors))] @ rest))"

definition incident_response_transitions :: "json list" where
  "incident_response_transitions =
    [raw_transition ''open_triage'' ''detected'' ''triage'' [''human'', ''system'']
       [(''requires_approval'', JBool False)],
     raw_transition ''triage_dismiss'' ''triage'' ''dismissed'' [''human'']
       [(''decision_point'', JStr ''triage_outcome''), (''on_outcome'', JStr ''dismiss''),
        (''requires_approval'', JBool False), (''records_decision'', JBool True)],
     raw_transition ''triage_link'' ''triage'' ''linked'' [''human'']
       [(''decision_point'', JStr ''triage_outcome''), (''on_outcome'', JStr ''link''),
        (''requires_approval'', JBool False), (''records_decision'', JBool True)],
     raw_transition ''triage_declare'' ''triage'' ''active'' [''human'', ''system'']
       [(''decision_point'', JStr ''triage_outcome''), (''on_outcome'', JStr ''declare''),
        (''requires_approval'', JBool False), (''records_decision'', JBool True)],
     raw_transition ''start_investigation'' ''active'' ''investigating'' [''human'', ''agent'', ''system'']
       [(''requires_approval'', JBool False)],
     raw_transition ''continue_investigation'' ''investigating'' ''investigating''
       [''agent'', ''human'', ''system'']
       [(''decision_point'', JStr ''evidence_sufficiency''),
        (''on_outcome'', JStr ''continue_investigation''),
        (''requires_approval'', JBool False), (''records_decision'', JBool True)],
     raw_transition ''propose_mitigation'' ''investigating'' ''mitigating'' [''agent'', ''human'']
       [(''decision_point'', JStr ''evidence_sufficiency''), (''on_outcome'', JStr ''propose_mitigation''),
        (''requires_approval'', JBool False), (''records_decision'', JBool True)],
     raw_transition ''apply_mitigation'' ''mitigating'' ''verifying'' [''human'']
       [(''decision_point'', JStr ''mitigation_approval''), (''on_outcome'', JStr ''approve''),
        (''requires_approval'', JBool True), (''records_decision'', JBool True),
        (''records_approval'', JBool True)],
     raw_transition ''reject_mitigation'' ''mitigating'' ''investigating'' [''human'']
       [(''decision_point'', JStr ''mitigation_approval''),
        (''on_outcome'', JList [JStr ''reject'', JStr ''request_changes'']),
        (''requires_approval'', JBool False), (''records_decision'', JBool True)],
     raw_transition ''verification_failed'' ''verifying'' ''investigating'' [''human'', ''agent'']
       [(''decision_point'', JStr ''stability_check''), (''on_outcome'', JStr ''not_stable''),
        (''requires_approval'', JBool False), (''records_decision'', JBool True)],
     raw_transition ''verification_passed'' ''verifying'' ''resolved'' [''human'', ''agent'']
       [(''decision_point'', JStr ''stability_check''), (''on_outcome'', JStr ''stable''),
        (''requires_approval'', JBool False), (''records_decision'', JBool True)],
     raw_transition ''start_postmortem'' ''resolved'' ''postmortem'' [''human'', ''agent'', ''system'']
       [(''requires_approval'', JBool False)],
     raw_transition ''close_incident'' ''postmortem'' ''closed'' [''human'']
       [(''requires_approval'', JBool True), (''records_approval'', JBool True)]]"

definition incident_response_states :: "string list" where
  "incident_response_states =
     [''detected'', ''triage'', ''dismissed'', ''linked'', ''active'', ''investigating'',
      ''mitigating'', ''verifying'', ''resolved'', ''postmortem'', ''closed'']"

definition incident_response_document :: dict where
  "incident_response_document = dict
    [(''workflow_id'', JStr ''incident-response''),
     (''workflow_version'', JStr ''1.0.0''),
     (''initial_state'', JStr ''detected''),
     (''terminal_states'', JList [JStr ''dismissed'', JStr ''linked'', JStr ''closed'']),
     (''states'', JObj (dict (map (\<lambda>s. (s, JObj fmempty)) incident_response_states))),
     (''transitions'', JList incident_response_transitions)]"

text \<open>What the loader makes of it (\<open>pinned_loads\<close> below).\<close>

definition mk_transition ::
  "string \<Rightarrow> string \<Rightarrow> string \<Rightarrow> string list \<Rightarrow> bool \<Rightarrow> string option \<Rightarrow> string list \<Rightarrow> bool \<Rightarrow> bool
     \<Rightarrow> string \<times> transition" where
  "mk_transition tid source target actors approval point outs rd ra =
     (tid, \<lparr>t_id = tid, t_source = source, t_target = target, t_actors = set actors,
            t_requires_approval = approval, t_decision_point = point, t_outcomes = outs,
            t_records_decision = rd, t_records_approval = ra\<rparr>)"

definition pinned_transitions :: "(string \<times> transition) list" where
  "pinned_transitions =
    [mk_transition ''open_triage'' ''detected'' ''triage'' [''human'', ''system'']
       False None [] False False,
     mk_transition ''triage_dismiss'' ''triage'' ''dismissed'' [''human'']
       False (Some ''triage_outcome'') [''dismiss''] True False,
     mk_transition ''triage_link'' ''triage'' ''linked'' [''human'']
       False (Some ''triage_outcome'') [''link''] True False,
     mk_transition ''triage_declare'' ''triage'' ''active'' [''human'', ''system'']
       False (Some ''triage_outcome'') [''declare''] True False,
     mk_transition ''start_investigation'' ''active'' ''investigating'' [''human'', ''agent'', ''system'']
       False None [] False False,
     mk_transition ''continue_investigation'' ''investigating'' ''investigating''
       [''agent'', ''human'', ''system'']
       False (Some ''evidence_sufficiency'') [''continue_investigation''] True False,
     mk_transition ''propose_mitigation'' ''investigating'' ''mitigating'' [''agent'', ''human'']
       False (Some ''evidence_sufficiency'') [''propose_mitigation''] True False,
     mk_transition ''apply_mitigation'' ''mitigating'' ''verifying'' [''human'']
       True (Some ''mitigation_approval'') [''approve''] True True,
     mk_transition ''reject_mitigation'' ''mitigating'' ''investigating'' [''human'']
       False (Some ''mitigation_approval'') [''reject'', ''request_changes''] True False,
     mk_transition ''verification_failed'' ''verifying'' ''investigating'' [''human'', ''agent'']
       False (Some ''stability_check'') [''not_stable''] True False,
     mk_transition ''verification_passed'' ''verifying'' ''resolved'' [''human'', ''agent'']
       False (Some ''stability_check'') [''stable''] True False,
     mk_transition ''start_postmortem'' ''resolved'' ''postmortem'' [''human'', ''agent'', ''system'']
       False None [] False False,
     mk_transition ''close_incident'' ''postmortem'' ''closed'' [''human'']
       True None [] False True]"

definition incident_response :: workflow where
  "incident_response =
     \<lparr>w_id = ''incident-response'', w_version = ''1.0.0'', w_initial_state = ''detected'',
      w_terminal_states = {''dismissed'', ''linked'', ''closed''},
      w_states = set incident_response_states,
      w_transitions = fmap_of_list pinned_transitions\<rparr>"

section \<open>What every loaded workflow satisfies\<close>

definition wf_transitions :: "string set \<Rightarrow> (string, transition) fmap \<Rightarrow> bool" where
  "wf_transitions states ts = fmpred (\<lambda>tid t. tid = t_id t \<and> tid \<noteq> [] \<and> t_source t \<in> states \<and>
     t_target t \<in> states \<and> t_actors t \<noteq> {}) ts"

definition wf_workflow :: "workflow \<Rightarrow> bool" where
  "wf_workflow w = (w_initial_state w \<in> w_states w \<and> w_terminal_states w \<subseteq> w_states w \<and>
     wf_transitions (w_states w) (w_transitions w))"

lemma wf_transitions_empty [simp]: "wf_transitions states fmempty"
  by (simp add: wf_transitions_def)

lemma wf_transitions_upd:
  "wf_transitions states ts \<Longrightarrow> t_id t \<noteq> [] \<Longrightarrow> t_source t \<in> states \<Longrightarrow> t_target t \<in> states \<Longrightarrow>
     t_actors t \<noteq> {} \<Longrightarrow> wf_transitions states (fmupd (t_id t) t ts)"
  by (simp add: wf_transitions_def fmpred_upd)

lemma add_transition_wf:
  "add_transition render states raw seen = Inr seen' \<Longrightarrow> wf_transitions states seen \<Longrightarrow>
     wf_transitions states seen'"
  unfolding add_transition_def Let_def outcome_simps by (auto intro: wf_transitions_upd)

lemma add_transition_fresh:
  "add_transition render states raw seen = Inr seen' \<Longrightarrow>
     \<exists>t. t_id t \<notin> fmdom' seen \<and> seen' = fmupd (t_id t) t seen"
  by (auto simp: add_transition_def Let_def outcome_simps)

lemma from_document_fields:
  assumes "from_document render supported document = Inr w"
  shows "map_of supported (w_id w) = Some (w_version w)" and "wf_workflow w"
proof -
  obtain ts where w: "w_transitions w = ts"
    and fold: "fold_raise (add_transition render (w_states w))
       (elems (get document ''transitions'')) fmempty = Inr ts"
    and rest: "map_of supported (w_id w) = Some (w_version w)" "w_initial_state w \<in> w_states w"
       "w_terminal_states w \<subseteq> w_states w"
    using assms by (auto simp: from_document_def Let_def outcome_simps)
  from fold have "wf_transitions (w_states w) ts"
    by (rule fold_raise_invariant) (auto intro: add_transition_wf)
  with rest w show "map_of supported (w_id w) = Some (w_version w)" "wf_workflow w"
    by (simp_all add: wf_workflow_def)
qed

section \<open>Loading the pinned document\<close>

lemmas pinned_simps = pinned_transitions_def mk_transition_def

lemma fmap_of_list_rev:
  "distinct (map fst kvs) \<Longrightarrow> fmap_of_list (rev kvs) = fmap_of_list kvs"
proof (rule fmap_ext)
  fix k
  assume d: "distinct (map fst kvs)"
  then have "map_of (rev kvs) k = Some v \<longleftrightarrow> map_of kvs k = Some v" for v
    by (simp add: map_of_eq_Some_iff rev_map [symmetric])
  then have "map_of (rev kvs) k = map_of kvs k" by (metis not_Some_eq)
  then show "fmlookup (fmap_of_list (rev kvs)) k = fmlookup (fmap_of_list kvs) k"
    by (simp add: fmlookup_of_list)
qed

lemma fold_add_transitions:
  assumes "list_all2 (\<lambda>raw (tid, t). \<exists>actor. py_iter (getd (obj raw) ''actor'' (JList [])) = Inr actor \<and>
      is_obj raw \<and> read_transition render (obj raw) actor = t \<and> t_id t = tid \<and> tid \<noteq> [] \<and>
      t_source t \<in> states \<and> t_target t \<in> states \<and> t_actors t \<noteq> {}) raws kvs"
    and "distinct (map fst kvs)" and "\<forall>k\<in>fst ` set kvs. k \<notin> fmdom' seen"
  shows "fold_raise (add_transition render states) raws seen = Inr (fold (\<lambda>(k, v). fmupd k v) kvs seen)"
  using assms
proof (induction arbitrary: seen rule: list_all2_induct)
  case Nil
  then show ?case by simp
next
  case (Cons raw raws kv kvs)
  obtain tid t where kv: "kv = (tid, t)" by (cases kv)
  then have "add_transition render states raw seen = Inr (fmupd tid t seen)"
    using Cons.hyps Cons.prems by (clarsimp simp: add_transition_def Let_def)
  moreover have "fold_raise (add_transition render states) raws (fmupd tid t seen) =
      Inr (fold (\<lambda>(k, v). fmupd k v) kvs (fmupd tid t seen))"
    using Cons.prems kv by (intro Cons.IH) auto
  ultimately show ?case using kv by simp
qed

lemma fold_fmupd: "fold (\<lambda>(k, v). fmupd k v) kvs fmempty = fmap_of_list (rev kvs)"
  by (induction kvs rule: rev_induct) auto

lemma pinned_distinct: "distinct (map fst pinned_transitions)"
  by (simp add: pinned_simps)

lemma pinned_read:
  "fold_raise (add_transition render (set incident_response_states)) incident_response_transitions fmempty =
     Inr (fmap_of_list pinned_transitions)"
proof -
  have "fold_raise (add_transition render (set incident_response_states)) incident_response_transitions fmempty =
      Inr (fold (\<lambda>(k, v). fmupd k v) pinned_transitions fmempty)"
    by (rule fold_add_transitions)
       (simp_all add: pinned_distinct incident_response_transitions_def pinned_simps raw_transition_def
          read_transition_def raw_outcomes_def getd_def get_def fmlookup_of_list incident_response_states_def)
  then show ?thesis by (simp add: fold_fmupd fmap_of_list_rev pinned_distinct)
qed

lemma pinned_loads:
  "from_document render supported_workflows incident_response_document = Inr incident_response"
  using pinned_read [of render, unfolded incident_response_states_def]
  by (simp add: from_document_def Let_def incident_response_document_def supported_workflows_def
      getd_def fmlookup_of_list incident_response_def incident_response_states_def)

text \<open>
  C23. Whatever document the loader accepts, the workflow it returns is one the runtime supports
  and is closed: the initial and terminal states are declared, and every transition is filed
  under its own nonempty id, runs between declared states and names at least one actor.
\<close>

theorem from_document_wf:
  assumes "from_document render supported document = Inr w"
  shows "map_of supported (w_id w) = Some (w_version w) \<and> wf_workflow w"
  using from_document_fields [OF assms] by simp

theorem from_document_wf_witness:
  "map_of supported_workflows (w_id incident_response) = Some (w_version incident_response) \<and>
     wf_workflow incident_response"
  using from_document_wf [OF pinned_loads [of "\<lambda>_. []"]] by simp

section \<open>The pinned graph\<close>

lemma pinned_lookup: "fmlookup (w_transitions incident_response) tid = map_of pinned_transitions tid"
  by (simp add: incident_response_def fmlookup_of_list)

lemma workflow_transition_pinned_iff:
  "workflow_transition incident_response tid = Inr t \<longleftrightarrow> (tid, t) \<in> set pinned_transitions"
proof -
  have "distinct (map fst pinned_transitions)"
    by (simp add: pinned_transitions_def mk_transition_def)
  then show ?thesis
    by (auto simp: workflow_transition_def pinned_lookup map_of_eq_Some_iff split: option.splits
        dest: eq_key_imp_eq_value)
qed

lemma pinned_cases:
  assumes "workflow_transition incident_response tid = Inr t"
  shows "(tid, t) \<in> set pinned_transitions"
  using assms by (simp add: workflow_transition_pinned_iff)

lemma pinned_id: "workflow_transition incident_response tid = Inr t \<Longrightarrow> t_id t = tid"
  by (auto dest!: pinned_cases simp: pinned_simps)

lemma pinned_identity [simp]:
  "w_id incident_response = ''incident-response''"
  "w_version incident_response = ''1.0.0''"
  "w_terminal_states incident_response = {''dismissed'', ''linked'', ''closed''}"
  "w_states incident_response = set incident_response_states"
  by (simp_all add: incident_response_def)

text \<open>Steps of the graph and the states reached from the initial one.\<close>

inductive graph_step :: "workflow \<Rightarrow> string \<Rightarrow> string \<Rightarrow> bool" for w where
  edge: "workflow_transition w tid = Inr t \<Longrightarrow> graph_step w (t_source t) (t_target t)"

inductive_simps graph_step_iff: "graph_step w a b"

lemma pinned_graph:
  "graph_step incident_response a b \<longleftrightarrow> (a, b) \<in> set
    [(''detected'', ''triage''), (''triage'', ''dismissed''), (''triage'', ''linked''),
     (''triage'', ''active''), (''active'', ''investigating''), (''investigating'', ''investigating''),
     (''investigating'', ''mitigating''), (''mitigating'', ''verifying''),
     (''mitigating'', ''investigating''), (''verifying'', ''investigating''),
     (''verifying'', ''resolved''), (''resolved'', ''postmortem''), (''postmortem'', ''closed'')]"
  (is "?l \<longleftrightarrow> _ \<in> set ?edges")
proof -
  have "graph_step incident_response a b \<longleftrightarrow>
      (a, b) \<in> (\<lambda>(_, t). (t_source t, t_target t)) ` set pinned_transitions"
    by (force simp: graph_step_iff workflow_transition_pinned_iff)
  also have "(\<lambda>(_, t). (t_source t, t_target t)) ` set pinned_transitions = set ?edges"
    by (auto simp: pinned_simps)
  finally show ?thesis .
qed

end
