(* ===== verification/Memory.thy ===== *)
theory Memory
  imports Workflow
begin

text \<open>
  What a closed incident leaves for the next investigation (\<^verbatim>\<open>persistence/memories.py\<close>): the text
  of a memory and the words a new investigation searches for. The table operations
  \<open>remember\<close> and \<open>recall\<close> are in theories UnitOfWork and Postmortem.
\<close>

definition MAX_CONTENT :: nat where "MAX_CONTENT = 6000"
definition RECALL_LIMIT :: nat where "RECALL_LIMIT = 3"

text \<open>\<^verbatim>\<open>_mapping\<close> is \<^const>\<open>obj\<close>: the value itself when it is a mapping, an empty one otherwise.\<close>

definition memory_text :: "json \<Rightarrow> string" where
  "memory_text j = (case j of JStr s \<Rightarrow> py_strip s | _ \<Rightarrow> [])"

text \<open>The steps of the approved mitigation: those that are nonblank text.\<close>

definition memory_steps :: "dict \<Rightarrow> string list outcome" where
  "memory_steps strategy =
     and_then (py_iter (py_or (get strategy ''steps'') (JList []))) (\<lambda>steps.
     Inr (filter (\<lambda>s. s \<noteq> []) (map memory_text steps)))"

definition memory_lines :: "dict \<Rightarrow> dict \<Rightarrow> string list \<Rightarrow> string list" where
  "memory_lines state postmortem steps =
     (let alert = obj (get state ''alert'');
          strategy = obj (get state ''mitigation_strategy'');
          cause = obj (get postmortem ''cause'')
      in [''Incident '' @ memory_text (get state ''incident_id'') @ '' on '' @
            memory_text (get alert ''service'') @ '', closed.'',
          ''Alert: '' @ memory_text (get alert ''summary''),
          ''Cause ('' @ memory_text (get cause ''certainty'') @ ''): '' @
            memory_text (get cause ''statement''),
          ''Mitigation approved: '' @ memory_text (get strategy ''description'') @
            (if steps = [] then [] else '' Steps: '' @ join_with ''; '' steps),
          ''Postmortem strategy: '' @ memory_text (get postmortem ''strategy''),
          ''Verification: '' @ memory_text (get postmortem ''verification''),
          ''Summary: '' @ memory_text (get postmortem ''summary'')])"

definition memory_content :: "dict \<Rightarrow> dict \<Rightarrow> string outcome" where
  "memory_content state postmortem =
     and_then (memory_steps (obj (get state ''mitigation_strategy''))) (\<lambda>steps.
     Inr (py_prefix MAX_CONTENT (join_with [CHR 0x0A]
       (filter (\<lambda>line. \<not> ends_with '': '' line) (memory_lines state postmortem steps)))))"

text \<open>
  \<^verbatim>\<open>recall_query\<close>: the words of the signal and the summary, without those of the service, joined
  by \<^verbatim>\<open>or\<close>. A word is a maximal run of at least three characters of \<^verbatim>\<open>[a-z0-9]\<close>; the text is
  first folded by \<^verbatim>\<open>str.casefold\<close>, the argument \<open>casefold\<close>.
\<close>

fun runs_of :: "(char \<Rightarrow> bool) \<Rightarrow> string \<Rightarrow> string \<Rightarrow> string list" where
  "runs_of p acc [] = (if acc = [] then [] else [rev acc])"
| "runs_of p acc (c # cs) =
     (if p c then runs_of p (c # acc) cs
      else (if acc = [] then runs_of p [] cs else rev acc # runs_of p [] cs))"

definition words_of :: "string \<Rightarrow> string list" where
  "words_of s = filter (\<lambda>w. 3 \<le> length w) (runs_of lower_digit [] s)"

text \<open>\<^verbatim>\<open>dict.fromkeys\<close>: the first occurrence of every word, in order.\<close>

fun fromkeys :: "'a list \<Rightarrow> 'a list" where
  "fromkeys [] = []"
| "fromkeys (x # xs) = x # filter (\<lambda>y. y \<noteq> x) (fromkeys xs)"

definition recall_query :: "(string \<Rightarrow> string) \<Rightarrow> string \<Rightarrow> string option \<Rightarrow> string \<Rightarrow> string" where
  "recall_query casefold service signal summary =
     (let ws = fromkeys (words_of (casefold
            ((case signal of None \<Rightarrow> [] | Some s \<Rightarrow> s) @ '' '' @ summary)));
          skip = ''or'' # words_of (casefold service)
      in join_with '' or '' (filter (\<lambda>w. w \<notin> set skip) (take 40 ws)))"

section \<open>Facts\<close>

lemma set_fromkeys [simp]: "set (fromkeys xs) = set xs"
  by (induction xs) auto

lemma distinct_fromkeys: "distinct (fromkeys xs)"
  by (induction xs) auto

lemma join_with_nonempty: "xs \<noteq> [] \<Longrightarrow> hd xs \<noteq> [] \<Longrightarrow> join_with sep xs \<noteq> []"
  by (cases "(sep, xs)" rule: join_with.cases) simp_all

end
