(* ===== verification/Store.thy ===== *)
theory Store
  imports Memory
begin

text \<open>
  The authoritative incident store: the rows of \<^verbatim>\<open>incident/persistence.py\<close>, the tables and
  constraints of the migrations, and the operations of \<^verbatim>\<open>persistence/incidents.py\<close> that read
  and write them inside one transaction. Each operation takes the store and returns an exception
  or its result with the new store; the caller rolls an exception back (\<open>transact\<close>).
  Transactions are taken one after the other, as the row locks and the advisory locks of the
  code make the writers of one run do; what a concurrent writer can do between two operations is
  another operation of this theory.
\<close>

section \<open>Records\<close>

record incident_record =
  ir_id :: string
  ir_state :: dict
  ir_version :: int
  ir_created_at :: datetime
  ir_updated_at :: datetime

record run_record =
  rr_id :: string
  rr_incident_id :: string
  rr_state :: dict
  rr_version :: int
  rr_created_at :: datetime
  rr_updated_at :: datetime

record event_draft =
  ed_id :: string
  ed_kind :: string
  ed_payload :: dict
  ed_occurred_at :: datetime
  ed_turn_id :: "string option"

record run_event =
  ev_id :: string
  ev_incident_id :: string
  ev_run_id :: string
  ev_sequence :: int
  ev_kind :: string
  ev_payload :: dict
  ev_occurred_at :: datetime
  ev_turn_id :: "string option"

record decision_draft =
  dd_id :: string
  dd_document :: dict
  dd_decided_at :: datetime
  dd_run_id :: "string option"
  dd_turn_id :: "string option"

record decision_record =
  de_id :: string
  de_incident_id :: string
  de_run_id :: "string option"
  de_turn_id :: "string option"
  de_document :: dict
  de_decided_at :: datetime

record snapshot_draft =
  sd_id :: string
  sd_incident_state :: dict
  sd_run_state :: dict
  sd_created_at :: datetime

record snapshot_record =
  sn_id :: string
  sn_incident_id :: string
  sn_run_id :: string
  sn_version :: int
  sn_event_sequence :: int
  sn_incident_state :: dict
  sn_run_state :: dict
  sn_created_at :: datetime

record context_record =
  cx_turn_id :: string
  cx_incident_id :: string
  cx_run_id :: string
  cx_sequence :: int
  cx_content :: dict
  cx_occurred_at :: datetime
  cx_task_id :: "string option"

record replay_record =
  rp_incident :: incident_record
  rp_run :: run_record
  rp_snapshot :: "snapshot_record option"
  rp_events :: "run_event list"

record transition_result =
  tr_incident :: incident_record
  tr_run :: run_record
  tr_events :: "run_event list"
  tr_snapshot :: "snapshot_record option"
  tr_replayed :: bool

text \<open>Rows of the tables that have no class of their own in the code.\<close>

record commit_row =
  co_incident_id :: string
  co_command_id :: string
  co_payload_sha256 :: string
  co_result :: dict
  co_committed_at :: datetime

record postmortem_row =
  pm_id :: string
  pm_incident_id :: string
  pm_version :: int
  pm_run_ids :: "string list"
  pm_created_at :: datetime
  pm_updated_at :: datetime

record revision_row =
  rv_postmortem_id :: string
  rv_version :: int
  rv_content :: json
  rv_edited_by :: string
  rv_edited_at :: datetime

record review_row =
  vw_postmortem_id :: string
  vw_version :: int
  vw_outcome :: string
  vw_reviewer_id :: string
  vw_comment :: "string option"
  vw_reviewed_at :: datetime

record memory_row =
  mm_id :: string
  mm_incident_id :: string
  mm_postmortem_id :: string
  mm_postmortem_version :: int
  mm_close_event_id :: string
  mm_service :: string
  mm_signal :: "string option"
  mm_content :: string
  mm_indexed_at :: datetime

record store =
  incidents :: "incident_record list"
  runs :: "run_record list"
  decisions :: "decision_record list"
  run_events :: "run_event list"
  snapshots :: "snapshot_record list"
  text_context :: "context_record list"
  transition_commits :: "commit_row list"
  postmortems :: "postmortem_row list"
  postmortem_revisions :: "revision_row list"
  postmortem_reviews :: "review_row list"
  incident_memories :: "memory_row list"
  advisory_locks :: "string list"

definition empty_store :: store where
  "empty_store = \<lparr>incidents = [], runs = [], decisions = [], run_events = [], snapshots = [],
     text_context = [], transition_commits = [], postmortems = [], postmortem_revisions = [],
     postmortem_reviews = [], incident_memories = [], advisory_locks = []\<rparr>"

definition RUN_PATCH_FIELDS :: "string list" where
  "RUN_PATCH_FIELDS = [''status'', ''pending_command'', ''terminated_reason'', ''updated_at'']"

definition RUN_PATCH_EVENTS :: "string list" where
  "RUN_PATCH_EVENTS = [''escalation'', ''run_terminated'']"

definition RECORDED_EVENTS :: "string list" where
  "RECORDED_EVENTS = [''human_command'', ''denial'']"

definition verification_dispatch :: "string \<Rightarrow> string" where
  "verification_dispatch run_id = run_id @ ''-verify''"

section \<open>Values PostgreSQL can store\<close>

text \<open>\<^verbatim>\<open>jsonb\<close> refuses U+0000 in any text; \<^verbatim>\<open>varchar(n)\<close> refuses more than n characters.\<close>

primrec jsonb_ok :: "json \<Rightarrow> bool" where
  "jsonb_ok JNull = True"
| "jsonb_ok (JBool b) = True"
| "jsonb_ok (JInt i) = True"
| "jsonb_ok (JFloat r) = True"
| "jsonb_ok (JStr s) = (CHR 0x00 \<notin> set s)"
| "jsonb_ok (JList xs) = list_all id (map jsonb_ok xs)"
| "jsonb_ok (JObj m) = (fBall (fmdom m) (\<lambda>k. CHR 0x00 \<notin> set k) \<and> fmpred (\<lambda>_ b. b) (fmmap jsonb_ok m))"

declare jsonb_ok.simps(7) [simp del]

lemma jsonb_obj_iff:
  "jsonb_ok (JObj d) \<longleftrightarrow> (\<forall>k v. fmlookup d k = Some v \<longrightarrow> CHR 0x00 \<notin> set k \<and> jsonb_ok v)"
proof -
  have "(\<forall>x y. (\<exists>z. fmlookup d x = Some z \<and> jsonb_ok z = y) \<longrightarrow> y) \<longleftrightarrow> (\<forall>k v. fmlookup d k = Some v \<longrightarrow> jsonb_ok v)"
    by blast
  then show ?thesis
    by (auto simp: jsonb_ok.simps(7) fmpred_iff fmlookup_dom_iff Ball_def)
qed

lemma jsonb_add: "jsonb_ok (JObj d) \<Longrightarrow> jsonb_ok (JObj e) \<Longrightarrow> jsonb_ok (JObj (d ++\<^sub>f e))"
  by (simp add: jsonb_obj_iff)

lemma jsonb_ok_upd:
  "jsonb_ok (JObj fmempty)"
  "CHR 0x00 \<notin> set k \<Longrightarrow> jsonb_ok v \<Longrightarrow> jsonb_ok (JObj m) \<Longrightarrow> jsonb_ok (JObj (fmupd k v m))"
  by (auto simp: jsonb_ok.simps(7) fmpred_upd)

definition jsonb :: "dict \<Rightarrow> dict outcome" where
  "jsonb d = (if jsonb_ok (JObj d) then Inr d
              else Inl (DataError ''unsupported Unicode escape sequence''))"

definition fits :: "nat \<Rightarrow> string \<Rightarrow> bool" where
  "fits n s = (py_len s \<le> n)"

definition fits_opt :: "nat \<Rightarrow> string option \<Rightarrow> bool" where
  "fits_opt n s = (case s of None \<Rightarrow> True | Some x \<Rightarrow> fits n x)"

text \<open>\<^verbatim>\<open>_storable\<close>: U+0000 becomes U+FFFD everywhere, keys included.\<close>

definition storable_text :: "string \<Rightarrow> string" where
  "storable_text s = concat (map (\<lambda>c. if c = CHR 0x00 then utf8_char 65533 else [c]) s)"

definition rekey :: "(string \<Rightarrow> string) \<Rightarrow> dict \<Rightarrow> dict" where
  "rekey f m = dict (map (\<lambda>(k, v). (f k, v)) (sorted_list_of_fmap m))"

primrec storable :: "json \<Rightarrow> json" where
  "storable JNull = JNull"
| "storable (JBool b) = JBool b"
| "storable (JInt i) = JInt i"
| "storable (JFloat r) = JFloat r"
| "storable (JStr s) = JStr (storable_text s)"
| "storable (JList xs) = JList (map storable xs)"
| "storable (JObj m) = JObj (rekey storable_text (fmmap storable m))"

section \<open>Repositories\<close>

definition get_incident :: "string \<Rightarrow> store \<Rightarrow> incident_record option" where
  "get_incident iid s = select_one (\<lambda>r. ir_id r = iid) (incidents s)"

definition add_incident :: "string \<Rightarrow> dict \<Rightarrow> datetime \<Rightarrow> store \<Rightarrow> (incident_record \<times> store) outcome" where
  "add_incident iid state now s =
     and_then (jsonb state) (\<lambda>doc.
     and_then (raise_if (\<not> fits 64 iid) (DataError ''value too long'')) (\<lambda>_.
     and_then (raise_if (get_incident iid s \<noteq> None) (IntegrityError ''incidents_pkey'')) (\<lambda>_.
     let row = \<lparr>ir_id = iid, ir_state = doc, ir_version = 0, ir_created_at = now, ir_updated_at = now\<rparr>
     in Inr (row, s\<lparr>incidents := incidents s @ [row]\<rparr>))))"

definition get_run :: "string \<Rightarrow> store \<Rightarrow> run_record option" where
  "get_run rid s = select_one (\<lambda>r. rr_id r = rid) (runs s)"

definition get_for_incident :: "string \<Rightarrow> string \<Rightarrow> store \<Rightarrow> run_record option" where
  "get_for_incident rid iid s = select_one (\<lambda>r. rr_id r = rid \<and> rr_incident_id r = iid) (runs s)"

definition add_run :: "string \<Rightarrow> string \<Rightarrow> dict \<Rightarrow> datetime \<Rightarrow> store \<Rightarrow> (run_record \<times> store) outcome" where
  "add_run rid iid state now s =
     and_then (jsonb state) (\<lambda>doc.
     and_then (raise_if (\<not> fits 64 rid) (DataError ''value too long'')) (\<lambda>_.
     and_then (raise_if (get_run rid s \<noteq> None) (IntegrityError ''runs_pkey'')) (\<lambda>_.
     and_then (raise_if (get_incident iid s = None) (IntegrityError ''runs_incident_id_fkey'')) (\<lambda>_.
     let row = \<lparr>rr_id = rid, rr_incident_id = iid, rr_state = doc, rr_version = 0,
                rr_created_at = now, rr_updated_at = now\<rparr>
     in Inr (row, s\<lparr>runs := runs s @ [row]\<rparr>)))))"

text \<open>\<^verbatim>\<open>list_ids\<close>: \<^verbatim>\<open>ORDER BY created_at ASC, run_id ASC\<close>.\<close>

definition list_ids :: "string \<Rightarrow> store \<Rightarrow> string list" where
  "list_ids iid s = map rr_id (sort_key (\<lambda>r. (rr_created_at r, rr_id r))
     (filter (\<lambda>r. rr_incident_id r = iid) (runs s)))"

text \<open>\<^verbatim>\<open>list_after\<close>: the next page of a run's events.\<close>

definition events_after :: "string \<Rightarrow> int \<Rightarrow> store \<Rightarrow> run_event list" where
  "events_after rid seq s = sort_key (\<lambda>e. (ev_sequence e, ev_id e))
     (filter (\<lambda>e. ev_run_id e = rid \<and> seq < ev_sequence e) (run_events s))"

definition list_after :: "string \<Rightarrow> int \<Rightarrow> nat \<Rightarrow> store \<Rightarrow> run_event list outcome" where
  "list_after rid seq limit s =
     (if \<not> (1 \<le> limit \<and> limit \<le> 1000) then Inl (ValueError ''limit must be between 1 and 1000'')
      else Inr (take limit (events_after rid seq s)))"

text \<open>
  \<^verbatim>\<open>latest\<close>: \<^verbatim>\<open>ORDER BY event_sequence DESC, version DESC, snapshot_id DESC LIMIT 1\<close>.
\<close>

definition latest_snapshot :: "string \<Rightarrow> store \<Rightarrow> snapshot_record option" where
  "latest_snapshot rid s =
     (case rev (sort_key (\<lambda>n. (sn_event_sequence n, sn_version n, sn_id n))
        (filter (\<lambda>n. sn_run_id n = rid) (snapshots s))) of
        [] \<Rightarrow> None | n # _ \<Rightarrow> Some n)"

definition get_decision :: "string \<Rightarrow> store \<Rightarrow> decision_record option" where
  "get_decision did s = select_one (\<lambda>d. de_id d = did) (decisions s)"

definition get_context :: "string \<Rightarrow> store \<Rightarrow> context_record option" where
  "get_context tid s = select_one (\<lambda>c. cx_turn_id c = tid) (text_context s)"

definition list_contexts :: "string \<Rightarrow> store \<Rightarrow> context_record list" where
  "list_contexts rid s = sort_key (\<lambda>c. (cx_sequence c, cx_turn_id c))
     (filter (\<lambda>c. cx_run_id c = rid) (text_context s))"

text \<open>\<^verbatim>\<open>append\<close>: the primary key and the two unique constraints of \<^verbatim>\<open>text_context\<close>.\<close>

definition append_context :: "context_record \<Rightarrow> store \<Rightarrow> store outcome" where
  "append_context c s =
     and_then (jsonb (cx_content c)) (\<lambda>doc.
     and_then (raise_if (\<not> fits 64 (cx_turn_id c) \<or> \<not> fits_opt 64 (cx_task_id c))
       (DataError ''value too long'')) (\<lambda>_.
     and_then (raise_if (\<exists>x\<in>set (text_context s). cx_turn_id x = cx_turn_id c \<or>
         (cx_run_id x = cx_run_id c \<and> (cx_sequence x = cx_sequence c \<or>
            (cx_task_id c \<noteq> None \<and> cx_task_id x = cx_task_id c))))
       (IntegrityError ''text_context'')) (\<lambda>_.
     and_then (raise_if (cx_sequence c < 0 \<or> get_for_incident (cx_run_id c) (cx_incident_id c) s = None)
       (IntegrityError ''text_context'')) (\<lambda>_.
     Inr (s\<lparr>text_context := text_context s @ [c\<lparr>cx_content := doc\<rparr>]\<rparr>)))))"

section \<open>Committed results\<close>

text \<open>\<^verbatim>\<open>_encode_result\<close> and \<^verbatim>\<open>_decode_result\<close>, the stored form of a transition result.\<close>

definition encode_incident :: "incident_record \<Rightarrow> dict" where
  "encode_incident i = dict
     [(''incident_id'', JStr (ir_id i)), (''state'', JObj (ir_state i)),
      (''version'', JInt (ir_version i)), (''created_at'', JStr (isoformat (ir_created_at i))),
      (''updated_at'', JStr (isoformat (ir_updated_at i)))]"

definition encode_run :: "run_record \<Rightarrow> dict" where
  "encode_run r = dict
     [(''run_id'', JStr (rr_id r)), (''incident_id'', JStr (rr_incident_id r)),
      (''state'', JObj (rr_state r)), (''version'', JInt (rr_version r)),
      (''created_at'', JStr (isoformat (rr_created_at r))),
      (''updated_at'', JStr (isoformat (rr_updated_at r)))]"

definition encode_event :: "run_event \<Rightarrow> dict" where
  "encode_event e = dict
     [(''event_id'', JStr (ev_id e)), (''incident_id'', JStr (ev_incident_id e)),
      (''run_id'', JStr (ev_run_id e)), (''sequence'', JInt (ev_sequence e)),
      (''kind'', JStr (ev_kind e)), (''payload'', JObj (ev_payload e)),
      (''occurred_at'', JStr (isoformat (ev_occurred_at e))), (''turn_id'', jopt (ev_turn_id e))]"

definition encode_snapshot :: "snapshot_record \<Rightarrow> dict" where
  "encode_snapshot n = dict
     [(''snapshot_id'', JStr (sn_id n)), (''incident_id'', JStr (sn_incident_id n)),
      (''run_id'', JStr (sn_run_id n)), (''version'', JInt (sn_version n)),
      (''event_sequence'', JInt (sn_event_sequence n)),
      (''incident_state'', JObj (sn_incident_state n)), (''run_state'', JObj (sn_run_state n)),
      (''created_at'', JStr (isoformat (sn_created_at n)))]"

definition encode_result :: "transition_result \<Rightarrow> dict" where
  "encode_result r = dict
     [(''incident'', JObj (encode_incident (tr_incident r))),
      (''run'', JObj (encode_run (tr_run r))),
      (''events'', JList (map (\<lambda>e. JObj (encode_event e)) (tr_events r))),
      (''snapshot'', case tr_snapshot r of None \<Rightarrow> JNull | Some n \<Rightarrow> JObj (encode_snapshot n))]"

text \<open>
  Reading a field back at the type of the dataclass. The code does not check these types; it
  reads only documents \<open>encode_result\<close> wrote, where they hold.
\<close>

definition str_item :: "dict \<Rightarrow> string \<Rightarrow> string outcome" where
  "str_item d k = and_then (item d k) (\<lambda>j. case j of JStr s \<Rightarrow> Inr s | _ \<Rightarrow> Inl (TypeError k))"

definition opt_item :: "dict \<Rightarrow> string \<Rightarrow> string option outcome" where
  "opt_item d k = and_then (item d k) (\<lambda>j. case j of JNull \<Rightarrow> Inr None | JStr s \<Rightarrow> Inr (Some s)
     | _ \<Rightarrow> Inl (TypeError k))"

definition int_item :: "dict \<Rightarrow> string \<Rightarrow> int outcome" where
  "int_item d k = and_then (item d k) (\<lambda>j. case j of JInt i \<Rightarrow> Inr i | _ \<Rightarrow> Inl (TypeError k))"

definition obj_item :: "dict \<Rightarrow> string \<Rightarrow> dict outcome" where
  "obj_item d k = and_then (item d k) (\<lambda>j. case j of JObj m \<Rightarrow> Inr m | _ \<Rightarrow> Inl (TypeError k))"

definition list_item :: "dict \<Rightarrow> string \<Rightarrow> json list outcome" where
  "list_item d k = and_then (item d k) (\<lambda>j. case j of JList xs \<Rightarrow> Inr xs | _ \<Rightarrow> Inl (TypeError k))"

definition time_item :: "dict \<Rightarrow> string \<Rightarrow> datetime outcome" where
  "time_item d k = and_then (str_item d k) fromisoformat"

definition decode_incident :: "dict \<Rightarrow> incident_record outcome" where
  "decode_incident d =
     and_then (str_item d ''incident_id'') (\<lambda>iid. and_then (obj_item d ''state'') (\<lambda>state.
     and_then (int_item d ''version'') (\<lambda>version. and_then (time_item d ''created_at'') (\<lambda>created.
     and_then (time_item d ''updated_at'') (\<lambda>updated.
     Inr \<lparr>ir_id = iid, ir_state = state, ir_version = version, ir_created_at = created,
          ir_updated_at = updated\<rparr>)))))"

definition decode_run :: "dict \<Rightarrow> run_record outcome" where
  "decode_run d =
     and_then (str_item d ''run_id'') (\<lambda>rid. and_then (str_item d ''incident_id'') (\<lambda>iid.
     and_then (obj_item d ''state'') (\<lambda>state. and_then (int_item d ''version'') (\<lambda>version.
     and_then (time_item d ''created_at'') (\<lambda>created. and_then (time_item d ''updated_at'') (\<lambda>updated.
     Inr \<lparr>rr_id = rid, rr_incident_id = iid, rr_state = state, rr_version = version,
          rr_created_at = created, rr_updated_at = updated\<rparr>))))))"

definition decode_event :: "dict \<Rightarrow> run_event outcome" where
  "decode_event d =
     and_then (str_item d ''event_id'') (\<lambda>eid. and_then (str_item d ''incident_id'') (\<lambda>iid.
     and_then (str_item d ''run_id'') (\<lambda>rid. and_then (int_item d ''sequence'') (\<lambda>seq.
     and_then (str_item d ''kind'') (\<lambda>kind. and_then (obj_item d ''payload'') (\<lambda>payload.
     and_then (time_item d ''occurred_at'') (\<lambda>occurred. and_then (opt_item d ''turn_id'') (\<lambda>turn.
     Inr \<lparr>ev_id = eid, ev_incident_id = iid, ev_run_id = rid, ev_sequence = seq, ev_kind = kind,
          ev_payload = payload, ev_occurred_at = occurred, ev_turn_id = turn\<rparr>))))))))"

definition decode_snapshot :: "dict \<Rightarrow> snapshot_record outcome" where
  "decode_snapshot d =
     and_then (str_item d ''snapshot_id'') (\<lambda>sid. and_then (str_item d ''incident_id'') (\<lambda>iid.
     and_then (str_item d ''run_id'') (\<lambda>rid. and_then (int_item d ''version'') (\<lambda>version.
     and_then (int_item d ''event_sequence'') (\<lambda>seq. and_then (obj_item d ''incident_state'') (\<lambda>istate.
     and_then (obj_item d ''run_state'') (\<lambda>rstate. and_then (time_item d ''created_at'') (\<lambda>created.
     Inr \<lparr>sn_id = sid, sn_incident_id = iid, sn_run_id = rid, sn_version = version,
          sn_event_sequence = seq, sn_incident_state = istate, sn_run_state = rstate,
          sn_created_at = created\<rparr>))))))))"

definition decode_result :: "dict \<Rightarrow> bool \<Rightarrow> transition_result outcome" where
  "decode_result d replayed =
     and_then (obj_item d ''incident'') (\<lambda>incident. and_then (obj_item d ''run'') (\<lambda>run.
     and_then (item d ''snapshot'') (\<lambda>snapshot.
     and_then (decode_incident incident) (\<lambda>i. and_then (decode_run run) (\<lambda>r.
     and_then (list_item d ''events'') (\<lambda>events.
     and_then (map_raise (\<lambda>e. decode_event (obj e)) events) (\<lambda>es.
     and_then (if truthy snapshot then and_then (decode_snapshot (obj snapshot)) (\<lambda>n. Inr (Some n))
               else Inr None) (\<lambda>n.
     Inr \<lparr>tr_incident = i, tr_run = r, tr_events = es, tr_snapshot = n,
          tr_replayed = replayed\<rparr>))))))))"

definition get_transition :: "string \<Rightarrow> string \<Rightarrow> string \<Rightarrow> store \<Rightarrow> transition_result option outcome" where
  "get_transition iid cid sha s =
     (case select_one (\<lambda>c. co_incident_id c = iid \<and> co_command_id c = cid) (transition_commits s) of
        None \<Rightarrow> Inr None
      | Some row \<Rightarrow>
          if co_payload_sha256 row \<noteq> sha
          then Inl (IncidentIdempotencyConflictError
             (''command payload conflict: '' @ iid @ ''/'' @ cid))
          else and_then (decode_result (co_result row) True) (\<lambda>r. Inr (Some r)))"

end
