(* ===== verification/UnitOfWork.thy ===== *)
theory UnitOfWork
  imports Store
begin

text \<open>
  \<^verbatim>\<open>PostgresIncidentUnitOfWork\<close> (\<^verbatim>\<open>persistence/incidents.py\<close>): claiming, completing and
  releasing a run's dispatch, recording events, committing a transition, and loading a replay;
  with them the memory a close writes (\<^verbatim>\<open>persistence/memories.py\<close>).
\<close>

section \<open>Receipts of a dispatch\<close>

definition dispatch_lock_name :: "string \<Rightarrow> string \<Rightarrow> string" where
  "dispatch_lock_name iid rid = ''incident-investigation:'' @ iid @ '':'' @ rid"

text \<open>\<^verbatim>\<open>_lock_incident_run\<close>: both rows must exist; the version of the incident is read.\<close>

definition lock_incident_run :: "string \<Rightarrow> string \<Rightarrow> store \<Rightarrow> (incident_record \<times> run_record) outcome" where
  "lock_incident_run iid rid s =
     (case (get_incident iid s, get_for_incident rid iid s) of
        (Some i, Some r) \<Rightarrow> Inr (i, r)
      | _ \<Rightarrow> Inl (IncidentStaleWriteError (''missing incident run: '' @ iid @ ''/'' @ rid)))"

definition dispatch_events :: "string \<Rightarrow> store \<Rightarrow> dict list" where
  "dispatch_events rid s = map ev_payload (sort_key ev_sequence
     (filter (\<lambda>e. ev_run_id e = rid \<and> ev_kind e = ''dispatch_receipt'') (run_events s)))"

definition dispatch_receipts :: "string \<Rightarrow> store \<Rightarrow> json list" where
  "dispatch_receipts rid s = map (\<lambda>p. get p ''dispatch_receipt'') (dispatch_events rid s)"

definition receipt_is :: "string \<Rightarrow> string \<Rightarrow> string list \<Rightarrow> json \<Rightarrow> bool" where
  "receipt_is dispatch phase statuses r =
     (is_obj r \<and> get (obj r) ''dispatch_id'' = JStr dispatch \<and> get (obj r) ''phase'' = JStr phase \<and>
      str_in (get (obj r) ''status'') statuses)"

definition TERMINAL_STATUSES :: "string list" where
  "TERMINAL_STATUSES = [''success'', ''confirmed_failure'', ''unknown'']"

definition terminal_receipt :: "string \<Rightarrow> json \<Rightarrow> bool" where
  "terminal_receipt dispatch r = receipt_is dispatch ''outcome'' TERMINAL_STATUSES r"

definition pending_receipt :: "string \<Rightarrow> json \<Rightarrow> bool" where
  "pending_receipt dispatch r = receipt_is dispatch ''intent'' [''pending''] r"

section \<open>Inserting rows\<close>

text \<open>\<^verbatim>\<open>INSERT INTO incident.decisions\<close> with the constraints of its table.\<close>

definition insert_decision :: "string \<Rightarrow> string option \<Rightarrow> decision_draft \<Rightarrow> store \<Rightarrow> store outcome" where
  "insert_decision iid rid d s =
     and_then (jsonb (dd_document d)) (\<lambda>doc.
     and_then (raise_if (\<not> fits 64 (dd_id d) \<or> \<not> fits_opt 64 (dd_turn_id d))
       (DataError ''value too long'')) (\<lambda>_.
     and_then (raise_if (get_decision (dd_id d) s \<noteq> None) (IntegrityError ''decisions_pkey'')) (\<lambda>_.
     and_then (raise_if (get_incident iid s = None \<or>
         (case rid of None \<Rightarrow> False | Some r \<Rightarrow> get_for_incident r iid s = None))
       (IntegrityError ''fk_incident_decision_run'')) (\<lambda>_.
     Inr (s\<lparr>decisions := decisions s @
       [\<lparr>de_id = dd_id d, de_incident_id = iid, de_run_id = rid, de_turn_id = dd_turn_id d,
         de_document = doc, de_decided_at = dd_decided_at d\<rparr>]\<rparr>)))))"

text \<open>\<^verbatim>\<open>COALESCE(MAX(sequence), -1)\<close> over the events of a run.\<close>

definition last_sequence :: "string \<Rightarrow> store \<Rightarrow> int" where
  "last_sequence rid s =
     foldl max (-1) (map ev_sequence (filter (\<lambda>e. ev_run_id e = rid) (run_events s)))"

definition insert_event :: "string \<Rightarrow> string \<Rightarrow> int \<Rightarrow> event_draft \<Rightarrow> store \<Rightarrow> (run_event \<times> store) outcome" where
  "insert_event iid rid seq d s =
     and_then (jsonb (ed_payload d)) (\<lambda>doc.
     and_then (raise_if (\<not> fits 64 (ed_id d) \<or> \<not> fits 64 (ed_kind d) \<or> \<not> fits_opt 64 (ed_turn_id d))
       (DataError ''value too long'')) (\<lambda>_.
     and_then (raise_if (\<exists>e\<in>set (run_events s). ev_id e = ed_id d \<or>
         (ev_run_id e = rid \<and> ev_sequence e = seq))
       (IntegrityError ''run_events'')) (\<lambda>_.
     and_then (raise_if (seq < 0 \<or> get_for_incident rid iid s = None)
       (IntegrityError ''fk_incident_event_run'')) (\<lambda>_.
     let row = \<lparr>ev_id = ed_id d, ev_incident_id = iid, ev_run_id = rid, ev_sequence = seq,
                ev_kind = ed_kind d, ev_payload = doc, ev_occurred_at = ed_occurred_at d,
                ev_turn_id = ed_turn_id d\<rparr>
     in Inr (row, s\<lparr>run_events := run_events s @ [row]\<rparr>)))))"

text \<open>\<^verbatim>\<open>for sequence, draft in enumerate(events, start=...)\<close>.\<close>

fun insert_events ::
  "string \<Rightarrow> string \<Rightarrow> int \<Rightarrow> event_draft list \<Rightarrow> store \<Rightarrow> (run_event list \<times> store) outcome" where
  "insert_events iid rid seq [] s = Inr ([], s)"
| "insert_events iid rid seq (d # ds) s =
     and_then (insert_event iid rid seq d s) (\<lambda>(e, s').
     and_then (insert_events iid rid (seq + 1) ds s') (\<lambda>(es, s'').
     Inr (e # es, s'')))"

fun latest_of :: "datetime \<Rightarrow> datetime list \<Rightarrow> datetime" where
  "latest_of t [] = t"
| "latest_of t (u # us) = latest_of (max t u) us"

text \<open>\<^verbatim>\<open>max(event.occurred_at for event in events)\<close>.\<close>

definition max_occurred :: "event_draft list \<Rightarrow> datetime" where
  "max_occurred events = latest_of (ed_occurred_at (hd events)) (map ed_occurred_at (tl events))"

definition touch_run :: "string \<Rightarrow> datetime \<Rightarrow> store \<Rightarrow> store outcome" where
  "touch_run rid at_time s =
     (if \<exists>r\<in>set (runs s). rr_id r = rid \<and> at_time < rr_created_at r
      then Inl (IntegrityError ''ck_incident_run_lifecycle'')
      else Inr (s\<lparr>runs := update_where (\<lambda>r. rr_id r = rid) (\<lambda>r. r\<lparr>rr_updated_at := at_time\<rparr>) (runs s)\<rparr>))"

definition DISPATCH_EVENTS :: "string list" where
  "DISPATCH_EVENTS = RUN_PATCH_EVENTS @ [''dispatch_receipt'', ''investigation_result'']"

text \<open>\<^verbatim>\<open>payload.setdefault("decision_id", ...)\<close>.\<close>

definition with_decision :: "string \<Rightarrow> event_draft \<Rightarrow> event_draft" where
  "with_decision did d = (if ''decision_id'' \<in> fmdom' (ed_payload d) then d
     else d\<lparr>ed_payload := fmupd ''decision_id'' (JStr did) (ed_payload d)\<rparr>)"

definition append_run_events ::
  "string list \<Rightarrow> string \<Rightarrow> string \<Rightarrow> decision_draft \<Rightarrow> event_draft list \<Rightarrow> store
     \<Rightarrow> (run_event list \<times> store) outcome" where
  "append_run_events kinds iid rid d events s =
     and_then (raise_if ((dd_run_id d \<noteq> None \<and> dd_run_id d \<noteq> Some rid) \<or> events = [])
       (ValueError ''run records require one run decision and at least one event'')) (\<lambda>_.
     and_then (raise_if (\<exists>e\<in>set events. ed_kind e \<notin> set kinds)
       (ValueError ''this record may append only the events of its kind'')) (\<lambda>_.
     and_then (insert_decision iid (Some rid) d s) (\<lambda>s1.
     and_then (insert_events iid rid (last_sequence rid s1 + 1) (map (with_decision (dd_id d)) events) s1)
       (\<lambda>(stored, s2).
     and_then (touch_run rid (max_occurred events) s2) (\<lambda>s3.
     Inr (stored, s3))))))"

text \<open>\<^verbatim>\<open>record_run_events\<close>: events of a run that made no transition.\<close>

definition record_run_events ::
  "string \<Rightarrow> string \<Rightarrow> decision_draft \<Rightarrow> event_draft list \<Rightarrow> store \<Rightarrow> (run_event list \<times> store) outcome" where
  "record_run_events iid rid d events s =
     and_then (lock_incident_run iid rid s) (\<lambda>_.
     append_run_events RECORDED_EVENTS iid rid d events s)"

text \<open>\<^verbatim>\<open>_patch_run\<close>: \<^verbatim>\<open>state || patch\<close> on the run, its version unchanged.\<close>

definition patch_run :: "string \<Rightarrow> string \<Rightarrow> dict \<Rightarrow> store \<Rightarrow> store outcome" where
  "patch_run iid rid patch s =
     and_then (raise_if (\<not> keys_within patch RUN_PATCH_FIELDS)
       (ValueError ''a dispatch outcome never moves the workflow state of its run'')) (\<lambda>_.
     and_then (jsonb patch) (\<lambda>doc.
     Inr (s\<lparr>runs := update_where (\<lambda>r. rr_id r = rid \<and> rr_incident_id r = iid)
       (\<lambda>r. r\<lparr>rr_state := rr_state r ++\<^sub>f doc\<rparr>) (runs s)\<rparr>)))"

definition append_contexts :: "string \<Rightarrow> string \<Rightarrow> context_record list \<Rightarrow> store \<Rightarrow> store outcome" where
  "append_contexts iid rid = fold_raise (\<lambda>c s.
     and_then (raise_if (cx_incident_id c \<noteq> iid \<or> cx_run_id c \<noteq> rid)
       (ValueError ''a turn context is written only with the run that produced it'')) (\<lambda>_.
     append_context (c\<lparr>cx_content := obj (storable (JObj (cx_content c)))\<rparr>) s))"

section \<open>Claiming and completing a dispatch\<close>

text \<open>What one unit of work holds: its dedicated lock connection and the lock it took.\<close>

record unit_of_work =
  u_connected :: bool
  u_lock_held :: "string option"

datatype claim = Claimed | Active | Complete | Interrupted

record claim_args =
  ca_intent_decision :: decision_draft
  ca_intent_event :: event_draft
  ca_interrupted_decision :: decision_draft
  ca_interrupted_event :: event_draft
  ca_interrupted_termination :: "event_draft option"
  ca_dispatch_id :: "string option"

text \<open>The receipts a claim looks at: a verification counts only its own.\<close>

definition claim_receipts :: "string \<Rightarrow> string \<Rightarrow> store \<Rightarrow> json list" where
  "claim_receipts dispatch rid s =
     (if dispatch \<noteq> rid
      then filter (\<lambda>r. is_obj r \<and> get (obj r) ''dispatch_id'' = JStr dispatch) (dispatch_receipts rid s)
      else dispatch_receipts rid s)"

text \<open>\<^verbatim>\<open>dispatch_id or run_id\<close>.\<close>

definition dispatch_or_run :: "string option \<Rightarrow> string \<Rightarrow> string" where
  "dispatch_or_run dispatch_id rid = (case dispatch_id of None \<Rightarrow> rid | Some d \<Rightarrow> if d = [] then rid else d)"

text \<open>The interrupted branch: its termination, when given, also ends the run.\<close>

definition claim_interrupted ::
  "string \<Rightarrow> string \<Rightarrow> claim_args \<Rightarrow> store \<Rightarrow> store outcome" where
  "claim_interrupted iid rid a s =
     (case ca_interrupted_termination a of
        None \<Rightarrow> and_then (append_run_events DISPATCH_EVENTS iid rid (ca_interrupted_decision a)
            [ca_interrupted_event a] s) (\<lambda>(_, s'). Inr s')
      | Some t \<Rightarrow>
          and_then (obj_item (ed_payload t) ''run_patch'') (\<lambda>patch.
          and_then (patch_run iid rid patch s) (\<lambda>s1.
          and_then (append_run_events DISPATCH_EVENTS iid rid (ca_interrupted_decision a)
            [ca_interrupted_event a, t] s1) (\<lambda>(_, s'). Inr s'))))"

definition claim_run_dispatch ::
  "string \<Rightarrow> string \<Rightarrow> claim_args \<Rightarrow> unit_of_work \<Rightarrow> store \<Rightarrow> (claim \<times> unit_of_work \<times> store) outcome" where
  "claim_run_dispatch iid rid a u s =
     (let dispatch = dispatch_or_run (ca_dispatch_id a) rid;
          lock = dispatch_lock_name iid rid;
          u' = \<lparr>u_connected = True, u_lock_held = Some lock\<rparr>;
          s0 = s\<lparr>advisory_locks := advisory_locks s @ [lock]\<rparr>
      in and_then (raise_if (u_connected u) (RuntimeError ''unit of work already holds a dispatch lock'')) (\<lambda>_.
         if lock \<in> set (advisory_locks s) then Inr (Active, \<lparr>u_connected = False, u_lock_held = None\<rparr>, s)
         else
         and_then (lock_incident_run iid rid s0) (\<lambda>_.
         let receipts = claim_receipts dispatch rid s0
         in if list_ex (terminal_receipt dispatch) receipts then Inr (Complete, u', s0)
            else if list_ex (pending_receipt dispatch) receipts \<or> receipts \<noteq> []
            then and_then (claim_interrupted iid rid a s0) (\<lambda>s'. Inr (Interrupted, u', s'))
            else and_then (append_run_events DISPATCH_EVENTS iid rid (ca_intent_decision a)
                   [ca_intent_event a] s0) (\<lambda>(_, s'). Inr (Claimed, u', s')))))"

text \<open>\<^verbatim>\<open>release_run_dispatch\<close> and \<^verbatim>\<open>_release_dispatch_lock\<close>.\<close>

definition release_run_dispatch ::
  "string \<Rightarrow> string \<Rightarrow> unit_of_work \<Rightarrow> store \<Rightarrow> (unit_of_work \<times> store) outcome" where
  "release_run_dispatch iid rid u s =
     and_then (raise_if (u_lock_held u \<noteq> None \<and> u_lock_held u \<noteq> Some (dispatch_lock_name iid rid))
       (RuntimeError ''unit of work holds a different dispatch lock'')) (\<lambda>_.
     Inr (\<lparr>u_connected = False, u_lock_held = None\<rparr>,
       if \<not> u_connected u then s
       else case u_lock_held u of None \<Rightarrow> s
            | Some l \<Rightarrow> s\<lparr>advisory_locks := filter (\<lambda>x. x \<noteq> l) (advisory_locks s)\<rparr>))"

record complete_args =
  cp_decision :: decision_draft
  cp_events :: "event_draft list"
  cp_expected_incident_version :: "int option"
  cp_incident_patch :: "dict option"
  cp_run_patch :: "dict option"
  cp_contexts :: "context_record list"
  cp_dispatch_id :: "string option"

text \<open>The receipts among the events being appended.\<close>

definition drafted_receipts :: "(json \<Rightarrow> bool) \<Rightarrow> event_draft list \<Rightarrow> json list" where
  "drafted_receipts p events = filter p (map (\<lambda>e. get (ed_payload e) ''dispatch_receipt'')
     (filter (\<lambda>e. ed_kind e = ''dispatch_receipt'') events))"

text \<open>A patch of hypotheses and evidence, recorded in one result event of a successful dispatch.\<close>

definition check_incident_patch :: "complete_args \<Rightarrow> json \<Rightarrow> dict \<Rightarrow> unit outcome" where
  "check_incident_patch a terminal patch =
     and_then (raise_if (cp_expected_incident_version a = None \<or>
         \<not> keys_exactly patch [''hypotheses'', ''evidence''] \<or>
         \<not> is_list (get patch ''hypotheses'') \<or> \<not> is_list (get patch ''evidence''))
       (ValueError ''event-only dispatch patches require hypothesis and evidence lists'')) (\<lambda>_.
     and_then (raise_if (get (obj terminal) ''status'' \<noteq> JStr ''success'')
       (ValueError ''event-only dispatch patches require a success receipt'')) (\<lambda>_.
     raise_if (length (filter (\<lambda>e. ed_kind e = ''investigation_result'' \<and>
         get (ed_payload e) ''incident_patch'' = JObj patch) (cp_events a)) \<noteq> 1)
       (ValueError ''event-only dispatch patch must be recorded in its result event'')))"

definition patch_incident ::
  "string \<Rightarrow> string \<Rightarrow> int option \<Rightarrow> datetime \<Rightarrow> dict \<Rightarrow> store \<Rightarrow> store outcome" where
  "patch_incident iid rid expected at_time patch s =
     and_then (jsonb patch) (\<lambda>doc.
     case get_incident iid s of
       None \<Rightarrow> Inl (IncidentStaleWriteError (''stale investigation result: '' @ iid @ ''/'' @ rid))
     | Some i \<Rightarrow>
         if expected \<noteq> Some (ir_version i)
         then Inl (IncidentStaleWriteError (''stale investigation result: '' @ iid @ ''/'' @ rid))
         else if at_time < ir_created_at i then Inl (IntegrityError ''ck_incident_lifecycle'')
         else Inr (s\<lparr>incidents := update_where (\<lambda>r. ir_id r = iid)
           (\<lambda>r. r\<lparr>ir_state := ir_state r ++\<^sub>f doc, ir_version := ir_version r + 1,
                  ir_updated_at := at_time\<rparr>) (incidents s)\<rparr>))"

definition complete_run_dispatch ::
  "string \<Rightarrow> string \<Rightarrow> complete_args \<Rightarrow> store \<Rightarrow> (bool \<times> store) outcome" where
  "complete_run_dispatch iid rid a s =
     (let dispatch = dispatch_or_run (cp_dispatch_id a) rid
      in and_then (lock_incident_run iid rid s) (\<lambda>(incident, _).
         if list_ex (terminal_receipt dispatch) (dispatch_receipts rid s) then Inr (False, s)
         else if \<not> list_ex (pending_receipt dispatch) (dispatch_receipts rid s) then Inr (False, s)
         else
         and_then (raise_if (cp_expected_incident_version a \<noteq> None \<and>
             cp_expected_incident_version a \<noteq> Some (ir_version incident))
           (IncidentStaleWriteError (''stale investigation result: '' @ iid @ ''/'' @ rid))) (\<lambda>_.
         let terminal = drafted_receipts (terminal_receipt dispatch) (cp_events a);
             patches = map (\<lambda>e. get (ed_payload e) ''run_patch'')
               (filter (\<lambda>e. ed_kind e \<in> set RUN_PATCH_EVENTS) (cp_events a))
         in and_then (raise_if (length terminal \<noteq> 1)
              (ValueError ''a completed dispatch must append one terminal receipt'')) (\<lambda>_.
            and_then (raise_if (patches \<noteq> (case cp_run_patch a of None \<Rightarrow> [] | Some p \<Rightarrow> [JObj p]))
              (ValueError ''a dispatch ends its run only through one escalation or termination'')) (\<lambda>_.
            and_then (case cp_incident_patch a of None \<Rightarrow> Inr s
                | Some patch \<Rightarrow> and_then (check_incident_patch a (hd terminal) patch) (\<lambda>_.
                    patch_incident iid rid (cp_expected_incident_version a)
                      (max_occurred (cp_events a)) patch s)) (\<lambda>s1.
            and_then (case cp_run_patch a of None \<Rightarrow> Inr s1 | Some p \<Rightarrow> patch_run iid rid p s1) (\<lambda>s2.
            and_then (append_contexts iid rid (cp_contexts a) s2) (\<lambda>s3.
            and_then (append_run_events DISPATCH_EVENTS iid rid (cp_decision a) (cp_events a) s3)
              (\<lambda>(_, s4). Inr (True, s4))))))))))"

section \<open>Committing a transition\<close>

record persist_args =
  pa_command_id :: string
  pa_payload_sha256 :: string
  pa_incident_id :: string
  pa_run_id :: string
  pa_expected_incident_version :: int
  pa_expected_run_version :: int
  pa_incident_state :: dict
  pa_run_state :: dict
  pa_decision :: decision_draft
  pa_events :: "event_draft list"
  pa_snapshot :: "snapshot_draft option"
  pa_dispatch_id :: "string option"
  pa_contexts :: "context_record list"

definition sha256_hex :: "string \<Rightarrow> bool" where
  "sha256_hex h = (length h = 64 \<and> list_all hex_char h)"

definition check_persist :: "persist_args \<Rightarrow> unit outcome" where
  "check_persist a =
     and_then (raise_if (\<not> sha256_hex (pa_payload_sha256 a))
       (ValueError ''payload_sha256 must contain 64 hexadecimal characters'')) (\<lambda>_.
     and_then (raise_if (dd_run_id (pa_decision a) \<noteq> None \<and>
         dd_run_id (pa_decision a) \<noteq> Some (pa_run_id a))
       (ValueError ''decision run_id must match the transition run'')) (\<lambda>_.
     and_then (raise_if (pa_events a = [])
       (ValueError ''an incident transition must append at least one event'')) (\<lambda>_.
     raise_if (case pa_snapshot a of None \<Rightarrow> False
         | Some d \<Rightarrow> sd_incident_state d \<noteq> pa_incident_state a \<or> sd_run_state d \<noteq> pa_run_state a)
       (ValueError ''snapshot state must match the committed transition state''))))"

text \<open>A transition made by a dispatch: pending, not yet terminal, and ending it with success.\<close>

definition check_dispatch :: "persist_args \<Rightarrow> store \<Rightarrow> unit outcome" where
  "check_dispatch a s =
     (case pa_dispatch_id a of None \<Rightarrow> Inr ()
      | Some dispatch \<Rightarrow>
          and_then (raise_if (dispatch \<noteq> pa_run_id a \<and> dispatch \<noteq> verification_dispatch (pa_run_id a))
            (IncidentStaleWriteError ''investigation dispatch identity does not match run'')) (\<lambda>_.
          let receipts = dispatch_receipts (pa_run_id a) s
          in and_then (raise_if (list_ex (terminal_receipt dispatch) receipts)
               (IncidentStaleWriteError ''investigation dispatch is already terminal'')) (\<lambda>_.
             and_then (raise_if (\<not> list_ex (pending_receipt dispatch) receipts)
               (IncidentStaleWriteError ''investigation dispatch intent is missing'')) (\<lambda>_.
             raise_if (length (drafted_receipts (receipt_is dispatch ''outcome'' [''success'']) (pa_events a)) \<noteq> 1)
               (ValueError ''a dispatch transition must append its success receipt'')))))"

text \<open>The two optimistic updates: a row matches only at the expected version.\<close>

definition update_incident ::
  "string \<Rightarrow> int \<Rightarrow> dict \<Rightarrow> datetime \<Rightarrow> store \<Rightarrow> (incident_record option \<times> store) outcome" where
  "update_incident iid expected state at_time s =
     and_then (jsonb state) (\<lambda>doc.
     case get_incident iid s of None \<Rightarrow> Inr (None, s)
     | Some i \<Rightarrow>
         if ir_version i \<noteq> expected then Inr (None, s)
         else if at_time < ir_created_at i then Inl (IntegrityError ''ck_incident_lifecycle'')
         else (let f = (\<lambda>r. r\<lparr>ir_state := doc, ir_version := ir_version r + 1, ir_updated_at := at_time\<rparr>)
               in Inr (Some (f i), s\<lparr>incidents := update_where (\<lambda>r. ir_id r = iid) f (incidents s)\<rparr>)))"

definition update_run ::
  "string \<Rightarrow> string \<Rightarrow> int \<Rightarrow> dict \<Rightarrow> datetime \<Rightarrow> store \<Rightarrow> (run_record option \<times> store) outcome" where
  "update_run rid iid expected state at_time s =
     and_then (jsonb state) (\<lambda>doc.
     case get_for_incident rid iid s of None \<Rightarrow> Inr (None, s)
     | Some r0 \<Rightarrow>
         if rr_version r0 \<noteq> expected then Inr (None, s)
         else if at_time < rr_created_at r0 then Inl (IntegrityError ''ck_incident_run_lifecycle'')
         else (let f = (\<lambda>r. r\<lparr>rr_state := doc, rr_version := rr_version r + 1, rr_updated_at := at_time\<rparr>)
               in Inr (Some (f r0),
                    s\<lparr>runs := update_where (\<lambda>r. rr_id r = rid \<and> rr_incident_id r = iid) f (runs s)\<rparr>)))"

definition append_snapshot ::
  "string \<Rightarrow> string \<Rightarrow> int \<Rightarrow> int \<Rightarrow> snapshot_draft option \<Rightarrow> store
     \<Rightarrow> (snapshot_record option \<times> store) outcome" where
  "append_snapshot iid rid version seq draft s =
     (case draft of None \<Rightarrow> Inr (None, s)
      | Some d \<Rightarrow>
          and_then (jsonb (sd_incident_state d)) (\<lambda>istate.
          and_then (jsonb (sd_run_state d)) (\<lambda>rstate.
          and_then (raise_if (\<not> fits 64 (sd_id d)) (DataError ''value too long'')) (\<lambda>_.
          and_then (raise_if (\<exists>n\<in>set (snapshots s). sn_id n = sd_id d \<or>
              (sn_run_id n = rid \<and> (sn_version n = version \<or> sn_event_sequence n = seq)))
            (IntegrityError ''snapshots'')) (\<lambda>_.
          and_then (raise_if (version < 0 \<or> seq < -1 \<or> get_for_incident rid iid s = None)
            (IntegrityError ''fk_incident_snapshot_run'')) (\<lambda>_.
          let row = \<lparr>sn_id = sd_id d, sn_incident_id = iid, sn_run_id = rid, sn_version = version,
                     sn_event_sequence = seq, sn_incident_state = istate, sn_run_state = rstate,
                     sn_created_at = sd_created_at d\<rparr>
          in Inr (Some row, s\<lparr>snapshots := snapshots s @ [row]\<rparr>)))))))"

definition insert_commit :: "persist_args \<Rightarrow> transition_result \<Rightarrow> datetime \<Rightarrow> store \<Rightarrow> store outcome" where
  "insert_commit a r at_time s =
     and_then (jsonb (encode_result r)) (\<lambda>doc.
     and_then (raise_if (\<not> fits 128 (pa_command_id a)) (DataError ''value too long'')) (\<lambda>_.
     and_then (raise_if (\<exists>c\<in>set (transition_commits s). co_incident_id c = pa_incident_id a \<and>
         co_command_id c = pa_command_id a) (IntegrityError ''transition_commits_pkey'')) (\<lambda>_.
     and_then (raise_if (get_incident (pa_incident_id a) s = None)
       (IntegrityError ''transition_commits_incident_id_fkey'')) (\<lambda>_.
     Inr (s\<lparr>transition_commits := transition_commits s @
       [\<lparr>co_incident_id = pa_incident_id a, co_command_id = pa_command_id a,
         co_payload_sha256 = pa_payload_sha256 a, co_result = doc, co_committed_at = at_time\<rparr>]\<rparr>)))))"

section \<open>The memory of a close\<close>

definition get_revision :: "json \<Rightarrow> json \<Rightarrow> store \<Rightarrow> revision_row option" where
  "get_revision pid version s =
     select_one (\<lambda>r. pid = JStr (rv_postmortem_id r) \<and> version = JInt (rv_version r)) (postmortem_revisions s)"

text \<open>
  \<^verbatim>\<open>remember\<close>: one row per incident (\<^verbatim>\<open>ON CONFLICT (incident_id) DO NOTHING\<close>), whose source is a
  stored revision and a stored event. \<open>token\<close> is the \<^verbatim>\<open>token_hex(8)\<close> drawn for its identity.
\<close>

definition remember ::
  "string \<Rightarrow> dict \<Rightarrow> dict \<Rightarrow> string \<Rightarrow> datetime \<Rightarrow> store \<Rightarrow> store outcome" where
  "remember token state approval close_event now s =
     and_then (item approval ''postmortem_id'') (\<lambda>pid.
     and_then (item approval ''postmortem_version'') (\<lambda>version.
     let alert = obj (get state ''alert''); origin = obj (get alert ''origin'');
         revision = get_revision pid version s;
         service = memory_text (get alert ''service''); signal = memory_text (get origin ''signal'')
     in and_then (str_item state ''incident_id'') (\<lambda>iid.
        and_then (memory_content state (case revision of None \<Rightarrow> fmempty | Some r \<Rightarrow> obj (rv_content r)))
          (\<lambda>content.
        and_then (raise_if (\<not> fits 200 service \<or> \<not> fits 200 signal) (DataError ''value too long'')) (\<lambda>_.
        and_then (raise_if (content = [] \<or> \<not> fits 6000 content)
          (IntegrityError ''ck_incident_memory_content'')) (\<lambda>_.
        if \<exists>m\<in>set (incident_memories s). mm_incident_id m = iid then Inr s
        else case revision of
          None \<Rightarrow> Inl (IntegrityError ''fk_incident_memory_source'')
        | Some r \<Rightarrow>
            and_then (raise_if ((\<exists>m\<in>set (incident_memories s). mm_id m = ''mem_'' @ token) \<or>
                get_incident iid s = None \<or> \<not> (\<exists>e\<in>set (run_events s). ev_id e = close_event))
              (IntegrityError ''incident_memories'')) (\<lambda>_.
            Inr (s\<lparr>incident_memories := incident_memories s @
              [\<lparr>mm_id = ''mem_'' @ token, mm_incident_id = iid,
                mm_postmortem_id = rv_postmortem_id r, mm_postmortem_version = rv_version r,
                mm_close_event_id = close_event, mm_service = service,
                mm_signal = (if signal = [] then None else Some signal),
                mm_content = content, mm_indexed_at = now\<rparr>]\<rparr>))))))))"

definition remember_close ::
  "string \<Rightarrow> persist_args \<Rightarrow> string \<Rightarrow> datetime \<Rightarrow> store \<Rightarrow> store outcome" where
  "remember_close token a first_event at_time s =
     (let document = dd_document (pa_decision a); approval = get document ''approval''
      in if get document ''transition_id'' = JStr ''close_incident'' \<and> truthy approval
         then remember token (pa_incident_state a) (obj approval) first_event at_time s
         else Inr s)"

section \<open>persist_transition\<close>

text \<open>The rows of a transition, once it is known not to be a replay.\<close>

definition write_transition ::
  "string \<Rightarrow> persist_args \<Rightarrow> store \<Rightarrow> (transition_result \<times> store) outcome" where
  "write_transition token a s =
     (let iid = pa_incident_id a; rid = pa_run_id a; at_time = dd_decided_at (pa_decision a)
      in and_then (update_incident iid (pa_expected_incident_version a) (pa_incident_state a) at_time s)
           (\<lambda>(incident_row, s1).
         and_then (update_run rid iid (pa_expected_run_version a) (pa_run_state a) at_time s1)
           (\<lambda>(run_row, s2).
         case (incident_row, run_row) of
           (Some incident, Some run) \<Rightarrow>
             and_then (insert_decision iid (dd_run_id (pa_decision a)) (pa_decision a) s2) (\<lambda>s3.
             and_then (insert_events iid rid (last_sequence rid s3 + 1) (pa_events a) s3)
               (\<lambda>(stored, s4).
             and_then (append_contexts iid rid (pa_contexts a) s4) (\<lambda>s5.
             and_then (append_snapshot iid rid (rr_version run)
                 (if stored = [] then last_sequence rid s3 else ev_sequence (last stored))
                 (pa_snapshot a) s5) (\<lambda>(snapshot, s6).
             let result = \<lparr>tr_incident = incident, tr_run = run, tr_events = stored,
                           tr_snapshot = snapshot, tr_replayed = False\<rparr>
             in and_then (insert_commit a result at_time s6) (\<lambda>s7.
                and_then (remember_close token a (ev_id (hd stored)) at_time s7) (\<lambda>s8.
                Inr (result, s8)))))))
         | _ \<Rightarrow> Inl (IncidentStaleWriteError (''stale incident transition: '' @ iid @ ''/'' @ rid)))))"

definition persist_transition ::
  "string \<Rightarrow> persist_args \<Rightarrow> store \<Rightarrow> (transition_result \<times> store) outcome" where
  "persist_transition token a s =
     and_then (get_transition (pa_incident_id a) (pa_command_id a) (pa_payload_sha256 a) s) (\<lambda>replay.
     case replay of Some r \<Rightarrow> Inr (r, s)
     | None \<Rightarrow>
         and_then (check_persist a) (\<lambda>_.
         and_then (check_dispatch a s) (\<lambda>_.
         write_transition token a s)))"

section \<open>Loading a replay\<close>

lemma events_after_gt: "e \<in> set (events_after rid seq s) \<Longrightarrow> seq < ev_sequence e"
  by (auto simp: events_after_def)

lemma length_events_after:
  "length (events_after rid seq s) = length (filter (\<lambda>e. ev_run_id e = rid \<and> seq < ev_sequence e) (run_events s))"
  by (simp add: events_after_def)

lemma events_after_shrinks:
  assumes "e \<in> set (events_after rid seq s)"
  shows "length (events_after rid (ev_sequence e) s) < length (events_after rid seq s)"
proof -
  have e: "e \<in> set (run_events s)" "ev_run_id e = rid" "seq < ev_sequence e"
    using assms by (auto simp: events_after_def)
  have "filter (\<lambda>x. ev_run_id x = rid \<and> ev_sequence e < ev_sequence x) (run_events s) =
      filter (\<lambda>x. ev_sequence e < ev_sequence x)
        (filter (\<lambda>x. ev_run_id x = rid \<and> seq < ev_sequence x) (run_events s))"
    using e(3) by (auto intro!: filter_cong simp: filter_filter)
  also have "length \<dots> < length (filter (\<lambda>x. ev_run_id x = rid \<and> seq < ev_sequence x) (run_events s))"
    using e by (intro length_filter_less [of e]) auto
  finally show ?thesis by (simp add: length_events_after)
qed

text \<open>
  The paging loop. Every page but an empty one ends at a larger sequence, so the number of events
  after the cursor decreases.
\<close>

function replay_pages :: "string \<Rightarrow> int \<Rightarrow> store \<Rightarrow> run_event list" where
  "replay_pages rid seq s =
     (let batch = take 1000 (events_after rid seq s)
      in if batch = [] then []
         else if length batch < 1000 then batch
         else batch @ replay_pages rid (ev_sequence (last batch)) s)"
  by pat_completeness auto

termination
proof (relation "measure (\<lambda>(rid, seq, s). length (events_after rid seq s))", goal_cases)
  case 1
  show ?case by simp
next
  case (2 rid seq s batch)
  then have "last batch \<in> set batch" by simp
  then have "last batch \<in> set (events_after rid seq s)"
    unfolding 2(1) by (rule in_set_takeD)
  then show ?case by (simp add: events_after_shrinks)
qed

declare replay_pages.simps [simp del]

definition load_replay :: "string \<Rightarrow> string \<Rightarrow> store \<Rightarrow> replay_record outcome" where
  "load_replay rid iid s =
     (case get_incident iid s of
        None \<Rightarrow> Inl (RuntimeError (''incident replay aggregate is unavailable: '' @ rid))
      | Some i \<Rightarrow>
          (case get_for_incident rid iid s of
             None \<Rightarrow> Inl (RuntimeError (''incident replay aggregate is unavailable: '' @ rid))
           | Some r \<Rightarrow>
               let snapshot = latest_snapshot rid s;
                   seq = (case snapshot of None \<Rightarrow> -1 | Some n \<Rightarrow> sn_event_sequence n)
               in Inr \<lparr>rp_incident = i, rp_run = r, rp_snapshot = snapshot,
                       rp_events = replay_pages rid seq s\<rparr>))"

end
