(* ===== verification/Postmortem.thy ===== *)
theory Postmortem
  imports UnitOfWork
begin

text \<open>
  The postmortem artifact: the contract of its content and the rule that only a review of the
  current version counts (\<^verbatim>\<open>incident/postmortem.py\<close>), its versioned storage
  (\<^verbatim>\<open>persistence/postmortems.py\<close>), and the recall of incident memories that cite it.
\<close>

section \<open>Content\<close>

definition MAX_TEXT :: nat where "MAX_TEXT = 4000"
definition MAX_ITEMS :: nat where "MAX_ITEMS = 50"

definition CERTAINTY :: "string list" where
  "CERTAINTY = [''confirmed'', ''probable'', ''hypothesis'', ''unknown'']"

definition REVIEW_OUTCOMES :: "string list" where
  "REVIEW_OUTCOMES = [''approved'', ''changes_requested'']"

definition SECTIONS :: "string list" where
  "SECTIONS = [''summary'', ''impact'', ''timeline'', ''cause'', ''strategy'', ''actions_taken'',
     ''verification'', ''pending'', ''unknowns'']"

text \<open>\<^verbatim>\<open>^evt_[a-z0-9_-]{1,60}$\<close>.\<close>

definition event_id_pattern :: "string \<Rightarrow> bool" where
  "event_id_pattern s = (case after_prefix ''evt_'' s of None \<Rightarrow> False
     | Some r \<Rightarrow> class_run slug_char 1 60 r)"

definition check_text :: "json \<Rightarrow> string \<Rightarrow> unit outcome" where
  "check_text j field = raise_if (case j of JStr s \<Rightarrow> blank s \<or> MAX_TEXT < py_len s | _ \<Rightarrow> True)
     (InvalidPostmortemError (field @ '' must be nonblank text of at most 4000''))"

definition check_items :: "json \<Rightarrow> string \<Rightarrow> json list outcome" where
  "check_items j field =
     (if \<not> is_list j \<or> MAX_ITEMS < length (elems j)
      then Inl (InvalidPostmortemError (field @ '' must be a list of at most 50''))
      else Inr (elems j))"

definition check_cited :: "string \<Rightarrow> json \<Rightarrow> string outcome" where
  "check_cited field j =
     and_then (raise_if (\<not> is_obj j \<or> \<not> keys_exactly (obj j) [''event_id'', ''description''])
       (InvalidPostmortemError (field @ '' entries require exactly event_id and description''))) (\<lambda>_.
     and_then (check_text (get (obj j) ''description'') field) (\<lambda>_.
     case get (obj j) ''event_id'' of
       JStr e \<Rightarrow> if event_id_pattern e then Inr e
                  else Inl (InvalidPostmortemError (field @ '' entries must cite an event id''))
     | _ \<Rightarrow> Inl (InvalidPostmortemError (field @ '' entries must cite an event id''))))"

fun check_each :: "string \<Rightarrow> json list \<Rightarrow> unit outcome" where
  "check_each field [] = Inr ()"
| "check_each field (j # js) = and_then (check_text j field) (\<lambda>_. check_each field js)"

definition check_cause :: "json \<Rightarrow> unit outcome" where
  "check_cause cause =
     and_then (raise_if (\<not> is_obj cause \<or> \<not> keys_exactly (obj cause) [''statement'', ''certainty''] \<or>
         \<not> str_in (get (obj cause) ''certainty'') CERTAINTY)
       (InvalidPostmortemError ''cause requires a statement and a certainty grade'')) (\<lambda>_.
     check_text (get (obj cause) ''statement'') ''cause.statement'')"

definition validate_content :: "json \<Rightarrow> string set outcome" where
  "validate_content content =
     and_then (raise_if (\<not> is_obj content \<or> \<not> keys_exactly (obj content) SECTIONS)
       (InvalidPostmortemError ''content requires exactly its sections'')) (\<lambda>_.
     let c = get (obj content)
     in and_then (check_text (c ''summary'') ''summary'') (\<lambda>_.
        and_then (check_text (c ''impact'') ''impact'') (\<lambda>_.
        and_then (check_text (c ''strategy'') ''strategy'') (\<lambda>_.
        and_then (check_text (c ''verification'') ''verification'') (\<lambda>_.
        and_then (check_cause (c ''cause'')) (\<lambda>_.
        and_then (check_items (c ''pending'') ''pending'') (\<lambda>pending.
        and_then (check_each ''pending'' pending) (\<lambda>_.
        and_then (check_items (c ''unknowns'') ''unknowns'') (\<lambda>unknowns.
        and_then (check_each ''unknowns'' unknowns) (\<lambda>_.
        and_then (check_items (c ''timeline'') ''timeline'') (\<lambda>timeline.
        and_then (raise_if (timeline = [])
          (InvalidPostmortemError ''timeline requires at least one cited event'')) (\<lambda>_.
        and_then (map_raise (check_cited ''timeline'') timeline) (\<lambda>cited.
        and_then (check_items (c ''actions_taken'') ''actions_taken'') (\<lambda>actions.
        and_then (map_raise (check_cited ''actions_taken'') actions) (\<lambda>more_cited.
        Inr (set cited \<union> set more_cited))))))))))))))))"

section \<open>The stored artifact\<close>

record postmortem_review =
  prv_version :: int
  prv_outcome :: string
  prv_reviewer_id :: string
  prv_comment :: "string option"
  prv_reviewed_at :: datetime

record postmortem_record =
  po_id :: string
  po_incident_id :: string
  po_version :: int
  po_content :: json
  po_run_ids :: "string list"
  po_updated_by :: string
  po_created_at :: datetime
  po_updated_at :: datetime
  po_review :: "postmortem_review option"

text \<open>\<^verbatim>\<open>approved\<close>: only a review of the current version counts; an edit voids older ones.\<close>

definition approved :: "postmortem_record \<Rightarrow> bool" where
  "approved p = (case po_review p of None \<Rightarrow> False
     | Some r \<Rightarrow> prv_version r = po_version p \<and> prv_outcome r = ''approved'')"

text \<open>\<^verbatim>\<open>ORDER BY x.sequence DESC LIMIT 1\<close>: the identity column numbers reviews as inserted.\<close>

definition latest_review :: "string \<Rightarrow> store \<Rightarrow> postmortem_review option" where
  "latest_review pid s =
     map_option (\<lambda>v. \<lparr>prv_version = vw_version v, prv_outcome = vw_outcome v,
         prv_reviewer_id = vw_reviewer_id v, prv_comment = vw_comment v,
         prv_reviewed_at = vw_reviewed_at v\<rparr>)
       (select_one (\<lambda>v. vw_postmortem_id v = pid) (rev (postmortem_reviews s)))"

definition revision_at :: "string \<Rightarrow> int \<Rightarrow> store \<Rightarrow> revision_row option" where
  "revision_at pid version s =
     select_one (\<lambda>r. rv_postmortem_id r = pid \<and> rv_version r = version) (postmortem_revisions s)"

text \<open>\<^verbatim>\<open>get\<close>: the current version joined with its revision and its latest review.\<close>

definition get_postmortem :: "string \<Rightarrow> store \<Rightarrow> postmortem_record option" where
  "get_postmortem iid s =
     (case select_one (\<lambda>p. pm_incident_id p = iid) (postmortems s) of None \<Rightarrow> None
      | Some p \<Rightarrow>
          map_option (\<lambda>r. \<lparr>po_id = pm_id p, po_incident_id = pm_incident_id p, po_version = pm_version p,
              po_content = rv_content r, po_run_ids = pm_run_ids p, po_updated_by = rv_edited_by r,
              po_created_at = pm_created_at p, po_updated_at = pm_updated_at p,
              po_review = latest_review (pm_id p) s\<rparr>)
            (revision_at (pm_id p) (pm_version p) s))"

definition known_event_ids :: "string \<Rightarrow> string set \<Rightarrow> store \<Rightarrow> string set" where
  "known_event_ids iid ids s =
     set (filter (\<lambda>e. e \<in> ids) (map ev_id (filter (\<lambda>e. ev_incident_id e = iid) (run_events s))))"

text \<open>\<^verbatim>\<open>ck_postmortem_id\<close>: \<^verbatim>\<open>^pm_[a-z0-9_-]{1,60}$\<close>.\<close>

definition postmortem_id_pattern :: "string \<Rightarrow> bool" where
  "postmortem_id_pattern s = (case after_prefix ''pm_'' s of None \<Rightarrow> False
     | Some r \<Rightarrow> class_run slug_char 1 60 r)"

text \<open>The head row of a save: an insert that does nothing on conflict, or an update at a version.\<close>

definition save_head ::
  "string \<Rightarrow> string \<Rightarrow> int \<Rightarrow> string list \<Rightarrow> datetime \<Rightarrow> store \<Rightarrow> store outcome" where
  "save_head pid iid expected run_ids now s =
     (if expected = 0 then
        (if \<exists>p\<in>set (postmortems s). pm_id p = pid \<or> pm_incident_id p = iid
         then Inl (IncidentStaleWriteError (''postmortem '' @ pid @ '' is stale''))
         else if \<not> postmortem_id_pattern pid \<or> get_incident iid s = None
         then Inl (IntegrityError ''ck_postmortem_id'')
         else Inr (s\<lparr>postmortems := postmortems s @
           [\<lparr>pm_id = pid, pm_incident_id = iid, pm_version = 1, pm_run_ids = run_ids,
             pm_created_at = now, pm_updated_at = now\<rparr>]\<rparr>))
      else
        (case select_one (\<lambda>p. pm_id p = pid \<and> pm_incident_id p = iid \<and> pm_version p = expected)
           (postmortems s) of
           None \<Rightarrow> Inl (IncidentStaleWriteError (''postmortem '' @ pid @ '' is stale''))
         | Some _ \<Rightarrow>
             if expected + 1 < 1 then Inl (IntegrityError ''ck_postmortem_version'')
             else Inr (s\<lparr>postmortems := update_where
               (\<lambda>p. pm_id p = pid \<and> pm_incident_id p = iid \<and> pm_version p = expected)
               (\<lambda>p. p\<lparr>pm_version := expected + 1, pm_run_ids := run_ids, pm_updated_at := now\<rparr>)
               (postmortems s)\<rparr>)))"

definition save_postmortem ::
  "string \<Rightarrow> string \<Rightarrow> int \<Rightarrow> json \<Rightarrow> string list \<Rightarrow> string \<Rightarrow> datetime \<Rightarrow> store \<Rightarrow> (int \<times> store) outcome" where
  "save_postmortem pid iid expected content run_ids actor now s =
     and_then (save_head pid iid expected run_ids now s) (\<lambda>s1.
     and_then (raise_if (\<not> jsonb_ok content) (DataError ''unsupported Unicode escape sequence'')) (\<lambda>_.
     and_then (raise_if (\<not> fits 64 actor) (DataError ''value too long'')) (\<lambda>_.
     and_then (raise_if (revision_at pid (expected + 1) s1 \<noteq> None)
       (IntegrityError ''postmortem_revisions_pkey'')) (\<lambda>_.
     Inr (expected + 1, s1\<lparr>postmortem_revisions := postmortem_revisions s1 @
       [\<lparr>rv_postmortem_id = pid, rv_version = expected + 1, rv_content = content,
         rv_edited_by = actor, rv_edited_at = now\<rparr>]\<rparr>)))))"

definition review_postmortem ::
  "string \<Rightarrow> int \<Rightarrow> string \<Rightarrow> string \<Rightarrow> string option \<Rightarrow> datetime \<Rightarrow> store \<Rightarrow> store outcome" where
  "review_postmortem pid version outcome reviewer comment now s =
     and_then (raise_if (\<not> fits 64 reviewer \<or> \<not> fits 32 outcome) (DataError ''value too long'')) (\<lambda>_.
     and_then (raise_if (outcome \<notin> set REVIEW_OUTCOMES \<or> revision_at pid version s = None)
       (IntegrityError ''postmortem_reviews'')) (\<lambda>_.
     Inr (s\<lparr>postmortem_reviews := postmortem_reviews s @
       [\<lparr>vw_postmortem_id = pid, vw_version = version, vw_outcome = outcome,
         vw_reviewer_id = reviewer, vw_comment = comment, vw_reviewed_at = now\<rparr>]\<rparr>)))"

section \<open>Recalling memories\<close>

text \<open>
  \<^verbatim>\<open>recall\<close>. PostgreSQL's English text search is the argument \<open>matches\<close> (query, content) and its
  \<open>rank\<close>; the joins, filters, order and limit are the statement's own.
\<close>

definition memory_before :: "(string \<Rightarrow> string \<Rightarrow> rat) \<Rightarrow> string \<Rightarrow> string option \<Rightarrow> memory_row \<Rightarrow> memory_row \<Rightarrow> bool" where
  "memory_before rank query signal a b =
     (let ka = (mm_signal a = signal); kb = (mm_signal b = signal) in
      if ka \<noteq> kb then ka
      else if rank query (mm_content a) \<noteq> rank query (mm_content b)
      then rank query (mm_content b) < rank query (mm_content a)
      else if mm_indexed_at a \<noteq> mm_indexed_at b then mm_indexed_at b < mm_indexed_at a
      else mm_id a \<le> mm_id b)"

fun insert_by :: "('a \<Rightarrow> 'a \<Rightarrow> bool) \<Rightarrow> 'a \<Rightarrow> 'a list \<Rightarrow> 'a list" where
  "insert_by before x [] = [x]"
| "insert_by before x (y # ys) = (if before x y then x # y # ys else y # insert_by before x ys)"

fun order_by :: "('a \<Rightarrow> 'a \<Rightarrow> bool) \<Rightarrow> 'a list \<Rightarrow> 'a list" where
  "order_by before [] = []"
| "order_by before (x # xs) = insert_by before x (order_by before xs)"

definition recall ::
  "(string \<Rightarrow> string) \<Rightarrow> (string \<Rightarrow> string \<Rightarrow> bool) \<Rightarrow> (string \<Rightarrow> string \<Rightarrow> rat) \<Rightarrow>
     string \<Rightarrow> string option \<Rightarrow> string \<Rightarrow> string \<Rightarrow> store \<Rightarrow> memory_row list" where
  "recall casefold matches rank service signal summary iid s =
     (let query = recall_query casefold service signal summary
      in if query = [] \<and> (signal = None \<or> signal = Some []) then []
         else take RECALL_LIMIT (order_by (memory_before rank query signal)
           (filter (\<lambda>m. mm_service m = service \<and> mm_incident_id m \<noteq> iid \<and>
               revision_at (mm_postmortem_id m) (mm_postmortem_version m) s \<noteq> None \<and>
               (matches query (mm_content m) \<or> (signal \<noteq> None \<and> mm_signal m = signal)))
             (incident_memories s))))"

text \<open>\<^verbatim>\<open>changes\<close>: the memory change log, newest first.\<close>

definition memory_changes :: "nat \<Rightarrow> store \<Rightarrow> memory_row list" where
  "memory_changes limit s = take limit (order_by (\<lambda>a b. if mm_indexed_at a \<noteq> mm_indexed_at b
       then mm_indexed_at b < mm_indexed_at a else mm_id a \<le> mm_id b) (incident_memories s))"

end
