(* ===== verification/Runtime.thy ===== *)
theory Runtime
  imports Postmortem
begin

text \<open>
  \<^verbatim>\<open>IncidentRuntime\<close> (\<^verbatim>\<open>incident/runtime.py\<close>): executing one named transition of the pinned
  workflow, opening a run with its first transition, recording a refused approval, reading the
  current view and reconstructing it from the last snapshot and the events after it.

  The clock, the identifier factory and the token generator are read by a call at most once per
  kind of identifier, so what one call draws from them is a record of type \<open>draws\<close>. The SHA-256
  of the canonical JSON of a request is the runtime's field \<open>rt_digest\<close>.
\<close>

section \<open>Requests\<close>

record actor_reference =
  ar_principal_id :: string
  ar_display_name :: "string option"
  ar_reference_version :: string

definition actor_dict :: "actor_reference \<Rightarrow> dict" where
  "actor_dict a = dict [(''principal_id'', JStr (ar_principal_id a)),
     (''display_name'', jopt (ar_display_name a)),
     (''reference_version'', JStr (ar_reference_version a))]"

definition actor_json :: "actor_reference option \<Rightarrow> json" where
  "actor_json a = jdict (map_option actor_dict a)"

record incident_command =
  c_command_id :: string
  c_incident_id :: string
  c_run_id :: string
  c_transition_id :: string
  c_actor :: string
  c_actor_reference :: "actor_reference option"
  c_outcome :: "string option"
  c_approval :: bool
  c_expected_incident_version :: "int option"
  c_dispatch_id :: "string option"
  c_turn_id :: "string option"
  c_inputs :: "dict option"
  c_extra_events :: "event_draft list"
  c_contexts :: "context_record list"
  c_execution :: "dict option"

definition event_dict :: "event_draft \<Rightarrow> dict" where
  "event_dict e = dict [(''event_id'', JStr (ed_id e)), (''kind'', JStr (ed_kind e)),
     (''payload'', JObj (ed_payload e)), (''occurred_at'', JStr (isoformat (ed_occurred_at e))),
     (''turn_id'', jopt (ed_turn_id e))]"

text \<open>What the hash of a command covers; absent optional fields leave it as older clients sent it.\<close>

definition command_payload :: "incident_command \<Rightarrow> dict" where
  "command_payload c = dict
     ([(''command_id'', JStr (c_command_id c)), (''incident_id'', JStr (c_incident_id c)),
       (''run_id'', JStr (c_run_id c)), (''transition_id'', JStr (c_transition_id c)),
       (''actor'', JStr (c_actor c)), (''actor_reference'', actor_json (c_actor_reference c)),
       (''outcome'', jopt (c_outcome c)), (''approval'', JBool (c_approval c)),
       (''turn_id'', jopt (c_turn_id c)), (''inputs'', jdict (c_inputs c))] @
      (if c_extra_events c = [] then []
       else [(''extra_events'', JList (map (\<lambda>e. JObj (event_dict e)) (c_extra_events c)))]) @
      (case c_expected_incident_version c of None \<Rightarrow> []
       | Some v \<Rightarrow> [(''expected_incident_version'', JInt v)]) @
      (case c_dispatch_id c of None \<Rightarrow> [] | Some d \<Rightarrow> [(''dispatch_id'', JStr d)]))"

record run_start =
  s_command_id :: string
  s_incident_id :: string
  s_objective :: string
  s_actor :: string
  s_actor_reference :: "actor_reference option"
  s_resume_from_run_id :: "string option"

definition start_payload :: "run_start \<Rightarrow> dict" where
  "start_payload r = dict
     [(''incident_id'', JStr (s_incident_id r)), (''objective'', JStr (s_objective r)),
      (''actor'', JStr (s_actor r)), (''actor_reference'', actor_json (s_actor_reference r)),
      (''resume_from_run_id'', jopt (s_resume_from_run_id r))]"

definition objective_transitions :: "(string \<times> string) list" where
  "objective_transitions =
     [(''triage'', ''open_triage''), (''investigate'', ''start_investigation''),
      (''mitigate'', ''propose_mitigation''), (''postmortem'', ''start_postmortem'')]"

definition escalation_triggers :: "(string \<times> string) list" where
  "escalation_triggers =
     [(''denied'', ''authorization denied for a capability required by the objective'')]"

definition returns_to_investigation :: "string list" where
  "returns_to_investigation = [''reject_mitigation'', ''verification_failed'']"

definition live_run_statuses :: "string list" where
  "live_run_statuses = [''running'', ''awaiting_human'']"

definition termination_patch :: "string \<Rightarrow> datetime \<Rightarrow> dict" where
  "termination_patch reason now = dict
     [(''status'', JStr (if reason = ''completed'' then ''completed'' else ''terminated'')),
      (''pending_command'', JNull), (''terminated_reason'', JStr reason),
      (''updated_at'', JStr (isoformat now))]"

definition escalation :: "string \<Rightarrow> datetime \<Rightarrow> (string \<times> dict) outcome" where
  "escalation reason now = (case map_of escalation_triggers reason of
     None \<Rightarrow> Inl (KeyError reason) | Some t \<Rightarrow> Inr (t, termination_patch reason now))"

record incident_view =
  v_incident_id :: string
  v_run_id :: string
  v_incident_state :: dict
  v_run_state :: dict
  v_incident_version :: int
  v_run_version :: int

record runtime =
  rt_workflow :: workflow
  rt_snapshot_interval :: int
  rt_digest :: "dict \<Rightarrow> string"

record draws =
  d_now :: datetime
  d_id :: "string \<Rightarrow> string"
  d_token :: string

text \<open>\<^verbatim>\<open>IncidentRuntime.__init__\<close> and \<^verbatim>\<open>_default_id\<close>.\<close>

definition make_runtime :: "workflow \<Rightarrow> (dict \<Rightarrow> string) \<Rightarrow> int \<Rightarrow> runtime outcome" where
  "make_runtime w digest interval =
     (if interval < 1 then Inl (ValueError ''snapshot_interval must be positive'')
      else Inr \<lparr>rt_workflow = w, rt_snapshot_interval = interval, rt_digest = digest\<rparr>)"

definition default_id :: "(string \<Rightarrow> string) \<Rightarrow> string \<Rightarrow> string" where
  "default_id token prefix = prefix @ ''_'' @ token prefix"

section \<open>Checks\<close>

definition DECLARED_STATES :: "string list" where
  "DECLARED_STATES = [''active'', ''investigating'', ''mitigating'', ''verifying'', ''resolved'',
     ''postmortem'', ''closed'']"

definition patchable_by_transition :: "string \<Rightarrow> string list" where
  "patchable_by_transition tid =
     (case map_of [(''continue_investigation'', [''impact'', ''hypotheses'', ''evidence'']),
        (''propose_mitigation'', [''mitigation_strategy'', ''evidence'']),
        (''verification_failed'', [''evidence'']), (''verification_passed'', [''evidence'']),
        (''start_postmortem'', [''postmortem''])] tid of None \<Rightarrow> [] | Some fs \<Rightarrow> fs)"

definition assert_supported_state :: "workflow \<Rightarrow> dict \<Rightarrow> dict \<Rightarrow> unit outcome" where
  "assert_supported_state w istate rstate =
     and_then (raise_if (get istate ''workflow_id'' \<noteq> JStr (w_id w) \<or>
         get istate ''workflow_version'' \<noteq> JStr (w_version w))
       (InvalidTransitionError ''stored incident uses an unsupported workflow version'')) (\<lambda>_.
     and_then (raise_if (get rstate ''workflow_version'' \<noteq> JStr (w_version w))
       (InvalidTransitionError ''stored run uses an unsupported workflow version'')) (\<lambda>_.
     and_then (in_states (get istate ''state'') w) (\<lambda>known.
     raise_if (\<not> known \<or> get istate ''state'' \<noteq> get rstate ''current_state'')
       (InvalidTransitionError ''incident and run states are not aligned''))))"

text \<open>\<^verbatim>\<open>_artifact_id\<close>: \<^verbatim>\<open>prefix_[a-z0-9_-]{1,60}\<close>.\<close>

definition artifact_id :: "json \<Rightarrow> string \<Rightarrow> bool" where
  "artifact_id j prefix = (case j of JStr s \<Rightarrow>
       (case after_prefix (prefix @ ''_'') s of None \<Rightarrow> False | Some r \<Rightarrow> class_run slug_char 1 60 r)
     | _ \<Rightarrow> False)"

definition inputs_of :: "incident_command \<Rightarrow> dict" where
  "inputs_of c = (case c_inputs c of None \<Rightarrow> fmempty | Some d \<Rightarrow> d)"

text \<open>Operator impact: nonblank text of at most 2000 characters.\<close>

definition bad_impact :: "json \<Rightarrow> bool" where
  "bad_impact j = (case j of JStr s \<Rightarrow> blank s \<or> 2000 < py_len s | _ \<Rightarrow> True)"

text \<open>\<^verbatim>\<open>inputs.get("remaining_step_budget", 0) < 1\<close>, which only numbers allow.\<close>

definition budget_spent :: "json \<Rightarrow> bool outcome" where
  "budget_spent j = (case j of JInt i \<Rightarrow> Inr (i < 1) | JFloat r \<Rightarrow> Inr (r < 1)
     | JBool b \<Rightarrow> Inr (\<not> b) | _ \<Rightarrow> Inl (TypeError ''remaining_step_budget''))"

definition check_triage :: "string \<Rightarrow> dict \<Rightarrow> unit outcome" where
  "check_triage tid inputs =
     and_then (raise_if (tid = ''triage_link'' \<and> \<not> truthy (get inputs ''target_incident_id''))
       (PreconditionFailedError ''triage_link requires target_incident_id'')) (\<lambda>_.
     and_then (raise_if (tid = ''triage_declare'' \<and> \<not> truthy (get inputs ''severity''))
       (PreconditionFailedError ''triage_declare requires severity'')) (\<lambda>_.
     raise_if (tid = ''triage_declare'' \<and> bad_impact (get inputs ''impact''))
       (PreconditionFailedError
          ''triage_declare requires nonblank operator impact of at most 2000 characters'')))"

definition check_budget :: "string \<Rightarrow> dict \<Rightarrow> unit outcome" where
  "check_budget tid inputs =
     (if tid = ''continue_investigation'' \<and> \<not> truthy (get inputs ''human_retry'') \<and>
         \<not> truthy (get inputs ''retry'')
      then and_then (budget_spent (getd inputs ''remaining_step_budget'' (JInt 0))) (\<lambda>spent.
        raise_if spent
          (PreconditionFailedError ''continue_investigation requires remaining step budget''))
      else Inr ())"

text \<open>\<^verbatim>\<open>any(item.get("supporting_evidence") for item in hypotheses if isinstance(item, Mapping))\<close>.\<close>

definition check_proposal :: "string \<Rightarrow> dict \<Rightarrow> dict \<Rightarrow> unit outcome" where
  "check_proposal tid inputs state =
     (if tid \<noteq> ''propose_mitigation'' then Inr ()
      else
        let patch = get inputs ''incident_patch'';
            strategy = (if is_obj patch then get (obj patch) ''mitigation_strategy'' else JNull);
            hypotheses = py_or (get state ''hypotheses'') (JList []);
            evidence = py_or (get state ''evidence'') (JList [])
        in and_then (if \<not> truthy hypotheses \<or> \<not> truthy evidence then Inr []
                     else py_iter hypotheses) (\<lambda>items.
           and_then (raise_if (\<not> truthy hypotheses \<or> \<not> truthy evidence \<or>
               \<not> list_ex (\<lambda>h. is_obj h \<and> truthy (get (obj h) ''supporting_evidence'')) items)
             (PreconditionFailedError
                ''propose_mitigation requires a hypothesis with supporting evidence'')) (\<lambda>_.
           raise_if (\<not> is_obj strategy \<or> get (obj strategy) ''approval_status'' \<noteq> JStr ''pending'' \<or>
               \<not> artifact_id (get (obj strategy) ''mitigation_id'') ''mit'')
             (PreconditionFailedError ''propose_mitigation requires a new pending mitigation artifact''))))"

definition check_artifacts :: "string \<Rightarrow> dict \<Rightarrow> unit outcome" where
  "check_artifacts tid state =
     (let strategy = get state ''mitigation_strategy''; postmortem = get state ''postmortem'';
          verification = (tid = ''verification_failed'' \<or> tid = ''verification_passed'')
      in and_then (raise_if ((tid = ''apply_mitigation'' \<or> tid = ''reject_mitigation'') \<and>
             (\<not> is_obj strategy \<or> \<not> artifact_id (get (obj strategy) ''mitigation_id'') ''mit''))
           (PreconditionFailedError (tid @ '' requires an identified mitigation_strategy''))) (\<lambda>_.
         and_then (raise_if (verification \<and> \<not> truthy (get state ''evidence''))
           (PreconditionFailedError (tid @ '' requires verification evidence''))) (\<lambda>_.
         and_then (raise_if (verification \<and>
             (\<not> is_obj strategy \<or> \<not> truthy (get (obj strategy) ''verification_check'')))
           (PreconditionFailedError (tid @ '' requires a mitigation verification check''))) (\<lambda>_.
         raise_if (tid = ''close_incident'' \<and>
             (\<not> is_obj postmortem \<or> \<not> artifact_id (get (obj postmortem) ''postmortem_id'') ''pm''))
           (PreconditionFailedError ''close_incident requires an identified postmortem'')))))"

definition validate_named_preconditions :: "incident_command \<Rightarrow> transition \<Rightarrow> dict \<Rightarrow> unit outcome" where
  "validate_named_preconditions c t state =
     (let inputs = inputs_of c; tid = t_id t
      in and_then (check_triage tid inputs) (\<lambda>_.
         and_then (check_budget tid inputs) (\<lambda>_.
         and_then (check_proposal tid inputs state) (\<lambda>_.
         check_artifacts tid state))))"

definition check_actor :: "incident_command \<Rightarrow> transition \<Rightarrow> unit outcome" where
  "check_actor c t =
     and_then (raise_if (c_actor c \<notin> t_actors t)
       (InvalidTransitionError (''actor '' @ c_actor c @ '' cannot execute '' @ t_id t))) (\<lambda>_.
     and_then (raise_if (c_actor c = ''human'' \<and> c_actor_reference c = None)
       (PreconditionFailedError ''human commands require an actor reference'')) (\<lambda>_.
     and_then (raise_if (t_id t = ''triage_declare'' \<and> c_actor c = ''system'' \<and> c_actor_reference c = None)
       (PreconditionFailedError ''a system declaration names its responsible system'')) (\<lambda>_.
     raise_if (case c_actor_reference c of None \<Rightarrow> False
         | Some a \<Rightarrow> ar_reference_version a \<noteq> ''1.0.0'' \<or> \<not> identifier_pattern (ar_principal_id a))
       (PreconditionFailedError ''actor reference is invalid''))))"

definition check_review :: "incident_command \<Rightarrow> transition \<Rightarrow> int \<Rightarrow> unit outcome" where
  "check_review c t version =
     and_then (raise_if (c_expected_incident_version c \<noteq> None \<and>
         c_expected_incident_version c \<noteq> Some version)
       (IncidentStaleWriteError ''incident snapshot changed during investigation'')) (\<lambda>_.
     and_then (raise_if (t_requires_approval t \<and> (c_actor c \<noteq> ''human'' \<or> \<not> c_approval c))
       (ApprovalRequiredError (t_id t))) (\<lambda>_.
     and_then (raise_if (c_approval c \<and> \<not> t_requires_approval t)
       (PreconditionFailedError ''approval is not valid for this transition'')) (\<lambda>_.
     if t_requires_approval t \<or> t_id t = ''reject_mitigation'' then
       (case c_expected_incident_version c of
          None \<Rightarrow> Inl (MissingIncidentVersionError ''human review requires an incident version'')
        | Some v \<Rightarrow>
            and_then (raise_if (v < 0)
              (PreconditionFailedError ''human review requires a nonnegative incident version'')) (\<lambda>_.
            raise_if (v \<noteq> version) (IncidentStaleWriteError ''reviewed incident version is stale'')))
     else Inr ())))"

definition check_outcome :: "incident_command \<Rightarrow> transition \<Rightarrow> unit outcome" where
  "check_outcome c t =
     (if t_outcomes t = [] \<or> (c_outcome c = None \<and> length (t_outcomes t) = 1) then Inr ()
      else raise_if (case c_outcome c of None \<Rightarrow> True | Some x \<Rightarrow> x \<notin> set (t_outcomes t))
        (PreconditionFailedError (''transition '' @ t_id t @ '' requires one of its outcomes'')))"

definition validate :: "incident_command \<Rightarrow> transition \<Rightarrow> dict \<Rightarrow> int \<Rightarrow> unit outcome" where
  "validate c t state version =
     and_then (raise_if (get state ''state'' \<noteq> JStr (t_source t))
       (InvalidTransitionError (''transition '' @ t_id t @ '' requires state '' @ t_source t))) (\<lambda>_.
     and_then (check_actor c t) (\<lambda>_.
     and_then (check_review c t version) (\<lambda>_.
     and_then (check_outcome c t) (\<lambda>_.
     validate_named_preconditions c t state))))"

section \<open>The next states\<close>

text \<open>\<^verbatim>\<open>command.outcome or transition.outcomes[0]\<close>.\<close>

definition outcome_or_first :: "incident_command \<Rightarrow> transition \<Rightarrow> string outcome" where
  "outcome_or_first c t =
     (case c_outcome c of Some (x # xs) \<Rightarrow> Inr (x # xs)
      | _ \<Rightarrow> (case t_outcomes t of [] \<Rightarrow> Inl (IndexError ''tuple index out of range'') | y # _ \<Rightarrow> Inr y))"

definition approval_status :: "string \<Rightarrow> string outcome" where
  "approval_status x = (case map_of [(''approve'', ''approved''), (''reject'', ''rejected''),
       (''request_changes'', ''changes_requested'')] x of
     None \<Rightarrow> Inl (KeyError x) | Some y \<Rightarrow> Inr y)"

definition reduce_patch :: "draws \<Rightarrow> incident_command \<Rightarrow> transition \<Rightarrow> dict \<Rightarrow> dict outcome" where
  "reduce_patch dr c t old =
     (let patch = getd (inputs_of c) ''incident_patch'' (JObj fmempty)
      in and_then (raise_if (\<not> is_obj patch \<or> \<not> keys_within (obj patch) (patchable_by_transition (t_id t)))
           (PreconditionFailedError ''incident_patch contains unsupported fields'')) (\<lambda>_.
         let i1 = old ++\<^sub>f obj patch
         in Inr (if t_id t = ''start_postmortem'' \<and> \<not> truthy (get i1 ''postmortem'')
                 then fmupd ''postmortem'' (JObj (dict [(''postmortem_id'', JStr (d_id dr ''pm''))])) i1
                 else i1)))"

definition reduce_identity :: "draws \<Rightarrow> incident_command \<Rightarrow> transition \<Rightarrow> dict \<Rightarrow> dict" where
  "reduce_identity dr c t i =
     (let i2 = fmupd ''updated_at'' (JStr (isoformat (d_now dr))) (fmupd ''state'' (JStr (t_target t)) i)
      in if t_target t \<in> set DECLARED_STATES
         then fmupd ''linked_incident_id'' JNull (fmupd ''incident_id'' (JStr (c_incident_id c)) i2)
         else if t_target t = ''linked'' then fmupd ''incident_id'' JNull i2
         else fmupd ''linked_incident_id'' JNull (fmupd ''incident_id'' JNull i2))"

definition reduce_triage :: "incident_command \<Rightarrow> transition \<Rightarrow> dict \<Rightarrow> dict outcome" where
  "reduce_triage c t i =
     and_then (if t_id t = ''triage_link''
       then and_then (item (inputs_of c) ''target_incident_id'') (\<lambda>x. Inr (fmupd ''linked_incident_id'' x i))
       else Inr i) (\<lambda>i1.
     and_then (if t_id t = ''triage_declare''
       then and_then (item (inputs_of c) ''severity'') (\<lambda>sev.
            and_then (item (inputs_of c) ''impact'') (\<lambda>imp.
            Inr (fmupd ''impact'' imp (fmupd ''severity'' sev i1))))
       else Inr i1) (\<lambda>i2.
     if t_id t \<in> set [''open_triage'', ''triage_dismiss'', ''triage_link'', ''triage_declare'']
     then and_then (let a = py_or (get i2 ''alert'') (JObj fmempty)
            in if is_obj a then Inr (obj a) else Inl (TypeError ''alert is not a mapping'')) (\<lambda>alert.
          Inr (fmupd ''alert'' (JObj (fmupd ''status'' (JStr
              (if t_id t = ''triage_dismiss'' then ''dismissed''
               else if t_id t = ''triage_link'' then ''linked'' else ''triaged'')) alert)) i2))
     else Inr i2))"

text \<open>The entry the human gate leaves among the incident's approvals.\<close>

definition approval_entry :: "draws \<Rightarrow> incident_command \<Rightarrow> json \<Rightarrow> string \<Rightarrow> json" where
  "approval_entry dr c subject x = JObj (dict
     [(''approval_id'', JStr (d_id dr ''apr'')), (''subject_id'', subject),
      (''granted'', JBool (x = ''approve'')), (''comment'', get (inputs_of c) ''comment''),
      (''actor'', JStr ''human''), (''decided_at'', JStr (isoformat (d_now dr)))])"

definition reduce_mitigation :: "draws \<Rightarrow> incident_command \<Rightarrow> transition \<Rightarrow> dict \<Rightarrow> dict outcome" where
  "reduce_mitigation dr c t i =
     (if t_id t \<noteq> ''apply_mitigation'' \<and> t_id t \<noteq> ''reject_mitigation'' then Inr i
      else
        and_then (obj_item i ''mitigation_strategy'') (\<lambda>s0.
        and_then (outcome_or_first c t) (\<lambda>x.
        and_then (approval_status x) (\<lambda>status.
        let s1 = fmupd ''approval_status'' (JStr status) s0;
            s2 = (case c_execution c of Some e \<Rightarrow>
                    (if x = ''approve''
                     then fmupd ''execution'' (JObj e) (fmupd ''execution_mode'' (JStr ''executed'') s1)
                     else s1)
                  | None \<Rightarrow> s1);
            i1 = fmupd ''mitigation_strategy'' (JObj s2) i
        in if x = ''approve'' \<or> x = ''reject''
           then and_then (py_iter (py_or (get i1 ''approvals'') (JList []))) (\<lambda>before.
                and_then (item s2 ''mitigation_id'') (\<lambda>subject.
                Inr (fmupd ''approvals'' (JList (before @ [approval_entry dr c subject x])) i1)))
           else Inr i1))))"

definition validate_result :: "transition \<Rightarrow> dict \<Rightarrow> unit outcome" where
  "validate_result t i =
     and_then (if t_target t \<in> set DECLARED_STATES
       then raise_if (\<not> truthy (get i ''incident_id'') \<or> \<not> truthy (get i ''severity''))
              (PreconditionFailedError ''declared incidents require identity and severity'')
       else raise_if (get i ''incident_id'' \<noteq> JNull)
              (PreconditionFailedError ''pre-declaration states cannot carry an incident identity'')) (\<lambda>_.
     and_then (raise_if (t_id t = ''triage_declare'' \<and> bad_impact (get i ''impact''))
       (PreconditionFailedError
          ''triage_declare requires nonblank operator impact of at most 2000 characters'')) (\<lambda>_.
     and_then (raise_if (t_target t = ''linked'' \<and> \<not> truthy (get i ''linked_incident_id''))
       (PreconditionFailedError ''linked incidents require a target incident identity'')) (\<lambda>_.
     raise_if (t_target t = ''closed'' \<and> \<not> truthy (get i ''postmortem''))
       (PreconditionFailedError ''closed incidents require a postmortem''))))"

definition reduce_incident :: "draws \<Rightarrow> incident_command \<Rightarrow> transition \<Rightarrow> dict \<Rightarrow> dict outcome" where
  "reduce_incident dr c t old =
     and_then (reduce_patch dr c t old) (\<lambda>i1.
     and_then (reduce_triage c t (reduce_identity dr c t i1)) (\<lambda>i2.
     and_then (reduce_mitigation dr c t i2) (\<lambda>i3.
     and_then (validate_result t i3) (\<lambda>_. Inr i3))))"

definition reduce_run :: "workflow \<Rightarrow> draws \<Rightarrow> transition \<Rightarrow> dict \<Rightarrow> dict" where
  "reduce_run w dr t old =
     (let r = fmupd ''updated_at'' (JStr (isoformat (d_now dr)))
            (fmupd ''current_state'' (JStr (t_target t)) old)
      in if t_target t \<in> w_terminal_states w
         then fmupd ''terminated_reason'' (JStr ''completed'') (fmupd ''pending_command'' JNull
                (fmupd ''status'' (JStr ''completed'') r))
         else if t_target t = ''mitigating''
         then fmupd ''pending_command'' (JStr ''approve_mitigation'')
                (fmupd ''status'' (JStr ''awaiting_human'') r)
         else if t_id t \<in> set returns_to_investigation
         then r ++\<^sub>f termination_patch ''needs_human'' (d_now dr)
         else fmupd ''terminated_reason'' JNull (fmupd ''pending_command'' JNull
                (fmupd ''status'' (JStr ''running'') r)))"

definition reduce ::
  "workflow \<Rightarrow> draws \<Rightarrow> incident_command \<Rightarrow> transition \<Rightarrow> dict \<Rightarrow> dict \<Rightarrow> (dict \<times> dict) outcome" where
  "reduce w dr c t old_incident old_run =
     and_then (reduce_incident dr c t old_incident) (\<lambda>i. Inr (i, reduce_run w dr t old_run))"

section \<open>The decision\<close>

text \<open>\<^verbatim>\<open>command.outcome or (transition.outcomes[0] if transition.outcomes else None)\<close>.\<close>

definition decided_outcome :: "incident_command \<Rightarrow> transition \<Rightarrow> string option" where
  "decided_outcome c t =
     (case c_outcome c of Some (x # xs) \<Rightarrow> Some (x # xs)
      | _ \<Rightarrow> (case t_outcomes t of [] \<Rightarrow> None | y # _ \<Rightarrow> Some y))"

definition approval_record ::
  "draws \<Rightarrow> incident_command \<Rightarrow> transition \<Rightarrow> dict \<Rightarrow> int option \<Rightarrow> json outcome" where
  "approval_record dr c t state reviewed =
     (if \<not> c_approval c then Inr JNull
      else
        let base = dict [(''approved'', JBool True), (''actor_reference'', actor_json (c_actor_reference c)),
               (''recorded_at'', JStr (isoformat (d_now dr))),
               (''reviewed_incident_version'',
                  case c_expected_incident_version c of None \<Rightarrow> JNull | Some v \<Rightarrow> JInt v)]
        in if t_id t = ''apply_mitigation''
           then and_then (obj_item state ''mitigation_strategy'') (\<lambda>strategy.
                and_then (item strategy ''mitigation_id'') (\<lambda>m.
                Inr (JObj (fmupd ''mitigation_id'' m base))))
           else if t_id t = ''close_incident''
           then and_then (obj_item state ''postmortem'') (\<lambda>postmortem.
                and_then (item postmortem ''postmortem_id'') (\<lambda>p.
                Inr (JObj (fmupd ''postmortem_version''
                  (case reviewed of None \<Rightarrow> JNull | Some v \<Rightarrow> JInt v)
                  (fmupd ''postmortem_id'' p base)))))
           else Inr (JObj base))"

definition decision_document ::
  "workflow \<Rightarrow> draws \<Rightarrow> incident_command \<Rightarrow> transition \<Rightarrow> dict \<Rightarrow> int option \<Rightarrow> dict outcome" where
  "decision_document w dr c t state reviewed =
     and_then (approval_record dr c t state reviewed) (\<lambda>approval.
     let channel = get (inputs_of c) ''channel'';
         body = dict [(''workflow_id'', JStr (w_id w)), (''workflow_version'', JStr (w_version w)),
           (''transition_id'', JStr (t_id t)), (''decision_point'', jopt (t_decision_point t)),
           (''outcome'', jopt (decided_outcome c t)), (''actor'', JStr (c_actor c)),
           (''actor_reference'', actor_json (c_actor_reference c)), (''approval'', approval),
           (''reason'', JStr (''accepted named transition '' @ t_source t @ '' -> '' @ t_target t)),
           (''comment'', get (inputs_of c) ''comment''), (''decided_at'', JStr (isoformat (d_now dr)))]
     in Inr (if truthy channel then fmupd ''channel'' channel body else body))"

section \<open>Applying one transition\<close>

text \<open>\<^verbatim>\<open>_reviewed_postmortem_version\<close>: the durable artifact, approved at its current version.\<close>

definition reviewed_postmortem_version :: "incident_record \<Rightarrow> store \<Rightarrow> int outcome" where
  "reviewed_postmortem_version i s =
     (case get_postmortem (ir_id i) s of
        None \<Rightarrow> Inl (PreconditionFailedError ''close_incident requires the persisted postmortem'')
      | Some p \<Rightarrow>
          and_then (raise_if (JStr (po_id p) \<noteq> get (obj (get (ir_state i) ''postmortem'')) ''postmortem_id'')
            (PreconditionFailedError ''close_incident requires the persisted postmortem'')) (\<lambda>_.
          and_then (raise_if (\<not> approved p)
            (PreconditionFailedError
               ''close_incident requires an approved review of the current postmortem version'')) (\<lambda>_.
          Inr (po_version p))))"

definition state_change_event ::
  "workflow \<Rightarrow> draws \<Rightarrow> incident_command \<Rightarrow> transition \<Rightarrow> dict \<Rightarrow> dict \<Rightarrow> event_draft" where
  "state_change_event w dr c t istate rstate =
     \<lparr>ed_id = d_id dr ''evt'', ed_kind = ''state_change'',
      ed_payload = dict [(''workflow_id'', JStr (w_id w)), (''workflow_version'', JStr (w_version w)),
        (''transition_id'', JStr (t_id t)), (''from'', JStr (t_source t)), (''to'', JStr (t_target t)),
        (''incident_state'', JObj istate), (''run_state'', JObj rstate),
        (''decision_id'', JStr (d_id dr ''dec''))],
      ed_occurred_at = d_now dr, ed_turn_id = c_turn_id c\<rparr>"

definition extra_event :: "draws \<Rightarrow> event_draft \<Rightarrow> event_draft" where
  "extra_event dr e = e\<lparr>ed_payload := fmupd ''decision_id'' (JStr (d_id dr ''dec'')) (ed_payload e)\<rparr>"

text \<open>
  \<^verbatim>\<open>_apply\<close> up to its write: every check and the arguments of \<^verbatim>\<open>persist_transition\<close>, computed
  from the rows read before it.
\<close>

definition plan_apply ::
  "runtime \<Rightarrow> draws \<Rightarrow> incident_command \<Rightarrow> string \<Rightarrow> incident_record \<Rightarrow> run_record \<Rightarrow> store
     \<Rightarrow> persist_args outcome" where
  "plan_apply rt dr c sha i r s =
     (let w = rt_workflow rt
      in and_then (assert_supported_state w (ir_state i) (rr_state r)) (\<lambda>_.
         and_then (case workflow_transition w (c_transition_id c) of
             Inl _ \<Rightarrow> Inl (InvalidTransitionError (''unknown transition '' @ c_transition_id c))
           | Inr t \<Rightarrow> Inr t) (\<lambda>t.
         and_then (validate c t (ir_state i) (ir_version i)) (\<lambda>_.
         and_then (if t_id t = ''close_incident''
             then and_then (reviewed_postmortem_version i s) (\<lambda>v. Inr (Some v)) else Inr None)
           (\<lambda>reviewed.
         and_then (reduce w dr c t (ir_state i) (rr_state r)) (\<lambda>(istate, rstate).
         and_then (decision_document w dr c t (ir_state i) reviewed) (\<lambda>document.
         let snapshot = (if latest_snapshot (c_run_id c) s = None \<or>
                            (rr_version r + 1) mod rt_snapshot_interval rt = 0
                         then Some \<lparr>sd_id = d_id dr ''snap'', sd_incident_state = istate,
                                    sd_run_state = rstate, sd_created_at = d_now dr\<rparr>
                         else None)
         in Inr \<lparr>pa_command_id = c_command_id c, pa_payload_sha256 = sha,
              pa_incident_id = c_incident_id c, pa_run_id = c_run_id c,
              pa_expected_incident_version = ir_version i, pa_expected_run_version = rr_version r,
              pa_incident_state = istate, pa_run_state = rstate,
              pa_decision = \<lparr>dd_id = d_id dr ''dec'', dd_document = document, dd_decided_at = d_now dr,
                             dd_run_id = Some (c_run_id c), dd_turn_id = c_turn_id c\<rparr>,
              pa_events = state_change_event w dr c t istate rstate # map (extra_event dr) (c_extra_events c),
              pa_snapshot = snapshot, pa_dispatch_id = c_dispatch_id c,
              pa_contexts = c_contexts c\<rparr>)))))))"

definition apply_command ::
  "runtime \<Rightarrow> draws \<Rightarrow> incident_command \<Rightarrow> string \<Rightarrow> incident_record \<Rightarrow> run_record \<Rightarrow> store
     \<Rightarrow> (transition_result \<times> store) outcome" where
  "apply_command rt dr c sha i r s =
     and_then (plan_apply rt dr c sha i r s) (\<lambda>a. persist_transition (d_token dr) a s)"

section \<open>The operations\<close>

definition execute ::
  "runtime \<Rightarrow> draws \<Rightarrow> incident_command \<Rightarrow> store \<Rightarrow> (transition_result \<times> store) outcome" where
  "execute rt dr c s =
     (let sha = rt_digest rt (command_payload c)
      in and_then (get_transition (c_incident_id c) (c_command_id c) sha s) (\<lambda>replayed.
         case replayed of Some r \<Rightarrow> Inr (r, s)
         | None \<Rightarrow>
             (case get_incident (c_incident_id c) s of
                None \<Rightarrow> Inl (IncidentNotFoundError (c_incident_id c))
              | Some i \<Rightarrow>
                  (case get_for_incident (c_run_id c) (c_incident_id c) s of
                     None \<Rightarrow> Inl (RunNotFoundError (c_run_id c))
                   | Some r \<Rightarrow> apply_command rt dr c sha i r s))))"

text \<open>\<^verbatim>\<open>_refuse_beside_live_run\<close>: a run in the incident's state that still works or waits.\<close>

definition live_run :: "incident_record \<Rightarrow> run_record \<Rightarrow> bool" where
  "live_run i r = (get (rr_state r) ''current_state'' = get (ir_state i) ''state'' \<and>
     str_in (get (rr_state r) ''status'') live_run_statuses \<and>
     get (rr_state r) ''pending_command'' \<noteq> JStr ''escalate'')"

definition refuse_beside_live_run :: "incident_record \<Rightarrow> store \<Rightarrow> unit outcome" where
  "refuse_beside_live_run i s =
     raise_if (\<exists>rid\<in>set (list_ids (ir_id i) s).
         case get_for_incident rid (ir_id i) s of None \<Rightarrow> False | Some r \<Rightarrow> live_run i r)
       (InvalidTransitionError ''a run is still live on this incident'')"

text \<open>The command \<^verbatim>\<open>start_run\<close> applies: the objective's transition, or a retry of the investigation.\<close>

definition start_command :: "run_start \<Rightarrow> string \<Rightarrow> bool \<Rightarrow> string \<Rightarrow> incident_command" where
  "start_command q run_id retry tid =
     \<lparr>c_command_id = s_command_id q, c_incident_id = s_incident_id q, c_run_id = run_id,
      c_transition_id = (if retry then ''continue_investigation'' else tid),
      c_actor = s_actor q, c_actor_reference = s_actor_reference q, c_outcome = None,
      c_approval = False, c_expected_incident_version = None, c_dispatch_id = None, c_turn_id = None,
      c_inputs = (if \<not> retry then None
        else if s_actor q = ''human'' then Some (dict [(''human_retry'', JBool True)])
        else Some (dict [(''retry'', JBool True)])),
      c_extra_events = [], c_contexts = [], c_execution = None\<rparr>"

definition start_run ::
  "runtime \<Rightarrow> draws \<Rightarrow> run_start \<Rightarrow> store \<Rightarrow> (transition_result \<times> store) outcome" where
  "start_run rt dr q s =
     (case map_of objective_transitions (s_objective q) of
        None \<Rightarrow> Inl (InvalidTransitionError (''objective '' @ s_objective q @ '' has no transition''))
      | Some tid0 \<Rightarrow>
          let sha = rt_digest rt (start_payload q)
          in and_then (get_transition (s_incident_id q) (s_command_id q) sha s) (\<lambda>replayed.
             case replayed of Some r \<Rightarrow> Inr (r, s)
             | None \<Rightarrow>
                 (case get_incident (s_incident_id q) s of
                    None \<Rightarrow> Inl (IncidentNotFoundError (s_incident_id q))
                  | Some i \<Rightarrow>
                      let retry = (s_objective q = ''investigate'' \<and>
                                   get (ir_state i) ''state'' = JStr ''investigating'')
                      in and_then (raise_if (retry \<and> s_actor q \<noteq> ''human'' \<and> s_actor q \<noteq> ''system'')
                           (InvalidTransitionError ''only a person or the system retries'')) (\<lambda>_.
                         and_then (if retry then refuse_beside_live_run i s else Inr ()) (\<lambda>_.
                         and_then (add_run (d_id dr ''run'') (s_incident_id q)
                             (dict [(''workflow_version'', JStr (w_version (rt_workflow rt))),
                                    (''current_state'', get (ir_state i) ''state''),
                                    (''status'', JStr ''running'')]) (d_now dr) s) (\<lambda>(run, s1).
                         apply_command rt dr (start_command q (rr_id run) retry tid0)
                           sha i run s1))))))"

definition current :: "runtime \<Rightarrow> string \<Rightarrow> string \<Rightarrow> store \<Rightarrow> incident_view outcome" where
  "current rt iid rid s =
     (case get_incident iid s of None \<Rightarrow> Inl (IncidentNotFoundError iid)
      | Some i \<Rightarrow>
          (case get_for_incident rid iid s of None \<Rightarrow> Inl (RunNotFoundError rid)
           | Some r \<Rightarrow>
               and_then (assert_supported_state (rt_workflow rt) (ir_state i) (rr_state r)) (\<lambda>_.
               Inr \<lparr>v_incident_id = iid, v_run_id = rid, v_incident_state = ir_state i,
                    v_run_state = rr_state r, v_incident_version = ir_version i,
                    v_run_version = rr_version r\<rparr>)))"

definition record_refusal ::
  "draws \<Rightarrow> string \<Rightarrow> string \<Rightarrow> actor_reference \<Rightarrow> string \<Rightarrow> string \<Rightarrow> bool \<Rightarrow> store \<Rightarrow> (unit \<times> store) outcome" where
  "record_refusal dr iid rid actor reason_code request_id denial s =
     and_then (record_run_events iid rid
       \<lparr>dd_id = d_id dr ''dec'',
        dd_document = dict [(''actor'', JStr ''human''), (''actor_reference'', JObj (actor_dict actor)),
          (''decision_point'', JStr ''mitigation_approval''),
          (''reason'', JStr (''approval not applied: '' @ reason_code)),
          (''decided_at'', JStr (isoformat (d_now dr)))],
        dd_decided_at = d_now dr, dd_run_id = Some rid, dd_turn_id = None\<rparr>
       [\<lparr>ed_id = d_id dr ''evt'', ed_kind = (if denial then ''denial'' else ''human_command''),
         ed_payload = dict [(''refused_command'', JStr ''approve_mitigation''),
           (''reason_code'', JStr reason_code), (''request_id'', JStr request_id),
           (''state'', JStr ''mitigating'')],
         ed_occurred_at = d_now dr, ed_turn_id = None\<rparr>] s) (\<lambda>(_, s'). Inr ((), s'))"

section \<open>Reconstruction\<close>

text \<open>What one event does to the states being rebuilt, with the transitions counted.\<close>

type_synonym replay_state = "dict \<times> dict \<times> nat"

definition replay_patch_ok :: "json \<Rightarrow> bool" where
  "replay_patch_ok patch = (is_obj patch \<and> keys_exactly (obj patch) [''hypotheses'', ''evidence''] \<and>
     is_list (get (obj patch) ''hypotheses'') \<and> is_list (get (obj patch) ''evidence''))"

definition replay_event :: "run_event \<Rightarrow> replay_state \<Rightarrow> replay_state outcome" where
  "replay_event e st = (case st of (istate, rstate, n) \<Rightarrow>
     if ev_kind e = ''investigation_result'' then
       (let patch = get (ev_payload e) ''incident_patch''
        in if patch = JNull then Inr st
           else if \<not> replay_patch_ok patch
           then Inl (IncidentRuntimeError (''event '' @ ev_id e @ '' has an invalid incident patch''))
           else Inr (istate ++\<^sub>f obj patch, rstate, n))
     else if ev_kind e \<in> set RUN_PATCH_EVENTS then
       and_then (obj_item (ev_payload e) ''run_patch'') (\<lambda>patch. Inr (istate, rstate ++\<^sub>f patch, n))
     else if ev_kind e \<noteq> ''state_change'' then Inr st
     else
       (let i = get (ev_payload e) ''incident_state''; r = get (ev_payload e) ''run_state''
        in if \<not> is_obj i \<or> \<not> is_obj r
           then Inl (IncidentRuntimeError (''event '' @ ev_id e @ '' cannot be replayed''))
           else Inr (obj i, obj r, Suc n)))"

definition replay_events :: "run_event list \<Rightarrow> replay_state \<Rightarrow> replay_state outcome" where
  "replay_events = fold_raise replay_event"

definition reconstruct :: "runtime \<Rightarrow> string \<Rightarrow> string \<Rightarrow> store \<Rightarrow> incident_view outcome" where
  "reconstruct rt iid rid s =
     and_then (load_replay rid iid s) (\<lambda>rp.
     case rp_snapshot rp of
       None \<Rightarrow> Inl (IncidentRuntimeError ''replay requires an initial snapshot'')
     | Some n \<Rightarrow>
         and_then (raise_if (sn_incident_id n \<noteq> iid \<or> sn_run_id n \<noteq> rid)
           (IncidentRuntimeError ''snapshot aggregate identity does not match replay'')) (\<lambda>_.
         and_then (replay_events (rp_events rp) (sn_incident_state n, sn_run_state n, 0))
           (\<lambda>(istate, rstate, transitions).
         and_then (assert_supported_state (rt_workflow rt) istate rstate) (\<lambda>_.
         and_then (raise_if (ir_id (rp_incident rp) \<noteq> iid \<or> rr_incident_id (rp_run rp) \<noteq> iid)
           (IncidentNotFoundError iid)) (\<lambda>_.
         let version = sn_version n + int transitions
         in and_then (raise_if (ir_version (rp_incident rp) < version \<or> rr_version (rp_run rp) \<noteq> version \<or>
                ir_state (rp_incident rp) \<noteq> istate \<or> rr_state (rp_run rp) \<noteq> rstate)
              (IncidentStaleWriteError ''replay watermark changed while reconstructing'')) (\<lambda>_.
            Inr \<lparr>v_incident_id = iid, v_run_id = rid, v_incident_state = istate, v_run_state = rstate,
                 v_incident_version = ir_version (rp_incident rp), v_run_version = version\<rparr>))))))"

end
