(* ===== verification/Commands.thy ===== *)
theory Commands
  imports Runtime
begin

text \<open>
  The contract's human commands resolved to named transitions (\<^verbatim>\<open>incident/commands.py\<close>): which
  command means which transition, that a command always carries the person who issued it, and
  that only the two approving commands carry approval.
\<close>

definition COMMAND_TRANSITIONS :: "(string \<times> string \<times> string option) list" where
  "COMMAND_TRANSITIONS =
     [(''approve_mitigation'', ''apply_mitigation'', Some ''approve''),
      (''reject_mitigation'', ''reject_mitigation'', Some ''reject''),
      (''request_changes'', ''reject_mitigation'', Some ''request_changes''),
      (''verification_passed'', ''verification_passed'', Some ''stable''),
      (''verification_failed'', ''verification_failed'', Some ''not_stable''),
      (''close_incident'', ''close_incident'', None)]"

definition DISPOSITION_TRANSITIONS :: "(string \<times> string) list" where
  "DISPOSITION_TRANSITIONS =
     [(''dismiss'', ''triage_dismiss''), (''link'', ''triage_link''), (''declare'', ''triage_declare'')]"

definition APPROVING_COMMANDS :: "string list" where
  "APPROVING_COMMANDS = [''approve_mitigation'', ''close_incident'']"

definition DEFERRED_COMMANDS :: "string list" where
  "DEFERRED_COMMANDS = [''escalate'', ''cancel_run'']"

record human_command =
  h_command_id :: string
  h_incident_id :: string
  h_run_id :: string
  h_command :: string
  h_actor_reference :: actor_reference
  h_disposition :: "string option"
  h_comment :: "string option"
  h_expected_incident_version :: "int option"
  h_turn_id :: "string option"
  h_inputs :: "dict option"

text \<open>The transition and outcome a command names.\<close>

definition resolve_name :: "human_command \<Rightarrow> (string \<times> string option) outcome" where
  "resolve_name h =
     (if h_command h \<in> set DEFERRED_COMMANDS
      then Inl (InvalidTransitionError
        (''command '' @ h_command h @ '' performs no state transition in this workflow version''))
      else if h_command h = ''propose_disposition'' then
        (let d = (case h_disposition h of None \<Rightarrow> [] | Some x \<Rightarrow> x)
         in case map_of DISPOSITION_TRANSITIONS d of
              None \<Rightarrow> Inl (InvalidTransitionError ''propose_disposition requires a declared disposition'')
            | Some tid \<Rightarrow> Inr (tid, Some d))
      else
        (case map_of COMMAND_TRANSITIONS (h_command h) of
           None \<Rightarrow> Inl (InvalidTransitionError (''unknown command '' @ h_command h))
         | Some mapped \<Rightarrow>
             and_then (raise_if (h_disposition h \<noteq> None)
               (InvalidTransitionError (''command '' @ h_command h @ '' does not take a disposition''))) (\<lambda>_.
             Inr mapped)))"

definition resolve :: "human_command \<Rightarrow> incident_command outcome" where
  "resolve h =
     and_then (resolve_name h) (\<lambda>(tid, outcome).
     let inputs = (case h_inputs h of None \<Rightarrow> fmempty | Some d \<Rightarrow> d);
         inputs' = (case h_comment h of None \<Rightarrow> inputs | Some c \<Rightarrow> fmupd ''comment'' (JStr c) inputs)
     in Inr \<lparr>c_command_id = h_command_id h, c_incident_id = h_incident_id h, c_run_id = h_run_id h,
          c_transition_id = tid, c_actor = ''human'', c_actor_reference = Some (h_actor_reference h),
          c_outcome = outcome, c_approval = (h_command h \<in> set APPROVING_COMMANDS),
          c_expected_incident_version = h_expected_incident_version h, c_dispatch_id = None,
          c_turn_id = h_turn_id h, c_inputs = (if inputs' = fmempty then None else Some inputs'),
          c_extra_events = [], c_contexts = [], c_execution = None\<rparr>)"

section \<open>Facts\<close>

lemmas command_tables = COMMAND_TRANSITIONS_def DISPOSITION_TRANSITIONS_def APPROVING_COMMANDS_def
  DEFERRED_COMMANDS_def

lemma resolve_name_cases:
  assumes "resolve_name h = Inr (tid, outcome)"
  shows "h_command h \<notin> set DEFERRED_COMMANDS"
    and "(h_command h, tid, outcome) \<in> set COMMAND_TRANSITIONS \<or>
         h_command h = ''propose_disposition'' \<and>
           (\<exists>d. h_disposition h = Some d \<and> outcome = Some d \<and> (d, tid) \<in> set DISPOSITION_TRANSITIONS)"
proof -
  from assms show "h_command h \<notin> set DEFERRED_COMMANDS"
    by (auto simp: resolve_name_def split: if_splits)
  show "(h_command h, tid, outcome) \<in> set COMMAND_TRANSITIONS \<or>
         h_command h = ''propose_disposition'' \<and>
           (\<exists>d. h_disposition h = Some d \<and> outcome = Some d \<and> (d, tid) \<in> set DISPOSITION_TRANSITIONS)"
  proof (cases "h_command h = ''propose_disposition''")
    case True
    then show ?thesis using assms
      by (cases "h_disposition h")
         (auto simp: resolve_name_def Let_def command_tables split: option.splits if_splits)
  next
    case False
    with assms have "map_of COMMAND_TRANSITIONS (h_command h) = Some (tid, outcome)"
      by (auto simp: resolve_name_def outcome_simps split: option.splits if_splits)
    then show ?thesis by (auto dest: map_of_SomeD)
  qed
qed

lemma resolve_fields:
  assumes "resolve h = Inr c"
  shows "resolve_name h = Inr (c_transition_id c, c_outcome c)"
    and "c_actor c = ''human''" and "c_actor_reference c = Some (h_actor_reference h)"
    and "c_approval c \<longleftrightarrow> h_command h \<in> set APPROVING_COMMANDS"
    and "c_expected_incident_version c = h_expected_incident_version h"
    and "c_dispatch_id c = None" and "c_extra_events c = []" and "c_contexts c = []"
  using assms by (auto simp: resolve_def outcome_simps Let_def)

text \<open>The outcome a resolved command carries is one its transition declares.\<close>

definition fits_transition :: "incident_command \<Rightarrow> transition option \<Rightarrow> bool" where
  "fits_transition c found = (case found of None \<Rightarrow> False
     | Some t \<Rightarrow> t_requires_approval t = c_approval c \<and> c_actor c \<in> t_actors t \<and>
         (case c_outcome c of None \<Rightarrow> t_outcomes t = [] | Some x \<Rightarrow> x \<in> set (t_outcomes t)))"

lemma resolved_transition:
  assumes "resolve h = Inr c"
  obtains t where "workflow_transition incident_response (c_transition_id c) = Inr t"
    and "t_requires_approval t = c_approval c"
    and "c_actor c \<in> t_actors t"
    and "case c_outcome c of None \<Rightarrow> t_outcomes t = [] | Some x \<Rightarrow> x \<in> set (t_outcomes t)"
proof -
  from resolve_name_cases [OF resolve_fields(1) [OF assms]]
  consider (cmd) "(h_command h, c_transition_id c, c_outcome c) \<in> set COMMAND_TRANSITIONS"
    | (disp) d where "h_command h = ''propose_disposition''" "c_outcome c = Some d"
        "(d, c_transition_id c) \<in> set DISPOSITION_TRANSITIONS"
    by blast
  then have "fits_transition c (map_of pinned_transitions (c_transition_id c))"
  proof cases
    case cmd
    then show ?thesis unfolding COMMAND_TRANSITIONS_def using resolve_fields(2,4) [OF assms]
      by (elim list_memE) (simp_all add: fits_transition_def pinned_simps APPROVING_COMMANDS_def)
  next
    case disp
    then show ?thesis unfolding DISPOSITION_TRANSITIONS_def using resolve_fields(2,4) [OF assms]
      by (elim list_memE) (simp_all add: fits_transition_def pinned_simps APPROVING_COMMANDS_def)
  qed
  then obtain t where "map_of pinned_transitions (c_transition_id c) = Some t"
      "fits_transition c (Some t)"
    by (auto simp: fits_transition_def split: option.splits)
  then show thesis using that [of t]
    by (simp add: fits_transition_def workflow_transition_def pinned_lookup)
qed

text \<open>
  C24. Resolving a human command names an existing transition of the pinned workflow that
  people may execute, with an outcome that transition declares; it is always attributed to the
  person who issued it; and it carries approval exactly when the transition requires one, which
  only the approving commands name.
\<close>

theorem resolve_sound:
  assumes "resolve h = Inr c"
  shows "(\<exists>t. workflow_transition incident_response (c_transition_id c) = Inr t \<and>
        ''human'' \<in> t_actors t \<and> t_requires_approval t = c_approval c \<and> check_outcome c t = Inr ()) \<and>
     c_actor c = ''human'' \<and> c_actor_reference c = Some (h_actor_reference h) \<and>
     (c_approval c \<longleftrightarrow> h_command h \<in> {''approve_mitigation'', ''close_incident''}) \<and>
     h_command h \<notin> {''escalate'', ''cancel_run''}"
proof -
  obtain t where t: "workflow_transition incident_response (c_transition_id c) = Inr t"
      "t_requires_approval t = c_approval c" "c_actor c \<in> t_actors t"
      "case c_outcome c of None \<Rightarrow> t_outcomes t = [] | Some x \<Rightarrow> x \<in> set (t_outcomes t)"
    using assms by (rule resolved_transition)
  have "check_outcome c t = Inr ()"
    using t(4) by (auto simp: check_outcome_def split: option.splits)
  then show ?thesis
    using t resolve_fields [OF assms] resolve_name_cases(1) [OF resolve_fields(1) [OF assms]]
    by (auto simp: APPROVING_COMMANDS_def DEFERRED_COMMANDS_def)
qed

definition approve_command :: human_command where
  "approve_command = \<lparr>h_command_id = ''cmd_1'', h_incident_id = ''inc_1'', h_run_id = ''run_1'',
     h_command = ''approve_mitigation'',
     h_actor_reference = \<lparr>ar_principal_id = ''ana_ops'', ar_display_name = None,
        ar_reference_version = ''1.0.0''\<rparr>,
     h_disposition = None, h_comment = Some ''looks right'', h_expected_incident_version = Some 3,
     h_turn_id = None, h_inputs = None\<rparr>"

theorem resolve_sound_witness:
  "\<exists>c. resolve approve_command = Inr c \<and> c_transition_id c = ''apply_mitigation'' \<and> c_approval c \<and>
     c_actor_reference c = Some (h_actor_reference approve_command)"
proof -
  obtain c where c: "resolve approve_command = Inr c" "c_transition_id c = ''apply_mitigation''"
    by (auto simp: resolve_def resolve_name_def approve_command_def command_tables Let_def)
  from resolve_sound [OF c(1)] c show ?thesis by (auto simp: approve_command_def)
qed

end
