(* ===== verification/Title.thy ===== *)
theory Title
  imports Workflow
begin

text \<open>
  The incident's short title (\<^verbatim>\<open>incident/title.py\<close>), the one field of model output the safe
  projections let through: plain text on one line, without control or invisible formatting
  characters, of at most \<^verbatim>\<open>MAX_TITLE\<close> characters.
\<close>

definition MAX_TITLE :: nat where "MAX_TITLE = 60"

definition line_break :: "nat \<Rightarrow> bool" where
  "line_break n = (n \<in> set [10, 13, 11, 12, 28, 29, 30, 133, 8232, 8233])"

text \<open>C0 and C1 controls, zero-width characters and bidirectional overrides.\<close>

definition hidden :: "nat \<Rightarrow> bool" where
  "hidden n = (n \<le> 31 \<or> (127 \<le> n \<and> n \<le> 159) \<or> (8203 \<le> n \<and> n \<le> 8207) \<or>
     (8234 \<le> n \<and> n \<le> 8238) \<or> (8288 \<le> n \<and> n \<le> 8292) \<or> (8294 \<le> n \<and> n \<le> 8297) \<or> n = 65279)"

definition clean_title :: "json \<Rightarrow> string option" where
  "clean_title j = (case j of
     JStr s \<Rightarrow>
       if list_ex line_break (strip_cps (utf8_decode s)) then None
       else let title = join_with [32] (split_ws [] (filter (\<lambda>n. \<not> hidden n) (utf8_decode s)))
            in if 0 < length title \<and> length title \<le> MAX_TITLE then Some (utf8_encode title) else None
   | _ \<Rightarrow> None)"

definition title_of :: "json \<Rightarrow> string option" where
  "title_of state =
     (let hypotheses = (if is_obj state then get (obj state) ''hypotheses'' else JNull);
          latest = (if is_list hypotheses \<and> elems hypotheses \<noteq> [] then last (elems hypotheses) else JNull)
      in if is_obj latest then clean_title (get (obj latest) ''title'') else None)"

section \<open>Words\<close>

lemma split_ws_words:
  "list_all (\<lambda>n. \<not> py_space n) acc \<Longrightarrow> w \<in> set (split_ws acc cs) \<Longrightarrow>
     w \<noteq> [] \<and> list_all (\<lambda>n. \<not> py_space n) w \<and> set w \<subseteq> set acc \<union> set cs"
proof (induction acc cs rule: split_ws.induct)
  case (1 acc)
  then show ?case by (auto simp: list_all_iff split: if_splits)
next
  case (2 acc c cs)
  then show ?case by (fastforce simp: list_all_iff split: if_splits)
qed

lemma split_ws_word:
  "list_all (\<lambda>n. \<not> py_space n) w \<Longrightarrow> split_ws acc (w @ cs) = split_ws (rev w @ acc) cs"
  by (induction w arbitrary: acc) simp_all

lemma split_ws_join:
  assumes "\<And>w. w \<in> set ws \<Longrightarrow> w \<noteq> [] \<and> list_all (\<lambda>n. \<not> py_space n) w"
  shows "split_ws [] (join_with [32] ws) = ws"
  using assms
proof (induction "[32::nat]" ws rule: join_with.induct)
  case (2 w)
  then show ?case using split_ws_word [of w "[]" "[]"] by simp
next
  case (3 x y ys)
  then have "split_ws [] (join_with [32] (y # ys)) = y # ys" by simp
  moreover have "x \<noteq> []" "list_all (\<lambda>n. \<not> py_space n) x" using 3 by auto
  ultimately show ?case by (simp add: split_ws_word py_space_def)
qed simp_all

lemma set_join_with: "set (join_with sep ws) \<subseteq> set sep \<union> \<Union> (set ` set ws)"
  by (induction sep ws rule: join_with.induct) auto

lemma hd_join_with: "hd (join_with sep (w # ws)) = (if w \<noteq> [] then hd w else hd (join_with sep (w # ws)))"
  by (cases ws) auto

lemma last_join_with:
  "(\<And>w. w \<in> set ws \<Longrightarrow> w \<noteq> []) \<Longrightarrow> ws \<noteq> [] \<Longrightarrow> join_with sep ws \<noteq> [] \<and> last (join_with sep ws) = last (last ws)"
  by (induction sep ws rule: join_with.induct) auto

lemma strip_joined:
  assumes "\<And>w. w \<in> set ws \<Longrightarrow> w \<noteq> [] \<and> list_all (\<lambda>n. \<not> py_space n) w"
  shows "strip_cps (join_with [32] ws) = join_with [32] ws"
proof (cases ws)
  case Nil
  then show ?thesis by (simp add: strip_cps_def)
next
  case (Cons w rest)
  let ?t = "join_with [32] ws"
  have last: "?t \<noteq> []" "last ?t = last (last ws)"
    using last_join_with [of ws "[32]"] assms Cons by auto
  have "last ws \<in> set ws" using Cons by simp
  then have "\<not> py_space (last ?t)"
    using assms [of "last ws"] last by (auto simp: list_all_iff)
  moreover have "\<not> py_space (hd ?t)"
    using assms [of w] hd_join_with [of "[32]" w rest] Cons by (auto simp: list_all_iff)
  then have "dropWhile py_space ?t = ?t" using last by (cases ?t) auto
  ultimately show ?thesis
    using last by (simp add: strip_cps_def) (cases ?t rule: rev_cases; simp)
qed

section \<open>Titles\<close>

lemma clean_title_words:
  assumes "clean_title j = Some t"
  obtains ws where "t = utf8_encode (join_with [32] ws)" "utf8_decode t = join_with [32] ws"
    and "\<forall>w\<in>set ws. w \<noteq> [] \<and> list_all (\<lambda>n. \<not> py_space n \<and> \<not> hidden n) w"
    and "0 < length (join_with [32] ws)" "length (join_with [32] ws) \<le> MAX_TITLE"
proof -
  obtain s where s: "j = JStr s" using assms by (auto simp: clean_title_def split: json.splits)
  define cs where "cs = filter (\<lambda>n. \<not> hidden n) (utf8_decode s)"
  define ws where "ws = split_ws [] cs"
  have words: "w \<noteq> [] \<and> list_all (\<lambda>n. \<not> py_space n \<and> \<not> hidden n) w \<and> set w \<subseteq> set cs" if "w \<in> set ws" for w
    using split_ws_words [of "[]" w cs] that by (auto simp: ws_def cs_def list_all_iff)
  have t: "t = utf8_encode (join_with [32] ws)" "0 < length (join_with [32] ws)"
      "length (join_with [32] ws) \<le> MAX_TITLE"
    using assms by (simp_all add: s clean_title_def Let_def ws_def cs_def split: if_splits)
  have "set (join_with [32] ws) \<subseteq> insert 32 (set (utf8_decode s))"
    using set_join_with [of "[32]" ws] words by (fastforce simp: cs_def)
  moreover have "scalar 32" by (simp add: scalar_def)
  ultimately have "list_all scalar (join_with [32] ws)"
    using scalar_utf8_decode [of s] unfolding list_all_iff by blast
  then have "utf8_decode t = join_with [32] ws" by (simp add: t utf8_decode_encode)
  with t words show thesis by (intro that [of ws]) simp_all
qed

lemma not_hidden_space [simp]: "\<not> hidden 32" "\<not> line_break 32"
  by (simp_all add: hidden_def line_break_def)

lemma line_break_hidden: "line_break n \<Longrightarrow> hidden n \<or> py_space n"
  unfolding line_break_def by (elim list_memE) (simp_all add: hidden_def py_space_def)

text \<open>
  Whatever value the model supplied, a title that is shown has between one and
  \<^verbatim>\<open>MAX_TITLE\<close> characters, none of them a control, an invisible formatting character or a line
  break, no leading or trailing space; and it is a fixed point: reading it again where it is
  shown yields the same title.
\<close>

theorem clean_title_safe:
  assumes "clean_title j = Some t"
  shows "0 < py_len t \<and> py_len t \<le> MAX_TITLE \<and>
    list_all (\<lambda>n. \<not> hidden n \<and> \<not> line_break n) (utf8_decode t) \<and> py_strip t = t \<and>
    clean_title (JStr t) = Some t"
proof -
  obtain ws where ws: "t = utf8_encode (join_with [32] ws)" "utf8_decode t = join_with [32] ws"
      "\<forall>w\<in>set ws. w \<noteq> [] \<and> list_all (\<lambda>n. \<not> py_space n \<and> \<not> hidden n) w"
      "0 < length (join_with [32] ws)" "length (join_with [32] ws) \<le> MAX_TITLE"
    using assms by (rule clean_title_words)
  have plain: "w \<noteq> [] \<and> list_all (\<lambda>n. \<not> py_space n) w" if "w \<in> set ws" for w
    using ws(3) that by (auto simp: list_all_iff)
  have chars: "\<not> hidden n \<and> \<not> line_break n" if "n \<in> set (join_with [32] ws)" for n
  proof (cases "n = 32")
    case False
    then obtain w where "w \<in> set ws" "n \<in> set w"
      using \<open>n \<in> set (join_with [32] ws)\<close> set_join_with [of "[32]" ws] by fastforce
    then show ?thesis using ws(3) line_break_hidden [of n] by (auto simp: list_all_iff)
  qed simp
  have strip: "strip_cps (join_with [32] ws) = join_with [32] ws"
    using plain by (rule strip_joined)
  have "filter (\<lambda>n. \<not> hidden n) (join_with [32] ws) = join_with [32] ws"
    using chars by simp
  moreover have "\<not> list_ex line_break (join_with [32] ws)"
    using chars by (auto simp: list_ex_iff)
  ultimately have "clean_title (JStr t) = Some t"
    using ws(1,2,4,5) plain by (simp add: clean_title_def Let_def strip split_ws_join)
  then show ?thesis
    using ws chars strip by (simp add: py_len_def list_all_iff py_strip_def)
qed

theorem clean_title_safe_witness:
  "clean_title (JStr ''  Checkout   payments fail '') = Some ''Checkout payments fail'' \<and>
     py_len ''Checkout payments fail'' \<le> MAX_TITLE"
proof -
  have "clean_title (JStr ''  Checkout   payments fail '') = Some ''Checkout payments fail''"
    by (simp add: clean_title_def Let_def utf8_rest_def utf8_lead_def strip_cps_def py_space_def line_break_def
        hidden_def MAX_TITLE_def utf8_encode_def utf8_char.simps char_of_def bit_Suc_0_iff)
  from clean_title_safe [OF this] this show ?thesis by simp
qed

end
