(* ===== verification/Projections.thy ===== *)
theory Projections
  imports Store Title
begin

text \<open>
  The safe read projections (\<^verbatim>\<open>incident/projections.py\<close>) and the closed list of causes they may
  show (\<^verbatim>\<open>incident/reasons.py\<close>): cursors, event summaries, the timeline entry of an event, the
  detail of an incident, a row of the list, and a historical snapshot. \<open>render\<close> is the text
  Python prints for floats and containers, which interpolation may reach.
\<close>

section \<open>Causes\<close>

definition DISPATCH_CAUSES :: "(string \<times> string) list" where
  "DISPATCH_CAUSES =
    [(''harness_not_configured'', ''the investigator gateway is not configured.''),
     (''harness_identity_unavailable'', ''the investigator's agent identity is inactive or missing; reactivate it in Principals or ask an administrator.''),
     (''mcp_discovery_denied'', ''the agent identity has no grant to discover the MCP tools.''),
     (''mcp_discovery_rejected'', ''the MCP server is not configured or rejected tool discovery.''),
     (''mcp_discovery_transient'', ''the MCP server did not answer tool discovery.''),
     (''governed_call_denied'', ''a governed call of the agent was denied.''),
     (''investigation_mcp_contract_rejected'', ''an MCP call did not match the tool contract.''),
     (''investigation_upstream_unavailable'', ''the model provider was unavailable.''),
     (''investigation_tool_unavailable'', ''an MCP tool failed or did not answer in time.''),
     (''tool_timeout'', ''an MCP tool did not answer within the investigator's tool timeout.''),
     (''investigation_max_steps'', ''the agent used its whole step budget.''),
     (''investigation_invalid_output'', ''the model returned output the harness cannot use.''),
     (''investigation_no_measured_evidence'', ''no cited evidence had measured data.''),
     (''investigator_failed'', ''the investigator failed unexpectedly.''),
     (''result_persistence_uncertain'', ''the result could not be confirmed as saved.''),
     (''stale_incident_snapshot'', ''the incident changed while the agent investigated.''),
     (''producer_interrupted'', ''the previous dispatch was interrupted.'')]"

definition START_CAUSES :: "(string \<times> string) list" where
  "START_CAUSES =
    [(''run_start_not_authorized'', ''the declarant lacks the run.start grant; an administrator must grant it, then a person may start the investigation.'')]"

definition EXECUTION_CAUSES :: "(string \<times> string) list" where
  "EXECUTION_CAUSES =
    [(''precondition_failed'', ''the deploy-executor's catalog no longer offers the operation as proposed.''),
     (''operation_not_authorized'', ''the agent holds no mitigation.execute grant for the operation.''),
     (''executor_unavailable'', ''the deploy-executor is not configured or did not answer.''),
     (''execution_failed'', ''the deploy-executor answered with a failure.'')]"

definition PROJECTED_REASON_CODES :: "string list" where
  "PROJECTED_REASON_CODES = map fst DISPATCH_CAUSES @ map fst START_CAUSES @ map fst EXECUTION_CAUSES"

definition SEVERITIES :: "string list" where
  "SEVERITIES = [''sev1'', ''sev2'', ''sev3'', ''sev4'']"

definition RUN_STATUSES :: "string list" where
  "RUN_STATUSES = [''running'', ''awaiting_human'', ''completed'', ''terminated'']"

definition TRANSITION_SUMMARIES :: "(string \<times> string) list" where
  "TRANSITION_SUMMARIES =
    [(''open_triage'', ''Triage opened.''),
     (''triage_dismiss'', ''Alert dismissed.''),
     (''triage_link'', ''Alert linked to an existing incident.''),
     (''triage_declare'', ''Incident declared.''),
     (''start_investigation'', ''Investigation started.''),
     (''continue_investigation'', ''Investigation continued.''),
     (''propose_mitigation'', ''Mitigation proposed.''),
     (''apply_mitigation'', ''Mitigation approved.''),
     (''reject_mitigation'', ''Mitigation sent back for changes.''),
     (''verification_failed'', ''Verification failed; returned to investigating.''),
     (''verification_passed'', ''Service verified stable.''),
     (''start_postmortem'', ''Postmortem started.''),
     (''close_incident'', ''Incident closed.'')]"

definition TERMINATED_SUMMARIES :: "(string \<times> string) list" where
  "TERMINATED_SUMMARIES =
    [(''completed'', ''Investigation concluded; the run ended.''),
     (''max_steps'', ''Investigation run ended: step budget exhausted; a new run may retry.''),
     (''needs_human'', ''Investigation run ended: it needs a human; a new run may retry.''),
     (''invalid_output'', ''Investigation run ended: invalid agent output; a new run may retry.''),
     (''upstream_unavailable'', ''Investigation run ended: the model provider or an MCP tool was unavailable; a new run may retry.'')]"

section \<open>Cursors and identifiers\<close>

definition encode_cursor :: "int \<Rightarrow> string" where
  "encode_cursor n = ''seq:'' @ int_str n"

text \<open>
  \<^verbatim>\<open>int(digits)\<close> refuses more than 4300 digits. The pattern is \<^verbatim>\<open>seq:(-?\d+)\<close>, whose digits are
  those of any script.
\<close>

definition MAX_STR_DIGITS :: nat where "MAX_STR_DIGITS = 4300"

definition cursor_value :: "bool \<Rightarrow> nat list \<Rightarrow> int outcome" where
  "cursor_value negative digits =
     (case (if digits = [] then None else decimal_value 0 digits) of
        None \<Rightarrow> Inl (ValueError ''invalid cursor'')
      | Some n \<Rightarrow>
          if MAX_STR_DIGITS < length digits then Inl (ValueError ''Exceeds the limit (4300 digits)'')
          else let v = (if negative then - int n else int n)
               in if v < -1 then Inl (ValueError ''invalid cursor'') else Inr v)"

definition decode_cursor :: "string option \<Rightarrow> int outcome" where
  "decode_cursor after = (case after of None \<Rightarrow> Inr (-1)
     | Some text \<Rightarrow>
         (case after_prefix ''seq:'' text of None \<Rightarrow> Inl (ValueError ''invalid cursor'')
          | Some body \<Rightarrow>
              (case utf8_decode body of
                 [] \<Rightarrow> Inl (ValueError ''invalid cursor'')
               | c # cs \<Rightarrow> if c = 45 then cursor_value True cs else cursor_value False (c # cs))))"

text \<open>\<^verbatim>\<open>turn_[a-z0-9]{8,32}\<close> becomes \<^verbatim>\<open>task_...\<close>.\<close>

definition gateway_task_id :: "string option \<Rightarrow> string option" where
  "gateway_task_id turn = (case turn of None \<Rightarrow> None
     | Some t \<Rightarrow> (case after_prefix ''turn_'' t of None \<Rightarrow> None
         | Some r \<Rightarrow> if class_run lower_digit 8 32 r then Some (''task_'' @ r) else None))"

definition actor_reference_of :: "json \<Rightarrow> dict option" where
  "actor_reference_of document =
     (let reference = (if is_obj document then get (obj document) ''actor_reference'' else JNull);
          r = obj reference; principal_id = get r ''principal_id''; display_name = get r ''display_name''
      in if \<not> is_obj reference \<or> get r ''reference_version'' \<noteq> JStr ''1.0.0'' \<or>
            \<not> (case principal_id of JStr p \<Rightarrow> identifier_pattern p | _ \<Rightarrow> False) \<or>
            (display_name \<noteq> JNull \<and> \<not> is_str display_name)
         then None
         else Some (dict [(''reference_version'', JStr ''1.0.0''), (''principal_id'', principal_id),
                          (''display_name'', display_name)]))"

text \<open>
  \<^verbatim>\<open>uuid.UUID(s)\<close>: \<^verbatim>\<open>urn:\<close>, \<^verbatim>\<open>uuid:\<close>, outer braces and hyphens are removed, and
  \<^verbatim>\<open>int(hex, 16)\<close> reads the 32 characters left, with its spaces, sign, \<^verbatim>\<open>0x\<close> and underscores.
\<close>

definition hex_digit :: "nat \<Rightarrow> nat option" where
  "hex_digit c = (if 97 \<le> c \<and> c \<le> 102 then Some (c - 87) else if 65 \<le> c \<and> c \<le> 70 then Some (c - 55)
     else decimal c)"

fun hex_value :: "nat \<Rightarrow> bool \<Rightarrow> nat list \<Rightarrow> nat option" where
  "hex_value acc after_digit [] = (if after_digit then Some acc else None)"
| "hex_value acc after_digit (c # cs) =
     (if c = 95 then (if after_digit then hex_value acc False cs else None)
      else case hex_digit c of None \<Rightarrow> None | Some d \<Rightarrow> hex_value (acc * 16 + d) True cs)"

definition int_space :: "nat \<Rightarrow> bool" where
  "int_space c = (py_space c \<and> \<not> (28 \<le> c \<and> c \<le> 31))"

definition unprefixed_hex :: "nat list \<Rightarrow> nat list" where
  "unprefixed_hex cs = (case cs of
     z # x # rest \<Rightarrow> if z = 48 \<and> (x = 120 \<or> x = 88)
       then (case rest of u # r \<Rightarrow> if u = 95 then r else rest | [] \<Rightarrow> [])
       else cs
   | _ \<Rightarrow> cs)"

definition int16 :: "nat list \<Rightarrow> int option" where
  "int16 cs =
     (let t = rev (dropWhile int_space (rev (dropWhile int_space cs)))
      in case t of
           [] \<Rightarrow> None
         | c # r \<Rightarrow>
             if c = 45 then map_option (\<lambda>n. - int n) (hex_value 0 False (unprefixed_hex r))
             else if c = 43 then map_option int (hex_value 0 False (unprefixed_hex r))
             else map_option int (hex_value 0 False (unprefixed_hex t)))"

definition hex_nibble :: "nat \<Rightarrow> char" where
  "hex_nibble d = (if d < 10 then char_of (48 + d) else char_of (87 + d))"

definition hex32 :: "nat \<Rightarrow> string" where
  "hex32 n = map (\<lambda>i. hex_nibble (n div 16 ^ (31 - i) mod 16)) [0..<32]"

definition uuid_text :: "nat \<Rightarrow> string" where
  "uuid_text n = (let h = hex32 n
     in take 8 h @ ''-'' @ take 4 (drop 8 h) @ ''-'' @ take 4 (drop 12 h) @ ''-'' @
        take 4 (drop 16 h) @ ''-'' @ drop 20 h)"

definition brace :: "char \<Rightarrow> bool" where
  "brace c = (c = CHR ''{'' \<or> c = CHR ''}'')"

definition uuid_parse :: "string \<Rightarrow> string option" where
  "uuid_parse s =
     (let h0 = py_replace ''uuid:'' [] (py_replace ''urn:'' [] s);
          h1 = rev (dropWhile brace (rev (dropWhile brace h0)));
          cs = utf8_decode (py_replace ''-'' [] h1)
      in if length cs \<noteq> 32 then None
         else case int16 cs of None \<Rightarrow> None
              | Some v \<Rightarrow> if 0 \<le> v \<and> v < 2 ^ 128 then Some (uuid_text (nat v)) else None)"

text \<open>\<^verbatim>\<open>str(UUID(x)) if isinstance(x, str) else None\<close>, with a malformed text read as none.\<close>

definition request_id_of :: "json \<Rightarrow> string option" where
  "request_id_of j = (case j of JStr s \<Rightarrow> uuid_parse s | _ \<Rightarrow> None)"

definition safe_reason_code :: "dict \<Rightarrow> string option outcome" where
  "safe_reason_code payload =
     (let receipt = get payload ''dispatch_receipt''; inner = get (obj receipt) ''reason_code'';
          outer = get payload ''reason_code''
      in and_then (if is_obj receipt then hash_in inner PROJECTED_REASON_CODES else Inr False) (\<lambda>hit.
         if hit then Inr (case inner of JStr c \<Rightarrow> Some c | _ \<Rightarrow> None)
         else and_then (hash_in outer PROJECTED_REASON_CODES) (\<lambda>known.
              Inr (if known then (case outer of JStr c \<Rightarrow> Some c | _ \<Rightarrow> None) else None))))"

section \<open>Summaries\<close>

definition dispatch_cause :: "dict \<Rightarrow> string option outcome" where
  "dispatch_cause receipt =
     (let code = get receipt ''reason_code''; agent = get receipt ''agent_principal_id''
      in and_then (hash_in code (map fst DISPATCH_CAUSES)) (\<lambda>known.
         Inr (if \<not> known then None
           else case (code, agent) of
             (JStr c, JStr a) \<Rightarrow>
               if c = ''harness_identity_unavailable'' \<and> identifier_pattern a
               then Some (''the configured identity '' @ [CHR 0x27] @ a @ [CHR 0x27] @ '' is inactive or not an agent; reactivate it in Principals or ask an administrator.'')
               else map_of DISPATCH_CAUSES c
           | (JStr c, _) \<Rightarrow> map_of DISPATCH_CAUSES c
           | _ \<Rightarrow> None)))"

text \<open>The arrow U+2192 between two values.\<close>

definition arrow :: string where
  "arrow = '' '' @ utf8_char 8594 @ '' ''"

definition executed_summary :: "(json \<Rightarrow> string) \<Rightarrow> json \<Rightarrow> string option outcome" where
  "executed_summary render incident_state =
     (let strategy = (if is_obj incident_state then get (obj incident_state) ''mitigation_strategy'' else JNull);
          ran = (if is_obj strategy then get (obj strategy) ''execution'' else JNull);
          operation = (if is_obj strategy then get (obj strategy) ''operation'' else JNull);
          before = get (obj ran) ''before_image''; after = get (obj ran) ''after_image'';
          parameters = py_or (get (obj operation) ''parameters'') (JObj fmempty);
          p = py_str render
      in if \<not> is_obj ran \<or> \<not> is_obj operation then Inr None
         else
           and_then
             (if truthy before \<and> truthy after then Inr ('' ('' @ p before @ arrow @ p after @ '')'')
              else if \<not> is_obj parameters then Inl (AttributeError ''get'')
              else if truthy (get (obj parameters) ''flag'')
              then Inr ('' ('' @ p (get (obj parameters) ''flag'') @ arrow @
                     p (get (obj parameters) ''variant'') @ '')'')
              else Inr [])
             (\<lambda>change. Inr (Some (''Mitigation approved; the deploy-executor ran '' @
                p (get (obj operation) ''operation'') @ '' on '' @ p (get (obj operation) ''service'') @
                '': '' @ p (get (obj ran) ''outcome'') @ change @ ''.''))))"

text \<open>The parts of \<^verbatim>\<open>event_summary\<close> in the order the code tries them.\<close>

definition receipt_summary :: "(json \<Rightarrow> string) \<Rightarrow> dict \<Rightarrow> string option outcome" where
  "receipt_summary render receipt =
     (let status = get receipt ''status'';
          name = (if ends_with ''-verify'' (py_str render (get receipt ''dispatch_id''))
                  then ''Verification'' else ''Investigation'')
      in if status = JStr ''pending'' then Inr (Some (name @ '' dispatch started.''))
         else if get receipt ''reason_code'' = JStr ''investigation_no_measured_evidence''
         then Inr (Some (name @ '' dispatch ended: no cited evidence had measured data.''))
         else and_then (hash_in status [''success'', ''confirmed_failure'', ''unknown'']) (\<lambda>final.
           if \<not> final then Inr None
           else and_then (if status \<noteq> JStr ''success'' then dispatch_cause receipt else Inr None) (\<lambda>cause.
             let ended = name @ '' dispatch ended: '' @ py_str render status @ ''.''
             in Inr (Some (case cause of None \<Rightarrow> ended | Some c \<Rightarrow> ended @ '' Cause: '' @ c)))))"

definition patch_summary :: "json \<Rightarrow> string option outcome" where
  "patch_summary patch =
     (let reason = get (obj patch) ''terminated_reason''
      in if \<not> is_obj patch then Inr None
         else if reason = JStr ''denied''
         then Inr (Some ''Authorization denied; an administrator must grant the capability, then a new run may retry.'')
         else and_then (hash_in reason (map fst TERMINATED_SUMMARIES)) (\<lambda>known.
           Inr (if known then (case reason of JStr r \<Rightarrow> map_of TERMINATED_SUMMARIES r | _ \<Rightarrow> None) else None)))"

definition ACTION_SUMMARIES :: "(string \<times> string) list" where
  "ACTION_SUMMARIES =
    [(''propose_hypothesis'', ''Investigation proposed a hypothesis.''),
     (''propose_mitigation'', ''Investigation proposed a mitigation.''),
     (''request_human'', ''Investigation requested human review.''),
     (''conclude'', ''Investigation concluded.'')]"

definition outcome_summary :: "(json \<Rightarrow> string) \<Rightarrow> dict \<Rightarrow> string option" where
  "outcome_summary render payload =
     (let outcome = get payload ''outcome'';
          action = (if is_obj outcome then get (obj outcome) ''action'' else JNull);
          cause = map_of EXECUTION_CAUSES (py_str render (get payload ''reason_code''))
      in if action = JStr ''verify_mitigation''
         then Some (''Verification found the service '' @
           (if get (obj outcome) ''passed'' = JBool True then ''recovered'' else ''had not recovered'') @ ''.'')
         else if action = JStr ''request_human'' \<and> get payload ''state'' = JStr ''verifying''
         then Some ''Verification requested human review.''
         else case (case action of JStr a \<Rightarrow> map_of ACTION_SUMMARIES a | _ \<Rightarrow> None) of
           Some text \<Rightarrow> Some text
         | None \<Rightarrow> if get payload ''refused_command'' = JStr ''approve_mitigation''
             then map_option (\<lambda>c. ''Approval not applied: '' @ c @ '' The incident stays mitigating.'') cause
             else None)"

definition start_summary :: "dict \<Rightarrow> string option outcome" where
  "start_summary payload =
     (let code = get payload ''reason_code''
      in and_then (hash_in code (map fst START_CAUSES)) (\<lambda>known.
         Inr (if known then map_option (\<lambda>c. ''The investigation did not start: '' @ c)
                (case code of JStr r \<Rightarrow> map_of START_CAUSES r | _ \<Rightarrow> None) else None)))"

definition event_summary :: "(json \<Rightarrow> string) \<Rightarrow> dict \<Rightarrow> string outcome" where
  "event_summary render payload =
     or_else (if get payload ''transition_id'' = JStr ''apply_mitigation''
              then executed_summary render (get payload ''incident_state'') else Inr None)
     (case get payload ''transition_id'' of
        JStr tid \<Rightarrow> Inr (case map_of TRANSITION_SUMMARIES tid of Some text \<Rightarrow> text
                        | None \<Rightarrow> ''Transition '' @ tid @ '' applied.'')
      | _ \<Rightarrow>
          or_else (start_summary payload)
          (or_else (if is_obj (get payload ''dispatch_receipt'')
                    then receipt_summary render (obj (get payload ''dispatch_receipt'')) else Inr None)
          (or_else (patch_summary (get payload ''run_patch''))
          (or_else (Inr (outcome_summary render payload))
          (Inr ''Incident event recorded.'')))))"

section \<open>Timeline entries\<close>

definition attributable :: "json \<Rightarrow> bool" where
  "attributable actor = str_in actor [''human'', ''agent'', ''system'']"

definition project_event :: "(json \<Rightarrow> string) \<Rightarrow> run_event \<Rightarrow> json \<Rightarrow> dict outcome" where
  "project_event render e document =
     (let actor = (if is_obj document then get (obj document) ''actor'' else JNull);
          payload = ev_payload e;
          state = getd payload ''to'' (get payload ''state'')
      in and_then (raise_if (\<not> attributable actor)
           (MissingDecisionError (''event '' @ ev_id e @ '' has no attributable actor''))) (\<lambda>_.
         and_then (event_summary render payload) (\<lambda>summary.
         and_then (safe_reason_code payload) (\<lambda>code.
         Inr (dict [(''event_id'', JStr (ev_id e)), (''kind'', JStr (ev_kind e)),
           (''sequence'', JInt (ev_sequence e)), (''state'', str_or_null state),
           (''summary'', JStr summary),
           (''actor'', JObj (dict [(''type'', actor), (''reference'', jdict (actor_reference_of document))])),
           (''turn_id'', jopt (ev_turn_id e)), (''task_id'', jopt (gateway_task_id (ev_turn_id e))),
           (''request_id'', jopt (request_id_of (get payload ''request_id''))),
           (''reason_code'', jopt code), (''occurred_at'', JStr (utc_iso (ev_occurred_at e)))])))))"

section \<open>Incidents and runs\<close>

definition ALERT_FIELDS :: "string list" where
  "ALERT_FIELDS = [''alert_id'', ''service'', ''severity'', ''status'', ''observed_at'', ''summary'', ''source'']"

definition ORIGIN_FIELDS :: "string list" where
  "ORIGIN_FIELDS = [''signal'', ''condition'', ''detector'', ''observed_at'']"

fun nonempty_str :: "json \<Rightarrow> bool" where
  "nonempty_str (JStr s) = (s \<noteq> [])"
| "nonempty_str _ = False"

text \<open>The fields a projection keeps, each with the value the document holds.\<close>

definition pick :: "dict \<Rightarrow> string list \<Rightarrow> (string \<times> json) list" where
  "pick d ks = map (\<lambda>k. (k, get d k)) ks"

definition project_origin :: "json \<Rightarrow> (string \<times> json) list outcome" where
  "project_origin origin =
     (if origin = JNull then Inr []
      else if \<not> is_obj origin
      then Inl (UnsupportedWorkflowDataError ''stored alert origin is malformed'')
      else if \<not> keys_within (obj origin) ORIGIN_FIELDS
      then Inl (UnsupportedWorkflowDataError ''stored alert origin carries unknown fields'')
      else Inr [(''origin'', JObj (dict (pick (obj origin)
             (filter (\<lambda>k. is_str (get (obj origin) k)) ORIGIN_FIELDS))))])"

definition project_alert :: "json \<Rightarrow> dict outcome" where
  "project_alert alert =
     (let a = (if is_obj alert then obj alert else fmempty)
      in and_then (map_raise (\<lambda>field. raise_if (\<not> nonempty_str (get a field))
           (UnsupportedWorkflowDataError (''stored alert is missing '' @ field))) ALERT_FIELDS) (\<lambda>_.
         and_then (raise_if (\<not> str_in (get a ''severity'') SEVERITIES)
           (UnsupportedWorkflowDataError ''stored alert carries an unknown severity'')) (\<lambda>_.
         and_then (project_origin (get a ''origin'')) (\<lambda>origin.
         Inr (dict (pick a ALERT_FIELDS @ origin))))))"

definition project_approval :: "json \<Rightarrow> json outcome" where
  "project_approval entry =
     (let e = obj entry
      in if \<not> is_obj entry \<or> \<not> is_str (get e ''approval_id'') \<or> \<not> is_str (get e ''subject_id'') \<or>
            \<not> is_bool (get e ''granted'') \<or> \<not> is_str (get e ''decided_at'')
         then Inl (UnsupportedWorkflowDataError ''stored approval entry is malformed'')
         else Inr (JObj (dict (pick e [''approval_id'', ''subject_id'', ''granted'', ''decided_at'']))))"

definition project_approvals :: "dict \<Rightarrow> json list outcome" where
  "project_approvals state =
     (let approvals = getd state ''approvals'' (JList [])
      in if \<not> is_list approvals
         then Inl (UnsupportedWorkflowDataError ''stored approvals are malformed'')
         else map_raise project_approval (elems approvals))"

definition project_run_summary :: "run_record \<Rightarrow> dict" where
  "project_run_summary r = dict
     [(''run_id'', JStr (rr_id r)), (''version'', JInt (rr_version r)),
      (''status'', str_or_null (get (rr_state r) ''status'')),
      (''current_state'', str_or_null (get (rr_state r) ''current_state'')),
      (''updated_at'', JStr (utc_iso (rr_updated_at r)))]"

definition project_run_state :: "run_record \<Rightarrow> workflow \<Rightarrow> int \<Rightarrow> dict outcome" where
  "project_run_state r w event_sequence =
     (let status = get (rr_state r) ''status''; current_state = get (rr_state r) ''current_state''
      in and_then (hash_in status RUN_STATUSES) (\<lambda>known.
         and_then (raise_if (\<not> known)
           (UnsupportedWorkflowDataError ''stored run carries an unknown status'')) (\<lambda>_.
         and_then (in_states current_state w) (\<lambda>named.
         and_then (raise_if (\<not> named)
           (UnsupportedWorkflowDataError ''stored run names an unknown state'')) (\<lambda>_.
         Inr (dict [(''run_id'', JStr (rr_id r)), (''incident_id'', JStr (rr_incident_id r)),
           (''workflow_version'', JStr (w_version w)), (''status'', status),
           (''current_state'', current_state),
           (''pending_command'', str_or_null (get (rr_state r) ''pending_command'')),
           (''cursor'', JStr (encode_cursor event_sequence)),
           (''terminated_reason'', str_or_null (get (rr_state r) ''terminated_reason'')),
           (''updated_at'', JStr (utc_iso (rr_updated_at r)))]))))))"

text \<open>
  An alert with none of \<^verbatim>\<open>service\<close>, \<^verbatim>\<open>summary\<close> and \<^verbatim>\<open>source\<close> is shown as absent.
\<close>

definition alert_context :: "json \<Rightarrow> json" where
  "alert_context alert =
     (if is_obj alert \<and> list_all (\<lambda>k. k \<notin> fmdom' (obj alert)) [''service'', ''summary'', ''source'']
      then JNull else alert)"

definition project_detail :: "incident_record \<Rightarrow> run_record list \<Rightarrow> workflow \<Rightarrow> dict outcome" where
  "project_detail i rs w =
     (let state = ir_state i; severity = get state ''severity'';
          alert = alert_context (get state ''alert'')
      in and_then (raise_if (get state ''workflow_version'' \<noteq> JStr (w_version w) \<or>
             get state ''workflow_id'' \<noteq> JStr (w_id w))
           (UnsupportedWorkflowDataError ''stored incident uses an unsupported workflow version'')) (\<lambda>_.
         and_then (in_states (get state ''state'') w) (\<lambda>named.
         and_then (raise_if (\<not> named)
           (UnsupportedWorkflowDataError ''stored incident names an unknown state'')) (\<lambda>_.
         and_then (if severity = JNull then Inr True else hash_in severity SEVERITIES) (\<lambda>known.
         and_then (raise_if (\<not> known)
           (UnsupportedWorkflowDataError ''stored incident carries an unknown severity'')) (\<lambda>_.
         and_then (if alert = JNull then Inr JNull
             else and_then (project_alert alert) (\<lambda>a. Inr (JObj a))) (\<lambda>shown.
         and_then (project_approvals state) (\<lambda>approvals.
         Inr (dict [(''incident_id'', JStr (ir_id i)), (''workflow_version'', JStr (w_version w)),
           (''state'', get state ''state''), (''title'', jopt (title_of (JObj state))),
           (''severity'', severity), (''impact'', str_or_null (get state ''impact'')),
           (''alert'', shown), (''approvals'', JList approvals), (''version'', JInt (ir_version i)),
           (''updated_at'', JStr (utc_iso (ir_updated_at i))),
           (''runs'', JList (map (\<lambda>r. JObj (project_run_summary r)) rs))])))))))))"

definition text_or_null :: "json \<Rightarrow> json" where
  "text_or_null j = (if nonempty_str j then j else JNull)"

definition latest_run_row :: "run_record \<Rightarrow> dict" where
  "latest_run_row r = dict
     [(''run_id'', JStr (rr_id r)), (''status'', text_or_null (get (rr_state r) ''status'')),
      (''current_state'', text_or_null (get (rr_state r) ''current_state'')),
      (''pending_command'', text_or_null (get (rr_state r) ''pending_command'')),
      (''terminated_reason'', text_or_null (get (rr_state r) ''terminated_reason'')),
      (''updated_at'', JStr (utc_iso (rr_updated_at r)))]"

text \<open>A decision is pending when the latest run waits for a human.\<close>

definition pending_decision :: "incident_record \<Rightarrow> run_record \<Rightarrow> json" where
  "pending_decision i r =
     (let row = latest_run_row r; command = get row ''pending_command'';
          strategy = get (ir_state i) ''mitigation_strategy'';
          proposed = (command = JStr ''approve_mitigation'' \<and> is_obj strategy \<and>
                      get (obj strategy) ''approval_status'' = JStr ''pending'')
      in if get row ''status'' = JStr ''awaiting_human'' \<and>
            str_in command [''approve_mitigation'', ''escalate'']
         then JObj (dict [(''command'', command), (''run_id'', JStr (rr_id r)),
           (''incident_version'', JInt (ir_version i)),
           (''waiting_since'', JStr (utc_iso (rr_updated_at r))),
           (''mitigation_id'', if proposed then text_or_null (get (obj strategy) ''mitigation_id'') else JNull)])
         else JNull)"

definition project_list_item ::
  "incident_record \<Rightarrow> run_record option \<Rightarrow> workflow \<Rightarrow> dict option outcome" where
  "project_list_item i run w =
     (let state = ir_state i; alert = obj (get state ''alert''); severity = get state ''severity''
      in if get state ''workflow_id'' \<noteq> JStr (w_id w) \<or> get state ''workflow_version'' \<noteq> JStr (w_version w)
         then Inr None
         else
         and_then (in_states (get state ''state'') w) (\<lambda>named.
         and_then (raise_if (\<not> named)
           (UnsupportedWorkflowDataError ''stored incident names an unknown state'')) (\<lambda>_.
         and_then (hash_in severity SEVERITIES) (\<lambda>known.
         Inr (Some (dict [(''incident_id'', JStr (ir_id i)), (''state'', get state ''state''),
           (''severity'', if known then severity else JNull),
           (''service'', text_or_null (get alert ''service'')),
           (''summary'', text_or_null (get alert ''summary'')),
           (''title'', jopt (title_of (JObj state))),
           (''impact'', text_or_null (get state ''impact'')),
           (''opened_at'', JStr (utc_iso (ir_created_at i))),
           (''updated_at'', JStr (utc_iso (ir_updated_at i))), (''version'', JInt (ir_version i)),
           (''latest_run'', jdict (map_option latest_run_row run)),
           (''pending_decision'', case run of None \<Rightarrow> JNull | Some r \<Rightarrow> pending_decision i r)]))))))"

definition project_snapshot :: "snapshot_record \<Rightarrow> workflow \<Rightarrow> dict outcome" where
  "project_snapshot n w =
     (let record = \<lparr>ir_id = sn_incident_id n, ir_state = sn_incident_state n, ir_version = sn_version n,
            ir_created_at = sn_created_at n, ir_updated_at = sn_created_at n\<rparr>;
          run = \<lparr>rr_id = sn_run_id n, rr_incident_id = sn_incident_id n, rr_state = sn_run_state n,
            rr_version = sn_version n, rr_created_at = sn_created_at n, rr_updated_at = sn_created_at n\<rparr>
      in and_then (project_detail record [run] w) (\<lambda>incident.
         Inr (dict [(''snapshot_id'', JStr (sn_id n)), (''incident_id'', JStr (sn_incident_id n)),
           (''run_id'', JStr (sn_run_id n)), (''version'', JInt (sn_version n)),
           (''event_sequence'', JInt (sn_event_sequence n)), (''incident'', JObj incident),
           (''run'', JObj (project_run_summary run)),
           (''created_at'', JStr (utc_iso (sn_created_at n)))])))"

section \<open>Facts\<close>

lemma length_nat_str: "n < 10 ^ Suc k \<Longrightarrow> length (nat_str n) \<le> Suc k"
proof (induction n arbitrary: k rule: nat_str.induct)
  case (1 n)
  show ?case
  proof (cases "n < 10")
    case True
    then show ?thesis by (simp add: nat_str.simps)
  next
    case False
    with 1(2) obtain k' where k: "k = Suc k'" by (cases k) simp_all
    with 1(2) have "n div 10 < 10 ^ Suc k'" by (simp add: less_mult_imp_div_less)
    with 1(1) [of k'] False show ?thesis by (simp add: nat_str.simps [of n] k)
  qed
qed

lemma digit_not_minus: "ascii_digit c \<Longrightarrow> of_char c \<noteq> (45::nat)"
  unfolding ascii_digit_def less_eq_char_def by (clarsimp simp: of_char_eq_iff)

lemma cursor_value_nat_str:
  assumes "n < 10 ^ MAX_STR_DIGITS"
  shows "cursor_value False (map of_char (nat_str n)) = Inr (int n)"
proof -
  obtain k where k: "MAX_STR_DIGITS = Suc k" by (simp add: MAX_STR_DIGITS_def)
  have "length (nat_str n) \<le> MAX_STR_DIGITS"
    using assms unfolding k by (rule length_nat_str)
  then show ?thesis by (simp add: cursor_value_def decimal_value_nat_str)
qed

text \<open>
  C25. A cursor the API hands out reads back as the position it was made from, for every
  position from before the first event on; an absent cursor is that first position; and whatever
  text a client sends, a cursor that is accepted is never below it.
\<close>

theorem cursor_roundtrip:
  "(\<forall>n. -1 \<le> n \<and> n < 10 ^ MAX_STR_DIGITS \<longrightarrow> decode_cursor (Some (encode_cursor n)) = Inr n) \<and>
   decode_cursor None = Inr (-1) \<and>
   (\<forall>after n. decode_cursor after = Inr n \<longrightarrow> -1 \<le> n)"
proof (intro conjI allI impI)
  fix n :: int
  assume n: "-1 \<le> n \<and> n < 10 ^ MAX_STR_DIGITS"
  show "decode_cursor (Some (encode_cursor n)) = Inr n"
  proof (cases "n = -1")
    case True
    have "nat_str 1 = ''1''" by (simp add: nat_str.simps digit_char_def char_of_def bit_Suc_0_iff)
    then show ?thesis using True
      by (simp add: decode_cursor_def encode_cursor_def int_str_def after_prefix_def Let_def utf8_rest_def utf8_lead_def
          cursor_value_def decimal_def unicode_zeros_def MAX_STR_DIGITS_def)
  next
    case False
    then obtain m where m: "n = int m" using n by (cases n) simp_all
    have "int m < int (10 ^ MAX_STR_DIGITS)" using n by (simp add: m)
    then have "m < 10 ^ MAX_STR_DIGITS" by (simp only: of_nat_less_iff)
    moreover obtain c cs where "nat_str m = c # cs" by (cases "nat_str m") simp_all
    moreover from this have "of_char c \<noteq> (45::nat)" using hd_nat_str [of m] digit_not_minus by simp
    ultimately show ?thesis
      using cursor_value_nat_str [of m] ascii_nat_str [of m]
      by (simp add: m decode_cursor_def encode_cursor_def int_str_def utf8_decode_ascii
          after_prefix_def del: utf8_decode.simps)
  qed
next
  show "decode_cursor None = Inr (-1)" by (simp add: decode_cursor_def)
next
  fix after n
  assume "decode_cursor after = Inr n"
  then show "-1 \<le> n"
    by (auto simp: decode_cursor_def cursor_value_def Let_def split: option.splits list.splits if_splits)
qed

theorem cursor_roundtrip_witness:
  "decode_cursor (Some (encode_cursor 41)) = Inr 41"
proof -
  have "(10::int) ^ 2 \<le> 10 ^ MAX_STR_DIGITS"
    by (intro power_increasing) (simp_all add: MAX_STR_DIGITS_def)
  then have "-1 \<le> (41::int) \<and> 41 < (10::int) ^ MAX_STR_DIGITS" by simp
  then show ?thesis by (rule mp [OF spec [OF conjunct1 [OF cursor_roundtrip]]])
qed

section \<open>What the projections let through\<close>

definition canonical_uuid :: "string \<Rightarrow> bool" where
  "canonical_uuid s = (length s = 36 \<and> list_all (\<lambda>c. hex_char c \<or> c = CHR ''-'') s)"

lemma hex_nibble_char: "d < 16 \<Longrightarrow> hex_char (hex_nibble d)"
  by (simp add: hex_nibble_def hex_char_def less_eq_char_def)

lemma hex32_chars: "list_all hex_char (hex32 n)" "length (hex32 n) = 32"
  by (simp_all add: hex32_def list_all_iff hex_nibble_char)

lemma uuid_text_canonical: "canonical_uuid (uuid_text n)"
  using hex32_chars [of n]
  by (auto simp: canonical_uuid_def uuid_text_def Let_def list_all_iff dest: in_set_takeD in_set_dropD)

lemma request_id_canonical: "request_id_of j = Some u \<Longrightarrow> canonical_uuid u"
  by (auto simp: request_id_of_def uuid_parse_def Let_def uuid_text_canonical
      split: json.splits if_splits option.splits)

lemma safe_reason_code_projected:
  "safe_reason_code payload = Inr (Some c) \<Longrightarrow> c \<in> set PROJECTED_REASON_CODES"
  by (auto simp: safe_reason_code_def Let_def outcome_simps hash_in_True str_in_iff split: if_splits
      dest!: hash_in_Inr)

lemma gateway_task_id_form:
  "gateway_task_id turn = Some t \<Longrightarrow> \<exists>r. t = ''task_'' @ r \<and> turn = Some (''turn_'' @ r) \<and> class_run lower_digit 8 32 r"
  by (auto simp: gateway_task_id_def split: option.splits if_splits dest: after_prefix_Some)

lemma actor_reference_of_form:
  assumes "actor_reference_of document = Some r"
  shows "keys_exactly r [''reference_version'', ''principal_id'', ''display_name''] \<and>
    (\<exists>p. get r ''principal_id'' = JStr p \<and> identifier_pattern p)"
  using assms
  by (auto simp: actor_reference_of_def Let_def keys_exactly_def split: if_splits json.splits)

definition EVENT_FIELDS :: "string list" where
  "EVENT_FIELDS = [''event_id'', ''kind'', ''sequence'', ''state'', ''summary'', ''actor'', ''turn_id'',
     ''task_id'', ''request_id'', ''reason_code'', ''occurred_at'']"

text \<open>
  C26. A timeline entry has exactly the allow-listed fields, whatever the stored payload holds:
  its cause is one of the closed list or absent, its request id a canonical UUID or absent, its
  task id the renamed turn or absent, and its actor one of the three kinds with at most a
  well-formed versioned reference.
\<close>

theorem project_event_safe:
  assumes "project_event render e document = Inr p"
  shows "keys_exactly p EVENT_FIELDS \<and>
    (get p ''reason_code'' = JNull \<or> str_in (get p ''reason_code'') PROJECTED_REASON_CODES) \<and>
    (get p ''request_id'' = JNull \<or> (\<exists>u. get p ''request_id'' = JStr u \<and> canonical_uuid u)) \<and>
    (get p ''task_id'' = JNull \<or>
       (\<exists>r. get p ''task_id'' = JStr (''task_'' @ r) \<and> ev_turn_id e = Some (''turn_'' @ r))) \<and>
    attributable (get (obj (get p ''actor'')) ''type'') \<and>
    (get (obj (get p ''actor'')) ''reference'' = JNull \<or>
       (\<exists>r. get (obj (get p ''actor'')) ''reference'' = JObj r \<and>
          keys_exactly r [''reference_version'', ''principal_id'', ''display_name'']))"
proof -
  obtain summary code where code: "safe_reason_code (ev_payload e) = Inr code"
    and actor: "attributable (if is_obj document then get (obj document) ''actor'' else JNull)"
    and p: "p = dict [(''event_id'', JStr (ev_id e)), (''kind'', JStr (ev_kind e)),
           (''sequence'', JInt (ev_sequence e)),
           (''state'', str_or_null (getd (ev_payload e) ''to'' (get (ev_payload e) ''state''))),
           (''summary'', JStr summary),
           (''actor'', JObj (dict [(''type'', if is_obj document then get (obj document) ''actor'' else JNull),
              (''reference'', jdict (actor_reference_of document))])),
           (''turn_id'', jopt (ev_turn_id e)), (''task_id'', jopt (gateway_task_id (ev_turn_id e))),
           (''request_id'', jopt (request_id_of (get (ev_payload e) ''request_id''))),
           (''reason_code'', jopt code), (''occurred_at'', JStr (utc_iso (ev_occurred_at e)))]"
    using assms unfolding project_event_def Let_def outcome_simps by blast
  have "keys_exactly p EVENT_FIELDS" by (simp add: p keys_exactly_def EVENT_FIELDS_def)
  moreover have "get p ''reason_code'' = JNull \<or> str_in (get p ''reason_code'') PROJECTED_REASON_CODES"
    using code safe_reason_code_projected by (cases code) (simp_all add: p)
  moreover have "get p ''request_id'' = JNull \<or> (\<exists>u. get p ''request_id'' = JStr u \<and> canonical_uuid u)"
    using request_id_canonical
    by (cases "request_id_of (get (ev_payload e) ''request_id'')") (simp_all add: p)
  moreover have "get p ''task_id'' = JNull \<or>
       (\<exists>r. get p ''task_id'' = JStr (''task_'' @ r) \<and> ev_turn_id e = Some (''turn_'' @ r))"
    by (cases "gateway_task_id (ev_turn_id e)") (auto simp: p dest!: gateway_task_id_form)
  moreover have "attributable (get (obj (get p ''actor'')) ''type'')"
    using actor by (simp add: p)
  moreover have "get (obj (get p ''actor'')) ''reference'' = JNull \<or>
       (\<exists>r. get (obj (get p ''actor'')) ''reference'' = JObj r \<and>
          keys_exactly r [''reference_version'', ''principal_id'', ''display_name''])"
    using actor_reference_of_form by (cases "actor_reference_of document") (simp_all add: p)
  ultimately show ?thesis by blast
qed

definition sample_event :: run_event where
  "sample_event = \<lparr>ev_id = ''evt_1'', ev_incident_id = ''inc_1'', ev_run_id = ''run_1'', ev_sequence = 4,
     ev_kind = ''dispatch_receipt'',
     ev_payload = dict [(''dispatch_receipt'', JObj (dict [(''status'', JStr ''unknown''),
        (''reason_code'', JStr ''tool_timeout''), (''diagnostic'', JStr ''raw provider body'')]))],
     ev_occurred_at = sample_time, ev_turn_id = Some ''turn_abcdefgh''\<rparr>"

theorem project_event_safe_witness:
  "\<exists>p. project_event (\<lambda>_. []) sample_event (JObj (dict [(''actor'', JStr ''agent'')])) = Inr p \<and>
     get p ''reason_code'' = JStr ''tool_timeout'' \<and> keys_exactly p EVENT_FIELDS"
proof -
  let ?doc = "JObj (dict [(''actor'', JStr ''agent'')])"
  obtain p where p: "project_event (\<lambda>_. []) sample_event ?doc = Inr p"
      "get p ''reason_code'' = JStr ''tool_timeout''"
    by (simp add: project_event_def sample_event_def attributable_def event_summary_def or_else_def
        start_summary_def receipt_summary_def safe_reason_code_def dispatch_cause_def DISPATCH_CAUSES_def
        PROJECTED_REASON_CODES_def Let_def)
  from project_event_safe [OF p(1)] p show ?thesis by blast
qed

text \<open>Agreement of two documents on some fields.\<close>

definition agree_on :: "string list \<Rightarrow> dict \<Rightarrow> dict \<Rightarrow> bool" where
  "agree_on ks d d' = list_all (\<lambda>k. fmlookup d k = fmlookup d' k) ks"

lemma agree_onD: "agree_on ks d d' \<Longrightarrow> k \<in> set ks \<Longrightarrow> get d k = get d' k \<and> getd d k v = getd d' k v"
  by (simp add: agree_on_def list_all_iff get_def getd_def)

definition PUBLIC_FIELDS :: "string list" where
  "PUBLIC_FIELDS = [''workflow_id'', ''workflow_version'', ''state'', ''severity'', ''impact'', ''alert'',
     ''approvals'']"

text \<open>
  C27. The incident detail reveals nothing of the recorded reasoning but the title: two stored
  documents that agree on the public fields and on the title project to the same detail, or to
  the same refusal, whatever hypotheses, evidence and mitigation they hold.
\<close>

theorem project_detail_noninterference:
  assumes "agree_on PUBLIC_FIELDS d d'" and "title_of (JObj d) = title_of (JObj d')"
  shows "project_detail (i\<lparr>ir_state := d\<rparr>) rs w = project_detail (i\<lparr>ir_state := d'\<rparr>) rs w"
proof -
  have "get d k = get d' k \<and> getd d k v = getd d' k v" if "k \<in> set PUBLIC_FIELDS" for k v
    using assms(1) that by (rule agree_onD)
  then have "get d ''workflow_id'' = get d' ''workflow_id''" "get d ''workflow_version'' = get d' ''workflow_version''"
    "get d ''state'' = get d' ''state''" "get d ''severity'' = get d' ''severity''"
    "get d ''impact'' = get d' ''impact''" "get d ''alert'' = get d' ''alert''"
    "getd d ''approvals'' (JList []) = getd d' ''approvals'' (JList [])"
    by (simp_all add: PUBLIC_FIELDS_def)
  then show ?thesis using assms(2) by (simp add: project_detail_def project_approvals_def)
qed

definition public_state :: dict where
  "public_state = dict [(''workflow_id'', JStr ''incident-response''), (''workflow_version'', JStr ''1.0.0''),
     (''state'', JStr ''investigating''), (''severity'', JStr ''sev2'')]"

definition public_incident :: incident_record where
  "public_incident = \<lparr>ir_id = ''inc_1'', ir_state = public_state, ir_version = 3,
     ir_created_at = sample_time, ir_updated_at = sample_time\<rparr>"

theorem project_detail_noninterference_witness:
  "project_detail (public_incident\<lparr>ir_state := public_state\<rparr>) [] incident_response =
   project_detail (public_incident\<lparr>ir_state := fmupd ''evidence'' (JList [JStr ''prompt text'']) public_state\<rparr>)
     [] incident_response"
  by (rule project_detail_noninterference)
     (simp_all add: agree_on_def PUBLIC_FIELDS_def title_of_def public_state_def)

end
