(* ===== verification/PostmortemDraft.thy ===== *)
theory PostmortemDraft
  imports Postmortem Projections
begin

text \<open>
  The record's side of a postmortem draft (\<^verbatim>\<open>incident/postmortem_draft.py\<close>): \<open>compose\<close> writes the
  content from what the incident recorded, \<open>facts\<close> is what the drafting model is given.
\<close>

definition MAX_FACT :: nat where "MAX_FACT = 600"

definition RECORD_AUTHOR :: string where "RECORD_AUTHOR = ''system''"

text \<open>The fixed words of a language; an unknown language falls back to Spanish.\<close>

record words =
  wd_summary :: string
  wd_impact :: string
  wd_cause :: string
  wd_strategy :: string
  wd_verification :: string
  wd_check :: string
  wd_unknown :: string

text \<open>Spanish letters outside ASCII, as UTF-8.\<close>

definition o_acute :: string where "o_acute = utf8_char 243"
definition a_acute :: string where "a_acute = utf8_char 225"

definition words_es :: words where
  "words_es = \<lparr>wd_summary = ''Incidente declarado sin alerta registrada.'',
     wd_impact = ''Impacto no registrado.'', wd_cause = ''Causa no establecida.'',
     wd_strategy = ''Sin mitigaci'' @ o_acute @ ''n registrada.'',
     wd_verification = ''Se verific'' @ o_acute @ '' que el servicio qued'' @ o_acute @ '' estable.'',
     wd_check = ''Se verific'' @ o_acute @ '' que el servicio qued'' @ o_acute @ '' estable: '',
     wd_unknown = ''La causa no se confirm'' @ o_acute @ '' m'' @ a_acute @ ''s all'' @ a_acute @
       '' de la hip'' @ o_acute @ ''tesis de la investigaci'' @ o_acute @ ''n.''\<rparr>"

definition words_en :: words where
  "words_en = \<lparr>wd_summary = ''Incident declared without a recorded alert.'',
     wd_impact = ''Impact not recorded.'', wd_cause = ''Cause not established.'',
     wd_strategy = ''No mitigation recorded.'',
     wd_verification = ''The service was verified stable.'',
     wd_check = ''The service was verified stable: '',
     wd_unknown = ''The cause was not confirmed beyond the investigation's hypothesis.''\<rparr>"

definition words_for :: "string \<Rightarrow> words" where
  "words_for language = (if language = ''en'' then words_en else words_es)"

text \<open>\<^verbatim>\<open>_text(value, fallback)\<close>.\<close>

definition draft_text :: "json \<Rightarrow> string \<Rightarrow> string" where
  "draft_text j fallback = (case j of JStr s \<Rightarrow> if blank s then fallback else py_prefix MAX_TEXT (py_strip s)
     | _ \<Rightarrow> fallback)"

text \<open>\<^verbatim>\<open>[item for item in state.get(key) or () if isinstance(item, Mapping)]\<close>.\<close>

definition mappings_of :: "dict \<Rightarrow> string \<Rightarrow> json list outcome" where
  "mappings_of state key =
     and_then (py_iter (py_or (get state key) (JList []))) (\<lambda>xs. Inr (filter is_obj xs))"

definition in_order :: "run_event list \<Rightarrow> run_event list" where
  "in_order = sort_key (\<lambda>e. (ev_occurred_at e, ev_sequence e))"

text \<open>The state changes a draft cites: event ids a postmortem may cite, of known transitions.\<close>

fun citable_changes :: "run_event list \<Rightarrow> run_event list outcome" where
  "citable_changes [] = Inr []"
| "citable_changes (e # es) =
     and_then (if event_id_pattern (ev_id e)
       then hash_in (get (ev_payload e) ''transition_id'') (map fst TRANSITION_SUMMARIES) else Inr False) (\<lambda>keep.
     and_then (citable_changes es) (\<lambda>rest. Inr (if keep then e # rest else rest)))"

definition cite :: "(json \<Rightarrow> string) \<Rightarrow> run_event \<Rightarrow> (string \<times> string) outcome" where
  "cite render e = and_then (event_summary render (ev_payload e)) (\<lambda>text. Inr (ev_id e, text))"

definition cited_entry :: "string \<times> string \<Rightarrow> json" where
  "cited_entry c = JObj (dict [(''event_id'', JStr (fst c)), (''description'', JStr (snd c))])"

text \<open>\<^verbatim>\<open>xs[-n:]\<close>.\<close>

definition last_n :: "nat \<Rightarrow> 'a list \<Rightarrow> 'a list" where
  "last_n n xs = drop (length xs - n) xs"

text \<open>The sections, from the last statement of a hypothesis and the cited changes.\<close>

definition draft_content :: "words \<Rightarrow> dict \<Rightarrow> json \<Rightarrow> (string \<times> string) list \<Rightarrow> json" where
  "draft_content words state statement cited =
     (let alert = obj (get state ''alert''); strategy = obj (get state ''mitigation_strategy'');
          check = get strategy ''verification_check'';
          approvals = filter (\<lambda>c. starts_with ''Mitigation approved'' (snd c)) cited
      in JObj (dict
           [(''summary'', JStr (draft_text (get alert ''summary'') (wd_summary words))),
            (''impact'', JStr (draft_text (get state ''impact'') (wd_impact words))),
            (''timeline'', JList (map cited_entry (last_n MAX_ITEMS cited))),
            (''cause'', JObj (dict [(''statement'', JStr (draft_text statement (wd_cause words))),
               (''certainty'', JStr (if truthy statement then ''probable'' else ''unknown''))])),
            (''strategy'', JStr (draft_text (get strategy ''description'') (wd_strategy words))),
            (''actions_taken'', JList (map cited_entry (last_n 1 approvals))),
            (''verification'', JStr (case check of
                JStr c \<Rightarrow> if blank c then wd_verification words
                          else py_prefix MAX_TEXT (wd_check words @ py_strip c)
              | _ \<Rightarrow> wd_verification words)),
            (''pending'', JList []),
            (''unknowns'', JList (map JStr (if truthy statement then [wd_unknown words] else [])))]))"

definition compose :: "(json \<Rightarrow> string) \<Rightarrow> dict \<Rightarrow> run_event list \<Rightarrow> string \<Rightarrow> json outcome" where
  "compose render state events language =
     and_then (mappings_of state ''hypotheses'') (\<lambda>hypotheses.
     and_then (citable_changes (in_order events)) (\<lambda>changes.
     and_then (map_raise (cite render) changes) (\<lambda>cited.
     Inr (draft_content (words_for language) state
       (if hypotheses = [] then JNull else get (obj (last hypotheses)) ''statement'') cited))))"

section \<open>The facts the model is given\<close>

definition cut :: "json \<Rightarrow> json" where
  "cut j = (case j of JStr s \<Rightarrow> if blank s then JNull else JStr (py_prefix MAX_FACT (py_strip s)) | _ \<Rightarrow> JNull)"

fun moved_changes :: "run_event list \<Rightarrow> run_event list outcome" where
  "moved_changes [] = Inr []"
| "moved_changes (e # es) =
     and_then (hash_in (get (ev_payload e) ''transition_id'') (map fst TRANSITION_SUMMARIES)) (\<lambda>keep.
     and_then (moved_changes es) (\<lambda>rest. Inr (if keep then e # rest else rest)))"

definition evidence_fact :: "json \<Rightarrow> json" where
  "evidence_fact j = JObj (dict
     [(''source'', cut (py_or (get (obj j) ''tool'') (get (obj j) ''source''))),
      (''finding'', cut (py_or (get (obj j) ''finding'') (get (obj j) ''summary'')))])"

definition facts :: "(json \<Rightarrow> string) \<Rightarrow> dict \<Rightarrow> run_event list \<Rightarrow> dict outcome" where
  "facts render state events =
     (let alert = obj (get state ''alert''); strategy = obj (get state ''mitigation_strategy'');
          ran = obj (get strategy ''execution''); operation = get strategy ''operation'';
          cuts = (\<lambda>d ks. JObj (dict (map (\<lambda>k. (k, cut (get d k))) ks)))
      in and_then (mappings_of state ''hypotheses'') (\<lambda>hypotheses.
         and_then (py_iter (py_or (get state ''evidence'') (JList []))) (\<lambda>evidence.
         and_then (moved_changes events) (\<lambda>moved.
         and_then (map_raise (\<lambda>e. event_summary render (ev_payload e)) (in_order moved)) (\<lambda>changes.
         Inr (dict
           [(''alert'', cuts alert [''service'', ''severity'', ''summary'']),
            (''impact'', cut (get state ''impact'')),
            (''hypothesis'', if hypotheses = [] then JNull
               else cut (get (obj (last hypotheses)) ''statement'')),
            (''evidence'', JList (map evidence_fact (last_n 12 evidence))),
            (''mitigation'', JObj (dict
               [(''plan'', cut (get strategy ''description'')),
                (''operation'', if is_obj operation then operation else JNull),
                (''ran'', if ran = fmempty then JNull
                   else cuts ran [''outcome'', ''before_image'', ''after_image'']),
                (''verification_check'', cut (get strategy ''verification_check''))])),
            (''state_changes'', JList (map JStr changes))]))))))"

section \<open>A composed draft is valid content\<close>

text \<open>Text the content contract accepts.\<close>

definition fit_text :: "string \<Rightarrow> bool" where
  "fit_text s = (\<not> blank s \<and> py_len s \<le> MAX_TEXT)"

lemma check_text_fit [simp]: "fit_text s \<Longrightarrow> check_text (JStr s) field = Inr ()"
  by (simp add: check_text_def fit_text_def not_less)

lemma length_utf8_decode: "length (utf8_decode s) \<le> length s"
proof (induction s rule: utf8_decode.induct)
  case (2 c cs)
  have "length (utf8_decode (drop (utf8_rest (of_char c)) cs)) \<le> length cs - utf8_rest (of_char c)"
    using 2 [OF refl refl] by simp
  then show ?case by (simp add: Let_def)
qed simp

lemma not_blank_head: "\<not> py_space (hd (utf8_decode s)) \<Longrightarrow> s \<noteq> [] \<Longrightarrow> \<not> blank s"
  using utf8_decode_nonempty [of s] by (cases "utf8_decode s") (auto simp: blank_iff)

lemma hd_utf8_decode_ascii: "of_char c < (128::nat) \<Longrightarrow> hd (utf8_decode (c # cs)) = of_char c"
  by (simp add: Let_def utf8_rest_def utf8_lead_def)

lemma fit_text_ascii_head:
  assumes "of_char c < (128::nat)" and "\<not> py_space (of_char c)" and "length (c # cs) \<le> MAX_TEXT"
  shows "fit_text (c # cs)"
proof -
  have "\<not> blank (c # cs)"
    by (rule not_blank_head) (simp_all add: hd_utf8_decode_ascii assms del: utf8_decode.simps)
  then show ?thesis
    using length_utf8_decode [of "c # cs"] assms(3) by (simp add: fit_text_def py_len_def del: utf8_decode.simps)
qed

lemma fit_text_prefix:
  assumes "s \<noteq> []" and "\<not> py_space (hd (utf8_decode s))"
  shows "fit_text (py_prefix MAX_TEXT s)"
proof -
  obtain n ns where ns: "utf8_decode s = n # ns" using utf8_decode_nonempty [OF assms(1)] by (cases "utf8_decode s") auto
  have "utf8_decode (py_prefix MAX_TEXT s) = n # take (MAX_TEXT - 1) ns"
    by (simp add: utf8_decode_prefix ns MAX_TEXT_def numeral_eq_Suc)
  then show ?thesis using assms(2) py_len_prefix [of MAX_TEXT s]
    by (simp add: fit_text_def blank_iff ns)
qed

lemma hd_strip_cps: "strip_cps cps \<noteq> [] \<Longrightarrow> \<not> py_space (hd (strip_cps cps))"
proof -
  let ?d = "dropWhile py_space cps"
  assume "strip_cps cps \<noteq> []"
  then obtain n ns where s: "strip_cps cps = n # ns" by (cases "strip_cps cps") auto
  have "rev ?d = takeWhile py_space (rev ?d) @ rev (strip_cps cps)"
    by (simp add: strip_cps_def)
  then have "?d = strip_cps cps @ rev (takeWhile py_space (rev ?d))"
    by (metis rev_append rev_rev_ident)
  then have "hd ?d = n" "?d \<noteq> []" using s by (metis append_Cons list.sel(1), metis append_Cons list.distinct(1))
  then show "\<not> py_space (hd (strip_cps cps))" using s hd_dropWhile [of py_space cps] by (metis list.sel(1))
qed

lemma fit_draft_text: "fit_text fallback \<Longrightarrow> fit_text (draft_text j fallback)"
proof (cases j)
  case (JStr s)
  assume fb: "fit_text fallback"
  show ?thesis
  proof (cases "blank s")
    case False
    then have "strip_cps (utf8_decode s) \<noteq> []" by (simp add: blank_def)
    moreover from this have "py_strip s \<noteq> []" by (simp add: py_strip_def utf8_encode_nonempty)
    ultimately have "fit_text (py_prefix MAX_TEXT (py_strip s))"
      by (intro fit_text_prefix) (simp_all add: utf8_decode_strip hd_strip_cps)
    then show ?thesis using False by (simp add: draft_text_def JStr)
  qed (simp add: draft_text_def JStr fb)
qed (simp_all add: draft_text_def)

lemma fit_words:
  "fit_text (wd_summary (words_for l))" "fit_text (wd_impact (words_for l))"
  "fit_text (wd_cause (words_for l))" "fit_text (wd_strategy (words_for l))"
  "fit_text (wd_verification (words_for l))" "fit_text (wd_unknown (words_for l))"
  by (simp_all add: words_for_def words_en_def words_es_def fit_text_ascii_head py_space_def MAX_TEXT_def
      o_acute_def a_acute_def utf8_char.simps)

lemma fit_check: "fit_text (py_prefix MAX_TEXT (wd_check (words_for l) @ s))"
  by (rule fit_text_prefix)
     (simp_all add: words_for_def words_en_def words_es_def hd_utf8_decode_ascii py_space_def del: utf8_decode.simps)

lemma fit_summaries: "(tid, text) \<in> set TRANSITION_SUMMARIES \<Longrightarrow> fit_text text"
  unfolding TRANSITION_SUMMARIES_def
  by (elim list_memE) (simp_all add: fit_text_ascii_head py_space_def MAX_TEXT_def)

section \<open>compose\<close>

lemma citable_changes_Inr:
  "citable_changes es = Inr cs \<Longrightarrow> cs = filter (\<lambda>e. event_id_pattern (ev_id e) \<and>
     str_in (get (ev_payload e) ''transition_id'') (map fst TRANSITION_SUMMARIES)) es"
  by (induction es arbitrary: cs) (auto simp: outcome_simps dest!: hash_in_Inr split: if_splits)

lemma summary_fit:
  assumes "event_summary render payload = Inr text"
    and "str_in (get payload ''transition_id'') (map fst TRANSITION_SUMMARIES)"
    and "\<And>t. executed_summary render (get payload ''incident_state'') = Inr (Some t) \<Longrightarrow> fit_text t"
  shows "fit_text text"
proof -
  obtain tid where tid: "get payload ''transition_id'' = JStr tid" "tid \<in> set (map fst TRANSITION_SUMMARIES)"
    using assms(2) unfolding str_in_iff by blast
  then obtain known where known: "map_of TRANSITION_SUMMARIES tid = Some known"
    by (cases "map_of TRANSITION_SUMMARIES tid") (simp_all add: map_of_eq_None_iff)
  have "fit_text known" using known fit_summaries by (blast dest: map_of_SomeD)
  then show ?thesis
    using assms(1,3) tid(1) known
    by (auto simp: event_summary_def or_else_def outcome_simps split: if_splits option.splits)
qed

lemma check_cited_entry:
  "event_id_pattern (fst c) \<Longrightarrow> fit_text (snd c) \<Longrightarrow> check_cited field (cited_entry c) = Inr (fst c)"
  by (simp add: check_cited_def cited_entry_def keys_exactly_def insert_commute)

lemma set_last_n: "set (last_n n xs) \<subseteq> set xs"
  by (simp add: last_n_def set_drop_subset)

lemma length_last_n: "length (last_n n xs) \<le> n"
  by (simp add: last_n_def)

lemma last_n_Nil_iff: "0 < n \<Longrightarrow> last_n n xs = [] \<longleftrightarrow> xs = []"
  by (cases xs) (auto simp: last_n_def)

lemma check_cited_list:
  assumes "\<And>c. c \<in> set cs \<Longrightarrow> event_id_pattern (fst c) \<and> fit_text (snd c)"
  shows "map_raise (check_cited field) (map cited_entry cs) = Inr (map fst cs)"
  using assms by (induction cs) (simp_all add: check_cited_entry)

lemma cited_events:
  assumes "map_raise (cite render) changes = Inr cited" and "c \<in> set cited"
  obtains e where "e \<in> set changes" "fst c = ev_id e" "event_summary render (ev_payload e) = Inr (snd c)"
proof -
  have "list_all2 (\<lambda>e c. cite render e = Inr c) changes cited"
    using assms(1) by (simp add: map_raise_Inr_iff)
  then obtain e where "e \<in> set changes" "cite render e = Inr c"
    using assms(2) by (induction rule: list_all2_induct) auto
  then show thesis using that by (auto simp: cite_def outcome_simps)
qed

lemma composed_keys:
  "keys_exactly (dict [(''summary'', a), (''impact'', b), (''timeline'', c), (''cause'', d), (''strategy'', e),
     (''actions_taken'', f), (''verification'', g), (''pending'', h), (''unknowns'', i)]) SECTIONS"
  unfolding keys_exactly_code by (simp add: SECTIONS_def)

lemma cause_keys:
  "keys_exactly (dict [(''statement'', a), (''certainty'', b)]) [''statement'', ''certainty'']"
  unfolding keys_exactly_code by simp

lemma valid_fields:
  assumes "keys_exactly d SECTIONS"
    and "get d ''summary'' = JStr a" "get d ''impact'' = JStr b" "get d ''strategy'' = JStr e"
      "get d ''verification'' = JStr f" "get d ''pending'' = JList []"
      "get d ''cause'' = JObj cause" "get d ''unknowns'' = JList (map JStr unknowns)"
      "get d ''timeline'' = JList (map cited_entry timeline)"
      "get d ''actions_taken'' = JList (map cited_entry actions)"
    and "fit_text a" "fit_text b" "fit_text e" "fit_text f" "check_cause (JObj cause) = Inr ()"
    and "\<And>u. u \<in> set unknowns \<Longrightarrow> fit_text u" "length unknowns \<le> MAX_ITEMS"
    and "timeline \<noteq> []" "length timeline \<le> MAX_ITEMS" "length actions \<le> MAX_ITEMS"
    and "\<And>c. c \<in> set timeline \<union> set actions \<Longrightarrow> event_id_pattern (fst c) \<and> fit_text (snd c)"
  shows "validate_content (JObj d) = Inr (fst ` (set timeline \<union> set actions))"
proof -
  have "check_each ''unknowns'' (map JStr unknowns) = Inr ()"
    using assms(16) by (induction unknowns) simp_all
  moreover have "map_raise (check_cited ''timeline'') (map cited_entry timeline) = Inr (map fst timeline)"
    "map_raise (check_cited ''actions_taken'') (map cited_entry actions) = Inr (map fst actions)"
    using assms(21) by (auto intro!: check_cited_list)
  ultimately show ?thesis
    using assms(1-15) assms(17-20)
    by (simp add: validate_content_def check_items_def Let_def image_Un)
qed

lemma fit_verification:
  "fit_text (case j of JStr c \<Rightarrow> if blank c then wd_verification (words_for l)
      else py_prefix MAX_TEXT (wd_check (words_for l) @ py_strip c) | _ \<Rightarrow> wd_verification (words_for l))"
  by (simp add: fit_words fit_check split: json.split)

lemma valid_draft:
  assumes "cited \<noteq> []" and "\<And>c. c \<in> set cited \<Longrightarrow> event_id_pattern (fst c) \<and> fit_text (snd c)"
  shows "validate_content (draft_content (words_for l) state statement cited) =
    Inr (fst ` (set (last_n MAX_ITEMS cited) \<union>
      set (last_n 1 (filter (\<lambda>c. starts_with ''Mitigation approved'' (snd c)) cited))))"
proof -
  define approvals where "approvals = filter (\<lambda>c. starts_with ''Mitigation approved'' (snd c)) cited"
  define unknowns where "unknowns = (if truthy statement then [wd_unknown (words_for l)] else [])"
  define cause where "cause = dict [(''statement'', JStr (draft_text statement (wd_cause (words_for l)))),
      (''certainty'', JStr (if truthy statement then ''probable'' else ''unknown''))]"
  have actions: "length (last_n 1 approvals) \<le> MAX_ITEMS"
    using length_last_n [of 1 approvals] by (simp add: MAX_ITEMS_def)
  have sub: "c \<in> set cited" if "c \<in> set (last_n MAX_ITEMS cited) \<union> set (last_n 1 approvals)" for c
    using that set_last_n [of MAX_ITEMS cited] set_last_n [of 1 approvals] by (auto simp: approvals_def)
  have check: "check_cause (JObj cause) = Inr ()"
    by (simp add: cause_def check_cause_def cause_keys [simplified] CERTAINTY_def fit_draft_text fit_words)
  have unknowns: "\<And>u. u \<in> set unknowns \<Longrightarrow> fit_text u" "length unknowns \<le> MAX_ITEMS"
    using fit_words(6) [of l] by (auto simp: unknowns_def MAX_ITEMS_def split: if_splits)
  have timeline: "last_n MAX_ITEMS cited \<noteq> []"
    using assms(1) by (simp add: last_n_Nil_iff MAX_ITEMS_def)
  show ?thesis
    unfolding draft_content_def Let_def approvals_def [symmetric] unknowns_def [symmetric] cause_def [symmetric]
    by (rule valid_fields [OF composed_keys _ _ _ _ _ _ _ _ _ fit_draft_text [OF fit_words(1)]
          fit_draft_text [OF fit_words(2)] fit_draft_text [OF fit_words(4)] fit_verification check
          unknowns timeline length_last_n actions assms(2) [OF sub]])
       (simp_all only: get_dict_Cons simp_thms list.inject char.inject, simp_all)
qed

text \<open>
  C28. If at least one given event is a citable state change and the summary of what the
  deploy-executor ran, where a given event has one, fits the length a text of the contract may have, then
  a draft composed from the record is content the postmortem contract accepts, and it cites only the
  events it was given. Without the second condition it fails: that summary is the one text a draft copies
  without a bound.
\<close>

theorem compose_valid:
  assumes "compose render state events language = Inr content"
    and "\<exists>e\<in>set events. event_id_pattern (ev_id e) \<and>
       str_in (get (ev_payload e) ''transition_id'') (map fst TRANSITION_SUMMARIES)"
    and "\<forall>e\<in>set events. \<forall>text. executed_summary render (get (ev_payload e) ''incident_state'') = Inr (Some text)
       \<longrightarrow> fit_text text"
  shows "\<exists>ids. validate_content content = Inr ids \<and> ids \<subseteq> ev_id ` set events"
proof -
  obtain statement changes cited where changes: "citable_changes (in_order events) = Inr changes"
    and cited: "map_raise (cite render) changes = Inr cited"
    and content: "content = draft_content (words_for language) state statement cited"
    using assms(1) unfolding compose_def outcome_simps by blast
  have cs: "changes = filter (\<lambda>e. event_id_pattern (ev_id e) \<and>
     str_in (get (ev_payload e) ''transition_id'') (map fst TRANSITION_SUMMARIES)) (in_order events)"
    using changes by (rule citable_changes_Inr)
  have good: "event_id_pattern (fst c) \<and> fit_text (snd c) \<and> fst c \<in> ev_id ` set events" if "c \<in> set cited" for c
    using cited that
  proof (rule cited_events)
    fix e
    assume e: "e \<in> set changes" "fst c = ev_id e" "event_summary render (ev_payload e) = Inr (snd c)"
    then have mem: "e \<in> set events" "event_id_pattern (ev_id e)"
      and tid: "str_in (get (ev_payload e) ''transition_id'') (map fst TRANSITION_SUMMARIES)"
      by (auto simp: cs in_order_def)
    have "fit_text (snd c)" using e(3) tid assms(3) mem(1) by (blast intro: summary_fit)
    then show ?thesis using e(2) mem by simp
  qed
  have "changes \<noteq> []" using assms(2) by (auto simp: cs in_order_def filter_empty_conv)
  then have "cited \<noteq> []" using cited by (cases changes) (auto simp: outcome_simps)
  let ?timeline = "last_n MAX_ITEMS cited"
  let ?actions = "last_n 1 (filter (\<lambda>c. starts_with ''Mitigation approved'' (snd c)) cited)"
  have sub: "set ?timeline \<union> set ?actions \<subseteq> set cited"
    using set_last_n [of MAX_ITEMS cited] set_last_n [of 1 "filter (\<lambda>c. starts_with ''Mitigation approved'' (snd c)) cited"]
    by auto
  have "validate_content content = Inr (fst ` (set ?timeline \<union> set ?actions))"
    unfolding content using \<open>cited \<noteq> []\<close> good by (intro valid_draft) blast+
  moreover have "fst ` (set ?timeline \<union> set ?actions) \<subseteq> ev_id ` set events"
    using sub good by blast
  ultimately show ?thesis by blast
qed

definition opened_event :: run_event where
  "opened_event = \<lparr>ev_id = ''evt_open'', ev_incident_id = ''inc_1'', ev_run_id = ''run_1'', ev_sequence = 0,
     ev_kind = ''state_change'', ev_payload = dict [(''transition_id'', JStr ''open_triage'')],
     ev_occurred_at = sample_time, ev_turn_id = None\<rparr>"

theorem compose_valid_witness:
  "\<exists>content ids. compose (\<lambda>_. []) fmempty [opened_event] ''en'' = Inr content \<and>
     validate_content content = Inr ids \<and> ids \<subseteq> {''evt_open''}"
proof -
  have change: "event_id_pattern (ev_id opened_event)"
      "get (ev_payload opened_event) ''transition_id'' = JStr ''open_triage''"
      "get (ev_payload opened_event) ''incident_state'' = JNull"
    by (simp_all add: opened_event_def event_id_pattern_def after_prefix_def class_run_def slug_char_def
        lower_digit_def less_eq_char_def)
  obtain content where content: "compose (\<lambda>_. []) fmempty [opened_event] ''en'' = Inr content"
    by (simp add: compose_def mappings_of_def py_or_def in_order_def change cite_def event_summary_def
        or_else_def TRANSITION_SUMMARIES_def)
  have "\<exists>ids. validate_content content = Inr ids \<and> ids \<subseteq> ev_id ` set [opened_event]"
    by (rule compose_valid [OF content])
       (simp_all add: change executed_summary_def TRANSITION_SUMMARIES_def)
  then show ?thesis using content by (auto simp: opened_event_def)
qed

end
