(* ===== verification/StoreLaws.thy ===== *)
theory StoreLaws
  imports Postmortem
begin

text \<open>
  What every write of the store does when it returns: its normal form, the new store written as an
  update of the old one. The proofs of the later theories rest on these and never unfold the
  operations again. The last sections give the two compound writes their normal forms, the
  committed transition and the dispatch records.
\<close>

named_theorems writes \<open>normal forms of the store's writes\<close>

lemma jsonb_Inr [outcome_simps]: "jsonb d = Inr x \<longleftrightarrow> jsonb_ok (JObj d) \<and> x = d"
  by (auto simp: jsonb_def)

section \<open>Single rows\<close>

lemma add_incident_Inr:
  assumes "add_incident iid state now s = Inr (row, s')"
  shows "row = \<lparr>ir_id = iid, ir_state = state, ir_version = 0, ir_created_at = now, ir_updated_at = now\<rparr>"
    and "get_incident iid s = None" and "s' = s\<lparr>incidents := incidents s @ [row]\<rparr>" and "jsonb_ok (JObj state)"
  using assms by (auto simp: add_incident_def outcome_simps Let_def)

lemma add_run_Inr:
  assumes "add_run rid iid state now s = Inr (row, s')"
  shows "row = \<lparr>rr_id = rid, rr_incident_id = iid, rr_state = state, rr_version = 0,
             rr_created_at = now, rr_updated_at = now\<rparr>"
    and "get_run rid s = None" and "get_incident iid s \<noteq> None" and "s' = s\<lparr>runs := runs s @ [row]\<rparr>"
    and "jsonb_ok (JObj state)"
  using assms by (auto simp: add_run_def outcome_simps Let_def)

definition decision_row :: "string \<Rightarrow> string option \<Rightarrow> decision_draft \<Rightarrow> decision_record" where
  "decision_row iid rid d = \<lparr>de_id = dd_id d, de_incident_id = iid, de_run_id = rid,
     de_turn_id = dd_turn_id d, de_document = dd_document d, de_decided_at = dd_decided_at d\<rparr>"

lemma insert_decision_Inr:
  assumes "insert_decision iid rid d s = Inr s'"
  shows "s' = s\<lparr>decisions := decisions s @ [decision_row iid rid d]\<rparr>" and "get_decision (dd_id d) s = None"
  using assms by (auto simp: insert_decision_def outcome_simps decision_row_def)

definition event_row :: "string \<Rightarrow> string \<Rightarrow> int \<Rightarrow> event_draft \<Rightarrow> run_event" where
  "event_row iid rid seq d = \<lparr>ev_id = ed_id d, ev_incident_id = iid, ev_run_id = rid, ev_sequence = seq,
     ev_kind = ed_kind d, ev_payload = ed_payload d, ev_occurred_at = ed_occurred_at d,
     ev_turn_id = ed_turn_id d\<rparr>"

lemma event_row_simps [simp]:
  "ev_id (event_row iid rid seq d) = ed_id d" "ev_incident_id (event_row iid rid seq d) = iid"
  "ev_run_id (event_row iid rid seq d) = rid" "ev_sequence (event_row iid rid seq d) = seq"
  "ev_kind (event_row iid rid seq d) = ed_kind d" "ev_payload (event_row iid rid seq d) = ed_payload d"
  "ev_occurred_at (event_row iid rid seq d) = ed_occurred_at d"
  by (simp_all add: event_row_def)

fun event_rows :: "string \<Rightarrow> string \<Rightarrow> int \<Rightarrow> event_draft list \<Rightarrow> run_event list" where
  "event_rows iid rid seq [] = []"
| "event_rows iid rid seq (d # ds) = event_row iid rid seq d # event_rows iid rid (seq + 1) ds"

lemma insert_event_Inr:
  assumes "insert_event iid rid seq d s = Inr (e, s')"
  shows "e = event_row iid rid seq d" and "s' = s\<lparr>run_events := run_events s @ [e]\<rparr>"
    and "\<forall>x\<in>set (run_events s). ev_id x \<noteq> ed_id d" and "0 \<le> seq"
  using assms by (auto simp: insert_event_def outcome_simps Let_def event_row_def)

lemma insert_events_Inr:
  assumes "insert_events iid rid seq ds s = Inr (es, s')"
  shows "es = event_rows iid rid seq ds \<and> s' = s\<lparr>run_events := run_events s @ es\<rparr>"
  using assms
proof (induction iid rid seq ds s arbitrary: es s' rule: insert_events.induct)
  case (2 iid rid seq d ds s)
  then obtain e s1 es' where *: "insert_event iid rid seq d s = Inr (e, s1)"
      "insert_events iid rid (seq + 1) ds s1 = Inr (es', s')" "es = e # es'"
    by (auto simp: outcome_simps)
  with "2.IH" [OF *(2)] insert_event_Inr [OF *(1)] show ?case by simp
qed simp

lemma event_rows_in:
  "e \<in> set (event_rows iid rid seq ds) \<Longrightarrow> \<exists>d\<in>set ds. \<exists>n. e = event_row iid rid n d"
  by (induction iid rid seq ds rule: event_rows.induct) auto

lemma event_rows_sequences:
  "map ev_sequence (event_rows iid rid seq ds) = map (\<lambda>k. seq + int k) [0..<length ds]"
proof (induction iid rid seq ds rule: event_rows.induct)
  case (2 iid rid seq d ds)
  have "map (\<lambda>k. seq + int k) [0..<Suc (length ds)] = seq # map (\<lambda>k. seq + int k) [1..<Suc (length ds)]"
    by (simp add: upt_conv_Cons del: upt_Suc)
  also have "map (\<lambda>k. seq + int k) [1..<Suc (length ds)] = map (\<lambda>k. (seq + 1) + int k) [0..<length ds]"
    by (simp add: map_Suc_upt [symmetric] o_def algebra_simps del: upt_Suc)
  finally show ?case using 2 by simp
qed simp

lemma length_event_rows [simp]: "length (event_rows iid rid seq ds) = length ds"
  by (induction iid rid seq ds rule: event_rows.induct) simp_all

lemma event_rows_payloads: "map ev_payload (event_rows iid rid seq ds) = map ed_payload ds"
  by (induction iid rid seq ds rule: event_rows.induct) simp_all

lemma event_rows_run [simp]:
  "filter (\<lambda>e. ev_run_id e = x) (event_rows iid rid seq ds) = (if x = rid then event_rows iid rid seq ds else [])"
  by (induction iid rid seq ds rule: event_rows.induct) (auto split: if_splits)

lemma touch_run_Inr:
  assumes "touch_run rid at_time s = Inr s'"
  shows "s' = s\<lparr>runs := update_where (\<lambda>r. rr_id r = rid) (\<lambda>r. r\<lparr>rr_updated_at := at_time\<rparr>) (runs s)\<rparr>"
  using assms by (auto simp: touch_run_def split: if_splits)

lemma patch_run_Inr:
  assumes "patch_run iid rid patch s = Inr s'"
  shows "s' = s\<lparr>runs := update_where (\<lambda>r. rr_id r = rid \<and> rr_incident_id r = iid)
       (\<lambda>r. r\<lparr>rr_state := rr_state r ++\<^sub>f patch\<rparr>) (runs s)\<rparr>"
    and "keys_within patch RUN_PATCH_FIELDS" and "jsonb_ok (JObj patch)"
  using assms by (auto simp: patch_run_def outcome_simps)

lemma patch_incident_Inr:
  assumes "patch_incident iid rid expected at_time patch s = Inr s'"
  obtains i where "get_incident iid s = Some i" and "expected = Some (ir_version i)"
    and "s' = s\<lparr>incidents := update_where (\<lambda>r. ir_id r = iid)
           (\<lambda>r. r\<lparr>ir_state := ir_state r ++\<^sub>f patch, ir_version := ir_version r + 1,
                  ir_updated_at := at_time\<rparr>) (incidents s)\<rparr>"
    and "jsonb_ok (JObj patch)"
  using assms by (auto simp: patch_incident_def outcome_simps split: option.splits if_splits)

lemma append_context_Inr:
  assumes "append_context c s = Inr s'"
  shows "s' = s\<lparr>text_context := text_context s @ [c]\<rparr>"
  using assms by (auto simp: append_context_def outcome_simps)

lemma append_contexts_Inr:
  assumes "append_contexts iid rid cs s = Inr s'"
  obtains new where "s' = s\<lparr>text_context := text_context s @ new\<rparr>" and "length new = length cs"
proof -
  have "\<exists>new. s' = s\<lparr>text_context := text_context s @ new\<rparr> \<and> length new = length cs"
    using assms unfolding append_contexts_def
  proof (induction cs arbitrary: s)
    case Nil
    then show ?case by (intro exI [of _ "[]"]) simp
  next
    case (Cons c cs)
    then obtain s1 where s1: "append_context (c\<lparr>cx_content := obj (storable (JObj (cx_content c)))\<rparr>) s = Inr s1"
      and rest: "\<exists>new. s' = s1\<lparr>text_context := text_context s1 @ new\<rparr> \<and> length new = length cs"
      by (auto simp: outcome_simps)
    from rest obtain new where "s' = s1\<lparr>text_context := text_context s1 @ new\<rparr>" "length new = length cs" by blast
    with append_context_Inr [OF s1] show ?case
      by (intro exI [of _ "c\<lparr>cx_content := obj (storable (JObj (cx_content c)))\<rparr> # new"]) simp
  qed
  then show thesis using that by blast
qed

section \<open>The optimistic updates\<close>

lemma update_incident_Inr:
  assumes "update_incident iid expected state at_time s = Inr (Some row, s')"
  obtains i where "get_incident iid s = Some i" and "ir_version i = expected"
    and "row = i\<lparr>ir_state := state, ir_version := expected + 1, ir_updated_at := at_time\<rparr>"
    and "s' = s\<lparr>incidents := update_where (\<lambda>r. ir_id r = iid)
       (\<lambda>r. r\<lparr>ir_state := state, ir_version := ir_version r + 1, ir_updated_at := at_time\<rparr>) (incidents s)\<rparr>"
    and "jsonb_ok (JObj state)"
  using assms
  by (auto simp: update_incident_def outcome_simps Let_def split: option.splits if_splits)

lemma update_run_Inr:
  assumes "update_run rid iid expected state at_time s = Inr (Some row, s')"
  obtains r where "get_for_incident rid iid s = Some r" and "rr_version r = expected"
    and "row = r\<lparr>rr_state := state, rr_version := expected + 1, rr_updated_at := at_time\<rparr>"
    and "s' = s\<lparr>runs := update_where (\<lambda>r. rr_id r = rid \<and> rr_incident_id r = iid)
       (\<lambda>r. r\<lparr>rr_state := state, rr_version := rr_version r + 1, rr_updated_at := at_time\<rparr>) (runs s)\<rparr>"
    and "jsonb_ok (JObj state)"
  using assms
  by (auto simp: update_run_def outcome_simps Let_def split: option.splits if_splits)

text \<open>A writer whose expected version is not the stored one writes nothing.\<close>

lemma update_incident_stale:
  assumes "get_incident iid s = Some i" and "ir_version i \<noteq> expected" and "jsonb_ok (JObj state)"
  shows "update_incident iid expected state at_time s = Inr (None, s)"
  using assms by (simp add: update_incident_def jsonb_def)

definition snapshot_rows :: "string \<Rightarrow> string \<Rightarrow> int \<Rightarrow> int \<Rightarrow> snapshot_draft option \<Rightarrow> snapshot_record list" where
  "snapshot_rows iid rid version seq draft = (case draft of None \<Rightarrow> []
     | Some d \<Rightarrow> [\<lparr>sn_id = sd_id d, sn_incident_id = iid, sn_run_id = rid, sn_version = version,
          sn_event_sequence = seq, sn_incident_state = sd_incident_state d,
          sn_run_state = sd_run_state d, sn_created_at = sd_created_at d\<rparr>])"

lemma append_snapshot_Inr:
  assumes "append_snapshot iid rid version seq draft s = Inr (row, s')"
  shows "s' = s\<lparr>snapshots := snapshots s @ snapshot_rows iid rid version seq draft\<rparr>"
    and "row = (case snapshot_rows iid rid version seq draft of [] \<Rightarrow> None | n # _ \<Rightarrow> Some n)"
  using assms by (auto simp: append_snapshot_def snapshot_rows_def outcome_simps Let_def split: option.splits)

definition commit_of :: "persist_args \<Rightarrow> transition_result \<Rightarrow> datetime \<Rightarrow> commit_row" where
  "commit_of a r at_time = \<lparr>co_incident_id = pa_incident_id a, co_command_id = pa_command_id a,
     co_payload_sha256 = pa_payload_sha256 a, co_result = encode_result r, co_committed_at = at_time\<rparr>"

lemma insert_commit_Inr:
  assumes "insert_commit a r at_time s = Inr s'"
  shows "s' = s\<lparr>transition_commits := transition_commits s @ [commit_of a r at_time]\<rparr>"
    and "\<forall>c\<in>set (transition_commits s). \<not> (co_incident_id c = pa_incident_id a \<and> co_command_id c = pa_command_id a)"
  using assms by (auto simp: insert_commit_def outcome_simps commit_of_def)

text \<open>A memory written by a close: its source revision, its event and its bounded text.\<close>

definition memory_of :: "dict \<Rightarrow> dict \<Rightarrow> string \<Rightarrow> store \<Rightarrow> memory_row \<Rightarrow> bool" where
  "memory_of state approval event s m =
     (\<exists>r. get_revision (get approval ''postmortem_id'') (get approval ''postmortem_version'') s = Some r \<and>
        get state ''incident_id'' = JStr (mm_incident_id m) \<and>
        memory_content state (obj (rv_content r)) = Inr (mm_content m) \<and>
        mm_postmortem_id m = rv_postmortem_id r \<and> mm_postmortem_version m = rv_version r \<and>
        mm_close_event_id m = event \<and> mm_content m \<noteq> [] \<and> fits 6000 (mm_content m))"

lemma str_item_Inr [outcome_simps]: "str_item d k = Inr v \<longleftrightarrow> fmlookup d k = Some (JStr v)"
  by (cases "fmlookup d k") (auto simp: str_item_def item_def split: json.splits)

lemma remember_Inr:
  assumes "remember token state approval event now s = Inr s'"
  obtains (kept) m where "s' = s" and "m \<in> set (incident_memories s)"
      and "get state ''incident_id'' = JStr (mm_incident_id m)"
  | (added) m where "s' = s\<lparr>incident_memories := incident_memories s @ [m]\<rparr>" and "memory_of state approval event s m"
      and "\<forall>x\<in>set (incident_memories s). mm_incident_id x \<noteq> mm_incident_id m"
proof -
  let ?revision = "get_revision (get approval ''postmortem_id'') (get approval ''postmortem_version'') s"
  obtain pid version iid content where b: "fmlookup approval ''postmortem_id'' = Some pid"
      "fmlookup approval ''postmortem_version'' = Some version" "fmlookup state ''incident_id'' = Some (JStr iid)"
      "memory_content state (case get_revision pid version s of None \<Rightarrow> fmempty | Some r \<Rightarrow> obj (rv_content r)) = Inr content"
      "content \<noteq> []" "fits 6000 content"
    and rest: "(if \<exists>m\<in>set (incident_memories s). mm_incident_id m = iid then Inr s
        else case get_revision pid version s of
          None \<Rightarrow> Inl (IntegrityError ''fk_incident_memory_source'')
        | Some r \<Rightarrow>
            and_then (raise_if ((\<exists>m\<in>set (incident_memories s). mm_id m = ''mem_'' @ token) \<or>
                get_incident iid s = None \<or> \<not> (\<exists>e\<in>set (run_events s). ev_id e = event))
              (IntegrityError ''incident_memories'')) (\<lambda>_.
            Inr (s\<lparr>incident_memories := incident_memories s @
              [\<lparr>mm_id = ''mem_'' @ token, mm_incident_id = iid,
                mm_postmortem_id = rv_postmortem_id r, mm_postmortem_version = rv_version r,
                mm_close_event_id = event, mm_service = memory_text (get (obj (get state ''alert'')) ''service''),
                mm_signal = (if memory_text (get (obj (get (obj (get state ''alert'')) ''origin'')) ''signal'') = [] then None
                  else Some (memory_text (get (obj (get (obj (get state ''alert'')) ''origin'')) ''signal''))),
                mm_content = content, mm_indexed_at = now\<rparr>]\<rparr>))) = Inr s'"
    using assms unfolding remember_def Let_def outcome_simps by blast
  have look: "?revision = get_revision pid version s" using b by (simp add: get_lookup)
  have iid: "get state ''incident_id'' = JStr iid" using b by (simp add: get_lookup)
  show thesis
  proof (cases "\<exists>m\<in>set (incident_memories s). mm_incident_id m = iid")
    case True
    with rest kept iid show ?thesis by auto
  next
    case False
    then obtain r where r: "get_revision pid version s = Some r" using rest by (cases "get_revision pid version s") auto
    with rest False b look iid show ?thesis
      by (clarsimp simp: outcome_simps) (rule added, assumption, auto simp: memory_of_def)
  qed
qed

section \<open>A committed transition\<close>

text \<open>The rows a transition adds besides its commit.\<close>

definition next_incident :: "persist_args \<Rightarrow> incident_record \<Rightarrow> incident_record" where
  "next_incident a i = i\<lparr>ir_state := pa_incident_state a, ir_version := pa_expected_incident_version a + 1,
     ir_updated_at := dd_decided_at (pa_decision a)\<rparr>"

definition next_run :: "persist_args \<Rightarrow> run_record \<Rightarrow> run_record" where
  "next_run a r = r\<lparr>rr_state := pa_run_state a, rr_version := pa_expected_run_version a + 1,
     rr_updated_at := dd_decided_at (pa_decision a)\<rparr>"

definition stored_events :: "persist_args \<Rightarrow> store \<Rightarrow> run_event list" where
  "stored_events a s = event_rows (pa_incident_id a) (pa_run_id a) (last_sequence (pa_run_id a) s + 1) (pa_events a)"

definition stored_snapshot :: "persist_args \<Rightarrow> store \<Rightarrow> snapshot_record list" where
  "stored_snapshot a s = snapshot_rows (pa_incident_id a) (pa_run_id a) (pa_expected_run_version a + 1)
     (ev_sequence (last (stored_events a s))) (pa_snapshot a)"

definition result_of :: "persist_args \<Rightarrow> incident_record \<Rightarrow> run_record \<Rightarrow> store \<Rightarrow> transition_result" where
  "result_of a i r s = \<lparr>tr_incident = next_incident a i, tr_run = next_run a r, tr_events = stored_events a s,
     tr_snapshot = (case stored_snapshot a s of [] \<Rightarrow> None | n # _ \<Rightarrow> Some n), tr_replayed = False\<rparr>"

definition written ::
  "persist_args \<Rightarrow> incident_record \<Rightarrow> run_record \<Rightarrow> context_record list \<Rightarrow> memory_row list \<Rightarrow> store \<Rightarrow> store" where
  "written a i r contexts memories s = s\<lparr>
     incidents := update_where (\<lambda>x. ir_id x = pa_incident_id a)
       (\<lambda>x. x\<lparr>ir_state := pa_incident_state a, ir_version := ir_version x + 1,
               ir_updated_at := dd_decided_at (pa_decision a)\<rparr>) (incidents s),
     runs := update_where (\<lambda>x. rr_id x = pa_run_id a \<and> rr_incident_id x = pa_incident_id a)
       (\<lambda>x. x\<lparr>rr_state := pa_run_state a, rr_version := rr_version x + 1,
               rr_updated_at := dd_decided_at (pa_decision a)\<rparr>) (runs s),
     decisions := decisions s @ [decision_row (pa_incident_id a) (dd_run_id (pa_decision a)) (pa_decision a)],
     run_events := run_events s @ stored_events a s,
     snapshots := snapshots s @ stored_snapshot a s,
     text_context := text_context s @ contexts,
     transition_commits := transition_commits s @
       [commit_of a (result_of a i r s) (dd_decided_at (pa_decision a))],
     incident_memories := incident_memories s @ memories\<rparr>"

lemma last_sequence_cong: "run_events s = run_events s' \<Longrightarrow> last_sequence rid s = last_sequence rid s'"
  by (simp add: last_sequence_def)

lemma get_incident_cong: "incidents s = incidents s' \<Longrightarrow> get_incident iid s = get_incident iid s'"
  by (simp add: get_incident_def)

lemma get_for_incident_cong: "runs s = runs s' \<Longrightarrow> get_for_incident rid iid s = get_for_incident rid iid s'"
  by (simp add: get_for_incident_def)

text \<open>What a close leaves behind: the memory of this close, or one the incident already had.\<close>

definition closing :: "persist_args \<Rightarrow> bool" where
  "closing a = (get (dd_document (pa_decision a)) ''transition_id'' = JStr ''close_incident'' \<and>
     truthy (get (dd_document (pa_decision a)) ''approval''))"

definition close_memory :: "persist_args \<Rightarrow> string \<Rightarrow> memory_row list \<Rightarrow> store \<Rightarrow> bool" where
  "close_memory a event memories s =
     (case memories of
        [] \<Rightarrow> closing a \<longrightarrow> (\<exists>m\<in>set (incident_memories s).
           get (pa_incident_state a) ''incident_id'' = JStr (mm_incident_id m))
      | [m] \<Rightarrow> closing a \<and> memory_of (pa_incident_state a) (obj (get (dd_document (pa_decision a)) ''approval'')) event s m \<and>
           (\<forall>x\<in>set (incident_memories s). mm_incident_id x \<noteq> mm_incident_id m)
      | _ \<Rightarrow> False)"

lemma remember_close_Inr:
  assumes "remember_close token a event at_time s = Inr s'"
  obtains memories where "s' = s\<lparr>incident_memories := incident_memories s @ memories\<rparr>"
    and "close_memory a event memories s"
proof (cases "closing a")
  case False
  then have "s' = s" using assms by (auto simp: remember_close_def closing_def Let_def split: if_splits)
  then show thesis using that [of "[]"] False by (simp add: close_memory_def)
next
  case True
  then have "remember token (pa_incident_state a) (obj (get (dd_document (pa_decision a)) ''approval'')) event at_time s = Inr s'"
    using assms by (simp add: remember_close_def closing_def Let_def)
  then show thesis
  proof (cases rule: remember_Inr)
    case (kept m)
    then show thesis using that [of "[]"] by (auto simp: close_memory_def)
  next
    case (added m)
    then show thesis using that [of "[m]"] True by (auto simp: close_memory_def)
  qed
qed

lemma memory_of_cong:
  "postmortem_revisions s = postmortem_revisions s' \<Longrightarrow> memory_of state approval event s m = memory_of state approval event s' m"
  by (simp add: memory_of_def get_revision_def)

lemma close_memory_cong:
  assumes "postmortem_revisions s = postmortem_revisions s'" and "incident_memories s = incident_memories s'"
  shows "close_memory a event ms s = close_memory a event ms s'"
  using assms memory_of_cong [OF assms(1)] by (simp add: close_memory_def split: list.splits)

lemma write_transition_Inr:
  assumes "write_transition token a s = Inr (result, s')" and "pa_events a \<noteq> []"
  obtains i r contexts memories where "get_incident (pa_incident_id a) s = Some i"
    and "get_for_incident (pa_run_id a) (pa_incident_id a) s = Some r"
    and "ir_version i = pa_expected_incident_version a" and "rr_version r = pa_expected_run_version a"
    and "result = result_of a i r s" and "s' = written a i r contexts memories s"
    and "length contexts = length (pa_contexts a)"
    and "close_memory a (ed_id (hd (pa_events a))) memories s"
    and "\<forall>c\<in>set (transition_commits s). \<not> (co_incident_id c = pa_incident_id a \<and> co_command_id c = pa_command_id a)"
    and "get_decision (dd_id (pa_decision a)) s = None"
    and "jsonb_ok (JObj (pa_incident_state a))" and "jsonb_ok (JObj (pa_run_state a))"
proof -
  let ?iid = "pa_incident_id a" and ?rid = "pa_run_id a" and ?now = "dd_decided_at (pa_decision a)"
  obtain o1 s1 o2 s2 where
    u1: "update_incident ?iid (pa_expected_incident_version a) (pa_incident_state a) ?now s = Inr (o1, s1)"
    and u2: "update_run ?rid ?iid (pa_expected_run_version a) (pa_run_state a) ?now s1 = Inr (o2, s2)"
    and both: "o1 \<noteq> None \<and> o2 \<noteq> None"
    using assms(1) by (auto simp: write_transition_def Let_def outcome_simps split: option.splits)
  then obtain row rrow where o: "o1 = Some row" "o2 = Some rrow" by auto
  note inc = u1 [unfolded o] and run = u2 [unfolded o]
  obtain s3 stored s4 s5 snapshot s6 s7 where
    dec: "insert_decision ?iid (dd_run_id (pa_decision a)) (pa_decision a) s2 = Inr s3"
    and evs: "insert_events ?iid ?rid (last_sequence ?rid s3 + 1) (pa_events a) s3 = Inr (stored, s4)"
    and ctx: "append_contexts ?iid ?rid (pa_contexts a) s4 = Inr s5"
    and snap: "append_snapshot ?iid ?rid (rr_version rrow)
        (if stored = [] then last_sequence ?rid s3 else ev_sequence (last stored)) (pa_snapshot a) s5 = Inr (snapshot, s6)"
    and com: "insert_commit a \<lparr>tr_incident = row, tr_run = rrow, tr_events = stored, tr_snapshot = snapshot,
        tr_replayed = False\<rparr> ?now s6 = Inr s7"
    and mem: "remember_close token a (ev_id (hd stored)) ?now s7 = Inr s'"
    and res: "result = \<lparr>tr_incident = row, tr_run = rrow, tr_events = stored, tr_snapshot = snapshot, tr_replayed = False\<rparr>"
    using assms(1) by (auto simp: write_transition_def Let_def inc run outcome_simps)
  from inc obtain i where i: "get_incident ?iid s = Some i" "ir_version i = pa_expected_incident_version a"
    and row: "row = next_incident a i"
    and s1: "s1 = s\<lparr>incidents := update_where (\<lambda>r. ir_id r = ?iid)
       (\<lambda>r. r\<lparr>ir_state := pa_incident_state a, ir_version := ir_version r + 1, ir_updated_at := ?now\<rparr>) (incidents s)\<rparr>"
    by (rule update_incident_Inr) (simp add: next_incident_def)
  from run obtain r where r: "get_for_incident ?rid ?iid s = Some r" "rr_version r = pa_expected_run_version a"
    and rrow: "rrow = next_run a r"
    and s2: "s2 = s1\<lparr>runs := update_where (\<lambda>r. rr_id r = ?rid \<and> rr_incident_id r = ?iid)
       (\<lambda>r. r\<lparr>rr_state := pa_run_state a, rr_version := rr_version r + 1, rr_updated_at := ?now\<rparr>) (runs s1)\<rparr>"
    by (rule update_run_Inr) (simp add: next_run_def s1 get_for_incident_def)
  note s3 = insert_decision_Inr [OF dec]
  have "last_sequence ?rid s3 = last_sequence ?rid s" by (rule last_sequence_cong) (simp add: s3 s2 s1)
  with insert_events_Inr [OF evs] have stored: "stored = stored_events a s"
    and s4: "s4 = s3\<lparr>run_events := run_events s3 @ stored_events a s\<rparr>"
    by (simp_all add: stored_events_def)
  have nonempty: "stored \<noteq> []" "ev_id (hd stored) = ed_id (hd (pa_events a))"
    using assms(2) by (cases "pa_events a"; simp add: stored stored_events_def)+
  from ctx obtain contexts where s5: "s5 = s4\<lparr>text_context := text_context s4 @ contexts\<rparr>"
    and len: "length contexts = length (pa_contexts a)" by (rule append_contexts_Inr)
  have s6: "s6 = s5\<lparr>snapshots := snapshots s5 @ stored_snapshot a s\<rparr>"
    and snapshot: "snapshot = (case stored_snapshot a s of [] \<Rightarrow> None | n # _ \<Rightarrow> Some n)"
    using append_snapshot_Inr [OF snap] nonempty by (simp_all add: stored_snapshot_def stored rrow next_run_def)
  have result: "result = result_of a i r s" by (simp add: res row rrow stored snapshot result_of_def)
  note s7 = insert_commit_Inr [OF com [folded res, unfolded result]]
  from mem obtain memories where s': "s' = s7\<lparr>incident_memories := incident_memories s7 @ memories\<rparr>"
    and close: "close_memory a (ev_id (hd stored)) memories s7" by (rule remember_close_Inr)
  have "close_memory a (ed_id (hd (pa_events a))) memories s"
    using close unfolding nonempty(2)
    by (subst close_memory_cong [of s s7]) (simp_all add: s7 s6 s5 s4 s3 s2 s1)
  moreover have "s' = written a i r contexts memories s"
    by (simp add: s' s7 s6 s5 s4 s3 s2 s1 written_def)
  moreover have "\<forall>c\<in>set (transition_commits s). \<not> (co_incident_id c = ?iid \<and> co_command_id c = pa_command_id a)"
    using s7(2) by (simp add: s6 s5 s4 s3 s2 s1)
  moreover have "get_decision (dd_id (pa_decision a)) s = None"
    using s3(2) by (simp add: s2 s1 get_decision_def)
  moreover have "jsonb_ok (JObj (pa_incident_state a))" using inc by (rule update_incident_Inr)
  moreover have "jsonb_ok (JObj (pa_run_state a))" using run by (rule update_run_Inr)
  ultimately show thesis using that i r result len by blast
qed

lemma persist_transition_Inr:
  assumes "persist_transition token a s = Inr (result, s')"
  obtains (replayed) "get_transition (pa_incident_id a) (pa_command_id a) (pa_payload_sha256 a) s = Inr (Some result)"
      and "s' = s"
  | (committed) "get_transition (pa_incident_id a) (pa_command_id a) (pa_payload_sha256 a) s = Inr None"
      and "check_persist a = Inr ()" and "check_dispatch a s = Inr ()" and "pa_events a \<noteq> []"
      and "write_transition token a s = Inr (result, s')"
proof -
  obtain replay where g: "get_transition (pa_incident_id a) (pa_command_id a) (pa_payload_sha256 a) s = Inr replay"
    using assms unfolding persist_transition_def outcome_simps by blast
  show thesis
  proof (cases replay)
    case None
    then have c: "check_persist a = Inr ()" "check_dispatch a s = Inr ()" "write_transition token a s = Inr (result, s')"
      using assms by (auto simp: persist_transition_def g outcome_simps)
    have "pa_events a \<noteq> []" using c(1) by (simp add: check_persist_def outcome_simps)
    with c g None show thesis by (intro committed) simp_all
  next
    case (Some r)
    then have "r = result" "s' = s" using assms by (simp_all add: persist_transition_def g)
    with g Some show thesis by (intro replayed) simp_all
  qed
qed

section \<open>Records of a run\<close>

definition recorded :: "string \<Rightarrow> string \<Rightarrow> decision_draft \<Rightarrow> event_draft list \<Rightarrow> store \<Rightarrow> store" where
  "recorded iid rid d events s = s\<lparr>
     runs := update_where (\<lambda>r. rr_id r = rid) (\<lambda>r. r\<lparr>rr_updated_at := max_occurred events\<rparr>) (runs s),
     decisions := decisions s @ [decision_row iid (Some rid) d],
     run_events := run_events s @
       event_rows iid rid (last_sequence rid s + 1) (map (with_decision (dd_id d)) events)\<rparr>"

lemma append_run_events_Inr:
  assumes "append_run_events kinds iid rid d events s = Inr (stored, s')"
  shows "events \<noteq> []" and "\<forall>e\<in>set events. ed_kind e \<in> set kinds" and "s' = recorded iid rid d events s"
proof -
  obtain s1 s2 where "events \<noteq> []" "\<forall>e\<in>set events. ed_kind e \<in> set kinds"
    and s1: "insert_decision iid (Some rid) d s = Inr s1"
    and s2: "insert_events iid rid (last_sequence rid s1 + 1) (map (with_decision (dd_id d)) events) s1 = Inr (stored, s2)"
    and s': "touch_run rid (max_occurred events) s2 = Inr s'"
    using assms by (auto simp: append_run_events_def outcome_simps)
  then show "events \<noteq> []" "\<forall>e\<in>set events. ed_kind e \<in> set kinds" by simp_all
  have "last_sequence rid s1 = last_sequence rid s"
    by (rule last_sequence_cong) (simp add: insert_decision_Inr [OF s1])
  then show "s' = recorded iid rid d events s"
    using insert_decision_Inr [OF s1] insert_events_Inr [OF s2] touch_run_Inr [OF s']
    by (simp add: recorded_def)
qed

lemma lock_incident_run_Inr:
  "lock_incident_run iid rid s = Inr (i, r) \<longleftrightarrow>
     get_incident iid s = Some i \<and> get_for_incident rid iid s = Some r"
  by (auto simp: lock_incident_run_def split: option.splits)

lemma record_run_events_Inr:
  assumes "record_run_events iid rid d events s = Inr (stored, s')"
  shows "s' = recorded iid rid d events s" and "\<forall>e\<in>set events. ed_kind e \<in> set RECORDED_EVENTS"
    and "\<exists>i. get_incident iid s = Some i" and "\<exists>r. get_for_incident rid iid s = Some r"
  using assms append_run_events_Inr [of RECORDED_EVENTS iid rid d events s stored s']
  by (auto simp: record_run_events_def outcome_simps lock_incident_run_Inr)

section \<open>Dispatches\<close>

definition incident_patched :: "string \<Rightarrow> datetime \<Rightarrow> dict option \<Rightarrow> store \<Rightarrow> store" where
  "incident_patched iid at_time patch s = (case patch of None \<Rightarrow> s
     | Some p \<Rightarrow> s\<lparr>incidents := update_where (\<lambda>r. ir_id r = iid)
         (\<lambda>r. r\<lparr>ir_state := ir_state r ++\<^sub>f p, ir_version := ir_version r + 1, ir_updated_at := at_time\<rparr>)
         (incidents s)\<rparr>)"

definition run_patched :: "string \<Rightarrow> string \<Rightarrow> dict option \<Rightarrow> store \<Rightarrow> store" where
  "run_patched iid rid patch s = (case patch of None \<Rightarrow> s
     | Some p \<Rightarrow> s\<lparr>runs := update_where (\<lambda>r. rr_id r = rid \<and> rr_incident_id r = iid)
         (\<lambda>r. r\<lparr>rr_state := rr_state r ++\<^sub>f p\<rparr>) (runs s)\<rparr>)"

text \<open>What a completion that returned true had to satisfy.\<close>

definition completable :: "string \<Rightarrow> string \<Rightarrow> complete_args \<Rightarrow> store \<Rightarrow> bool" where
  "completable iid rid a s =
     (let dispatch = dispatch_or_run (cp_dispatch_id a) rid
      in \<not> list_ex (terminal_receipt dispatch) (dispatch_receipts rid s) \<and>
         list_ex (pending_receipt dispatch) (dispatch_receipts rid s) \<and>
         length (drafted_receipts (terminal_receipt dispatch) (cp_events a)) = 1 \<and>
         map (\<lambda>e. get (ed_payload e) ''run_patch'') (filter (\<lambda>e. ed_kind e \<in> set RUN_PATCH_EVENTS) (cp_events a)) =
           (case cp_run_patch a of None \<Rightarrow> [] | Some p \<Rightarrow> [JObj p]) \<and>
         (case cp_run_patch a of None \<Rightarrow> True | Some p \<Rightarrow> keys_within p RUN_PATCH_FIELDS \<and> jsonb_ok (JObj p)) \<and>
         (case cp_incident_patch a of None \<Rightarrow> True
          | Some p \<Rightarrow> jsonb_ok (JObj p) \<and>
              check_incident_patch a (hd (drafted_receipts (terminal_receipt dispatch) (cp_events a))) p = Inr ()))"

lemma complete_run_dispatch_Inr:
  assumes "complete_run_dispatch iid rid a s = Inr (done, s')"
  obtains (nothing) "\<not> done" and "s' = s"
  | (completed) i contexts where "done" and "completable iid rid a s" and "get_incident iid s = Some i"
      and "cp_expected_incident_version a \<noteq> None \<longrightarrow> cp_expected_incident_version a = Some (ir_version i)"
      and "\<exists>r. get_for_incident rid iid s = Some r"
      and "\<forall>e\<in>set (cp_events a). ed_kind e \<in> set DISPATCH_EVENTS"
      and "s' = recorded iid rid (cp_decision a) (cp_events a)
          ((run_patched iid rid (cp_run_patch a)
             (incident_patched iid (max_occurred (cp_events a)) (cp_incident_patch a) s))
           \<lparr>text_context := text_context s @ contexts\<rparr>)"
proof -
  let ?dispatch = "dispatch_or_run (cp_dispatch_id a) rid"
  let ?terminal = "drafted_receipts (terminal_receipt ?dispatch) (cp_events a)"
  obtain i r where ir: "get_incident iid s = Some i" "get_for_incident rid iid s = Some r"
    using assms by (auto simp: complete_run_dispatch_def Let_def outcome_simps lock_incident_run_Inr)
  then have lock: "lock_incident_run iid rid s = Inr (i, r)" by (simp add: lock_incident_run_Inr)
  show thesis
  proof (cases "list_ex (terminal_receipt ?dispatch) (dispatch_receipts rid s) \<or>
      \<not> list_ex (pending_receipt ?dispatch) (dispatch_receipts rid s)")
    case True
    then have "\<not> done" "s' = s" using assms
      by (auto simp: complete_run_dispatch_def Let_def lock split: if_splits)
    then show thesis by (rule nothing)
  next
    case False
    obtain s1 s2 s3 stored where "done"
      and v: "cp_expected_incident_version a \<noteq> None \<longrightarrow> cp_expected_incident_version a = Some (ir_version i)"
      and t: "length ?terminal = 1"
      and p: "map (\<lambda>e. get (ed_payload e) ''run_patch'') (filter (\<lambda>e. ed_kind e \<in> set RUN_PATCH_EVENTS) (cp_events a)) =
           (case cp_run_patch a of None \<Rightarrow> [] | Some p \<Rightarrow> [JObj p])"
      and s1: "(case cp_incident_patch a of None \<Rightarrow> Inr s
                | Some patch \<Rightarrow> and_then (check_incident_patch a (hd ?terminal) patch) (\<lambda>_.
                    patch_incident iid rid (cp_expected_incident_version a)
                      (max_occurred (cp_events a)) patch s)) = Inr s1"
      and s2: "(case cp_run_patch a of None \<Rightarrow> Inr s1 | Some p \<Rightarrow> patch_run iid rid p s1) = Inr s2"
      and s3: "append_contexts iid rid (cp_contexts a) s2 = Inr s3"
      and s4: "append_run_events DISPATCH_EVENTS iid rid (cp_decision a) (cp_events a) s3 = Inr (stored, s')"
      using assms False by (auto simp: complete_run_dispatch_def Let_def lock outcome_simps)
    have n1: "s1 = incident_patched iid (max_occurred (cp_events a)) (cp_incident_patch a) s"
      using s1 by (auto simp: incident_patched_def outcome_simps split: option.splits elim: patch_incident_Inr)
    have n2: "s2 = run_patched iid rid (cp_run_patch a) s1"
      using s2 patch_run_Inr(1) by (auto simp: run_patched_def split: option.splits)
    obtain contexts where n3: "s3 = s2\<lparr>text_context := text_context s2 @ contexts\<rparr>"
      using s3 by (rule append_contexts_Inr)
    have "text_context s2 = text_context s"
      by (simp add: n2 n1 run_patched_def incident_patched_def split: option.splits)
    with append_run_events_Inr [OF s4] n3
    have "s' = recorded iid rid (cp_decision a) (cp_events a) (s2\<lparr>text_context := text_context s @ contexts\<rparr>)"
      by simp
    moreover have "completable iid rid a s"
      using False t p s1 s2 patch_run_Inr(2,3)
      by (auto simp: completable_def outcome_simps split: option.splits elim: patch_incident_Inr)
    ultimately show thesis
      using completed [of i contexts] \<open>done\<close> ir v append_run_events_Inr(2) [OF s4] by (simp add: n2 n1)
  qed
qed

text \<open>The events and the run patch of an interrupted claim.\<close>

definition interrupted_events :: "claim_args \<Rightarrow> event_draft list" where
  "interrupted_events a = ca_interrupted_event a #
     (case ca_interrupted_termination a of None \<Rightarrow> [] | Some t \<Rightarrow> [t])"

definition interrupted_patch :: "claim_args \<Rightarrow> dict option" where
  "interrupted_patch a = (case ca_interrupted_termination a of None \<Rightarrow> None
     | Some t \<Rightarrow> Some (obj (get (ed_payload t) ''run_patch'')))"

lemma obj_item_Inr [outcome_simps]: "obj_item d k = Inr v \<longleftrightarrow> fmlookup d k = Some (JObj v)"
  by (cases "fmlookup d k") (auto simp: obj_item_def item_def split: json.splits)

lemma claim_interrupted_Inr:
  assumes "claim_interrupted iid rid a s = Inr s'"
  shows "s' = recorded iid rid (ca_interrupted_decision a) (interrupted_events a)
      (run_patched iid rid (interrupted_patch a) s)"
    and "\<forall>e\<in>set (interrupted_events a). ed_kind e \<in> set DISPATCH_EVENTS"
    and "case interrupted_patch a of None \<Rightarrow> True | Some p \<Rightarrow> keys_within p RUN_PATCH_FIELDS \<and> jsonb_ok (JObj p)"
    and "case ca_interrupted_termination a of None \<Rightarrow> True
      | Some t \<Rightarrow> get (ed_payload t) ''run_patch'' = JObj (the (interrupted_patch a))"
proof -
  consider (none) stored where "ca_interrupted_termination a = None"
      "append_run_events DISPATCH_EVENTS iid rid (ca_interrupted_decision a) [ca_interrupted_event a] s = Inr (stored, s')"
    | (some) t patch s1 stored where "ca_interrupted_termination a = Some t"
      "fmlookup (ed_payload t) ''run_patch'' = Some (JObj patch)" "patch_run iid rid patch s = Inr s1"
      "append_run_events DISPATCH_EVENTS iid rid (ca_interrupted_decision a) [ca_interrupted_event a, t] s1 = Inr (stored, s')"
    using assms by (auto simp: claim_interrupted_def outcome_simps split: option.splits)
  then have "s' = recorded iid rid (ca_interrupted_decision a) (interrupted_events a)
      (run_patched iid rid (interrupted_patch a) s) \<and>
    (\<forall>e\<in>set (interrupted_events a). ed_kind e \<in> set DISPATCH_EVENTS) \<and>
    (case interrupted_patch a of None \<Rightarrow> True | Some p \<Rightarrow> keys_within p RUN_PATCH_FIELDS \<and> jsonb_ok (JObj p)) \<and>
    (case ca_interrupted_termination a of None \<Rightarrow> True
      | Some t \<Rightarrow> get (ed_payload t) ''run_patch'' = JObj (the (interrupted_patch a)))"
  proof cases
    case none
    with append_run_events_Inr [OF none(2)] show ?thesis
      by (simp add: interrupted_events_def interrupted_patch_def run_patched_def)
  next
    case some
    with append_run_events_Inr [OF some(4)] patch_run_Inr [OF some(3)] show ?thesis
      by (simp add: interrupted_events_def interrupted_patch_def run_patched_def get_lookup)
  qed
  then show "s' = recorded iid rid (ca_interrupted_decision a) (interrupted_events a)
      (run_patched iid rid (interrupted_patch a) s)"
    and "\<forall>e\<in>set (interrupted_events a). ed_kind e \<in> set DISPATCH_EVENTS"
    and "case interrupted_patch a of None \<Rightarrow> True | Some p \<Rightarrow> keys_within p RUN_PATCH_FIELDS \<and> jsonb_ok (JObj p)"
    and "case ca_interrupted_termination a of None \<Rightarrow> True
      | Some t \<Rightarrow> get (ed_payload t) ''run_patch'' = JObj (the (interrupted_patch a))"
    by simp_all
qed

definition with_lock :: "string \<Rightarrow> string \<Rightarrow> store \<Rightarrow> store" where
  "with_lock iid rid s = s\<lparr>advisory_locks := advisory_locks s @ [dispatch_lock_name iid rid]\<rparr>"

lemma claim_run_dispatch_Inr:
  assumes "claim_run_dispatch iid rid a u s = Inr (answer, u', s')"
  obtains (active) "answer = Active" and "s' = s" and "dispatch_lock_name iid rid \<in> set (advisory_locks s)"
  | (complete) "answer = Complete" and "s' = with_lock iid rid s"
      and "list_ex (terminal_receipt (dispatch_or_run (ca_dispatch_id a) rid)) (dispatch_receipts rid s)"
  | (interrupted) "answer = Interrupted" and "claim_receipts (dispatch_or_run (ca_dispatch_id a) rid) rid s \<noteq> []"
      and "claim_interrupted iid rid a (with_lock iid rid s) = Inr s'"
  | (claimed) "answer = Claimed" and "claim_receipts (dispatch_or_run (ca_dispatch_id a) rid) rid s = []"
      and "dispatch_lock_name iid rid \<notin> set (advisory_locks s)"
      and "ed_kind (ca_intent_event a) \<in> set DISPATCH_EVENTS"
      and "s' = recorded iid rid (ca_intent_decision a) [ca_intent_event a] (with_lock iid rid s)"
proof -
  let ?d = "dispatch_or_run (ca_dispatch_id a) rid" and ?lock = "dispatch_lock_name iid rid"
  let ?s0 = "with_lock iid rid s"
  have receipts: "claim_receipts ?d rid ?s0 = claim_receipts ?d rid s"
    by (simp add: claim_receipts_def dispatch_receipts_def dispatch_events_def with_lock_def)
  have sub: "set (claim_receipts ?d rid s) \<subseteq> set (dispatch_receipts rid s)"
    by (auto simp: claim_receipts_def)
  show thesis
  proof (cases "?lock \<in> set (advisory_locks s)")
    case True
    then have "answer = Active" "s' = s"
      using assms by (auto simp: claim_run_dispatch_def Let_def outcome_simps)
    with True show thesis by (intro active)
  next
    case False
    then have free: "and_then (lock_incident_run iid rid ?s0) (\<lambda>_.
        if list_ex (terminal_receipt ?d) (claim_receipts ?d rid s) then Inr (Complete, u', ?s0)
        else if list_ex (pending_receipt ?d) (claim_receipts ?d rid s) \<or> claim_receipts ?d rid s \<noteq> []
        then and_then (claim_interrupted iid rid a ?s0) (\<lambda>s'. Inr (Interrupted, u', s'))
        else and_then (append_run_events DISPATCH_EVENTS iid rid (ca_intent_decision a)
               [ca_intent_event a] ?s0) (\<lambda>(_, s'). Inr (Claimed, u', s'))) = Inr (answer, u', s')"
      using assms by (auto simp: claim_run_dispatch_def Let_def outcome_simps receipts [unfolded with_lock_def]
          with_lock_def split: if_splits)
    consider (a) "list_ex (terminal_receipt ?d) (claim_receipts ?d rid s)"
      | (b) "\<not> list_ex (terminal_receipt ?d) (claim_receipts ?d rid s)" "claim_receipts ?d rid s \<noteq> []"
      | (c) "claim_receipts ?d rid s = []" by blast
    then show thesis
    proof cases
      case a
      then have "list_ex (terminal_receipt ?d) (dispatch_receipts rid s)" using sub by (auto simp: list_ex_iff)
      moreover have "answer = Complete" "s' = ?s0" using a free by (auto simp: outcome_simps)
      ultimately show thesis by (intro complete)
    next
      case b
      then have "answer = Interrupted" "claim_interrupted iid rid a ?s0 = Inr s'"
        using free by (auto simp: outcome_simps)
      with b show thesis by (intro interrupted)
    next
      case c
      then obtain stored where "answer = Claimed"
        and app: "append_run_events DISPATCH_EVENTS iid rid (ca_intent_decision a) [ca_intent_event a] ?s0 = Inr (stored, s')"
        using free by (auto simp: outcome_simps)
      with append_run_events_Inr [OF app] c False show thesis by (intro claimed) simp_all
    qed
  qed
qed

end
