(* ===== verification/Commits.thy ===== *)
theory Commits
  imports Runtime StoreLaws
begin

text \<open>
  Committed commands. The stored form of a result reads back as the result; a command that is
  retried returns what it committed, without a second effect, and reusing its identifier for
  another request is refused; of two writers planned on the same version at most one commits.
  Idempotency is stated as the interface \<open>command_log\<close> and interpreted on the two operations of
  the runtime that commit commands.
\<close>

section \<open>The stored form of a result\<close>

definition valid_incident :: "incident_record \<Rightarrow> bool" where
  "valid_incident i = (valid_datetime (ir_created_at i) \<and> valid_datetime (ir_updated_at i))"

definition valid_run :: "run_record \<Rightarrow> bool" where
  "valid_run r = (valid_datetime (rr_created_at r) \<and> valid_datetime (rr_updated_at r))"

text \<open>Timestamps as clocks and \<^verbatim>\<open>timestamptz\<close> columns give them.\<close>

definition valid_result :: "transition_result \<Rightarrow> bool" where
  "valid_result r = (valid_incident (tr_incident r) \<and> valid_run (tr_run r) \<and>
     list_all (\<lambda>e. valid_datetime (ev_occurred_at e)) (tr_events r) \<and>
     (case tr_snapshot r of None \<Rightarrow> True | Some n \<Rightarrow> valid_datetime (sn_created_at n)))"

lemmas item_defs = str_item_def opt_item_def int_item_def obj_item_def list_item_def time_item_def item_def

lemma decode_encode_incident: "valid_incident i \<Longrightarrow> decode_incident (encode_incident i) = Inr i"
  by (simp add: decode_incident_def encode_incident_def item_defs valid_incident_def fromisoformat_isoformat)

lemma decode_encode_run: "valid_run r \<Longrightarrow> decode_run (encode_run r) = Inr r"
  by (simp add: decode_run_def encode_run_def item_defs valid_run_def fromisoformat_isoformat)

lemma decode_encode_event: "valid_datetime (ev_occurred_at e) \<Longrightarrow> decode_event (encode_event e) = Inr e"
  by (cases "ev_turn_id e") (simp_all add: decode_event_def encode_event_def item_defs fromisoformat_isoformat)

lemma decode_encode_snapshot: "valid_datetime (sn_created_at n) \<Longrightarrow> decode_snapshot (encode_snapshot n) = Inr n"
  by (simp add: decode_snapshot_def encode_snapshot_def item_defs fromisoformat_isoformat)

lemma decode_encode_events:
  "list_all (\<lambda>e. valid_datetime (ev_occurred_at e)) es \<Longrightarrow>
     map_raise (\<lambda>e. decode_event (obj e)) (map (\<lambda>e. JObj (encode_event e)) es) = Inr es"
  by (induction es) (simp_all add: decode_encode_event)

lemma encoded_snapshot_nonempty [simp]: "encode_snapshot n \<noteq> fmempty"
proof -
  have "fmlookup (encode_snapshot n) ''run_id'' \<noteq> fmlookup fmempty ''run_id''"
    by (simp add: encode_snapshot_def)
  then show ?thesis by auto
qed

lemma decode_encode:
  assumes "valid_result r"
  shows "decode_result (encode_result r) replayed = Inr (r\<lparr>tr_replayed := replayed\<rparr>)"
proof (cases r)
  case (fields i run es snapshot m)
  then show ?thesis using assms
    by (cases snapshot) (simp_all add: decode_result_def encode_result_def item_defs valid_result_def
        decode_encode_incident decode_encode_run decode_encode_events decode_encode_snapshot)
qed

section \<open>Looking a command up\<close>

lemma get_transition_cong: "transition_commits s = transition_commits s' \<Longrightarrow>
    get_transition iid cid sha s = get_transition iid cid sha s'"
  by (simp add: get_transition_def)

definition command_row :: "string \<Rightarrow> string \<Rightarrow> store \<Rightarrow> commit_row option" where
  "command_row iid cid s = select_one (\<lambda>c. co_incident_id c = iid \<and> co_command_id c = cid) (transition_commits s)"

lemma get_transition_None: "get_transition iid cid sha s = Inr None \<longleftrightarrow> command_row iid cid s = None"
  by (auto simp: get_transition_def command_row_def outcome_simps split: option.splits if_splits)

lemma get_transition_append:
  assumes "transition_commits s' = transition_commits s @ new" and "get_transition iid cid sha s = Inr (Some r)"
  shows "get_transition iid cid sha s' = Inr (Some r)"
  using assms by (auto simp: get_transition_def select_one_append split: option.splits if_splits)

lemma get_transition_conflict:
  assumes "get_transition iid cid sha s = Inr (Some r)" and "sha' \<noteq> sha"
  shows "get_transition iid cid sha' s =
    Inl (IncidentIdempotencyConflictError (''command payload conflict: '' @ iid @ ''/'' @ cid))"
  using assms by (auto simp: get_transition_def split: option.splits if_splits)

text \<open>A write that returned is found again under its key.\<close>

lemma persist_then_lookup:
  assumes "persist_transition token a s = Inr (r, s')"
    and "get_transition (pa_incident_id a) (pa_command_id a) (pa_payload_sha256 a) s = Inr None"
    and "valid_result r"
  shows "get_transition (pa_incident_id a) (pa_command_id a) (pa_payload_sha256 a) s' = Inr (Some (r\<lparr>tr_replayed := True\<rparr>))"
  using assms(1)
proof (cases rule: persist_transition_Inr)
  case committed
  obtain i run contexts memories where r: "r = result_of a i run s"
    and s': "s' = written a i run contexts memories s"
    by (rule write_transition_Inr [OF committed(5,4)]) blast
  have "command_row (pa_incident_id a) (pa_command_id a) s = None"
    using assms(2) by (simp add: get_transition_None)
  then have "select_one (\<lambda>c. co_incident_id c = pa_incident_id a \<and> co_command_id c = pa_command_id a)
      (transition_commits s') = Some (commit_of a r (dd_decided_at (pa_decision a)))"
    unfolding command_row_def by (simp add: s' r written_def select_one_append) (simp add: select_one_def commit_of_def)
  then show ?thesis
    by (simp add: get_transition_def commit_of_def decode_encode [OF assms(3)])
next
  case replayed
  with assms(2) show ?thesis by simp
qed

lemma persist_commits:
  assumes "persist_transition token a s = Inr (r, s')"
  shows "\<exists>new. transition_commits s' = transition_commits s @ new"
  using assms
proof (cases rule: persist_transition_Inr)
  case committed
  then show ?thesis by (elim write_transition_Inr) (auto simp: written_def)
qed simp

section \<open>Idempotent commands\<close>

locale command_log =
  fixes lookup :: "'q \<Rightarrow> 's \<Rightarrow> 'r option outcome"
    and perform :: "'d \<Rightarrow> 'q \<Rightarrow> 's \<Rightarrow> ('r \<times> 's) outcome"
    and marked :: "'r \<Rightarrow> 'r" and sound :: "'r \<Rightarrow> bool"
    and same_key :: "'q \<Rightarrow> 'q \<Rightarrow> bool" and same_payload :: "'q \<Rightarrow> 'q \<Rightarrow> bool"
    and known :: "'q \<Rightarrow> bool" and grown :: "'s \<Rightarrow> 's \<Rightarrow> bool"
  assumes commit: "perform d q s = Inr (r, s') \<Longrightarrow> lookup q s = Inr None \<Longrightarrow> sound r \<Longrightarrow>
      lookup q s' = Inr (Some (marked r))"
    and replay: "known q \<Longrightarrow> lookup q s = Inr (Some r) \<Longrightarrow> perform d q s = Inr (r, s)"
    and conflict: "same_key q q' \<Longrightarrow> \<not> same_payload q q' \<Longrightarrow> lookup q s = Inr (Some r) \<Longrightarrow>
      \<exists>m. perform d q' s = Inl m"
    and keep: "grown s s' \<Longrightarrow> lookup q s = Inr (Some r) \<Longrightarrow> lookup q s' = Inr (Some r)"
    and accepted: "perform d q s = Inr (r, s') \<Longrightarrow> known q"
begin

lemma retry_later:
  assumes "perform d q s = Inr (r, s1)" and "lookup q s = Inr None" and "sound r" and "grown s1 s2"
  shows "perform d' q s2 = Inr (marked r, s2)"
  using keep [OF assms(4) commit [OF assms(1-3)]] accepted [OF assms(1)] by (rule replay [rotated])

lemma reuse_later:
  assumes "perform d q s = Inr (r, s1)" and "lookup q s = Inr None" and "sound r" and "grown s1 s2"
    and "same_key q q'" and "\<not> same_payload q q'"
  shows "\<exists>m. perform d' q' s2 = Inl m"
  using conflict [OF assms(5,6) keep [OF assms(4) commit [OF assms(1-3)]]] .

end

text \<open>What other writers do to the table of commits.\<close>

definition commits_grow :: "store \<Rightarrow> store \<Rightarrow> bool" where
  "commits_grow s s' = (\<exists>new. transition_commits s' = transition_commits s @ new)"

lemma commits_grow_refl [simp]: "commits_grow s s"
  by (simp add: commits_grow_def)

section \<open>The runtime's commands\<close>

definition planned_snapshot :: "runtime \<Rightarrow> draws \<Rightarrow> incident_command \<Rightarrow> run_record \<Rightarrow> dict \<Rightarrow> dict \<Rightarrow> store \<Rightarrow> snapshot_draft option" where
  "planned_snapshot rt dr c r istate rstate s =
     (if latest_snapshot (c_run_id c) s = None \<or> (rr_version r + 1) mod rt_snapshot_interval rt = 0
      then Some \<lparr>sd_id = d_id dr ''snap'', sd_incident_state = istate, sd_run_state = rstate,
                 sd_created_at = d_now dr\<rparr>
      else None)"

lemma plan_apply_Inr:
  assumes "plan_apply rt dr c sha i r s = Inr a"
  obtains t reviewed istate rstate document where
    "assert_supported_state (rt_workflow rt) (ir_state i) (rr_state r) = Inr ()"
    and "workflow_transition (rt_workflow rt) (c_transition_id c) = Inr t"
    and "validate c t (ir_state i) (ir_version i) = Inr ()"
    and "(if t_id t = ''close_incident'' then and_then (reviewed_postmortem_version i s) (\<lambda>v. Inr (Some v))
          else Inr None) = Inr reviewed"
    and "reduce (rt_workflow rt) dr c t (ir_state i) (rr_state r) = Inr (istate, rstate)"
    and "decision_document (rt_workflow rt) dr c t (ir_state i) reviewed = Inr document"
    and "a = \<lparr>pa_command_id = c_command_id c, pa_payload_sha256 = sha,
              pa_incident_id = c_incident_id c, pa_run_id = c_run_id c,
              pa_expected_incident_version = ir_version i, pa_expected_run_version = rr_version r,
              pa_incident_state = istate, pa_run_state = rstate,
              pa_decision = \<lparr>dd_id = d_id dr ''dec'', dd_document = document, dd_decided_at = d_now dr,
                             dd_run_id = Some (c_run_id c), dd_turn_id = c_turn_id c\<rparr>,
              pa_events = state_change_event (rt_workflow rt) dr c t istate rstate #
                map (extra_event dr) (c_extra_events c),
              pa_snapshot = planned_snapshot rt dr c r istate rstate s, pa_dispatch_id = c_dispatch_id c,
              pa_contexts = c_contexts c\<rparr>"
proof -
  obtain t where t: "workflow_transition (rt_workflow rt) (c_transition_id c) = Inr t"
    using assms by (auto simp: plan_apply_def Let_def outcome_simps split: sum.splits)
  have step: "and_then (assert_supported_state (rt_workflow rt) (ir_state i) (rr_state r)) (\<lambda>_.
      and_then (validate c t (ir_state i) (ir_version i)) (\<lambda>_.
      and_then (if t_id t = ''close_incident''
             then and_then (reviewed_postmortem_version i s) (\<lambda>v. Inr (Some v)) else Inr None) (\<lambda>reviewed.
      and_then (reduce (rt_workflow rt) dr c t (ir_state i) (rr_state r)) (\<lambda>(istate, rstate).
      and_then (decision_document (rt_workflow rt) dr c t (ir_state i) reviewed) (\<lambda>document.
      Inr \<lparr>pa_command_id = c_command_id c, pa_payload_sha256 = sha,
              pa_incident_id = c_incident_id c, pa_run_id = c_run_id c,
              pa_expected_incident_version = ir_version i, pa_expected_run_version = rr_version r,
              pa_incident_state = istate, pa_run_state = rstate,
              pa_decision = \<lparr>dd_id = d_id dr ''dec'', dd_document = document, dd_decided_at = d_now dr,
                             dd_run_id = Some (c_run_id c), dd_turn_id = c_turn_id c\<rparr>,
              pa_events = state_change_event (rt_workflow rt) dr c t istate rstate #
                map (extra_event dr) (c_extra_events c),
              pa_snapshot = planned_snapshot rt dr c r istate rstate s, pa_dispatch_id = c_dispatch_id c,
              pa_contexts = c_contexts c\<rparr>))))) = Inr a"
    using assms by (simp add: plan_apply_def Let_def t planned_snapshot_def)
  then show thesis unfolding outcome_simps using that t by (auto simp: outcome_simps)
qed

lemma plan_apply_identity:
  assumes "plan_apply rt dr c sha i r s = Inr a"
  shows "pa_command_id a = c_command_id c" "pa_payload_sha256 a = sha" "pa_incident_id a = c_incident_id c"
    "pa_run_id a = c_run_id c" "pa_expected_incident_version a = ir_version i"
    "pa_expected_run_version a = rr_version r" "pa_events a \<noteq> []" "pa_dispatch_id a = c_dispatch_id c"
    "dd_decided_at (pa_decision a) = d_now dr"
  using assms by (auto elim!: plan_apply_Inr)

lemma execute_Inr:
  assumes "execute rt dr c s = Inr (result, s')"
  obtains (replayed) "get_transition (c_incident_id c) (c_command_id c) (rt_digest rt (command_payload c)) s = Inr (Some result)"
      and "s' = s"
  | (committed) i r a where "get_transition (c_incident_id c) (c_command_id c) (rt_digest rt (command_payload c)) s = Inr None"
      and "get_incident (c_incident_id c) s = Some i" and "get_for_incident (c_run_id c) (c_incident_id c) s = Some r"
      and "plan_apply rt dr c (rt_digest rt (command_payload c)) i r s = Inr a"
      and "persist_transition (d_token dr) a s = Inr (result, s')"
proof -
  let ?sha = "rt_digest rt (command_payload c)"
  obtain replay where g: "get_transition (c_incident_id c) (c_command_id c) ?sha s = Inr replay"
    using assms unfolding execute_def Let_def outcome_simps by blast
  show thesis
  proof (cases replay)
    case None
    then have ex: "(case get_incident (c_incident_id c) s of
                None \<Rightarrow> Inl (IncidentNotFoundError (c_incident_id c))
              | Some i \<Rightarrow>
                  (case get_for_incident (c_run_id c) (c_incident_id c) s of
                     None \<Rightarrow> Inl (RunNotFoundError (c_run_id c))
                   | Some r \<Rightarrow> apply_command rt dr c ?sha i r s)) = Inr (result, s')"
      using assms by (simp add: execute_def Let_def g)
    then obtain i where i: "get_incident (c_incident_id c) s = Some i"
      by (cases "get_incident (c_incident_id c) s") simp_all
    with ex obtain r where r: "get_for_incident (c_run_id c) (c_incident_id c) s = Some r"
      by (cases "get_for_incident (c_run_id c) (c_incident_id c) s") simp_all
    from ex i r have "apply_command rt dr c ?sha i r s = Inr (result, s')" by simp
    then obtain a where "plan_apply rt dr c ?sha i r s = Inr a" "persist_transition (d_token dr) a s = Inr (result, s')"
      unfolding apply_command_def outcome_simps by blast
    with committed g None i r show thesis by blast
  next
    case (Some x)
    then have "x = result" "s' = s" using assms by (simp_all add: execute_def Let_def g)
    with g Some show thesis by (intro replayed) simp_all
  qed
qed

definition command_lookup :: "runtime \<Rightarrow> incident_command \<Rightarrow> store \<Rightarrow> transition_result option outcome" where
  "command_lookup rt c s = get_transition (c_incident_id c) (c_command_id c) (rt_digest rt (command_payload c)) s"

definition same_command :: "incident_command \<Rightarrow> incident_command \<Rightarrow> bool" where
  "same_command c c' = (c_incident_id c = c_incident_id c' \<and> c_command_id c = c_command_id c')"

definition same_digest :: "runtime \<Rightarrow> incident_command \<Rightarrow> incident_command \<Rightarrow> bool" where
  "same_digest rt c c' = (rt_digest rt (command_payload c) = rt_digest rt (command_payload c'))"

lemma execute_commit:
  assumes "execute rt dr c s = Inr (r, s')" and "command_lookup rt c s = Inr None" and "valid_result r"
  shows "command_lookup rt c s' = Inr (Some (r\<lparr>tr_replayed := True\<rparr>))"
  using assms(1)
proof (cases rule: execute_Inr)
  case (committed i run a)
  note f = plan_apply_identity [OF committed(4)]
  show ?thesis
    using persist_then_lookup [OF committed(5) _ assms(3)] committed(1) unfolding f command_lookup_def by blast
next
  case replayed
  with assms(2) show ?thesis by (simp add: command_lookup_def)
qed

lemma execute_grows: "execute rt dr c s = Inr (r, s') \<Longrightarrow> commits_grow s s'"
  by (cases rule: execute_Inr) (auto simp: commits_grow_def dest: persist_commits)

lemma execute_replay: "command_lookup rt c s = Inr (Some r) \<Longrightarrow> execute rt dr c s = Inr (r, s)"
  by (simp add: execute_def Let_def command_lookup_def)

lemma execute_conflict:
  assumes "same_command c c'" and "\<not> same_digest rt c c'" and "command_lookup rt c s = Inr (Some r)"
  shows "execute rt dr c' s = Inl (IncidentIdempotencyConflictError
     (''command payload conflict: '' @ c_incident_id c' @ ''/'' @ c_command_id c'))"
  using assms get_transition_conflict [of "c_incident_id c'" "c_command_id c'" "rt_digest rt (command_payload c)" s r
      "rt_digest rt (command_payload c')"]
  by (simp add: execute_def Let_def same_command_def same_digest_def command_lookup_def)

lemma lookup_grows:
  "commits_grow s s' \<Longrightarrow> get_transition iid cid sha s = Inr (Some r) \<Longrightarrow> get_transition iid cid sha s' = Inr (Some r)"
  unfolding commits_grow_def using get_transition_append by blast

interpretation commands: command_log "command_lookup rt" "execute rt" "\<lambda>r. r\<lparr>tr_replayed := True\<rparr>" valid_result
  same_command "same_digest rt" "\<lambda>_. True" commits_grow for rt
proof
  show "command_lookup rt q s' = Inr (Some r)" if "commits_grow s s'" "command_lookup rt q s = Inr (Some r)" for q s s' r
    using lookup_grows that unfolding command_lookup_def by blast
qed (auto intro: execute_commit execute_replay dest: execute_conflict)

section \<open>Starting a run\<close>

definition start_lookup :: "runtime \<Rightarrow> run_start \<Rightarrow> store \<Rightarrow> transition_result option outcome" where
  "start_lookup rt q s = get_transition (s_incident_id q) (s_command_id q) (rt_digest rt (start_payload q)) s"

definition known_objective :: "run_start \<Rightarrow> bool" where
  "known_objective q = (map_of objective_transitions (s_objective q) \<noteq> None)"

definition retries :: "run_start \<Rightarrow> incident_record \<Rightarrow> bool" where
  "retries q i = (s_objective q = ''investigate'' \<and> get (ir_state i) ''state'' = JStr ''investigating'')"

definition opened_run :: "runtime \<Rightarrow> draws \<Rightarrow> run_start \<Rightarrow> incident_record \<Rightarrow> run_record" where
  "opened_run rt dr q i = \<lparr>rr_id = d_id dr ''run'', rr_incident_id = s_incident_id q,
     rr_state = dict [(''workflow_version'', JStr (w_version (rt_workflow rt))),
        (''current_state'', get (ir_state i) ''state''), (''status'', JStr ''running'')],
     rr_version = 0, rr_created_at = d_now dr, rr_updated_at = d_now dr\<rparr>"

lemma start_run_Inr:
  assumes "start_run rt dr q s = Inr (result, s')"
  obtains (replayed) "start_lookup rt q s = Inr (Some result)" and "s' = s" and "known_objective q"
  | (committed) tid i a where "start_lookup rt q s = Inr None"
      and "map_of objective_transitions (s_objective q) = Some tid" and "get_incident (s_incident_id q) s = Some i"
      and "retries q i \<Longrightarrow> s_actor q = ''human'' \<or> s_actor q = ''system''"
      and "retries q i \<Longrightarrow> refuse_beside_live_run i s = Inr ()"
      and "get_run (d_id dr ''run'') s = None"
      and "plan_apply rt dr (start_command q (d_id dr ''run'') (retries q i) tid) (rt_digest rt (start_payload q)) i
             (opened_run rt dr q i) (s\<lparr>runs := runs s @ [opened_run rt dr q i]\<rparr>) = Inr a"
      and "persist_transition (d_token dr) a (s\<lparr>runs := runs s @ [opened_run rt dr q i]\<rparr>) = Inr (result, s')"
      and "jsonb_ok (JObj (rr_state (opened_run rt dr q i)))"
proof -
  let ?sha = "rt_digest rt (start_payload q)"
  obtain tid where tid: "map_of objective_transitions (s_objective q) = Some tid"
    using assms by (cases "map_of objective_transitions (s_objective q)") (simp_all add: start_run_def)
  have known: "known_objective q" using tid by (simp add: known_objective_def)
  obtain replay where g: "start_lookup rt q s = Inr replay"
    using assms unfolding start_run_def start_lookup_def tid by (auto simp: Let_def outcome_simps)
  show thesis
  proof (cases replay)
    case (Some x)
    then have "x = result" "s' = s"
      using assms g by (simp_all add: start_run_def start_lookup_def tid Let_def)
    with g Some known show thesis by (intro replayed) simp_all
  next
    case None
    obtain i where i: "get_incident (s_incident_id q) s = Some i"
      using assms g None by (cases "get_incident (s_incident_id q) s")
        (simp_all add: start_run_def start_lookup_def tid Let_def)
    obtain run s1 where actor: "retries q i \<Longrightarrow> s_actor q = ''human'' \<or> s_actor q = ''system''"
      and live: "retries q i \<Longrightarrow> refuse_beside_live_run i s = Inr ()"
      and run: "add_run (d_id dr ''run'') (s_incident_id q)
         (dict [(''workflow_version'', JStr (w_version (rt_workflow rt))),
            (''current_state'', get (ir_state i) ''state''), (''status'', JStr ''running'')]) (d_now dr) s = Inr (run, s1)"
      and app: "apply_command rt dr (start_command q (rr_id run) (retries q i) tid) ?sha i run s1 = Inr (result, s')"
      using assms g None i
      by (auto simp: start_run_def start_lookup_def tid Let_def retries_def outcome_simps split: if_splits)
    note r = add_run_Inr [OF run]
    have run_eq: "run = opened_run rt dr q i" by (simp add: r(1) opened_run_def)
    obtain a where "plan_apply rt dr (start_command q (rr_id run) (retries q i) tid) ?sha i run s1 = Inr a"
        "persist_transition (d_token dr) a s1 = Inr (result, s')"
      using app unfolding apply_command_def outcome_simps by blast
    with committed [OF _ tid i actor live r(2)] g None r(5) show thesis
      by (simp add: r(4) run_eq) (simp add: opened_run_def)
  qed
qed

definition same_start :: "run_start \<Rightarrow> run_start \<Rightarrow> bool" where
  "same_start q q' = (s_incident_id q = s_incident_id q' \<and> s_command_id q = s_command_id q')"

definition same_start_digest :: "runtime \<Rightarrow> run_start \<Rightarrow> run_start \<Rightarrow> bool" where
  "same_start_digest rt q q' = (rt_digest rt (start_payload q) = rt_digest rt (start_payload q'))"

lemma start_commit:
  assumes "start_run rt dr q s = Inr (r, s')" and "start_lookup rt q s = Inr None" and "valid_result r"
  shows "start_lookup rt q s' = Inr (Some (r\<lparr>tr_replayed := True\<rparr>))"
  using assms(1)
proof (cases rule: start_run_Inr)
  case (committed tid i a)
  note f = plan_apply_identity [OF committed(7)]
  let ?s1 = "s\<lparr>runs := runs s @ [opened_run rt dr q i]\<rparr>"
  have "start_lookup rt q ?s1 = Inr None"
    using committed(1) unfolding start_lookup_def by (subst get_transition_cong [of _ s]) simp_all
  then show ?thesis
    using persist_then_lookup [OF committed(8) _ assms(3)] f unfolding start_lookup_def by (simp add: start_command_def)
next
  case replayed
  with assms(2) show ?thesis by simp
qed

lemma start_grows: "start_run rt dr q s = Inr (r, s') \<Longrightarrow> commits_grow s s'"
  by (cases rule: start_run_Inr) (auto simp: commits_grow_def dest: persist_commits)

lemma start_replay:
  "known_objective q \<Longrightarrow> start_lookup rt q s = Inr (Some r) \<Longrightarrow> start_run rt dr q s = Inr (r, s)"
  by (auto simp: start_run_def start_lookup_def known_objective_def Let_def split: option.splits)

lemma start_conflict:
  assumes "same_start q q'" and "\<not> same_start_digest rt q q'" and "start_lookup rt q s = Inr (Some r)"
  shows "\<exists>m. start_run rt dr q' s = Inl m"
  using assms get_transition_conflict [of "s_incident_id q'" "s_command_id q'" "rt_digest rt (start_payload q)" s r
      "rt_digest rt (start_payload q')"]
  by (auto simp: start_run_def Let_def same_start_def same_start_digest_def start_lookup_def split: option.splits)

interpretation starts: command_log "start_lookup rt" "start_run rt" "\<lambda>r. r\<lparr>tr_replayed := True\<rparr>" valid_result
  same_start "same_start_digest rt" known_objective commits_grow for rt
proof
  show "start_lookup rt q s' = Inr (Some r)" if "commits_grow s s'" "start_lookup rt q s = Inr (Some r)" for q s s' r
    using lookup_grows that unfolding start_lookup_def by blast
  show "known_objective q" if "start_run rt d q s = Inr (r, s')" for d q s r s'
    using that by (cases rule: start_run_Inr) (auto simp: known_objective_def)
qed (auto intro: start_commit start_replay dest: start_conflict)

section \<open>First executions\<close>

text \<open>What a command that was not committed before leaves: the rows of its plan.\<close>

lemma persist_fresh:
  assumes "persist_transition token a s = Inr (result, s')" and "plan_apply rt dr c sha i r0 sx = Inr a"
    and "get_transition (c_incident_id c) (c_command_id c) sha s = Inr None"
    and "get_incident (c_incident_id c) s = Some i" and "get_for_incident (c_run_id c) (c_incident_id c) s = Some r"
  obtains contexts memories where "result = result_of a i r s" and "s' = written a i r contexts memories s"
    and "get_incident (c_incident_id c) s' = Some (next_incident a i)"
    and "get_for_incident (c_run_id c) (c_incident_id c) s' = Some (next_run a r)"
proof -
  note ident = plan_apply_identity [OF assms(2)]
  have "write_transition token a s = Inr (result, s')"
    using assms(1) by (cases rule: persist_transition_Inr) (use assms(3) ident in simp_all)
  then obtain i' r' contexts memories where w: "get_incident (pa_incident_id a) s = Some i'"
      "get_for_incident (pa_run_id a) (pa_incident_id a) s = Some r'" "ir_version i' = pa_expected_incident_version a"
      "rr_version r' = pa_expected_run_version a" "result = result_of a i' r' s" "s' = written a i' r' contexts memories s"
    using ident(7) by (rule write_transition_Inr)
  then have "i' = i" "r' = r" using assms(4,5) ident(3,4) by auto
  moreover have "get_incident (c_incident_id c) s' = Some (next_incident a i)"
      "get_for_incident (c_run_id c) (c_incident_id c) s' = Some (next_run a r)"
    using w calculation assms(4,5) ident
    by (simp_all add: get_incident_def get_for_incident_def written_def select_one_update_where next_incident_def next_run_def)
  ultimately show thesis using that w by blast
qed

lemma execute_fresh:
  assumes "execute rt dr c s = Inr (result, s')" and "command_lookup rt c s = Inr None"
  obtains i r a contexts memories where "get_incident (c_incident_id c) s = Some i"
    and "get_for_incident (c_run_id c) (c_incident_id c) s = Some r"
    and "plan_apply rt dr c (rt_digest rt (command_payload c)) i r s = Inr a"
    and "result = result_of a i r s" and "s' = written a i r contexts memories s"
    and "get_incident (c_incident_id c) s' = Some (next_incident a i)"
    and "get_for_incident (c_run_id c) (c_incident_id c) s' = Some (next_run a r)"
  using assms(1)
proof (cases rule: execute_Inr)
  case replayed
  with assms(2) show thesis by (simp add: command_lookup_def)
next
  case (committed i r a)
  from committed(5,4,1,2,3) obtain contexts memories where "result = result_of a i r s" "s' = written a i r contexts memories s"
      "get_incident (c_incident_id c) s' = Some (next_incident a i)"
      "get_for_incident (c_run_id c) (c_incident_id c) s' = Some (next_run a r)"
    by (rule persist_fresh)
  with that committed show thesis by blast
qed

lemma start_fresh:
  assumes "start_run rt dr q s = Inr (result, s')" and "start_lookup rt q s = Inr None"
  obtains tid i a contexts memories where "map_of objective_transitions (s_objective q) = Some tid"
    and "get_incident (s_incident_id q) s = Some i" and "get_run (d_id dr ''run'') s = None"
    and "plan_apply rt dr (start_command q (d_id dr ''run'') (retries q i) tid) (rt_digest rt (start_payload q)) i
           (opened_run rt dr q i) (s\<lparr>runs := runs s @ [opened_run rt dr q i]\<rparr>) = Inr a"
    and "result = result_of a i (opened_run rt dr q i) (s\<lparr>runs := runs s @ [opened_run rt dr q i]\<rparr>)"
    and "s' = written a i (opened_run rt dr q i) contexts memories (s\<lparr>runs := runs s @ [opened_run rt dr q i]\<rparr>)"
    and "get_incident (s_incident_id q) s' = Some (next_incident a i)"
  using assms(1)
proof (cases rule: start_run_Inr)
  case replayed
  with assms(2) show thesis by simp
next
  case (committed tid i a)
  let ?c = "start_command q (d_id dr ''run'') (retries q i) tid" and ?s1 = "s\<lparr>runs := runs s @ [opened_run rt dr q i]\<rparr>"
  have c: "c_incident_id ?c = s_incident_id q" "c_command_id ?c = s_command_id q" "c_run_id ?c = d_id dr ''run''"
    by (simp_all add: start_command_def)
  have none: "select_one (\<lambda>r. rr_id r = d_id dr ''run'' \<and> rr_incident_id r = s_incident_id q) (runs s) = None"
    using committed(6) by (auto simp: get_run_def select_one_None)
  have run: "get_for_incident (c_run_id ?c) (c_incident_id ?c) ?s1 = Some (opened_run rt dr q i)"
    unfolding c get_for_incident_def by (simp add: select_one_append none) (simp add: select_one_def opened_run_def)
  have inc: "get_incident (c_incident_id ?c) ?s1 = Some i" using committed(3) by (simp add: c get_incident_def)
  have new: "get_transition (c_incident_id ?c) (c_command_id ?c) (rt_digest rt (start_payload q)) ?s1 = Inr None"
    using committed(1) unfolding start_lookup_def c by (subst get_transition_cong [of _ s]) simp_all
  from committed(8,7) new inc run obtain contexts memories where
      "result = result_of a i (opened_run rt dr q i) ?s1" "s' = written a i (opened_run rt dr q i) contexts memories ?s1"
      "get_incident (c_incident_id ?c) s' = Some (next_incident a i)"
    by (rule persist_fresh)
  with that committed show thesis unfolding c by blast
qed

end
