(* ===== verification/EventLog.thy ===== *)
theory EventLog
  imports StoreLaws
begin

text \<open>
  The event log of a run. Abstractly it is a list that only grows, read from a position; the
  store keeps it as rows with a sequence number, read in pages. \<open>log_ok\<close> says the numbers of
  every run are 0, 1, 2, ... in the order of insertion; under it, reading after a cursor is
  dropping a prefix of the list, the paging loop of a replay returns all of the rest, and a
  client that polls with the sequence of the last event it saw reads every event exactly once.
\<close>

definition log_of :: "string \<Rightarrow> store \<Rightarrow> run_event list" where
  "log_of rid s = filter (\<lambda>e. ev_run_id e = rid) (run_events s)"

definition log_ok :: "store \<Rightarrow> bool" where
  "log_ok s = (\<forall>rid. map ev_sequence (log_of rid s) = map int [0..<length (log_of rid s)])"

lemma log_okD: "log_ok s \<Longrightarrow> map ev_sequence (log_of rid s) = map int [0..<length (log_of rid s)]"
  by (simp add: log_ok_def)

lemma log_nth: "log_ok s \<Longrightarrow> k < length (log_of rid s) \<Longrightarrow> ev_sequence (log_of rid s ! k) = int k"
  using log_okD [of s rid] by (metis add_0 length_map length_upt minus_nat.diff_0 nth_map nth_upt)

lemma log_cong: "run_events s = run_events s' \<Longrightarrow> log_of rid s = log_of rid s'"
  by (simp add: log_of_def)

lemma log_ok_cong: "run_events s = run_events s' \<Longrightarrow> log_ok s = log_ok s'"
  by (simp add: log_ok_def log_of_def)

lemma log_ok_empty: "log_ok empty_store"
  by (simp add: log_ok_def log_of_def empty_store_def)

section \<open>Appending\<close>

lemma foldl_max_upt: "foldl max (-1) (map int [0..<n]) = int n - 1"
  by (induction n) simp_all

lemma last_sequence_log: "log_ok s \<Longrightarrow> last_sequence rid s = int (length (log_of rid s)) - 1"
  using log_okD [of s rid] foldl_max_upt [of "length (log_of rid s)"]
  by (simp add: last_sequence_def log_of_def)

lemma log_append:
  assumes "run_events s' = run_events s @ event_rows iid rid n ds"
  shows "log_of x s' = (if x = rid then log_of x s @ event_rows iid rid n ds else log_of x s)"
  using assms by (simp add: log_of_def)

lemma log_ok_append:
  assumes "log_ok s" and "run_events s' = run_events s @ event_rows iid rid (last_sequence rid s + 1) ds"
  shows "log_ok s'"
  unfolding log_ok_def
proof
  fix x
  show "map ev_sequence (log_of x s') = map int [0..<length (log_of x s')]"
  proof (cases "x = rid")
    case False
    then show ?thesis using log_append [OF assms(2)] log_okD [OF assms(1)] by simp
  next
    case True
    let ?n = "length (log_of rid s)"
    have "map (\<lambda>k. int ?n + int k) [0..<length ds] = map int [?n..<?n + length ds]"
      by (simp add: map_add_upt [symmetric] o_def add.commute)
    then show ?thesis
      using True log_append [OF assms(2)] log_okD [OF assms(1), of rid] last_sequence_log [OF assms(1), of rid]
      by (simp add: event_rows_sequences upt_add_eq_append [of 0])
  qed
qed

section \<open>Reading after a cursor\<close>

lemma filter_sequence_drop:
  "map ev_sequence es = map int [n..<n + length es] \<Longrightarrow> filter (\<lambda>e. k < ev_sequence e) es = drop (nat (k + 1) - n) es"
proof (induction es arbitrary: n)
  case (Cons e es)
  then have e: "ev_sequence e = int n" and rest: "map ev_sequence es = map int [Suc n..<Suc n + length es]"
    by (simp_all add: upt_conv_Cons del: upt_Suc)
  from Cons.IH [OF rest] have IH: "filter (\<lambda>e. k < ev_sequence e) es = drop (nat (k + 1) - Suc n) es" .
  show ?case
  proof (cases "k < int n")
    case True
    then have "nat (k + 1) - n = 0" "nat (k + 1) - Suc n = 0" by simp_all
    then show ?thesis using True e IH by simp
  next
    case False
    then have "nat (k + 1) - n = Suc (nat (k + 1) - Suc n)" by simp
    then show ?thesis using False e IH by simp
  qed
qed simp

lemma sorted_by_sequence:
  assumes "sorted (map ev_sequence es)" and "distinct (map ev_sequence es)"
  shows "sort_key (\<lambda>e. (ev_sequence e, ev_id e)) es = es"
proof (rule sort_key_id_if_sorted)
  have "sorted_wrt (<) (map ev_sequence es)" using assms by (simp add: strict_sorted_iff)
  then have "sorted_wrt (\<lambda>a b. ev_sequence a < ev_sequence b) es" by (simp add: sorted_wrt_map)
  then have "sorted_wrt (\<lambda>a b. (ev_sequence a, ev_id a) \<le> (ev_sequence b, ev_id b)) es"
    by (rule sorted_wrt_mono_rel [rotated]) (simp add: less_eq_prod_def)
  then show "sorted (map (\<lambda>e. (ev_sequence e, ev_id e)) es)" by (simp add: sorted_wrt_map)
qed

lemma log_drop_order:
  assumes "log_ok s"
  shows "sorted (map ev_sequence (drop n (log_of rid s)))" "distinct (map ev_sequence (drop n (log_of rid s)))"
proof -
  have "map ev_sequence (drop n (log_of rid s)) = drop n (map int [0..<length (log_of rid s)])"
    by (simp add: log_okD [OF assms] drop_map [symmetric])
  then show "sorted (map ev_sequence (drop n (log_of rid s)))" "distinct (map ev_sequence (drop n (log_of rid s)))"
    by (simp_all add: drop_map distinct_map sorted_wrt_map)
qed

lemma events_after_log:
  assumes "log_ok s"
  shows "events_after rid k s = drop (nat (k + 1)) (log_of rid s)"
proof -
  have "filter (\<lambda>e. ev_run_id e = rid \<and> k < ev_sequence e) (run_events s) =
      filter (\<lambda>e. k < ev_sequence e) (log_of rid s)"
    by (simp add: log_of_def conj_commute)
  also have "\<dots> = drop (nat (k + 1)) (log_of rid s)"
    using filter_sequence_drop [of "log_of rid s" 0 k] log_okD [OF assms, of rid] by simp
  finally have rows: "filter (\<lambda>e. ev_run_id e = rid \<and> k < ev_sequence e) (run_events s) =
      drop (nat (k + 1)) (log_of rid s)" .
  show ?thesis
    unfolding events_after_def rows by (rule sorted_by_sequence [OF log_drop_order [OF assms]])
qed

lemma replay_pages_log:
  assumes "log_ok s"
  shows "replay_pages rid k s = drop (nat (k + 1)) (log_of rid s)"
  using assms
proof (induction rid k s rule: replay_pages.induct)
  case (1 rid k s)
  let ?rest = "drop (nat (k + 1)) (log_of rid s)"
  let ?batch = "take 1000 ?rest"
  have after: "events_after rid k s = ?rest" using "1.prems" by (rule events_after_log)
  show ?case
  proof (cases "length ?batch < 1000")
    case True
    then have "length ?rest < 1000" by simp
    then show ?thesis by (simp add: replay_pages.simps [of rid k s] after Let_def)
  next
    case False
    then have len: "1000 \<le> length ?rest" by simp
    let ?i = "999 + nat (k + 1)"
    have "last ?batch = ?rest ! 999"
      using len by (subst last_conv_nth) (auto simp: min_def add.commute)
    also have "\<dots> = log_of rid s ! ?i" using len by (simp add: add.commute)
    finally have last: "ev_sequence (last ?batch) = int ?i"
      using log_nth [OF "1.prems", of ?i rid] len by simp
    have nonempty: "?batch \<noteq> []" using len by auto
    have "replay_pages rid (int ?i) s = drop (nat (int ?i + 1)) (log_of rid s)"
      using "1.IH" [OF refl] nonempty False "1.prems" unfolding after last by blast
    moreover have "nat (int ?i + 1) = nat (k + 1) + 1000" by arith
    ultimately have "replay_pages rid (int ?i) s = drop 1000 ?rest" by (simp add: add.commute)
    then show ?thesis
      using nonempty False
      by (simp add: replay_pages.simps [of rid k s] after Let_def last del: take_eq_Nil drop_drop)
  qed
qed

text \<open>
  C30. The paging loop of a replay terminates and returns exactly the events after the cursor, in
  order and each once, however many pages that takes: it equals the unpaged query.
\<close>

theorem replay_pages_complete:
  assumes "log_ok s"
  shows "replay_pages rid k s = events_after rid k s \<and>
     map ev_sequence (replay_pages rid k s) =
       map int [nat (k + 1)..<length (filter (\<lambda>e. ev_run_id e = rid) (run_events s))]"
  unfolding replay_pages_log [OF assms] events_after_log [OF assms] log_of_def [symmetric]
  by (simp only: drop_map [symmetric] log_okD [OF assms]) (simp add: drop_map)

definition sample_log_event :: "int \<Rightarrow> run_event" where
  "sample_log_event n = \<lparr>ev_id = ''evt_'' @ int_str n, ev_incident_id = ''inc_1'', ev_run_id = ''run_1'',
     ev_sequence = n, ev_kind = ''state_change'', ev_payload = fmempty, ev_occurred_at = sample_time,
     ev_turn_id = None\<rparr>"

definition sample_log :: "int list \<Rightarrow> store" where
  "sample_log ns = empty_store\<lparr>run_events := map sample_log_event ns\<rparr>"

lemma sample_log_of: "log_of rid (sample_log ns) = (if rid = ''run_1'' then map sample_log_event ns else [])"
  by (auto simp: log_of_def sample_log_def sample_log_event_def filter_empty_conv)

lemma sample_log_ok: "ns = map int [0..<n] \<Longrightarrow> log_ok (sample_log ns)"
  by (simp add: log_ok_def sample_log_of) (simp add: sample_log_event_def)

theorem replay_pages_complete_witness:
  "replay_pages ''run_1'' 0 (sample_log [0, 1, 2]) = map sample_log_event [1, 2]"
proof -
  have ok: "log_ok (sample_log [0, 1, 2])" by (rule sample_log_ok [of _ 3]) (simp add: upt_conv_Cons)
  have "replay_pages ''run_1'' 0 (sample_log [0, 1, 2]) = events_after ''run_1'' 0 (sample_log [0, 1, 2])"
    using replay_pages_complete [OF ok, of "''run_1''" 0] by blast
  then show ?thesis by (simp add: events_after_log [OF ok] sample_log_of)
qed

section \<open>Polling\<close>

text \<open>
  What a reader of pages relies on: a page is the next part of an abstract log, and the sequence
  of an event is its position.
\<close>

locale paged_log =
  fixes log :: "'s \<Rightarrow> 'e list" and page :: "int \<Rightarrow> nat \<Rightarrow> 's \<Rightarrow> 'e list outcome"
    and position :: "'e \<Rightarrow> int" and ok :: "'s \<Rightarrow> bool"
  assumes page_next: "ok s \<Longrightarrow> 1 \<le> n \<Longrightarrow> n \<le> 1000 \<Longrightarrow> page k n s = Inr (take n (drop (nat (k + 1)) (log s)))"
    and position_nth: "ok s \<Longrightarrow> i < length (log s) \<Longrightarrow> position (log s ! i) = int i"
begin

text \<open>The cursor after a page is the number of events read so far, less one.\<close>

lemma cursor_advances:
  assumes "ok s" and "1 \<le> n" "n \<le> 1000" and "-1 \<le> k" and "page k n s = Inr es" and "es \<noteq> []"
  shows "nat (position (last es) + 1) = nat (k + 1) + length es"
    and "take (nat (position (last es) + 1)) (log s) = take (nat (k + 1)) (log s) @ es"
proof -
  let ?m = "nat (k + 1)"
  have es: "es = take n (drop ?m (log s))" using assms(5) page_next [OF assms(1-3)] by simp
  define i where "i = ?m + (length es - 1)"
  have len: "0 < length es" "?m + length es \<le> length (log s)" using assms(6) by (auto simp: es)
  then have i: "i < length (log s)" "Suc i = ?m + length es" unfolding i_def by linarith+
  have "last es = log s ! i"
    using assms(6) len by (subst last_conv_nth) (auto simp: es i_def)
  then have "position (last es) = int i" using position_nth [OF assms(1) i(1)] by simp
  then show eq: "nat (position (last es) + 1) = ?m + length es" using i(2) by simp
  show "take (nat (position (last es) + 1)) (log s) = take ?m (log s) @ es"
    unfolding eq by (simp add: take_add) (simp add: es min_def)
qed

text \<open>
  A reader that stops and resumes at its cursor after the log has grown continues where it was:
  what it had read and what it reads next is a prefix of the log, without gap or repetition.
\<close>

lemma resume:
  assumes "ok s" "ok s'" and "1 \<le> n" "n \<le> 1000" and "-1 \<le> k"
    and "page k n s = Inr es" "es \<noteq> []" and "log s' = log s @ new"
    and "page (position (last es)) n s' = Inr es'"
  shows "take (nat (k + 1)) (log s') @ es @ es' = take (nat (k + 1) + length es + length es') (log s')"
proof -
  note adv = cursor_advances [OF assms(1,3,4,5,6,7)]
  have es': "es' = take n (drop (nat (k + 1) + length es) (log s'))"
    using assms(9) page_next [OF assms(2-4)] adv(1) by simp
  have es: "es = take n (drop (nat (k + 1)) (log s))" using assms(6) page_next [OF assms(1,3,4)] by simp
  have fits: "nat (k + 1) + length es \<le> length (log s)" using assms(7) by (auto simp: es)
  have "take (nat (k + 1) + length es) (log s') = take (nat (k + 1)) (log s') @ es"
    using adv fits by (simp add: assms(8))
  moreover have "take (nat (k + 1) + length es + length es') (log s') =
      take (nat (k + 1) + length es) (log s') @ es'"
    by (simp add: take_add) (simp add: es' min_def)
  ultimately show ?thesis by simp
qed

end

interpretation run_log: paged_log "log_of rid" "\<lambda>k n s. list_after rid k n s" ev_sequence log_ok for rid
  by unfold_locales (simp_all add: list_after_def events_after_log log_nth)

text \<open>
  C31. A client that polls a run's events from the sequence of the last event it received, while
  the run keeps appending, has read after each poll exactly a prefix of the run's log: no event
  is skipped and none is delivered twice.
\<close>

theorem polling_exactly_once:
  assumes "log_ok s" and "log_ok s'" and "1 \<le> limit" and "limit \<le> 1000" and "-1 \<le> k"
    and "list_after rid k limit s = Inr es" and "es \<noteq> []" and "log_of rid s' = log_of rid s @ new"
    and "list_after rid (ev_sequence (last es)) limit s' = Inr es'"
  shows "take (nat (k + 1)) (log_of rid s') @ es @ es' =
     take (nat (k + 1) + length es + length es') (log_of rid s')"
  by (rule run_log.resume [OF assms])

theorem polling_exactly_once_witness:
  "list_after ''run_1'' (-1) 1 (sample_log [0]) = Inr [sample_log_event 0] \<and>
   list_after ''run_1'' (ev_sequence (sample_log_event 0)) 1 (sample_log [0, 1]) = Inr [sample_log_event 1] \<and>
   [sample_log_event 0] @ [sample_log_event 1] = take 2 (log_of ''run_1'' (sample_log [0, 1]))"
proof -
  have ok: "log_ok (sample_log [0])" "log_ok (sample_log [0, 1])"
    by (rule sample_log_ok [of _ 1], simp) (rule sample_log_ok [of _ 2], simp add: upt_conv_Cons)
  have a: "list_after ''run_1'' (-1) 1 (sample_log [0]) = Inr [sample_log_event 0]"
    and b: "list_after ''run_1'' (ev_sequence (last [sample_log_event 0])) 1 (sample_log [0, 1]) = Inr [sample_log_event 1]"
    using ok by (simp_all add: list_after_def events_after_log sample_log_of) (simp add: sample_log_event_def)
  have "log_of ''run_1'' (sample_log [0, 1]) = log_of ''run_1'' (sample_log [0]) @ [sample_log_event 1]"
    by (simp add: sample_log_of)
  from polling_exactly_once [OF ok _ _ _ a _ this b] a b show ?thesis by (simp add: numeral_2_eq_2)
qed

end
