(* ===== verification/Idempotency.thy ===== *)
theory Idempotency
  imports Store
begin

text \<open>
  Request bindings (\<^verbatim>\<open>IdempotencyRepository\<close> of \<^verbatim>\<open>persistence/repositories.py\<close>): one row per scope
  and key digest, which replays the outcome of the same request and refuses another one, until
  it expires. The contract a client relies on is the locale \<open>request_bindings\<close>.
\<close>

section \<open>Clock arithmetic\<close>

definition leap_year :: "nat \<Rightarrow> bool" where
  "leap_year y = (y mod 4 = 0 \<and> (y mod 100 \<noteq> 0 \<or> y mod 400 = 0))"

definition days_in_month :: "nat \<Rightarrow> nat \<Rightarrow> nat" where
  "days_in_month y m = (if m = 2 then (if leap_year y then 29 else 28)
     else if m = 4 \<or> m = 6 \<or> m = 9 \<or> m = 11 then 30 else 31)"

text \<open>
  \<^verbatim>\<open>now + timedelta(hours=24)\<close> and \<^verbatim>\<open>now + timedelta(microseconds=1)\<close>, for clocks before the last
  day Python's calendar has.
\<close>

definition next_day :: "datetime \<Rightarrow> datetime" where
  "next_day t =
     (if dt_day t < days_in_month (dt_year t) (dt_month t)
      then Datetime (dt_year t) (dt_month t) (dt_day t + 1) (dt_hour t) (dt_minute t) (dt_second t) (dt_micro t)
      else if dt_month t < 12
      then Datetime (dt_year t) (dt_month t + 1) 1 (dt_hour t) (dt_minute t) (dt_second t) (dt_micro t)
      else Datetime (dt_year t + 1) 1 1 (dt_hour t) (dt_minute t) (dt_second t) (dt_micro t))"

definition next_micro :: "datetime \<Rightarrow> datetime" where
  "next_micro t =
     (case t of Datetime y mo d h mi s us \<Rightarrow>
        if us < 999999 then Datetime y mo d h mi s (us + 1)
        else if s < 59 then Datetime y mo d h mi (s + 1) 0
        else if mi < 59 then Datetime y mo d h (mi + 1) 0 0
        else if h < 23 then Datetime y mo d (h + 1) 0 0 0
        else next_day (Datetime y mo d 0 0 0 0))"

lemma next_day_later: "t < next_day t"
  by (cases t) (auto simp: next_day_def less_datetime_def dt_key_def)

lemma next_micro_later: "t < next_micro t"
  by (cases t) (auto simp: next_micro_def next_day_def less_datetime_def dt_key_def)

section \<open>Bindings\<close>

record idempotency_outcome =
  io_response_status :: int
  io_resource_id :: string
  io_replayed :: bool
  io_response_payload :: dict

record idempotency_binding =
  ib_outcome :: idempotency_outcome
  ib_replayed :: bool

record idempotency_row =
  ik_scope :: string
  ik_key_digest :: string
  ik_payload_sha256 :: string
  ik_principal_id :: string
  ik_method :: string
  ik_canonical_path :: string
  ik_binding :: string
  ik_outcome :: dict
  ik_created_at :: datetime
  ik_expires_at :: "datetime option"

datatype binding_error = IdempotencyConflictError string | LookupError string | Unbound py_error

definition get_binding :: "string \<Rightarrow> string \<Rightarrow> idempotency_row list \<Rightarrow> idempotency_row option" where
  "get_binding scope key rows = select_one (\<lambda>r. ik_scope r = scope \<and> ik_key_digest r = key) rows"

definition expired :: "datetime \<Rightarrow> idempotency_row \<Rightarrow> bool" where
  "expired now r = (case ik_expires_at r of None \<Rightarrow> False | Some t \<Rightarrow> t \<le> now)"

text \<open>The lifetime of a binding; \<open>None\<close> inside is kept for as long as the principal.\<close>

definition retained_until :: "string \<Rightarrow> datetime \<Rightarrow> datetime option \<Rightarrow> binding_error + datetime option" where
  "retained_until binding created expires =
     (if binding = ''at_least_24h''
      then Inr (Some (max (case expires of None \<Rightarrow> next_day created | Some t \<Rightarrow> t) (next_day created)))
      else if binding = ''principal_lifetime'' then Inr None
      else Inl (Unbound (ValueError (''unsupported idempotency binding: '' @ binding))))"

definition stored_outcome :: "dict \<Rightarrow> binding_error + idempotency_outcome" where
  "stored_outcome d =
     (case (int_item d ''response_status'', str_item d ''resource_id'') of
        (Inr status, Inr rid) \<Rightarrow> Inr \<lparr>io_response_status = status, io_resource_id = rid, io_replayed = True,
           io_response_payload = obj (getd d ''response_payload'' (JObj fmempty))\<rparr>
      | (Inl e, _) \<Rightarrow> Inl (Unbound e)
      | (_, Inl e) \<Rightarrow> Inl (Unbound e))"

definition outcome_document :: "idempotency_outcome \<Rightarrow> dict" where
  "outcome_document io = dict [(''response_status'', JInt (io_response_status io)),
     (''resource_id'', JStr (io_resource_id io)), (''replayed'', JBool False),
     (''response_payload'', JObj (io_response_payload io))]"

record claim_request =
  cq_scope :: string
  cq_key_digest :: string
  cq_payload_sha256 :: string
  cq_principal_id :: string
  cq_method :: string
  cq_canonical_path :: string
  cq_binding :: string
  cq_outcome :: idempotency_outcome
  cq_now :: datetime
  cq_expires_at :: "datetime option"

definition replay_binding :: "string \<Rightarrow> idempotency_row \<Rightarrow> binding_error + idempotency_binding" where
  "replay_binding scope r =
     and_then (stored_outcome (ik_outcome r)) (\<lambda>io. Inr \<lparr>ib_outcome = io, ib_replayed = True\<rparr>)"

text \<open>
  \<^verbatim>\<open>claim_or_replay\<close>: an expired row is removed and replaced; the columns' lengths and checks are
  those of the table \<^verbatim>\<open>idempotency_records\<close>.
\<close>

definition claim_row :: "claim_request \<Rightarrow> datetime option \<Rightarrow> idempotency_row" where
  "claim_row q until = \<lparr>ik_scope = cq_scope q, ik_key_digest = cq_key_digest q,
     ik_payload_sha256 = cq_payload_sha256 q, ik_principal_id = cq_principal_id q, ik_method = cq_method q,
     ik_canonical_path = cq_canonical_path q, ik_binding = cq_binding q,
     ik_outcome = outcome_document (cq_outcome q), ik_created_at = cq_now q, ik_expires_at = until\<rparr>"

definition storable_claim :: "claim_request \<Rightarrow> bool" where
  "storable_claim q = (fits 320 (cq_scope q) \<and> fits 64 (cq_key_digest q) \<and> fits 64 (cq_payload_sha256 q) \<and>
     fits 64 (cq_principal_id q) \<and> fits 200 (cq_canonical_path q) \<and>
     (cq_method q = ''POST'' \<or> cq_method q = ''PUT'') \<and> jsonb_ok (JObj (outcome_document (cq_outcome q))))"

definition claim_or_replay ::
  "claim_request \<Rightarrow> idempotency_row list \<Rightarrow> binding_error + idempotency_binding \<times> idempotency_row list" where
  "claim_or_replay q rows =
     and_then (retained_until (cq_binding q) (cq_now q) (cq_expires_at q)) (\<lambda>until.
     let mine = (\<lambda>r. ik_scope r = cq_scope q \<and> ik_key_digest r = cq_key_digest q);
         found = get_binding (cq_scope q) (cq_key_digest q) rows;
         kept = (case found of Some r \<Rightarrow> if expired (cq_now q) r then filter (\<lambda>r. \<not> mine r) rows else rows
                 | None \<Rightarrow> rows)
     in case get_binding (cq_scope q) (cq_key_digest q) kept of
          None \<Rightarrow>
            if storable_claim q
            then Inr (\<lparr>ib_outcome = cq_outcome q, ib_replayed = False\<rparr>, kept @ [claim_row q until])
            else Inl (Unbound (DataError ''idempotency_records''))
        | Some r \<Rightarrow>
            if ik_principal_id r \<noteq> cq_principal_id q \<or> ik_payload_sha256 r \<noteq> cq_payload_sha256 q
            then Inl (IdempotencyConflictError (cq_scope q))
            else and_then (replay_binding (cq_scope q) r) (\<lambda>b. Inr (b, kept)))"

text \<open>\<^verbatim>\<open>peek\<close>: the read-only replay check, which does not look at the principal.\<close>

definition peek ::
  "string \<Rightarrow> string \<Rightarrow> string \<Rightarrow> datetime \<Rightarrow> idempotency_row list \<Rightarrow> binding_error + idempotency_binding option" where
  "peek scope key sha now rows =
     (case get_binding scope key rows of
        None \<Rightarrow> Inr None
      | Some r \<Rightarrow>
          if expired now r then Inr None
          else if ik_payload_sha256 r \<noteq> sha then Inl (IdempotencyConflictError scope)
          else and_then (replay_binding scope r) (\<lambda>b. Inr (Some b)))"

definition set_response_payload ::
  "string \<Rightarrow> string \<Rightarrow> dict \<Rightarrow> idempotency_row list \<Rightarrow> binding_error + idempotency_row list" where
  "set_response_payload scope key payload rows =
     (case get_binding scope key rows of
        None \<Rightarrow> Inl (LookupError ''idempotency binding is absent'')
      | Some _ \<Rightarrow>
          if \<not> jsonb_ok (JObj payload) then Inl (Unbound (DataError ''unsupported Unicode escape sequence''))
          else Inr (update_where (\<lambda>r. ik_scope r = scope \<and> ik_key_digest r = key)
            (\<lambda>r. r\<lparr>ik_outcome := fmupd ''response_payload'' (JObj payload) (ik_outcome r)\<rparr>) rows))"

section \<open>What the repository does\<close>

text \<open>A binding another request left behind: whose, for what, and until when.\<close>

definition bound :: "string \<Rightarrow> string \<Rightarrow> string \<Rightarrow> string \<Rightarrow> dict \<Rightarrow> datetime \<Rightarrow> idempotency_row list \<Rightarrow> bool" where
  "bound scope key who sha payload now rows =
     (\<exists>r. get_binding scope key rows = Some r \<and> \<not> expired now r \<and> ik_principal_id r = who \<and>
        ik_payload_sha256 r = sha \<and> fmlookup (ik_outcome r) ''response_payload'' = Some (JObj payload) \<and>
        (\<exists>status. fmlookup (ik_outcome r) ''response_status'' = Some (JInt status)) \<and>
        (\<exists>rid. fmlookup (ik_outcome r) ''resource_id'' = Some (JStr rid)))"

lemma get_binding_without:
  assumes "(s, k) \<noteq> (scope, key)"
  shows "get_binding s k (filter (\<lambda>r. \<not> (ik_scope r = scope \<and> ik_key_digest r = key)) rows) = get_binding s k rows"
  using assms unfolding get_binding_def select_one_def by (induction rows) auto

lemma claim_fresh_Inr:
  assumes "claim_or_replay q rows = Inr (b, rows')" and "\<not> ib_replayed b"
  obtains kept until where "rows' = kept @ [claim_row q until]" and "get_binding (cq_scope q) (cq_key_digest q) kept = None"
    and "retained_until (cq_binding q) (cq_now q) (cq_expires_at q) = Inr until"
    and "\<And>s k. (s, k) \<noteq> (cq_scope q, cq_key_digest q) \<Longrightarrow> get_binding s k kept = get_binding s k rows"
    and "\<And>r. get_binding (cq_scope q) (cq_key_digest q) rows = Some r \<Longrightarrow> expired (cq_now q) r"
proof -
  let ?mine = "\<lambda>r. ik_scope r = cq_scope q \<and> ik_key_digest r = cq_key_digest q"
  define kept where "kept = (case get_binding (cq_scope q) (cq_key_digest q) rows of
      Some r \<Rightarrow> if expired (cq_now q) r then filter (\<lambda>r. \<not> ?mine r) rows else rows | None \<Rightarrow> rows)"
  obtain until where until: "retained_until (cq_binding q) (cq_now q) (cq_expires_at q) = Inr until"
    using assms(1) unfolding claim_or_replay_def outcome_simps by blast
  have none: "get_binding (cq_scope q) (cq_key_digest q) kept = None" and rows: "rows' = kept @ [claim_row q until]"
    using assms by (auto simp: claim_or_replay_def until Let_def kept_def outcome_simps replay_binding_def
        split: option.splits if_splits)
  have other: "get_binding s k kept = get_binding s k rows" if "(s, k) \<noteq> (cq_scope q, cq_key_digest q)" for s k
    unfolding kept_def using get_binding_without [OF that]
    by (cases "get_binding (cq_scope q) (cq_key_digest q) rows") (simp_all del: de_Morgan_conj)
  have "expired (cq_now q) r" if "get_binding (cq_scope q) (cq_key_digest q) rows = Some r" for r
    using none that unfolding kept_def by (auto split: if_splits)
  with that rows none until other show thesis by blast
qed

lemma claim_replay_Inr:
  assumes "claim_or_replay q rows = Inr (b, rows')" and "ib_replayed b"
  obtains r io where "rows' = rows" and "get_binding (cq_scope q) (cq_key_digest q) rows = Some r"
    and "\<not> expired (cq_now q) r" and "ik_principal_id r = cq_principal_id q"
    and "ik_payload_sha256 r = cq_payload_sha256 q" and "stored_outcome (ik_outcome r) = Inr io" and "ib_outcome b = io"
proof -
  let ?mine = "\<lambda>r. ik_scope r = cq_scope q \<and> ik_key_digest r = cq_key_digest q"
  obtain until where until: "retained_until (cq_binding q) (cq_now q) (cq_expires_at q) = Inr until"
    using assms(1) unfolding claim_or_replay_def outcome_simps by blast
  have gone: "get_binding (cq_scope q) (cq_key_digest q) (filter (\<lambda>r. \<not> ?mine r) rows) = None"
    by (auto simp: get_binding_def select_one_None)
  obtain r where r: "get_binding (cq_scope q) (cq_key_digest q) rows = Some r"
    using assms by (cases "get_binding (cq_scope q) (cq_key_digest q) rows")
      (auto simp: claim_or_replay_def until Let_def outcome_simps split: if_splits)
  have live: "\<not> expired (cq_now q) r"
  proof
    assume "expired (cq_now q) r"
    with assms gone r show False
      by (auto simp: claim_or_replay_def until Let_def split: if_splits)
  qed
  obtain io where "stored_outcome (ik_outcome r) = Inr io" "b = \<lparr>ib_outcome = io, ib_replayed = True\<rparr>"
      "rows' = rows" "ik_principal_id r = cq_principal_id q" "ik_payload_sha256 r = cq_payload_sha256 q"
    using assms(1) r live
    by (auto simp: claim_or_replay_def until Let_def outcome_simps replay_binding_def split: if_splits)
  with that r live show thesis by simp
qed

lemma set_payload_Inr:
  assumes "set_response_payload scope key payload rows = Inr rows'"
  obtains r where "get_binding scope key rows = Some r"
    and "get_binding scope key rows' = Some (r\<lparr>ik_outcome := fmupd ''response_payload'' (JObj payload) (ik_outcome r)\<rparr>)"
    and "\<And>s k. (s, k) \<noteq> (scope, key) \<Longrightarrow> get_binding s k rows' = get_binding s k rows"
proof -
  let ?f = "\<lambda>r. r\<lparr>ik_outcome := fmupd ''response_payload'' (JObj payload) (ik_outcome r)\<rparr>"
  have rows': "rows' = update_where (\<lambda>r. ik_scope r = scope \<and> ik_key_digest r = key) ?f rows"
    using assms by (auto simp: set_response_payload_def split: option.splits if_splits)
  obtain r where r: "get_binding scope key rows = Some r"
    using assms by (auto simp: set_response_payload_def split: option.splits)
  have "get_binding scope key rows' = Some (?f r)"
    using r unfolding rows' get_binding_def by (simp add: select_one_update_where)
  moreover have "get_binding s k rows' = get_binding s k rows" if "(s, k) \<noteq> (scope, key)" for s k
    unfolding rows' get_binding_def using that by (intro select_one_update_other) auto
  ultimately show thesis using that r by blast
qed

section \<open>The contract\<close>

locale request_bindings =
  fixes claim :: "claim_request \<Rightarrow> 'rows \<Rightarrow> binding_error + idempotency_binding \<times> 'rows"
    and answer :: "string \<Rightarrow> string \<Rightarrow> dict \<Rightarrow> 'rows \<Rightarrow> binding_error + 'rows"
    and bound_by :: "string \<Rightarrow> string \<Rightarrow> string \<Rightarrow> string \<Rightarrow> dict \<Rightarrow> datetime \<Rightarrow> 'rows \<Rightarrow> bool"
  assumes answered: "claim q rows = Inr (b, rows1) \<Longrightarrow> \<not> ib_replayed b \<Longrightarrow>
      answer (cq_scope q) (cq_key_digest q) payload rows1 = Inr rows2 \<Longrightarrow> now < next_day (cq_now q) \<Longrightarrow>
      bound_by (cq_scope q) (cq_key_digest q) (cq_principal_id q) (cq_payload_sha256 q) payload now rows2"
    and replay: "bound_by (cq_scope q) (cq_key_digest q) (cq_principal_id q) (cq_payload_sha256 q) payload (cq_now q) rows \<Longrightarrow>
      cq_binding q = ''at_least_24h'' \<Longrightarrow>
      \<exists>b. claim q rows = Inr (b, rows) \<and> ib_replayed b \<and> io_response_payload (ib_outcome b) = payload"
    and other_claim: "claim q rows = Inr (b, rows') \<Longrightarrow> (cq_scope q, cq_key_digest q) \<noteq> (scope, key) \<Longrightarrow>
      bound_by scope key who sha payload now rows \<Longrightarrow> bound_by scope key who sha payload now rows'"
    and other_answer: "answer scope' key' payload' rows = Inr rows' \<Longrightarrow> (scope', key') \<noteq> (scope, key) \<Longrightarrow>
      bound_by scope key who sha payload now rows \<Longrightarrow> bound_by scope key who sha payload now rows'"
begin

text \<open>A request answered once is replayed, also after another request was claimed and answered.\<close>

lemma replay_after_other:
  assumes "claim q rows = Inr (b, rows1)" and "\<not> ib_replayed b"
    and "answer (cq_scope q) (cq_key_digest q) payload rows1 = Inr rows2"
    and "claim q' rows2 = Inr (b', rows3)" and "answer (cq_scope q') (cq_key_digest q') payload' rows3 = Inr rows4"
    and "(cq_scope q', cq_key_digest q') \<noteq> (cq_scope q, cq_key_digest q)"
    and "again = q\<lparr>cq_now := now\<rparr>" and "now < next_day (cq_now q)" and "cq_binding q = ''at_least_24h''"
  shows "\<exists>b. claim again rows4 = Inr (b, rows4) \<and> ib_replayed b \<and> io_response_payload (ib_outcome b) = payload"
proof -
  have "bound_by (cq_scope q) (cq_key_digest q) (cq_principal_id q) (cq_payload_sha256 q) payload now rows2"
    using answered [OF assms(1-3,8)] .
  then have "bound_by (cq_scope q) (cq_key_digest q) (cq_principal_id q) (cq_payload_sha256 q) payload now rows4"
    using other_claim [OF assms(4,6)] other_answer [OF assms(5,6)] by blast
  then show ?thesis using replay [of again] assms(7,9) by simp
qed

end

lemma claim_answered:
  assumes "claim_or_replay q rows = Inr (b, rows1)" and "\<not> ib_replayed b"
    and "set_response_payload (cq_scope q) (cq_key_digest q) payload rows1 = Inr rows2" and "now < next_day (cq_now q)"
  shows "bound (cq_scope q) (cq_key_digest q) (cq_principal_id q) (cq_payload_sha256 q) payload now rows2"
proof -
  from assms(1,2) obtain kept until where rows1: "rows1 = kept @ [claim_row q until]"
    and none: "get_binding (cq_scope q) (cq_key_digest q) kept = None"
    and until: "retained_until (cq_binding q) (cq_now q) (cq_expires_at q) = Inr until"
    by (rule claim_fresh_Inr)
  have got: "get_binding (cq_scope q) (cq_key_digest q) rows1 = Some (claim_row q until)"
    using none unfolding rows1 get_binding_def by (simp add: select_one_append) (simp add: select_one_def claim_row_def)
  have live: "\<not> expired now (claim_row q until)"
    using until assms(4) by (auto simp: retained_until_def expired_def claim_row_def not_le split: if_splits)
  from assms(3) obtain r where "get_binding (cq_scope q) (cq_key_digest q) rows1 = Some r"
    and "get_binding (cq_scope q) (cq_key_digest q) rows2 =
      Some (r\<lparr>ik_outcome := fmupd ''response_payload'' (JObj payload) (ik_outcome r)\<rparr>)"
    by (rule set_payload_Inr)
  with got live show ?thesis by (simp add: bound_def expired_def claim_row_def outcome_document_def)
qed

lemma claim_bound:
  assumes "bound (cq_scope q) (cq_key_digest q) (cq_principal_id q) (cq_payload_sha256 q) payload (cq_now q) rows"
    and "cq_binding q = ''at_least_24h''"
  shows "\<exists>b. claim_or_replay q rows = Inr (b, rows) \<and> ib_replayed b \<and> io_response_payload (ib_outcome b) = payload"
  using assms
  by (auto simp: bound_def claim_or_replay_def retained_until_def Let_def replay_binding_def stored_outcome_def
      int_item_def str_item_def item_def getd_def)

lemma bound_cong: "get_binding scope key rows = get_binding scope key rows' \<Longrightarrow>
    bound scope key who sha payload now rows = bound scope key who sha payload now rows'"
  by (simp add: bound_def)

lemma claim_other:
  assumes "claim_or_replay q rows = Inr (b, rows')" and "(cq_scope q, cq_key_digest q) \<noteq> (scope, key)"
  shows "get_binding scope key rows' = get_binding scope key rows"
proof (cases "ib_replayed b")
  case True
  with assms(1) show ?thesis by (elim claim_replay_Inr) simp_all
next
  case False
  obtain kept until where rows': "rows' = kept @ [claim_row q until]"
    and other: "\<And>s k. (s, k) \<noteq> (cq_scope q, cq_key_digest q) \<Longrightarrow> get_binding s k kept = get_binding s k rows"
    by (rule claim_fresh_Inr [OF assms(1) False]) blast
  have "get_binding scope key [claim_row q until] = None"
    using assms(2) by (auto simp: get_binding_def select_one_None claim_row_def)
  then have "get_binding scope key rows' = get_binding scope key kept"
    by (simp add: rows' get_binding_def select_one_append split: option.splits)
  with other [of scope key] assms(2) show ?thesis by metis
qed

interpretation bindings: request_bindings claim_or_replay set_response_payload bound
proof
  show "bound scope key who sha payload now rows'" if "claim_or_replay q rows = Inr (b, rows')"
    "(cq_scope q, cq_key_digest q) \<noteq> (scope, key)" "bound scope key who sha payload now rows"
    for q rows b rows' scope key who sha payload now
    using bound_cong [OF claim_other [OF that(1,2)]] that(3) by blast
  show "bound scope key who sha payload now rows'" if "set_response_payload scope' key' payload' rows = Inr rows'"
    "(scope', key') \<noteq> (scope, key)" "bound scope key who sha payload now rows"
    for scope' key' payload' rows rows' scope key who sha payload now
    using that by (elim set_payload_Inr) (metis bound_cong)
qed (auto intro: claim_answered claim_bound)

end
