(* ===== verification/Authorization.thy ===== *)
theory Authorization
  imports Workflow
begin

text \<open>
  The policy authority for direct grants: \<^verbatim>\<open>AuthorizationDecisionEngine\<close>
  (\<^verbatim>\<open>governance/authorization.py\<close>) over the fact readers of \<^verbatim>\<open>persistence/repositories.py\<close>
  and \<^verbatim>\<open>gateway/incidents.py\<close>. The engine's lemmas are proved once, in the locale
  \<open>fact_readers\<close>, from what the two reader protocols promise; each pair of readers the program
  wires together is an interpretation.
\<close>

section \<open>Data\<close>

datatype denial_cause = PRINCIPAL_INACTIVE | RESOURCE_MISSING | RESOURCE_INACTIVE | GRANT_NOT_APPLICABLE

record principal =
  p_id :: string
  p_kind :: string
  p_display_name :: string
  p_status :: string
  p_created_at :: datetime
  p_updated_at :: datetime

record resource_fact =
  rf_type :: string
  rf_id :: string
  rf_status :: string

record grant =
  g_id :: string
  g_principal_id :: string
  g_action :: string
  g_resource_type :: string
  g_resource_id :: string
  g_effect :: string
  g_status :: string
  g_created_at :: datetime

record policy_decision =
  pd_decision :: string
  pd_reason_code :: string
  pd_policy_id :: "string option"

record evaluation =
  au_decision :: policy_decision
  au_denial_cause :: "denial_cause option"

definition RESOURCE_TYPES :: "string list" where
  "RESOURCE_TYPES = [''llm_model'', ''mcp_server'', ''mcp_tool'', ''skill'', ''bok_collection'',
     ''administrative_control'', ''incident_workflow'', ''service_operation'']"

text \<open>\<^verbatim>\<open>PolicyDecision\<close> and \<^verbatim>\<open>AuthorizationEvaluation\<close> with their validators.\<close>

definition make_decision :: "string \<Rightarrow> string \<Rightarrow> string option \<Rightarrow> policy_decision outcome" where
  "make_decision decision reason policy =
     (let valid_allow = (reason = ''grant_matched'' \<and> (case policy of None \<Rightarrow> False | Some x \<Rightarrow> x \<noteq> []));
          valid_deny = (reason = ''no_matching_grant'' \<and> policy = None)
      in and_then (raise_if ((decision = ''allow'' \<and> \<not> valid_allow) \<or> (decision = ''deny'' \<and> \<not> valid_deny))
           (ValueError ''policy decision fields are inconsistent'')) (\<lambda>_.
         Inr \<lparr>pd_decision = decision, pd_reason_code = reason, pd_policy_id = policy\<rparr>))"

definition make_evaluation :: "policy_decision \<Rightarrow> denial_cause option \<Rightarrow> evaluation outcome" where
  "make_evaluation d cause =
     and_then (raise_if (pd_decision d = ''allow'' \<and> cause \<noteq> None)
       (ValueError ''allowed evaluations cannot carry a denial cause'')) (\<lambda>_.
     and_then (raise_if (pd_decision d = ''deny'' \<and> cause = None)
       (ValueError ''denied evaluations require a denial cause'')) (\<lambda>_.
     Inr \<lparr>au_decision = d, au_denial_cause = cause\<rparr>))"

section \<open>The engine\<close>

definition deny :: "denial_cause \<Rightarrow> evaluation outcome" where
  "deny cause = and_then (make_decision ''deny'' ''no_matching_grant'' None) (\<lambda>d. make_evaluation d (Some cause))"

definition is_exact_active_grant :: "grant \<Rightarrow> string \<Rightarrow> string \<Rightarrow> string \<Rightarrow> string \<Rightarrow> bool" where
  "is_exact_active_grant g pid action rtype rid =
     (g_principal_id g = pid \<and> g_action g = action \<and> g_resource_type g = rtype \<and>
      g_resource_id g = rid \<and> g_effect g = ''allow'' \<and> g_status g = ''active'')"

definition evaluate ::
  "(string \<Rightarrow> string \<Rightarrow> resource_fact option) \<Rightarrow>
   (string \<Rightarrow> string \<Rightarrow> string \<Rightarrow> string \<Rightarrow> grant option outcome) \<Rightarrow>
   principal \<Rightarrow> string \<Rightarrow> string \<Rightarrow> string \<Rightarrow> evaluation outcome" where
  "evaluate view find_grant pr action rtype rid =
     (if p_status pr \<noteq> ''active'' then deny PRINCIPAL_INACTIVE
      else case view rtype rid of
        None \<Rightarrow> deny RESOURCE_MISSING
      | Some r \<Rightarrow>
          if (rf_type r, rf_id r) \<noteq> (rtype, rid) then deny RESOURCE_MISSING
          else if rf_status r \<noteq> ''active'' then deny RESOURCE_INACTIVE
          else and_then (find_grant (p_id pr) action rtype rid) (\<lambda>found.
            case found of
              None \<Rightarrow> deny GRANT_NOT_APPLICABLE
            | Some g \<Rightarrow>
                if \<not> is_exact_active_grant g (p_id pr) action rtype rid then deny GRANT_NOT_APPLICABLE
                else and_then (make_decision ''allow'' ''grant_matched'' (Some (g_id g)))
                       (\<lambda>d. make_evaluation d None)))"

definition allowed :: "evaluation \<Rightarrow> bool" where
  "allowed e = (pd_decision (au_decision e) = ''allow'')"

section \<open>The readers\<close>

text \<open>
  A row of \<^verbatim>\<open>resources\<close>: the columns of a model alias are null for every other type, the columns of
  the catalog for administrative resources.
\<close>

record resource_row =
  rs_type :: string
  rs_id :: string
  rs_status :: string
  rs_updated_at :: datetime
  rs_model_alias_id :: "string option"
  rs_alias :: "string option"
  rs_concrete_model :: "string option"
  rs_router :: "string option"
  rs_inference_provider :: "string option"
  rs_owner_id :: "string option"
  rs_source :: "string option"
  rs_source_ref :: "string option"
  rs_display_name :: "string option"
  rs_visibility :: "string option"
  rs_description :: "string option"
  rs_tags :: "string list option"

text \<open>The published contents: versions of skills, and versions of a body of knowledge with their documents and chunks.\<close>

record skill_version_row =
  sv_skill_id :: string
  sv_version :: string
  sv_resource_id :: string
  sv_owner_id :: string
  sv_manifest :: dict
  sv_content_sha256 :: string
  sv_created_at :: datetime

record bok_version_row =
  bv_collection_id :: string
  bv_version :: string
  bv_owner_id :: string
  bv_status :: string
  bv_manifest_sha256 :: string
  bv_display_name :: string
  bv_description :: string
  bv_visibility :: string
  bv_created_at :: datetime
  bv_updated_at :: datetime
  bv_published_by :: "string option"
  bv_origin :: "string option"

record bok_document_row =
  bd_collection_id :: string
  bd_version :: string
  bd_document_id :: string
  bd_title :: string
  bd_source_ref :: string
  bd_content_sha256 :: string

record bok_chunk_row =
  bc_collection_id :: string
  bc_version :: string
  bc_document_id :: string
  bc_section_id :: string
  bc_chunk_index :: int
  bc_content :: string

record registry =
  principals :: "principal list"
  resources :: "resource_row list"
  grants :: "grant list"
  mcp_servers :: "(string \<times> string) list"
  mcp_tools :: "(string \<times> string) list"
  skill_versions :: "skill_version_row list"
  bok_versions :: "bok_version_row list"
  bok_documents :: "bok_document_row list"
  bok_chunks :: "bok_chunk_row list"

text \<open>\<^verbatim>\<open>ResourceRepository.authorization_view\<close>.\<close>

definition resource_view :: "registry \<Rightarrow> string \<Rightarrow> string \<Rightarrow> resource_fact option" where
  "resource_view reg rtype rid =
     map_option (\<lambda>r. \<lparr>rf_type = rs_type r, rf_id = rs_id r, rf_status = rs_status r\<rparr>)
       (select_one (\<lambda>r. rs_type r = rtype \<and> rs_id r = rid) (resources reg))"

text \<open>\<^verbatim>\<open>OwnerResourceFactReader.authorization_view\<close>: MCP owner rows before the catalog.\<close>

definition owner_view :: "registry \<Rightarrow> string \<Rightarrow> string \<Rightarrow> resource_fact option" where
  "owner_view reg rtype rid =
     (let fact = (\<lambda>rows. map_option (\<lambda>status. \<lparr>rf_type = rtype, rf_id = rid,
            rf_status = (if status = ''active'' then ''active'' else ''inactive'')\<rparr>) (map_of rows rid))
      in if rtype = ''mcp_server'' then fact (mcp_servers reg)
         else if rtype = ''mcp_tool'' then fact (mcp_tools reg)
         else resource_view reg rtype rid)"

text \<open>\<^verbatim>\<open>IncidentWorkflowResourceReader.authorization_view\<close>: the pinned workflow, always active.\<close>

definition workflow_view :: "workflow \<Rightarrow> string \<Rightarrow> string \<Rightarrow> resource_fact option" where
  "workflow_view w rtype rid =
     (if (rtype, rid) = (''incident_workflow'', w_id w)
      then Some \<lparr>rf_type = ''incident_workflow'', rf_id = rid, rf_status = ''active''\<rparr> else None)"

text \<open>\<^verbatim>\<open>project_grant\<close>: the \<^verbatim>\<open>Grant\<close> DTO validates the row.\<close>

definition action_char :: "char \<Rightarrow> bool" where
  "action_char c = (slug_char c \<or> c = CHR ''.'' \<or> c = CHR '':'')"

definition action_pattern :: "string \<Rightarrow> bool" where
  "action_pattern s = (case s of [] \<Rightarrow> False
     | c # cs \<Rightarrow> CHR ''a'' \<le> c \<and> c \<le> CHR ''z'' \<and> class_run action_char 1 63 cs)"

definition project_grant :: "grant \<Rightarrow> grant outcome" where
  "project_grant g =
     (if identifier_pattern (g_id g) \<and> identifier_pattern (g_principal_id g) \<and> action_pattern (g_action g) \<and>
         g_resource_type g \<in> set RESOURCE_TYPES \<and> 1 \<le> py_len (g_resource_id g) \<and>
         py_len (g_resource_id g) \<le> 200 \<and> g_effect g = ''allow'' \<and> g_status g \<in> {''active'', ''revoked''}
      then Inr g else Inl (ValueError ''Grant''))"

definition find_active :: "registry \<Rightarrow> string \<Rightarrow> string \<Rightarrow> string \<Rightarrow> string \<Rightarrow> grant option outcome" where
  "find_active reg pid action rtype rid =
     (case select_one (\<lambda>g. is_exact_active_grant g pid action rtype rid) (grants reg) of
        None \<Rightarrow> Inr None
      | Some g \<Rightarrow> and_then (project_grant g) (\<lambda>x. Inr (Some x)))"

text \<open>\<^verbatim>\<open>GrantRepository.create\<close> with the keys and checks of its table.\<close>

definition create_grant ::
  "string \<Rightarrow> string \<Rightarrow> string \<Rightarrow> string \<Rightarrow> string \<Rightarrow> datetime \<Rightarrow> registry \<Rightarrow> (grant \<times> registry) outcome" where
  "create_grant gid pid action rtype rid now reg =
     (let row = \<lparr>g_id = gid, g_principal_id = pid, g_action = action, g_resource_type = rtype,
            g_resource_id = rid, g_effect = ''allow'', g_status = ''active'', g_created_at = now\<rparr>
      in and_then (raise_if (\<exists>g\<in>set (grants reg). g_id g = gid) (IntegrityError ''grants_pkey'')) (\<lambda>_.
         and_then (raise_if (\<not> (\<exists>p\<in>set (principals reg). p_id p = pid) \<or>
             \<not> (\<exists>r\<in>set (resources reg). rs_type r = rtype \<and> rs_id r = rid))
           (IntegrityError ''grants_fkey'')) (\<lambda>_.
         and_then (raise_if (\<exists>g\<in>set (grants reg). is_exact_active_grant g pid action rtype rid)
           (IntegrityError ''uq_grants_active_direct'')) (\<lambda>_.
         and_then (project_grant row) (\<lambda>g. Inr (g, reg\<lparr>grants := grants reg @ [row]\<rparr>))))))"

definition revoke_grant :: "string \<Rightarrow> registry \<Rightarrow> (grant option \<times> registry) outcome" where
  "revoke_grant gid reg =
     (let reg' = reg\<lparr>grants := update_where (\<lambda>g. g_id g = gid \<and> g_status g = ''active'')
            (\<lambda>g. g\<lparr>g_status := ''revoked''\<rparr>) (grants reg)\<rparr>
      in case select_one (\<lambda>g. g_id g = gid) (grants reg') of
           None \<Rightarrow> Inr (None, reg')
         | Some g \<Rightarrow> and_then (project_grant g) (\<lambda>x. Inr (Some x, reg')))"

section \<open>What the engine decides\<close>

lemma deny_eq:
  "deny cause = Inr \<lparr>au_decision = \<lparr>pd_decision = ''deny'', pd_reason_code = ''no_matching_grant'',
     pd_policy_id = None\<rparr>, au_denial_cause = Some cause\<rparr>"
  by (simp add: deny_def make_decision_def make_evaluation_def)

locale fact_readers =
  fixes view :: "string \<Rightarrow> string \<Rightarrow> resource_fact option"
    and find_grant :: "string \<Rightarrow> string \<Rightarrow> string \<Rightarrow> string \<Rightarrow> grant option outcome"
    and stored :: "string \<Rightarrow> string \<Rightarrow> string \<Rightarrow> string \<Rightarrow> bool"
  assumes view_exact: "view rtype rid = Some r \<Longrightarrow> rf_type r = rtype \<and> rf_id r = rid"
    and find_exact: "find_grant pid action rtype rid = Inr (Some g) \<Longrightarrow>
      is_exact_active_grant g pid action rtype rid \<and> g_id g \<noteq> []"
    and find_stored: "find_grant pid action rtype rid = Inr found \<Longrightarrow>
      found \<noteq> None \<longleftrightarrow> stored pid action rtype rid"
begin

lemma granted:
  assumes "find_grant (p_id pr) action rtype rid = Inr found" and "view rtype rid = Some r"
    and "rf_status r = ''active''" and "p_status pr = ''active''"
  shows "evaluate view find_grant pr action rtype rid = (case found of None \<Rightarrow> deny GRANT_NOT_APPLICABLE
    | Some g \<Rightarrow> Inr \<lparr>au_decision = \<lparr>pd_decision = ''allow'', pd_reason_code = ''grant_matched'',
        pd_policy_id = Some (g_id g)\<rparr>, au_denial_cause = None\<rparr>)"
  using assms view_exact [OF assms(2)] find_exact [of "p_id pr" action rtype rid]
  by (cases found) (auto simp: evaluate_def make_decision_def make_evaluation_def)

lemma refused:
  assumes "\<not> (p_status pr = ''active'' \<and> (\<exists>r. view rtype rid = Some r \<and> rf_status r = ''active''))"
  shows "evaluate view find_grant pr action rtype rid = deny
    (if p_status pr \<noteq> ''active'' then PRINCIPAL_INACTIVE
     else if view rtype rid = None then RESOURCE_MISSING else RESOURCE_INACTIVE)"
  using assms view_exact [of rtype rid] by (cases "view rtype rid") (auto simp: evaluate_def)

lemma decided:
  assumes "evaluate view find_grant pr action rtype rid = Inr e"
  shows "allowed e \<longleftrightarrow> p_status pr = ''active'' \<and>
      (\<exists>r. view rtype rid = Some r \<and> rf_status r = ''active'') \<and> stored (p_id pr) action rtype rid"
    and "au_denial_cause e =
      (if p_status pr \<noteq> ''active'' then Some PRINCIPAL_INACTIVE
       else if view rtype rid = None then Some RESOURCE_MISSING
       else if \<not> (\<exists>r. view rtype rid = Some r \<and> rf_status r = ''active'') then Some RESOURCE_INACTIVE
       else if stored (p_id pr) action rtype rid then None else Some GRANT_NOT_APPLICABLE)"
proof -
  have "(allowed e \<longleftrightarrow> p_status pr = ''active'' \<and>
      (\<exists>r. view rtype rid = Some r \<and> rf_status r = ''active'') \<and> stored (p_id pr) action rtype rid) \<and>
    au_denial_cause e =
      (if p_status pr \<noteq> ''active'' then Some PRINCIPAL_INACTIVE
       else if view rtype rid = None then Some RESOURCE_MISSING
       else if \<not> (\<exists>r. view rtype rid = Some r \<and> rf_status r = ''active'') then Some RESOURCE_INACTIVE
       else if stored (p_id pr) action rtype rid then None else Some GRANT_NOT_APPLICABLE)"
  proof (cases "p_status pr = ''active'' \<and> (\<exists>r. view rtype rid = Some r \<and> rf_status r = ''active'')")
    case False
    then have "au_denial_cause e = Some (if p_status pr \<noteq> ''active'' then PRINCIPAL_INACTIVE
        else if view rtype rid = None then RESOURCE_MISSING else RESOURCE_INACTIVE)" "\<not> allowed e"
      using assms by (simp_all add: refused deny_eq allowed_def) auto
    then show ?thesis using False by auto
  next
    case True
    then obtain r where r: "view rtype rid = Some r" "rf_status r = ''active''" "p_status pr = ''active''"
      by auto
    with assms view_exact [OF r(1)] obtain found where f: "find_grant (p_id pr) action rtype rid = Inr found"
      by (auto simp: evaluate_def outcome_simps)
    show ?thesis
      using assms granted [OF f r] find_stored [OF f] r
      by (cases found) (auto simp: deny_eq allowed_def)
  qed
  then show "allowed e \<longleftrightarrow> p_status pr = ''active'' \<and>
      (\<exists>r. view rtype rid = Some r \<and> rf_status r = ''active'') \<and> stored (p_id pr) action rtype rid"
    and "au_denial_cause e =
      (if p_status pr \<noteq> ''active'' then Some PRINCIPAL_INACTIVE
       else if view rtype rid = None then Some RESOURCE_MISSING
       else if \<not> (\<exists>r. view rtype rid = Some r \<and> rf_status r = ''active'') then Some RESOURCE_INACTIVE
       else if stored (p_id pr) action rtype rid then None else Some GRANT_NOT_APPLICABLE)"
    by (rule conjunct1, rule conjunct2)
qed

lemma never_raises:
  assumes "find_grant (p_id pr) action rtype rid = Inr found"
  shows "\<exists>e. evaluate view find_grant pr action rtype rid = Inr e"
  using assms find_exact [of "p_id pr" action rtype rid]
  by (auto simp: evaluate_def deny_eq make_decision_def make_evaluation_def split: option.splits)

end

text \<open>A grant stored for exactly this principal, action and resource.\<close>

definition active_grant :: "registry \<Rightarrow> string \<Rightarrow> string \<Rightarrow> string \<Rightarrow> string \<Rightarrow> bool" where
  "active_grant reg pid action rtype rid =
     (\<exists>g\<in>set (grants reg). is_exact_active_grant g pid action rtype rid)"

lemma find_active_exact:
  "find_active reg pid action rtype rid = Inr (Some g) \<Longrightarrow>
     is_exact_active_grant g pid action rtype rid \<and> g_id g \<noteq> []"
  by (auto simp: find_active_def outcome_simps project_grant_def identifier_pattern_def
      dest!: select_one_Some split: option.splits if_splits)

lemma find_active_stored:
  assumes "find_active reg pid action rtype rid = Inr found"
  shows "found \<noteq> None \<longleftrightarrow> active_grant reg pid action rtype rid"
proof (cases "select_one (\<lambda>g. is_exact_active_grant g pid action rtype rid) (grants reg)")
  case None
  then have "\<not> active_grant reg pid action rtype rid" by (auto simp: active_grant_def select_one_None)
  then show ?thesis using assms None by (simp add: find_active_def)
next
  case (Some g)
  then have "active_grant reg pid action rtype rid"
    unfolding active_grant_def by (blast dest: select_one_Some)
  then show ?thesis using assms Some by (auto simp: find_active_def outcome_simps)
qed

lemmas find_active_laws = find_active_exact find_active_stored

lemma resource_view_exact: "resource_view reg rtype rid = Some r \<Longrightarrow> rf_type r = rtype \<and> rf_id r = rid"
  by (auto simp: resource_view_def dest: select_one_Some)

interpretation catalog: fact_readers "resource_view reg" "find_active reg" "active_grant reg" for reg
  by unfold_locales (use resource_view_exact find_active_laws in blast)+

interpretation owners: fact_readers "owner_view reg" "find_active reg" "active_grant reg" for reg
  by unfold_locales
     (use resource_view_exact find_active_laws in \<open>auto simp: owner_view_def Let_def split: if_splits\<close>)

interpretation incident_reads: fact_readers "workflow_view w" "find_active reg" "active_grant reg" for w reg
  by unfold_locales
     (use find_active_laws in \<open>auto simp: workflow_view_def split: if_splits\<close>)

section \<open>Properties\<close>

text \<open>
  C29. The engine allows a request exactly when the principal is active, the resource is
  registered and active, and a direct active grant is stored for exactly this principal, action
  and resource; a denial names the first of those facts that fails, in that order.
\<close>

theorem evaluate_exact:
  assumes "evaluate (resource_view reg) (find_active reg) pr action rtype rid = Inr e"
  shows "(allowed e \<longleftrightarrow> p_status pr = ''active'' \<and>
      (\<exists>r. resource_view reg rtype rid = Some r \<and> rf_status r = ''active'') \<and>
      active_grant reg (p_id pr) action rtype rid) \<and>
    au_denial_cause e =
      (if p_status pr \<noteq> ''active'' then Some PRINCIPAL_INACTIVE
       else if resource_view reg rtype rid = None then Some RESOURCE_MISSING
       else if \<not> (\<exists>r. resource_view reg rtype rid = Some r \<and> rf_status r = ''active'')
       then Some RESOURCE_INACTIVE
       else if active_grant reg (p_id pr) action rtype rid then None else Some GRANT_NOT_APPLICABLE)"
  using catalog.decided [OF assms] by simp

definition sample_registry :: registry where
  "sample_registry = \<lparr>principals = [\<lparr>p_id = ''ana_ops'', p_kind = ''human'', p_display_name = ''Ana'',
       p_status = ''active'', p_created_at = sample_time, p_updated_at = sample_time\<rparr>],
     resources = [\<lparr>rs_type = ''incident_workflow'', rs_id = ''incident-response'', rs_status = ''active'', rs_updated_at = sample_time,
       rs_model_alias_id = None, rs_alias = None, rs_concrete_model = None, rs_router = None, rs_inference_provider = None,
       rs_owner_id = Some ''platform'', rs_source = Some ''incident_workflow'', rs_source_ref = Some ''incident-response'',
       rs_display_name = Some ''Incidents'', rs_visibility = Some ''private'', rs_description = Some [], rs_tags = Some []\<rparr>],
     grants = [\<lparr>g_id = ''grant_1'', g_principal_id = ''ana_ops'', g_action = ''run.start'',
       g_resource_type = ''incident_workflow'', g_resource_id = ''incident-response'',
       g_effect = ''allow'', g_status = ''active'', g_created_at = sample_time\<rparr>],
     mcp_servers = [], mcp_tools = [],
     skill_versions = [], bok_versions = [], bok_documents = [], bok_chunks = []\<rparr>"

definition sample_principal :: principal where
  "sample_principal = \<lparr>p_id = ''ana_ops'', p_kind = ''human'', p_display_name = ''Ana'', p_status = ''active'',
     p_created_at = sample_time, p_updated_at = sample_time\<rparr>"

lemma sample_find:
  "find_active sample_registry (p_id sample_principal) ''run.start'' ''incident_workflow'' ''incident-response'' =
     Inr (Some (hd (grants sample_registry)))"
  by (simp add: find_active_def sample_registry_def sample_principal_def select_one_def is_exact_active_grant_def project_grant_def
      identifier_pattern_def action_pattern_def action_char_def class_run_def slug_char_def lower_digit_def
      less_eq_char_def RESOURCE_TYPES_def py_len_def Let_def utf8_rest_def utf8_lead_def)

theorem evaluate_exact_witness:
  "\<exists>e. evaluate (resource_view sample_registry) (find_active sample_registry) sample_principal
     ''run.start'' ''incident_workflow'' ''incident-response'' = Inr e \<and> allowed e"
proof -
  obtain e where e: "evaluate (resource_view sample_registry) (find_active sample_registry) sample_principal
     ''run.start'' ''incident_workflow'' ''incident-response'' = Inr e"
    using catalog.never_raises [OF sample_find] by blast
  moreover have "allowed e"
    using evaluate_exact [OF e]
    by (simp add: sample_principal_def sample_registry_def resource_view_def select_one_def active_grant_def
        is_exact_active_grant_def)
  ultimately show ?thesis by blast
qed

text \<open>What the table's constraints keep: one row per grant id, one active row per exact grant.\<close>

definition wf_grants :: "registry \<Rightarrow> bool" where
  "wf_grants reg = (distinct (map g_id (grants reg)) \<and>
     (\<forall>g\<in>set (grants reg). \<forall>g'\<in>set (grants reg).
        is_exact_active_grant g (g_principal_id g') (g_action g') (g_resource_type g') (g_resource_id g') \<and>
        g_effect g' = ''allow'' \<and> g_status g' = ''active'' \<longrightarrow> g = g'))"

lemma create_grant_wf:
  assumes "create_grant gid pid action rtype rid now reg = Inr (g, reg')" and "wf_grants reg"
  shows "wf_grants reg'"
  using assms unfolding create_grant_def Let_def outcome_simps wf_grants_def
  by (auto simp: is_exact_active_grant_def)

lemma revoke_grant_rows:
  assumes "revoke_grant gid reg = Inr (found, reg')"
  shows "reg' = reg\<lparr>grants := update_where (\<lambda>g. g_id g = gid \<and> g_status g = ''active'')
            (\<lambda>g. g\<lparr>g_status := ''revoked''\<rparr>) (grants reg)\<rparr>"
  using assms by (auto simp: revoke_grant_def Let_def outcome_simps split: option.splits)

lemma revoke_grant_wf:
  assumes "revoke_grant gid reg = Inr (found, reg')" and "wf_grants reg"
  shows "wf_grants reg'"
  using assms(2) unfolding revoke_grant_rows [OF assms(1)] wf_grants_def
  by (auto simp: set_update_where is_exact_active_grant_def split: if_splits)

lemma revoked_inactive:
  assumes "wf_grants reg" and "g \<in> set (grants reg)" and "is_exact_active_grant g pid action rtype rid"
    and "revoke_grant (g_id g) reg = Inr (found, reg')"
  shows "\<not> active_grant reg' pid action rtype rid"
proof
  let ?hit = "\<lambda>x. g_id x = g_id g \<and> g_status x = ''active''"
  assume "active_grant reg' pid action rtype rid"
  then obtain x where x: "x \<in> set (grants reg)"
      "is_exact_active_grant (if ?hit x then x\<lparr>g_status := ''revoked''\<rparr> else x) pid action rtype rid"
    unfolding revoke_grant_rows [OF assms(4)] active_grant_def by (auto simp: set_update_where)
  then have "\<not> ?hit x" by (auto simp: is_exact_active_grant_def)
  with x(2) have ex: "is_exact_active_grant x pid action rtype rid" by simp
  with \<open>\<not> ?hit x\<close> have "g_id x \<noteq> g_id g" by (simp add: is_exact_active_grant_def)
  moreover have "x = g"
    using assms(1-3) x(1) ex unfolding wf_grants_def by (auto simp: is_exact_active_grant_def)
  ultimately show False by simp
qed

text \<open>
  Revoking a grant takes effect at the next evaluation: no request the grant allowed is
  allowed afterwards, and for an active principal on an active resource the cause is that no
  grant applies.
\<close>

theorem revoke_denies:
  assumes "wf_grants reg" and "g \<in> set (grants reg)"
    and "is_exact_active_grant g (p_id pr) action rtype rid"
    and "revoke_grant (g_id g) reg = Inr (found, reg')"
    and "evaluate (resource_view reg') (find_active reg') pr action rtype rid = Inr e"
  shows "\<not> allowed e \<and> (p_status pr = ''active'' \<and>
     (\<exists>r. resource_view reg rtype rid = Some r \<and> rf_status r = ''active'')
       \<longrightarrow> au_denial_cause e = Some GRANT_NOT_APPLICABLE)"
proof -
  have "resource_view reg' rtype rid = resource_view reg rtype rid"
    by (simp add: revoke_grant_rows [OF assms(4)] resource_view_def)
  then show ?thesis
    using catalog.decided [OF assms(5)] revoked_inactive [OF assms(1-4)] by auto
qed

theorem revoke_denies_witness:
  "\<exists>found reg' e. revoke_grant ''grant_1'' sample_registry = Inr (found, reg') \<and>
     evaluate (resource_view reg') (find_active reg') sample_principal
       ''run.start'' ''incident_workflow'' ''incident-response'' = Inr e \<and> \<not> allowed e"
proof -
  let ?g = "hd (grants sample_registry)"
  obtain found reg' where r: "revoke_grant ''grant_1'' sample_registry = Inr (found, reg')"
    by (simp add: revoke_grant_def sample_registry_def select_one_def update_where_def project_grant_def
        identifier_pattern_def action_pattern_def action_char_def class_run_def slug_char_def lower_digit_def
        less_eq_char_def RESOURCE_TYPES_def py_len_def Let_def utf8_rest_def utf8_lead_def)
  have g: "wf_grants sample_registry" "?g \<in> set (grants sample_registry)" "g_id ?g = ''grant_1''"
      "is_exact_active_grant ?g (p_id sample_principal) ''run.start'' ''incident_workflow'' ''incident-response''"
    by (simp_all add: wf_grants_def sample_registry_def sample_principal_def is_exact_active_grant_def)
  have "find_active reg' (p_id sample_principal) ''run.start'' ''incident_workflow'' ''incident-response'' = Inr None"
    using r by (simp add: revoke_grant_rows [OF r] find_active_def sample_registry_def sample_principal_def
        select_one_def update_where_def is_exact_active_grant_def)
  then obtain e where e: "evaluate (resource_view reg') (find_active reg') sample_principal
       ''run.start'' ''incident_workflow'' ''incident-response'' = Inr e"
    using catalog.never_raises by blast
  from revoke_denies [OF g(1,2,4) _ e] r g(3) have "\<not> allowed e" by simp
  with r e show ?thesis by blast
qed

end
