(* ===== verification/Triage.thy ===== *)
theory Triage
  imports Idempotency Runtime Authorization
begin

text \<open>
  Alert triage: the durable decision on an alert (\<^verbatim>\<open>triage/store.py\<close>) and the commands on it
  (\<^verbatim>\<open>TriageService\<close> of \<^verbatim>\<open>triage/service.py\<close>), with the declaration that opens an incident and its
  first investigation run in the same transaction.

  One transaction works on the record \<open>triage_db\<close>: the incident store, the registry of principals,
  resources and grants, the request bindings and the table \<^verbatim>\<open>alert_triage\<close>. The SHA-256 of a text
  and of a canonical request are the two fields of \<open>hashing\<close>; the clock is read once per call that
  the code makes of it.
\<close>

section \<open>Data\<close>

datatype triage_error = TriageError nat string | Raised py_error

definition WORKFLOW_TYPE :: string where "WORKFLOW_TYPE = ''incident_workflow''"
definition WORKFLOW_ID :: string where "WORKFLOW_ID = ''incident-response''"
definition READ_ACTION :: string where "READ_ACTION = ''alert.read''"

definition TRIAGE_SEVERITIES :: "string list" where
  "TRIAGE_SEVERITIES = [''sev1'', ''sev2'', ''sev3'', ''sev4'']"

definition ACTIONS :: "(string \<times> string) list" where
  "ACTIONS = [(''open_triage'', ''alert.triage''), (''triage_dismiss'', ''alert.dismiss''),
     (''triage_link'', ''alert.associate''), (''triage_declare'', ''incident.declare'')]"

definition STATES :: "(string \<times> string) list" where
  "STATES = [(''open_triage'', ''open''), (''triage_dismiss'', ''dismissed''),
     (''triage_link'', ''linked''), (''triage_declare'', ''declared'')]"

definition OPERATION_ORDER :: "string list" where
  "OPERATION_ORDER = [''open_triage'', ''triage_dismiss'', ''triage_link'', ''triage_declare'']"

definition EXTERNAL_OPERATIONS :: "string list" where
  "EXTERNAL_OPERATIONS = [''triage_dismiss'', ''triage_link'']"

definition TERMINAL_STATES :: "string list" where
  "TERMINAL_STATES = [''dismissed'', ''linked'', ''declared'']"

definition ELIGIBLE :: "string list" where
  "ELIGIBLE = [''active'', ''investigating'', ''mitigating'', ''verifying'']"

definition ALERT_CONTEXT_KEYS :: "string list" where
  "ALERT_CONTEXT_KEYS = [''service'', ''summary'', ''observed_at'', ''source'', ''severity'']"

text \<open>\<^verbatim>\<open>KEY_PATTERN\<close>: 16 to 128 printable ASCII characters.\<close>

definition key_pattern :: "string \<Rightarrow> bool" where
  "key_pattern s = class_run (\<lambda>c. CHR '' '' \<le> c \<and> c \<le> CHR ''~'') 16 128 s"

record triage_row =
  ta_alert_id :: string
  ta_status :: string
  ta_incident_id :: "string option"
  ta_expected_version :: int
  ta_reason :: "string option"
  ta_severity :: "string option"
  ta_actor :: string
  ta_decided_at :: datetime
  ta_decision_origin :: string
  ta_responsible_system :: "string option"

record triage_result =
  tg_status :: string
  tg_incident_id :: "string option"
  tg_expected_version :: int
  tg_actor :: string
  tg_decided_at :: string
  tg_decision_origin :: string
  tg_responsible_system :: "string option"
  tg_replayed :: bool
  tg_http_status :: int
  tg_investigation_run_id :: "string option"

record triage_db =
  db_store :: store
  db_registry :: registry
  db_bindings :: "idempotency_row list"
  db_triage :: "triage_row list"

record hashing =
  h_text :: "string \<Rightarrow> string"
  h_payload :: "dict \<Rightarrow> string"

text \<open>
  The arguments of \<^verbatim>\<open>execute\<close>; those \<^verbatim>\<open>_check\<close> tests the type of are documents, where an absent
  value is \<^const>\<open>JNull\<close>.
\<close>

record triage_command =
  q_alert_id :: string
  q_operation :: string
  q_expected_version :: int
  q_reason :: json
  q_severity :: json
  q_impact :: json
  q_alert_context :: json
  q_target_incident_id :: json
  q_idempotency_key :: string
  q_responsible_system :: "string option"

text \<open>What a call reads from the clock, in order, and draws for the investigation run.\<close>

record triage_draws =
  td_claimed_at :: datetime
  td_now :: datetime
  td_run_id :: "string \<Rightarrow> string"
  td_token :: string
  td_decided_at :: datetime

section \<open>alert\_triage\<close>

definition get_triage :: "string \<Rightarrow> triage_row list \<Rightarrow> triage_row option" where
  "get_triage alert rows = select_one (\<lambda>r. ta_alert_id r = alert) rows"

definition nonspace :: "string \<Rightarrow> bool" where
  "nonspace s = list_ex (\<lambda>c. c \<notin> {CHR '' '', CHR 0x09, CHR 0x0A, CHR 0x0B, CHR 0x0C, CHR 0x0D}) s"

text \<open>The lengths and the check constraints of the table.\<close>

definition triage_row_ok :: "triage_row \<Rightarrow> bool" where
  "triage_row_ok r =
     (fits 64 (ta_alert_id r) \<and> fits_opt 64 (ta_incident_id r) \<and> fits_opt 1000 (ta_reason r) \<and>
      fits 64 (ta_actor r) \<and> fits_opt 64 (ta_responsible_system r) \<and>
      ta_status r \<in> {''open'', ''dismissed'', ''linked'', ''declared''} \<and>
      (case ta_severity r of None \<Rightarrow> True | Some v \<Rightarrow> v \<in> set TRIAGE_SEVERITIES) \<and>
      (ta_status r \<in> {''linked'', ''declared''} \<longleftrightarrow> ta_incident_id r \<noteq> None) \<and>
      (ta_status r = ''declared'' \<longrightarrow> ta_severity r \<noteq> None) \<and>
      (case ta_responsible_system r of None \<Rightarrow> ta_decision_origin r \<in> {''manual'', ''unknown''}
       | Some v \<Rightarrow> ta_decision_origin r = ''external_automatic'' \<and> nonspace v))"

text \<open>\<^verbatim>\<open>write\<close>: an insert that does nothing on conflict, or an update at a version.\<close>

definition write_triage ::
  "int option \<Rightarrow> triage_row \<Rightarrow> triage_row list \<Rightarrow> (triage_row option \<times> triage_row list) outcome" where
  "write_triage expected row rows =
     (case expected of
        None \<Rightarrow>
          (let new = row\<lparr>ta_expected_version := 1\<rparr>
           in if \<not> triage_row_ok new then Inl (IntegrityError ''alert_triage'')
              else if get_triage (ta_alert_id row) rows \<noteq> None then Inr (None, rows)
              else Inr (get_triage (ta_alert_id row) (rows @ [new]), rows @ [new]))
      | Some v \<Rightarrow>
          (let hit = (\<lambda>r. ta_alert_id r = ta_alert_id row \<and> ta_expected_version r = v);
               new = row\<lparr>ta_expected_version := v + 1\<rparr>;
               rows' = update_where hit (\<lambda>_. new) rows
           in case select_one hit rows of None \<Rightarrow> Inr (None, rows)
              | Some _ \<Rightarrow>
                  if \<not> triage_row_ok new then Inl (IntegrityError ''alert_triage'')
                  else Inr (get_triage (ta_alert_id row) rows', rows')))"

section \<open>Authorization\<close>

definition principal_may_issue :: "principal \<Rightarrow> string \<Rightarrow> bool" where
  "principal_may_issue pr operation =
     (p_kind pr = ''human'' \<or> (p_kind pr = ''agent'' \<and> operation \<in> set EXTERNAL_OPERATIONS))"

definition has_action :: "registry \<Rightarrow> principal \<Rightarrow> string \<Rightarrow> bool outcome" where
  "has_action reg pr action =
     and_then (evaluate (resource_view reg) (find_active reg) pr action WORKFLOW_TYPE WORKFLOW_ID)
       (\<lambda>e. Inr (allowed e))"

text \<open>An exception that no handler of the service names.\<close>

definition raised :: "'a outcome \<Rightarrow> triage_error + 'a" where
  "raised m = (case m of Inl e \<Rightarrow> Inl (Raised e) | Inr x \<Rightarrow> Inr x)"

definition authorize :: "registry \<Rightarrow> principal \<Rightarrow> string \<Rightarrow> triage_error + unit" where
  "authorize reg pr action =
     and_then (raised (has_action reg pr action)) (\<lambda>ok. raise_if (\<not> ok) (TriageError 403 ''not_authorized''))"

fun allowed_operations :: "registry \<Rightarrow> principal \<Rightarrow> string list \<Rightarrow> triage_error + string list" where
  "allowed_operations reg pr [] = Inr []"
| "allowed_operations reg pr (operation # rest) =
     and_then (if \<not> principal_may_issue pr operation then Inr False
       else and_then (raised (has_action reg pr (the (map_of ACTIONS operation)))) (\<lambda>ok.
            if ok \<and> operation = ''triage_link'' then raised (has_action reg pr ''run.read'') else Inr ok)) (\<lambda>mine.
     and_then (allowed_operations reg pr rest) (\<lambda>others. Inr (if mine then operation # others else others)))"

definition allowed_actions :: "registry \<Rightarrow> principal \<Rightarrow> string option \<Rightarrow> triage_error + string list" where
  "allowed_actions reg pr status =
     (if (case status of None \<Rightarrow> False | Some x \<Rightarrow> x \<in> set TERMINAL_STATES) then Inr []
      else allowed_operations reg pr OPERATION_ORDER)"

section \<open>Checking a command\<close>

text \<open>
  \<^verbatim>\<open>RFC3339_PATTERN\<close> and \<^verbatim>\<open>datetime.fromisoformat\<close> on the matched text: calendar date, time of
  day, an optional fraction of any length and an offset of less than a day in all (its minutes may
  exceed 59).
\<close>

definition all_digits :: "string \<Rightarrow> bool" where
  "all_digits s = (s \<noteq> [] \<and> list_all ascii_digit s)"

definition number_at :: "nat \<Rightarrow> nat \<Rightarrow> string \<Rightarrow> nat option" where
  "number_at i n s = (let t = take n (drop i s) in
     if length t = n \<and> list_all ascii_digit t then Some (digits_value t) else None)"

definition in_range :: "nat option \<Rightarrow> nat \<Rightarrow> nat \<Rightarrow> bool" where
  "in_range v lo hi = (case v of None \<Rightarrow> False | Some n \<Rightarrow> lo \<le> n \<and> n \<le> hi)"

definition offset_ok :: "string \<Rightarrow> bool" where
  "offset_ok s = (s = ''Z'' \<or>
     (length s = 6 \<and> (s ! 0 = CHR ''+'' \<or> s ! 0 = CHR ''-'') \<and> s ! 3 = CHR '':'' \<and>
      (case (number_at 1 2 s, number_at 4 2 s) of (Some h, Some m) \<Rightarrow> h * 60 + m < 1440 | _ \<Rightarrow> False)))"

definition rfc3339 :: "string \<Rightarrow> bool" where
  "rfc3339 s =
     (20 \<le> length s \<and> s ! 4 = CHR ''-'' \<and> s ! 7 = CHR ''-'' \<and> s ! 10 = CHR ''T'' \<and>
      s ! 13 = CHR '':'' \<and> s ! 16 = CHR '':'' \<and>
      in_range (number_at 0 4 s) 1 9999 \<and> in_range (number_at 5 2 s) 1 12 \<and>
      in_range (number_at 8 2 s) 1 (days_in_month (the (number_at 0 4 s)) (the (number_at 5 2 s))) \<and>
      in_range (number_at 11 2 s) 0 23 \<and> in_range (number_at 14 2 s) 0 59 \<and> in_range (number_at 17 2 s) 0 59 \<and>
      (let rest = drop 19 s
       in if rest ! 0 = CHR ''.''
          then (let fraction = takeWhile ascii_digit (tl rest)
                in fraction \<noteq> [] \<and> offset_ok (drop (length fraction) (tl rest)))
          else offset_ok rest))"

text \<open>Nonblank text of at most \<open>n\<close> characters.\<close>

definition text_within :: "nat \<Rightarrow> json \<Rightarrow> bool" where
  "text_within n j = (case j of JStr s \<Rightarrow> \<not> blank s \<and> py_len s \<le> n | _ \<Rightarrow> False)"

definition check_alert_context :: "json \<Rightarrow> triage_error + unit" where
  "check_alert_context j =
     raise_if (\<not> is_obj j \<or> \<not> keys_exactly (obj j) ALERT_CONTEXT_KEYS \<or>
         \<not> text_within 200 (get (obj j) ''service'') \<or> \<not> text_within 2000 (get (obj j) ''summary'') \<or>
         \<not> text_within 200 (get (obj j) ''source'') \<or>
         \<not> str_in (get (obj j) ''severity'') TRIAGE_SEVERITIES \<or>
         (case get (obj j) ''observed_at'' of JStr s \<Rightarrow> \<not> rfc3339 s | _ \<Rightarrow> True))
       (TriageError 422 ''invalid_alert_context'')"

definition check_command :: "triage_command \<Rightarrow> triage_error + unit" where
  "check_command q =
     and_then (raise_if (map_of ACTIONS (q_operation q) = None \<or> \<not> identifier_pattern (q_alert_id q) \<or>
         \<not> key_pattern (q_idempotency_key q)) (TriageError 400 ''invalid_command'')) (\<lambda>_.
     and_then (raise_if (q_reason q \<noteq> JNull \<and> \<not> is_str (q_reason q)) (TriageError 422 ''invalid_reason'')) (\<lambda>_.
     and_then (raise_if ((q_operation q = ''open_triage'') = (q_reason q \<noteq> JNull))
       (TriageError 422 ''invalid_reason'')) (\<lambda>_.
     and_then (raise_if (case q_reason q of JStr s \<Rightarrow> \<not> (1 \<le> py_len s \<and> py_len s \<le> 1000) | _ \<Rightarrow> False)
       (TriageError 422 ''invalid_reason'')) (\<lambda>_.
     and_then (raise_if (q_operation q = ''triage_link'' \<and>
         (case q_target_incident_id q of JStr s \<Rightarrow> \<not> identifier_pattern s | _ \<Rightarrow> True))
       (TriageError 422 ''invalid_target'')) (\<lambda>_.
     and_then (raise_if (q_operation q = ''triage_link'' \<and> q_severity q \<noteq> JNull \<and>
         \<not> str_in (q_severity q) TRIAGE_SEVERITIES) (TriageError 422 ''invalid_severity'')) (\<lambda>_.
     if q_operation q = ''triage_declare'' then
       and_then (raise_if (\<not> str_in (q_severity q) TRIAGE_SEVERITIES)
         (TriageError 422 ''invalid_severity'')) (\<lambda>_.
       and_then (raise_if (\<not> text_within 2000 (q_impact q)) (TriageError 422 ''invalid_impact'')) (\<lambda>_.
       check_alert_context (q_alert_context q)))
     else raise_if (q_alert_context q \<noteq> JNull) (TriageError 422 ''invalid_alert_context'')))))))"

section \<open>Declaring an incident\<close>

text \<open>Which exceptions of the runtime the declaration answers, and how.\<close>

fun declaration_error :: "py_error \<Rightarrow> triage_error" where
  "declaration_error (InvalidTransitionError m) = TriageError 422 ''invalid_transition''"
| "declaration_error (PreconditionFailedError m) = TriageError 422 ''invalid_transition''"
| "declaration_error (MissingIncidentVersionError m) = TriageError 422 ''invalid_transition''"
| "declaration_error (IncidentStaleWriteError m) = TriageError 409 ''stale_version''"
| "declaration_error (IncidentIdempotencyConflictError m) = TriageError 409 ''idempotency_conflict''"
| "declaration_error e = Raised e"

fun creation_error :: "py_error \<Rightarrow> triage_error" where
  "creation_error (IntegrityError m) = TriageError 409 ''idempotency_conflict''"
| "creation_error e = Raised e"

definition catching :: "(py_error \<Rightarrow> triage_error) \<Rightarrow> 'a outcome \<Rightarrow> triage_error + 'a" where
  "catching f m = (case m of Inl e \<Rightarrow> Inl (f e) | Inr x \<Rightarrow> Inr x)"

definition declared_incident :: "workflow \<Rightarrow> string \<Rightarrow> dict \<Rightarrow> dict" where
  "declared_incident w alert context = dict
     [(''workflow_id'', JStr (w_id w)), (''workflow_version'', JStr (w_version w)),
      (''state'', JStr ''triage''), (''severity'', JNull), (''impact'', JNull),
      (''alert'', JObj (dict [(''alert_id'', JStr alert)] ++\<^sub>f context)),
      (''hypotheses'', JList []), (''evidence'', JList []),
      (''mitigation_strategy'', JNull), (''postmortem'', JNull)]"

definition declared_run :: "workflow \<Rightarrow> dict" where
  "declared_run w = dict [(''workflow_version'', JStr (w_version w)), (''current_state'', JStr ''triage''),
     (''status'', JStr ''running''), (''pending_command'', JNull)]"

text \<open>A person's declaration names the person, an automatic one the system that decided.\<close>

definition declaring_actor :: "principal \<Rightarrow> string option \<Rightarrow> string \<times> actor_reference" where
  "declaring_actor pr responsible =
     (case responsible of
        None \<Rightarrow> (''human'', \<lparr>ar_principal_id = p_id pr, ar_display_name = Some (p_display_name pr),
                  ar_reference_version = ''1.0.0''\<rparr>)
      | Some sys \<Rightarrow> (''system'', \<lparr>ar_principal_id = sys, ar_display_name = None,
                     ar_reference_version = ''1.0.0''\<rparr>))"

definition run_start_blocked :: "hashing \<Rightarrow> string \<Rightarrow> datetime \<Rightarrow> event_draft" where
  "run_start_blocked h digest now = \<lparr>ed_id = ''evt_'' @ take 24 (h_text h (''run-start-blocked:'' @ digest)),
     ed_kind = ''run_start_blocked'',
     ed_payload = dict [(''state'', JStr ''active''), (''reason_code'', JStr ''run_start_not_authorized''),
       (''request_id'', JNull)], ed_occurred_at = now, ed_turn_id = None\<rparr>"

text \<open>The command of the declaration; a declarant who may not start a run leaves that on record.\<close>

definition declare_command ::
  "hashing \<Rightarrow> datetime \<Rightarrow> string \<Rightarrow> string \<Rightarrow> actor_reference \<Rightarrow> json \<Rightarrow> json \<Rightarrow> bool \<Rightarrow> incident_command" where
  "declare_command h now digest actor reference severity impact may_start =
     \<lparr>c_command_id = ''cmd-'' @ take 32 digest, c_incident_id = ''inc-'' @ take 32 digest,
      c_run_id = ''run_'' @ take 32 digest, c_transition_id = ''triage_declare'', c_actor = actor,
      c_actor_reference = Some reference, c_outcome = None, c_approval = False,
      c_expected_incident_version = None, c_dispatch_id = None, c_turn_id = None,
      c_inputs = Some (dict [(''severity'', severity), (''impact'', impact)]),
      c_extra_events = (if may_start then [] else [run_start_blocked h digest now]),
      c_contexts = [], c_execution = None\<rparr>"

text \<open>The clock and the identifiers of the two runtimes: derived from the key, then drawn.\<close>

definition declaration_draws :: "triage_draws \<Rightarrow> string \<Rightarrow> draws" where
  "declaration_draws td digest =
     \<lparr>d_now = td_now td, d_id = (\<lambda>prefix. prefix @ ''-'' @ take 24 digest), d_token = td_token td\<rparr>"

definition investigation_draws :: "triage_draws \<Rightarrow> draws" where
  "investigation_draws td = \<lparr>d_now = next_micro (td_now td), d_id = td_run_id td, d_token = td_token td\<rparr>"

definition investigation_command_id :: "string \<Rightarrow> string" where
  "investigation_command_id iid = ''auto-investigate:'' @ iid"

definition investigation_start :: "string \<Rightarrow> string \<Rightarrow> actor_reference \<Rightarrow> run_start" where
  "investigation_start iid actor reference =
     \<lparr>s_command_id = investigation_command_id iid, s_incident_id = iid, s_objective = ''investigate'',
      s_actor = actor, s_actor_reference = Some reference, s_resume_from_run_id = None\<rparr>"

text \<open>
  The declaration itself. Whether the declarant may start a run is asked after the rows of the
  incident and its first run are added, and every later step is in the same transaction.
\<close>

definition declare_incident ::
  "runtime \<Rightarrow> hashing \<Rightarrow> triage_draws \<Rightarrow> string \<Rightarrow> string \<Rightarrow> principal \<Rightarrow> json \<Rightarrow> json \<Rightarrow> dict \<Rightarrow>
     string option \<Rightarrow> bool outcome \<Rightarrow> store \<Rightarrow> triage_error + (string \<times> string option) \<times> store" where
  "declare_incident rt h td alert digest pr severity impact context responsible has_run_start s =
     (let iid = ''inc-'' @ take 32 digest; rid = ''run_'' @ take 32 digest; now = td_now td;
          actor = fst (declaring_actor pr responsible); reference = snd (declaring_actor pr responsible)
      in and_then (catching creation_error (add_incident iid (declared_incident (rt_workflow rt) alert context) now s))
           (\<lambda>(_, s1).
         and_then (catching creation_error (add_run rid iid (declared_run (rt_workflow rt)) now s1)) (\<lambda>(_, s2).
         and_then (raised has_run_start) (\<lambda>may_start.
         and_then (catching declaration_error (execute rt (declaration_draws td digest)
             (declare_command h now digest actor reference severity impact may_start) s2)) (\<lambda>(_, s3).
         if \<not> may_start then Inr ((iid, None), s3)
         else and_then (catching declaration_error (start_run rt (investigation_draws td)
             (investigation_start iid actor reference) s3)) (\<lambda>(started, s4).
           Inr ((iid, Some (rr_id (tr_run started))), s4)))))))"

section \<open>One triage command\<close>

definition as_string :: "json \<Rightarrow> string option" where
  "as_string j = (case j of JStr s \<Rightarrow> Some s | _ \<Rightarrow> None)"

text \<open>\<^verbatim>\<open>_transition\<close>: what an operation does besides the decision itself.\<close>

definition triage_transition ::
  "runtime \<Rightarrow> hashing \<Rightarrow> triage_draws \<Rightarrow> principal \<Rightarrow> triage_command \<Rightarrow> string \<Rightarrow> string option \<Rightarrow> triage_db \<Rightarrow>
     triage_error + (string option \<times> string option) \<times> triage_db" where
  "triage_transition rt h td pr q digest responsible db =
     (if q_operation q = ''triage_link'' then
        (case q_target_incident_id q of
           JStr target \<Rightarrow>
             (case get_incident target (db_store db) of
                None \<Rightarrow> Inl (TriageError 404 ''incident_not_found'')
              | Some i \<Rightarrow>
                  if \<not> str_in (get (ir_state i) ''state'') ELIGIBLE
                  then Inl (TriageError 409 ''destination_ineligible'')
                  else Inr ((Some target, None), db))
         | _ \<Rightarrow> Inl (TriageError 422 ''invalid_target''))
      else if q_operation q \<noteq> ''triage_declare'' then Inr ((None, None), db)
      else
        and_then (declare_incident rt h td (q_alert_id q) digest pr (q_severity q) (q_impact q)
          (obj (q_alert_context q)) responsible (has_action (db_registry db) pr ''run.start'') (db_store db))
          (\<lambda>((iid, run), s'). Inr ((Some iid, run), db\<lparr>db_store := s'\<rparr>)))"

definition command_document :: "triage_command \<Rightarrow> dict" where
  "command_document q = dict
     ([(''alert_id'', JStr (q_alert_id q)), (''operation'', JStr (q_operation q)),
       (''expected_version'', JInt (q_expected_version q)), (''reason'', q_reason q),
       (''severity'', q_severity q), (''impact'', q_impact q),
       (''target_incident_id'', q_target_incident_id q)] @
      (if q_alert_context q = JNull then [] else [(''alert_context'', q_alert_context q)]))"

definition result_document :: "triage_row \<Rightarrow> dict" where
  "result_document r = dict
     [(''status'', JStr (ta_status r)), (''incident_id'', jopt (ta_incident_id r)),
      (''expected_version'', JInt (ta_expected_version r)), (''actor'', JStr (ta_actor r)),
      (''decided_at'', JStr (isoformat (ta_decided_at r))), (''decision_origin'', JStr (ta_decision_origin r)),
      (''responsible_system'', jopt (ta_responsible_system r))]"

text \<open>\<^verbatim>\<open>TriageResult(replayed=..., http_status=..., investigation_run_id=..., **stored)\<close>.\<close>

definition RESULT_FIELDS :: "string list" where
  "RESULT_FIELDS = [''status'', ''incident_id'', ''expected_version'', ''actor'', ''decided_at'',
     ''decision_origin'', ''responsible_system'']"

definition build_result :: "dict \<Rightarrow> bool \<Rightarrow> int \<Rightarrow> string option \<Rightarrow> triage_result outcome" where
  "build_result d replayed status run =
     and_then (raise_if (\<not> keys_exactly d RESULT_FIELDS) (TypeError ''TriageResult'')) (\<lambda>_.
     and_then (str_item d ''status'') (\<lambda>st. and_then (opt_item d ''incident_id'') (\<lambda>iid.
     and_then (int_item d ''expected_version'') (\<lambda>version. and_then (str_item d ''actor'') (\<lambda>actor.
     and_then (str_item d ''decided_at'') (\<lambda>decided. and_then (str_item d ''decision_origin'') (\<lambda>origin.
     and_then (opt_item d ''responsible_system'') (\<lambda>responsible.
     Inr \<lparr>tg_status = st, tg_incident_id = iid, tg_expected_version = version, tg_actor = actor,
          tg_decided_at = decided, tg_decision_origin = origin, tg_responsible_system = responsible,
          tg_replayed = replayed, tg_http_status = status, tg_investigation_run_id = run\<rparr>))))))))"

definition investigation_run_id :: "string option \<Rightarrow> store \<Rightarrow> string option" where
  "investigation_run_id incident s =
     (case incident of None \<Rightarrow> None
      | Some iid \<Rightarrow>
          (case select_one (\<lambda>c. co_incident_id c = iid \<and> co_command_id c = investigation_command_id iid)
             (transition_commits s) of
             None \<Rightarrow> None
           | Some c \<Rightarrow> as_string (get (obj (get (co_result c) ''run'')) ''run_id'')))"

text \<open>\<^verbatim>\<open>dict.setdefault\<close>.\<close>

definition setdefault :: "string \<Rightarrow> json \<Rightarrow> dict \<Rightarrow> dict" where
  "setdefault k v d = (if k \<in> fmdom' d then d else fmupd k v d)"

definition replayed_result :: "triage_command \<Rightarrow> dict \<Rightarrow> store \<Rightarrow> triage_result outcome" where
  "replayed_result q payload s =
     (let stored = setdefault ''responsible_system'' JNull (setdefault ''decision_origin'' (JStr ''unknown'') payload);
          declaring = (q_operation q = ''triage_declare'')
      in build_result stored True (if declaring then 201 else 200)
           (if declaring then investigation_run_id (as_string (get stored ''incident_id'')) s else None))"

fun binding_failure :: "binding_error \<Rightarrow> triage_error" where
  "binding_failure (IdempotencyConflictError m) = TriageError 409 ''idempotency_conflict''"
| "binding_failure (LookupError m) = Raised (KeyError m)"
| "binding_failure (Unbound e) = Raised e"

definition bindings_of :: "binding_error + 'a \<Rightarrow> triage_error + 'a" where
  "bindings_of m = (case m of Inl e \<Rightarrow> Inl (binding_failure e) | Inr x \<Rightarrow> Inr x)"

definition claim_of :: "hashing \<Rightarrow> triage_draws \<Rightarrow> principal \<Rightarrow> triage_command \<Rightarrow> claim_request" where
  "claim_of h td pr q = \<lparr>cq_scope = ''triage:'' @ q_alert_id q, cq_key_digest = h_text h (q_idempotency_key q),
     cq_payload_sha256 = h_payload h (command_document q), cq_principal_id = p_id pr, cq_method = ''POST'',
     cq_canonical_path = ''/v1/alerts/'' @ q_alert_id q @ ''/triage/commands'', cq_binding = ''at_least_24h'',
     cq_outcome = \<lparr>io_response_status = (if q_operation q = ''triage_declare'' then 201 else 200),
       io_resource_id = q_alert_id q, io_replayed = False, io_response_payload = fmempty\<rparr>,
     cq_now = td_claimed_at td, cq_expires_at = None\<rparr>"

text \<open>Who decided, and on whose behalf.\<close>

definition decision_origin :: "principal \<Rightarrow> triage_command \<Rightarrow> string" where
  "decision_origin pr q = (if p_kind pr = ''human'' \<and> q_responsible_system q = None then ''manual''
     else ''external_automatic'')"

definition responsible_system :: "principal \<Rightarrow> triage_command \<Rightarrow> string option" where
  "responsible_system pr q = (if decision_origin pr q = ''external_automatic'' \<and> q_responsible_system q = None
     then Some (p_id pr) else q_responsible_system q)"

text \<open>The guards on the stored decision: its version, and that it is not final.\<close>

definition check_current ::
  "runtime \<Rightarrow> hashing \<Rightarrow> triage_draws \<Rightarrow> principal \<Rightarrow> triage_command \<Rightarrow> triage_db \<Rightarrow> triage_error + unit" where
  "check_current rt h td pr q db =
     (let current = get_triage (q_alert_id q) (db_triage db)
      in and_then (raise_if (case current of None \<Rightarrow> q_expected_version q \<noteq> 1
             | Some r \<Rightarrow> ta_expected_version r \<noteq> q_expected_version q) (TriageError 409 ''stale_version'')) (\<lambda>_.
         case current of None \<Rightarrow> Inr ()
         | Some r \<Rightarrow>
             if ta_status r \<notin> set TERMINAL_STATES then Inr ()
             else if q_operation q = ''triage_declare'' \<and> ta_status r = ''declared''
             then Inl (TriageError 409 ''already_declared'')
             else if q_operation q = ''triage_link''
             then and_then (triage_transition rt h td pr q (h_text h (q_idempotency_key q)) None db) (\<lambda>_.
                    Inl (TriageError 409 ''terminal_decision''))
             else Inl (TriageError 409 ''terminal_decision'')))"

definition decide ::
  "runtime \<Rightarrow> hashing \<Rightarrow> triage_draws \<Rightarrow> principal \<Rightarrow> triage_command \<Rightarrow> triage_db \<Rightarrow>
     triage_error + triage_result \<times> triage_db" where
  "decide rt h td pr q db =
     and_then (check_current rt h td pr q db) (\<lambda>_.
     and_then (triage_transition rt h td pr q (h_text h (q_idempotency_key q)) (responsible_system pr q) db)
       (\<lambda>((iid, run), db1).
     let current = get_triage (q_alert_id q) (db_triage db);
         row = \<lparr>ta_alert_id = q_alert_id q, ta_status = the (map_of STATES (q_operation q)),
                ta_incident_id = iid, ta_expected_version = 0, ta_reason = as_string (q_reason q),
                ta_severity = as_string (q_severity q),
                ta_actor = (case responsible_system pr q of None \<Rightarrow> p_id pr | Some sys \<Rightarrow> sys),
                ta_decided_at = td_decided_at td, ta_decision_origin = decision_origin pr q,
                ta_responsible_system = responsible_system pr q\<rparr>
     in and_then (raised (write_triage (if current = None then None else Some (q_expected_version q)) row
            (db_triage db1))) (\<lambda>(persisted, rows).
        case persisted of None \<Rightarrow> Inl (TriageError 409 ''stale_version'')
        | Some r \<Rightarrow>
            and_then (bindings_of (set_response_payload (''triage:'' @ q_alert_id q)
              (h_text h (q_idempotency_key q)) (result_document r) (db_bindings db1))) (\<lambda>bindings.
            and_then (raised (build_result (result_document r) False
              (if q_operation q = ''triage_declare'' then 201 else 200) run)) (\<lambda>result.
            Inr (result, db1\<lparr>db_triage := rows, db_bindings := bindings\<rparr>))))))"

definition execute_triage ::
  "runtime \<Rightarrow> hashing \<Rightarrow> triage_draws \<Rightarrow> principal \<Rightarrow> triage_command \<Rightarrow> triage_db \<Rightarrow>
     triage_error + triage_result \<times> triage_db" where
  "execute_triage rt h td pr q db =
     and_then (check_command q) (\<lambda>_.
     and_then (authorize (db_registry db) pr (the (map_of ACTIONS (q_operation q)))) (\<lambda>_.
     and_then (if q_operation q = ''triage_link'' then authorize (db_registry db) pr ''run.read'' else Inr ()) (\<lambda>_.
     and_then (raise_if (\<not> principal_may_issue pr (q_operation q)) (TriageError 403 ''operator_required'')) (\<lambda>_.
     and_then (bindings_of (claim_or_replay (claim_of h td pr q) (db_bindings db))) (\<lambda>(binding, rows).
     let db1 = db\<lparr>db_bindings := rows\<rparr>
     in if ib_replayed binding
        then and_then (raised (replayed_result q (io_response_payload (ib_outcome binding)) (db_store db)))
               (\<lambda>result. Inr (result, db1))
        else decide rt h td pr q db1)))))"

section \<open>Reads\<close>

definition project_state :: "string \<Rightarrow> triage_row \<Rightarrow> dict" where
  "project_state alert r = dict
     [(''alert_id'', JStr alert), (''status'', JStr (ta_status r)), (''incident_id'', jopt (ta_incident_id r)),
      (''expected_version'', JInt (ta_expected_version r)), (''reason'', jopt (ta_reason r)),
      (''actor'', JStr (ta_actor r)), (''decided_at'', JStr (isoformat (ta_decided_at r))),
      (''decision_origin'', JStr (ta_decision_origin r)),
      (''responsible_system'', jopt (ta_responsible_system r))]"

definition read_state :: "principal \<Rightarrow> string \<Rightarrow> triage_db \<Rightarrow> triage_error + dict" where
  "read_state pr alert db =
     and_then (authorize (db_registry db) pr READ_ACTION) (\<lambda>_.
     case get_triage alert (db_triage db) of None \<Rightarrow> Inl (TriageError 404 ''triage_not_found'')
     | Some r \<Rightarrow> Inr (project_state alert r))"

definition read_context :: "principal \<Rightarrow> string \<Rightarrow> triage_db \<Rightarrow> triage_error + dict" where
  "read_context pr alert db =
     (let current = get_triage alert (db_triage db)
      in and_then (authorize (db_registry db) pr READ_ACTION) (\<lambda>_.
         and_then (allowed_actions (db_registry db) pr (map_option ta_status current)) (\<lambda>actions.
         Inr (dict [(''alert_id'', JStr alert),
           (''triage_state'', case current of None \<Rightarrow> JNull | Some r \<Rightarrow> JObj (project_state alert r)),
           (''allowed_actions'', JList (map JStr actions))]))))"

text \<open>
  \<^verbatim>\<open>list_eligible\<close> of the incident repository: \<^verbatim>\<open>ORDER BY incident_id ASC LIMIT 100\<close>, with the fields
  the incident recorded.
\<close>

definition eligible_item :: "incident_record \<Rightarrow> dict" where
  "eligible_item i =
     (let alert = obj (get (ir_state i) ''alert'')
      in dict (map (\<lambda>(k, v). (k, JStr v)) (concat (map (\<lambda>(k, v). case v of None \<Rightarrow> [] | Some x \<Rightarrow> [(k, x)])
        [(''incident_id'', Some (ir_id i)), (''state'', as_string (get (ir_state i) ''state'')),
         (''service'', as_string (get alert ''service'')), (''summary'', as_string (get alert ''summary''))]))))"

definition list_eligible :: "string list \<Rightarrow> store \<Rightarrow> dict list" where
  "list_eligible states s = map eligible_item (take 100 (sort_key ir_id
     (filter (\<lambda>i. str_in (get (ir_state i) ''state'') states) (incidents s))))"

definition list_eligible_incidents :: "principal \<Rightarrow> triage_db \<Rightarrow> triage_error + dict" where
  "list_eligible_incidents pr db =
     and_then (authorize (db_registry db) pr READ_ACTION) (\<lambda>_.
     and_then (authorize (db_registry db) pr ''run.read'') (\<lambda>_.
     Inr (dict [(''items'', JList (map JObj (list_eligible ELIGIBLE (db_store db))))])))"

section \<open>What a declaration does\<close>

lemma catching_Inr [outcome_simps]: "catching f m = Inr y \<longleftrightarrow> m = Inr y"
  by (cases m) (simp_all add: catching_def)

lemma raised_Inr [outcome_simps]: "raised m = Inr y \<longleftrightarrow> m = Inr y"
  by (cases m) (simp_all add: raised_def)

lemma bindings_of_Inr [outcome_simps]: "bindings_of m = Inr y \<longleftrightarrow> m = Inr y"
  by (cases m) (simp_all add: bindings_of_def)

lemma declare_incident_Inr:
  assumes "declare_incident rt h td alert digest pr severity impact context responsible has_run_start s = Inr ((iid, run), s')"
  obtains row s1 rrow s2 may_start result s3 where "iid = ''inc-'' @ take 32 digest"
    and "add_incident iid (declared_incident (rt_workflow rt) alert context) (td_now td) s = Inr (row, s1)"
    and "add_run (''run_'' @ take 32 digest) iid (declared_run (rt_workflow rt)) (td_now td) s1 = Inr (rrow, s2)"
    and "has_run_start = Inr may_start"
    and "execute rt (declaration_draws td digest) (declare_command h (td_now td) digest
        (fst (declaring_actor pr responsible)) (snd (declaring_actor pr responsible)) severity impact may_start) s2 =
        Inr (result, s3)"
    and "\<not> may_start \<Longrightarrow> run = None \<and> s' = s3"
    and "may_start \<Longrightarrow> \<exists>started. start_run rt (investigation_draws td) (investigation_start iid
        (fst (declaring_actor pr responsible)) (snd (declaring_actor pr responsible))) s3 = Inr (started, s') \<and>
        run = Some (rr_id (tr_run started))"
proof -
  obtain row s1 rrow s2 may_start result s3 where
    b: "add_incident (''inc-'' @ take 32 digest) (declared_incident (rt_workflow rt) alert context) (td_now td) s = Inr (row, s1)"
      "add_run (''run_'' @ take 32 digest) (''inc-'' @ take 32 digest) (declared_run (rt_workflow rt)) (td_now td) s1 = Inr (rrow, s2)"
      "has_run_start = Inr may_start"
      "execute rt (declaration_draws td digest) (declare_command h (td_now td) digest
        (fst (declaring_actor pr responsible)) (snd (declaring_actor pr responsible)) severity impact may_start) s2 =
        Inr (result, s3)"
    and rest: "(if \<not> may_start then Inr ((''inc-'' @ take 32 digest, None), s3)
         else and_then (catching declaration_error (start_run rt (investigation_draws td)
             (investigation_start (''inc-'' @ take 32 digest) (fst (declaring_actor pr responsible))
               (snd (declaring_actor pr responsible))) s3)) (\<lambda>(started, s4).
           Inr ((''inc-'' @ take 32 digest, Some (rr_id (tr_run started))), s4))) = Inr ((iid, run), s')"
    using assms
    unfolding declare_incident_def Let_def and_then_pair_Inr and_then_Inr_iff [of "raised has_run_start"] catching_Inr raised_Inr
    by blast
  have iid: "iid = ''inc-'' @ take 32 digest"
    using rest by (auto simp: outcome_simps split: if_splits)
  show thesis
    by (rule that [OF iid, unfolded iid, OF b]) (use rest iid in \<open>auto simp: outcome_simps\<close>)
qed

end
