(* ===== verification/Lifecycle.thy ===== *)
theory Lifecycle
  imports Commits EventLog Triage
begin

text \<open>
  Everything that writes to the incident store, as one relation: \<open>reach rt s s'\<close> holds when the
  operations of the program lead from the store \<open>s\<close> to \<open>s'\<close>. A command and a run start read the
  rows they plan on at one moment (\<open>s1\<close>) and write at a later one, with the operations of other
  processes between; the writes that lock the rows first read and write at once. On it: the record
  is only extended, and the versions of an incident tell its states apart, so no update is lost.
\<close>

section \<open>The operations\<close>

inductive reach :: "runtime \<Rightarrow> store \<Rightarrow> store \<Rightarrow> bool" for rt where
  idle: "reach rt s s"
| declared: "reach rt s0 s \<Longrightarrow>
    declare_incident rt h td alert digest pr severity impact context responsible has_run_start s = Inr (x, s') \<Longrightarrow>
    reach rt s0 s'"
| executed: "reach rt s0 s1 \<Longrightarrow> reach rt s1 s \<Longrightarrow>
    get_incident (c_incident_id c) s1 = Some i \<Longrightarrow> get_for_incident (c_run_id c) (c_incident_id c) s1 = Some r \<Longrightarrow>
    plan_apply rt dr c (rt_digest rt (command_payload c)) i r s1 = Inr a \<Longrightarrow>
    persist_transition (d_token dr) a s = Inr (result, s') \<Longrightarrow> reach rt s0 s'"
| started: "reach rt s0 s1 \<Longrightarrow> reach rt s1 s \<Longrightarrow>
    get_incident (s_incident_id q) s1 = Some i \<Longrightarrow>
    (retries q i \<Longrightarrow> refuse_beside_live_run i s1 = Inr ()) \<Longrightarrow> get_run (d_id dr ''run'') s = None \<Longrightarrow>
    jsonb_ok (JObj (rr_state (opened_run rt dr q i))) \<Longrightarrow>
    map_of objective_transitions (s_objective q) = Some tid \<Longrightarrow>
    plan_apply rt dr (start_command q (d_id dr ''run'') (retries q i) tid) (rt_digest rt (start_payload q)) i
      (opened_run rt dr q i) (s1\<lparr>runs := runs s1 @ [opened_run rt dr q i]\<rparr>) = Inr a \<Longrightarrow>
    persist_transition (d_token dr) a (s\<lparr>runs := runs s @ [opened_run rt dr q i]\<rparr>) = Inr (result, s') \<Longrightarrow>
    reach rt s0 s'"
| refused: "reach rt s0 s \<Longrightarrow>
    record_refusal dr iid rid actor reason request denial s = Inr (u, s') \<Longrightarrow> reach rt s0 s'"
| claimed: "reach rt s0 s \<Longrightarrow> claim_run_dispatch iid rid ca u s = Inr (answer, u', s') \<Longrightarrow> reach rt s0 s'"
| completed: "reach rt s0 s \<Longrightarrow> complete_run_dispatch iid rid cp s = Inr (done, s') \<Longrightarrow> reach rt s0 s'"
| released: "reach rt s0 s \<Longrightarrow> release_run_dispatch iid rid u s = Inr (u', s') \<Longrightarrow> reach rt s0 s'"
| saved: "reach rt s0 s \<Longrightarrow>
    save_postmortem pid iid expected content run_ids actor now s = Inr (v, s') \<Longrightarrow> reach rt s0 s'"
| reviewed: "reach rt s0 s \<Longrightarrow>
    review_postmortem pid version outcome reviewer comment now s = Inr s' \<Longrightarrow> reach rt s0 s'"

text \<open>The operations as the runtime calls them, read and write at once.\<close>

lemma reach_execute:
  assumes "reach rt s0 s" and "execute rt dr c s = Inr (result, s')"
  shows "reach rt s0 s'"
  using assms(2)
proof (cases rule: execute_Inr)
  case (committed i r a)
  then show ?thesis using assms(1) by (intro reach.executed [OF assms(1) reach.idle])
qed (use assms(1) in simp)

lemma reach_start:
  assumes "reach rt s0 s" and "start_run rt dr q s = Inr (result, s')"
  shows "reach rt s0 s'"
  using assms(2)
proof (cases rule: start_run_Inr)
  case (committed tid i a)
  then show ?thesis by (intro reach.started [OF assms(1) reach.idle])
qed (use assms(1) in simp)

section \<open>The record is only extended\<close>

definition extends :: "'a list \<Rightarrow> 'a list \<Rightarrow> bool" where
  "extends xs ys = (\<exists>new. ys = xs @ new)"

lemma extends_refl [simp]: "extends xs xs" and extends_append [simp]: "extends xs (xs @ ys)"
  by (simp_all add: extends_def)

lemma extends_trans: "extends xs ys \<Longrightarrow> extends ys zs \<Longrightarrow> extends xs zs"
  by (auto simp: extends_def)

lemma extends_set: "extends xs ys \<Longrightarrow> set xs \<subseteq> set ys"
  by (auto simp: extends_def)

definition incidents_kept :: "store \<Rightarrow> store \<Rightarrow> bool" where
  "incidents_kept s s' = (\<forall>iid i. get_incident iid s = Some i \<longrightarrow>
     (\<exists>i'. get_incident iid s' = Some i' \<and> (i' = i \<or> ir_version i < ir_version i')))"

definition runs_kept :: "store \<Rightarrow> store \<Rightarrow> bool" where
  "runs_kept s s' = (\<forall>rid iid r. get_for_incident rid iid s = Some r \<longrightarrow>
     (\<exists>r'. get_for_incident rid iid s' = Some r' \<and> rr_version r \<le> rr_version r'))"

definition history :: "store \<Rightarrow> store \<Rightarrow> bool" where
  "history s s' = (extends (decisions s) (decisions s') \<and> extends (run_events s) (run_events s') \<and>
     extends (snapshots s) (snapshots s') \<and> extends (text_context s) (text_context s') \<and>
     extends (transition_commits s) (transition_commits s') \<and>
     extends (postmortem_revisions s) (postmortem_revisions s') \<and>
     extends (postmortem_reviews s) (postmortem_reviews s') \<and>
     extends (incident_memories s) (incident_memories s') \<and> incidents_kept s s' \<and> runs_kept s s')"

lemma incidents_kept_same [simp]: "incidents s' = incidents s \<Longrightarrow> incidents_kept s s'"
  by (simp add: incidents_kept_def get_incident_def)

lemma runs_kept_same [simp]: "runs s' = runs s \<Longrightarrow> runs_kept s s'"
  by (simp add: runs_kept_def get_for_incident_def)

lemma incidents_kept_append: "incidents s' = incidents s @ rows \<Longrightarrow> incidents_kept s s'"
  by (auto simp: incidents_kept_def get_incident_def select_one_append)

lemma runs_kept_append: "runs s' = runs s @ rows \<Longrightarrow> runs_kept s s'"
  by (auto simp: runs_kept_def get_for_incident_def select_one_append)

lemma incidents_kept_update:
  assumes "incidents s' = update_where (\<lambda>r. ir_id r = iid) f (incidents s)"
    and "\<And>r. ir_id (f r) = ir_id r" and "\<And>r. ir_version r < ir_version (f r)"
  shows "incidents_kept s s'"
  unfolding incidents_kept_def get_incident_def assms(1)
proof (intro allI impI)
  fix x i
  assume i: "select_one (\<lambda>r. ir_id r = x) (incidents s) = Some i"
  show "\<exists>i'. select_one (\<lambda>r. ir_id r = x) (update_where (\<lambda>r. ir_id r = iid) f (incidents s)) = Some i' \<and>
      (i' = i \<or> ir_version i < ir_version i')"
  proof (cases "x = iid")
    case True
    then show ?thesis using i assms(2,3) by (simp add: select_one_update_where)
  next
    case False
    then show ?thesis using i assms(2) by (subst select_one_update_other) auto
  qed
qed

lemma runs_kept_update:
  assumes "runs s' = update_where p f (runs s)"
    and "\<And>r. rr_id (f r) = rr_id r" and "\<And>r. rr_incident_id (f r) = rr_incident_id r"
    and "\<And>r. rr_version r \<le> rr_version (f r)"
  shows "runs_kept s s'"
proof -
  have "\<exists>r'. select_one (\<lambda>r. rr_id r = rid \<and> rr_incident_id r = iid) (update_where p f rows) = Some r' \<and>
      rr_version r \<le> rr_version r'"
    if "select_one (\<lambda>r. rr_id r = rid \<and> rr_incident_id r = iid) rows = Some r" for rid iid r rows
    using that assms(2-4) unfolding select_one_def update_where_def
    by (induction rows) (auto split: if_splits)
  then show ?thesis by (simp add: runs_kept_def get_for_incident_def assms(1))
qed

lemma incidents_kept_trans:
  assumes "incidents_kept s s'" and "incidents_kept s' s''"
  shows "incidents_kept s s''"
  unfolding incidents_kept_def
proof (intro allI impI)
  fix iid i
  assume "get_incident iid s = Some i"
  then obtain i' where i': "get_incident iid s' = Some i'" "i' = i \<or> ir_version i < ir_version i'"
    using assms(1) unfolding incidents_kept_def by blast
  then obtain i'' where "get_incident iid s'' = Some i''" "i'' = i' \<or> ir_version i' < ir_version i''"
    using assms(2) unfolding incidents_kept_def by blast
  with i'(2) show "\<exists>i''. get_incident iid s'' = Some i'' \<and> (i'' = i \<or> ir_version i < ir_version i'')" by auto
qed

lemma runs_kept_trans:
  assumes "runs_kept s s'" and "runs_kept s' s''"
  shows "runs_kept s s''"
  unfolding runs_kept_def
proof (intro allI impI)
  fix rid iid r
  assume "get_for_incident rid iid s = Some r"
  then obtain r' where r': "get_for_incident rid iid s' = Some r'" "rr_version r \<le> rr_version r'"
    using assms(1) unfolding runs_kept_def by blast
  then obtain r'' where "get_for_incident rid iid s'' = Some r''" "rr_version r' \<le> rr_version r''"
    using assms(2) unfolding runs_kept_def by blast
  with r'(2) show "\<exists>r''. get_for_incident rid iid s'' = Some r'' \<and> rr_version r \<le> rr_version r''" by auto
qed

lemma history_refl [simp]: "history s s"
  by (simp add: history_def)

lemma history_trans:
  assumes "history s s'" and "history s' s''"
  shows "history s s''"
  using assms unfolding history_def
  by (auto elim: extends_trans incidents_kept_trans runs_kept_trans)

text \<open>Each write extends the record.\<close>

lemma history_written: "history s (written a i r contexts memories s)"
  unfolding history_def written_def
  by (auto intro!: incidents_kept_update [where iid = "pa_incident_id a"] runs_kept_update)

lemma history_recorded: "history s (recorded iid rid d events s)"
  unfolding history_def recorded_def by (auto intro!: runs_kept_update)

lemma history_run_patched: "history s (run_patched iid rid patch s)"
  unfolding history_def run_patched_def by (cases patch) (auto intro!: runs_kept_update)

lemma history_incident_patched: "history s (incident_patched iid at_time patch s)"
  unfolding history_def incident_patched_def
  by (cases patch) (auto intro!: incidents_kept_update [where iid = iid])

lemma history_contexts: "history s (s\<lparr>text_context := text_context s @ new\<rparr>)"
  and history_run: "history s (s\<lparr>runs := runs s @ rows\<rparr>)"
  and history_incident: "history s (s\<lparr>incidents := incidents s @ irows\<rparr>)"
  and history_locks: "history s (s\<lparr>advisory_locks := locks\<rparr>)"
  by (auto simp: history_def intro: runs_kept_append incidents_kept_append)

lemma history_persist:
  assumes "persist_transition token a s = Inr (result, s')"
  shows "history s s'"
  using assms
proof (cases rule: persist_transition_Inr)
  case committed
  then show ?thesis by (elim write_transition_Inr) (auto simp: history_written)
qed simp

lemma history_execute: "execute rt dr c s = Inr (result, s') \<Longrightarrow> history s s'"
  by (cases rule: execute_Inr) (auto intro: history_persist)

lemma history_start:
  assumes "start_run rt dr q s = Inr (result, s')"
  shows "history s s'"
  using assms
proof (cases rule: start_run_Inr)
  case (committed tid i a)
  then show ?thesis using history_trans [OF history_run history_persist] by blast
qed simp

lemma history_declare:
  assumes "declare_incident rt h td alert digest pr severity impact context responsible has_run_start s = Inr (x, s')"
  shows "history s s'"
proof -
  obtain iid run where x: "x = (iid, run)" by (cases x)
  from assms [unfolded x] show ?thesis
  proof (cases rule: declare_incident_Inr)
    case (1 row s1 rrow s2 may_start result s3)
    have "history s s1" unfolding add_incident_Inr(3) [OF 1(2)] by (rule history_incident)
    moreover have "history s1 s2" unfolding add_run_Inr(4) [OF 1(3)] by (rule history_run)
    ultimately have "history s s3" using history_trans history_execute [OF 1(5)] by blast
    then show ?thesis using 1(6,7) history_start history_trans by (cases may_start) blast+
  qed
qed

lemma history_refusal:
  "record_refusal dr iid rid actor reason request denial s = Inr (u, s') \<Longrightarrow> history s s'"
  by (auto simp: record_refusal_def outcome_simps history_recorded dest: record_run_events_Inr(1))

lemma history_claim:
  assumes "claim_run_dispatch iid rid a u s = Inr (answer, u', s')"
  shows "history s s'"
  using assms
proof (cases rule: claim_run_dispatch_Inr)
  case interrupted
  have "history s (with_lock iid rid s)" by (simp add: with_lock_def history_locks)
  then show ?thesis
    using claim_interrupted_Inr(1) [OF interrupted(3)] history_trans history_run_patched history_recorded by metis
next
  case claimed
  then show ?thesis using history_trans [OF history_locks history_recorded] by (simp add: with_lock_def)
qed (simp_all add: with_lock_def history_locks)

lemma history_complete:
  assumes "complete_run_dispatch iid rid a s = Inr (done, s')"
  shows "history s s'"
  using assms
proof (cases rule: complete_run_dispatch_Inr)
  case (completed i contexts)
  let ?s1 = "incident_patched iid (max_occurred (cp_events a)) (cp_incident_patch a) s"
  let ?s2 = "run_patched iid rid (cp_run_patch a) ?s1"
  have "text_context ?s2 = text_context s"
    by (simp add: run_patched_def incident_patched_def split: option.splits)
  then have "history s (?s2\<lparr>text_context := text_context s @ contexts\<rparr>)"
    using history_trans [OF history_trans [OF history_incident_patched history_run_patched] history_contexts] by metis
  then show ?thesis unfolding completed(7) using history_recorded history_trans by blast
qed simp

lemma history_release: "release_run_dispatch iid rid u s = Inr (u', s') \<Longrightarrow> history s s'"
  by (auto simp: release_run_dispatch_def outcome_simps history_locks split: option.splits)

lemma save_postmortem_Inr:
  assumes "save_postmortem pid iid expected content run_ids actor now s = Inr (v, s')"
  obtains heads where "v = expected + 1" and "s' = s\<lparr>postmortems := heads, postmortem_revisions := postmortem_revisions s @
       [\<lparr>rv_postmortem_id = pid, rv_version = expected + 1, rv_content = content, rv_edited_by = actor, rv_edited_at = now\<rparr>]\<rparr>"
    and "(if expected = 0 then (\<forall>p\<in>set (postmortems s). pm_id p \<noteq> pid \<and> pm_incident_id p \<noteq> iid) \<and>
        heads = postmortems s @ [\<lparr>pm_id = pid, pm_incident_id = iid, pm_version = 1, pm_run_ids = run_ids,
             pm_created_at = now, pm_updated_at = now\<rparr>]
      else heads = update_where (\<lambda>p. pm_id p = pid \<and> pm_incident_id p = iid \<and> pm_version p = expected)
               (\<lambda>p. p\<lparr>pm_version := expected + 1, pm_run_ids := run_ids, pm_updated_at := now\<rparr>) (postmortems s))"
    and "revision_at pid (expected + 1) s = None"
  using assms
  by (auto simp: save_postmortem_def save_head_def outcome_simps revision_at_def split: if_splits option.splits)

lemma history_save:
  "save_postmortem pid iid expected content run_ids actor now s = Inr (v, s') \<Longrightarrow> history s s'"
  by (elim save_postmortem_Inr) (simp add: history_def)

lemma review_postmortem_Inr:
  assumes "review_postmortem pid version outcome reviewer comment now s = Inr s'"
  shows "s' = s\<lparr>postmortem_reviews := postmortem_reviews s @
       [\<lparr>vw_postmortem_id = pid, vw_version = version, vw_outcome = outcome, vw_reviewer_id = reviewer,
         vw_comment = comment, vw_reviewed_at = now\<rparr>]\<rparr>"
    and "outcome \<in> set REVIEW_OUTCOMES" and "revision_at pid version s \<noteq> None"
  using assms by (auto simp: review_postmortem_def outcome_simps)

lemma history_review:
  "review_postmortem pid version outcome reviewer comment now s = Inr s' \<Longrightarrow> history s s'"
  by (drule review_postmortem_Inr(1)) (simp add: history_def)

lemma reach_history: "reach rt s s' \<Longrightarrow> history s s'"
proof (induction rule: reach.induct)
  case (executed s0 s1 s c i r dr a result s')
  then show ?case using history_trans history_persist by metis
next
  case (started s0 s1 s q i dr tid a result s')
  have "history s s'" using history_trans [OF history_run history_persist [OF started.hyps(9)]] .
  then show ?case using started.IH history_trans by blast
qed (auto elim: history_trans intro: history_declare history_refusal history_claim history_complete history_release
    history_save history_review)

lemma reach_trans:
  assumes "reach rt s' s''" and "reach rt s s'"
  shows "reach rt s s''"
  using assms
proof (induction rule: reach.induct)
  case (executed s0 s1 s2 c i r dr a result s')
  show ?case by (rule reach.executed [OF executed.IH(1) [OF executed.prems] executed.hyps(2-6)])
next
  case (started s0 s1 s2 q i dr tid a result s')
  show ?case by (rule reach.started [OF started.IH(1) [OF started.prems] started.hyps(2-9)])
qed (auto intro: reach.intros)

end
