(* ===== verification/Invariants.thy ===== *)
theory Invariants
  imports Lifecycle
begin

text \<open>
  Invariants of the incident store. Every operation of \<^const>\<open>reach\<close> is a sequence of a few kinds of
  writes; what keeps a property under each of them keeps it under the program. The locale
  \<open>store_invariant\<close> states that interface once, and its interpretations below and in the later
  theories are the invariants of the development.
\<close>

section \<open>Committed transitions\<close>

text \<open>
  A transition being written: planned from the incident row that is still the stored one, a run
  row of the same version, and postmortem tables that have only grown since.
\<close>

definition commit_step ::
  "runtime \<Rightarrow> persist_args \<Rightarrow> incident_record \<Rightarrow> run_record \<Rightarrow> memory_row list \<Rightarrow> store \<Rightarrow> bool" where
  "commit_step rt a i r memories s =
     ((\<exists>dr c sha r0 sx. plan_apply rt dr c sha i r0 sx = Inr a \<and> rr_version r0 = rr_version r \<and>
         extends (postmortem_revisions sx) (postmortem_revisions s) \<and>
         extends (postmortem_reviews sx) (postmortem_reviews s)) \<and>
      get_incident (pa_incident_id a) s = Some i \<and> get_for_incident (pa_run_id a) (pa_incident_id a) s = Some r \<and>
      close_memory a (ed_id (hd (pa_events a))) memories s \<and>
      jsonb_ok (JObj (pa_incident_state a)) \<and> jsonb_ok (JObj (pa_run_state a)) \<and>
      (\<forall>c\<in>set (transition_commits s). \<not> (co_incident_id c = pa_incident_id a \<and> co_command_id c = pa_command_id a)))"

lemma late_persist:
  assumes plan: "plan_apply rt dr c sha i r0 sx = Inr a" and persist: "persist_transition token a s = Inr (result, s')"
    and tables: "postmortem_revisions sx = postmortem_revisions s1" "postmortem_reviews sx = postmortem_reviews s1"
    and hist: "history s1 s" and i: "get_incident (c_incident_id c) s1 = Some i"
  obtains (replayed) "s' = s" and "get_transition (c_incident_id c) (c_command_id c) sha s = Inr (Some result)"
  | (committed) r contexts memories where "commit_step rt a i r memories s" and "s' = written a i r contexts memories s"
    and "result = result_of a i r s"
  using persist
proof (cases rule: persist_transition_Inr)
  case replayed
  then show thesis using plan_apply_identity [OF plan] by (intro that(1)) simp_all
next
  case committed
  note ident = plan_apply_identity [OF plan]
  from committed(5,4) obtain i' r contexts memories where
    w: "get_incident (pa_incident_id a) s = Some i'" "get_for_incident (pa_run_id a) (pa_incident_id a) s = Some r"
      "ir_version i' = pa_expected_incident_version a" "rr_version r = pa_expected_run_version a"
      "result = result_of a i' r s" "s' = written a i' r contexts memories s"
      "close_memory a (ed_id (hd (pa_events a))) memories s"
      "\<forall>c\<in>set (transition_commits s). \<not> (co_incident_id c = pa_incident_id a \<and> co_command_id c = pa_command_id a)"
      "jsonb_ok (JObj (pa_incident_state a))" "jsonb_ok (JObj (pa_run_state a))"
    by (rule write_transition_Inr)
  have "incidents_kept s1 s" using hist by (simp add: history_def)
  then obtain i'' where "get_incident (c_incident_id c) s = Some i''" "i'' = i \<or> ir_version i < ir_version i''"
    using i unfolding incidents_kept_def by blast
  then have "i' = i" using w(1,3) ident by auto
  moreover have "extends (postmortem_revisions sx) (postmortem_revisions s)" "extends (postmortem_reviews sx) (postmortem_reviews s)"
    using hist tables by (simp_all add: history_def)
  ultimately have "commit_step rt a i r memories s"
    unfolding commit_step_def using plan w ident by (metis (no_types, lifting))
  with that(2) w \<open>i' = i\<close> show thesis by blast
qed

section \<open>The interface\<close>

text \<open>The tables the transitions do not write: turn contexts, locks, and the postmortems' own.\<close>

definition same_core :: "store \<Rightarrow> store \<Rightarrow> bool" where
  "same_core s s' = (incidents s' = incidents s \<and> runs s' = runs s \<and> decisions s' = decisions s \<and>
     run_events s' = run_events s \<and> snapshots s' = snapshots s \<and> transition_commits s' = transition_commits s \<and>
     incident_memories s' = incident_memories s \<and>
     extends (postmortem_revisions s) (postmortem_revisions s') \<and>
     extends (postmortem_reviews s) (postmortem_reviews s'))"

definition recordable :: "event_draft list \<Rightarrow> bool" where
  "recordable events = (\<forall>e\<in>set events. ed_kind e \<in> set DISPATCH_EVENTS \<union> set RECORDED_EVENTS)"

lemma incidents_kept_found: "incidents_kept s s' \<Longrightarrow> get_incident iid s = Some i \<Longrightarrow> get_incident iid s' \<noteq> None"
  unfolding incidents_kept_def by blast

locale store_invariant =
  fixes rt :: runtime and I :: "store \<Rightarrow> bool"
  assumes new_incident: "I s \<Longrightarrow> get_incident (ir_id row) s = None \<Longrightarrow>
      get (ir_state row) ''state'' = JStr ''triage'' \<Longrightarrow> jsonb_ok (JObj (ir_state row)) \<Longrightarrow> ir_version row = 0 \<Longrightarrow>
      I (s\<lparr>incidents := incidents s @ [row]\<rparr>)"
    and new_run: "I s \<Longrightarrow> get_run (rr_id run) s = None \<Longrightarrow> get_incident (rr_incident_id run) s \<noteq> None \<Longrightarrow>
      jsonb_ok (JObj (rr_state run)) \<Longrightarrow> rr_version run = 0 \<Longrightarrow> I (s\<lparr>runs := runs s @ [run]\<rparr>)"
    and transition: "I s \<Longrightarrow> commit_step rt a i r memories s \<Longrightarrow> I (written a i r contexts memories s)"
    and noted: "I s \<Longrightarrow> events \<noteq> [] \<Longrightarrow> recordable events \<Longrightarrow> I (recorded iid rid d events s)"
    and run_patch: "I s \<Longrightarrow> keys_within p RUN_PATCH_FIELDS \<Longrightarrow> jsonb_ok (JObj p) \<Longrightarrow> I (run_patched iid rid (Some p) s)"
    and incident_patch: "I s \<Longrightarrow> keys_exactly p [''hypotheses'', ''evidence''] \<Longrightarrow> jsonb_ok (JObj p) \<Longrightarrow>
      I (incident_patched iid at_time (Some p) s)"
    and side: "I s \<Longrightarrow> same_core s s' \<Longrightarrow> I s'"
begin

lemma persisted:
  assumes "I s" and "plan_apply rt dr c sha i r0 sx = Inr a" and "persist_transition token a s = Inr (result, s')"
    and "postmortem_revisions sx = postmortem_revisions s1" "postmortem_reviews sx = postmortem_reviews s1"
    and "history s1 s" and "get_incident (c_incident_id c) s1 = Some i"
  shows "I s'"
  using late_persist [OF assms(2-7)] transition assms(1) by metis

lemma executes:
  assumes "I s" and "execute rt dr c s = Inr (result, s')"
  shows "I s'"
  using assms(2)
proof (cases rule: execute_Inr)
  case (committed i r a)
  then show ?thesis using persisted [OF assms(1) committed(4,5)] by simp
qed (use assms(1) in simp)

lemma starts_late:
  assumes "I s" and "get_run (d_id dr ''run'') s = None" and "jsonb_ok (JObj (rr_state (opened_run rt dr q i)))"
    and "plan_apply rt dr (start_command q (d_id dr ''run'') retry tid) sha i (opened_run rt dr q i)
      (s1\<lparr>runs := runs s1 @ [opened_run rt dr q i]\<rparr>) = Inr a"
    and "persist_transition token a (s\<lparr>runs := runs s @ [opened_run rt dr q i]\<rparr>) = Inr (result, s')"
    and "history s1 s" and "get_incident (s_incident_id q) s1 = Some i"
  shows "I s'"
proof (rule persisted [OF _ assms(4,5)])
  show "I (s\<lparr>runs := runs s @ [opened_run rt dr q i]\<rparr>)"
    using assms(1-3) incidents_kept_found [OF _ assms(7), of s] assms(6)
    by (intro new_run) (simp_all add: opened_run_def history_def)
  show "history s1 (s\<lparr>runs := runs s @ [opened_run rt dr q i]\<rparr>)"
    using assms(6) history_run history_trans by blast
  show "get_incident (c_incident_id (start_command q (d_id dr ''run'') retry tid)) s1 = Some i"
    using assms(7) by (simp add: start_command_def)
qed simp_all

lemma starts_now:
  assumes "I s" and "start_run rt dr q s = Inr (result, s')"
  shows "I s'"
  using assms(2)
proof (cases rule: start_run_Inr)
  case (committed tid i a)
  then show ?thesis using starts_late [OF assms(1) committed(6,9,7,8)] by simp
qed (use assms(1) in simp)

lemma declares:
  assumes "I s" and "declare_incident rt h td alert digest pr severity impact context responsible has_run_start s = Inr (x, s')"
  shows "I s'"
proof -
  obtain iid run where x: "x = (iid, run)" by (cases x)
  from assms(2) [unfolded x] show ?thesis
  proof (cases rule: declare_incident_Inr)
    case (1 row s1 rrow s2 may_start result s3)
    note i = add_incident_Inr [OF 1(2)] and r = add_run_Inr [OF 1(3)]
    have "I s1" unfolding i(3) by (rule new_incident) (use i(4) in \<open>simp_all add: i(1,2) assms(1) declared_incident_def\<close>)
    then have "I s2" unfolding r(4) by (rule new_run) (use r(2,3,5) in \<open>simp_all add: r(1)\<close>)
    then have "I s3" using executes 1(5) by blast
    then show ?thesis using 1(6,7) starts_now by (cases may_start) blast+
  qed
qed

lemma claims:
  assumes "I s" and "claim_run_dispatch iid rid a u s = Inr (answer, u', s')"
  shows "I s'"
proof -
  have lock: "I (with_lock iid rid s)" by (rule side [OF assms(1)]) (simp add: same_core_def with_lock_def)
  show ?thesis using assms(2)
  proof (cases rule: claim_run_dispatch_Inr)
    case interrupted
    note c = claim_interrupted_Inr [OF interrupted(3)]
    have "I (run_patched iid rid (interrupted_patch a) (with_lock iid rid s))"
      using run_patch [OF lock] lock c(3) by (cases "interrupted_patch a") (simp_all add: run_patched_def)
    then show ?thesis unfolding c(1)
      using c(2) by (intro noted) (auto simp: recordable_def interrupted_events_def)
  next
    case claimed
    then show ?thesis using noted [OF lock] by (simp add: recordable_def)
  qed (simp_all add: lock assms(1))
qed

lemma completes:
  assumes "I s" and "complete_run_dispatch iid rid a s = Inr (done, s')"
  shows "I s'"
  using assms(2)
proof (cases rule: complete_run_dispatch_Inr)
  case (completed i contexts)
  let ?s1 = "incident_patched iid (max_occurred (cp_events a)) (cp_incident_patch a) s"
  let ?s2 = "run_patched iid rid (cp_run_patch a) ?s1"
  have "cp_incident_patch a = Some p \<Longrightarrow> keys_exactly p [''hypotheses'', ''evidence''] \<and> jsonb_ok (JObj p)" for p
    using completed(2) by (auto simp: completable_def Let_def check_incident_patch_def outcome_simps)
  then have "I ?s1" using assms(1) incident_patch by (cases "cp_incident_patch a") (simp_all add: incident_patched_def)
  moreover have "cp_run_patch a = Some p \<Longrightarrow> keys_within p RUN_PATCH_FIELDS \<and> jsonb_ok (JObj p)" for p
    using completed(2) by (auto simp: completable_def Let_def)
  ultimately have "I ?s2" using run_patch by (cases "cp_run_patch a") (simp_all add: run_patched_def)
  then have "I (?s2\<lparr>text_context := text_context s @ contexts\<rparr>)" by (rule side) (simp add: same_core_def)
  moreover have "cp_events a \<noteq> []" using completed(2) by (auto simp: completable_def Let_def drafted_receipts_def)
  ultimately show ?thesis unfolding completed(7) using completed(6) by (intro noted) (auto simp: recordable_def)
qed (use assms(1) in simp)

theorem reaches: "reach rt s0 s \<Longrightarrow> I s0 \<Longrightarrow> I s"
proof (induction rule: reach.induct)
  case (executed s0 s1 s c i r dr a result s')
  then show ?case using persisted [OF _ executed.hyps(5,6) refl refl reach_history executed.hyps(3)] by simp
next
  case (started s0 s1 s q i dr tid a result s')
  then show ?case using starts_late [OF _ started.hyps(5,6,8,9) reach_history started.hyps(3)] by blast
next
  case (refused s0 s dr iid rid actor reason request denial u s')
  then obtain d events stored where "record_run_events iid rid d events s = Inr (stored, s')" "events \<noteq> []"
    by (auto simp: record_refusal_def outcome_simps)
  then show ?case using refused noted record_run_events_Inr(1,2) by (metis UnI2 recordable_def)
next
  case (released s0 s iid rid u u' s')
  then show ?case by (intro side [of s s']) (auto simp: same_core_def release_run_dispatch_def outcome_simps split: option.splits)
next
  case (saved s0 s pid iid expected content run_ids actor now v s')
  then show ?case by (intro side [of s s']) (auto elim!: save_postmortem_Inr simp: same_core_def)
next
  case (reviewed s0 s pid version outcome reviewer comment now s')
  then show ?case
    by (intro side [of s s']) (simp_all add: same_core_def review_postmortem_Inr(1) [OF reviewed.hyps(2)])
qed (auto intro: declares claims completes)

end

end
