(* ===== verification/Progress.thy ===== *)
theory Progress
  imports Commits
begin

text \<open>
  An enabled command commits: when nothing was committed under its key, the rows are at the
  versions it was planned on, its documents can be stored and its identifiers are new, the write
  of a transition returns, with exactly the rows of its normal form. A concrete runtime, store
  and command on which the operations run follow; the later theories use them as examples.
\<close>

section \<open>Writes that succeed\<close>

lemma jsonb_stores: "jsonb_ok (JObj d) \<Longrightarrow> jsonb d = Inr d"
  by (simp add: jsonb_def)

definition storable_draft :: "event_draft \<Rightarrow> bool" where
  "storable_draft d = (jsonb_ok (JObj (ed_payload d)) \<and> fits 64 (ed_id d) \<and> fits 64 (ed_kind d) \<and>
     fits_opt 64 (ed_turn_id d))"

lemma insert_events_succeeds:
  assumes "list_all storable_draft ds" and "distinct (map ed_id ds)"
    and "\<forall>e\<in>set (run_events s). ev_id e \<notin> ed_id ` set ds"
    and "\<forall>e\<in>set (run_events s). ev_run_id e = rid \<longrightarrow> ev_sequence e < seq" and "0 \<le> seq"
    and "get_for_incident rid iid s = Some r"
  shows "insert_events iid rid seq ds s =
    Inr (event_rows iid rid seq ds, s\<lparr>run_events := run_events s @ event_rows iid rid seq ds\<rparr>)"
  using assms
proof (induction ds arbitrary: seq s)
  case (Cons d ds)
  let ?s1 = "s\<lparr>run_events := run_events s @ [event_row iid rid seq d]\<rparr>"
  have fresh: "(\<exists>e\<in>set (run_events s). ev_id e = ed_id d \<or> ev_run_id e = rid \<and> ev_sequence e = seq) = False"
    using Cons.prems(3,4) by (auto dest: bspec)
  have "insert_event iid rid seq d s = Inr (event_row iid rid seq d, ?s1)"
    unfolding insert_event_def fresh using Cons.prems(1,5,6)
    by (simp add: storable_draft_def jsonb_stores Let_def event_row_def)
  moreover have "insert_events iid rid (seq + 1) ds ?s1 = Inr (event_rows iid rid (seq + 1) ds,
      ?s1\<lparr>run_events := run_events ?s1 @ event_rows iid rid (seq + 1) ds\<rparr>)"
    using Cons.prems by (intro Cons.IH) (auto simp: get_for_incident_def)
  ultimately show ?case by simp
qed simp

lemma foldl_max_ge: "(x::int) \<le> foldl max x ys \<and> (\<forall>y\<in>set ys. y \<le> foldl max x ys)"
proof (induction ys arbitrary: x)
  case (Cons y ys)
  have "max x y \<le> foldl max (max x y) ys" "\<forall>z\<in>set ys. z \<le> foldl max (max x y) ys"
    using Cons [of "max x y"] by blast+
  then show ?case by auto
qed simp

lemma last_sequence_ge:
  "-1 \<le> last_sequence rid s" "e \<in> set (run_events s) \<Longrightarrow> ev_run_id e = rid \<Longrightarrow> ev_sequence e \<le> last_sequence rid s"
  using foldl_max_ge [of "-1" "map ev_sequence (filter (\<lambda>e. ev_run_id e = rid) (run_events s))"]
  by (auto simp: last_sequence_def)

definition committable :: "persist_args \<Rightarrow> incident_record \<Rightarrow> run_record \<Rightarrow> store \<Rightarrow> bool" where
  "committable a i r s =
     (let d = pa_decision a; iid = pa_incident_id a; rid = pa_run_id a
      in get_transition iid (pa_command_id a) (pa_payload_sha256 a) s = Inr None \<and>
         check_persist a = Inr () \<and> check_dispatch a s = Inr () \<and>
         get_incident iid s = Some i \<and> ir_version i = pa_expected_incident_version a \<and>
         get_for_incident rid iid s = Some r \<and> rr_version r = pa_expected_run_version a \<and>
         0 \<le> rr_version r \<and> ir_created_at i \<le> dd_decided_at d \<and> rr_created_at r \<le> dd_decided_at d \<and>
         jsonb_ok (JObj (pa_incident_state a)) \<and> jsonb_ok (JObj (pa_run_state a)) \<and>
         jsonb_ok (JObj (dd_document d)) \<and> jsonb_ok (JObj (encode_result (result_of a i r s))) \<and>
         fits 64 (dd_id d) \<and> fits_opt 64 (dd_turn_id d) \<and> fits 128 (pa_command_id a) \<and>
         get_decision (dd_id d) s = None \<and> dd_run_id d = Some rid \<and>
         list_all storable_draft (pa_events a) \<and> distinct (map ed_id (pa_events a)) \<and>
         (\<forall>e\<in>set (run_events s). ev_id e \<notin> ed_id ` set (pa_events a)) \<and>
         pa_contexts a = [] \<and>
         (case pa_snapshot a of None \<Rightarrow> True
          | Some n \<Rightarrow> fits 64 (sd_id n) \<and> (\<forall>x\<in>set (snapshots s). sn_id x \<noteq> sd_id n \<and>
              (sn_run_id x = rid \<longrightarrow> sn_version x \<noteq> rr_version r + 1 \<and>
                 sn_event_sequence x \<noteq> ev_sequence (last (stored_events a s))))) \<and>
         \<not> closing a)"

lemma select_one_update_row:
  assumes "select_one p rows = Some x" and "\<And>y. p (f y) = p y"
  shows "select_one p (update_where p f rows) = Some (f x)"
  using assms by (simp add: select_one_update_where)

lemma last_event_rows:
  "ds \<noteq> [] \<Longrightarrow> seq \<le> ev_sequence (last (event_rows iid rid seq ds))"
proof -
  assume "ds \<noteq> []"
  then have "event_rows iid rid seq ds \<noteq> []" by (cases ds) simp_all
  then have "ev_sequence (last (event_rows iid rid seq ds)) = last (map ev_sequence (event_rows iid rid seq ds))"
    by (simp add: last_map)
  also have "\<dots> = seq + int (length ds - 1)"
    using \<open>ds \<noteq> []\<close> by (simp add: event_rows_sequences last_map)
  finally show ?thesis by simp
qed

lemma write_succeeds:
  assumes "committable a i r s"
  shows "write_transition token a s = Inr (result_of a i r s, written a i r [] [] s)"
proof -
  let ?iid = "pa_incident_id a" and ?rid = "pa_run_id a" and ?d = "pa_decision a"
  let ?now = "dd_decided_at ?d"
  note c = assms [unfolded committable_def Let_def]
  have ne: "pa_events a \<noteq> []" using c by (simp add: check_persist_def outcome_simps)
  define s1 where "s1 = s\<lparr>incidents := update_where (\<lambda>x. ir_id x = ?iid)
       (\<lambda>x. x\<lparr>ir_state := pa_incident_state a, ir_version := ir_version x + 1, ir_updated_at := ?now\<rparr>) (incidents s)\<rparr>"
  define s2 where "s2 = s1\<lparr>runs := update_where (\<lambda>x. rr_id x = ?rid \<and> rr_incident_id x = ?iid)
       (\<lambda>x. x\<lparr>rr_state := pa_run_state a, rr_version := rr_version x + 1, rr_updated_at := ?now\<rparr>) (runs s)\<rparr>"
  define s3 where "s3 = s2\<lparr>decisions := decisions s @ [decision_row ?iid (Some ?rid) ?d]\<rparr>"
  define s4 where "s4 = s3\<lparr>run_events := run_events s @ stored_events a s\<rparr>"
  define s6 where "s6 = s4\<lparr>snapshots := snapshots s @ stored_snapshot a s\<rparr>"
  have inc: "update_incident ?iid (pa_expected_incident_version a) (pa_incident_state a) ?now s = Inr (Some (next_incident a i), s1)"
    using c by (simp add: update_incident_def jsonb_stores Let_def next_incident_def s1_def not_less)
  have "get_for_incident ?rid ?iid s1 = Some r" using c by (simp add: s1_def get_for_incident_def)
  then have run: "update_run ?rid ?iid (pa_expected_run_version a) (pa_run_state a) ?now s1 = Inr (Some (next_run a r), s2)"
    using c by (simp add: update_run_def jsonb_stores Let_def next_run_def s2_def s1_def not_less)
  obtain i2 r2 where get: "get_incident ?iid s2 = Some i2" "get_for_incident ?rid ?iid s2 = Some r2"
    using c by (simp add: get_incident_def get_for_incident_def s2_def s1_def select_one_update_where)
  have dec: "insert_decision ?iid (Some ?rid) ?d s2 = Inr s3"
    using c get unfolding insert_decision_def
    by (simp add: jsonb_stores decision_row_def s3_def get_decision_def) (simp add: s2_def s1_def)
  have frame: "run_events s3 = run_events s" "snapshots s3 = snapshots s" "transition_commits s3 = transition_commits s"
      "incident_memories s3 = incident_memories s" "text_context s3 = text_context s"
    by (simp_all add: s3_def s2_def s1_def)
  have "get_for_incident ?rid ?iid s3 = Some r2" using get(2) by (simp add: s3_def get_for_incident_def)
  then have evs: "insert_events ?iid ?rid (last_sequence ?rid s3 + 1) (pa_events a) s3 = Inr (stored_events a s, s4)"
    using c last_sequence_ge [where s = s3 and rid = ?rid]
    by (subst insert_events_succeeds)
       (auto simp: frame stored_events_def s4_def last_sequence_cong [OF frame(1)] zless_add1_eq dest: le_imp_less_or_eq)
  have stored: "stored_events a s \<noteq> []" using ne by (cases "pa_events a") (simp_all add: stored_events_def)
  have seq: "0 \<le> ev_sequence (last (stored_events a s))"
    unfolding stored_events_def using last_event_rows [OF ne] last_sequence_ge(1) [of ?rid s] by (smt (verit))
  have ver: "rr_version (next_run a r) = pa_expected_run_version a + 1" by (simp add: next_run_def)
  have run4: "get_for_incident ?rid ?iid s4 = Some r2" using get(2) by (simp add: s4_def s3_def get_for_incident_def)
  have nosnap: "(\<exists>n\<in>set (snapshots s4). sn_id n = sd_id d \<or> (sn_run_id n = ?rid \<and>
      (sn_version n = pa_expected_run_version a + 1 \<or> sn_event_sequence n = ev_sequence (last (stored_events a s))))) = False"
    if "pa_snapshot a = Some d" for d
    using c that frame(2) by (auto simp: s4_def)
  have snap: "append_snapshot ?iid ?rid (rr_version (next_run a r)) (ev_sequence (last (stored_events a s))) (pa_snapshot a) s4 =
      Inr (case stored_snapshot a s of [] \<Rightarrow> None | n # _ \<Rightarrow> Some n, s6)"
  proof (cases "pa_snapshot a")
    case None
    then show ?thesis
      using frame(2) by (simp add: append_snapshot_def stored_snapshot_def snapshot_rows_def s6_def s4_def)
  next
    case (Some d)
    have "sd_incident_state d = pa_incident_state a" "sd_run_state d = pa_run_state a" "fits 64 (sd_id d)"
      using c Some by (auto simp: check_persist_def outcome_simps)
    moreover have "0 \<le> pa_expected_run_version a" using c by simp
    ultimately show ?thesis
      unfolding ver append_snapshot_def Some option.case nosnap [OF Some]
      using c seq frame(2) run4
      by (simp add: Some stored_snapshot_def snapshot_rows_def jsonb_stores s6_def Let_def) (simp add: s4_def)
  qed
  have inc6: "get_incident ?iid s6 = Some i2" using get(1) by (simp add: s6_def s4_def s3_def get_incident_def)
  have commits6: "transition_commits s6 = transition_commits s" using frame(3) by (simp add: s6_def s4_def)
  have nocommit: "(\<exists>x\<in>set (transition_commits s6). co_incident_id x = ?iid \<and> co_command_id x = pa_command_id a) = False"
    using c by (simp add: get_transition_None command_row_def select_one_None commits6)
  have com: "insert_commit a (result_of a i r s) ?now s6 =
      Inr (s6\<lparr>transition_commits := transition_commits s @ [commit_of a (result_of a i r s) ?now]\<rparr>)"
    unfolding insert_commit_def nocommit using c inc6 by (simp add: jsonb_stores commit_of_def commits6)
  have mem: "remember_close token a x ?now y = Inr y" for x y
    using c by (auto simp: remember_close_def closing_def Let_def)
  have ctx: "append_contexts ?iid ?rid (pa_contexts a) s4 = Inr s4"
    using c by (simp add: append_contexts_def)
  have res: "\<lparr>tr_incident = next_incident a i, tr_run = next_run a r, tr_events = stored_events a s,
      tr_snapshot = (case stored_snapshot a s of [] \<Rightarrow> None | n # _ \<Rightarrow> Some n), tr_replayed = False\<rparr> = result_of a i r s"
    by (simp add: result_of_def)
  have run_id: "dd_run_id ?d = Some ?rid" using c by simp
  show ?thesis
    by (simp add: write_transition_def Let_def inc run run_id dec evs ctx stored snap res com mem)
       (simp add: written_def s6_def s4_def s3_def s2_def s1_def run_id)
qed

lemma persist_succeeds:
  assumes "committable a i r s"
  shows "persist_transition token a s = Inr (result_of a i r s, written a i r [] [] s)"
  using assms write_succeeds [OF assms] by (simp add: persist_transition_def committable_def Let_def)

section \<open>A concrete command\<close>

lemma fits_length: "length s \<le> n \<Longrightarrow> fits n s"
proof -
  have "length (utf8_decode s) \<le> length s"
  proof (induction s rule: utf8_decode.induct)
    case (2 c cs)
    have "length (utf8_decode (drop (utf8_rest (of_char c)) cs)) \<le> length cs - utf8_rest (of_char c)"
      using 2 [OF refl refl] by simp
    then show ?case by (simp add: Let_def)
  qed simp
  then show "length s \<le> n \<Longrightarrow> fits n s" by (simp add: fits_def py_len_def)
qed

definition example_runtime :: runtime where
  "example_runtime = \<lparr>rt_workflow = incident_response, rt_snapshot_interval = 10,
     rt_digest = (\<lambda>d. if get d ''transition_id'' = JStr ''open_triage'' then replicate 64 CHR ''a''
                      else replicate 64 CHR ''b'')\<rparr>"

definition example_draws :: draws where
  "example_draws = \<lparr>d_now = sample_time, d_id = (\<lambda>prefix. prefix @ ''_0001''), d_token = ''0123''\<rparr>"

definition ana :: actor_reference where
  "ana = \<lparr>ar_principal_id = ''ana_ops'', ar_display_name = None, ar_reference_version = ''1.0.0''\<rparr>"

definition open_command :: incident_command where
  "open_command = \<lparr>c_command_id = ''cmd_1'', c_incident_id = ''inc_1'', c_run_id = ''run_1'',
     c_transition_id = ''open_triage'', c_actor = ''human'', c_actor_reference = Some ana, c_outcome = None,
     c_approval = False, c_expected_incident_version = None, c_dispatch_id = None, c_turn_id = None,
     c_inputs = None, c_extra_events = [], c_contexts = [], c_execution = None\<rparr>"

definition example_incident :: incident_record where
  "example_incident = \<lparr>ir_id = ''inc_1'', ir_state = dict [(''workflow_id'', JStr ''incident-response''),
     (''workflow_version'', JStr ''1.0.0''), (''state'', JStr ''detected'')], ir_version = 0,
     ir_created_at = sample_time, ir_updated_at = sample_time\<rparr>"

definition example_run :: run_record where
  "example_run = \<lparr>rr_id = ''run_1'', rr_incident_id = ''inc_1'', rr_state = dict [(''workflow_version'', JStr ''1.0.0''),
     (''current_state'', JStr ''detected''), (''status'', JStr ''running'')], rr_version = 0,
     rr_created_at = sample_time, rr_updated_at = sample_time\<rparr>"

definition example_store :: store where
  "example_store = empty_store\<lparr>incidents := [example_incident], runs := [example_run]\<rparr>"

lemmas check_simps = assert_supported_state_def validate_def check_actor_def identifier_pattern_def class_run_def
  slug_char_def lower_digit_def less_eq_char_def check_review_def check_outcome_def
  validate_named_preconditions_def check_triage_def check_budget_def check_proposal_def check_artifacts_def

lemmas reduce_simps = reduce_def reduce_incident_def reduce_patch_def inputs_of_def getd_def keys_within_def
  patchable_by_transition_def reduce_identity_def DECLARED_STATES_def reduce_triage_def reduce_mitigation_def
  validate_result_def py_or_def decision_document_def approval_record_def reduce_run_def decided_outcome_def

definition open_triage_edge :: transition where
  "open_triage_edge = \<lparr>t_id = ''open_triage'', t_source = ''detected'',
     t_target = ''triage'', t_actors = {''human'', ''system''}, t_requires_approval = False, t_decision_point = None,
     t_outcomes = [], t_records_decision = False, t_records_approval = False\<rparr>"

lemma find_open_triage: "workflow_transition incident_response ''open_triage'' = Inr open_triage_edge"
  by (simp add: workflow_transition_def pinned_lookup pinned_simps open_triage_edge_def)

lemma example_rows:
  "get_incident ''inc_1'' example_store = Some example_incident"
  "get_for_incident ''run_1'' ''inc_1'' example_store = Some example_run"
  "get_transition iid cid sha example_store = Inr None" "latest_snapshot rid example_store = None"
  "decisions example_store = []" "run_events example_store = []" "snapshots example_store = []"
  by (simp_all add: example_store_def empty_store_def get_incident_def get_for_incident_def get_transition_def
      select_one_def example_incident_def example_run_def latest_snapshot_def)

text \<open>The write \<open>open_command\<close> plans, up to the documents it stores.\<close>

definition example_args :: "string \<Rightarrow> dict \<Rightarrow> dict \<Rightarrow> dict \<Rightarrow> persist_args" where
  "example_args sha istate rstate document =
     \<lparr>pa_command_id = ''cmd_1'', pa_payload_sha256 = sha, pa_incident_id = ''inc_1'', pa_run_id = ''run_1'',
      pa_expected_incident_version = 0, pa_expected_run_version = 0, pa_incident_state = istate, pa_run_state = rstate,
      pa_decision = \<lparr>dd_id = ''dec_0001'', dd_document = document, dd_decided_at = sample_time,
        dd_run_id = Some ''run_1'', dd_turn_id = None\<rparr>,
      pa_events = [\<lparr>ed_id = ''evt_0001'', ed_kind = ''state_change'',
        ed_payload = dict [(''workflow_id'', JStr ''incident-response''), (''workflow_version'', JStr ''1.0.0''),
          (''transition_id'', JStr ''open_triage''), (''from'', JStr ''detected''), (''to'', JStr ''triage''),
          (''incident_state'', JObj istate), (''run_state'', JObj rstate), (''decision_id'', JStr ''dec_0001'')],
        ed_occurred_at = sample_time, ed_turn_id = None\<rparr>],
      pa_snapshot = Some \<lparr>sd_id = ''snap_0001'', sd_incident_state = istate, sd_run_state = rstate,
        sd_created_at = sample_time\<rparr>,
      pa_dispatch_id = None, pa_contexts = []\<rparr>"

lemma pad_no_nul: "CHR 0x00 \<notin> set (pad n k)"
proof (induction n arbitrary: k)
  case (Suc n)
  have "of_char (CHR 0x00) = (0::nat)" by simp
  then have "CHR 0x00 \<noteq> digit_char (k mod 10)"
    using of_char_digit_char [of "k mod 10"] by (metis add_is_0 mod_less_divisor zero_less_numeral zero_neq_numeral)
  with Suc show ?case by simp
qed simp

lemma isoformat_no_nul [simp]: "CHR 0x00 \<notin> set (isoformat t)"
  using pad_no_nul by (simp add: isoformat_def)

lemma example_checks:
  "assert_supported_state incident_response (ir_state example_incident) (rr_state example_run) = Inr ()"
  "validate open_command open_triage_edge (ir_state example_incident) v = Inr ()"
  by (simp_all add: check_simps example_incident_def example_run_def incident_response_states_def ana_def
      open_command_def open_triage_edge_def Let_def inputs_of_def)

lemma example_reduce:
  obtains istate rstate where "reduce incident_response example_draws open_command open_triage_edge
      (ir_state example_incident) (rr_state example_run) = Inr (istate, rstate)"
    and "jsonb_ok (JObj istate)" "jsonb_ok (JObj rstate)"
  by (simp add: reduce_simps returns_to_investigation_def Let_def open_command_def open_triage_edge_def example_incident_def example_run_def
      jsonb_ok_upd)

lemma example_document:
  obtains document where "decision_document incident_response example_draws open_command open_triage_edge state None =
      Inr document" and "jsonb_ok (JObj document)" "get document ''transition_id'' = JStr ''open_triage''"
  by (simp add: reduce_simps Let_def open_command_def open_triage_edge_def ana_def actor_json_def actor_dict_def
      jsonb_ok_upd)

lemma example_plan:
  obtains istate rstate document where
    "plan_apply example_runtime example_draws open_command sha example_incident example_run example_store =
       Inr (example_args sha istate rstate document)"
    and "jsonb_ok (JObj istate)" "jsonb_ok (JObj rstate)" "jsonb_ok (JObj document)"
    and "get document ''transition_id'' = JStr ''open_triage''"
proof -
  obtain istate rstate where r: "reduce incident_response example_draws open_command open_triage_edge
      (ir_state example_incident) (rr_state example_run) = Inr (istate, rstate)"
      "jsonb_ok (JObj istate)" "jsonb_ok (JObj rstate)" by (rule example_reduce)
  obtain document where d: "decision_document incident_response example_draws open_command open_triage_edge
      (ir_state example_incident) None = Inr document" "jsonb_ok (JObj document)"
      "get document ''transition_id'' = JStr ''open_triage''" by (rule example_document)
  have edge: "t_id open_triage_edge = ''open_triage''" "t_source open_triage_edge = ''detected''"
    "t_target open_triage_edge = ''triage''" by (simp_all add: open_triage_edge_def)
  have c: "c_transition_id open_command = ''open_triage''" "c_command_id open_command = ''cmd_1''"
    "c_incident_id open_command = ''inc_1''" "c_run_id open_command = ''run_1''" "c_turn_id open_command = None"
    "c_extra_events open_command = []" "c_dispatch_id open_command = None" "c_contexts open_command = []"
    by (simp_all add: open_command_def)
  have "plan_apply example_runtime example_draws open_command sha example_incident example_run example_store =
       Inr (example_args sha istate rstate document)"
    by (simp add: plan_apply_def example_runtime_def c find_open_triage example_checks edge r(1) d(1) Let_def)
       (simp add: example_rows example_args_def example_draws_def state_change_event_def edge c
          example_incident_def example_run_def)
  with r d that show thesis by blast
qed

lemma example_encoded:
  assumes "jsonb_ok (JObj istate)" "jsonb_ok (JObj rstate)"
  shows "jsonb_ok (JObj (encode_result (result_of (example_args sha istate rstate document)
    example_incident example_run example_store)))"
  using assms
  by (simp add: encode_result_def result_of_def next_incident_def next_run_def stored_events_def stored_snapshot_def
      snapshot_rows_def example_args_def example_incident_def example_run_def encode_incident_def encode_run_def
      encode_event_def encode_snapshot_def event_row_def jsonb_ok_upd)

lemma example_committable:
  assumes "sha256_hex sha" and "jsonb_ok (JObj istate)" "jsonb_ok (JObj rstate)" "jsonb_ok (JObj document)"
    and "get document ''transition_id'' = JStr ''open_triage''"
  shows "committable (example_args sha istate rstate document) example_incident example_run example_store"
proof -
  have times: "ir_version example_incident = 0" "rr_version example_run = 0"
    "ir_created_at example_incident = sample_time" "rr_created_at example_run = sample_time"
    by (simp_all add: example_incident_def example_run_def)
  show ?thesis
    using assms example_encoded [OF assms(2,3), of sha document]
    by (simp add: committable_def Let_def)
       (simp add: example_args_def example_rows times check_persist_def check_dispatch_def closing_def
         storable_draft_def fits_length fits_opt_def get_decision_def select_one_def jsonb_ok_upd)
qed

lemma example_sha: "sha256_hex (rt_digest example_runtime (command_payload open_command))"
  by (simp add: example_runtime_def sha256_hex_def hex_char_def list_all_iff less_eq_char_def)

lemma example_executes:
  obtains r s' where "execute example_runtime example_draws open_command example_store = Inr (r, s')"
    and "command_lookup example_runtime open_command example_store = Inr None" and "valid_result r"
    and "\<not> tr_replayed r" and "get_incident ''inc_1'' s' = Some (tr_incident r)" and "ir_version (tr_incident r) = 1"
    and "length (snapshots s') = 1" and "length (run_events s') = 1" and "map co_command_id (transition_commits s') = [''cmd_1'']"
proof -
  let ?sha = "rt_digest example_runtime (command_payload open_command)"
  obtain istate rstate document where p: "plan_apply example_runtime example_draws open_command ?sha
      example_incident example_run example_store = Inr (example_args ?sha istate rstate document)"
    and ok: "jsonb_ok (JObj istate)" "jsonb_ok (JObj rstate)" "jsonb_ok (JObj document)"
      "get document ''transition_id'' = JStr ''open_triage''" by (rule example_plan)
  let ?a = "example_args ?sha istate rstate document"
  let ?r = "result_of ?a example_incident example_run example_store"
  have id: "c_command_id open_command = ''cmd_1''" "c_incident_id open_command = ''inc_1''" "c_run_id open_command = ''run_1''"
    by (simp_all add: open_command_def)
  have "execute example_runtime example_draws open_command example_store =
      Inr (?r, written ?a example_incident example_run [] [] example_store)"
    using p persist_succeeds [OF example_committable [OF example_sha ok]]
    by (simp add: execute_def Let_def id example_rows apply_command_def)
  moreover have "valid_result ?r"
    by (simp add: valid_result_def valid_incident_def valid_run_def result_of_def next_incident_def next_run_def
        stored_events_def stored_snapshot_def snapshot_rows_def example_args_def example_incident_def example_run_def)
  moreover have "get_incident ''inc_1'' (written ?a example_incident example_run [] [] example_store) = Some (tr_incident ?r)"
      "ir_version (tr_incident ?r) = 1"
    by (simp_all add: written_def get_incident_def select_one_def update_where_def result_of_def next_incident_def
        example_store_def example_incident_def example_args_def)
  moreover have "length (snapshots (written ?a example_incident example_run [] [] example_store)) = 1"
      "length (run_events (written ?a example_incident example_run [] [] example_store)) = 1"
      "map co_command_id (transition_commits (written ?a example_incident example_run [] [] example_store)) = [''cmd_1'']"
    by (simp_all add: written_def example_rows stored_snapshot_def snapshot_rows_def stored_events_def commit_of_def)
       (simp_all add: example_args_def example_store_def empty_store_def)
  ultimately show thesis
    using that by (simp add: command_lookup_def example_rows) (simp add: result_of_def)
qed

end
