(* ===== verification/Soundness.thy ===== *)
theory Soundness
  imports Invariants Progress
begin

text \<open>
  The type invariant of the incidents, runs and snapshots, kept by everything the program does:
  the identities of incidents and of runs are unique, every run belongs to a stored incident, the states
  of incidents and runs are documents PostgreSQL stores, their versions are not negative, and a
  snapshot never runs ahead of the run and the log it was taken of. It says nothing of the documents of
  decisions, events, commits and turn contexts. Beside it, the sequence numbers of every run's log
  are 0, 1, 2, ...
\<close>

section \<open>The invariant\<close>

definition sound_incident :: "incident_record \<Rightarrow> bool" where
  "sound_incident i = (jsonb_ok (JObj (ir_state i)) \<and> 0 \<le> ir_version i)"

definition sound_run :: "store \<Rightarrow> run_record \<Rightarrow> bool" where
  "sound_run s r = (jsonb_ok (JObj (rr_state r)) \<and> 0 \<le> rr_version r \<and> get_incident (rr_incident_id r) s \<noteq> None)"

definition sound_snapshot :: "store \<Rightarrow> snapshot_record \<Rightarrow> bool" where
  "sound_snapshot s n = (sn_event_sequence n \<le> last_sequence (sn_run_id n) s \<and>
     (\<exists>r\<in>set (runs s). rr_id r = sn_run_id n \<and> sn_version n \<le> rr_version r))"

definition sound_store :: "store \<Rightarrow> bool" where
  "sound_store s =
     (distinct (map ir_id (incidents s)) \<and> distinct (map rr_id (runs s)) \<and>
      list_all sound_incident (incidents s) \<and> list_all (sound_run s) (runs s) \<and>
      list_all (sound_snapshot s) (snapshots s))"

lemma sound_incidentD: "sound_store s \<Longrightarrow> get_incident iid s = Some i \<Longrightarrow> sound_incident i"
  unfolding get_incident_def by (drule select_one_Some) (simp add: sound_store_def list_all_iff)

lemma sound_runD: "sound_store s \<Longrightarrow> get_for_incident rid iid s = Some r \<Longrightarrow> sound_run s r"
  unfolding get_for_incident_def by (drule select_one_Some) (simp add: sound_store_def list_all_iff)

section \<open>What the steps keep\<close>

lemma last_sequence_extends:
  assumes "run_events s' = run_events s @ new"
  shows "last_sequence rid s \<le> last_sequence rid s'"
proof -
  have "foldl max (-1) xs \<le> foldl max (-1::int) (xs @ ys)" for xs ys
    using foldl_max_ge [of "foldl max (-1) xs" ys] by simp
  then show ?thesis by (simp add: last_sequence_def assms)
qed

text \<open>Rewriting rows that keep their identity and do not lower their version.\<close>

lemma sound_rewrite:
  assumes "sound_store s"
    and inc: "incidents s' = map f (incidents s)" "\<And>i. ir_id (f i) = ir_id i"
      "\<And>i. i \<in> set (incidents s) \<Longrightarrow> sound_incident i \<Longrightarrow> sound_incident (f i)"
    and run: "runs s' = map g (runs s)" "\<And>r. rr_id (g r) = rr_id r" "\<And>r. rr_incident_id (g r) = rr_incident_id r"
      "\<And>r. rr_version r \<le> rr_version (g r)" "\<And>r. jsonb_ok (JObj (rr_state r)) \<Longrightarrow> jsonb_ok (JObj (rr_state (g r)))"
    and ev: "run_events s' = run_events s @ new"
    and sn: "snapshots s' = snapshots s @ rows" "list_all (sound_snapshot s') rows"
  shows "sound_store s'"
proof -
  have ids: "map ir_id (incidents s') = map ir_id (incidents s)" "map rr_id (runs s') = map rr_id (runs s)"
    by (simp_all add: inc run)
  have known: "get_incident iid s' \<noteq> None" if "get_incident iid s \<noteq> None" for iid
    using that by (auto simp: get_incident_def select_one_None inc)
  have "list_all (sound_run s') (runs s')"
    using assms(1) run(3-5) known
    by (auto simp: sound_store_def list_all_iff run(1) sound_run_def) (meson order_trans)
  moreover have "list_all (sound_snapshot s') (snapshots s)"
    using assms(1) last_sequence_extends [OF ev] run(2,4)
    by (auto simp: sound_store_def list_all_iff sound_snapshot_def run(1)) (meson order_trans)+
  moreover have "list_all sound_incident (incidents s')"
    using assms(1) inc(3) by (auto simp: sound_store_def list_all_iff inc(1))
  ultimately show ?thesis
    using assms(1) sn unfolding sound_store_def ids by simp
qed

lemma update_where_map: "update_where p f rows = map (\<lambda>r. if p r then f r else r) rows"
  by (simp add: update_where_def)

lemma sound_new_incident:
  assumes "sound_store s" and "get_incident (ir_id row) s = None" and "sound_incident row"
  shows "sound_store (s\<lparr>incidents := incidents s @ [row]\<rparr>)"
proof -
  have "get_incident iid s \<noteq> None \<Longrightarrow> get_incident iid (s\<lparr>incidents := incidents s @ [row]\<rparr>) \<noteq> None" for iid
    by (auto simp: get_incident_def select_one_None)
  then show ?thesis
    using assms
    by (auto simp: sound_store_def list_all_iff sound_run_def sound_snapshot_def last_sequence_def
        get_incident_def [of "ir_id row"] select_one_None)
qed

lemma sound_new_run:
  assumes "sound_store s" and "get_run (rr_id run) s = None" and "sound_run s run"
  shows "sound_store (s\<lparr>runs := runs s @ [run]\<rparr>)"
  using assms
  by (auto simp: sound_store_def list_all_iff sound_run_def sound_snapshot_def last_sequence_def get_incident_def
      get_run_def select_one_None)

lemma sound_written:
  assumes "sound_store s" and "commit_step rt a i r memories s"
  shows "sound_store (written a i r contexts memories s)"
proof -
  let ?s' = "written a i r contexts memories s"
  obtain dr c sha r0 sx where plan: "plan_apply rt dr c sha i r0 sx = Inr a" and v: "rr_version r0 = rr_version r"
    and found: "get_for_incident (pa_run_id a) (pa_incident_id a) s = Some r"
    and ok: "jsonb_ok (JObj (pa_incident_state a))" "jsonb_ok (JObj (pa_run_state a))"
    using assms(2) unfolding commit_step_def by blast
  have r: "r \<in> set (runs s)" "rr_id r = pa_run_id a" "rr_incident_id r = pa_incident_id a"
    using select_one_Some [OF found [unfolded get_for_incident_def]] by auto
  have "stored_events a s \<noteq> []"
    using plan_apply_identity(7) [OF plan] by (cases "pa_events a") (simp_all add: stored_events_def)
  then have l: "last (stored_events a s) \<in> set (run_events ?s')" by (simp add: written_def)
  have "ev_run_id (last (stored_events a s)) = pa_run_id a"
    using \<open>stored_events a s \<noteq> []\<close> event_rows_in [of "last (stored_events a s)"] last_in_set
    unfolding stored_events_def by fastforce
  then have seq: "ev_sequence (last (stored_events a s)) \<le> last_sequence (pa_run_id a) ?s'"
    using last_sequence_ge(2) [OF l] by simp
  let ?r' = "r\<lparr>rr_state := pa_run_state a, rr_version := rr_version r + 1, rr_updated_at := dd_decided_at (pa_decision a)\<rparr>"
  have "?r' \<in> set (runs ?s')" using r by (auto simp: written_def set_update_where)
  then have "\<exists>x\<in>set (runs ?s'). rr_id x = pa_run_id a \<and> pa_expected_run_version a + 1 \<le> rr_version x"
    using plan_apply_identity(6) [OF plan] v r by (intro bexI [of _ ?r']) simp_all
  then have rows: "list_all (sound_snapshot ?s') (stored_snapshot a s)"
    using seq by (simp add: stored_snapshot_def snapshot_rows_def sound_snapshot_def split: option.splits)
  define s' where "s' = ?s'"
  have frame: "incidents s' = map (\<lambda>x. if ir_id x = pa_incident_id a then x\<lparr>ir_state := pa_incident_state a,
        ir_version := ir_version x + 1, ir_updated_at := dd_decided_at (pa_decision a)\<rparr> else x) (incidents s)"
      "runs s' = map (\<lambda>x. if rr_id x = pa_run_id a \<and> rr_incident_id x = pa_incident_id a then x\<lparr>rr_state := pa_run_state a,
        rr_version := rr_version x + 1, rr_updated_at := dd_decided_at (pa_decision a)\<rparr> else x) (runs s)"
      "run_events s' = run_events s @ stored_events a s" "snapshots s' = snapshots s @ stored_snapshot a s"
    by (simp_all add: s'_def written_def update_where_map)
  show ?thesis
    unfolding s'_def [symmetric]
    by (rule sound_rewrite [OF assms(1) frame(1) _ _ frame(2) _ _ _ _ frame(3,4) rows [folded s'_def]])
       (use ok in \<open>auto simp: sound_incident_def\<close>)
qed

interpretation soundness: store_invariant rt sound_store for rt
proof
  fix s and row :: incident_record
  assume "sound_store s" "get_incident (ir_id row) s = None" "jsonb_ok (JObj (ir_state row))" "ir_version row = 0"
  then show "sound_store (s\<lparr>incidents := incidents s @ [row]\<rparr>)"
    by (intro sound_new_incident) (simp_all add: sound_incident_def)
next
  fix s and run :: run_record
  assume "sound_store s" "get_run (rr_id run) s = None" "get_incident (rr_incident_id run) s \<noteq> None"
    "jsonb_ok (JObj (rr_state run))" "rr_version run = 0"
  then show "sound_store (s\<lparr>runs := runs s @ [run]\<rparr>)"
    by (intro sound_new_run) (simp_all add: sound_run_def)
next
  fix s a i r memories contexts
  assume "sound_store s" "commit_step rt a i r memories s"
  then show "sound_store (written a i r contexts memories s)" by (rule sound_written)
next
  fix s events iid rid d
  assume "sound_store s"
  then show "sound_store (recorded iid rid d events s)"
    by (rule sound_rewrite [where f = id and rows = "[]"
          and g = "\<lambda>r. if rr_id r = rid then r\<lparr>rr_updated_at := max_occurred events\<rparr> else r"
          and new = "event_rows iid rid (last_sequence rid s + 1) (map (with_decision (dd_id d)) events)"])
       (simp_all add: recorded_def update_where_map)
next
  fix s p iid rid
  assume "sound_store s" and p: "jsonb_ok (JObj p)"
  show "sound_store (run_patched iid rid (Some p) s)"
    by (rule sound_rewrite [OF \<open>sound_store s\<close>, where f = id and rows = "[]" and new = "[]"
          and g = "\<lambda>r. if rr_id r = rid \<and> rr_incident_id r = iid then r\<lparr>rr_state := rr_state r ++\<^sub>f p\<rparr> else r"])
       (simp_all add: run_patched_def update_where_map jsonb_add p)
next
  fix s p iid at_time
  assume "sound_store s" and p: "jsonb_ok (JObj p)"
  show "sound_store (incident_patched iid at_time (Some p) s)"
    by (rule sound_rewrite [OF \<open>sound_store s\<close>, where g = id and rows = "[]" and new = "[]"
          and f = "\<lambda>r. if ir_id r = iid then r\<lparr>ir_state := ir_state r ++\<^sub>f p, ir_version := ir_version r + 1,
            ir_updated_at := at_time\<rparr> else r"])
       (simp_all add: incident_patched_def update_where_map jsonb_add sound_incident_def p)
next
  fix s s'
  assume "sound_store s" and core: "same_core s s'"
  show "sound_store s'"
    by (rule sound_rewrite [OF \<open>sound_store s\<close>, where f = id and g = id and rows = "[]" and new = "[]"])
       (use core in \<open>simp_all add: same_core_def\<close>)
qed

lemma log_ok_events: "log_ok s \<Longrightarrow> run_events s' = run_events s \<Longrightarrow> log_ok s'"
  using log_ok_cong by blast

interpretation gapless: store_invariant rt log_ok for rt
proof
  fix s a i r memories contexts
  assume "log_ok s"
  then show "log_ok (written a i r contexts memories s)"
    by (rule log_ok_append) (simp add: written_def stored_events_def)
next
  fix s events iid rid d
  assume "log_ok s"
  then show "log_ok (recorded iid rid d events s)"
    by (rule log_ok_append) (simp add: recorded_def)
qed (auto elim!: log_ok_events simp: run_patched_def incident_patched_def same_core_def)

lemma sound_empty: "sound_store empty_store"
  by (simp add: sound_store_def empty_store_def)

lemma example_sound: "sound_store example_store"
  by (simp add: sound_store_def example_store_def empty_store_def example_incident_def example_run_def
      sound_incident_def sound_run_def get_incident_def select_one_def jsonb_ok_upd)

lemma example_log: "log_ok example_store"
  by (simp add: log_ok_def log_of_def example_store_def empty_store_def)

section \<open>The properties\<close>

text \<open>
  C21. Every operation keeps the incidents, runs and snapshots well formed: incident and run
  identities stay unique, every run belongs to a stored incident, the states of incidents and runs are
  documents PostgreSQL stores, their versions are not negative, and every snapshot is of a stored run
  and not ahead of that run's version or log. The empty store is well formed.
\<close>

theorem store_stays_sound:
  assumes "sound_store s0" and "reach rt s0 s"
  shows "sound_store s"
  by (rule soundness.reaches [OF assms(2,1)])

theorem store_stays_sound_witness:
  "sound_store empty_store \<and> (\<exists>r s'. execute example_runtime example_draws open_command example_store = Inr (r, s') \<and>
     length (snapshots s') = 1 \<and> sound_store s')"
proof -
  obtain r s' where e: "execute example_runtime example_draws open_command example_store = Inr (r, s')"
    and "length (snapshots s') = 1" by (rule example_executes)
  with store_stays_sound [OF example_sound reach_execute [OF reach.idle e]] sound_empty show ?thesis by blast
qed

text \<open>
  C22. The log of every run has no gap and no duplicate: after any operations its events are
  numbered 0, 1, 2, ... in the order they were written, whoever wrote them.
\<close>

theorem event_log_gapless:
  assumes "log_ok s0" and "reach rt s0 s"
  shows "map ev_sequence (filter (\<lambda>e. ev_run_id e = rid) (run_events s)) =
     map int [0..<length (filter (\<lambda>e. ev_run_id e = rid) (run_events s))]"
  using log_okD [OF gapless.reaches [OF assms(2,1)], of rid] by (simp add: log_of_def)

theorem event_log_gapless_witness:
  "log_ok empty_store \<and> (\<exists>r s'. execute example_runtime example_draws open_command example_store = Inr (r, s') \<and>
     length (run_events s') = 1 \<and> map ev_sequence (filter (\<lambda>e. ev_run_id e = ''run_1'') (run_events s')) =
     map int [0..<length (filter (\<lambda>e. ev_run_id e = ''run_1'') (run_events s'))])"
proof -
  obtain r s' where e: "execute example_runtime example_draws open_command example_store = Inr (r, s')"
    and "length (run_events s') = 1" by (rule example_executes)
  with event_log_gapless [OF example_log reach_execute [OF reach.idle e], of "''run_1''"] log_ok_empty show ?thesis by blast
qed

end
