(* ===== verification/Governance.thy ===== *)
theory Governance
  imports Invariants
begin

text \<open>
  What the governed workflow promises of every store the program can reach: an incident that is
  being verified, is resolved or later has a mitigation a human approved, on record; a closed one
  has an approved review of the very postmortem version its close names, and entered memory.
\<close>

section \<open>Reading a reduced state\<close>

lemma reduce_patch_get:
  assumes "reduce_patch dr c t old = Inr i" and "k \<notin> set (patchable_by_transition (t_id t))" and "k \<noteq> ''postmortem''"
  shows "get i k = get old k"
  using assms get_add_outside [of _ "patchable_by_transition (t_id t)" k old]
  by (auto simp: reduce_patch_def Let_def outcome_simps split: if_splits)

lemma reduce_identity_get:
  "get (reduce_identity dr c t i) ''state'' = JStr (t_target t)"
  "t_target t \<in> set DECLARED_STATES \<Longrightarrow> get (reduce_identity dr c t i) ''incident_id'' = JStr (c_incident_id c)"
  "k \<notin> {''state'', ''updated_at'', ''incident_id'', ''linked_incident_id''} \<Longrightarrow> get (reduce_identity dr c t i) k = get i k"
  by (auto simp: reduce_identity_def Let_def)

lemma reduce_triage_get:
  assumes "reduce_triage c t i = Inr i'" and "k \<notin> {''linked_incident_id'', ''severity'', ''impact'', ''alert''}"
  shows "get i' k = get i k"
proof -
  obtain i1 i2 where "i1 = i \<or> (\<exists>x. i1 = fmupd ''linked_incident_id'' x i)"
    and "i2 = i1 \<or> (\<exists>x y. i2 = fmupd ''impact'' x (fmupd ''severity'' y i1))"
    and "i' = i2 \<or> (\<exists>x. i' = fmupd ''alert'' x i2)"
    using assms(1) unfolding reduce_triage_def Let_def outcome_simps by (auto split: if_splits simp: outcome_simps)
  then show ?thesis using assms(2) by auto
qed

lemma reduce_mitigation_same:
  "t_id t \<noteq> ''apply_mitigation'' \<Longrightarrow> t_id t \<noteq> ''reject_mitigation'' \<Longrightarrow> reduce_mitigation dr c t i = Inr i' \<Longrightarrow> i' = i"
  by (simp add: reduce_mitigation_def)

lemma reduce_mitigation_get:
  assumes "reduce_mitigation dr c t i = Inr i'" and "k \<noteq> ''mitigation_strategy''" and "k \<noteq> ''approvals''"
  shows "get i' k = get i k"
  using assms by (auto simp: reduce_mitigation_def Let_def outcome_simps split: if_splits)

lemma reduce_mitigation_approve:
  assumes "reduce_mitigation dr c t i = Inr i'" and "t_id t = ''apply_mitigation''" and "outcome_or_first c t = Inr ''approve''"
  shows "\<exists>strategy before. get i ''mitigation_strategy'' = JObj before \<and> get i' ''mitigation_strategy'' = JObj strategy \<and>
    get strategy ''approval_status'' = JStr ''approved'' \<and> get strategy ''mitigation_id'' = get before ''mitigation_id''"
  using assms
  by (auto simp: reduce_mitigation_def Let_def outcome_simps approval_status_def get_lookup split: option.splits)

lemma reduce_Inr:
  assumes "reduce w dr c t old old_run = Inr (istate, rstate)"
  obtains i1 i2 where "reduce_patch dr c t old = Inr i1" and "reduce_triage c t (reduce_identity dr c t i1) = Inr i2"
    and "reduce_mitigation dr c t i2 = Inr istate" and "rstate = reduce_run w dr t old_run"
  using assms by (auto simp: reduce_def reduce_incident_def outcome_simps)

lemma reduced_state:
  assumes "reduce w dr c t old old_run = Inr (istate, rstate)"
  shows "get istate ''state'' = JStr (t_target t)"
    and "t_target t \<in> set DECLARED_STATES \<Longrightarrow> get istate ''incident_id'' = JStr (c_incident_id c)"
  using assms
  by (elim reduce_Inr; simp add: reduce_mitigation_get reduce_triage_get reduce_identity_get)+

lemma reduced_strategy:
  assumes "reduce w dr c t old old_run = Inr (istate, rstate)"
    and "t_id t \<noteq> ''apply_mitigation''" and "t_id t \<noteq> ''reject_mitigation''"
    and "''mitigation_strategy'' \<notin> set (patchable_by_transition (t_id t))"
  shows "get istate ''mitigation_strategy'' = get old ''mitigation_strategy''"
proof -
  from assms(1) obtain i1 i2 where r: "reduce_patch dr c t old = Inr i1"
    "reduce_triage c t (reduce_identity dr c t i1) = Inr i2" "reduce_mitigation dr c t i2 = Inr istate"
    by (rule reduce_Inr)
  have "istate = i2" by (rule reduce_mitigation_same [OF assms(2,3) r(3)])
  then show ?thesis
    using reduce_triage_get [OF r(2), of "''mitigation_strategy''"] reduce_patch_get [OF r(1) assms(4)]
    by (simp add: reduce_identity_get)
qed

lemma get_incident_Some: "get_incident iid s = Some i \<Longrightarrow> i \<in> set (incidents s) \<and> ir_id i = iid"
  unfolding get_incident_def by (drule select_one_Some) simp

section \<open>The graph of the pinned workflow\<close>

definition APPROVED_STATES :: "string list" where
  "APPROVED_STATES = [''verifying'', ''resolved'', ''postmortem'', ''closed'']"

lemma into_approved:
  assumes "workflow_transition incident_response tid = Inr t" and "t_target t \<in> set APPROVED_STATES"
  shows "t_id t = ''apply_mitigation'' \<or> (t_source t \<in> set APPROVED_STATES \<and> t_id t \<noteq> ''apply_mitigation'' \<and>
    t_id t \<noteq> ''reject_mitigation'' \<and> ''mitigation_strategy'' \<notin> set (patchable_by_transition (t_id t)))"
  using pinned_cases [OF assms(1)] assms(2) unfolding pinned_transitions_def
  by (elim list_memE) (simp_all add: mk_transition_def APPROVED_STATES_def patchable_by_transition_def)

lemma approving:
  assumes "workflow_transition incident_response tid = Inr t" and "t_id t = ''apply_mitigation'' \<or> t_id t = ''close_incident''"
  shows "t_requires_approval t" and "t_target t \<in> set DECLARED_STATES"
    and "t_id t = ''apply_mitigation'' \<Longrightarrow> t_outcomes t = [''approve'']"
  using pinned_cases [OF assms(1)] assms(2) unfolding pinned_transitions_def
  by (elim list_memE; simp add: mk_transition_def DECLARED_STATES_def)+

lemma into_closed:
  assumes "workflow_transition incident_response tid = Inr t" and "t_target t = ''closed''"
  shows "t_id t = ''close_incident''"
  using pinned_cases [OF assms(1)] assms(2) unfolding pinned_transitions_def
  by (elim list_memE) (simp_all add: mk_transition_def)

section \<open>The recorded decision\<close>

text \<open>A decision on record by which a human, named, approved a transition.\<close>

definition human_approval :: "string \<Rightarrow> dict \<Rightarrow> bool" where
  "human_approval tid doc = (get doc ''transition_id'' = JStr tid \<and> get doc ''actor'' = JStr ''human'' \<and>
     is_obj (get doc ''actor_reference'') \<and> get (obj (get doc ''approval'')) ''approved'' = JBool True)"

lemma decision_document_Inr:
  assumes "decision_document w dr c t state reviewed = Inr doc"
  obtains approval where "approval_record dr c t state reviewed = Inr approval" and "get doc ''approval'' = approval"
    and "get doc ''transition_id'' = JStr (t_id t)" and "get doc ''actor'' = JStr (c_actor c)"
    and "get doc ''actor_reference'' = actor_json (c_actor_reference c)"
  using assms by (auto simp: decision_document_def Let_def outcome_simps)

lemma validated_approval:
  assumes "validate c t state version = Inr ()" and "t_requires_approval t"
  shows "c_actor c = ''human'' \<and> c_approval c \<and> c_actor_reference c \<noteq> None \<and> c_expected_incident_version c = Some version"
  using assms
  by (auto simp: validate_def check_actor_def check_review_def outcome_simps split: option.splits)

lemma validated_source: "validate c t state version = Inr () \<Longrightarrow> get state ''state'' = JStr (t_source t)"
  by (simp add: validate_def outcome_simps)

lemma validated_outcome:
  assumes "validate c t state version = Inr ()" and "t_outcomes t = [x]" and "x \<noteq> []"
  shows "outcome_or_first c t = Inr x"
  using assms
  by (auto simp: validate_def check_outcome_def outcome_or_first_def outcome_simps split: option.splits list.splits if_splits)

lemma approved_document:
  assumes "decision_document w dr c t state reviewed = Inr doc" and "validate c t state version = Inr ()"
    and "t_requires_approval t"
  shows "human_approval (t_id t) doc"
    and "t_id t = ''apply_mitigation'' \<Longrightarrow> get (obj (get doc ''approval'')) ''mitigation_id'' =
      get (obj (get state ''mitigation_strategy'')) ''mitigation_id''"
    and "t_id t = ''close_incident'' \<Longrightarrow> reviewed = Some v \<Longrightarrow>
      get (obj (get doc ''approval'')) ''postmortem_id'' = get (obj (get state ''postmortem'')) ''postmortem_id'' \<and>
      get (obj (get doc ''approval'')) ''postmortem_version'' = JInt v"
  using assms(1) validated_approval [OF assms(2,3)]
  by (elim decision_document_Inr;
      auto simp: human_approval_def approval_record_def Let_def actor_json_def outcome_simps get_lookup split: if_splits)+

section \<open>The invariant\<close>

definition approved_mitigation :: "incident_record \<Rightarrow> store \<Rightarrow> bool" where
  "approved_mitigation i s =
     (\<exists>strategy d. get (ir_state i) ''mitigation_strategy'' = JObj strategy \<and>
        get strategy ''approval_status'' = JStr ''approved'' \<and>
        d \<in> set (decisions s) \<and> de_incident_id d = ir_id i \<and> human_approval ''apply_mitigation'' (de_document d) \<and>
        get (obj (get (de_document d) ''approval'')) ''mitigation_id'' = get strategy ''mitigation_id'')"

definition reviewed_close :: "incident_record \<Rightarrow> store \<Rightarrow> bool" where
  "reviewed_close i s =
     (\<exists>d v m. d \<in> set (decisions s) \<and> de_incident_id d = ir_id i \<and> human_approval ''close_incident'' (de_document d) \<and>
        get (obj (get (de_document d) ''approval'')) ''postmortem_id'' = JStr (vw_postmortem_id v) \<and>
        get (obj (get (de_document d) ''approval'')) ''postmortem_version'' = JInt (vw_version v) \<and>
        v \<in> set (postmortem_reviews s) \<and> vw_outcome v = ''approved'' \<and>
        m \<in> set (incident_memories s) \<and> mm_incident_id m = ir_id i)"

definition governed_incident :: "incident_record \<Rightarrow> store \<Rightarrow> bool" where
  "governed_incident i s =
     ((str_in (get (ir_state i) ''state'') APPROVED_STATES \<longrightarrow> approved_mitigation i s) \<and>
      (get (ir_state i) ''state'' = JStr ''closed'' \<longrightarrow> reviewed_close i s))"

definition governed :: "store \<Rightarrow> bool" where
  "governed s = (\<forall>i\<in>set (incidents s). governed_incident i s)"

text \<open>What is on record stays on record.\<close>

definition on_record :: "store \<Rightarrow> store \<Rightarrow> bool" where
  "on_record s s' = (set (decisions s) \<subseteq> set (decisions s') \<and> set (postmortem_reviews s) \<subseteq> set (postmortem_reviews s') \<and>
     set (incident_memories s) \<subseteq> set (incident_memories s'))"

lemma approved_mitigation_mono: "on_record s s' \<Longrightarrow> approved_mitigation i s \<Longrightarrow> approved_mitigation i s'"
  unfolding on_record_def approved_mitigation_def by blast

lemma reviewed_close_mono: "on_record s s' \<Longrightarrow> reviewed_close i s \<Longrightarrow> reviewed_close i s'"
  unfolding on_record_def reviewed_close_def by blast

lemma governed_mono: "on_record s s' \<Longrightarrow> governed_incident i s \<Longrightarrow> governed_incident i s'"
  unfolding governed_incident_def using approved_mitigation_mono reviewed_close_mono by blast

lemma governed_cong:
  assumes "get (ir_state i') ''state'' = get (ir_state i) ''state''" and "ir_id i' = ir_id i"
    and "get (ir_state i') ''mitigation_strategy'' = get (ir_state i) ''mitigation_strategy''"
  shows "governed_incident i' s = governed_incident i s"
  using assms by (simp add: governed_incident_def approved_mitigation_def reviewed_close_def)

lemma governed_same:
  assumes "governed s" and "incidents s' = incidents s" and "on_record s s'"
  shows "governed s'"
  using assms governed_mono unfolding governed_def by auto

text \<open>A review of the current version, approved, is a row of the reviews.\<close>

lemma reviewed_version_row:
  assumes "reviewed_postmortem_version i s = Inr v"
  shows "\<exists>x\<in>set (postmortem_reviews s). vw_version x = v \<and> vw_outcome x = ''approved'' \<and>
    get (obj (get (ir_state i) ''postmortem'')) ''postmortem_id'' = JStr (vw_postmortem_id x)"
proof -
  obtain p where p: "get_postmortem (ir_id i) s = Some p" "approved p" "v = po_version p"
      "JStr (po_id p) = get (obj (get (ir_state i) ''postmortem'')) ''postmortem_id''"
    using assms by (auto simp: reviewed_postmortem_version_def outcome_simps split: option.splits)
  then obtain x where x: "select_one (\<lambda>v. vw_postmortem_id v = po_id p) (rev (postmortem_reviews s)) = Some x"
      "vw_version x = po_version p" "vw_outcome x = ''approved''"
    by (auto simp: get_postmortem_def approved_def latest_review_def split: option.splits)
  with p select_one_Some [OF x(1)] show ?thesis by auto
qed

text \<open>A transition of the pinned workflow being written, with the parts of its plan.\<close>

lemma commit_step_planned:
  assumes "rt_workflow rt = incident_response" and "commit_step rt a i r memories s"
  obtains dr c t reviewed old_run rstate sx where
    "workflow_transition incident_response (c_transition_id c) = Inr t"
    and "validate c t (ir_state i) (ir_version i) = Inr ()"
    and "(if t_id t = ''close_incident'' then and_then (reviewed_postmortem_version i sx) (\<lambda>v. Inr (Some v))
          else Inr None) = Inr reviewed"
    and "reduce incident_response dr c t (ir_state i) old_run = Inr (pa_incident_state a, rstate)"
    and "decision_document incident_response dr c t (ir_state i) reviewed = Inr (dd_document (pa_decision a))"
    and "pa_incident_id a = c_incident_id c" and "extends (postmortem_reviews sx) (postmortem_reviews s)"
    and "i \<in> set (incidents s)" and "ir_id i = c_incident_id c"
proof -
  obtain dr c sha r0 sx where plan: "plan_apply rt dr c sha i r0 sx = Inr a"
    and rev: "extends (postmortem_reviews sx) (postmortem_reviews s)"
    using assms(2) unfolding commit_step_def by blast
  have i: "i \<in> set (incidents s)" "ir_id i = c_incident_id c"
    using assms(2) get_incident_Some [of "pa_incident_id a" s i] plan_apply_identity(3) [OF plan]
    by (simp_all add: commit_step_def)
  from plan show thesis
    by (elim plan_apply_Inr) (rule that [OF _ _ _ _ _ _ rev i], simp_all add: assms(1))
qed

lemma commit_approved:
  assumes t: "workflow_transition incident_response tid = Inr t" and val: "validate c t (ir_state i) version = Inr ()"
    and red: "reduce incident_response dr c t (ir_state i) old_run = Inr (istate, rstate)"
    and doc: "decision_document incident_response dr c t (ir_state i) reviewed = Inr doc"
    and d: "d \<in> set (decisions s')" "de_document d = doc" "de_incident_id d = ir_id x"
    and x: "ir_state x = istate" "ir_id x = ir_id i"
    and target: "t_target t \<in> set APPROVED_STATES" and i: "governed_incident i s" and kept: "on_record s s'"
  shows "approved_mitigation x s'"
proof (cases "t_id t = ''apply_mitigation''")
  case True
  have ap: "t_requires_approval t" "t_outcomes t = [''approve'']" using approving [OF t] True by simp_all
  obtain i1 i2 where r: "reduce_patch dr c t (ir_state i) = Inr i1"
      "reduce_triage c t (reduce_identity dr c t i1) = Inr i2" "reduce_mitigation dr c t i2 = Inr istate"
    using red by (rule reduce_Inr)
  have ms: "get i2 ''mitigation_strategy'' = get (ir_state i) ''mitigation_strategy''"
    using reduce_triage_get [OF r(2), of "''mitigation_strategy''"] reduce_patch_get [OF r(1), of "''mitigation_strategy''"] True
    by (simp add: reduce_identity_get patchable_by_transition_def)
  have out: "outcome_or_first c t = Inr ''approve''" by (rule validated_outcome [OF val ap(2)]) simp
  obtain strategy before where "get (ir_state i) ''mitigation_strategy'' = JObj before"
      "get istate ''mitigation_strategy'' = JObj strategy" "get strategy ''approval_status'' = JStr ''approved''"
      "get strategy ''mitigation_id'' = get before ''mitigation_id''"
    using reduce_mitigation_approve [OF r(3) True out] unfolding ms by blast
  then show ?thesis unfolding approved_mitigation_def
    using d x approved_document(1,2) [OF doc val ap(1)] True by (intro exI [of _ strategy] exI [of _ d]) simp
next
  case False
  with into_approved [OF t target] have source: "t_source t \<in> set APPROVED_STATES"
    and same: "get istate ''mitigation_strategy'' = get (ir_state i) ''mitigation_strategy''"
    using reduced_strategy [OF red] by auto
  have "approved_mitigation i s"
    using i source validated_source [OF val] by (simp add: governed_incident_def str_in_iff)
  then have "approved_mitigation i s'" by (rule approved_mitigation_mono [OF kept])
  then show ?thesis using same x by (simp add: approved_mitigation_def)
qed

lemma approval_truthy: "human_approval tid doc \<Longrightarrow> truthy (get doc ''approval'')"
  by (cases "get doc ''approval''") (auto simp: human_approval_def)

lemma commit_closed:
  assumes t: "workflow_transition incident_response tid = Inr t" and val: "validate c t (ir_state i) version = Inr ()"
    and rev: "(if t_id t = ''close_incident'' then and_then (reviewed_postmortem_version i sx) (\<lambda>v. Inr (Some v))
          else Inr None) = Inr reviewed" "extends (postmortem_reviews sx) (postmortem_reviews s')"
    and red: "reduce incident_response dr c t (ir_state i) old_run = Inr (pa_incident_state a, rstate)"
    and doc: "decision_document incident_response dr c t (ir_state i) reviewed = Inr (dd_document (pa_decision a))"
    and d: "d \<in> set (decisions s')" "de_document d = dd_document (pa_decision a)" "de_incident_id d = ir_id x"
    and x: "ir_id x = c_incident_id c" and target: "t_target t = ''closed''"
    and mem: "close_memory a event memories s" "set (incident_memories s) \<union> set memories \<subseteq> set (incident_memories s')"
  shows "reviewed_close x s'"
proof -
  have tid: "t_id t = ''close_incident''" by (rule into_closed [OF t target])
  have ap: "t_requires_approval t" using approving [OF t] tid by simp
  obtain v where v: "reviewed_postmortem_version i sx = Inr v" "reviewed = Some v"
    using rev(1) tid by (auto simp: outcome_simps)
  obtain row where row: "row \<in> set (postmortem_reviews sx)" "vw_version row = v" "vw_outcome row = ''approved''"
      "get (obj (get (ir_state i) ''postmortem'')) ''postmortem_id'' = JStr (vw_postmortem_id row)"
    using reviewed_version_row [OF v(1)] by blast
  note ad = approved_document(1,3) [OF doc val ap]
  have "closing a" using ad(1) approval_truthy [OF ad(1)] tid by (simp add: closing_def human_approval_def)
  then obtain m where m: "m \<in> set (incident_memories s')" "get (pa_incident_state a) ''incident_id'' = JStr (mm_incident_id m)"
    using mem by (auto simp: close_memory_def memory_of_def split: list.splits)
  have "mm_incident_id m = ir_id x"
    using m(2) reduced_state(2) [OF red] target x by (simp add: DECLARED_STATES_def)
  then show ?thesis
    unfolding reviewed_close_def using d ad(1) ad(2) [OF tid v(2)] row extends_set [OF rev(2)] m(1) tid
    by (intro exI [of _ d] exI [of _ row] exI [of _ m]) auto
qed

lemma governed_commit:
  assumes "rt_workflow rt = incident_response" and "commit_step rt a i r memories s" and "governed s"
    and "ir_id x = pa_incident_id a" and "ir_state x = pa_incident_state a"
  shows "governed_incident x (written a i r contexts memories s)"
proof -
  let ?s' = "written a i r contexts memories s" and ?d = "decision_row (pa_incident_id a) (dd_run_id (pa_decision a)) (pa_decision a)"
  obtain dr c t reviewed old_run rstate sx where t: "workflow_transition incident_response (c_transition_id c) = Inr t"
    and val: "validate c t (ir_state i) (ir_version i) = Inr ()"
    and rev: "(if t_id t = ''close_incident'' then and_then (reviewed_postmortem_version i sx) (\<lambda>v. Inr (Some v))
          else Inr None) = Inr reviewed"
    and red: "reduce incident_response dr c t (ir_state i) old_run = Inr (pa_incident_state a, rstate)"
    and doc: "decision_document incident_response dr c t (ir_state i) reviewed = Inr (dd_document (pa_decision a))"
    and c: "pa_incident_id a = c_incident_id c" and ext: "extends (postmortem_reviews sx) (postmortem_reviews s)"
    and i: "i \<in> set (incidents s)" "ir_id i = c_incident_id c"
    using assms(1,2) by (rule commit_step_planned)
  have d: "?d \<in> set (decisions ?s')" "de_document ?d = dd_document (pa_decision a)" "de_incident_id ?d = ir_id x"
    using assms(4) by (simp_all add: written_def decision_row_def)
  have kept: "on_record s ?s'" by (auto simp: on_record_def written_def)
  have "governed_incident i s" using assms(3) i(1) by (simp add: governed_def)
  then have "approved_mitigation x ?s'" if "t_target t \<in> set APPROVED_STATES"
    using commit_approved [OF t val red doc d assms(5) _ that _ kept] assms(4) c i(2) by simp
  moreover have "reviewed_close x ?s'" if "t_target t = ''closed''"
    using assms(2) ext c assms(4)
    by (intro commit_closed [OF t val rev _ red doc d _ that]) (auto simp: commit_step_def written_def)
  ultimately show ?thesis
    using reduced_state(1) [OF red] assms(5) by (auto simp: governed_incident_def str_in_iff)
qed

interpretation governance: store_invariant rt "\<lambda>s. rt_workflow rt = incident_response \<longrightarrow> governed s" for rt
proof
  fix s :: store and row :: incident_record
  assume "rt_workflow rt = incident_response \<longrightarrow> governed s" "get (ir_state row) ''state'' = JStr ''triage''"
  then show "rt_workflow rt = incident_response \<longrightarrow> governed (s\<lparr>incidents := incidents s @ [row]\<rparr>)"
    using governed_mono [of s "s\<lparr>incidents := incidents s @ [row]\<rparr>"]
    by (auto simp: governed_def on_record_def) (simp add: governed_incident_def APPROVED_STATES_def)
next
  fix s :: store and a i r memories contexts
  assume inv: "rt_workflow rt = incident_response \<longrightarrow> governed s" and step: "commit_step rt a i r memories s"
  show "rt_workflow rt = incident_response \<longrightarrow> governed (written a i r contexts memories s)"
  proof
    assume w: "rt_workflow rt = incident_response"
    have kept: "on_record s (written a i r contexts memories s)" by (auto simp: on_record_def written_def)
    show "governed (written a i r contexts memories s)"
      unfolding governed_def
    proof
      fix x assume "x \<in> set (incidents (written a i r contexts memories s))"
      then consider "ir_id x = pa_incident_id a" "ir_state x = pa_incident_state a" | "x \<in> set (incidents s)"
        by (auto simp: written_def set_update_where split: if_splits)
      then show "governed_incident x (written a i r contexts memories s)"
        using governed_commit [OF w step] governed_mono [OF kept] inv w by cases (auto simp: governed_def)
    qed
  qed
next
  fix s :: store and p iid at_time
  assume inv: "rt_workflow rt = incident_response \<longrightarrow> governed s" and keys: "keys_exactly p [''hypotheses'', ''evidence'']"
  let ?s' = "incident_patched iid at_time (Some p) s"
  have kept: "on_record s ?s'" by (simp add: on_record_def incident_patched_def)
  have "get (d ++\<^sub>f p) k = get d k" if "k \<notin> {''hypotheses'', ''evidence''}" for d k
    using keys that by (auto simp: get_add keys_exactly_def)
  then have "governed_incident (x\<lparr>ir_state := ir_state x ++\<^sub>f p, ir_version := v, ir_updated_at := u\<rparr>) ?s'"
    if "governed_incident x s" for x :: incident_record and v u
    using governed_mono [OF kept that] by (subst governed_cong [of _ x]) simp_all
  then show "rt_workflow rt = incident_response \<longrightarrow> governed ?s'"
    using inv governed_mono [OF kept] by (auto simp: governed_def incident_patched_def set_update_where)
next
  fix s s' :: store
  assume "rt_workflow rt = incident_response \<longrightarrow> governed s" "same_core s s'"
  then show "rt_workflow rt = incident_response \<longrightarrow> governed s'"
    using governed_same [of s s'] extends_set [of "postmortem_reviews s" "postmortem_reviews s'"]
    by (simp add: same_core_def on_record_def)
qed (auto intro: governed_same simp: on_record_def recorded_def run_patched_def)

end
