(* ===== verification/Liveness.thy ===== *)
theory Liveness
  imports Soundness Governance
begin

text \<open>
  A command that passes every check commits, for the commands that do not close the incident, open no
  dispatch and bring no events or turn contexts. The guards of the runtime are the only ones for them: in
  a sound store, a planned command whose identifiers are new, whose documents PostgreSQL stores and
  whose clock is not behind the rows is written, whatever happened before.
\<close>

section \<open>Documents stay storable\<close>

named_theorems storable_intros \<open>documents without U+0000\<close>

abbreviation clean :: "string \<Rightarrow> bool" where
  "clean s \<equiv> CHR 0x00 \<notin> set s"

lemma jsonb_lookup: "jsonb_ok (JObj d) \<Longrightarrow> fmlookup d k = Some v \<Longrightarrow> jsonb_ok v"
  unfolding jsonb_obj_iff by blast

lemma jsonb_get [storable_intros]: "jsonb_ok (JObj d) \<Longrightarrow> jsonb_ok (get d k)"
  by (cases "fmlookup d k") (auto simp: get_def getd_def jsonb_lookup)

lemma jsonb_obj [storable_intros]: "jsonb_ok j \<Longrightarrow> jsonb_ok (JObj (obj j))"
  by (cases j) (simp_all add: jsonb_obj_iff)

lemma jsonb_or [storable_intros]: "jsonb_ok x \<Longrightarrow> jsonb_ok y \<Longrightarrow> jsonb_ok (py_or x y)"
  by (simp add: py_or_def)

lemma jsonb_jopt [simp]: "jsonb_ok (jopt x) \<longleftrightarrow> pred_option clean x"
  by (cases x) simp_all

lemma jsonb_jdict [simp]: "jsonb_ok (jdict x) \<longleftrightarrow> pred_option (\<lambda>d. jsonb_ok (JObj d)) x"
  by (cases x) simp_all

declare jsonb_ok_upd [storable_intros] and jsonb_add [storable_intros]

section \<open>What a plan stores\<close>

text \<open>A command whose texts have no U+0000, and identifiers that no row has yet.\<close>

definition clean_command :: "incident_command \<Rightarrow> bool" where
  "clean_command c = (clean (c_incident_id c) \<and> clean (c_run_id c) \<and> fits 128 (c_command_id c) \<and> clean (c_actor c) \<and>
     jsonb_ok (JObj (inputs_of c)) \<and> jsonb_ok (jdict (c_execution c)) \<and> jsonb_ok (jopt (c_outcome c)) \<and>
     jsonb_ok (actor_json (c_actor_reference c)) \<and> jsonb_ok (jopt (c_turn_id c)) \<and> fits_opt 64 (c_turn_id c))"

definition clean_edge :: "transition \<Rightarrow> bool" where
  "clean_edge t = (clean (t_id t) \<and> clean (t_source t) \<and> clean (t_target t) \<and> jsonb_ok (jopt (t_decision_point t)) \<and>
     list_all clean (t_outcomes t))"

definition clean_draws :: "draws \<Rightarrow> bool" where
  "clean_draws dr = list_all (\<lambda>p. clean (d_id dr p) \<and> fits 64 (d_id dr p)) [''dec'', ''evt'', ''snap'', ''pm'', ''apr'']"

definition fresh_draws :: "draws \<Rightarrow> store \<Rightarrow> bool" where
  "fresh_draws dr s = (get_decision (d_id dr ''dec'') s = None \<and> d_id dr ''evt'' \<notin> ev_id ` set (run_events s) \<and>
     d_id dr ''snap'' \<notin> sn_id ` set (snapshots s))"

lemma pinned_clean:
  assumes "workflow_transition incident_response tid = Inr t"
  shows "clean_edge t"
  using pinned_cases [OF assms] unfolding pinned_transitions_def
  by (elim list_memE) (simp_all add: mk_transition_def clean_edge_def)

lemma reduce_patch_storable:
  assumes "reduce_patch dr c t old = Inr i" and "jsonb_ok (JObj old)" and "jsonb_ok (JObj (inputs_of c))" and "clean (d_id dr ''pm'')"
  shows "jsonb_ok (JObj i)"
proof -
  have "jsonb_ok (getd (inputs_of c) ''incident_patch'' (JObj fmempty))"
    using assms(3) by (auto simp: getd_def jsonb_ok_upd jsonb_lookup split: option.splits)
  then show ?thesis
    using assms by (auto simp: reduce_patch_def Let_def outcome_simps storable_intros split: if_splits)
qed

lemma reduce_identity_storable:
  "jsonb_ok (JObj i) \<Longrightarrow> clean (t_target t) \<Longrightarrow> clean (c_incident_id c) \<Longrightarrow> jsonb_ok (JObj (reduce_identity dr c t i))"
  by (simp add: reduce_identity_def Let_def jsonb_ok_upd)

lemma reduce_triage_storable:
  assumes "reduce_triage c t i = Inr i'" and "jsonb_ok (JObj i)" and "jsonb_ok (JObj (inputs_of c))"
  shows "jsonb_ok (JObj i')"
proof -
  obtain i1 where i1: "(if t_id t = ''triage_link''
       then and_then (item (inputs_of c) ''target_incident_id'') (\<lambda>x. Inr (fmupd ''linked_incident_id'' x i))
       else Inr i) = Inr i1"
    using assms(1) unfolding reduce_triage_def outcome_simps by blast
  then have "jsonb_ok (JObj i1)"
    using assms(2) jsonb_lookup [OF assms(3)] by (auto simp: outcome_simps jsonb_ok_upd split: if_splits)
  moreover obtain i2 where i2: "(if t_id t = ''triage_declare''
       then and_then (item (inputs_of c) ''severity'') (\<lambda>sev. and_then (item (inputs_of c) ''impact'') (\<lambda>imp.
            Inr (fmupd ''impact'' imp (fmupd ''severity'' sev i1))))
       else Inr i1) = Inr i2"
    using assms(1) i1 unfolding reduce_triage_def outcome_simps by auto
  ultimately have ok: "jsonb_ok (JObj i2)"
    using jsonb_lookup [OF assms(3)] by (auto simp: outcome_simps jsonb_ok_upd split: if_splits)
  have "jsonb_ok (JObj (obj (py_or (get i2 ''alert'') (JObj fmempty))))"
    by (intro jsonb_obj jsonb_or jsonb_get ok) (simp add: jsonb_ok_upd)
  with assms(1) i1 i2 ok show ?thesis
    unfolding reduce_triage_def by (auto simp: outcome_simps Let_def jsonb_ok_upd(2) simp del: obj.simps split: if_splits)
qed

lemma reduce_mitigation_storable:
  assumes "reduce_mitigation dr c t i = Inr i'" and "jsonb_ok (JObj i)" and "jsonb_ok (JObj (inputs_of c))"
    and "jsonb_ok (jdict (c_execution c))" and "clean (d_id dr ''apr'')" and "get i ''approvals'' = JNull \<or> is_list (get i ''approvals'')"
  shows "jsonb_ok (JObj i')"
proof (cases "t_id t \<noteq> ''apply_mitigation'' \<and> t_id t \<noteq> ''reject_mitigation''")
  case True
  with assms show ?thesis by (simp add: reduce_mitigation_def)
next
  case False
  then obtain s0 x status where s0: "fmlookup i ''mitigation_strategy'' = Some (JObj s0)"
    and "outcome_or_first c t = Inr x" and st: "approval_status x = Inr status"
    and rest: "(let s1 = fmupd ''approval_status'' (JStr status) s0;
            s2 = (case c_execution c of Some e \<Rightarrow>
                    (if x = ''approve''
                     then fmupd ''execution'' (JObj e) (fmupd ''execution_mode'' (JStr ''executed'') s1)
                     else s1)
                  | None \<Rightarrow> s1);
            i1 = fmupd ''mitigation_strategy'' (JObj s2) i
        in if x = ''approve'' \<or> x = ''reject''
           then and_then (py_iter (py_or (get i1 ''approvals'') (JList []))) (\<lambda>before.
                and_then (item s2 ''mitigation_id'') (\<lambda>subject.
                Inr (fmupd ''approvals'' (JList (before @ [approval_entry dr c subject x])) i1)))
           else Inr i1) = Inr i'"
    using assms(1) unfolding reduce_mitigation_def outcome_simps by (auto simp: outcome_simps)
  have "clean status" using st by (auto simp: approval_status_def split: if_splits option.splits)
  then have s1: "jsonb_ok (JObj (fmupd ''approval_status'' (JStr status) s0))"
    using jsonb_lookup [OF assms(2) s0] by (simp add: storable_intros)
  define s2 where "s2 = (case c_execution c of Some e \<Rightarrow> (if x = ''approve''
      then fmupd ''execution'' (JObj e) (fmupd ''execution_mode'' (JStr ''executed'') (fmupd ''approval_status'' (JStr status) s0))
      else fmupd ''approval_status'' (JStr status) s0) | None \<Rightarrow> fmupd ''approval_status'' (JStr status) s0)"
  have s2: "jsonb_ok (JObj s2)"
    using s1 assms(4) by (auto simp: s2_def storable_intros split: option.splits)
  have i1: "jsonb_ok (JObj (fmupd ''mitigation_strategy'' (JObj s2) i))" using s2 assms(2) by (simp add: storable_intros)
  have "list_all jsonb_ok before" if "py_iter (py_or (get i ''approvals'') (JList [])) = Inr before" for before
    using that assms(2,6) jsonb_get [OF assms(2), of "''approvals''"]
    by (cases "get i ''approvals''") (auto simp: py_or_def list_all_iff split: if_splits)
  moreover have "jsonb_ok (approval_entry dr c subject x)" if "fmlookup s2 ''mitigation_id'' = Some subject" for subject
    using that assms(3,5) jsonb_lookup [OF s2 that]
    by (simp add: approval_entry_def storable_intros)
  ultimately show ?thesis
    using rest i1 unfolding Let_def s2_def [symmetric]
    by (auto simp: outcome_simps list_all_iff jsonb_ok_upd(2) split: if_splits)
qed

lemma reduce_run_storable:
  "jsonb_ok (JObj old) \<Longrightarrow> clean (t_target t) \<Longrightarrow> jsonb_ok (JObj (reduce_run w dr t old))"
  by (simp add: reduce_run_def Let_def termination_patch_def jsonb_ok_upd jsonb_add)

lemma decided_clean: "jsonb_ok (jopt (c_outcome c)) \<Longrightarrow> list_all clean (t_outcomes t) \<Longrightarrow> jsonb_ok (jopt (decided_outcome c t))"
  by (auto simp: decided_outcome_def split: option.splits list.splits)

lemma approval_storable:
  assumes "approval_record dr c t state reviewed = Inr approval" and "jsonb_ok (JObj state)"
    and "jsonb_ok (actor_json (c_actor_reference c))"
  shows "jsonb_ok approval"
proof -
  have base: "jsonb_ok (JObj (dict [(''approved'', JBool True), (''actor_reference'', actor_json (c_actor_reference c)),
      (''recorded_at'', JStr (isoformat (d_now dr))), (''reviewed_incident_version'',
         case c_expected_incident_version c of None \<Rightarrow> JNull | Some v \<Rightarrow> JInt v)]))" (is "jsonb_ok (JObj ?base)")
    using assms(3) by (simp add: jsonb_ok_upd split: option.splits)
  consider "approval = JNull" | "approval = JObj ?base"
    | d m where "fmlookup state ''mitigation_strategy'' = Some (JObj d)" "fmlookup d ''mitigation_id'' = Some m"
        "approval = JObj (fmupd ''mitigation_id'' m ?base)"
    | d p where "fmlookup state ''postmortem'' = Some (JObj d)" "fmlookup d ''postmortem_id'' = Some p"
        "approval = JObj (fmupd ''postmortem_version'' (case reviewed of None \<Rightarrow> JNull | Some v \<Rightarrow> JInt v)
           (fmupd ''postmortem_id'' p ?base))"
    using assms(1) unfolding approval_record_def Let_def by (auto simp: outcome_simps split: if_splits)
  then show ?thesis
    using base jsonb_lookup [OF jsonb_lookup [OF assms(2)]]
    by cases (auto intro!: jsonb_ok_upd(2) split: option.splits)
qed

lemma document_storable:
  assumes "decision_document w dr c t state reviewed = Inr doc" and "jsonb_ok (JObj state)" and "clean_command c" and "clean_edge t"
    and "clean (w_id w)" and "clean (w_version w)"
  shows "jsonb_ok (JObj doc)"
proof -
  obtain approval where a: "approval_record dr c t state reviewed = Inr approval"
    using assms(1) unfolding decision_document_def outcome_simps by blast
  have ok: "jsonb_ok approval" using approval_storable [OF a assms(2)] assms(3) by (simp add: clean_command_def)
  have "jsonb_ok (jopt (decided_outcome c t))"
    using decided_clean assms(3,4) by (simp add: clean_command_def clean_edge_def)
  moreover have "jsonb_ok (get (inputs_of c) k)" for k using assms(3) jsonb_get by (simp add: clean_command_def)
  ultimately show ?thesis
    using assms a ok
    by (auto simp: decision_document_def outcome_simps Let_def clean_command_def clean_edge_def jsonb_ok_upd
        simp del: jsonb_jopt split: if_splits)
qed

lemma reduce_storable:
  assumes "reduce w dr c t old old_run = Inr (istate, rstate)" and "jsonb_ok (JObj old)" and "jsonb_ok (JObj old_run)"
    and "clean_command c" and "clean_edge t" and "clean_draws dr"
    and "get old ''approvals'' = JNull \<or> is_list (get old ''approvals'')"
  shows "jsonb_ok (JObj istate)" and "jsonb_ok (JObj rstate)"
proof -
  from assms(1) obtain i1 i2 where r: "reduce_patch dr c t old = Inr i1"
    "reduce_triage c t (reduce_identity dr c t i1) = Inr i2" "reduce_mitigation dr c t i2 = Inr istate"
    "rstate = reduce_run w dr t old_run" by (rule reduce_Inr)
  note c = assms(4-6) [unfolded clean_command_def clean_edge_def clean_draws_def]
  have i1: "jsonb_ok (JObj i1)" by (rule reduce_patch_storable [OF r(1) assms(2)]) (use c in simp_all)
  have "jsonb_ok (JObj (reduce_identity dr c t i1))" by (rule reduce_identity_storable [OF i1]) (use c in simp_all)
  then have i2: "jsonb_ok (JObj i2)" by (rule reduce_triage_storable [OF r(2)]) (use c in simp)
  have "''approvals'' \<notin> set (patchable_by_transition (t_id t))"
    by (simp add: patchable_by_transition_def split: option.splits if_splits)
  then have "get i2 ''approvals'' = get old ''approvals''"
    using reduce_triage_get [OF r(2), of "''approvals''"] reduce_patch_get [OF r(1), of "''approvals''"]
    by (simp add: reduce_identity_get)
  then show "jsonb_ok (JObj istate)"
    using c assms(7) by (intro reduce_mitigation_storable [OF r(3) i2]) simp_all
  show "jsonb_ok (JObj rstate)" unfolding r(4) by (rule reduce_run_storable [OF assms(3)]) (use c in simp)
qed

section \<open>Commands that commit\<close>

text \<open>The single event of a command without events of its own.\<close>

lemma plan_parts:
  assumes "plan_apply rt dr c sha i r s = Inr a" and "rt_workflow rt = incident_response"
    and "sound_incident i" and "jsonb_ok (JObj (rr_state r))" and "clean_command c" and "clean_draws dr" and "c_extra_events c = []"
    and "get (ir_state i) ''approvals'' = JNull \<or> is_list (get (ir_state i) ''approvals'')"
  obtains e where "pa_events a = [e]" and "storable_draft e" and "ed_id e = d_id dr ''evt''"
    and "jsonb_ok (JObj (pa_incident_state a))" and "jsonb_ok (JObj (pa_run_state a))"
    and "jsonb_ok (JObj (dd_document (pa_decision a)))" and "jsonb_ok (jopt (ed_turn_id e))" and "clean (ed_kind e)"
    and "\<forall>n. pa_snapshot a = Some n \<longrightarrow> sd_id n = d_id dr ''snap'' \<and> sd_incident_state n = pa_incident_state a \<and>
        sd_run_state n = pa_run_state a"
    and "get (dd_document (pa_decision a)) ''transition_id'' = JStr (c_transition_id c)"
proof -
  from assms(1) obtain t reviewed istate rstate document where
    t: "workflow_transition incident_response (c_transition_id c) = Inr t"
    and red: "reduce incident_response dr c t (ir_state i) (rr_state r) = Inr (istate, rstate)"
    and doc: "decision_document incident_response dr c t (ir_state i) reviewed = Inr document"
    and a: "pa_events a = [state_change_event incident_response dr c t istate rstate]"
      "pa_incident_state a = istate" "pa_run_state a = rstate" "dd_document (pa_decision a) = document"
      "pa_snapshot a = planned_snapshot rt dr c r istate rstate s"
    by (elim plan_apply_Inr) (use assms(2,7) in simp)
  note edge = pinned_clean [OF t]
  have old: "jsonb_ok (JObj (ir_state i))" using assms(3) by (simp add: sound_incident_def)
  note st = reduce_storable [OF red old assms(4,5) edge assms(6,8)]
  have "jsonb_ok (JObj document)"
    by (rule document_storable [OF doc old assms(5) edge]) simp_all
  moreover have "get document ''transition_id'' = JStr (c_transition_id c)"
    using decision_document_Inr [OF doc] t pinned_id [OF t] by (metis (lifting))
  moreover have "storable_draft (state_change_event incident_response dr c t istate rstate)"
    using st edge assms(5,6)
    by (simp add: storable_draft_def state_change_event_def clean_edge_def clean_command_def clean_draws_def
        jsonb_ok_upd fits_length)
  moreover have "planned_snapshot rt dr c r istate rstate s = Some n \<Longrightarrow>
      sd_id n = d_id dr ''snap'' \<and> sd_incident_state n = istate \<and> sd_run_state n = rstate" for n
    by (auto simp: planned_snapshot_def split: if_splits)
  ultimately show thesis
    using that [of "state_change_event incident_response dr c t istate rstate"] st assms(5)
    by (simp add: a) (simp add: state_change_event_def clean_command_def)
qed

lemma encoded_result_storable:
  assumes "pa_events a = [e]" and "storable_draft e" and "clean (ed_id e)" "clean (ed_kind e)" "jsonb_ok (jopt (ed_turn_id e))"
    and "jsonb_ok (JObj (pa_incident_state a))" "jsonb_ok (JObj (pa_run_state a))"
    and "clean (pa_incident_id a)" "clean (pa_run_id a)" "ir_id i = pa_incident_id a" "rr_id r = pa_run_id a"
      "rr_incident_id r = pa_incident_id a"
    and "\<And>n. pa_snapshot a = Some n \<Longrightarrow> clean (sd_id n) \<and> jsonb_ok (JObj (sd_incident_state n)) \<and> jsonb_ok (JObj (sd_run_state n))"
  shows "jsonb_ok (JObj (encode_result (result_of a i r s)))"
proof -
  have parts: "jsonb_ok (JObj (encode_incident (next_incident a i)))" "jsonb_ok (JObj (encode_run (next_run a r)))"
      "list_all (\<lambda>x. jsonb_ok (JObj (encode_event x))) (stored_events a s)"
      "list_all (\<lambda>x. jsonb_ok (JObj (encode_snapshot x))) (stored_snapshot a s)"
    using assms
    by (simp_all add: encode_incident_def encode_run_def encode_event_def encode_snapshot_def next_incident_def next_run_def
        stored_events_def stored_snapshot_def snapshot_rows_def storable_draft_def event_row_def jsonb_ok_upd del: jsonb_jopt
        split: option.splits)
  then show ?thesis
    by (cases "stored_snapshot a s")
       (simp_all add: encode_result_def result_of_def jsonb_ok_upd list_all_iff)
qed

lemma stored_sequence: "pa_events a = [e] \<Longrightarrow> ev_sequence (last (stored_events a s)) = last_sequence (pa_run_id a) s + 1"
  by (simp add: stored_events_def)

lemma planned_committable:
  assumes plan: "plan_apply rt dr c sha i r s = Inr a" and rt: "rt_workflow rt = incident_response" and sound: "sound_store s"
    and i: "get_incident (c_incident_id c) s = Some i" and r: "get_for_incident (c_run_id c) (c_incident_id c) s = Some r"
    and new: "get_transition (c_incident_id c) (c_command_id c) sha s = Inr None" and sha: "sha256_hex sha"
    and c: "clean_command c" "c_extra_events c = []" "c_contexts c = []" "c_dispatch_id c = None"
      "c_transition_id c \<noteq> ''close_incident''"
    and dr: "clean_draws dr" "fresh_draws dr s" "ir_created_at i \<le> d_now dr" "rr_created_at r \<le> d_now dr"
    and ap: "get (ir_state i) ''approvals'' = JNull \<or> is_list (get (ir_state i) ''approvals'')"
  shows "committable a i r s"
proof -
  note ident = plan_apply_identity [OF plan]
  have so: "sound_incident i" "sound_run s r" using sound_incidentD [OF sound i] sound_runD [OF sound r] by simp_all
  have run_ok: "jsonb_ok (JObj (rr_state r))" using so(2) by (simp add: sound_run_def)
  from plan rt so(1) run_ok c(1) dr(1) c(2) ap
  obtain e where e: "pa_events a = [e]" "storable_draft e" "ed_id e = d_id dr ''evt''"
    and st: "jsonb_ok (JObj (pa_incident_state a))" "jsonb_ok (JObj (pa_run_state a))"
      "jsonb_ok (JObj (dd_document (pa_decision a)))" "jsonb_ok (jopt (ed_turn_id e))" "clean (ed_kind e)"
    and snap: "\<forall>n. pa_snapshot a = Some n \<longrightarrow> sd_id n = d_id dr ''snap'' \<and> sd_incident_state n = pa_incident_state a \<and>
        sd_run_state n = pa_run_state a"
    and tid: "get (dd_document (pa_decision a)) ''transition_id'' = JStr (c_transition_id c)"
    by (rule plan_parts)
  have ids: "ir_id i = c_incident_id c" "rr_id r = c_run_id c" "rr_incident_id r = c_incident_id c" "r \<in> set (runs s)"
    using select_one_Some [OF i [unfolded get_incident_def]] select_one_Some [OF r [unfolded get_for_incident_def]] by auto
  note cl = c(1) [unfolded clean_command_def] and dw = dr(1) [unfolded clean_draws_def] and fr = dr(2) [unfolded fresh_draws_def]
  have encoded: "jsonb_ok (JObj (encode_result (result_of a i r s)))"
    by (rule encoded_result_storable [OF e(1,2)]) (use e st snap cl dw ids ident in simp_all)
  have "dd_id (pa_decision a) = d_id dr ''dec''" "dd_run_id (pa_decision a) = Some (c_run_id c)"
      "dd_turn_id (pa_decision a) = c_turn_id c" "pa_contexts a = []"
    using plan c(3) by (auto elim!: plan_apply_Inr)
  moreover have "sn_version x \<noteq> rr_version r + 1 \<and> sn_event_sequence x \<noteq> ev_sequence (last (stored_events a s))"
    if "x \<in> set (snapshots s)" "sn_run_id x = c_run_id c" for x
  proof -
    have "sound_snapshot s x" "distinct (map rr_id (runs s))" using sound that(1) by (simp_all add: sound_store_def list_all_iff)
    then obtain x' where x': "x' \<in> set (runs s)" "rr_id x' = c_run_id c" "sn_version x \<le> rr_version x'"
        "sn_event_sequence x \<le> last_sequence (c_run_id c) s" "inj_on rr_id (set (runs s))"
      using \<open>sn_run_id x = c_run_id c\<close> by (auto simp: sound_snapshot_def distinct_map)
    have "x' = r" by (rule inj_onD [OF x'(5) _ x'(1) ids(4)]) (simp add: x' ids)
    with x' have "sn_event_sequence x \<le> last_sequence (c_run_id c) s" "sn_version x \<le> rr_version r" by simp_all
    then show ?thesis using stored_sequence [OF e(1), of s] ident by simp
  qed
  moreover have "check_persist a = Inr ()"
    using sha e(1) ident snap calculation(2) by (auto simp: check_persist_def outcome_simps split: option.splits)
  ultimately show ?thesis
    unfolding committable_def Let_def closing_def
    using new i r ident so st e encoded cl dw fr snap tid c(4,5) dr(3,4)
    by (auto simp: check_dispatch_def sound_run_def image_iff split: option.splits)
qed

lemma enabled_executes:
  assumes plan: "plan_apply rt dr c (rt_digest rt (command_payload c)) i r s = Inr a"
    and rt: "rt_workflow rt = incident_response" and sound: "sound_store s"
    and i: "get_incident (c_incident_id c) s = Some i" and r: "get_for_incident (c_run_id c) (c_incident_id c) s = Some r"
    and new: "command_lookup rt c s = Inr None" and sha: "sha256_hex (rt_digest rt (command_payload c))"
    and c: "clean_command c" "c_extra_events c = []" "c_contexts c = []" "c_dispatch_id c = None"
      "c_transition_id c \<noteq> ''close_incident''"
    and dr: "clean_draws dr" "fresh_draws dr s" "ir_created_at i \<le> d_now dr" "rr_created_at r \<le> d_now dr"
    and ap: "get (ir_state i) ''approvals'' = JNull \<or> is_list (get (ir_state i) ''approvals'')"
  shows "execute rt dr c s = Inr (result_of a i r s, written a i r [] [] s)"
proof -
  have "committable a i r s"
    using plan rt sound i r new [unfolded command_lookup_def] sha c dr ap by (rule planned_committable)
  then show ?thesis
    using plan i r new persist_succeeds [of a i r s "d_token dr"]
    by (simp add: execute_def Let_def command_lookup_def apply_command_def)
qed

section \<open>An approved mitigation\<close>

definition approve_command :: incident_command where
  "approve_command = \<lparr>c_command_id = ''cmd_2'', c_incident_id = ''inc_1'', c_run_id = ''run_1'',
     c_transition_id = ''apply_mitigation'', c_actor = ''human'', c_actor_reference = Some ana, c_outcome = None,
     c_approval = True, c_expected_incident_version = Some 4, c_dispatch_id = None, c_turn_id = None,
     c_inputs = None, c_extra_events = [], c_contexts = [], c_execution = None\<rparr>"

definition mitigating_incident :: incident_record where
  "mitigating_incident = \<lparr>ir_id = ''inc_1'', ir_state = dict [(''workflow_id'', JStr ''incident-response''),
     (''workflow_version'', JStr ''1.0.0''), (''state'', JStr ''mitigating''), (''severity'', JStr ''sev2''),
     (''mitigation_strategy'', JObj (dict [(''mitigation_id'', JStr ''mit_1''), (''approval_status'', JStr ''pending'')]))],
     ir_version = 4, ir_created_at = sample_time, ir_updated_at = sample_time\<rparr>"

definition mitigating_run :: run_record where
  "mitigating_run = \<lparr>rr_id = ''run_1'', rr_incident_id = ''inc_1'', rr_state = dict [(''workflow_version'', JStr ''1.0.0''),
     (''current_state'', JStr ''mitigating''), (''status'', JStr ''awaiting_human'')], rr_version = 2,
     rr_created_at = sample_time, rr_updated_at = sample_time\<rparr>"

definition mitigating_store :: store where
  "mitigating_store = empty_store\<lparr>incidents := [mitigating_incident], runs := [mitigating_run]\<rparr>"

definition apply_edge :: transition where
  "apply_edge = \<lparr>t_id = ''apply_mitigation'', t_source = ''mitigating'', t_target = ''verifying'',
     t_actors = {''human''}, t_requires_approval = True, t_decision_point = Some ''mitigation_approval'',
     t_outcomes = [''approve''], t_records_decision = True, t_records_approval = True\<rparr>"

lemma find_apply: "workflow_transition incident_response ''apply_mitigation'' = Inr apply_edge"
  by (simp add: workflow_transition_def pinned_lookup pinned_simps apply_edge_def)

lemma approve_checks:
  "assert_supported_state incident_response (ir_state mitigating_incident) (rr_state mitigating_run) = Inr ()"
  "validate approve_command apply_edge (ir_state mitigating_incident) 4 = Inr ()"
  by (simp_all add: check_simps mitigating_incident_def mitigating_run_def incident_response_states_def ana_def
      approve_command_def apply_edge_def Let_def inputs_of_def artifact_id_def after_prefix_def)

lemma plan_succeeds:
  assumes "assert_supported_state (rt_workflow rt) (ir_state i) (rr_state r) = Inr ()"
    and "workflow_transition (rt_workflow rt) (c_transition_id c) = Inr t" and "validate c t (ir_state i) (ir_version i) = Inr ()"
    and "t_id t \<noteq> ''close_incident''" and "reduce (rt_workflow rt) dr c t (ir_state i) (rr_state r) = Inr (istate, rstate)"
    and "decision_document (rt_workflow rt) dr c t (ir_state i) None = Inr document"
  obtains a where "plan_apply rt dr c sha i r s = Inr a" and "pa_incident_state a = istate" and "pa_run_state a = rstate"
  using assms by (simp add: plan_apply_def Let_def)

lemma approve_reduce:
  obtains istate rstate where "reduce incident_response example_draws approve_command apply_edge
      (ir_state mitigating_incident) (rr_state mitigating_run) = Inr (istate, rstate)"
    and "get istate ''state'' = JStr ''verifying''"
  by (simp add: reduce_simps Let_def approve_command_def apply_edge_def mitigating_incident_def mitigating_run_def
      outcome_or_first_def approval_status_def obj_item_def item_def)

lemma approve_document:
  obtains document where "decision_document incident_response example_draws approve_command apply_edge
      (ir_state mitigating_incident) None = Inr document"
  by (simp add: reduce_simps Let_def approve_command_def apply_edge_def mitigating_incident_def obj_item_def item_def)

lemma approve_rows:
  "get_incident ''inc_1'' mitigating_store = Some mitigating_incident"
  "get_for_incident ''run_1'' ''inc_1'' mitigating_store = Some mitigating_run"
  "get_transition iid cid sha mitigating_store = Inr None" "fresh_draws dr mitigating_store" "sound_store mitigating_store"
  by (simp_all add: mitigating_store_def empty_store_def get_incident_def get_for_incident_def get_transition_def
      select_one_def mitigating_incident_def mitigating_run_def fresh_draws_def get_decision_def sound_store_def
      sound_incident_def sound_run_def jsonb_ok_upd)

lemma approve_plan:
  obtains a where "plan_apply example_runtime example_draws approve_command sha mitigating_incident mitigating_run mitigating_store = Inr a"
    and "get (pa_incident_state a) ''state'' = JStr ''verifying''"
proof -
  obtain istate rstate where r: "reduce incident_response example_draws approve_command apply_edge
      (ir_state mitigating_incident) (rr_state mitigating_run) = Inr (istate, rstate)"
    "get istate ''state'' = JStr ''verifying''" by (rule approve_reduce)
  obtain document where d: "decision_document incident_response example_draws approve_command apply_edge
      (ir_state mitigating_incident) None = Inr document" by (rule approve_document)
  have w: "rt_workflow example_runtime = incident_response" by (simp add: example_runtime_def)
  obtain a where "plan_apply example_runtime example_draws approve_command sha mitigating_incident mitigating_run mitigating_store = Inr a"
      "pa_incident_state a = istate"
  proof (rule plan_succeeds [of example_runtime mitigating_incident mitigating_run approve_command apply_edge example_draws
        istate rstate document sha mitigating_store])
    show "workflow_transition (rt_workflow example_runtime) (c_transition_id approve_command) = Inr apply_edge"
      by (simp add: w find_apply approve_command_def)
    show "validate approve_command apply_edge (ir_state mitigating_incident) (ir_version mitigating_incident) = Inr ()"
      using approve_checks(2) by (simp add: mitigating_incident_def)
    show "t_id apply_edge \<noteq> ''close_incident''" by (simp add: apply_edge_def)
  qed (simp_all add: w r d approve_checks)
  with that r(2) show thesis by blast
qed

lemma approve_clean: "clean_command approve_command" "clean_draws example_draws"
  by (simp_all add: clean_command_def approve_command_def fits_length inputs_of_def jsonb_ok_upd ana_def actor_json_def
      actor_dict_def fits_opt_def clean_draws_def example_draws_def)

lemma approve_executes:
  obtains r s' where "execute example_runtime example_draws approve_command mitigating_store = Inr (r, s')"
    and "tr_incident r \<in> set (incidents s')" and "get (ir_state (tr_incident r)) ''state'' = JStr ''verifying''"
proof -
  obtain a where a: "plan_apply example_runtime example_draws approve_command
      (rt_digest example_runtime (command_payload approve_command)) mitigating_incident mitigating_run mitigating_store = Inr a"
      "get (pa_incident_state a) ''state'' = JStr ''verifying''" by (rule approve_plan)
  have id: "c_incident_id approve_command = ''inc_1''" "c_run_id approve_command = ''run_1''"
    by (simp_all add: approve_command_def)
  have "execute example_runtime example_draws approve_command mitigating_store =
      Inr (result_of a mitigating_incident mitigating_run mitigating_store,
           written a mitigating_incident mitigating_run [] [] mitigating_store)"
    by (rule enabled_executes [OF a(1)])
       (simp_all add: approve_clean approve_rows id command_lookup_def,
        simp_all add: example_runtime_def approve_command_def mitigating_incident_def mitigating_run_def example_draws_def
          sha256_hex_def hex_char_def list_all_iff less_eq_char_def)
  moreover have "pa_incident_id a = ''inc_1''" "pa_expected_incident_version a = 4"
    using plan_apply_identity [OF a(1)] by (simp_all add: id mitigating_incident_def)
  ultimately show thesis
    using that a(2)
    by (simp add: result_of_def next_incident_def written_def update_where_def mitigating_store_def)
       (simp add: mitigating_incident_def)
qed

lemma approve_enabled:
  "rt_workflow example_runtime = incident_response"
  "sha256_hex (rt_digest example_runtime (command_payload approve_command))"
  "ir_created_at mitigating_incident \<le> d_now example_draws" "rr_created_at mitigating_run \<le> d_now example_draws"
  "get (ir_state mitigating_incident) ''approvals'' = JNull"
  by (simp_all add: example_runtime_def approve_command_def mitigating_incident_def mitigating_run_def example_draws_def
      sha256_hex_def hex_char_def list_all_iff less_eq_char_def)

section \<open>The property\<close>

text \<open>
  C6. In every store the program can reach, a command that does not close the incident, opens no
  dispatch and brings no events or turn contexts of its own commits as soon as it passes the checks of the
  runtime: nothing but those checks, an identifier already in use, a text PostgreSQL cannot store or a
  clock behind the rows keeps it from taking effect. The incident it returns is the stored one, one
  version on, in the state the command planned. A close, which also leaves a memory behind,
  and a command with a dispatch, with extra events or with contexts are not covered.
\<close>

theorem enabled_command_commits:
  assumes "sound_store s0" and "reach rt s0 s" and "rt_workflow rt = incident_response"
    and "get_incident (c_incident_id c) s = Some i" and "get_for_incident (c_run_id c) (c_incident_id c) s = Some r"
    and "plan_apply rt dr c (rt_digest rt (command_payload c)) i r s = Inr a"
    and "command_lookup rt c s = Inr None" and "sha256_hex (rt_digest rt (command_payload c))"
    and "clean_command c" and "c_extra_events c = []" and "c_contexts c = []" and "c_dispatch_id c = None"
    and "c_transition_id c \<noteq> ''close_incident''"
    and "clean_draws dr" and "fresh_draws dr s" and "ir_created_at i \<le> d_now dr" and "rr_created_at r \<le> d_now dr"
    and "get (ir_state i) ''approvals'' = JNull \<or> is_list (get (ir_state i) ''approvals'')"
  shows "\<exists>result s'. execute rt dr c s = Inr (result, s') \<and> \<not> tr_replayed result \<and>
     get_incident (c_incident_id c) s' = Some (tr_incident result) \<and>
     ir_version (tr_incident result) = ir_version i + 1 \<and> ir_state (tr_incident result) = pa_incident_state a \<and>
     get_for_incident (c_run_id c) (c_incident_id c) s' = Some (tr_run result) \<and> length (tr_events result) = 1"
proof -
  have sound: "sound_store s" by (rule soundness.reaches [OF assms(2,1)])
  note ident = plan_apply_identity [OF assms(6)]
  have "execute rt dr c s = Inr (result_of a i r s, written a i r [] [] s)"
    by (rule enabled_executes [OF assms(6,3) sound assms(4,5,7-18)])
  moreover have "get_incident (c_incident_id c) (written a i r [] [] s) = Some (next_incident a i)"
    using assms(4) ident(3,5) by (simp add: get_incident_def written_def select_one_update_where next_incident_def)
  moreover have "get_for_incident (c_run_id c) (c_incident_id c) (written a i r [] [] s) = Some (next_run a r)"
    using assms(5) ident(3,4,6) by (simp add: get_for_incident_def written_def select_one_update_where next_run_def)
  moreover have "length (pa_events a) = 1" using assms(6,10) by (auto elim!: plan_apply_Inr)
  ultimately show ?thesis using ident(5) by (simp add: result_of_def next_incident_def stored_events_def)
qed

theorem enabled_command_commits_witness:
  "\<exists>result s'. execute example_runtime example_draws approve_command mitigating_store = Inr (result, s') \<and>
     \<not> tr_replayed result \<and> ir_version (tr_incident result) = 5 \<and>
     get (ir_state (tr_incident result)) ''state'' = JStr ''verifying''"
proof -
  obtain a where a: "plan_apply example_runtime example_draws approve_command
      (rt_digest example_runtime (command_payload approve_command)) mitigating_incident mitigating_run mitigating_store = Inr a"
      "get (pa_incident_state a) ''state'' = JStr ''verifying''" by (rule approve_plan)
  have c: "c_incident_id approve_command = ''inc_1''" "c_run_id approve_command = ''run_1''" "c_extra_events approve_command = []"
      "c_contexts approve_command = []" "c_dispatch_id approve_command = None" "c_transition_id approve_command \<noteq> ''close_incident''"
    by (simp_all add: approve_command_def)
  have "ir_version mitigating_incident + 1 = 5" by (simp add: mitigating_incident_def)
  then show ?thesis
    using enabled_command_commits [of mitigating_store example_runtime mitigating_store approve_command mitigating_incident
        mitigating_run example_draws a] a c approve_rows approve_enabled approve_clean reach.idle
    by (auto simp: command_lookup_def)
qed

end
