(* ===== verification/Guarantees.thy ===== *)
theory Guarantees
  imports Liveness
begin

text \<open>
  What the incident plane guarantees over any sequence of operations, with other processes between
  the read and the write of a command: the state of an incident moves only along the edges of the
  workflow and never leaves a final one, what was decided stays on record, a command takes effect
  at most once, and a command planned on a superseded incident is refused.
\<close>

section \<open>States move along the workflow\<close>

definition edge :: "workflow \<Rightarrow> json \<Rightarrow> json \<Rightarrow> bool" where
  "edge w x y = (\<exists>tid t. workflow_transition w tid = Inr t \<and> x = JStr (t_source t) \<and> y = JStr (t_target t))"

definition state_of :: "string \<Rightarrow> store \<Rightarrow> json option" where
  "state_of iid s = map_option (\<lambda>i. get (ir_state i) ''state'') (get_incident iid s)"

definition moved :: "runtime \<Rightarrow> string \<Rightarrow> json \<Rightarrow> store \<Rightarrow> bool" where
  "moved rt iid x s = (\<exists>y. state_of iid s = Some y \<and> (edge (rt_workflow rt))\<^sup>*\<^sup>* x y)"

lemma moved_same: "moved rt iid x s \<Longrightarrow> state_of iid s' = state_of iid s \<Longrightarrow> moved rt iid x s'"
  by (simp add: moved_def)

lemma state_of_update:
  assumes "\<And>r. ir_id (f r) = ir_id r" and "\<And>r. get (ir_state (f r)) ''state'' = get (ir_state r) ''state''"
  shows "state_of x (s\<lparr>incidents := update_where (\<lambda>r. ir_id r = iid) f (incidents s)\<rparr>) = state_of x s"
proof (cases "x = iid")
  case True
  then show ?thesis
    using assms by (simp add: state_of_def get_incident_def select_one_update_where option.map_comp o_def)
next
  case False
  then show ?thesis
    using assms by (simp add: state_of_def get_incident_def) (subst select_one_update_other; auto)
qed

lemma moved_written:
  assumes "moved rt iid x s" and "commit_step rt a i r memories s"
  shows "moved rt iid x (written a i r contexts memories s)"
proof (cases "iid = pa_incident_id a")
  case False
  then have "get_incident iid (written a i r contexts memories s) = get_incident iid s"
    by (simp add: get_incident_def written_def) (subst select_one_update_other; auto)
  then show ?thesis using assms(1) by (simp add: moved_def state_of_def)
next
  case True
  obtain dr c sha r0 sx where plan: "plan_apply rt dr c sha i r0 sx = Inr a" and i: "get_incident (pa_incident_id a) s = Some i"
    using assms(2) unfolding commit_step_def by blast
  from plan obtain t rstate where t: "workflow_transition (rt_workflow rt) (c_transition_id c) = Inr t"
    and val: "validate c t (ir_state i) (ir_version i) = Inr ()"
    and red: "reduce (rt_workflow rt) dr c t (ir_state i) (rr_state r0) = Inr (pa_incident_state a, rstate)"
    by (elim plan_apply_Inr) simp
  have "edge (rt_workflow rt) (get (ir_state i) ''state'') (get (pa_incident_state a) ''state'')"
    unfolding edge_def using t validated_source [OF val] reduced_state(1) [OF red] by blast
  moreover have "state_of iid s = Some (get (ir_state i) ''state'')" using True i by (simp add: state_of_def)
  moreover have "state_of iid (written a i r contexts memories s) = Some (get (pa_incident_state a) ''state'')"
    using True i by (simp add: state_of_def get_incident_def written_def select_one_update_where)
  ultimately show ?thesis
    using assms(1) unfolding moved_def by (auto intro: rtranclp.rtrancl_into_rtrancl)
qed

interpretation movement: store_invariant rt "moved rt iid x" for rt iid x
proof
  fix s and row :: incident_record
  assume "moved rt iid x s"
  then show "moved rt iid x (s\<lparr>incidents := incidents s @ [row]\<rparr>)"
    by (auto simp: moved_def state_of_def get_incident_def select_one_append)
next
  fix s a i r memories contexts
  assume "moved rt iid x s" "commit_step rt a i r memories s"
  then show "moved rt iid x (written a i r contexts memories s)" by (rule moved_written)
next
  fix s p iid' at_time
  assume m: "moved rt iid x s" and keys: "keys_exactly p [''hypotheses'', ''evidence'']"
  have "get (d ++\<^sub>f p) ''state'' = get d ''state''" for d
    using keys by (auto simp: get_add keys_exactly_def)
  then show "moved rt iid x (incident_patched iid' at_time (Some p) s)"
    using m unfolding incident_patched_def by (intro moved_same [OF m]) (simp, subst state_of_update; simp)
qed (auto elim!: moved_same simp: state_of_def get_incident_def recorded_def run_patched_def same_core_def)

lemma edge_source_pinned: "edge incident_response x y \<Longrightarrow> x \<notin> JStr ` {''dismissed'', ''linked'', ''closed''}"
  unfolding edge_def workflow_transition_pinned_iff
  by (auto simp: pinned_simps)

lemma terminal_path: "(edge incident_response)\<^sup>*\<^sup>* x y \<Longrightarrow> x \<in> JStr ` {''dismissed'', ''linked'', ''closed''} \<Longrightarrow> y = x"
  by (induction rule: converse_rtranclp_induct) (auto dest: edge_source_pinned)

text \<open>
  C2. Whatever the program does, the state of an incident moves only along transitions of its
  workflow: between any two moments the later state is reachable from the earlier one by edges,
  and an incident dismissed, linked or closed stays so for ever.
\<close>

theorem state_moves_along_workflow:
  assumes "reach rt s s'" and "get_incident iid s = Some i"
  shows "\<exists>i'. get_incident iid s' = Some i' \<and>
     (edge (rt_workflow rt))\<^sup>*\<^sup>* (get (ir_state i) ''state'') (get (ir_state i') ''state'') \<and>
     (rt_workflow rt = incident_response \<and> str_in (get (ir_state i) ''state'') [''dismissed'', ''linked'', ''closed''] \<longrightarrow>
        get (ir_state i') ''state'' = get (ir_state i) ''state'')"
proof -
  have "moved rt iid (get (ir_state i) ''state'') s" using assms(2) by (simp add: moved_def state_of_def)
  with assms(1) have "moved rt iid (get (ir_state i) ''state'') s'" by (rule movement.reaches)
  then obtain i' where i': "get_incident iid s' = Some i'"
      "(edge (rt_workflow rt))\<^sup>*\<^sup>* (get (ir_state i) ''state'') (get (ir_state i') ''state'')"
    by (auto simp: moved_def state_of_def)
  moreover have "get (ir_state i') ''state'' = get (ir_state i) ''state''"
    if "rt_workflow rt = incident_response" "str_in (get (ir_state i) ''state'') [''dismissed'', ''linked'', ''closed'']"
    using terminal_path [of "get (ir_state i) ''state''"] i'(2) that by (auto simp: str_in_iff)
  ultimately show ?thesis by blast
qed

theorem state_moves_along_workflow_witness:
  "\<exists>r s' i'. execute example_runtime example_draws approve_command mitigating_store = Inr (r, s') \<and>
     get_incident ''inc_1'' s' = Some i' \<and>
     (edge incident_response)\<^sup>*\<^sup>* (JStr ''mitigating'') (get (ir_state i') ''state'')"
proof -
  obtain r s' where e: "execute example_runtime example_draws approve_command mitigating_store = Inr (r, s')"
    by (rule approve_executes)
  have "reach example_runtime mitigating_store s'" by (rule reach_execute [OF reach.idle e])
  from state_moves_along_workflow [OF this approve_rows(1)] e show ?thesis
    by (auto simp: approve_enabled(1) mitigating_incident_def)
qed

section \<open>What was approved\<close>

text \<open>
  C1. Human approval cannot be bypassed: in every store the program can reach, an incident that is
  being verified or is past that has a mitigation marked approved, and a decision on record by
  which a named person approved exactly that mitigation; a closed one has a person's decision
  approving the close, naming a postmortem version that a review approved, and is remembered.
\<close>

theorem approval_not_bypassed:
  assumes "governed s0" and "reach rt s0 s" and "rt_workflow rt = incident_response" and "i \<in> set (incidents s)"
  shows "(str_in (get (ir_state i) ''state'') APPROVED_STATES \<longrightarrow> approved_mitigation i s) \<and>
     (get (ir_state i) ''state'' = JStr ''closed'' \<longrightarrow> reviewed_close i s)"
  using governance.reaches [OF assms(2)] assms unfolding governed_def governed_incident_def by blast

theorem approval_not_bypassed_witness:
  "\<exists>r s'. execute example_runtime example_draws approve_command mitigating_store = Inr (r, s') \<and>
     get (ir_state (tr_incident r)) ''state'' = JStr ''verifying'' \<and> approved_mitigation (tr_incident r) s'"
proof -
  obtain r s' where e: "execute example_runtime example_draws approve_command mitigating_store = Inr (r, s')"
    and i: "tr_incident r \<in> set (incidents s')" "get (ir_state (tr_incident r)) ''state'' = JStr ''verifying''"
    by (rule approve_executes)
  have g: "governed mitigating_store"
    by (simp add: governed_def governed_incident_def mitigating_store_def mitigating_incident_def APPROVED_STATES_def)
  have "approved_mitigation (tr_incident r) s'"
    using approval_not_bypassed [OF g reach_execute [OF reach.idle e] approve_enabled(1) i(1)] i(2)
    by (simp add: APPROVED_STATES_def)
  with e i show ?thesis by blast
qed

section \<open>What is on record stays\<close>

text \<open>
  C20. The record is append-only: decisions, events, snapshots, turn contexts, committed commands,
  postmortem revisions and reviews, and memories are only ever added to, in order; no incident or
  run disappears, an incident's version grows with every change of its row and a run's never falls.
\<close>

theorem record_append_only:
  assumes "reach rt s s'"
  shows "extends (decisions s) (decisions s') \<and> extends (run_events s) (run_events s') \<and>
     extends (snapshots s) (snapshots s') \<and> extends (text_context s) (text_context s') \<and>
     extends (transition_commits s) (transition_commits s') \<and>
     extends (postmortem_revisions s) (postmortem_revisions s') \<and> extends (postmortem_reviews s) (postmortem_reviews s') \<and>
     extends (incident_memories s) (incident_memories s') \<and>
     (\<forall>iid i. get_incident iid s = Some i \<longrightarrow>
        (\<exists>i'. get_incident iid s' = Some i' \<and> (i' = i \<or> ir_version i < ir_version i'))) \<and>
     (\<forall>rid iid r. get_for_incident rid iid s = Some r \<longrightarrow>
        (\<exists>r'. get_for_incident rid iid s' = Some r' \<and> rr_version r \<le> rr_version r'))"
  using reach_history [OF assms] unfolding history_def incidents_kept_def runs_kept_def .

theorem record_append_only_witness:
  "\<exists>r s'. execute example_runtime example_draws open_command example_store = Inr (r, s') \<and>
     length (run_events s') = 1 \<and> extends (run_events example_store) (run_events s') \<and>
     extends (decisions example_store) (decisions s')"
proof -
  obtain r s' where e: "execute example_runtime example_draws open_command example_store = Inr (r, s')"
    and "length (run_events s') = 1" by (rule example_executes)
  with record_append_only [OF reach_execute [OF reach.idle e]] show ?thesis by blast
qed

section \<open>Commands take effect once\<close>

lemma reach_commits_grow: "reach rt s s' \<Longrightarrow> commits_grow s s'"
  using reach_history unfolding history_def commits_grow_def extends_def by blast

text \<open>
  C3. A command that committed is idempotent for ever: sent again after any later operations it
  returns what it committed, marked as replayed, and changes nothing; another request under its
  identifier is refused.
\<close>

theorem command_idempotent:
  assumes "execute rt dr c s = Inr (r, s1)" and "command_lookup rt c s = Inr None" and "valid_result r" and "reach rt s1 s2"
  shows "execute rt dr' c s2 = Inr (r\<lparr>tr_replayed := True\<rparr>, s2) \<and>
     (same_command c c' \<and> \<not> same_digest rt c c' \<longrightarrow> (\<exists>e. execute rt dr' c' s2 = Inl e))"
  using commands.retry_later [OF assms(1-3) reach_commits_grow [OF assms(4)]]
    commands.reuse_later [OF assms(1-3) reach_commits_grow [OF assms(4)]] by blast

theorem command_idempotent_witness:
  "\<exists>r s'. execute example_runtime example_draws open_command example_store = Inr (r, s') \<and> \<not> tr_replayed r \<and>
     execute example_runtime example_draws open_command s' = Inr (r\<lparr>tr_replayed := True\<rparr>, s') \<and>
     (\<exists>e. execute example_runtime example_draws (open_command\<lparr>c_transition_id := ''triage_dismiss''\<rparr>) s' = Inl e)"
proof -
  obtain r s' where e: "execute example_runtime example_draws open_command example_store = Inr (r, s')"
      "command_lookup example_runtime open_command example_store = Inr None" "valid_result r" "\<not> tr_replayed r"
    by (rule example_executes)
  let ?c' = "open_command\<lparr>c_transition_id := ''triage_dismiss''\<rparr>"
  have "same_command open_command ?c'" "\<not> same_digest example_runtime open_command ?c'"
    by (simp_all add: same_command_def same_digest_def example_runtime_def command_payload_def open_command_def
        replicate_eq_replicate)
  with command_idempotent [OF e(1-3) reach.idle, where c' = ?c'] e show ?thesis by blast
qed

section \<open>No lost update\<close>

text \<open>
  C4. A command planned on an incident that has changed since it was read is refused when it comes
  to write, whatever changed it, so no update is lost and of the commands planned on one version
  of an incident at most one takes effect.
\<close>

theorem superseded_plan_refused:
  assumes "reach rt s1 s" and "get_incident (c_incident_id c) s1 = Some i"
    and "plan_apply rt dr c sha i r s1 = Inr a" and "get_transition (c_incident_id c) (c_command_id c) sha s = Inr None"
    and "get_incident (c_incident_id c) s \<noteq> Some i"
  shows "\<exists>e. persist_transition token a s = Inl e"
proof (cases "persist_transition token a s")
  case (Inr x)
  obtain result s' where x: "persist_transition token a s = Inr (result, s')" using Inr by (cases x) simp
  have "get_incident (c_incident_id c) s = Some i"
    by (rule late_persist [OF assms(3) x refl refl reach_history [OF assms(1)] assms(2)])
       (use assms(4) plan_apply_identity(3) [OF assms(3)] in \<open>simp_all add: commit_step_def\<close>)
  with assms(5) show ?thesis by simp
qed simp

lemma command_id_irrelevant [simp]:
  "validate (c\<lparr>c_command_id := x\<rparr>) t state v = validate c t state v"
  "reduce w dr (c\<lparr>c_command_id := x\<rparr>) t old old_run = reduce w dr c t old old_run"
  "decision_document w dr (c\<lparr>c_command_id := x\<rparr>) t state reviewed = decision_document w dr c t state reviewed"
  by (simp_all add: validate_def check_actor_def check_review_def check_outcome_def validate_named_preconditions_def
      reduce_def reduce_incident_def reduce_patch_def reduce_identity_def reduce_triage_def reduce_mitigation_def
      decision_document_def approval_record_def decided_outcome_def inputs_of_def outcome_or_first_def approval_entry_def
      cong: option.case_cong if_cong)

theorem superseded_plan_refused_witness:
  "\<exists>a r s'. execute example_runtime example_draws open_command example_store = Inr (r, s') \<and>
     plan_apply example_runtime example_draws (open_command\<lparr>c_command_id := ''cmd_9''\<rparr>) (replicate 64 CHR ''c'')
       example_incident example_run example_store = Inr a \<and>
     (\<exists>e. persist_transition ''0123'' a s' = Inl e)"
proof -
  obtain r s' where e: "execute example_runtime example_draws open_command example_store = Inr (r, s')"
    and i: "get_incident ''inc_1'' s' = Some (tr_incident r)" "ir_version (tr_incident r) = 1"
    and commits: "map co_command_id (transition_commits s') = [''cmd_1'']"
    by (rule example_executes)
  let ?c = "open_command\<lparr>c_command_id := ''cmd_9''\<rparr>"
  have c: "c_incident_id ?c = ''inc_1''" "c_command_id ?c = ''cmd_9''" by (simp_all add: open_command_def)
  obtain istate rstate where red: "reduce incident_response example_draws open_command open_triage_edge
      (ir_state example_incident) (rr_state example_run) = Inr (istate, rstate)" by (rule example_reduce)
  obtain document where doc: "decision_document incident_response example_draws open_command open_triage_edge
      (ir_state example_incident) None = Inr document" by (rule example_document)
  obtain a where a: "plan_apply example_runtime example_draws ?c (replicate 64 CHR ''c'') example_incident example_run
      example_store = Inr a"
    by (rule plan_succeeds [where t = open_triage_edge and rt = example_runtime and c = ?c and i = example_incident
          and r = example_run and dr = example_draws and sha = "replicate 64 CHR ''c''" and s = example_store])
       (simp_all add: approve_enabled(1) red doc example_checks,
        simp_all add: open_command_def find_open_triage, simp_all add: open_triage_edge_def)
  have "get_transition ''inc_1'' ''cmd_9'' (replicate 64 CHR ''c'') s' = Inr None"
    using commits by (auto simp: get_transition_None command_row_def select_one_None)
  moreover have "get_incident ''inc_1'' s' \<noteq> Some example_incident" using i by (auto simp: example_incident_def)
  ultimately have "\<exists>e. persist_transition ''0123'' a s' = Inl e"
    using superseded_plan_refused [OF reach_execute [OF reach.idle e] _ a] example_rows(1) by (simp add: c)
  with e a show ?thesis by blast
qed

end
