(* ===== verification/Dispatch.thy ===== *)
theory Dispatch
  imports Guarantees
begin

text \<open>
  Dispatches of a run (\<^verbatim>\<open>claim_run_dispatch\<close>, \<^verbatim>\<open>complete_run_dispatch\<close> and the transition that ends
  one). A dispatch is claimed by one worker, has one outcome, and its bookkeeping never moves the
  workflow: the receipts in the run's log decide, and the log only grows.
\<close>

section \<open>Receipts in the log\<close>

lemma receipts_set:
  "set (dispatch_receipts rid s) =
     (\<lambda>e. get (ev_payload e) ''dispatch_receipt'') ` {e \<in> set (run_events s). ev_run_id e = rid \<and> ev_kind e = ''dispatch_receipt''}"
  by (auto simp: dispatch_receipts_def dispatch_events_def)

lemma receipts_grow: "extends (run_events s) (run_events s') \<Longrightarrow> set (dispatch_receipts rid s) \<subseteq> set (dispatch_receipts rid s')"
  unfolding receipts_set by (auto dest: extends_set)

definition ended :: "string \<Rightarrow> string \<Rightarrow> store \<Rightarrow> bool" where
  "ended dispatch rid s = list_ex (terminal_receipt dispatch) (dispatch_receipts rid s)"

definition begun :: "string \<Rightarrow> string \<Rightarrow> store \<Rightarrow> bool" where
  "begun dispatch rid s = list_ex (pending_receipt dispatch) (dispatch_receipts rid s)"

lemma reach_events: "reach rt s s' \<Longrightarrow> extends (run_events s) (run_events s')"
  using reach_history unfolding history_def by blast

lemma ended_stays: "ended dispatch rid s \<Longrightarrow> reach rt s s' \<Longrightarrow> ended dispatch rid s'"
  unfolding ended_def list_ex_iff using receipts_grow [OF reach_events] by blast

lemma begun_stays: "begun dispatch rid s \<Longrightarrow> reach rt s s' \<Longrightarrow> begun dispatch rid s'"
  unfolding begun_def list_ex_iff using receipts_grow [OF reach_events] by blast

text \<open>A receipt drafted among the events of a write is in the log after it.\<close>

lemma drafted_in_rows:
  assumes "x \<in> set (drafted_receipts p events)" and "\<And>e. get (ed_payload (f e)) ''dispatch_receipt'' = get (ed_payload e) ''dispatch_receipt''"
    and "\<And>e. ed_kind (f e) = ed_kind e" and "run_events s' = before @ event_rows iid rid n (map f events)"
  shows "x \<in> set (dispatch_receipts rid s') \<and> p x"
proof -
  obtain e where e: "e \<in> set events" "ed_kind e = ''dispatch_receipt''" "x = get (ed_payload e) ''dispatch_receipt''" "p x"
    using assms(1) by (auto simp: drafted_receipts_def)
  have "\<exists>m. event_row iid rid m (f e) \<in> set (event_rows iid rid n (map f events))"
    using e(1)
  proof (induction events arbitrary: n)
    case (Cons d ds)
    then show ?case by (cases "e = d") auto
  qed simp
  then obtain m where "event_row iid rid m (f e) \<in> set (run_events s')" using assms(4) by auto
  then have "get (ev_payload (event_row iid rid m (f e))) ''dispatch_receipt'' \<in> set (dispatch_receipts rid s')"
    unfolding receipts_set using e(2) assms(3) by (intro imageI) simp
  then show ?thesis using e assms(2) by simp
qed

lemma with_decision_receipt:
  "get (ed_payload (with_decision d e)) ''dispatch_receipt'' = get (ed_payload e) ''dispatch_receipt''"
  "ed_kind (with_decision d e) = ed_kind e" "ed_id (with_decision d e) = ed_id e"
  by (simp_all add: with_decision_def)

lemma recorded_receipt:
  assumes "x \<in> set (drafted_receipts p events)"
  shows "x \<in> set (dispatch_receipts rid (recorded iid rid d events s)) \<and> p x"
  by (rule drafted_in_rows [OF assms with_decision_receipt(1,2)]) (simp add: recorded_def)

lemma completed_ended:
  assumes "complete_run_dispatch iid rid a s = Inr (True, s')"
  shows "ended (dispatch_or_run (cp_dispatch_id a) rid) rid s'" and "\<not> ended (dispatch_or_run (cp_dispatch_id a) rid) rid s"
    and "begun (dispatch_or_run (cp_dispatch_id a) rid) rid s"
proof -
  from assms obtain i contexts where c: "completable iid rid a s"
    and s': "s' = recorded iid rid (cp_decision a) (cp_events a)
          ((run_patched iid rid (cp_run_patch a) (incident_patched iid (max_occurred (cp_events a)) (cp_incident_patch a) s))
           \<lparr>text_context := text_context s @ contexts\<rparr>)"
    by (cases rule: complete_run_dispatch_Inr) auto
  let ?p = "terminal_receipt (dispatch_or_run (cp_dispatch_id a) rid)"
  have "drafted_receipts ?p (cp_events a) \<noteq> []" using c by (auto simp: completable_def Let_def)
  then obtain x where "x \<in> set (drafted_receipts ?p (cp_events a))" by (cases "drafted_receipts ?p (cp_events a)") auto
  from recorded_receipt [OF this] show "ended (dispatch_or_run (cp_dispatch_id a) rid) rid s'"
    unfolding s' ended_def list_ex_iff by blast
  show "\<not> ended (dispatch_or_run (cp_dispatch_id a) rid) rid s" "begun (dispatch_or_run (cp_dispatch_id a) rid) rid s"
    using c by (simp_all add: completable_def Let_def ended_def begun_def)
qed

lemma rows_stay:
  assumes "reach rt s s'" and "lock_incident_run iid rid s = Inr x"
  shows "\<exists>y. lock_incident_run iid rid s' = Inr y"
proof -
  obtain i r where "get_incident iid s = Some i" "get_for_incident rid iid s = Some r"
    using assms(2) by (cases x) (auto simp: lock_incident_run_Inr)
  then obtain i' r' where "get_incident iid s' = Some i'" "get_for_incident rid iid s' = Some r'"
    using reach_history [OF assms(1)] unfolding history_def incidents_kept_def runs_kept_def by blast
  then show ?thesis by (auto simp: lock_incident_run_def)
qed

lemma complete_ended:
  assumes "ended (dispatch_or_run (cp_dispatch_id a) rid) rid s" and "lock_incident_run iid rid s = Inr x"
  shows "complete_run_dispatch iid rid a s = Inr (False, s)"
  using assms by (cases x) (simp add: complete_run_dispatch_def Let_def ended_def)

lemma claim_ended:
  assumes "ended (dispatch_or_run (ca_dispatch_id ca) rid) rid s" and "claim_run_dispatch iid rid ca u s = Inr (answer, u', s')"
  shows "answer = Active \<or> answer = Complete"
proof -
  let ?d = "dispatch_or_run (ca_dispatch_id ca) rid"
  have "list_ex (terminal_receipt ?d) (claim_receipts ?d rid s)"
    using assms(1) by (auto simp: ended_def claim_receipts_def list_ex_iff terminal_receipt_def receipt_is_def)
  moreover have "claim_receipts ?d rid (s\<lparr>advisory_locks := l\<rparr>) = claim_receipts ?d rid s" for l
    by (simp add: claim_receipts_def dispatch_receipts_def dispatch_events_def)
  ultimately show ?thesis
    using assms(2) by (auto simp: claim_run_dispatch_def Let_def outcome_simps split: if_splits)
qed

lemma transition_ended:
  assumes "ended dispatch (pa_run_id p) s" and "pa_dispatch_id p = Some dispatch"
    and "persist_transition token p s = Inr (r, s')"
  shows "get_transition (pa_incident_id p) (pa_command_id p) (pa_payload_sha256 p) s = Inr (Some r) \<and> s' = s"
  using assms(3)
proof (cases rule: persist_transition_Inr)
  case committed
  with assms(1,2) show ?thesis by (simp add: check_dispatch_def ended_def outcome_simps Let_def)
qed simp

lemma complete_locked: "complete_run_dispatch iid rid a s = Inr (d, s') \<Longrightarrow> \<exists>x. lock_incident_run iid rid s = Inr x"
  unfolding complete_run_dispatch_def Let_def outcome_simps by blast

lemma complete_reach: "complete_run_dispatch iid rid a s = Inr (d, s') \<Longrightarrow> reach rt s s'"
  by (rule reach.completed [OF reach.idle])

section \<open>A concrete dispatch\<close>

definition receipt :: "string \<Rightarrow> string \<Rightarrow> string \<Rightarrow> dict" where
  "receipt dispatch phase status = dict [(''dispatch_receipt'', JObj (dict [(''dispatch_id'', JStr dispatch),
     (''phase'', JStr phase), (''status'', JStr status)]))]"

definition receipt_event :: "string \<Rightarrow> string \<Rightarrow> string \<Rightarrow> event_draft" where
  "receipt_event eid phase status = \<lparr>ed_id = eid, ed_kind = ''dispatch_receipt'', ed_payload = receipt ''run_1'' phase status,
     ed_occurred_at = sample_time, ed_turn_id = None\<rparr>"

definition dispatch_decision :: "string \<Rightarrow> decision_draft" where
  "dispatch_decision did = \<lparr>dd_id = did, dd_document = fmempty, dd_decided_at = sample_time, dd_run_id = Some ''run_1'',
     dd_turn_id = None\<rparr>"

definition example_claim :: claim_args where
  "example_claim = \<lparr>ca_intent_decision = dispatch_decision ''dec_1'', ca_intent_event = receipt_event ''evt_1'' ''intent'' ''pending'',
     ca_interrupted_decision = dispatch_decision ''dec_2'', ca_interrupted_event = receipt_event ''evt_2'' ''outcome'' ''unknown'',
     ca_interrupted_termination = None, ca_dispatch_id = None\<rparr>"

definition example_completion :: complete_args where
  "example_completion = \<lparr>cp_decision = dispatch_decision ''dec_3'', cp_events = [receipt_event ''evt_3'' ''outcome'' ''success''],
     cp_expected_incident_version = None, cp_incident_patch = None, cp_run_patch = None, cp_contexts = [], cp_dispatch_id = None\<rparr>"

definition idle_unit :: unit_of_work where
  "idle_unit = \<lparr>u_connected = False, u_lock_held = None\<rparr>"

definition claimed_store :: store where
  "claimed_store = recorded ''inc_1'' ''run_1'' (dispatch_decision ''dec_1'') [receipt_event ''evt_1'' ''intent'' ''pending'']
     (with_lock ''inc_1'' ''run_1'' example_store)"

definition completed_store :: store where
  "completed_store = recorded ''inc_1'' ''run_1'' (dispatch_decision ''dec_3'') [receipt_event ''evt_3'' ''outcome'' ''success''] claimed_store"

lemma example_receipt: "ed_kind (receipt_event eid phase status) = ''dispatch_receipt''"
  "ed_payload (receipt_event eid phase status) = receipt ''run_1'' phase status" "ed_id (receipt_event eid phase status) = eid"
  "ed_occurred_at (receipt_event eid phase status) = sample_time" "ed_turn_id (receipt_event eid phase status) = None"
  by (simp_all add: receipt_event_def)

lemma example_receipts:
  "get (receipt d phase status) ''dispatch_receipt'' = JObj (dict [(''dispatch_id'', JStr d), (''phase'', JStr phase), (''status'', JStr status)])"
  "''decision_id'' \<notin> fmdom' (receipt d phase status)"
  by (simp_all add: receipt_def)

lemma append_succeeds:
  assumes "dd_run_id d = Some rid" and "list_all (\<lambda>e. ed_kind e \<in> set kinds) events" and "events \<noteq> []"
    and "jsonb_ok (JObj (dd_document d))" "fits 64 (dd_id d)" "fits_opt 64 (dd_turn_id d)" "get_decision (dd_id d) s = None"
    and "list_all (\<lambda>e. storable_draft (with_decision (dd_id d) e)) events" "distinct (map ed_id events)"
    and "\<forall>e\<in>set (run_events s). ev_id e \<notin> ed_id ` set events"
    and "get_incident iid s = Some i" "get_for_incident rid iid s = Some r"
    and "\<forall>r\<in>set (runs s). rr_id r = rid \<longrightarrow> rr_created_at r \<le> max_occurred events"
  shows "\<exists>stored. append_run_events kinds iid rid d events s = Inr (stored, recorded iid rid d events s)"
proof -
  define s1 where "s1 = s\<lparr>decisions := decisions s @ [decision_row iid (Some rid) d]\<rparr>"
  have dec: "insert_decision iid (Some rid) d s = Inr s1"
    using assms by (simp add: insert_decision_def jsonb_stores s1_def decision_row_def)
  have ids: "ed_id ` set (map (with_decision (dd_id d)) events) = ed_id ` set events"
      "map ed_id (map (with_decision (dd_id d)) events) = map ed_id events"
    by (simp_all add: image_image with_decision_receipt o_def)
  have "insert_events iid rid (last_sequence rid s1 + 1) (map (with_decision (dd_id d)) events) s1 =
      Inr (event_rows iid rid (last_sequence rid s1 + 1) (map (with_decision (dd_id d)) events),
        s1\<lparr>run_events := run_events s1 @ event_rows iid rid (last_sequence rid s1 + 1) (map (with_decision (dd_id d)) events)\<rparr>)"
  proof (rule insert_events_succeeds)
    show "get_for_incident rid iid s1 = Some r" using assms(12) by (simp add: s1_def get_for_incident_def)
    show "\<forall>e\<in>set (run_events s1). ev_id e \<notin> ed_id ` set (map (with_decision (dd_id d)) events)"
      unfolding ids using assms(10) by (simp add: s1_def)
    show "\<forall>e\<in>set (run_events s1). ev_run_id e = rid \<longrightarrow> ev_sequence e < last_sequence rid s1 + 1"
      using last_sequence_ge(2) [of _ s1 rid] by force
    show "0 \<le> last_sequence rid s1 + 1" using last_sequence_ge(1) [of rid s1] by simp
    show "distinct (map ed_id (map (with_decision (dd_id d)) events))" unfolding ids by (rule assms(9))
  qed (use assms(8) in \<open>simp add: list_all_iff\<close>)
  moreover have "last_sequence rid s1 = last_sequence rid s" by (rule last_sequence_cong) (simp add: s1_def)
  moreover have "\<not> (\<exists>r\<in>set (runs s). rr_id r = rid \<and> max_occurred events < rr_created_at r)"
    using assms(13) by (auto simp: not_less)
  ultimately show ?thesis
    using assms(1-3) dec by (simp add: append_run_events_def list_all_iff touch_run_def recorded_def s1_def)
qed

lemma example_storable:
  "fits 64 eid \<Longrightarrow> CHR 0x00 \<notin> set did \<Longrightarrow> CHR 0x00 \<notin> set phase \<Longrightarrow> CHR 0x00 \<notin> set status \<Longrightarrow>
     storable_draft (with_decision did (receipt_event eid phase status))"
  by (simp add: with_decision_def example_receipts example_receipt storable_draft_def fits_length fits_opt_def receipt_def jsonb_ok_upd)

lemma claimed_rows:
  "get_incident ''inc_1'' claimed_store = Some example_incident"
  "get_for_incident ''run_1'' ''inc_1'' claimed_store = Some (example_run\<lparr>rr_updated_at := sample_time\<rparr>)"
  "map ev_id (run_events claimed_store) = [''evt_1'']" "map de_id (decisions claimed_store) = [''dec_1'']"
  "runs claimed_store = [example_run\<lparr>rr_updated_at := sample_time\<rparr>]"
  by (simp_all add: claimed_store_def recorded_def with_lock_def example_store_def empty_store_def get_incident_def
      get_for_incident_def select_one_def update_where_def example_incident_def example_run_def max_occurred_def
      example_receipt decision_row_def dispatch_decision_def with_decision_receipt)

lemma claimed_receipts: "dispatch_receipts ''run_1'' claimed_store = [get (receipt ''run_1'' ''intent'' ''pending'') ''dispatch_receipt'']"
  by (simp add: dispatch_receipts_def dispatch_events_def claimed_store_def recorded_def with_lock_def example_store_def
      empty_store_def with_decision_receipt example_receipt)

lemma example_claims:
  "claim_run_dispatch ''inc_1'' ''run_1'' example_claim idle_unit example_store =
     Inr (Claimed, \<lparr>u_connected = True, u_lock_held = Some (dispatch_lock_name ''inc_1'' ''run_1'')\<rparr>, claimed_store)"
proof -
  let ?s = "with_lock ''inc_1'' ''run_1'' example_store"
  have rows: "get_incident ''inc_1'' ?s = Some example_incident" "get_for_incident ''run_1'' ''inc_1'' ?s = Some example_run"
      "run_events ?s = []" "decisions ?s = []" "runs ?s = [example_run]" "advisory_locks example_store = []"
    by (simp_all add: with_lock_def example_store_def empty_store_def get_incident_def get_for_incident_def select_one_def
        example_incident_def example_run_def)
  have "\<exists>stored. append_run_events DISPATCH_EVENTS ''inc_1'' ''run_1'' (dispatch_decision ''dec_1'')
      [receipt_event ''evt_1'' ''intent'' ''pending''] ?s = Inr (stored, claimed_store)"
    unfolding claimed_store_def
    by (rule append_succeeds)
       (simp_all add: rows get_decision_def select_one_def dispatch_decision_def example_receipt DISPATCH_EVENTS_def fits_length
         fits_opt_def jsonb_ok_upd example_storable max_occurred_def example_run_def)
  then show ?thesis
    using rows
    by (auto simp: claim_run_dispatch_def example_claim_def idle_unit_def dispatch_or_run_def Let_def with_lock_def
        lock_incident_run_def claim_receipts_def dispatch_receipts_def dispatch_events_def)
qed

lemma example_completes: "complete_run_dispatch ''inc_1'' ''run_1'' example_completion claimed_store = Inr (True, completed_store)"
proof -
  have "\<exists>stored. append_run_events DISPATCH_EVENTS ''inc_1'' ''run_1'' (dispatch_decision ''dec_3'')
      [receipt_event ''evt_3'' ''outcome'' ''success''] claimed_store = Inr (stored, completed_store)"
    unfolding completed_store_def
  proof (rule append_succeeds)
    show "get_decision (dd_id (dispatch_decision ''dec_3'')) claimed_store = None"
      using claimed_rows(4) by (auto simp: get_decision_def select_one_None dispatch_decision_def)
    show "\<forall>e\<in>set (run_events claimed_store). ev_id e \<notin> ed_id ` set [receipt_event ''evt_3'' ''outcome'' ''success'']"
      using claimed_rows(3) by (auto simp: example_receipt)
  qed (simp_all add: claimed_rows dispatch_decision_def example_receipt DISPATCH_EVENTS_def fits_length
         fits_opt_def jsonb_ok_upd example_storable max_occurred_def example_run_def)
  then show ?thesis
    by (auto simp: complete_run_dispatch_def example_completion_def dispatch_or_run_def Let_def lock_incident_run_def claimed_rows
        claimed_receipts example_receipts terminal_receipt_def pending_receipt_def receipt_is_def drafted_receipts_def
        example_receipt TERMINAL_STATUSES_def RUN_PATCH_EVENTS_def append_contexts_def)
qed

section \<open>The properties\<close>

text \<open>
  C7. A dispatch has one outcome. Once completed, whatever happens later, completing it again
  answers false and changes nothing, claiming it never starts it again, and a transition made in
  its name is refused.
\<close>

theorem dispatch_outcome_final:
  assumes "complete_run_dispatch iid rid a s = Inr (True, s1)" and "reach rt s1 s2"
    and "dispatch_or_run (cp_dispatch_id a) rid = dispatch"
  shows "\<not> ended dispatch rid s \<and>
     (dispatch_or_run (cp_dispatch_id a') rid = dispatch \<longrightarrow> complete_run_dispatch iid rid a' s2 = Inr (False, s2)) \<and>
     (dispatch_or_run (ca_dispatch_id ca) rid = dispatch \<and> claim_run_dispatch iid rid ca u s2 = Inr (answer, u', s3) \<longrightarrow>
        answer = Active \<or> answer = Complete) \<and>
     (pa_run_id p = rid \<and> pa_dispatch_id p = Some dispatch \<and> persist_transition token p s2 = Inr (r, s4) \<longrightarrow>
        get_transition (pa_incident_id p) (pa_command_id p) (pa_payload_sha256 p) s2 = Inr (Some r) \<and> s4 = s2)"
proof -
  have ended: "ended dispatch rid s2" using ended_stays [OF completed_ended(1) [OF assms(1)] assms(2)] assms(3) by simp
  obtain x where "lock_incident_run iid rid s = Inr x" using complete_locked [OF assms(1)] by blast
  then obtain y where y: "lock_incident_run iid rid s2 = Inr y"
    using rows_stay reach_trans [OF assms(2) complete_reach [OF assms(1)]] by blast
  have "\<not> ended dispatch rid s" using completed_ended(2) [OF assms(1)] assms(3) by simp
  then show ?thesis
    using complete_ended [OF _ y] claim_ended [of ca rid s2 iid u answer u' s3] transition_ended [of dispatch p s2 token r s4] ended
    by blast
qed

theorem dispatch_outcome_final_witness:
  "complete_run_dispatch ''inc_1'' ''run_1'' example_completion claimed_store = Inr (True, completed_store) \<and>
   complete_run_dispatch ''inc_1'' ''run_1'' example_completion completed_store = Inr (False, completed_store)"
  using dispatch_outcome_final [OF example_completes reach.idle refl, where a' = example_completion] example_completes
  by blast

text \<open>
  C8. A dispatch is claimed by one worker: once a claim answered claimed and left its intent in the
  log, no later claim of the same dispatch answers claimed, whatever happened between.
\<close>

theorem dispatch_claimed_once:
  assumes "claim_run_dispatch iid rid ca u s = Inr (Claimed, u1, s1)" and "reach rt s1 s2"
    and "dispatch_or_run (ca_dispatch_id ca) rid = dispatch" and "ed_kind (ca_intent_event ca) = ''dispatch_receipt''"
    and "pending_receipt dispatch (get (ed_payload (ca_intent_event ca)) ''dispatch_receipt'')"
    and "dispatch_or_run (ca_dispatch_id ca') rid = dispatch" and "claim_run_dispatch iid rid ca' u' s2 = Inr (answer, u2, s3)"
  shows "answer \<noteq> Claimed"
proof -
  have "s1 = recorded iid rid (ca_intent_decision ca) [ca_intent_event ca] (with_lock iid rid s)"
    using assms(1) by (cases rule: claim_run_dispatch_Inr) simp_all
  then have "begun dispatch rid s1"
    using recorded_receipt [of "get (ed_payload (ca_intent_event ca)) ''dispatch_receipt''" "pending_receipt dispatch" "[ca_intent_event ca]"]
      assms(4,5) by (auto simp: begun_def list_ex_iff drafted_receipts_def)
  then have "begun dispatch rid s2" using begun_stays assms(2) by blast
  then have "claim_receipts dispatch rid s2 \<noteq> []"
    by (auto simp: begun_def claim_receipts_def list_ex_iff filter_empty_conv pending_receipt_def receipt_is_def)
  with assms(7) show ?thesis unfolding assms(6) [symmetric] by (cases rule: claim_run_dispatch_Inr) auto
qed

theorem dispatch_claimed_once_witness:
  "claim_run_dispatch ''inc_1'' ''run_1'' example_claim idle_unit example_store =
     Inr (Claimed, \<lparr>u_connected = True, u_lock_held = Some (dispatch_lock_name ''inc_1'' ''run_1'')\<rparr>, claimed_store) \<and>
   (\<exists>answer u s'. claim_run_dispatch ''inc_1'' ''run_1'' example_claim idle_unit claimed_store = Inr (answer, u, s') \<and>
      answer \<noteq> Claimed)"
proof -
  have again: "claim_run_dispatch ''inc_1'' ''run_1'' example_claim idle_unit claimed_store =
      Inr (Active, \<lparr>u_connected = False, u_lock_held = None\<rparr>, claimed_store)"
    by (simp add: claim_run_dispatch_def idle_unit_def Let_def) (simp add: claimed_store_def recorded_def with_lock_def)
  from dispatch_claimed_once [OF example_claims reach.idle refl _ _ refl again] again example_claims show ?thesis
    by (simp add: example_claim_def example_receipt example_receipts pending_receipt_def receipt_is_def dispatch_or_run_def)
qed

end
