(* ===== verification/Replay.thy ===== *)
theory Replay
  imports Guarantees
begin

text \<open>
  Reconstruction (\<^verbatim>\<open>IncidentRuntime.reconstruct\<close>) against the committed rows: what every operation
  on a run, command, start, completion, claim or refusal, does to its rows is what a replay of the events
  it appends does to the states a replay carries, so a run that has moved can always be rebuilt from its
  last snapshot and the events after it, to exactly what its rows hold.
\<close>

section \<open>A run's version never exceeds its incident's\<close>

definition behind :: "store \<Rightarrow> bool" where
  "behind s = (\<forall>r\<in>set (runs s). \<forall>i. get_incident (rr_incident_id r) s = Some i \<longrightarrow> rr_version r \<le> ir_version i)"

definition ordered_store :: "store \<Rightarrow> bool" where
  "ordered_store s = (sound_store s \<and> behind s)"

lemma behindD:
  "ordered_store s \<Longrightarrow> get_for_incident rid iid s = Some r \<Longrightarrow> get_incident iid s = Some i \<Longrightarrow> rr_version r \<le> ir_version i"
  unfolding get_for_incident_def by (drule select_one_Some) (auto simp: ordered_store_def behind_def)

lemma incident_after_update:
  assumes "\<And>r. ir_id (f r) = ir_id r"
  shows "get_incident x (s\<lparr>incidents := update_where (\<lambda>r. ir_id r = iid) f (incidents s)\<rparr>) =
     (if x = iid then map_option f (get_incident x s) else get_incident x s)"
proof (cases "x = iid")
  case True
  then show ?thesis using assms by (simp add: get_incident_def select_one_update_where)
next
  case False
  then show ?thesis using assms by (simp add: get_incident_def) (subst select_one_update_other; auto)
qed

lemma behind_runs:
  assumes "behind s" and "incidents s' = incidents s"
    and "\<And>r'. r' \<in> set (runs s') \<Longrightarrow> \<exists>r\<in>set (runs s). rr_incident_id r' = rr_incident_id r \<and> rr_version r' = rr_version r"
  shows "behind s'"
  unfolding behind_def get_incident_def assms(2)
  using assms(1,3) unfolding behind_def get_incident_def by metis

lemma behind_recorded: "behind s \<Longrightarrow> behind (recorded iid rid d events s)"
  by (erule behind_runs) (auto simp: recorded_def set_update_where)

lemma behind_run_patched: "behind s \<Longrightarrow> behind (run_patched iid rid (Some p) s)"
  by (erule behind_runs) (auto simp: run_patched_def set_update_where)

lemma behind_new_incident:
  assumes "ordered_store s" and "get_incident (ir_id row) s = None"
  shows "behind (s\<lparr>incidents := incidents s @ [row]\<rparr>)"
  using assms
  by (fastforce simp: behind_def ordered_store_def sound_store_def list_all_iff sound_run_def get_incident_def select_one_append
      split: option.splits)

lemma behind_new_run:
  assumes "ordered_store s" and "rr_version run = 0"
  shows "behind (s\<lparr>runs := runs s @ [run]\<rparr>)"
  using assms sound_incidentD [of s "rr_incident_id run"]
  by (auto simp: behind_def ordered_store_def sound_incident_def get_incident_def)

lemma behind_written:
  assumes "behind s" and "get_incident (pa_incident_id a) s = Some i"
  shows "behind (written a i r contexts memories s)"
proof -
  let ?f = "\<lambda>x. x\<lparr>ir_state := pa_incident_state a, ir_version := ir_version x + 1, ir_updated_at := dd_decided_at (pa_decision a)\<rparr>"
  have inc: "get_incident x (written a i r contexts memories s) =
      (if x = pa_incident_id a then map_option ?f (get_incident x s) else get_incident x s)" for x
    using incident_after_update [where f = ?f and iid = "pa_incident_id a" and s = s] by (simp add: written_def get_incident_def)
  show ?thesis
    unfolding behind_def inc using assms
    by (auto simp: written_def set_update_where behind_def) (smt (verit) option.inject)+
qed

interpretation ordering: store_invariant rt ordered_store for rt
proof
  fix s and row :: incident_record
  assume "ordered_store s" "get_incident (ir_id row) s = None" "get (ir_state row) ''state'' = JStr ''triage''"
    "jsonb_ok (JObj (ir_state row))" "ir_version row = 0"
  then show "ordered_store (s\<lparr>incidents := incidents s @ [row]\<rparr>)"
    using soundness.new_incident [of s row] behind_new_incident [of s row] by (simp add: ordered_store_def)
next
  fix s and run :: run_record
  assume "ordered_store s" "get_run (rr_id run) s = None" "get_incident (rr_incident_id run) s \<noteq> None"
    "jsonb_ok (JObj (rr_state run))" "rr_version run = 0"
  then show "ordered_store (s\<lparr>runs := runs s @ [run]\<rparr>)"
    using soundness.new_run [of s run] behind_new_run [of s run] by (simp add: ordered_store_def)
next
  fix s a i r memories contexts
  assume "ordered_store s" "commit_step rt a i r memories s"
  then show "ordered_store (written a i r contexts memories s)"
    using sound_written [of s rt a i r memories contexts] behind_written [of s a i r contexts memories]
    by (simp add: ordered_store_def commit_step_def)
next
  fix s events iid rid d
  assume "ordered_store s" "events \<noteq> []" "recordable events"
  then show "ordered_store (recorded iid rid d events s)"
    using soundness.noted [of s events iid rid d] behind_recorded
    by (auto simp: ordered_store_def)
next
  fix s p iid rid
  assume "ordered_store s" "keys_within p RUN_PATCH_FIELDS" "jsonb_ok (JObj p)"
  then show "ordered_store (run_patched iid rid (Some p) s)"
    using soundness.run_patch [of s p iid rid] behind_run_patched
    by (auto simp: ordered_store_def)
next
  fix s p iid at_time
  assume "ordered_store s" "keys_exactly p [''hypotheses'', ''evidence'']" "jsonb_ok (JObj p)"
  then show "ordered_store (incident_patched iid at_time (Some p) s)"
    using soundness.incident_patch [of s p iid at_time]
    by (fastforce simp: ordered_store_def behind_def incident_patched_def incident_after_update)
next
  fix s s'
  assume "ordered_store s" "same_core s s'"
  then show "ordered_store s'"
    using soundness.side [of s s'] by (simp add: ordered_store_def behind_def same_core_def get_incident_def)
qed

section \<open>The latest snapshot\<close>

text \<open>The row a query ordered by sequence, version and identity returns first.\<close>

lemma latest_snapshot_append:
  assumes "snapshots s' = snapshots s @ [n]" and "sn_run_id n = rid"
    and "\<And>x. x \<in> set (snapshots s) \<Longrightarrow> sn_run_id x = rid \<Longrightarrow> sn_event_sequence x < sn_event_sequence n"
  shows "latest_snapshot rid s' = Some n"
proof -
  let ?key = "\<lambda>n. (sn_event_sequence n, sn_version n, sn_id n)"
  define rows where "rows = sort_key ?key (filter (\<lambda>n. sn_run_id n = rid) (snapshots s @ [n]))"
  have set_rows: "set rows = {x \<in> set (snapshots s). sn_run_id x = rid} \<union> {n}"
    unfolding rows_def using assms(2) by auto
  have sorted: "sorted (map ?key rows)" unfolding rows_def by simp
  obtain ys x where x: "rows = ys @ [x]" using set_rows by (cases rows rule: rev_cases) auto
  have "x = n"
  proof (rule ccontr)
    assume "x \<noteq> n"
    then have n: "n \<in> set ys" and "x \<in> set (snapshots s)" "sn_run_id x = rid" using set_rows x by auto
    then have "sn_event_sequence x < sn_event_sequence n" using assms(3) by blast
    moreover have "?key n \<le> ?key x" using sorted n unfolding x by (auto simp: sorted_append)
    ultimately show False by (simp add: less_eq_prod_def)
  qed
  then show ?thesis using assms(1) x [unfolded rows_def] by (simp add: latest_snapshot_def)
qed

lemma latest_snapshot_same: "snapshots s' = snapshots s \<Longrightarrow> latest_snapshot rid s' = latest_snapshot rid s"
  by (simp add: latest_snapshot_def)

lemma latest_snapshot_in:
  assumes "latest_snapshot rid s = Some n"
  shows "n \<in> set (snapshots s)" and "sn_run_id n = rid"
proof -
  have "n \<in> set (rev (sort_key (\<lambda>n. (sn_event_sequence n, sn_version n, sn_id n)) (filter (\<lambda>n. sn_run_id n = rid) (snapshots s))))"
    using assms unfolding latest_snapshot_def by (auto split: list.splits simp del: set_rev set_sort)
  then show "n \<in> set (snapshots s)" "sn_run_id n = rid" by auto
qed

section \<open>Replaying events\<close>

lemma fold_raise_append: "fold_raise f (xs @ ys) s = and_then (fold_raise f xs s) (fold_raise f ys)"
proof (induction xs arbitrary: s)
  case (Cons x xs)
  then show ?case by (cases "f x s") simp_all
qed simp

text \<open>An event that a replay passes over.\<close>

definition quiet :: "event_draft \<Rightarrow> bool" where
  "quiet e = (ed_kind e \<noteq> ''state_change'' \<and> ed_kind e \<notin> set RUN_PATCH_EVENTS \<and>
     (ed_kind e = ''investigation_result'' \<longrightarrow> get (ed_payload e) ''incident_patch'' = JNull))"

lemma replay_quiet:
  assumes "list_all quiet ds"
  shows "replay_events (event_rows iid rid n ds) st = Inr st"
proof -
  have "replay_event (event_row iid rid m d) st = Inr st" if "quiet d" for m d
    using that by (cases st) (simp add: replay_event_def quiet_def RUN_PATCH_EVENTS_def)
  then show ?thesis
    using assms unfolding replay_events_def by (induction iid rid n ds rule: event_rows.induct) simp_all
qed

lemma replay_state_change:
  "replay_events (event_rows iid rid n (state_change_event w dr c t istate rstate # ds)) (i0, r0, k) =
     replay_events (event_rows iid rid (n + 1) ds) (istate, rstate, Suc k)"
  by (simp add: replay_events_def replay_event_def state_change_event_def RUN_PATCH_EVENTS_def)

lemma quiet_extra: "quiet e \<Longrightarrow> quiet (extra_event dr e)"
  by (simp add: quiet_def extra_event_def)

text \<open>What the events of a committed transition replay to.\<close>

lemma replay_stored:
  assumes "plan_apply rt dr c sha i r sx = Inr a" and "list_all quiet (c_extra_events c)"
  shows "replay_events (stored_events a s) (i0, r0, k) = Inr (pa_incident_state a, pa_run_state a, Suc k)"
proof -
  from assms(1) obtain t where ev: "pa_events a = state_change_event (rt_workflow rt) dr c t (pa_incident_state a) (pa_run_state a) #
      map (extra_event dr) (c_extra_events c)"
    by (elim plan_apply_Inr) simp
  have "list_all quiet (map (extra_event dr) (c_extra_events c))"
    using assms(2) quiet_extra by (simp add: list_all_iff)
  then show ?thesis unfolding stored_events_def ev by (simp only: replay_state_change replay_quiet)
qed

section \<open>Rebuilding a run\<close>

lemma reconstruct_iff:
  "reconstruct rt iid rid s = Inr v \<longleftrightarrow>
     (\<exists>i r n istate rstate k. get_incident iid s = Some i \<and> get_for_incident rid iid s = Some r \<and>
        latest_snapshot rid s = Some n \<and> sn_incident_id n = iid \<and> sn_run_id n = rid \<and>
        replay_events (replay_pages rid (sn_event_sequence n) s) (sn_incident_state n, sn_run_state n, 0) = Inr (istate, rstate, k) \<and>
        assert_supported_state (rt_workflow rt) istate rstate = Inr () \<and>
        ir_id i = iid \<and> rr_incident_id r = iid \<and> sn_version n + int k \<le> ir_version i \<and>
        rr_version r = sn_version n + int k \<and> ir_state i = istate \<and> rr_state r = rstate \<and>
        v = \<lparr>v_incident_id = iid, v_run_id = rid, v_incident_state = istate, v_run_state = rstate,
             v_incident_version = ir_version i, v_run_version = rr_version r\<rparr>)"
  by (auto simp: reconstruct_def load_replay_def outcome_simps Let_def not_less split: option.splits)

lemma committed_supported:
  assumes "rt_workflow rt = incident_response" and "plan_apply rt dr c sha i r s = Inr a"
  shows "assert_supported_state (rt_workflow rt) (pa_incident_state a) (pa_run_state a) = Inr ()"
proof -
  from assms(2) obtain t where old: "assert_supported_state incident_response (ir_state i) (rr_state r) = Inr ()"
    and t: "workflow_transition incident_response (c_transition_id c) = Inr t"
    and red: "reduce incident_response dr c t (ir_state i) (rr_state r) = Inr (pa_incident_state a, pa_run_state a)"
    by (elim plan_apply_Inr) (simp add: assms(1))
  from red obtain i1 i2 where r: "reduce_patch dr c t (ir_state i) = Inr i1"
      "reduce_triage c t (reduce_identity dr c t i1) = Inr i2" "reduce_mitigation dr c t i2 = Inr (pa_incident_state a)"
      "pa_run_state a = reduce_run incident_response dr t (rr_state r)"
    by (rule reduce_Inr)
  have "get (pa_incident_state a) k = get (ir_state i) k" if "k = ''workflow_id'' \<or> k = ''workflow_version''" for k
  proof -
    have "k \<notin> set (patchable_by_transition (t_id t))"
      using that by (auto simp: patchable_by_transition_def split: option.splits if_splits)
    then show ?thesis
      using that reduce_patch_get [OF r(1), of k] reduce_triage_get [OF r(2), of k] reduce_mitigation_get [OF r(3), of k]
      by (auto simp: reduce_identity_get)
  qed
  moreover have "get (pa_run_state a) ''workflow_version'' = get (rr_state r) ''workflow_version''"
      "get (pa_run_state a) ''current_state'' = JStr (t_target t)"
    unfolding r(4) by (simp_all add: reduce_run_def Let_def termination_patch_def)
  moreover have "t_target t \<in> w_states incident_response"
    using t unfolding workflow_transition_pinned_iff
    by (auto simp: pinned_simps incident_response_def incident_response_states_def)
  ultimately show ?thesis
    using old reduced_state(1) [OF red] by (simp add: assms(1) assert_supported_state_def outcome_simps)
qed

lemma replay_pages_append:
  assumes "log_ok s" and "log_ok s'" and "run_events s' = run_events s @ event_rows iid rid n ds" and "k \<le> last_sequence rid s"
  shows "replay_pages rid k s' = replay_pages rid k s @ event_rows iid rid n ds"
proof -
  have "nat (k + 1) \<le> length (log_of rid s)" using assms(4) last_sequence_log [OF assms(1), of rid] by simp
  then show ?thesis
    by (simp add: replay_pages_log [OF assms(1)] replay_pages_log [OF assms(2)] log_append [OF assms(3)])
qed

lemma replay_pages_end: "log_ok s \<Longrightarrow> last_sequence rid s \<le> k \<Longrightarrow> replay_pages rid k s = []"
  using last_sequence_log [of s rid] by (simp add: replay_pages_log)

lemma stored_last:
  assumes "log_ok s" and "pa_events a \<noteq> []"
  shows "ev_sequence (last (stored_events a s)) = last_sequence (pa_run_id a) (written a i r contexts memories s)"
    and "last_sequence (pa_run_id a) s < ev_sequence (last (stored_events a s))"
proof -
  let ?s' = "written a i r contexts memories s"
  have ok: "log_ok ?s'" by (rule log_ok_append [OF assms(1)]) (simp add: written_def stored_events_def)
  have ne: "stored_events a s \<noteq> []" using assms(2) by (cases "pa_events a") (simp_all add: stored_events_def)
  have len: "length (log_of (pa_run_id a) ?s') = length (log_of (pa_run_id a) s) + length (pa_events a)"
    by (simp add: log_of_def written_def) (simp add: stored_events_def)
  have "last (stored_events a s) = last (log_of (pa_run_id a) ?s')"
    using ne by (simp add: log_of_def written_def) (simp add: stored_events_def)
  also have "\<dots> = log_of (pa_run_id a) ?s' ! (length (log_of (pa_run_id a) ?s') - 1)"
    using len assms(2) by (intro last_conv_nth) auto
  finally show eq: "ev_sequence (last (stored_events a s)) = last_sequence (pa_run_id a) ?s'"
    using log_nth [OF ok, of "length (log_of (pa_run_id a) ?s') - 1" "pa_run_id a"] len assms(2) last_sequence_log [OF ok, of "pa_run_id a"]
    by (cases "pa_events a") simp_all
  show "last_sequence (pa_run_id a) s < ev_sequence (last (stored_events a s))"
    using eq len assms(2) last_sequence_log [OF ok, of "pa_run_id a"] last_sequence_log [OF assms(1), of "pa_run_id a"]
    by (cases "pa_events a") simp_all
qed

lemma written_rows:
  assumes "get_incident (pa_incident_id a) s = Some i" and "get_for_incident (pa_run_id a) (pa_incident_id a) s = Some r"
    and "ir_version i = pa_expected_incident_version a" and "rr_version r = pa_expected_run_version a"
  shows "get_incident (pa_incident_id a) (written a i r contexts memories s) = Some (next_incident a i)"
    and "get_for_incident (pa_run_id a) (pa_incident_id a) (written a i r contexts memories s) = Some (next_run a r)"
  using assms
  by (simp_all add: get_incident_def get_for_incident_def written_def select_one_update_where next_incident_def next_run_def)

section \<open>Patches\<close>

text \<open>What the events of an outcome put on the states of the incident and the run.\<close>

definition incident_patches :: "event_draft list \<Rightarrow> json list" where
  "incident_patches ds = filter (\<lambda>j. j \<noteq> JNull) (map (\<lambda>e. get (ed_payload e) ''incident_patch'') (filter (\<lambda>e. ed_kind e = ''investigation_result'') ds))"

definition run_patches :: "event_draft list \<Rightarrow> json list" where
  "run_patches ds = map (\<lambda>e. get (ed_payload e) ''run_patch'') (filter (\<lambda>e. ed_kind e \<in> set RUN_PATCH_EVENTS) ds)"

definition patched :: "dict option \<Rightarrow> dict \<Rightarrow> dict" where
  "patched p d = (case p of None \<Rightarrow> d | Some x \<Rightarrow> d ++\<^sub>f x)"

lemma replay_patches:
  assumes "\<forall>e\<in>set ds. ed_kind e \<noteq> ''state_change''" and "list_all replay_patch_ok (incident_patches ds)" and "list_all is_obj (run_patches ds)"
  shows "replay_events (event_rows iid rid n ds) (i0, r0, k) =
    Inr (foldl (++\<^sub>f) i0 (map obj (incident_patches ds)), foldl (++\<^sub>f) r0 (map obj (run_patches ds)), k)"
  using assms
proof (induction ds arbitrary: n i0 r0)
  case Nil
  then show ?case by (simp add: replay_events_def incident_patches_def run_patches_def)
next
  case (Cons d ds)
  consider (result) "ed_kind d = ''investigation_result''" "get (ed_payload d) ''incident_patch'' \<noteq> JNull"
    | (patch) "ed_kind d \<in> set RUN_PATCH_EVENTS" | (passed) "quiet d"
    using Cons.prems(1) by (auto simp: quiet_def)
  then show ?case
  proof cases
    case result
    then have ip: "incident_patches (d # ds) = get (ed_payload d) ''incident_patch'' # incident_patches ds" "run_patches (d # ds) = run_patches ds"
      by (simp_all add: incident_patches_def run_patches_def RUN_PATCH_EVENTS_def)
    have "replay_event (event_row iid rid n d) (i0, r0, k) = Inr (i0 ++\<^sub>f obj (get (ed_payload d) ''incident_patch''), r0, k)"
      using result Cons.prems(2) by (simp add: replay_event_def ip Let_def)
    then show ?thesis using Cons.IH Cons.prems by (simp add: replay_events_def ip)
  next
    case patch
    then have ip: "run_patches (d # ds) = get (ed_payload d) ''run_patch'' # run_patches ds" "incident_patches (d # ds) = incident_patches ds"
      by (auto simp: incident_patches_def run_patches_def RUN_PATCH_EVENTS_def)
    have "is_obj (get (ed_payload d) ''run_patch'')" using Cons.prems(3) by (simp add: ip)
    then have "obj_item (ed_payload d) ''run_patch'' = Inr (obj (get (ed_payload d) ''run_patch''))"
      by (auto simp: obj_item_def item_def get_def getd_def split: json.splits option.splits)
    moreover have "ed_kind d \<noteq> ''investigation_result''" using patch by (auto simp: RUN_PATCH_EVENTS_def)
    ultimately have "replay_event (event_row iid rid n d) (i0, r0, k) = Inr (i0, r0 ++\<^sub>f obj (get (ed_payload d) ''run_patch''), k)"
      using patch by (simp add: replay_event_def)
    then show ?thesis using Cons.IH Cons.prems by (simp add: replay_events_def ip)
  next
    case passed
    then have ip: "run_patches (d # ds) = run_patches ds" "incident_patches (d # ds) = incident_patches ds"
      by (auto simp: incident_patches_def run_patches_def quiet_def)
    have "replay_event (event_row iid rid n d) (i0, r0, k) = Inr (i0, r0, k)"
      using passed by (simp add: replay_event_def quiet_def)
    then show ?thesis using Cons.IH Cons.prems by (simp add: replay_events_def ip)
  qed
qed

lemma with_decision_patches [simp]:
  "incident_patches (map (with_decision d) ds) = incident_patches ds" "run_patches (map (with_decision d) ds) = run_patches ds"
proof -
  have "ed_kind (with_decision d e) = ed_kind e" "get (ed_payload (with_decision d e)) ''incident_patch'' = get (ed_payload e) ''incident_patch''"
    "get (ed_payload (with_decision d e)) ''run_patch'' = get (ed_payload e) ''run_patch''" for e
    by (simp_all add: with_decision_def)
  then show "incident_patches (map (with_decision d) ds) = incident_patches ds" "run_patches (map (with_decision d) ds) = run_patches ds"
    by (simp_all add: incident_patches_def run_patches_def filter_map comp_def)
qed


text \<open>A run that has moved, by a state change in its log, can be rebuilt; any other has no snapshot.\<close>

definition moved :: "string \<Rightarrow> store \<Rightarrow> bool" where
  "moved rid s = (\<exists>e\<in>set (log_of rid s). ev_kind e = ''state_change'')"

definition rebuildable :: "runtime \<Rightarrow> string \<Rightarrow> string \<Rightarrow> store \<Rightarrow> bool" where
  "rebuildable rt iid rid s = (latest_snapshot rid s = None \<and> \<not> moved rid s \<or> (\<exists>v. reconstruct rt iid rid s = Inr v))"

lemma kinds_of_rows: "ev_kind ` set (event_rows iid rid n ds) = ed_kind ` set ds"
  by (induction iid rid n ds rule: event_rows.induct) (simp_all add: event_row_def)

lemma reconstructed_current: "reconstruct rt iid rid s = Inr v \<Longrightarrow> current rt iid rid s = Inr v"
  unfolding reconstruct_iff by (elim exE conjE) (simp add: current_def)

text \<open>Patches do not touch what the runtime requires of the states it reads.\<close>

lemma patched_supported:
  assumes "assert_supported_state w istate rstate = Inr ()"
    and "\<forall>p. ip = Some p \<longrightarrow> keys_exactly p [''hypotheses'', ''evidence'']" and "\<forall>p. rp = Some p \<longrightarrow> keys_within p RUN_PATCH_FIELDS"
  shows "assert_supported_state w (patched ip istate) (patched rp rstate) = Inr ()"
proof -
  have i: "get (patched ip istate) k = get istate k" if "k \<notin> set [''hypotheses'', ''evidence'']" for k
    using assms(2) that by (cases ip) (auto simp: patched_def keys_exactly_def get_add)
  have r: "get (patched rp rstate) k = get rstate k" if "k \<notin> set RUN_PATCH_FIELDS" for k
    using assms(3) that by (cases rp) (auto simp: patched_def keys_within_def get_add)
  show ?thesis using assms(1) by (simp add: assert_supported_state_def i r RUN_PATCH_FIELDS_def)
qed

text \<open>An outcome recorded with the patches its events carry.\<close>

lemma rebuilt_outcome:
  assumes before: "rebuildable rt iid rid s" and log: "log_ok s" and ord: "ordered_store s"
    and s': "s' = recorded iid rid d events (sp\<lparr>text_context := contexts\<rparr>)"
    and sp: "sp = run_patched iid rid rp (incident_patched iid at_time ip s)"
    and plain: "\<forall>e\<in>set events. ed_kind e \<noteq> ''state_change''"
    and ip: "incident_patches events = (case ip of None \<Rightarrow> [] | Some p \<Rightarrow> [JObj p])" "\<forall>p. ip = Some p \<longrightarrow> replay_patch_ok (JObj p)"
    and rp: "run_patches events = (case rp of None \<Rightarrow> [] | Some p \<Rightarrow> [JObj p])" "\<forall>p. rp = Some p \<longrightarrow> keys_within p RUN_PATCH_FIELDS"
  shows "rebuildable rt iid rid s'"
proof (cases "latest_snapshot rid s = None")
  have same: "snapshots s' = snapshots s" "run_events s' = run_events s @ event_rows iid rid (last_sequence rid s + 1) (map (with_decision (dd_id d)) events)"
    by (simp_all add: s' sp recorded_def run_patched_def incident_patched_def last_sequence_def split: option.splits)
  note latest = latest_snapshot_same [OF same(1), of rid]
  {
    case True
    then have "\<not> moved rid s" using before by (auto simp: rebuildable_def reconstruct_iff)
    moreover have "ev_kind e \<noteq> ''state_change''"
      if "e \<in> set (event_rows iid rid (last_sequence rid s + 1) (map (with_decision (dd_id d)) events))" for e
    proof -
      have "ev_kind e \<in> ed_kind ` set (map (with_decision (dd_id d)) events)" using imageI [OF that, of ev_kind] by (simp only: kinds_of_rows)
      then show ?thesis using plain by (auto simp: with_decision_def)
    qed
    ultimately have "\<not> moved rid s'" by (auto simp: moved_def log_append [OF same(2)])
    then show ?thesis using True by (simp add: rebuildable_def latest)
  next
    case False
    then obtain v where "reconstruct rt iid rid s = Inr v" using before by (auto simp: rebuildable_def)
    then obtain i r n istate rstate k where rows: "get_incident iid s = Some i" "get_for_incident rid iid s = Some r"
      and n: "latest_snapshot rid s = Some n" "sn_incident_id n = iid" "sn_run_id n = rid"
      and rep: "replay_events (replay_pages rid (sn_event_sequence n) s) (sn_incident_state n, sn_run_state n, 0) = Inr (istate, rstate, k)"
      and sup: "assert_supported_state (rt_workflow rt) istate rstate = Inr ()"
      and v: "ir_id i = iid" "rr_incident_id r = iid" "sn_version n + int k \<le> ir_version i" "rr_version r = sn_version n + int k"
        "ir_state i = istate" "rr_state r = rstate"
      unfolding reconstruct_iff by blast
    obtain i' where i': "get_incident iid s' = Some i'" "ir_id i' = iid" "ir_version i \<le> ir_version i'" "ir_state i' = patched ip istate"
    proof -
      have "get_incident iid s' = get_incident iid (incident_patched iid at_time ip s)"
        by (simp add: s' sp recorded_def run_patched_def get_incident_def split: option.splits)
      then show thesis
        using that rows(1) v by (cases ip) (auto simp: incident_patched_def patched_def get_incident_def select_one_update_where)
    qed
    obtain r' where r': "get_for_incident rid iid s' = Some r'" "rr_incident_id r' = iid" "rr_version r' = rr_version r" "rr_state r' = patched rp rstate"
    proof -
      have one: "select_one (\<lambda>x. rr_id x = rid \<and> rr_incident_id x = iid) (update_where (\<lambda>x. rr_id x = rid) (\<lambda>x. x\<lparr>rr_updated_at := t\<rparr>) xs) =
          map_option (\<lambda>x. x\<lparr>rr_updated_at := t\<rparr>) (select_one (\<lambda>x. rr_id x = rid \<and> rr_incident_id x = iid) xs)" for t xs
        by (induction xs) (auto simp: select_one_def update_where_def)
      have "get_for_incident rid iid (incident_patched iid at_time ip s) = Some r"
        using rows(2) by (simp add: incident_patched_def get_for_incident_def split: option.splits)
      then obtain r1 where r1: "get_for_incident rid iid sp = Some r1" "rr_incident_id r1 = iid" "rr_version r1 = rr_version r" "rr_state r1 = patched rp rstate"
        using v by (cases rp) (auto simp: sp run_patched_def patched_def get_for_incident_def select_one_update_where)
      then show thesis
        by (intro that [of "r1\<lparr>rr_updated_at := max_occurred events\<rparr>"]) (simp_all add: s' recorded_def get_for_incident_def one)
    qed
    have log': "log_ok s'" by (rule log_ok_append [OF log same(2)])
    have "sn_event_sequence n \<le> last_sequence rid s"
      using latest_snapshot_in [OF n(1)] ord by (auto simp: ordered_store_def sound_store_def list_all_iff sound_snapshot_def)
    then have pages: "replay_pages rid (sn_event_sequence n) s' = replay_pages rid (sn_event_sequence n) s @
        event_rows iid rid (last_sequence rid s + 1) (map (with_decision (dd_id d)) events)"
      by (rule replay_pages_append [OF log log' same(2)])
    have kinds: "\<forall>e\<in>set (map (with_decision (dd_id d)) events). ed_kind e \<noteq> ''state_change''" using plain by (auto simp: with_decision_def)
    have ok: "list_all replay_patch_ok (incident_patches events)" "list_all is_obj (run_patches events)"
      using ip rp by (cases ip; cases rp; simp)+
    have folds: "foldl (++\<^sub>f) istate (map obj (incident_patches events)) = patched ip istate"
        "foldl (++\<^sub>f) rstate (map obj (run_patches events)) = patched rp rstate"
      using ip(1) rp(1) by (cases ip; cases rp; simp add: patched_def)+
    have "replay_events (replay_pages rid (sn_event_sequence n) s') (sn_incident_state n, sn_run_state n, 0) =
        Inr (patched ip istate, patched rp rstate, k)"
      using rep replay_patches [OF kinds, of iid rid "last_sequence rid s + 1" istate rstate k] ok folds
      by (simp add: pages replay_events_def fold_raise_append)
    moreover have "assert_supported_state (rt_workflow rt) (patched ip istate) (patched rp rstate) = Inr ()"
      by (rule patched_supported [OF sup]) (use ip(2) rp(2) in \<open>auto simp: replay_patch_ok_def\<close>)
    ultimately have "reconstruct rt iid rid s' = Inr \<lparr>v_incident_id = iid, v_run_id = rid, v_incident_state = patched ip istate,
        v_run_state = patched rp rstate, v_incident_version = ir_version i', v_run_version = rr_version r'\<rparr>"
      unfolding reconstruct_iff latest using i' r' n v by auto
    then show ?thesis by (auto simp: rebuildable_def)
  }
qed

lemma rebuilt_late:
  assumes rt: "rt_workflow rt = incident_response" and plan: "plan_apply rt dr c sha i r0 sx = Inr a" and v0: "rr_version r0 = rr_version r"
    and late: "latest_snapshot (c_run_id c) sx \<noteq> None \<Longrightarrow> latest_snapshot (c_run_id c) s \<noteq> None"
    and q: "list_all quiet (c_extra_events c)" and ord: "ordered_store s" and log: "log_ok s"
    and rows: "get_incident (c_incident_id c) s = Some i" "get_for_incident (c_run_id c) (c_incident_id c) s = Some r"
    and before: "latest_snapshot (c_run_id c) s = None \<or> (\<exists>v. reconstruct rt (c_incident_id c) (c_run_id c) s = Inr v)"
  shows "reconstruct rt (c_incident_id c) (c_run_id c) (written a i r contexts memories s) =
    Inr \<lparr>v_incident_id = c_incident_id c, v_run_id = c_run_id c, v_incident_state = pa_incident_state a,
      v_run_state = pa_run_state a, v_incident_version = ir_version i + 1, v_run_version = rr_version r + 1\<rparr>"
proof -
  let ?iid = "c_incident_id c" and ?rid = "c_run_id c" and ?s' = "written a i r contexts memories s"
  note ident = plan_apply_identity [OF plan]
  have ids: "ir_id i = ?iid" "rr_incident_id r = ?iid"
    using select_one_Some [OF rows(1) [unfolded get_incident_def]] select_one_Some [OF rows(2) [unfolded get_for_incident_def]]
    by simp_all
  have new: "get_incident ?iid ?s' = Some (next_incident a i)" "get_for_incident ?rid ?iid ?s' = Some (next_run a r)"
    using written_rows [of a s i r contexts memories] rows ident v0 by simp_all
  have versions: "rr_version r + 1 \<le> ir_version (next_incident a i)" "rr_version (next_run a r) = rr_version r + 1"
      "ir_version (next_incident a i) = ir_version i + 1"
    using behindD [OF ord rows(2,1)] ident v0 by (simp_all add: next_incident_def next_run_def)
  have states: "ir_state (next_incident a i) = pa_incident_state a" "rr_state (next_run a r) = pa_run_state a"
      "ir_id (next_incident a i) = ?iid" "rr_incident_id (next_run a r) = ?iid"
    using ids by (simp_all add: next_incident_def next_run_def)
  have log': "log_ok ?s'" by (rule log_ok_append [OF log]) (simp add: written_def stored_events_def)
  note sup = committed_supported [OF rt plan]
  have seqs: "ev_sequence (last (stored_events a s)) = last_sequence ?rid ?s'"
      "last_sequence ?rid s < ev_sequence (last (stored_events a s))"
    using stored_last(1) [OF log ident(7), where i = i and r = r and contexts = contexts and memories = memories]
      stored_last(2) [OF log ident(7)] ident(4) by simp_all
  have bound: "sn_event_sequence x \<le> last_sequence ?rid s" if "x \<in> set (snapshots s)" "sn_run_id x = ?rid" for x
    using that ord by (auto simp: ordered_store_def sound_store_def list_all_iff sound_snapshot_def)
  show ?thesis
  proof (cases "pa_snapshot a")
    case (Some d)
    let ?n = "\<lparr>sn_id = sd_id d, sn_incident_id = ?iid, sn_run_id = ?rid, sn_version = rr_version r + 1,
        sn_event_sequence = ev_sequence (last (stored_events a s)), sn_incident_state = sd_incident_state d,
        sn_run_state = sd_run_state d, sn_created_at = sd_created_at d\<rparr>"
    have d: "sd_incident_state d = pa_incident_state a" "sd_run_state d = pa_run_state a"
      using plan Some by (auto elim!: plan_apply_Inr simp: planned_snapshot_def split: if_splits)
    have "latest_snapshot ?rid ?s' = Some ?n"
    proof (rule latest_snapshot_append)
      show "snapshots ?s' = snapshots s @ [?n]"
        using Some ident v0 by (simp add: written_def stored_snapshot_def snapshot_rows_def)
    qed (use bound seqs(2) in force)+
    moreover have "replay_pages ?rid (ev_sequence (last (stored_events a s))) ?s' = []"
      using replay_pages_end [OF log'] seqs(1) by simp
    ultimately show ?thesis
      unfolding reconstruct_iff using new versions states sup d by (simp add: replay_events_def)
  next
    case None
    have latest: "latest_snapshot ?rid ?s' = latest_snapshot ?rid s"
      using None by (intro latest_snapshot_same) (simp add: written_def stored_snapshot_def snapshot_rows_def)
    have "latest_snapshot ?rid s \<noteq> None"
      using plan None by (intro late) (auto elim!: plan_apply_Inr simp: planned_snapshot_def split: if_splits)
    with before obtain v where "reconstruct rt ?iid ?rid s = Inr v" by blast
    then obtain n istate rstate k where n: "latest_snapshot ?rid s = Some n" "sn_incident_id n = ?iid" "sn_run_id n = ?rid"
      and rep: "replay_events (replay_pages ?rid (sn_event_sequence n) s) (sn_incident_state n, sn_run_state n, 0) = Inr (istate, rstate, k)"
      and k: "rr_version r = sn_version n + int k"
      unfolding reconstruct_iff using rows by auto
    have "replay_pages ?rid (sn_event_sequence n) ?s' = replay_pages ?rid (sn_event_sequence n) s @ stored_events a s"
      unfolding stored_events_def ident(4)
      by (rule replay_pages_append [OF log log'])
         (use bound latest_snapshot_in [OF n(1)] ident(4) in \<open>simp_all add: written_def stored_events_def\<close>)
    then have "replay_events (replay_pages ?rid (sn_event_sequence n) ?s') (sn_incident_state n, sn_run_state n, 0) =
        Inr (pa_incident_state a, pa_run_state a, Suc k)"
      using rep replay_stored [OF plan q, of s istate rstate k] by (simp add: replay_events_def fold_raise_append)
    then show ?thesis
      unfolding reconstruct_iff latest n(1) using new versions states sup n(2,3) k by simp
  qed
qed


section \<open>Histories of a run\<close>

text \<open>
  A run drives its incident: from a state in which the run has no snapshot yet, commands on it, planned
  on the rows of an earlier moment or of this one; its own start; outcomes of its dispatches, whose result
  events carry the patch the outcome applies; claims, whose termination is an event a replay reads; refusals
  on record; and operations elsewhere, which leave the incident's row and the run's row, log and snapshots
  as they are.
\<close>

definition faithful_claim :: "claim_args \<Rightarrow> bool" where
  "faithful_claim a = (quiet (ca_intent_event a) \<and> quiet (ca_interrupted_event a) \<and>
     (case ca_interrupted_termination a of None \<Rightarrow> True | Some t \<Rightarrow> ed_kind t \<in> set RUN_PATCH_EVENTS))"

definition elsewhere :: "string \<Rightarrow> string \<Rightarrow> store \<Rightarrow> store \<Rightarrow> bool" where
  "elsewhere iid rid s s' = (get_incident iid s' = get_incident iid s \<and> get_for_incident rid iid s' = get_for_incident rid iid s \<and>
     log_of rid s' = log_of rid s \<and> latest_snapshot rid s' = latest_snapshot rid s)"

inductive driven :: "runtime \<Rightarrow> string \<Rightarrow> string \<Rightarrow> store \<Rightarrow> store \<Rightarrow> bool" for rt iid rid s0 where
  unrecorded: "reach rt s0 s \<Longrightarrow> latest_snapshot rid s = None \<Longrightarrow> \<not> moved rid s \<Longrightarrow> driven rt iid rid s0 s"
| executed: "driven rt iid rid s0 s \<Longrightarrow> reach rt s0 s1 \<Longrightarrow> reach rt s1 s \<Longrightarrow> c_incident_id c = iid \<Longrightarrow> c_run_id c = rid \<Longrightarrow>
    get_incident iid s1 = Some i \<Longrightarrow> get_for_incident rid iid s1 = Some r \<Longrightarrow>
    plan_apply rt dr c (rt_digest rt (command_payload c)) i r s1 = Inr a \<Longrightarrow> list_all quiet (c_extra_events c) \<Longrightarrow>
    persist_transition (d_token dr) a s = Inr (result, s') \<Longrightarrow> driven rt iid rid s0 s'"
| started: "driven rt iid rid s0 s \<Longrightarrow> start_run rt dr q s = Inr (result, s') \<Longrightarrow> s_incident_id q = iid \<Longrightarrow> d_id dr ''run'' = rid \<Longrightarrow>
    driven rt iid rid s0 s'"
| completed: "driven rt iid rid s0 s \<Longrightarrow>
    incident_patches (cp_events a) = (case cp_incident_patch a of None \<Rightarrow> [] | Some p \<Rightarrow> [JObj p]) \<Longrightarrow>
    complete_run_dispatch iid rid a s = Inr (answer, s') \<Longrightarrow> driven rt iid rid s0 s'"
| claimed: "driven rt iid rid s0 s \<Longrightarrow> faithful_claim ca \<Longrightarrow> claim_run_dispatch iid rid ca u s = Inr (answer, u', s') \<Longrightarrow>
    driven rt iid rid s0 s'"
| refused: "driven rt iid rid s0 s \<Longrightarrow> record_refusal dr iid rid actor reason request denial s = Inr (w, s') \<Longrightarrow> driven rt iid rid s0 s'"
| elsewhere: "driven rt iid rid s0 s \<Longrightarrow> reach rt s s' \<Longrightarrow> elsewhere iid rid s s' \<Longrightarrow> driven rt iid rid s0 s'"

lemma driven_reach: "driven rt iid rid s0 s \<Longrightarrow> reach rt s0 s"
  by (induction rule: driven.induct) (auto intro: reach.intros reach_start reach_trans)

lemma rebuildable_moved:
  assumes "rebuildable rt iid rid s" and "elsewhere iid rid s s'" and "log_ok s" and "log_ok s'"
  shows "rebuildable rt iid rid s'"
  using assms unfolding rebuildable_def elsewhere_def
  by (auto simp: reconstruct_iff replay_pages_log moved_def)

lemma snapshots_stay:
  assumes "reach rt s1 s" and "latest_snapshot rid s1 \<noteq> None"
  shows "latest_snapshot rid s \<noteq> None"
proof -
  obtain n where "n \<in> set (snapshots s1)" "sn_run_id n = rid" using assms(2) latest_snapshot_in by blast
  then have n: "n \<in> set (snapshots s)" using reach_history [OF assms(1)] extends_set by (auto simp: history_def)
  let ?rows = "rev (sort_key (\<lambda>n. (sn_event_sequence n, sn_version n, sn_id n)) (filter (\<lambda>n. sn_run_id n = rid) (snapshots s)))"
  have "n \<in> set ?rows" using n \<open>sn_run_id n = rid\<close> by simp
  then have "?rows \<noteq> []" by (metis empty_iff list.set(1))
  then show ?thesis unfolding latest_snapshot_def by (cases ?rows) simp_all
qed

lemma rebuilt_noted:
  assumes "rebuildable rt iid rid s" and "log_ok s" and "ordered_store s" and "list_all quiet events"
  shows "rebuildable rt iid rid (recorded iid rid d events s)"
proof -
  have none: "incident_patches events = []" "run_patches events = []" "\<forall>e\<in>set events. ed_kind e \<noteq> ''state_change''"
    using assms(4) by (auto simp: incident_patches_def run_patches_def quiet_def list_all_iff filter_empty_conv)
  show ?thesis
    by (rule rebuilt_outcome [OF assms(1-3), where d = d and events = events and contexts = "text_context s" and ip = None and rp = None])
       (simp_all add: none run_patched_def incident_patched_def)
qed

lemma committed_rebuildable:
  assumes rt: "rt_workflow rt = incident_response" and before: "rebuildable rt iid rid s" and log: "log_ok s" and ord: "ordered_store s"
    and hist: "reach rt s1 s" and c: "c_incident_id c = iid" "c_run_id c = rid"
    and plan: "plan_apply rt dr c (rt_digest rt (command_payload c)) i r s1 = Inr a" and q: "list_all quiet (c_extra_events c)"
    and found: "get_incident iid s1 = Some i" and persisted: "persist_transition (d_token dr) a s = Inr (result, s')"
  shows "rebuildable rt iid rid s'"
  using persisted
proof (cases rule: persist_transition_Inr)
  case replayed
  then show ?thesis using before by simp
next
  case committed
  note ident = plan_apply_identity [OF plan]
  from committed(5,4) obtain i' r' contexts memories where
    w: "get_incident (pa_incident_id a) s = Some i'" "get_for_incident (pa_run_id a) (pa_incident_id a) s = Some r'"
      "ir_version i' = pa_expected_incident_version a" "rr_version r' = pa_expected_run_version a"
      "s' = written a i' r' contexts memories s"
    by (rule write_transition_Inr)
  have rows: "get_incident (c_incident_id c) s = Some i'" "get_for_incident (c_run_id c) (c_incident_id c) s = Some r'"
    using w(1,2) ident by simp_all
  have "incidents_kept s1 s" using reach_history [OF hist] by (simp add: history_def)
  then obtain i'' where "get_incident iid s = Some i''" "i'' = i \<or> ir_version i < ir_version i''"
    using found unfolding incidents_kept_def by blast
  then have same: "i' = i" using rows(1) w(3) ident c by auto
  have "\<exists>v. reconstruct rt (c_incident_id c) (c_run_id c) (written a i r' contexts memories s) = Inr v"
    using rebuilt_late [OF rt plan _ _ q ord log rows [unfolded same], of contexts memories] before c w(4) ident snapshots_stay [OF hist]
    by (auto simp: rebuildable_def)
  then show ?thesis using w(5) same c by (simp add: rebuildable_def)
qed

lemma start_storable:
  assumes "start_run rt dr q s = Inr (result, s')" and "start_lookup rt q s = Inr None" and "get_incident (s_incident_id q) s = Some i"
  shows "jsonb_ok (JObj (rr_state (opened_run rt dr q i)))"
  using assms(1) by (cases rule: start_run_Inr) (use assms(2,3) in simp_all)

lemma started_rebuildable:
  assumes rt: "rt_workflow rt = incident_response" and before: "rebuildable rt iid rid s" and log: "log_ok s" and ord: "ordered_store s"
    and start: "start_run rt dr q s = Inr (result, s')" and q: "s_incident_id q = iid" "d_id dr ''run'' = rid"
  shows "rebuildable rt iid rid s'"
proof (cases "start_lookup rt q s = Inr None")
  case False
  show ?thesis using start
  proof (cases rule: start_run_Inr)
    case replayed
    then show ?thesis using before by simp
  qed (use False in simp)
next
  case True
  from start True obtain tid i a contexts memories where i: "get_incident (s_incident_id q) s = Some i" "get_run (d_id dr ''run'') s = None"
    and plan: "plan_apply rt dr (start_command q (d_id dr ''run'') (retries q i) tid) (rt_digest rt (start_payload q)) i
           (opened_run rt dr q i) (s\<lparr>runs := runs s @ [opened_run rt dr q i]\<rparr>) = Inr a"
    and s': "s' = written a i (opened_run rt dr q i) contexts memories (s\<lparr>runs := runs s @ [opened_run rt dr q i]\<rparr>)"
    by (rule start_fresh)
  let ?c = "start_command q (d_id dr ''run'') (retries q i) tid" and ?s1 = "s\<lparr>runs := runs s @ [opened_run rt dr q i]\<rparr>"
  have c: "c_incident_id ?c = iid" "c_run_id ?c = rid" "c_extra_events ?c = []" using q by (simp_all add: start_command_def)
  have absent: "get_for_incident rid iid s = None"
    using i(2) q by (auto simp: get_run_def get_for_incident_def select_one_None)
  then have bare: "latest_snapshot rid ?s1 = None"
    using before by (auto simp: latest_snapshot_same [of ?s1 s rid] rebuildable_def reconstruct_iff)
  have rows: "get_incident (c_incident_id ?c) ?s1 = Some i" "get_for_incident (c_run_id ?c) (c_incident_id ?c) ?s1 = Some (opened_run rt dr q i)"
    using i absent q unfolding c by (simp_all add: get_incident_def get_for_incident_def select_one_append) (simp add: select_one_def opened_run_def)
  have inv: "ordered_store ?s1" "log_ok ?s1"
  proof -
    show "log_ok ?s1" using log log_ok_cong [of ?s1 s] by simp
    show "ordered_store ?s1"
      using i start_storable [OF start True i(1)] by (intro ordering.new_run [OF ord]) (simp_all add: opened_run_def)
  qed
  have quiet: "list_all quiet (c_extra_events ?c)" by (simp add: c)
  have bare': "latest_snapshot (c_run_id ?c) ?s1 = None" unfolding c by (rule bare)
  have "\<exists>v. reconstruct rt (c_incident_id ?c) (c_run_id ?c) s' = Inr v"
    unfolding s' using rebuilt_late [OF rt plan refl _ quiet inv rows disjI1 [OF bare'], of contexts memories] by blast
  then show ?thesis by (simp add: rebuildable_def c)
qed

lemma completed_rebuildable:
  assumes before: "rebuildable rt iid rid s" and log: "log_ok s" and ord: "ordered_store s"
    and ip: "incident_patches (cp_events a) = (case cp_incident_patch a of None \<Rightarrow> [] | Some p \<Rightarrow> [JObj p])"
    and completed: "complete_run_dispatch iid rid a s = Inr (answer, s')"
  shows "rebuildable rt iid rid s'"
  using completed
proof (cases rule: complete_run_dispatch_Inr)
  case nothing
  then show ?thesis using before by simp
next
  case (completed i contexts)
  show ?thesis
  proof (rule rebuilt_outcome [OF before log ord, where sp = "run_patched iid rid (cp_run_patch a) (incident_patched iid (max_occurred (cp_events a)) (cp_incident_patch a) s)"])
    show "s' = recorded iid rid (cp_decision a) (cp_events a)
        (run_patched iid rid (cp_run_patch a) (incident_patched iid (max_occurred (cp_events a)) (cp_incident_patch a) s)
         \<lparr>text_context := text_context s @ contexts\<rparr>)" by (rule completed(7))
    show "\<forall>e\<in>set (cp_events a). ed_kind e \<noteq> ''state_change''"
      using completed(6) by (auto simp: DISPATCH_EVENTS_def RUN_PATCH_EVENTS_def)
    show "\<forall>p. cp_incident_patch a = Some p \<longrightarrow> replay_patch_ok (JObj p)"
      using completed(2) by (auto simp: completable_def Let_def check_incident_patch_def outcome_simps replay_patch_ok_def)
    show "run_patches (cp_events a) = (case cp_run_patch a of None \<Rightarrow> [] | Some p \<Rightarrow> [JObj p])"
      using completed(2) by (simp add: completable_def Let_def run_patches_def)
    show "\<forall>p. cp_run_patch a = Some p \<longrightarrow> keys_within p RUN_PATCH_FIELDS"
      using completed(2) by (auto simp: completable_def Let_def)
  qed (simp_all add: ip)
qed

lemma with_lock_elsewhere: "elsewhere iid rid s (with_lock x y s)"
  by (simp add: elsewhere_def with_lock_def get_incident_def get_for_incident_def log_of_def latest_snapshot_def)

lemma claimed_rebuildable:
  assumes before: "rebuildable rt iid rid s" and log: "log_ok s" and ord: "ordered_store s" and faithful: "faithful_claim ca"
    and claim: "claim_run_dispatch iid rid ca u s = Inr (answer, u', s')"
  shows "rebuildable rt iid rid s'"
proof -
  let ?s0 = "with_lock iid rid s"
  have lock: "rebuildable rt iid rid ?s0" "log_ok ?s0" "ordered_store ?s0"
  proof -
    show "log_ok ?s0" using log by (rule log_ok_cong [THEN iffD2, rotated]) (simp add: with_lock_def)
    then show "rebuildable rt iid rid ?s0" by (rule rebuildable_moved [OF before with_lock_elsewhere log])
    show "ordered_store ?s0" by (rule ordering.side [OF ord]) (simp add: same_core_def with_lock_def)
  qed
  show ?thesis using claim
  proof (cases rule: claim_run_dispatch_Inr)
    case interrupted
    note k = claim_interrupted_Inr [OF interrupted(3)]
    have ip: "incident_patches (interrupted_events ca) = []"
      using faithful by (auto simp: faithful_claim_def interrupted_events_def incident_patches_def quiet_def RUN_PATCH_EVENTS_def split: option.splits)
    have rp: "run_patches (interrupted_events ca) = (case interrupted_patch ca of None \<Rightarrow> [] | Some p \<Rightarrow> [JObj p])"
      using faithful k(4)
      by (auto simp: faithful_claim_def interrupted_events_def interrupted_patch_def run_patches_def quiet_def split: option.splits)
    have plain: "\<forall>e\<in>set (interrupted_events ca). ed_kind e \<noteq> ''state_change''"
      using k(2) by (auto simp: DISPATCH_EVENTS_def RUN_PATCH_EVENTS_def)
    show ?thesis
      by (rule rebuilt_outcome [OF lock, where d = "ca_interrupted_decision ca" and events = "interrupted_events ca" and ip = None
            and rp = "interrupted_patch ca" and contexts = "text_context s" and at_time = undefined and sp = "run_patched iid rid (interrupted_patch ca) ?s0"])
         (use k(1,3) ip rp plain in \<open>auto simp: incident_patched_def run_patched_def with_lock_def split: option.splits\<close>)
  next
    case claimed
    then show ?thesis using rebuilt_noted [OF lock] faithful by (simp add: faithful_claim_def)
  qed (simp_all add: before lock)
qed

lemma refused_rebuildable:
  assumes "rebuildable rt iid rid s" and "log_ok s" and "ordered_store s"
    and "record_refusal dr iid rid actor reason request denial s = Inr (w, s')"
  shows "rebuildable rt iid rid s'"
proof -
  obtain d events stored where r: "record_run_events iid rid d events s = Inr (stored, s')" and q: "list_all quiet events"
    using assms(4) by (auto simp: record_refusal_def outcome_simps quiet_def RUN_PATCH_EVENTS_def)
  show ?thesis unfolding record_run_events_Inr(1) [OF r] by (rule rebuilt_noted [OF assms(1-3) q])
qed

lemma written_moved:
  assumes "plan_apply rt dr c sha i r0 sx = Inr a"
  shows "moved (c_run_id c) (written a i r contexts memories s)"
proof -
  from assms obtain t where ev: "pa_events a = state_change_event (rt_workflow rt) dr c t (pa_incident_state a) (pa_run_state a) #
      map (extra_event dr) (c_extra_events c)"
    by (elim plan_apply_Inr) simp
  have log: "log_of (c_run_id c) (written a i r contexts memories s) = log_of (c_run_id c) s @ stored_events a s"
    using log_append [of "written a i r contexts memories s" s] plan_apply_identity(4) [OF assms] by (simp add: written_def stored_events_def)
  show ?thesis unfolding moved_def log by (simp add: stored_events_def ev event_row_def state_change_event_def)
qed

text \<open>
  C5. The event log is enough to rebuild a run's state. Along any history in which the run drives its
  incident (commands, planned on earlier or present rows, the run's own start, outcomes of its dispatches
  with their patches on the incident and on the run, claims that end an interrupted dispatch, refusals on
  record, and any operations that leave its rows and its log alone), as soon as its log holds one
  state change it can be rebuilt from its latest snapshot and the events after it, and the result is the
  states and versions a read of the rows returns.
\<close>

theorem reconstruct_follows_rows:
  assumes "rt_workflow rt = incident_response" and "ordered_store s0" and "log_ok s0" and "driven rt iid rid s0 s" and "moved rid s"
  shows "\<exists>v. reconstruct rt iid rid s = Inr v \<and> current rt iid rid s = Inr v"
proof -
  have inv: "ordered_store s \<and> log_ok s" if "driven rt iid rid s0 s" for s
    using ordering.reaches [OF driven_reach [OF that] assms(2)] gapless.reaches [OF driven_reach [OF that] assms(3)] by simp
  have "rebuildable rt iid rid s" using assms(4)
  proof induction
    case (unrecorded s)
    then show ?case by (simp add: rebuildable_def)
  next
    case (executed s s1 c i r dr a result s')
    note h = executed.hyps and v = inv [OF executed.hyps(1)]
    show ?case by (rule committed_rebuildable [OF assms(1) executed.IH _ _ h(3,4,5,8,9,6,10)]) (use v in simp_all)
  next
    case (started s dr q result s')
    then show ?case using started_rebuildable [OF assms(1) started.IH] inv by blast
  next
    case (completed s a answer s')
    then show ?case using completed_rebuildable inv by blast
  next
    case (claimed s ca u answer u' s')
    then show ?case using claimed_rebuildable inv by blast
  next
    case (refused s dr actor reason request denial w s')
    then show ?case using refused_rebuildable inv by blast
  next
    case (elsewhere s s')
    have "driven rt iid rid s0 s'" by (rule driven.elsewhere [OF elsewhere.hyps])
    then show ?case using rebuildable_moved [OF elsewhere.IH elsewhere.hyps(3)] inv elsewhere.hyps(1) by blast
  qed
  then obtain v where "reconstruct rt iid rid s = Inr v"
    using assms(5) by (auto simp: rebuildable_def)
  then show ?thesis using reconstructed_current by blast
qed

theorem reconstruct_follows_rows_witness:
  "\<exists>s. moved ''run_1'' s \<and> (\<exists>v. reconstruct example_runtime ''inc_1'' ''run_1'' s = Inr v \<and>
     current example_runtime ''inc_1'' ''run_1'' s = Inr v)"
proof -
  obtain r s' where e: "execute example_runtime example_draws open_command example_store = Inr (r, s')"
    and new: "command_lookup example_runtime open_command example_store = Inr None"
    by (rule example_executes)
  have ord: "ordered_store example_store"
    using example_sound by (simp add: ordered_store_def behind_def example_store_def get_incident_def select_one_def
        example_incident_def example_run_def)
  have c: "c_incident_id open_command = ''inc_1''" "c_run_id open_command = ''run_1''" "list_all quiet (c_extra_events open_command)"
    by (simp_all add: open_command_def)
  from e show ?thesis
  proof (cases rule: execute_Inr)
    case replayed
    then show ?thesis using new by (simp add: command_lookup_def)
  next
    case (committed i rr a)
    have start: "driven example_runtime ''inc_1'' ''run_1'' example_store example_store"
      by (rule driven.unrecorded [OF reach.idle]) (simp_all add: latest_snapshot_def moved_def log_of_def example_store_def empty_store_def)
    have driven: "driven example_runtime ''inc_1'' ''run_1'' example_store s'"
      by (rule driven.executed [OF start reach.idle reach.idle c(1,2)])
        (use committed c in simp_all)
    obtain i r a contexts memories where "plan_apply example_runtime example_draws open_command
        (rt_digest example_runtime (command_payload open_command)) i r example_store = Inr a" "s' = written a i r contexts memories example_store"
      using e new by (rule execute_fresh)
    then have "moved ''run_1'' s'" using written_moved c(2) by metis
    then show ?thesis using reconstruct_follows_rows [OF approve_enabled(1) ord example_log driven] by blast
  qed
qed

end
