(* ===== verification/TriageLaws.thy ===== *)
theory TriageLaws
  imports Guarantees
begin

text \<open>
  What alert triage promises: a final decision on an alert is never replaced, so an alert opens at
  most one incident; a command repeated within its retention returns its first answer and changes
  nothing; only a declaration touches the incident store, and it opens exactly the incident it was
  asked for.
\<close>

section \<open>What one command does\<close>

definition decided_row :: "triage_draws \<Rightarrow> principal \<Rightarrow> triage_command \<Rightarrow> string option \<Rightarrow> triage_row" where
  "decided_row td pr q iid = \<lparr>ta_alert_id = q_alert_id q, ta_status = the (map_of STATES (q_operation q)),
                ta_incident_id = iid, ta_expected_version = 0, ta_reason = as_string (q_reason q),
                ta_severity = as_string (q_severity q),
                ta_actor = (case responsible_system pr q of None \<Rightarrow> p_id pr | Some sys \<Rightarrow> sys),
                ta_decided_at = td_decided_at td, ta_decision_origin = decision_origin pr q,
                ta_responsible_system = responsible_system pr q\<rparr>"

lemma decided_row_simps [simp]:
  "ta_alert_id (decided_row td pr q iid) = q_alert_id q" "ta_incident_id (decided_row td pr q iid) = iid"
  "ta_status (decided_row td pr q iid) = the (map_of STATES (q_operation q))"
  "ta_severity (decided_row td pr q iid) = as_string (q_severity q)"
  by (simp_all add: decided_row_def)

lemma decide_Inr:
  assumes "decide rt h td pr q db = Inr (result, db')"
  obtains iid run db1 r rows bindings where "check_current rt h td pr q db = Inr ()"
    and "triage_transition rt h td pr q (h_text h (q_idempotency_key q)) (responsible_system pr q) db = Inr ((iid, run), db1)"
    and "write_triage (if get_triage (q_alert_id q) (db_triage db) = None then None else Some (q_expected_version q))
           (decided_row td pr q iid) (db_triage db1) = Inr (Some r, rows)"
    and "set_response_payload (''triage:'' @ q_alert_id q) (h_text h (q_idempotency_key q)) (result_document r)
           (db_bindings db1) = Inr bindings"
    and "build_result (result_document r) False (if q_operation q = ''triage_declare'' then 201 else 200) run = Inr result"
    and "db' = db1\<lparr>db_triage := rows, db_bindings := bindings\<rparr>"
proof -
  obtain iid run db1 where c: "check_current rt h td pr q db = Inr ()"
    and t: "triage_transition rt h td pr q (h_text h (q_idempotency_key q)) (responsible_system pr q) db = Inr ((iid, run), db1)"
    using assms unfolding decide_def and_then_Inr_iff [of "check_current rt h td pr q db"] by (auto simp: outcome_simps)
  let ?row = "decided_row td pr q iid"
  obtain persisted rows where w: "write_triage (if get_triage (q_alert_id q) (db_triage db) = None then None
      else Some (q_expected_version q)) ?row (db_triage db1) = Inr (persisted, rows)"
    and rest: "(case persisted of None \<Rightarrow> Inl (TriageError 409 ''stale_version'')
        | Some r \<Rightarrow> and_then (bindings_of (set_response_payload (''triage:'' @ q_alert_id q)
              (h_text h (q_idempotency_key q)) (result_document r) (db_bindings db1))) (\<lambda>bindings.
            and_then (raised (build_result (result_document r) False
              (if q_operation q = ''triage_declare'' then 201 else 200) run)) (\<lambda>result.
            Inr (result, db1\<lparr>db_triage := rows, db_bindings := bindings\<rparr>)))) = Inr (result, db')"
    using assms by (auto simp: decide_def c t Let_def outcome_simps decided_row_def)
  from rest obtain r where "persisted = Some r" by (cases persisted) simp_all
  with rest w that [OF c t] show thesis by (auto simp: outcome_simps)
qed

lemma execute_triage_Inr:
  assumes "execute_triage rt h td pr q db = Inr (result, db')"
  obtains (replayed) b where "claim_or_replay (claim_of h td pr q) (db_bindings db) = Inr (b, db_bindings db)" and "ib_replayed b"
      and "replayed_result q (io_response_payload (ib_outcome b)) (db_store db) = Inr result" and "db' = db"
      and "map_of ACTIONS (q_operation q) \<noteq> None"
  | (decided) b rows where "claim_or_replay (claim_of h td pr q) (db_bindings db) = Inr (b, rows)" and "\<not> ib_replayed b"
      and "decide rt h td pr q (db\<lparr>db_bindings := rows\<rparr>) = Inr (result, db')" and "principal_may_issue pr (q_operation q)"
      and "map_of ACTIONS (q_operation q) \<noteq> None" and "check_command q = Inr ()"
proof -
  have chk: "check_command q = Inr ()"
    using assms unfolding execute_triage_def and_then_Inr_iff [of "check_command q"] by auto
  have op: "map_of ACTIONS (q_operation q) \<noteq> None"
    using chk unfolding check_command_def and_then_Inr_iff raise_if_Inr_iff by (elim exE conjE) simp
  obtain b rows where c: "claim_or_replay (claim_of h td pr q) (db_bindings db) = Inr (b, rows)"
    and may: "principal_may_issue pr (q_operation q)"
    and rest: "(if ib_replayed b then and_then (raised (replayed_result q (io_response_payload (ib_outcome b)) (db_store db)))
               (\<lambda>result. Inr (result, db\<lparr>db_bindings := rows\<rparr>))
        else decide rt h td pr q (db\<lparr>db_bindings := rows\<rparr>)) = Inr (result, db')"
    using assms unfolding execute_triage_def Let_def and_then_pair_Inr and_then_Inr_iff [of "check_command q"]
      and_then_Inr_iff [of "authorize (db_registry db) pr (the (map_of ACTIONS (q_operation q)))"]
      and_then_Inr_iff [of "raise_if (\<not> principal_may_issue pr (q_operation q)) (TriageError 403 ''operator_required'')"]
      and_then_Inr_iff [of "if q_operation q = ''triage_link'' then authorize (db_registry db) pr ''run.read'' else Inr ()"]
      bindings_of_Inr raise_if_Inr_iff by blast
  show thesis
  proof (cases "ib_replayed b")
    case True
    have rows: "rows = db_bindings db" by (rule claim_replay_Inr [OF c True])
    have "replayed_result q (io_response_payload (ib_outcome b)) (db_store db) = Inr result" "db' = db\<lparr>db_bindings := rows\<rparr>"
      using rest True unfolding if_P [OF True] and_then_Inr_iff raised_Inr by simp_all
    with replayed [of b] c op True rows show ?thesis by simp
  next
    case False
    then show ?thesis using decided [OF c False] rest may op chk by simp
  qed
qed

lemma transition_frame:
  assumes "triage_transition rt h td pr q digest responsible db = Inr (x, db1)"
  shows "db_triage db1 = db_triage db" and "db_bindings db1 = db_bindings db" and "db_registry db1 = db_registry db"
    and "q_operation q \<noteq> ''triage_declare'' \<Longrightarrow> db_store db1 = db_store db"
  using assms by (auto simp: triage_transition_def outcome_simps split: if_splits json.splits option.splits)

lemma transition_reach:
  assumes "triage_transition rt h td pr q digest responsible db = Inr (x, db1)"
  shows "reach rt (db_store db) (db_store db1)"
proof (cases "q_operation q = ''triage_declare''")
  case True
  then obtain y s' where "declare_incident rt h td (q_alert_id q) digest pr (q_severity q) (q_impact q)
      (obj (q_alert_context q)) responsible (has_action (db_registry db) pr ''run.start'') (db_store db) = Inr (y, s')"
      "db_store db1 = s'"
    using assms by (auto simp: triage_transition_def outcome_simps)
  then show ?thesis using reach.declared [OF reach.idle] by blast
next
  case False
  then show ?thesis using transition_frame(4) [OF assms] reach.idle by simp
qed

section \<open>The decision table\<close>

definition alerts_distinct :: "triage_row list \<Rightarrow> bool" where
  "alerts_distinct rows = distinct (map ta_alert_id rows)"

text \<open>A write that returned the row: the row is stored under its alert, and other alerts keep theirs.\<close>

lemma write_triage_row:
  assumes "write_triage expected row rows = Inr (Some r, rows')" and "alerts_distinct rows"
  obtains v where "r = row\<lparr>ta_expected_version := v\<rparr>" and "get_triage (ta_alert_id row) rows' = Some r"
    and "\<forall>x. x \<noteq> ta_alert_id row \<longrightarrow> get_triage x rows' = get_triage x rows" and "alerts_distinct rows'" and "triage_row_ok r"
proof -
  have other: "get_triage x rows = None" if "get_triage x [row\<lparr>ta_expected_version := v\<rparr>] = Some y" "x \<noteq> ta_alert_id row" for x v y
    using that by (auto simp: get_triage_def select_one_def split: if_splits)
  consider (new) "get_triage (ta_alert_id row) rows = None" "rows' = rows @ [row\<lparr>ta_expected_version := 1\<rparr>]"
      "get_triage (ta_alert_id row) rows' = Some r" "triage_row_ok (row\<lparr>ta_expected_version := 1\<rparr>)"
    | (old) v where "rows' = update_where (\<lambda>r. ta_alert_id r = ta_alert_id row \<and> ta_expected_version r = v)
        (\<lambda>_. row\<lparr>ta_expected_version := v + 1\<rparr>) rows" "get_triage (ta_alert_id row) rows' = Some r"
      "select_one (\<lambda>r. ta_alert_id r = ta_alert_id row \<and> ta_expected_version r = v) rows \<noteq> None"
      "triage_row_ok (row\<lparr>ta_expected_version := v + 1\<rparr>)"
    using assms(1) by (auto simp: write_triage_def Let_def split: option.splits if_splits)
  then show thesis
  proof cases
    case new
    then have "r = row\<lparr>ta_expected_version := 1\<rparr>"
      by (auto simp: get_triage_def select_one_append) (auto simp: select_one_def)
    moreover have "get_triage x rows' = get_triage x rows" if "x \<noteq> ta_alert_id row" for x
      using that unfolding new(2) get_triage_def by (auto simp: select_one_append split: option.splits) (auto simp: select_one_def)
    moreover have "alerts_distinct rows'"
      using assms(2) new(1) unfolding new(2) by (auto simp: alerts_distinct_def get_triage_def select_one_None)
    ultimately show thesis using that new by blast
  next
    case (old v)
    let ?hit = "\<lambda>r. ta_alert_id r = ta_alert_id row \<and> ta_expected_version r = v" and ?new = "row\<lparr>ta_expected_version := v + 1\<rparr>"
    obtain x where x: "x \<in> set rows" "?hit x" using old(3) select_one_Some [of ?hit rows] by blast
    have ids: "map ta_alert_id rows' = map ta_alert_id rows" unfolding old(1) update_where_def by auto
    have "?new \<in> set rows'" unfolding old(1) set_update_where using x by force
    then have "r = ?new"
      using old(2) select_one_key [of ta_alert_id rows' ?new] ids assms(2) by (simp add: get_triage_def alerts_distinct_def)
    moreover have "get_triage y rows' = get_triage y rows" if "y \<noteq> ta_alert_id row" for y
      unfolding old(1) get_triage_def using that by (intro select_one_update_other) auto
    ultimately show thesis using that old assms(2) ids by (auto simp: alerts_distinct_def)
  qed
qed

section \<open>Sequences of commands\<close>

text \<open>
  Triage commands with everything else between them: other operations on incidents, and any change
  of the registry of principals and grants.
\<close>

inductive triage_steps :: "runtime \<Rightarrow> hashing \<Rightarrow> triage_db \<Rightarrow> triage_db \<Rightarrow> bool" for rt h where
  start: "triage_steps rt h db db"
| command: "triage_steps rt h db0 db \<Longrightarrow> execute_triage rt h td pr q db = Inr (result, db') \<Longrightarrow> triage_steps rt h db0 db'"
| other: "triage_steps rt h db0 db \<Longrightarrow> reach rt (db_store db) s \<Longrightarrow>
    triage_steps rt h db0 (db\<lparr>db_store := s, db_registry := reg\<rparr>)"

definition final_row :: "triage_row \<Rightarrow> bool" where
  "final_row r = (ta_status r \<in> set TERMINAL_STATES)"

lemma check_current_final:
  assumes "check_current rt h td pr q db = Inr ()" and "get_triage (q_alert_id q) (db_triage db) = Some r"
  shows "\<not> final_row r" and "ta_expected_version r = q_expected_version q"
  using assms by (auto simp: check_current_def Let_def outcome_simps final_row_def split: if_splits)

lemma decide_keeps:
  assumes "decide rt h td pr q db = Inr (result, db')" and "alerts_distinct (db_triage db)"
  shows "alerts_distinct (db_triage db')"
    and "\<And>x r. get_triage x (db_triage db) = Some r \<Longrightarrow> final_row r \<Longrightarrow> get_triage x (db_triage db') = Some r"
proof -
  from assms(1) obtain iid run db1 r rows bindings where chk: "check_current rt h td pr q db = Inr ()"
    and t: "triage_transition rt h td pr q (h_text h (q_idempotency_key q)) (responsible_system pr q) db = Inr ((iid, run), db1)"
    and w: "write_triage (if get_triage (q_alert_id q) (db_triage db) = None then None else Some (q_expected_version q))
           (decided_row td pr q iid) (db_triage db1) = Inr (Some r, rows)"
    and db': "db' = db1\<lparr>db_triage := rows, db_bindings := bindings\<rparr>"
    by (rule decide_Inr)
  note w = w [unfolded transition_frame(1) [OF t]]
  from w assms(2) have keep: "alerts_distinct rows" "\<forall>x. x \<noteq> q_alert_id q \<longrightarrow> get_triage x rows = get_triage x (db_triage db)"
    by (elim write_triage_row; simp)+
  show "alerts_distinct (db_triage db')" using keep db' by simp
  show "get_triage x (db_triage db') = Some y" if "get_triage x (db_triage db) = Some y" "final_row y" for x y
    using check_current_final(1) [OF chk] that keep(2) db' by (cases "x = q_alert_id q") auto
qed

lemma execute_triage_keeps:
  assumes "execute_triage rt h td pr q db = Inr (result, db')" and "alerts_distinct (db_triage db)"
  shows "alerts_distinct (db_triage db')"
    and "\<And>x r. get_triage x (db_triage db) = Some r \<Longrightarrow> final_row r \<Longrightarrow> get_triage x (db_triage db') = Some r"
proof -
  show "alerts_distinct (db_triage db')"
    using assms(1) by (cases rule: execute_triage_Inr) (use assms(2) decide_keeps(1) in auto)
  show "get_triage x (db_triage db') = Some y" if "get_triage x (db_triage db) = Some y" "final_row y" for x y
    using assms(1)
  proof (cases rule: execute_triage_Inr)
    case (decided b rows)
    then show ?thesis using decide_keeps(2) [OF decided(3)] assms(2) that by simp
  qed (use that in simp)
qed

lemma steps_keep:
  assumes "triage_steps rt h db db'" and "alerts_distinct (db_triage db)"
  shows "alerts_distinct (db_triage db')"
    and "\<And>x r. get_triage x (db_triage db) = Some r \<Longrightarrow> final_row r \<Longrightarrow> get_triage x (db_triage db') = Some r"
  using assms by (induction rule: triage_steps.induct) (use execute_triage_keeps in auto)

section \<open>Committed commands belong to incidents\<close>

definition commits_known :: "store \<Rightarrow> bool" where
  "commits_known s = (\<forall>c\<in>set (transition_commits s). get_incident (co_incident_id c) s \<noteq> None)"

lemma commits_known_mono:
  assumes "commits_known s" and "transition_commits s' = transition_commits s @ new"
    and "\<And>iid. get_incident iid s \<noteq> None \<Longrightarrow> get_incident iid s' \<noteq> None"
    and "\<And>c. c \<in> set new \<Longrightarrow> get_incident (co_incident_id c) s \<noteq> None"
  shows "commits_known s'"
  using assms by (auto simp: commits_known_def)

lemma history_found: "history s s' \<Longrightarrow> get_incident iid s \<noteq> None \<Longrightarrow> get_incident iid s' \<noteq> None"
  using incidents_kept_found by (auto simp: history_def)

interpretation filing: store_invariant rt commits_known for rt
proof
  fix s and row :: incident_record
  assume "commits_known s"
  then show "commits_known (s\<lparr>incidents := incidents s @ [row]\<rparr>)"
    by (rule commits_known_mono [where new = "[]"]) (auto simp: get_incident_def select_one_append split: option.splits)
next
  fix s a i r memories contexts
  assume known: "commits_known s" and step: "commit_step rt a i r memories s"
  show "commits_known (written a i r contexts memories s)"
  proof (rule commits_known_mono [OF known])
    show "transition_commits (written a i r contexts memories s) =
        transition_commits s @ [commit_of a (result_of a i r s) (dd_decided_at (pa_decision a))]"
      by (simp add: written_def)
    show "get_incident iid (written a i r contexts memories s) \<noteq> None" if "get_incident iid s \<noteq> None" for iid
      using that by (rule history_found [OF history_written])
  qed (use step in \<open>simp add: commit_of_def commit_step_def\<close>)
next
  fix s p iid at_time
  assume "commits_known s"
  then show "commits_known (incident_patched iid at_time (Some p) s)"
  proof (rule commits_known_mono [where new = "[]"])
    show "get_incident x (incident_patched iid at_time (Some p) s) \<noteq> None" if "get_incident x s \<noteq> None" for x
      using that by (rule history_found [OF history_incident_patched])
  qed (simp_all add: incident_patched_def)
qed (auto simp: commits_known_def recorded_def run_patched_def same_core_def get_incident_def)

section \<open>What a declaration opens\<close>

lemma lookup_none: "get_incident iid s = None \<Longrightarrow> commits_known s \<Longrightarrow> get_transition iid cid sha s = Inr None"
  by (auto simp: get_transition_None command_row_def select_one_None commits_known_def)

lemma declared_edge: "workflow_transition incident_response ''triage_declare'' = Inr t \<Longrightarrow>
    t_id t = ''triage_declare'' \<and> t_target t = ''active''"
  and start_edge: "workflow_transition incident_response ''start_investigation'' = Inr t \<Longrightarrow>
    t_id t = ''start_investigation'' \<and> t_target t = ''investigating''"
  by (auto simp: workflow_transition_pinned_iff pinned_simps)

lemma untruthy_obj: "\<not> truthy j \<Longrightarrow> get (obj j) k = JNull"
  by (cases j) simp_all

lemma declare_reduced:
  assumes "reduce w dr (declare_command h now digest actor reference severity impact may_start) t old old_run = Inr (istate, rstate)"
    and "t_id t = ''triage_declare''"
  shows "get istate ''severity'' = severity" and "get istate ''impact'' = impact" and "get istate ''state'' = JStr (t_target t)"
    and "\<exists>alert. get istate ''alert'' = JObj alert \<and> get alert ''alert_id'' = get (obj (get old ''alert'')) ''alert_id''"
proof -
  let ?c = "declare_command h now digest actor reference severity impact may_start"
  from assms(1) obtain i1 i2 where r: "reduce_patch dr ?c t old = Inr i1"
      "reduce_triage ?c t (reduce_identity dr ?c t i1) = Inr i2" "reduce_mitigation dr ?c t i2 = Inr istate"
    by (rule reduce_Inr)
  have inputs: "inputs_of ?c = dict [(''severity'', severity), (''impact'', impact)]"
    by (simp add: inputs_of_def declare_command_def)
  have i: "istate = i2" using r(3) assms(2) by (simp add: reduce_mitigation_def)
  have i1: "i1 = old" using r(1) assms(2) by (simp add: reduce_patch_def inputs getd_def Let_def outcome_simps)
  show "get istate ''state'' = JStr (t_target t)" by (rule reduced_state(1) [OF assms(1)])
  from r(2) show "get istate ''severity'' = severity" "get istate ''impact'' = impact"
      "\<exists>alert. get istate ''alert'' = JObj alert \<and> get alert ''alert_id'' = get (obj (get old ''alert'')) ''alert_id''"
    unfolding i i1
    by (auto simp: reduce_triage_def assms(2) inputs item_def outcome_simps Let_def reduce_identity_get py_or_def is_obj_iff untruthy_obj
        split: if_splits)
qed

lemma start_reduced:
  assumes "reduce w dr (start_command q rid False ''start_investigation'') t old old_run = Inr (istate, rstate)"
    and "t_id t = ''start_investigation''" and "k \<in> {''severity'', ''impact'', ''alert''}"
  shows "get istate k = get old k"
proof -
  let ?c = "start_command q rid False ''start_investigation''"
  from assms(1) obtain i1 i2 where r: "reduce_patch dr ?c t old = Inr i1"
      "reduce_triage ?c t (reduce_identity dr ?c t i1) = Inr i2" "reduce_mitigation dr ?c t i2 = Inr istate"
    by (rule reduce_Inr)
  have "istate = i2" "i2 = reduce_identity dr ?c t i1" using r(2,3) assms(2) by (simp_all add: reduce_mitigation_def reduce_triage_def)
  moreover have "get i1 k = get old k"
    using reduce_patch_get [OF r(1), of k] assms(2,3) by (auto simp: patchable_by_transition_def)
  ultimately show ?thesis using assms(3) by (auto simp: reduce_identity_get)
qed

lemma declare_opens:
  assumes "declare_incident rt h td alert digest pr severity impact context responsible has_run_start s = Inr ((iid, run), s')"
    and "commits_known s" and "rt_workflow rt = incident_response"
  obtains i where "get_incident iid s = None" and "get_incident iid s' = Some i"
    and "get (ir_state i) ''state'' = JStr (if run = None then ''active'' else ''investigating'')"
    and "get (ir_state i) ''severity'' = severity" and "get (ir_state i) ''impact'' = impact"
    and "\<exists>a. get (ir_state i) ''alert'' = JObj a \<and> get a ''alert_id'' = get (dict [(''alert_id'', JStr alert)] ++\<^sub>f context) ''alert_id''"
    and "investigation_run_id (Some iid) s' = run"
  using assms(1)
proof (cases rule: declare_incident_Inr)
  case (1 row s1 rrow s2 may_start result s3)
  let ?c = "declare_command h (td_now td) digest (fst (declaring_actor pr responsible)) (snd (declaring_actor pr responsible))
      severity impact may_start"
  note i = add_incident_Inr [OF 1(2)] and r = add_run_Inr [OF 1(3)]
  have c: "c_incident_id ?c = iid" "c_command_id ?c = ''cmd-'' @ take 32 digest" "c_transition_id ?c = ''triage_declare''"
    using 1(1) by (simp_all add: declare_command_def)
  have none: "get_transition iid cid sha s2 = Inr None" for cid sha
    using lookup_none [OF i(2) assms(2)] by (subst get_transition_cong [of _ s]) (simp_all add: r(4) i(3))
  have found: "get_incident iid s2 = Some row"
    using i(2) unfolding r(4) i(3) get_incident_def by (simp add: select_one_append) (simp add: select_one_def i(1))
  from 1(5) none [of "c_command_id ?c"] obtain ri a contexts memories where
      plan: "plan_apply rt (declaration_draws td digest) ?c (rt_digest rt (command_payload ?c)) row ri s2 = Inr a"
    and s3: "s3 = written a row ri contexts memories s2" and inc3: "get_incident iid s3 = Some (next_incident a row)"
    and res: "result = result_of a row ri s2"
    by (elim execute_fresh) (simp_all add: command_lookup_def c found)
  from plan obtain t rstate where t: "workflow_transition incident_response ''triage_declare'' = Inr t"
    and red: "reduce incident_response (declaration_draws td digest) ?c t (ir_state row) (rr_state ri) = Inr (pa_incident_state a, rstate)"
    by (elim plan_apply_Inr) (simp add: assms(3) c)
  note st = declare_reduced [OF red conjunct1 [OF declared_edge [OF t]]]
  have alert: "get (obj (get (ir_state row) ''alert'')) ''alert_id'' = get (dict [(''alert_id'', JStr alert)] ++\<^sub>f context) ''alert_id''"
    by (simp add: i(1) declared_incident_def)
  have commits3: "transition_commits s3 = transition_commits s @ [commit_of a result (dd_decided_at (pa_decision a))]"
    by (simp add: s3 written_def res r(4) i(3))
  have known: "co_incident_id x \<noteq> iid" if "x \<in> set (transition_commits s)" for x
    using that assms(2) i(2) by (auto simp: commits_known_def)
  have ids: "pa_incident_id a = iid" "pa_command_id a = ''cmd-'' @ take 32 digest"
    using plan_apply_identity(1,3) [OF plan] c by simp_all
  have state3: "get (ir_state (next_incident a row)) ''state'' = JStr ''active''"
      "get (ir_state (next_incident a row)) ''severity'' = severity" "get (ir_state (next_incident a row)) ''impact'' = impact"
      "\<exists>b. get (ir_state (next_incident a row)) ''alert'' = JObj b \<and> get b ''alert_id'' = get (dict [(''alert_id'', JStr alert)] ++\<^sub>f context) ''alert_id''"
    using st declared_edge [OF t] alert by (simp_all add: next_incident_def)
  have unstarted: "select_one (\<lambda>c. co_incident_id c = iid \<and> co_command_id c = investigation_command_id iid) (transition_commits s3) = None"
    using known by (auto simp: commits3 select_one_None commit_of_def ids investigation_command_id_def)
  show thesis
  proof (cases may_start)
    case False
    then have "run = None" "s' = s3" using 1(6) by simp_all
    then show thesis using that i(2) inc3 state3 unstarted by (simp add: investigation_run_id_def)
  next
    case True
    let ?q = "investigation_start iid (fst (declaring_actor pr responsible)) (snd (declaring_actor pr responsible))"
    obtain started where start: "start_run rt (investigation_draws td) ?q s3 = Inr (started, s')" and run: "run = Some (rr_id (tr_run started))"
      using 1(7) True by blast
    have q: "s_incident_id ?q = iid" "s_objective ?q = ''investigate''" "s_command_id ?q = investigation_command_id iid"
      by (simp_all add: investigation_start_def)
    have new: "start_lookup rt ?q s3 = Inr None"
      unfolding start_lookup_def q get_transition_None command_row_def by (rule unstarted)
    from start new obtain tid i' b contexts' memories' where tid: "map_of objective_transitions (s_objective ?q) = Some tid"
      and i': "get_incident (s_incident_id ?q) s3 = Some i'"
      and plan': "plan_apply rt (investigation_draws td) (start_command ?q (d_id (investigation_draws td) ''run'') (retries ?q i') tid)
          (rt_digest rt (start_payload ?q)) i' (opened_run rt (investigation_draws td) ?q i')
          (s3\<lparr>runs := runs s3 @ [opened_run rt (investigation_draws td) ?q i']\<rparr>) = Inr b"
      and started: "started = result_of b i' (opened_run rt (investigation_draws td) ?q i')
          (s3\<lparr>runs := runs s3 @ [opened_run rt (investigation_draws td) ?q i']\<rparr>)"
      and s': "s' = written b i' (opened_run rt (investigation_draws td) ?q i') contexts' memories'
          (s3\<lparr>runs := runs s3 @ [opened_run rt (investigation_draws td) ?q i']\<rparr>)"
      and inc': "get_incident (s_incident_id ?q) s' = Some (next_incident b i')"
      by (rule start_fresh)
    have i'_eq: "i' = next_incident a row" using i' inc3 q by simp
    then have retry: "retries ?q i' = False" using state3(1) by (simp add: retries_def)
    have tid': "tid = ''start_investigation''" using tid q by (simp add: objective_transitions_def)
    from plan' obtain t' rstate' where t': "workflow_transition incident_response ''start_investigation'' = Inr t'"
      and red': "reduce incident_response (investigation_draws td) (start_command ?q (d_id (investigation_draws td) ''run'') False ''start_investigation'')
          t' (ir_state i') (rr_state (opened_run rt (investigation_draws td) ?q i')) = Inr (pa_incident_state b, rstate')"
      by (elim plan_apply_Inr) (simp add: assms(3) retry tid', simp add: start_command_def)
    have keep: "get (pa_incident_state b) k = get (ir_state i') k" if "k \<in> {''severity'', ''impact'', ''alert''}" for k
      by (rule start_reduced [OF red' conjunct1 [OF start_edge [OF t']] that])
    have b: "pa_incident_id b = iid" "pa_command_id b = investigation_command_id iid"
      using plan_apply_identity(1,3) [OF plan'] q by (simp_all add: start_command_def)
    have "select_one (\<lambda>c. co_incident_id c = iid \<and> co_command_id c = investigation_command_id iid) (transition_commits s') =
        Some (commit_of b started (dd_decided_at (pa_decision b)))"
      using unstarted by (simp add: s' written_def select_one_append started) (simp add: select_one_def commit_of_def b)
    then have "investigation_run_id (Some iid) s' = run"
      by (simp add: investigation_run_id_def commit_of_def encode_result_def encode_run_def as_string_def run)
    then show thesis
      using that i(2) inc' q keep state3 reduced_state(1) [OF red'] start_edge [OF t'] run
      by (simp add: i'_eq next_incident_def)
  qed
qed

text \<open>Who the decisions of a declaration name.\<close>

definition attributed :: "string \<times> actor_reference \<Rightarrow> decision_record \<Rightarrow> bool" where
  "attributed who d = (get (de_document d) ''actor'' = JStr (fst who) \<and> get (de_document d) ''actor_reference'' = JObj (actor_dict (snd who)))"

definition names_only :: "string \<times> actor_reference \<Rightarrow> store \<Rightarrow> store \<Rightarrow> bool" where
  "names_only who s s' = (\<exists>new. decisions s' = decisions s @ new \<and> list_all (attributed who) new)"

lemma names_only_trans: "names_only who s s' \<Longrightarrow> names_only who s' s'' \<Longrightarrow> names_only who s s''"
  unfolding names_only_def by (elim exE) (rule_tac x = "new @ newa" in exI, simp)

lemma written_attributed:
  assumes "plan_apply rt dr c sha i0 r0 sx = Inr a" and "c_actor c = fst who" and "c_actor_reference c = Some (snd who)"
  shows "names_only who s (written a i r contexts memories s)"
  using assms(1)
  by (rule plan_apply_Inr)
     (elim decision_document_Inr, simp add: names_only_def written_def decision_row_def attributed_def assms(2,3) actor_json_def)

lemma execute_attributed:
  assumes "execute rt dr c s = Inr (result, s')" and "c_actor c = fst who" and "c_actor_reference c = Some (snd who)"
  shows "names_only who s s'"
proof (cases "command_lookup rt c s = Inr None")
  case True
  from assms(1) True show ?thesis by (rule execute_fresh) (auto intro: written_attributed [OF _ assms(2,3)])
next
  case False
  from assms(1) show ?thesis
    by (cases rule: execute_Inr) (use False in \<open>simp_all add: command_lookup_def names_only_def\<close>)
qed

lemma start_attributed:
  assumes "start_run rt dr q s = Inr (result, s')" and "s_actor q = fst who" and "s_actor_reference q = Some (snd who)"
  shows "names_only who s s'"
proof (cases "start_lookup rt q s = Inr None")
  case True
  from assms(1) True show ?thesis
  proof (rule start_fresh)
    fix tid i a contexts memories
    let ?s1 = "s\<lparr>runs := runs s @ [opened_run rt dr q i]\<rparr>"
    assume plan: "plan_apply rt dr (start_command q (d_id dr ''run'') (retries q i) tid) (rt_digest rt (start_payload q)) i
        (opened_run rt dr q i) ?s1 = Inr a" and s': "s' = written a i (opened_run rt dr q i) contexts memories ?s1"
    have "names_only who ?s1 s'" unfolding s' by (rule written_attributed [OF plan]) (simp_all add: start_command_def assms(2,3))
    then show ?thesis by (simp add: names_only_def)
  qed
next
  case False
  from assms(1) show ?thesis by (cases rule: start_run_Inr) (use False in \<open>simp_all add: names_only_def\<close>)
qed

lemma declare_attributed:
  assumes "declare_incident rt h td alert digest pr severity impact context responsible has_run_start s = Inr ((iid, run), s')"
  shows "names_only (declaring_actor pr responsible) s s'"
  using assms
proof (cases rule: declare_incident_Inr)
  case (1 row s1 rrow s2 may_start result s3)
  let ?who = "declaring_actor pr responsible"
  have "decisions s2 = decisions s" using add_incident_Inr(3) [OF 1(2)] add_run_Inr(4) [OF 1(3)] by simp
  moreover have "names_only ?who s2 s3" by (rule execute_attributed [OF 1(5)]) (simp_all add: declare_command_def)
  ultimately have first: "names_only ?who s s3" by (simp add: names_only_def)
  show ?thesis
  proof (cases may_start)
    case True
    then obtain started where "start_run rt (investigation_draws td) (investigation_start iid (fst ?who) (snd ?who)) s3 = Inr (started, s')"
      using 1(7) by blast
    then have "names_only ?who s3 s'" by (rule start_attributed) (simp_all add: investigation_start_def)
    with first show ?thesis by (rule names_only_trans)
  qed (use first 1(6) in simp)
qed

section \<open>Results\<close>

lemma build_result_Inr:
  assumes "build_result d replayed status run = Inr result"
  shows "tg_replayed result = replayed" and "tg_http_status result = status" and "tg_investigation_run_id result = run"
  using assms by (auto simp: build_result_def outcome_simps)

lemma result_document_fields: "keys_exactly (result_document r) RESULT_FIELDS"
  by (simp add: keys_exactly_def result_document_def RESULT_FIELDS_def)

lemma build_result_document:
  "build_result (result_document r) replayed status run = Inr \<lparr>tg_status = ta_status r, tg_incident_id = ta_incident_id r,
     tg_expected_version = ta_expected_version r, tg_actor = ta_actor r, tg_decided_at = isoformat (ta_decided_at r),
     tg_decision_origin = ta_decision_origin r, tg_responsible_system = ta_responsible_system r, tg_replayed = replayed,
     tg_http_status = status, tg_investigation_run_id = run\<rparr>"
  by (cases "ta_incident_id r"; cases "ta_responsible_system r";
      simp add: build_result_def result_document_fields;
      simp add: result_document_def str_item_def opt_item_def int_item_def item_def)

lemma decide_result:
  assumes "decide rt h td pr q db = Inr (result, db')" and "alerts_distinct (db_triage db)"
  obtains iid run db1 r v where
    "triage_transition rt h td pr q (h_text h (q_idempotency_key q)) (responsible_system pr q) db = Inr ((iid, run), db1)"
    and "r = (decided_row td pr q iid)\<lparr>ta_expected_version := v\<rparr>" and "get_triage (q_alert_id q) (db_triage db') = Some r"
    and "set_response_payload (''triage:'' @ q_alert_id q) (h_text h (q_idempotency_key q)) (result_document r) (db_bindings db) = Inr (db_bindings db')"
    and "build_result (result_document r) False (if q_operation q = ''triage_declare'' then 201 else 200) run = Inr result"
    and "db_store db' = db_store db1" and "db_registry db' = db_registry db"
proof -
  from assms(1) obtain iid run db1 r rows bindings where
      t: "triage_transition rt h td pr q (h_text h (q_idempotency_key q)) (responsible_system pr q) db = Inr ((iid, run), db1)"
    and w: "write_triage (if get_triage (q_alert_id q) (db_triage db) = None then None else Some (q_expected_version q))
           (decided_row td pr q iid) (db_triage db1) = Inr (Some r, rows)"
    and p: "set_response_payload (''triage:'' @ q_alert_id q) (h_text h (q_idempotency_key q)) (result_document r)
           (db_bindings db1) = Inr bindings"
    and b: "build_result (result_document r) False (if q_operation q = ''triage_declare'' then 201 else 200) run = Inr result"
    and db': "db' = db1\<lparr>db_triage := rows, db_bindings := bindings\<rparr>"
    by (rule decide_Inr)
  note fr = transition_frame(1-3) [OF t]
  from w [unfolded fr] assms(2) obtain v where "r = (decided_row td pr q iid)\<lparr>ta_expected_version := v\<rparr>"
      "get_triage (ta_alert_id (decided_row td pr q iid)) rows = Some r"
    by (rule write_triage_row)
  with that t p b db' fr show thesis by simp
qed

lemma replayed_flag:
  assumes "execute_triage rt h td pr q db = Inr (result, db')" and "alerts_distinct (db_triage db)"
  obtains (replayed) "tg_replayed result" and "db' = db"
  | (decided) b rows where "\<not> tg_replayed result"
      and "claim_or_replay (claim_of h td pr q) (db_bindings db) = Inr (b, rows)" and "\<not> ib_replayed b"
      and "decide rt h td pr q (db\<lparr>db_bindings := rows\<rparr>) = Inr (result, db')"
  using assms(1)
proof (cases rule: execute_triage_Inr)
  case (replayed b)
  then show ?thesis using that(1) build_result_Inr(1) by (auto simp: replayed_result_def Let_def)
next
  case (decided b rows)
  have "\<not> tg_replayed result"
    using decided(3) assms(2) by (elim decide_result) (auto dest: build_result_Inr(1))
  with that(2) decided show ?thesis by blast
qed

text \<open>A status that ends an alert's triage.\<close>

lemma final_operations: "map_of ACTIONS op \<noteq> None \<Longrightarrow> op \<noteq> ''open_triage'' \<Longrightarrow> the (map_of STATES op) \<in> set TERMINAL_STATES"
  by (auto simp: ACTIONS_def STATES_def TERMINAL_STATES_def split: if_splits)

lemma final_refused:
  assumes "execute_triage rt h td pr q db = Inr (result, db')" and "alerts_distinct (db_triage db)"
    and "get_triage (q_alert_id q) (db_triage db) = Some r" and "final_row r"
  shows "tg_replayed result \<and> db' = db"
  using assms(1,2)
proof (cases rule: replayed_flag)
  case (decided b rows)
  then have "check_current rt h td pr q (db\<lparr>db_bindings := rows\<rparr>) = Inr ()" by (auto elim: decide_Inr)
  then show ?thesis using check_current_final(1) assms(3,4) by fastforce
qed simp

end
