(* ===== verification/TriageProperties.thy ===== *)
theory TriageProperties
  imports TriageLaws
begin

text \<open>
  The properties of alert triage, with the two executions that show them at work: a person declares
  an incident from an empty store, with its first investigation run, and a person dismisses an alert.
\<close>

section \<open>Runs that start\<close>

lemma enabled_starts:
  assumes tid: "map_of objective_transitions (s_objective q) = Some tid"
    and i: "get_incident (s_incident_id q) s = Some i" and new: "start_lookup rt q s = Inr None"
    and retry: "\<not> retries q i" and fresh: "get_run (d_id dr ''run'') s = None" "fits 64 (d_id dr ''run'')"
    and storable: "jsonb_ok (JObj (rr_state (opened_run rt dr q i)))"
    and plan: "plan_apply rt dr (start_command q (d_id dr ''run'') False tid) (rt_digest rt (start_payload q)) i
        (opened_run rt dr q i) (s\<lparr>runs := runs s @ [opened_run rt dr q i]\<rparr>) = Inr a"
    and rt: "rt_workflow rt = incident_response" and sound: "sound_store s"
    and sha: "sha256_hex (rt_digest rt (start_payload q))" and c: "clean_command (start_command q (d_id dr ''run'') False tid)"
    and dr: "clean_draws dr" "fresh_draws dr s" "ir_created_at i \<le> d_now dr"
    and ap: "get (ir_state i) ''approvals'' = JNull \<or> is_list (get (ir_state i) ''approvals'')"
  shows "start_run rt dr q s = Inr (result_of a i (opened_run rt dr q i) (s\<lparr>runs := runs s @ [opened_run rt dr q i]\<rparr>),
     written a i (opened_run rt dr q i) [] [] (s\<lparr>runs := runs s @ [opened_run rt dr q i]\<rparr>))"
proof -
  let ?r = "opened_run rt dr q i" and ?c = "start_command q (d_id dr ''run'') False tid"
  let ?s = "s\<lparr>runs := runs s @ [?r]\<rparr>"
  have r: "rr_id ?r = d_id dr ''run''" "rr_incident_id ?r = s_incident_id q" "rr_version ?r = 0" "rr_created_at ?r = d_now dr"
    by (simp_all add: opened_run_def)
  have cs: "c_incident_id ?c = s_incident_id q" "c_run_id ?c = d_id dr ''run''" "c_command_id ?c = s_command_id q"
      "c_extra_events ?c = []" "c_contexts ?c = []" "c_dispatch_id ?c = None" "c_transition_id ?c = tid"
    by (simp_all add: start_command_def)
  have sound': "sound_store ?s"
    using fresh(1) i storable r by (intro sound_new_run [OF sound]) (simp_all add: sound_run_def)
  have none: "select_one (\<lambda>r. rr_id r = d_id dr ''run'' \<and> rr_incident_id r = s_incident_id q) (runs s) = None"
    using fresh(1) by (auto simp: get_run_def select_one_None)
  have run: "get_for_incident (c_run_id ?c) (c_incident_id ?c) ?s = Some ?r"
    unfolding cs get_for_incident_def by (simp add: select_one_append none) (simp add: select_one_def r)
  have inc: "get_incident (c_incident_id ?c) ?s = Some i" using i by (simp add: cs get_incident_def)
  have look: "get_transition (c_incident_id ?c) (c_command_id ?c) (rt_digest rt (start_payload q)) ?s = Inr None"
    using new unfolding start_lookup_def cs by (subst get_transition_cong [of _ s]) simp_all
  have close: "c_transition_id ?c \<noteq> ''close_incident''"
    using tid unfolding cs by (auto simp: objective_transitions_def split: if_splits)
  have fresh': "fresh_draws dr ?s" using dr(2) by (simp add: fresh_draws_def get_decision_def)
  have "committable a i ?r ?s"
    by (rule planned_committable [OF plan rt sound' inc run look sha c cs(4-6) close dr(1) fresh' dr(3) _ ap]) (simp add: r)
  moreover have "add_run (d_id dr ''run'') (s_incident_id q) (dict [(''workflow_version'', JStr (w_version (rt_workflow rt))),
        (''current_state'', get (ir_state i) ''state''), (''status'', JStr ''running'')]) (d_now dr) s = Inr (?r, ?s)"
    using storable fresh i by (simp add: add_run_def jsonb_stores opened_run_def Let_def)
  moreover have "(s_objective q = ''investigate'' \<and> get (ir_state i) ''state'' = JStr ''investigating'') = False"
    using retry by (simp add: retries_def)
  ultimately show ?thesis
    using plan i new persist_succeeds [of a i ?r ?s "d_token dr"] r(1)
    unfolding start_run_def tid start_lookup_def Let_def option.case by (auto simp: apply_command_def)
qed

section \<open>A declaration\<close>

definition example_hashing :: hashing where
  "example_hashing = \<lparr>h_text = (\<lambda>_. replicate 64 CHR ''d''), h_payload = (\<lambda>_. replicate 64 CHR ''e'')\<rparr>"

definition example_triage_draws :: triage_draws where
  "example_triage_draws = \<lparr>td_claimed_at = sample_time, td_now = sample_time, td_run_id = (\<lambda>p. p @ ''_0001''),
     td_token = ''0123'', td_decided_at = sample_time\<rparr>"

definition example_context :: dict where
  "example_context = dict [(''service'', JStr ''checkout''), (''summary'', JStr ''errors''),
     (''observed_at'', JStr ''2026-01-02T03:04:05Z''), (''source'', JStr ''grafana''), (''severity'', JStr ''sev2'')]"

definition example_iid :: string where
  "example_iid = ''inc-'' @ replicate 32 CHR ''d''"

definition example_rid :: string where
  "example_rid = ''run_'' @ replicate 32 CHR ''d''"

definition declared_state :: dict where
  "declared_state = declared_incident incident_response ''alert_1'' example_context"

definition declared_row :: incident_record where
  "declared_row = \<lparr>ir_id = example_iid, ir_state = declared_state, ir_version = 0, ir_created_at = sample_time, ir_updated_at = sample_time\<rparr>"

definition declared_first_run :: run_record where
  "declared_first_run = \<lparr>rr_id = example_rid, rr_incident_id = example_iid, rr_state = declared_run incident_response,
     rr_version = 0, rr_created_at = sample_time, rr_updated_at = sample_time\<rparr>"

definition declared_store :: store where
  "declared_store = empty_store\<lparr>incidents := [declared_row], runs := [declared_first_run]\<rparr>"

definition ana_reference :: actor_reference where
  "ana_reference = \<lparr>ar_principal_id = ''ana_ops'', ar_display_name = Some ''Ana'', ar_reference_version = ''1.0.0''\<rparr>"

definition example_declaration :: incident_command where
  "example_declaration = declare_command example_hashing sample_time (replicate 64 CHR ''d'') ''human'' ana_reference (JStr ''sev2'') (JStr ''down'') True"

definition declare_edge :: transition where
  "declare_edge = \<lparr>t_id = ''triage_declare'', t_source = ''triage'', t_target = ''active'', t_actors = {''human'', ''system''},
     t_requires_approval = False, t_decision_point = Some ''triage_outcome'', t_outcomes = [''declare''],
     t_records_decision = True, t_records_approval = False\<rparr>"

definition investigate_edge :: transition where
  "investigate_edge = \<lparr>t_id = ''start_investigation'', t_source = ''active'', t_target = ''investigating'',
     t_actors = {''human'', ''agent'', ''system''}, t_requires_approval = False, t_decision_point = None, t_outcomes = [],
     t_records_decision = False, t_records_approval = False\<rparr>"

lemma find_edges:
  "workflow_transition incident_response ''triage_declare'' = Inr declare_edge"
  "workflow_transition incident_response ''start_investigation'' = Inr investigate_edge"
  by (simp_all add: workflow_transition_def pinned_lookup pinned_simps declare_edge_def investigate_edge_def)

lemma example_state_fields:
  "get declared_state ''workflow_id'' = JStr ''incident-response''" "get declared_state ''workflow_version'' = JStr ''1.0.0''"
  "get declared_state ''state'' = JStr ''triage''" "get declared_state ''approvals'' = JNull" "jsonb_ok (JObj declared_state)"
  by (simp_all add: declared_state_def declared_incident_def example_context_def jsonb_ok_upd jsonb_add)

lemma impact_ok: "bad_impact (JStr ''down'') = False" "text_within 2000 (JStr ''down'')"
  by (simp_all add: bad_impact_def text_within_def blank_iff py_len_def utf8_rest_def utf8_lead_def py_space_def)

lemma example_alert: "fmupd ''alert_id'' (JStr ''alert_1'') fmempty ++\<^sub>f example_context \<noteq> fmempty"
proof
  assume "fmupd ''alert_id'' (JStr ''alert_1'') fmempty ++\<^sub>f example_context = fmempty"
  then have "get (fmupd ''alert_id'' (JStr ''alert_1'') fmempty ++\<^sub>f example_context) ''service'' = JNull" by simp
  then show False by (simp add: example_context_def)
qed

lemma declaration_checks:
  "assert_supported_state incident_response declared_state (declared_run incident_response) = Inr ()"
  "validate example_declaration declare_edge declared_state 0 = Inr ()"
  by (simp_all add: check_simps example_state_fields declared_run_def incident_response_states_def ana_reference_def impact_ok
      example_declaration_def declare_command_def declare_edge_def Let_def inputs_of_def)

lemma declaration_reduces:
  obtains istate rstate where "reduce incident_response (declaration_draws example_triage_draws (replicate 64 CHR ''d''))
      example_declaration declare_edge declared_state (declared_run incident_response) = Inr (istate, rstate)"
proof -
  have a: "get declared_state ''alert'' = JObj (dict [(''alert_id'', JStr ''alert_1'')] ++\<^sub>f example_context)"
    by (simp add: declared_state_def declared_incident_def)
  show ?thesis
    using that by (simp add: reduce_simps returns_to_investigation_def Let_def example_declaration_def declare_command_def
        declare_edge_def a item_def impact_ok example_alert)
qed

lemma declaration_documents:
  obtains document where "decision_document incident_response (declaration_draws example_triage_draws (replicate 64 CHR ''d''))
      example_declaration declare_edge declared_state None = Inr document"
  by (simp add: reduce_simps Let_def example_declaration_def declare_command_def declare_edge_def)

lemma declaration_fields:
  "c_incident_id example_declaration = example_iid" "c_run_id example_declaration = example_rid"
  "c_command_id example_declaration = ''cmd-'' @ replicate 32 CHR ''d''" "c_transition_id example_declaration = ''triage_declare''"
  "c_extra_events example_declaration = []" "c_contexts example_declaration = []" "c_dispatch_id example_declaration = None"
  by (simp_all add: example_declaration_def declare_command_def example_iid_def example_rid_def)

lemma declared_rows:
  "get_incident example_iid declared_store = Some declared_row"
  "get_for_incident example_rid example_iid declared_store = Some declared_first_run"
  "get_transition iid cid sha declared_store = Inr None" "fresh_draws dr declared_store" "sound_store declared_store"
  by (simp_all add: declared_store_def empty_store_def get_incident_def get_for_incident_def get_transition_def
      select_one_def declared_row_def declared_first_run_def fresh_draws_def get_decision_def sound_store_def
      sound_incident_def sound_run_def example_state_fields declared_run_def jsonb_ok_upd)

lemma declaration_clean: "clean_command example_declaration"
  "clean_draws (declaration_draws example_triage_draws (replicate 64 CHR ''d''))"
  by (simp_all add: clean_command_def example_declaration_def declare_command_def fits_length inputs_of_def jsonb_ok_upd
      ana_reference_def actor_json_def actor_dict_def fits_opt_def clean_draws_def declaration_draws_def)

lemma example_digest: "sha256_hex (rt_digest example_runtime d)"
  by (simp add: example_runtime_def sha256_hex_def hex_char_def list_all_iff less_eq_char_def)

lemma declaration_executes:
  obtains a where
    "execute example_runtime (declaration_draws example_triage_draws (replicate 64 CHR ''d'')) example_declaration declared_store =
       Inr (result_of a declared_row declared_first_run declared_store,
            written a declared_row declared_first_run [] [] declared_store)"
    and "plan_apply example_runtime (declaration_draws example_triage_draws (replicate 64 CHR ''d'')) example_declaration
       (rt_digest example_runtime (command_payload example_declaration)) declared_row declared_first_run declared_store = Inr a"
proof -
  let ?dr = "declaration_draws example_triage_draws (replicate 64 CHR ''d'')"
  obtain istate rstate where r: "reduce incident_response ?dr example_declaration declare_edge declared_state
      (declared_run incident_response) = Inr (istate, rstate)" by (rule declaration_reduces)
  obtain document where d: "decision_document incident_response ?dr example_declaration declare_edge declared_state None = Inr document"
    by (rule declaration_documents)
  have st: "ir_state declared_row = declared_state" "rr_state declared_first_run = declared_run incident_response"
      "ir_version declared_row = 0" "ir_created_at declared_row = sample_time" "rr_created_at declared_first_run = sample_time"
      "d_now ?dr = sample_time"
    by (simp_all add: declared_row_def declared_first_run_def declaration_draws_def example_triage_draws_def)
  obtain a where a: "plan_apply example_runtime ?dr example_declaration
       (rt_digest example_runtime (command_payload example_declaration)) declared_row declared_first_run declared_store = Inr a"
    by (rule plan_succeeds [where rt = example_runtime and c = example_declaration and dr = ?dr and t = declare_edge
          and i = declared_row and r = declared_first_run
          and sha = "rt_digest example_runtime (command_payload example_declaration)" and s = declared_store])
       (simp_all add: approve_enabled(1) st r d declaration_checks declaration_fields find_edges, simp add: declare_edge_def)
  have "execute example_runtime ?dr example_declaration declared_store =
       Inr (result_of a declared_row declared_first_run declared_store, written a declared_row declared_first_run [] [] declared_store)"
    by (rule enabled_executes [OF a])
       (simp_all add: approve_enabled(1) declaration_clean declared_rows declaration_fields command_lookup_def st
         example_digest example_state_fields)
  with that a show thesis by blast
qed

definition example_start :: run_start where
  "example_start = investigation_start example_iid ''human'' ana_reference"

lemma start_fields:
  "s_incident_id example_start = example_iid" "s_command_id example_start = investigation_command_id example_iid"
  "s_objective example_start = ''investigate''" "s_actor example_start = ''human''" "s_actor_reference example_start = Some ana_reference"
  by (simp_all add: example_start_def investigation_start_def)

lemma start_validates:
  assumes "get old ''state'' = JStr ''active''" "get old ''workflow_id'' = JStr ''incident-response''"
    "get old ''workflow_version'' = JStr ''1.0.0''"
  shows "validate (start_command example_start rid False ''start_investigation'') investigate_edge old v = Inr ()"
    and "assert_supported_state incident_response old (dict [(''workflow_version'', JStr ''1.0.0''), (''current_state'', JStr ''active''),
       (''status'', JStr ''running'')]) = Inr ()"
  using assms
  by (simp_all add: check_simps start_command_def start_fields ana_reference_def investigate_edge_def inputs_of_def Let_def
      incident_response_states_def)

lemma start_reduces:
  assumes "truthy (get old ''severity'')"
  obtains istate rstate where "reduce incident_response dr (start_command example_start rid False ''start_investigation'')
      investigate_edge old old_run = Inr (istate, rstate)"
  using assms that
  by (simp add: reduce_simps returns_to_investigation_def Let_def start_command_def start_fields investigate_edge_def example_iid_def)

lemma start_documents:
  obtains document where "decision_document incident_response dr (start_command example_start rid False ''start_investigation'')
      investigate_edge old None = Inr document"
  by (simp add: reduce_simps Let_def start_command_def investigate_edge_def)

lemma start_command_fields:
  "c_incident_id (start_command q rid False tid) = s_incident_id q" "c_run_id (start_command q rid False tid) = rid"
  "c_command_id (start_command q rid False tid) = s_command_id q" "c_transition_id (start_command q rid False tid) = tid"
  "c_actor (start_command q rid False tid) = s_actor q" "c_actor_reference (start_command q rid False tid) = s_actor_reference q"
  "c_execution (start_command q rid False tid) = None" "c_outcome (start_command q rid False tid) = None"
  "c_turn_id (start_command q rid False tid) = None" "c_inputs (start_command q rid False tid) = None"
  by (simp_all add: start_command_def)

lemma start_clean: "clean_command (start_command example_start ''run_0001'' False ''start_investigation'')"
  by (simp add: clean_command_def start_command_fields start_fields inputs_of_def fits_length investigation_command_id_def
      ana_reference_def actor_json_def actor_dict_def jsonb_ok_upd fits_opt_def example_iid_def)

lemma start_plans:
  assumes "get (ir_state i) ''state'' = JStr ''active''" "get (ir_state i) ''workflow_id'' = JStr ''incident-response''"
    "get (ir_state i) ''workflow_version'' = JStr ''1.0.0''" "truthy (get (ir_state i) ''severity'')"
  obtains b where "plan_apply example_runtime dr (start_command example_start rid False ''start_investigation'')
      sha i (opened_run example_runtime dr example_start i) s = Inr b"
proof -
  let ?c = "start_command example_start rid False ''start_investigation''" and ?r = "opened_run example_runtime dr example_start i"
  obtain istate rstate where r: "reduce incident_response dr ?c investigate_edge (ir_state i) (rr_state ?r) = Inr (istate, rstate)"
    by (rule start_reduces [where old = "ir_state i", OF assms(4)])
  obtain document where d: "decision_document incident_response dr ?c investigate_edge (ir_state i) None = Inr document"
    by (rule start_documents)
  have rt: "rt_workflow example_runtime = incident_response" by (simp add: approve_enabled(1))
  have run: "rr_state ?r = dict [(''workflow_version'', JStr ''1.0.0''), (''current_state'', JStr ''active''), (''status'', JStr ''running'')]"
    using assms(1) by (simp add: opened_run_def rt)
  show thesis
  proof (rule plan_succeeds [where rt = example_runtime and c = ?c and dr = dr and i = i and r = ?r and sha = sha and s = s])
    show "assert_supported_state (rt_workflow example_runtime) (ir_state i) (rr_state ?r) = Inr ()"
      unfolding rt run by (rule start_validates(2) [OF assms(1-3)])
    show "workflow_transition (rt_workflow example_runtime) (c_transition_id ?c) = Inr investigate_edge"
      unfolding rt start_command_fields by (rule find_edges(2))
    show "validate ?c investigate_edge (ir_state i) (ir_version i) = Inr ()" by (rule start_validates(1) [OF assms(1-3)])
    show "t_id investigate_edge \<noteq> ''close_incident''" by (simp add: investigate_edge_def)
    show "reduce (rt_workflow example_runtime) dr ?c investigate_edge (ir_state i) (rr_state ?r) = Inr (istate, rstate)"
      unfolding rt by (rule r)
    show "decision_document (rt_workflow example_runtime) dr ?c investigate_edge (ir_state i) None = Inr document"
      unfolding rt by (rule d)
  qed (rule that)
qed

lemma example_rid_new: "example_rid \<noteq> ''run_0001''"
  by (simp add: example_rid_def numeral_eq_Suc)

text \<open>What the declaration leaves for the investigation that follows in the same transaction.\<close>

lemma declaration_state:
  assumes plan: "plan_apply example_runtime (declaration_draws example_triage_draws (replicate 64 CHR ''d'')) example_declaration
       (rt_digest example_runtime (command_payload example_declaration)) declared_row declared_first_run declared_store = Inr a"
  shows "get (pa_incident_state a) ''state'' = JStr ''active''" "get (pa_incident_state a) ''severity'' = JStr ''sev2''"
    "get (pa_incident_state a) ''workflow_id'' = JStr ''incident-response''" "get (pa_incident_state a) ''workflow_version'' = JStr ''1.0.0''"
    "get (pa_incident_state a) ''approvals'' = JNull"
proof -
  let ?dr = "declaration_draws example_triage_draws (replicate 64 CHR ''d'')"
  have st: "ir_state declared_row = declared_state" "rr_state declared_first_run = declared_run incident_response"
    by (simp_all add: declared_row_def declared_first_run_def)
  from plan obtain rstate where red: "reduce incident_response ?dr example_declaration declare_edge declared_state
      (declared_run incident_response) = Inr (pa_incident_state a, rstate)"
    by (elim plan_apply_Inr) (simp add: approve_enabled(1) declaration_fields find_edges st)
  show "get (pa_incident_state a) ''state'' = JStr ''active''" "get (pa_incident_state a) ''severity'' = JStr ''sev2''"
    using declare_reduced [OF red [unfolded example_declaration_def]] by (simp_all add: declare_edge_def)
  obtain i1 i2 where r: "reduce_patch ?dr example_declaration declare_edge declared_state = Inr i1"
      "reduce_triage example_declaration declare_edge (reduce_identity ?dr example_declaration declare_edge i1) = Inr i2"
      "reduce_mitigation ?dr example_declaration declare_edge i2 = Inr (pa_incident_state a)"
    using red by (rule reduce_Inr)
  have "get (pa_incident_state a) k = get declared_state k" if "k \<in> {''workflow_id'', ''workflow_version'', ''approvals''}" for k
    using that reduce_patch_get [OF r(1), of k] reduce_triage_get [OF r(2), of k]
      reduce_mitigation_same [OF _ _ r(3)] by (auto simp: reduce_identity_get declare_edge_def patchable_by_transition_def)
  then show "get (pa_incident_state a) ''workflow_id'' = JStr ''incident-response''"
      "get (pa_incident_state a) ''workflow_version'' = JStr ''1.0.0''" "get (pa_incident_state a) ''approvals'' = JNull"
    by (simp_all add: example_state_fields)
qed

lemma declaration_ids:
  assumes plan: "plan_apply example_runtime (declaration_draws example_triage_draws (replicate 64 CHR ''d'')) example_declaration
       (rt_digest example_runtime (command_payload example_declaration)) declared_row declared_first_run declared_store = Inr a"
    and s3: "s3 = written a declared_row declared_first_run [] [] declared_store"
  shows "fresh_draws (investigation_draws example_triage_draws) s3" "get_run ''run_0001'' s3 = None"
    "start_lookup example_runtime example_start s3 = Inr None" "get_incident example_iid s3 = Some (next_incident a declared_row)"
proof -
  note id = plan_apply_identity [OF plan]
  from plan obtain e where pa: "dd_id (pa_decision a) = d_id (declaration_draws example_triage_draws (replicate 64 CHR ''d'')) ''dec''"
      "pa_events a = [e]" "ed_id e = d_id (declaration_draws example_triage_draws (replicate 64 CHR ''d'')) ''evt''"
      "\<forall>d. pa_snapshot a = Some d \<longrightarrow> sd_id d = d_id (declaration_draws example_triage_draws (replicate 64 CHR ''d'')) ''snap''"
    by (elim plan_apply_Inr) (simp add: declaration_fields state_change_event_def planned_snapshot_def)
  have empty: "decisions declared_store = []" "run_events declared_store = []" "snapshots declared_store = []"
      "transition_commits declared_store = []" "runs declared_store = [declared_first_run]" "incidents declared_store = [declared_row]"
    by (simp_all add: declared_store_def empty_store_def)
  show "fresh_draws (investigation_draws example_triage_draws) s3"
    unfolding s3 fresh_draws_def get_decision_def written_def
    by (auto simp: empty select_one_def decision_row_def pa stored_events_def stored_snapshot_def snapshot_rows_def
        investigation_draws_def example_triage_draws_def declaration_draws_def split: option.splits)
  show "get_run ''run_0001'' s3 = None"
    by (simp add: s3 written_def empty get_run_def select_one_def update_where_def declared_first_run_def id declaration_fields example_rid_new)
  show "start_lookup example_runtime example_start s3 = Inr None"
    by (simp add: s3 written_def empty start_lookup_def get_transition_def select_one_def commit_of_def id declaration_fields
        start_fields investigation_command_id_def)
  show "get_incident example_iid s3 = Some (next_incident a declared_row)"
    by (simp add: s3 written_def empty get_incident_def select_one_def update_where_def declared_row_def next_incident_def id declaration_fields)
qed

text \<open>The investigation that follows, in the same transaction.\<close>

lemma investigation_starts:
  assumes exec: "execute example_runtime (declaration_draws example_triage_draws (replicate 64 CHR ''d'')) example_declaration declared_store =
       Inr (result_of a declared_row declared_first_run declared_store, s3)"
    and s3: "s3 = written a declared_row declared_first_run [] [] declared_store"
    and plan: "plan_apply example_runtime (declaration_draws example_triage_draws (replicate 64 CHR ''d'')) example_declaration
       (rt_digest example_runtime (command_payload example_declaration)) declared_row declared_first_run declared_store = Inr a"
  obtains result s4 where "start_run example_runtime (investigation_draws example_triage_draws) example_start s3 = Inr (result, s4)"
    and "rr_id (tr_run result) = ''run_0001''"
proof -
  let ?dr = "investigation_draws example_triage_draws" and ?i = "next_incident a declared_row" and ?q = example_start
  let ?r = "opened_run example_runtime ?dr ?q ?i"
  note state = declaration_state [OF plan] and ids = declaration_ids [OF plan s3]
  have i: "ir_state ?i = pa_incident_state a" "ir_created_at ?i = sample_time" by (simp_all add: next_incident_def declared_row_def)
  have drawn: "d_id ?dr ''run'' = ''run_0001''" "d_now ?dr = next_micro sample_time" "clean_draws ?dr"
    by (simp_all add: investigation_draws_def example_triage_draws_def clean_draws_def fits_length)
  obtain b where b: "plan_apply example_runtime ?dr (start_command ?q ''run_0001'' False ''start_investigation'')
      (rt_digest example_runtime (start_payload ?q)) ?i ?r (s3\<lparr>runs := runs s3 @ [?r]\<rparr>) = Inr b"
    by (rule start_plans [where i = ?i]) (simp_all add: i state)
  have sound: "sound_store s3" by (rule soundness.executes [OF declared_rows(5) exec])
  have "start_run example_runtime ?dr ?q s3 = Inr (result_of b ?i ?r (s3\<lparr>runs := runs s3 @ [?r]\<rparr>),
      written b ?i ?r [] [] (s3\<lparr>runs := runs s3 @ [?r]\<rparr>))"
  proof (rule enabled_starts [where tid = "''start_investigation''"])
    show "map_of objective_transitions (s_objective ?q) = Some ''start_investigation''"
      by (simp add: start_fields objective_transitions_def)
    show "\<not> retries ?q ?i" by (simp add: retries_def i state)
    show "jsonb_ok (JObj (rr_state ?r))" by (simp add: opened_run_def i state approve_enabled(1) jsonb_ok_upd)
    show "ir_created_at ?i \<le> d_now ?dr" by (simp add: i drawn next_micro_def sample_time_def less_eq_datetime_def dt_key_def)
    show "sha256_hex (rt_digest example_runtime (start_payload ?q))" by (rule example_digest)
  qed (use b sound ids start_clean in \<open>simp_all add: start_fields drawn i state approve_enabled(1) fits_length\<close>)
  moreover have "rr_id ?r = ''run_0001''" by (simp add: opened_run_def drawn)
  ultimately show thesis using that by (simp add: result_of_def next_run_def)
qed

section \<open>The triage command\<close>

definition triage_registry :: registry where
  "triage_registry = sample_registry\<lparr>grants := (hd (grants sample_registry))\<lparr>g_id := ''grant_2'', g_action := ''incident.declare''\<rparr> #
     grants sample_registry\<rparr>"

definition example_triage :: triage_command where
  "example_triage = \<lparr>q_alert_id = ''alert_1'', q_operation = ''triage_declare'', q_expected_version = 1,
     q_reason = JStr ''customers affected'', q_severity = JStr ''sev2'', q_impact = JStr ''down'', q_alert_context = JObj example_context,
     q_target_incident_id = JNull, q_idempotency_key = ''0123456789abcdef'', q_responsible_system = None\<rparr>"

definition example_db :: triage_db where
  "example_db = \<lparr>db_store = empty_store, db_registry = triage_registry, db_bindings = [], db_triage = []\<rparr>"

lemma registry_allows:
  assumes "action \<in> {''incident.declare'', ''run.start''}"
  shows "has_action triage_registry sample_principal action = Inr True"
proof -
  have f: "\<exists>g. find_active triage_registry (p_id sample_principal) action WORKFLOW_TYPE WORKFLOW_ID = Inr g"
    using assms by (auto simp: find_active_def sample_registry_def triage_registry_def sample_principal_def select_one_def
      is_exact_active_grant_def project_grant_def WORKFLOW_TYPE_def WORKFLOW_ID_def
      identifier_pattern_def action_pattern_def action_char_def class_run_def slug_char_def lower_digit_def
      less_eq_char_def RESOURCE_TYPES_def py_len_def Let_def utf8_rest_def utf8_lead_def)
  then obtain e where e: "evaluate (resource_view triage_registry) (find_active triage_registry) sample_principal action WORKFLOW_TYPE WORKFLOW_ID = Inr e"
    using catalog.never_raises by blast
  have "allowed e" using assms catalog.decided(1) [OF e]
    by (auto simp: sample_principal_def sample_registry_def triage_registry_def resource_view_def select_one_def active_grant_def
        is_exact_active_grant_def WORKFLOW_TYPE_def WORKFLOW_ID_def)
  then show ?thesis by (simp add: has_action_def e)
qed

lemma example_texts:
  "text_within 200 (JStr ''grafana'')" "text_within 2000 (JStr ''errors'')" "text_within 200 (JStr ''checkout'')"
  "py_len ''customers affected'' = 18"
  by (simp_all add: text_within_def blank_iff py_len_def utf8_rest_def utf8_lead_def py_space_def)

lemma example_instant: "rfc3339 ''2026-01-02T03:04:05Z''"
  by code_simp

lemma triage_checked: "check_command example_triage = Inr ()"
  by (simp add: check_command_def example_triage_def ACTIONS_def identifier_pattern_def key_pattern_def class_run_def
      slug_char_def lower_digit_def less_eq_char_def check_alert_context_def example_context_def example_texts impact_ok
      example_instant TRIAGE_SEVERITIES_def keys_exactly_def ALERT_CONTEXT_KEYS_def)

lemma triage_claims:
  obtains b rows where "claim_or_replay (claim_of example_hashing example_triage_draws sample_principal example_triage) [] = Inr (b, rows)"
    and "\<not> ib_replayed b" "get_binding (''triage:'' @ q_alert_id example_triage)
      (h_text example_hashing (q_idempotency_key example_triage)) rows \<noteq> None"
proof -
  let ?q = "claim_of example_hashing example_triage_draws sample_principal example_triage"
  have "storable_claim ?q"
    by (simp add: storable_claim_def claim_of_def example_hashing_def sample_principal_def example_triage_def fits_length
        outcome_document_def jsonb_ok_upd)
  then show thesis
    using that by (simp add: claim_or_replay_def claim_of_def retained_until_def get_binding_def select_one_def claim_row_def)
qed

lemma example_declares:
  obtains s where "triage_transition example_runtime example_hashing example_triage_draws sample_principal example_triage
      (replicate 64 CHR ''d'') None (example_db\<lparr>db_bindings := rows\<rparr>) =
      Inr ((Some example_iid, Some ''run_0001''), example_db\<lparr>db_bindings := rows, db_store := s\<rparr>)"
    and "get_incident example_iid s \<noteq> None"
proof -
  obtain a where exec: "execute example_runtime (declaration_draws example_triage_draws (replicate 64 CHR ''d'')) example_declaration declared_store =
       Inr (result_of a declared_row declared_first_run declared_store,
            written a declared_row declared_first_run [] [] declared_store)"
    and plan: "plan_apply example_runtime (declaration_draws example_triage_draws (replicate 64 CHR ''d'')) example_declaration
       (rt_digest example_runtime (command_payload example_declaration)) declared_row declared_first_run declared_store = Inr a"
    by (rule declaration_executes)
  from exec refl plan obtain result s4 where start: "start_run example_runtime (investigation_draws example_triage_draws) example_start
        (written a declared_row declared_first_run [] [] declared_store) = Inr (result, s4)"
      "rr_id (tr_run result) = ''run_0001''"
    by (rule investigation_starts)
  have ids: "''inc-'' @ take 32 (replicate 64 CHR ''d'') = example_iid" "''run_'' @ take 32 (replicate 64 CHR ''d'') = example_rid"
    by (simp_all add: example_iid_def example_rid_def)
  have actor: "declaring_actor sample_principal None = (''human'', ana_reference)"
    by (simp add: declaring_actor_def sample_principal_def ana_reference_def)
  have add: "add_incident example_iid (declared_incident incident_response ''alert_1'' example_context) sample_time empty_store =
      Inr (declared_row, empty_store\<lparr>incidents := [declared_row]\<rparr>)"
    "add_run example_rid example_iid (declared_run incident_response) sample_time (empty_store\<lparr>incidents := [declared_row]\<rparr>) =
      Inr (declared_first_run, declared_store)"
    using example_state_fields(5)
    by (simp_all add: add_incident_def add_run_def jsonb_stores declared_state_def [symmetric] get_incident_def get_run_def select_one_def
        empty_store_def declared_row_def declared_first_run_def declared_store_def declared_run_def jsonb_ok_upd Let_def
        example_iid_def example_rid_def fits_length)
  have d: "declare_incident example_runtime example_hashing example_triage_draws ''alert_1'' (replicate 64 CHR ''d'') sample_principal
      (JStr ''sev2'') (JStr ''down'') example_context None (Inr True) empty_store = Inr ((example_iid, Some ''run_0001''), s4)"
    unfolding declare_incident_def Let_def ids actor fst_conv snd_conv
    using exec start
    by (simp add: add approve_enabled(1) catching_def raised_def example_declaration_def [symmetric] example_start_def [symmetric]
       example_triage_draws_def)
  have "commits_known empty_store" by (simp add: commits_known_def empty_store_def)
  then have "get_incident example_iid s4 \<noteq> None" using declare_opens [OF d _ approve_enabled(1)] by blast
  with d show thesis
    using that by (simp add: triage_transition_def example_triage_def example_db_def registry_allows)
qed

lemma triage_executes:
  obtains result db' where
    "execute_triage example_runtime example_hashing example_triage_draws sample_principal example_triage example_db = Inr (result, db')"
    and "\<not> tg_replayed result" and "tg_incident_id result = Some example_iid" and "db_store db' \<noteq> db_store example_db"
proof -
  let ?td = example_triage_draws and ?h = example_hashing and ?q = example_triage
  obtain b rows where claim: "claim_or_replay (claim_of ?h ?td sample_principal ?q) [] = Inr (b, rows)" "\<not> ib_replayed b"
      "get_binding (''triage:'' @ q_alert_id ?q) (h_text ?h (q_idempotency_key ?q)) rows \<noteq> None"
    by (rule triage_claims)
  obtain s where t: "triage_transition example_runtime ?h ?td sample_principal ?q (replicate 64 CHR ''d'') None (example_db\<lparr>db_bindings := rows\<rparr>) =
      Inr ((Some example_iid, Some ''run_0001''), example_db\<lparr>db_bindings := rows, db_store := s\<rparr>)"
    and found: "get_incident example_iid s \<noteq> None"
    by (rule example_declares)
  have changed: "s \<noteq> empty_store" using found by (auto simp: get_incident_def empty_store_def select_one_def)
  let ?row = "decided_row ?td sample_principal ?q (Some example_iid)\<lparr>ta_expected_version := 1\<rparr>"
  have h: "h_text ?h k = replicate 64 CHR ''d''" for k by (simp add: example_hashing_def)
  have resp: "responsible_system sample_principal ?q = None"
    by (simp add: responsible_system_def decision_origin_def sample_principal_def example_triage_def)
  have row: "?row = \<lparr>ta_alert_id = ''alert_1'', ta_status = ''declared'', ta_incident_id = Some example_iid, ta_expected_version = 1,
      ta_reason = Some ''customers affected'', ta_severity = Some ''sev2'', ta_actor = ''ana_ops'', ta_decided_at = sample_time,
      ta_decision_origin = ''manual'', ta_responsible_system = None\<rparr>"
    by (simp add: decided_row_def resp) (simp add: example_triage_def STATES_def as_string_def example_triage_draws_def
        decision_origin_def sample_principal_def)
  have ok: "triage_row_ok ?row"
    unfolding row by (simp add: triage_row_ok_def fits_length fits_opt_def TRIAGE_SEVERITIES_def example_iid_def nonspace_def)
  have w: "write_triage None (decided_row ?td sample_principal ?q (Some example_iid)) [] = Inr (Some ?row, [?row])"
    using ok by (simp add: write_triage_def Let_def get_triage_def select_one_def)
  have doc: "jsonb_ok (JObj (result_document ?row))"
    unfolding row by (simp add: result_document_def jsonb_ok_upd example_iid_def)
  have none: "get_triage a [] = None" for a by (simp add: get_triage_def select_one_def)
  let ?db = "example_db\<lparr>db_bindings := rows\<rparr>"
  have chk: "check_current example_runtime ?h ?td sample_principal ?q ?db = Inr ()"
    by (simp add: check_current_def example_db_def none) (simp add: example_triage_def)
  obtain bindings where p: "set_response_payload (''triage:'' @ q_alert_id ?q) (replicate 64 CHR ''d'') (result_document ?row) rows = Inr bindings"
    using claim(3) doc by (auto simp: set_response_payload_def h)
  obtain result where r: "build_result (result_document ?row) False 201 (Some ''run_0001'') = Inr result"
      "\<not> tg_replayed result" "tg_incident_id result = Some example_iid"
    by (simp add: build_result_document)
  have op: "q_operation ?q = ''triage_declare''" by (simp add: example_triage_def)
  have "decide example_runtime ?h ?td sample_principal ?q ?db =
      Inr (result, ?db\<lparr>db_store := s, db_triage := [?row], db_bindings := bindings\<rparr>)"
    unfolding decide_def chk and_then_simps h resp t Let_def prod.case
    using w p r(1)
    by (simp add: example_db_def none op raised_def bindings_of_def decided_row_def resp)
  moreover have "authorize (db_registry example_db) sample_principal ''incident.declare'' = Inr ()"
    by (simp add: authorize_def example_db_def registry_allows raised_def)
  ultimately have "execute_triage example_runtime ?h ?td sample_principal ?q example_db =
      Inr (result, ?db\<lparr>db_store := s, db_triage := [?row], db_bindings := bindings\<rparr>)"
    using claim
    by (simp add: execute_triage_def triage_checked op ACTIONS_def principal_may_issue_def)
       (simp add: sample_principal_def example_db_def bindings_of_def)
  with that r changed show thesis by (simp add: example_db_def)
qed

section \<open>The properties\<close>

text \<open>
  C13. A decision that ends an alert's triage is final: after any further triage commands, incident
  operations and changes of the registry, the alert still has that decision and that incident, and a
  later command on the alert either raises or replays a stored answer without changing anything. In
  particular an alert is declared as an incident at most once.
\<close>

theorem final_decision_stands:
  assumes "alerts_distinct (db_triage db)" and "execute_triage rt h td pr q db = Inr (result, db1)" and "\<not> tg_replayed result"
    and "q_operation q \<noteq> ''open_triage''" and "triage_steps rt h db1 db2"
  shows "(\<exists>r. get_triage (q_alert_id q) (db_triage db2) = Some r \<and> ta_status r = the (map_of STATES (q_operation q)) \<and>
       ta_incident_id r = tg_incident_id result) \<and>
     (q_alert_id q' = q_alert_id q \<and> execute_triage rt h td' pr' q' db2 = Inr (result', db3) \<longrightarrow>
       tg_replayed result' \<and> db3 = db2)"
proof -
  have op: "map_of ACTIONS (q_operation q) \<noteq> None" using assms(2) by (cases rule: execute_triage_Inr) simp_all
  obtain r where r: "get_triage (q_alert_id q) (db_triage db1) = Some r" "ta_status r = the (map_of STATES (q_operation q))"
      "ta_incident_id r = tg_incident_id result"
    using assms(2,1)
  proof (cases rule: replayed_flag)
    case (decided b rows)
    from decided(4) assms(1) show ?thesis
      by (elim decide_result) (auto intro: that simp: build_result_document)
  qed (use assms(3) in simp)
  have final: "final_row r" using final_operations [OF op assms(4)] r(2) by (simp add: final_row_def)
  have ok: "alerts_distinct (db_triage db1)" by (rule execute_triage_keeps(1) [OF assms(2,1)])
  have kept: "get_triage (q_alert_id q) (db_triage db2) = Some r" "alerts_distinct (db_triage db2)"
    using steps_keep [OF assms(5) ok] r(1) final by blast+
  then show ?thesis using final_refused [of rt h td' pr' q' db2 result' db3 r] r final by auto
qed

theorem final_decision_stands_witness:
  "\<exists>result db1. execute_triage example_runtime example_hashing example_triage_draws sample_principal example_triage example_db = Inr (result, db1) \<and>
     (\<exists>r. get_triage ''alert_1'' (db_triage db1) = Some r \<and> ta_status r = ''declared'' \<and> ta_incident_id r = Some example_iid)"
proof -
  have start: "alerts_distinct (db_triage example_db)" by (simp add: alerts_distinct_def example_db_def)
  obtain result db1 where e: "execute_triage example_runtime example_hashing example_triage_draws sample_principal example_triage example_db = Inr (result, db1)"
    "\<not> tg_replayed result" "tg_incident_id result = Some example_iid" by (rule triage_executes)
  have q: "q_operation example_triage = ''triage_declare''" "q_alert_id example_triage = ''alert_1''" by (simp_all add: example_triage_def)
  have "\<exists>r. get_triage (q_alert_id example_triage) (db_triage db1) = Some r \<and>
      ta_status r = the (map_of STATES (q_operation example_triage)) \<and> ta_incident_id r = tg_incident_id result"
    using final_decision_stands [OF start e(1,2) _ triage_steps.start] by (simp add: q)
  then show ?thesis using e by (auto simp: q STATES_def)
qed

text \<open>
  C14. A declaration opens exactly the incident it answers with: no incident had that identifier, and
  afterwards it holds the declared severity, impact and alert, is active when the declarant may not
  start a run and under investigation otherwise, and the answer names the investigation run.
\<close>

theorem declaration_opens_incident:
  assumes "execute_triage rt h td pr q db = Inr (result, db')" and "\<not> tg_replayed result" and "q_operation q = ''triage_declare''"
    and "alerts_distinct (db_triage db)" and "commits_known (db_store db)" and "rt_workflow rt = incident_response"
  shows "\<exists>iid i. tg_incident_id result = Some iid \<and> get_incident iid (db_store db) = None \<and> get_incident iid (db_store db') = Some i \<and>
     get (ir_state i) ''severity'' = q_severity q \<and> get (ir_state i) ''impact'' = q_impact q \<and>
     get (obj (get (ir_state i) ''alert'')) ''alert_id'' = JStr (q_alert_id q) \<and>
     get (ir_state i) ''state'' = JStr (if tg_investigation_run_id result = None then ''active'' else ''investigating'') \<and>
     investigation_run_id (Some iid) (db_store db') = tg_investigation_run_id result"
  using assms(1)
proof (cases rule: execute_triage_Inr)
  case (replayed b)
  then show ?thesis using assms(2) build_result_Inr(1) by (auto simp: replayed_result_def Let_def)
next
  case (decided b rows)
  let ?db = "db\<lparr>db_bindings := rows\<rparr>"
  have "alerts_distinct (db_triage ?db)" using assms(4) by simp
  with decided(3) obtain iid run db1 r v where
      t: "triage_transition rt h td pr q (h_text h (q_idempotency_key q)) (responsible_system pr q) ?db = Inr ((iid, run), db1)"
    and r: "r = (decided_row td pr q iid)\<lparr>ta_expected_version := v\<rparr>"
    and b: "build_result (result_document r) False (if q_operation q = ''triage_declare'' then 201 else 200) run = Inr result"
    and st: "db_store db' = db_store db1"
    by (rule decide_result)
  from t obtain x where iid: "iid = Some x"
    and d: "declare_incident rt h td (q_alert_id q) (h_text h (q_idempotency_key q)) pr (q_severity q) (q_impact q)
      (obj (q_alert_context q)) (responsible_system pr q) (has_action (db_registry db) pr ''run.start'') (db_store db) =
      Inr ((x, run), db_store db1)"
    by (auto simp: triage_transition_def assms(3) outcome_simps)
  have "''alert_id'' \<notin> fmdom' (obj (q_alert_context q))"
    using decided(6) by (auto simp: check_command_def assms(3) outcome_simps check_alert_context_def keys_exactly_def ALERT_CONTEXT_KEYS_def)
  then have alert: "get (dict [(''alert_id'', JStr (q_alert_id q))] ++\<^sub>f obj (q_alert_context q)) ''alert_id'' = JStr (q_alert_id q)"
    by (auto simp: get_def getd_def fmlookup_dom'_iff split: option.splits)
  have res: "tg_incident_id result = Some x" "tg_investigation_run_id result = run"
    using b r iid by (auto simp: build_result_document)
  from d assms(5,6) show ?thesis
    by (rule declare_opens) (use res st alert in auto)
qed

theorem declaration_opens_incident_witness:
  "\<exists>result db' i. execute_triage example_runtime example_hashing example_triage_draws sample_principal example_triage example_db = Inr (result, db') \<and>
     get_incident example_iid (db_store db') = Some i \<and> get (ir_state i) ''severity'' = JStr ''sev2'' \<and>
     get (obj (get (ir_state i) ''alert'')) ''alert_id'' = JStr ''alert_1''"
proof -
  obtain result db' where e: "execute_triage example_runtime example_hashing example_triage_draws sample_principal example_triage example_db = Inr (result, db')"
    "\<not> tg_replayed result" "tg_incident_id result = Some example_iid" by (rule triage_executes)
  have q: "q_operation example_triage = ''triage_declare''" "q_severity example_triage = JStr ''sev2''" "q_alert_id example_triage = ''alert_1''"
    by (simp_all add: example_triage_def)
  have start: "alerts_distinct (db_triage example_db)" "commits_known (db_store example_db)"
    by (simp_all add: alerts_distinct_def example_db_def commits_known_def empty_store_def)
  show ?thesis
    using declaration_opens_incident [OF e(1,2) q(1) start approve_enabled(1)] e by (auto simp: q)
qed

section \<open>Retries\<close>

lemma execute_triage_admitted:
  assumes "execute_triage rt h td pr q db = Inr (result, db1)" and "db_registry db' = db_registry db"
  shows "execute_triage rt h td' pr q db' = and_then (bindings_of (claim_or_replay (claim_of h td' pr q) (db_bindings db'))) (\<lambda>(binding, rows).
     let db1 = db'\<lparr>db_bindings := rows\<rparr>
     in if ib_replayed binding
        then and_then (raised (replayed_result q (io_response_payload (ib_outcome binding)) (db_store db'))) (\<lambda>result. Inr (result, db1))
        else decide rt h td' pr q db1)"
    and "has_action (db_registry db) pr (the (map_of ACTIONS (q_operation q))) = Inr True"
proof -
  let ?reg = "db_registry db"
  have ok: "check_command q = Inr ()" "authorize ?reg pr (the (map_of ACTIONS (q_operation q))) = Inr ()"
      "(if q_operation q = ''triage_link'' then authorize ?reg pr ''run.read'' else Inr ()) = Inr ()" "principal_may_issue pr (q_operation q)"
    using assms(1) unfolding execute_triage_def and_then_Inr_iff [of "check_command q"]
      and_then_Inr_iff [of "authorize ?reg pr (the (map_of ACTIONS (q_operation q)))"]
      and_then_Inr_iff [of "raise_if (\<not> principal_may_issue pr (q_operation q)) (TriageError 403 ''operator_required'')"]
      and_then_Inr_iff [of "if q_operation q = ''triage_link'' then authorize ?reg pr ''run.read'' else Inr ()"] raise_if_Inr_iff
    by simp_all
  then show "execute_triage rt h td' pr q db' = and_then (bindings_of (claim_or_replay (claim_of h td' pr q) (db_bindings db'))) (\<lambda>(binding, rows).
     let db1 = db'\<lparr>db_bindings := rows\<rparr>
     in if ib_replayed binding
        then and_then (raised (replayed_result q (io_response_payload (ib_outcome binding)) (db_store db'))) (\<lambda>result. Inr (result, db1))
        else decide rt h td' pr q db1)"
    by (simp only: execute_triage_def assms(2) and_then_simps not_not) (simp add: raise_if_def)
  show "has_action ?reg pr (the (map_of ACTIONS (q_operation q))) = Inr True"
    using ok(2) by (auto simp: authorize_def outcome_simps)
qed

lemma replayed_document:
  assumes "iid = ta_incident_id r"
  shows "replayed_result q (result_document r) s = build_result (result_document r) True
     (if q_operation q = ''triage_declare'' then 201 else 200)
     (if q_operation q = ''triage_declare'' then investigation_run_id iid s else None)"
  unfolding assms replayed_result_def
  by (cases "ta_incident_id r") (simp_all add: setdefault_def result_document_def as_string_def investigation_run_id_def)

text \<open>
  C15. A triage command repeated by the same principal within a day returns the answer of the first
  one, marked as replayed, and changes nothing.
\<close>

theorem triage_retry_returns_answer:
  assumes "execute_triage rt h td pr q db = Inr (result, db')" and "\<not> tg_replayed result"
    and "alerts_distinct (db_triage db)" and "commits_known (db_store db)" and "rt_workflow rt = incident_response"
    and "td_claimed_at td' < next_day (td_claimed_at td)"
  shows "execute_triage rt h td' pr q db' = Inr (result\<lparr>tg_replayed := True\<rparr>, db')"
  using assms(1,3)
proof (cases rule: replayed_flag)
  case (decided b rows)
  let ?db = "db\<lparr>db_bindings := rows\<rparr>" and ?run = "\<lambda>iid s. if q_operation q = ''triage_declare'' then investigation_run_id iid s else None"
  have "alerts_distinct (db_triage ?db)" using assms(3) by simp
  with decided(4) obtain iid run db1 r v where
      t: "triage_transition rt h td pr q (h_text h (q_idempotency_key q)) (responsible_system pr q) ?db = Inr ((iid, run), db1)"
    and r: "r = (decided_row td pr q iid)\<lparr>ta_expected_version := v\<rparr>"
    and p: "set_response_payload (''triage:'' @ q_alert_id q) (h_text h (q_idempotency_key q)) (result_document r) (db_bindings ?db) = Inr (db_bindings db')"
    and b: "build_result (result_document r) False (if q_operation q = ''triage_declare'' then 201 else 200) run = Inr result"
    and st: "db_store db' = db_store db1" "db_registry db' = db_registry ?db"
    by (rule decide_result)
  have run: "?run iid (db_store db') = run"
  proof (cases "q_operation q = ''triage_declare''")
    case True
    from t True obtain x where "iid = Some x" "declare_incident rt h td (q_alert_id q) (h_text h (q_idempotency_key q)) pr (q_severity q) (q_impact q)
      (obj (q_alert_context q)) (responsible_system pr q) (has_action (db_registry db) pr ''run.start'') (db_store db) = Inr ((x, run), db_store db1)"
      by (auto simp: triage_transition_def outcome_simps)
    with declare_opens [OF this(2) assms(4,5)] show ?thesis using True st by auto
  next
    case False
    then show ?thesis using t by (auto simp: triage_transition_def outcome_simps split: if_splits json.splits option.splits)
  qed
  let ?c = "claim_of h td pr q" and ?c' = "claim_of h td' pr q"
  have "bound (cq_scope ?c) (cq_key_digest ?c) (cq_principal_id ?c) (cq_payload_sha256 ?c) (result_document r) (cq_now ?c') (db_bindings db')"
    by (rule bindings.answered [OF decided(2,3)]) (use p assms(6) in \<open>simp_all add: claim_of_def\<close>)
  then have "\<exists>b. claim_or_replay ?c' (db_bindings db') = Inr (b, db_bindings db') \<and> ib_replayed b \<and> io_response_payload (ib_outcome b) = result_document r"
    by (intro bindings.replay) (simp_all add: claim_of_def)
  moreover have "replayed_result q (result_document r) (db_store db') = Inr (result\<lparr>tg_replayed := True\<rparr>)"
    using b r run by (subst replayed_document [of iid]) (auto simp: build_result_document)
  ultimately show ?thesis
    by (subst execute_triage_admitted(1) [OF assms(1)]) (auto simp: st bindings_of_def raised_def)
qed (use assms(2) in simp)

theorem triage_retry_returns_answer_witness:
  "\<exists>result db'. execute_triage example_runtime example_hashing example_triage_draws sample_principal example_triage example_db = Inr (result, db') \<and>
     execute_triage example_runtime example_hashing (example_triage_draws\<lparr>td_claimed_at := next_micro sample_time\<rparr>) sample_principal example_triage db' =
       Inr (result\<lparr>tg_replayed := True\<rparr>, db')"
proof -
  obtain result db' where e: "execute_triage example_runtime example_hashing example_triage_draws sample_principal example_triage example_db = Inr (result, db')"
    "\<not> tg_replayed result" by (rule triage_executes)
  have start: "alerts_distinct (db_triage example_db)" "commits_known (db_store example_db)"
    by (simp_all add: alerts_distinct_def example_db_def commits_known_def empty_store_def)
  have "td_claimed_at (example_triage_draws\<lparr>td_claimed_at := next_micro sample_time\<rparr>) < next_day (td_claimed_at example_triage_draws)"
    by (simp add: example_triage_draws_def sample_time_def next_day_def next_micro_def less_datetime_def dt_key_def days_in_month_def)
  then show ?thesis
    using triage_retry_returns_answer [OF e start approve_enabled(1)] e by blast
qed

text \<open>
  C16. Triage changes the incident store only through a declaration, issued under a human operator's
  identity with the right to declare incidents, on an alert whose triage is still open; and the record says
  whose decision it was. A declaration that names no responsible system is the operator's: the stored
  decision is manual and carries the operator's identity. One that names a system is automatic and that
  system's, never a human's: the stored decision carries the system, and every decision written into the
  incident names the actor \<^verbatim>\<open>system\<close> with that system's identity.
\<close>

theorem declaration_authorized_and_attributed:
  assumes "execute_triage rt h td pr q db = Inr (result, db')" and "db_store db' \<noteq> db_store db" and "alerts_distinct (db_triage db)"
  shows "q_operation q = ''triage_declare'' \<and> p_kind pr = ''human'' \<and> has_action (db_registry db) pr ''incident.declare'' = Inr True \<and>
     (\<forall>r. get_triage (q_alert_id q) (db_triage db) = Some r \<longrightarrow> ta_status r \<notin> set TERMINAL_STATES) \<and>
     (\<exists>r. get_triage (q_alert_id q) (db_triage db') = Some r \<and> ta_status r = ''declared'' \<and> ta_responsible_system r = q_responsible_system q \<and>
        ta_decision_origin r = (if q_responsible_system q = None then ''manual'' else ''external_automatic'') \<and>
        ta_actor r = (case q_responsible_system q of None \<Rightarrow> p_id pr | Some sys \<Rightarrow> sys)) \<and>
     (\<exists>new. decisions (db_store db') = decisions (db_store db) @ new \<and> (\<forall>d\<in>set new.
        case q_responsible_system q of
          None \<Rightarrow> get (de_document d) ''actor'' = JStr ''human'' \<and>
            get (obj (get (de_document d) ''actor_reference'')) ''principal_id'' = JStr (p_id pr)
        | Some sys \<Rightarrow> get (de_document d) ''actor'' = JStr ''system'' \<and>
            get (obj (get (de_document d) ''actor_reference'')) ''principal_id'' = JStr sys))"
  using assms(1)
proof (cases rule: execute_triage_Inr)
  case (decided b rows)
  let ?db = "db\<lparr>db_bindings := rows\<rparr>"
  have "alerts_distinct (db_triage ?db)" using assms(3) by simp
  with decided(3) obtain iid run db1 r v where
      t: "triage_transition rt h td pr q (h_text h (q_idempotency_key q)) (responsible_system pr q) ?db = Inr ((iid, run), db1)"
    and r: "r = (decided_row td pr q iid)\<lparr>ta_expected_version := v\<rparr>" "get_triage (q_alert_id q) (db_triage db') = Some r"
    and st: "db_store db' = db_store db1"
    by (rule decide_result)
  have op: "q_operation q = ''triage_declare''" using transition_frame(4) [OF t] st assms(2) by auto
  have human: "p_kind pr = ''human''" using op decided(4) by (simp add: principal_may_issue_def EXTERNAL_OPERATIONS_def)
  have sys: "responsible_system pr q = q_responsible_system q" "decision_origin pr q = (if q_responsible_system q = None then ''manual'' else ''external_automatic'')"
    using human by (simp_all add: responsible_system_def decision_origin_def)
  from t obtain x where "declare_incident rt h td (q_alert_id q) (h_text h (q_idempotency_key q)) pr (q_severity q) (q_impact q)
      (obj (q_alert_context q)) (responsible_system pr q) (has_action (db_registry db) pr ''run.start'') (db_store db) = Inr ((x, run), db_store db1)"
    by (auto simp: triage_transition_def op outcome_simps)
  then obtain new where new: "decisions (db_store db') = decisions (db_store db) @ new"
      "list_all (attributed (declaring_actor pr (q_responsible_system q))) new"
    using declare_attributed by (fastforce simp: names_only_def sys st)
  have names: "case q_responsible_system q of
        None \<Rightarrow> get (de_document d) ''actor'' = JStr ''human'' \<and> get (obj (get (de_document d) ''actor_reference'')) ''principal_id'' = JStr (p_id pr)
      | Some sys \<Rightarrow> get (de_document d) ''actor'' = JStr ''system'' \<and> get (obj (get (de_document d) ''actor_reference'')) ''principal_id'' = JStr sys"
    if "d \<in> set new" for d
    using new(2) that by (auto simp: list_all_iff attributed_def declaring_actor_def actor_dict_def split: option.splits)
  have row: "ta_status r = ''declared''" "ta_responsible_system r = q_responsible_system q"
      "ta_decision_origin r = (if q_responsible_system q = None then ''manual'' else ''external_automatic'')"
      "ta_actor r = (case q_responsible_system q of None \<Rightarrow> p_id pr | Some sys \<Rightarrow> sys)"
    by (simp_all add: r(1) op STATES_def) (simp_all add: decided_row_def sys)
  have "check_current rt h td pr q ?db = Inr ()" using decided(3) by (auto elim: decide_Inr)
  then have undecided: "\<forall>r. get_triage (q_alert_id q) (db_triage db) = Some r \<longrightarrow> ta_status r \<notin> set TERMINAL_STATES"
    using check_current_final(1) by (fastforce simp: final_row_def)
  have "has_action (db_registry db) pr ''incident.declare'' = Inr True"
    using execute_triage_admitted(2) [OF assms(1) refl] by (simp add: op ACTIONS_def)
  with op human undecided r(2) row new(1) names show ?thesis by blast
qed (use assms(2) in simp)

theorem declaration_authorized_and_attributed_witness:
  "\<exists>result db' r. execute_triage example_runtime example_hashing example_triage_draws sample_principal example_triage example_db = Inr (result, db') \<and>
     db_store db' \<noteq> empty_store \<and> has_action triage_registry sample_principal ''incident.declare'' = Inr True \<and>
     get_triage (q_alert_id example_triage) (db_triage db') = Some r \<and> ta_decision_origin r = ''manual'' \<and> ta_actor r = p_id sample_principal"
proof -
  obtain result db' where e: "execute_triage example_runtime example_hashing example_triage_draws sample_principal example_triage example_db = Inr (result, db')"
    "\<not> tg_replayed result" "db_store db' \<noteq> db_store example_db" by (rule triage_executes)
  have start: "alerts_distinct (db_triage example_db)" by (simp add: alerts_distinct_def example_db_def)
  have "q_responsible_system example_triage = None" by (simp add: example_triage_def)
  with declaration_authorized_and_attributed [OF e(1,3) start] e show ?thesis
    by (auto simp: example_db_def triage_registry_def)
qed

end
