(* ===== verification/Identity.thy ===== *)
theory Identity
  imports Authorization Idempotency
begin

text \<open>
  Who is calling: API-key material (\<^verbatim>\<open>persistence/api_keys.py\<close>), the tables of principals and
  credentials with their repositories (\<^verbatim>\<open>persistence/repositories.py\<close>), and the bearer
  authentication in front of every governed request (\<^verbatim>\<open>gateway/authentication.py\<close>).

  The scrypt derivation of \<^verbatim>\<open>hashlib\<close> is the parameter \<open>scrypt\<close> (key, then salt). The random
  material of an issuance (\<^verbatim>\<open>secrets\<close>, \<^verbatim>\<open>uuid4\<close>) is drawn per attempt.
\<close>

section \<open>API keys\<close>

definition key_char :: "char \<Rightarrow> bool" where
  "key_char c = ((CHR ''A'' \<le> c \<and> c \<le> CHR ''Z'') \<or> slug_char c)"

text \<open>\<^verbatim>\<open>KEY_PATTERN.fullmatch\<close>.\<close>

definition is_api_key :: "string \<Rightarrow> bool" where
  "is_api_key s = (case after_prefix ''sre_'' s of None \<Rightarrow> False | Some r \<Rightarrow> class_run key_char 24 128 r)"

definition PREFIX_LENGTH :: nat where "PREFIX_LENGTH = 16"

definition api_key_prefix :: "string \<Rightarrow> string" where
  "api_key_prefix s = py_prefix PREFIX_LENGTH s"

definition candidate_prefixes :: "string \<Rightarrow> string list" where
  "candidate_prefixes s = map (\<lambda>n. py_prefix n s) [4..<PREFIX_LENGTH + 1]"

text \<open>\<^verbatim>\<open>bytes.hex()\<close> and \<^verbatim>\<open>bytes.fromhex\<close>, which skips white space between bytes.\<close>

definition hex_digit :: "nat \<Rightarrow> char" where
  "hex_digit d = ''0123456789abcdef'' ! d"

definition hex_value :: "char \<Rightarrow> nat option" where
  "hex_value c =
     (if CHR ''0'' \<le> c \<and> c \<le> CHR ''9'' then Some (of_char c - 48)
      else if CHR ''a'' \<le> c \<and> c \<le> CHR ''f'' then Some (of_char c - 87)
      else if CHR ''A'' \<le> c \<and> c \<le> CHR ''F'' then Some (of_char c - 55) else None)"

definition hex :: "string \<Rightarrow> string" where
  "hex bs = concat (map (\<lambda>b. [hex_digit (of_char b div 16), hex_digit (of_char b mod 16)]) bs)"

definition hex_space :: "char \<Rightarrow> bool" where
  "hex_space c = (c = CHR '' '' \<or> (CHR 0x09 \<le> c \<and> c \<le> CHR 0x0D))"

fun fromhex :: "string \<Rightarrow> string option" where
  "fromhex [] = Some []"
| "fromhex [c] = (if hex_space c then Some [] else None)"
| "fromhex (a # b # cs) =
     (if hex_space a then fromhex (b # cs)
      else case (hex_value a, hex_value b, fromhex cs) of
        (Some x, Some y, Some r) \<Rightarrow> Some (char_of (16 * x + y) # r)
      | _ \<Rightarrow> None)"

text \<open>\<^verbatim>\<open>s.split(c)\<close>.\<close>

fun split_on :: "char \<Rightarrow> string \<Rightarrow> string list" where
  "split_on d [] = [[]]"
| "split_on d (c # cs) =
     (if c = d then [] # split_on d cs
      else case split_on d cs of [] \<Rightarrow> [[c]] | w # ws \<Rightarrow> (c # w) # ws)"

text \<open>\<^verbatim>\<open>int(s)\<close>: surrounding white space, a sign, digits with single underscores between them.\<close>

fun digit_groups :: "nat list \<Rightarrow> nat list list" where
  "digit_groups [] = [[]]"
| "digit_groups (c # cs) =
     (if c = 95 then [] # digit_groups cs
      else case digit_groups cs of [] \<Rightarrow> [[c]] | w # ws \<Rightarrow> (c # w) # ws)"

definition py_int :: "string \<Rightarrow> int option" where
  "py_int s =
     (let cps = strip_cps (utf8_decode s);
          neg = (cps \<noteq> [] \<and> hd cps = 45);
          body = (if cps \<noteq> [] \<and> (hd cps = 45 \<or> hd cps = 43) then tl cps else cps);
          groups = digit_groups body
      in if list_all (\<lambda>g. g \<noteq> []) groups
         then map_option (\<lambda>n. if neg then - int n else int n) (decimal_value 0 (concat groups)) else None)"

definition SCRYPT_N :: nat where "SCRYPT_N = 16384"
definition SCRYPT_R :: nat where "SCRYPT_R = 8"
definition SCRYPT_P :: nat where "SCRYPT_P = 1"

definition hash_api_key :: "(string \<Rightarrow> string \<Rightarrow> string) \<Rightarrow> string \<Rightarrow> string \<Rightarrow> string" where
  "hash_api_key scrypt salt key =
     ''scrypt$'' @ nat_str SCRYPT_N @ ''$'' @ nat_str SCRYPT_R @ ''$'' @ nat_str SCRYPT_P @ ''$'' @
       hex salt @ ''$'' @ hex (scrypt key salt)"

definition verify_api_key :: "(string \<Rightarrow> string \<Rightarrow> string) \<Rightarrow> string \<Rightarrow> string \<Rightarrow> bool" where
  "verify_api_key scrypt key encoded =
     (case split_on CHR ''$'' encoded of
        [algorithm, n, r, p, salt, expected] \<Rightarrow>
          algorithm = ''scrypt'' \<and> py_int n = Some (int SCRYPT_N) \<and> py_int r = Some (int SCRYPT_R) \<and>
          py_int p = Some (int SCRYPT_P) \<and>
          (case fromhex salt of None \<Rightarrow> False | Some s \<Rightarrow> hex (scrypt key s) = expected)
      | _ \<Rightarrow> False)"

section \<open>Principals\<close>

text \<open>\<^verbatim>\<open>project_principal\<close>: the \<^verbatim>\<open>Principal\<close> DTO validates the row.\<close>

definition project_principal :: "principal \<Rightarrow> principal outcome" where
  "project_principal p =
     (if identifier_pattern (p_id p) \<and> p_kind p \<in> {''human'', ''agent''} \<and> 1 \<le> py_len (p_display_name p) \<and>
         py_len (p_display_name p) \<le> 200 \<and> p_status p \<in> {''active'', ''inactive''}
      then Inr p else Inl (ValueError ''Principal''))"

definition project_opt :: "('r \<Rightarrow> 'a outcome) \<Rightarrow> 'r option \<Rightarrow> 'a option outcome" where
  "project_opt project row = (case row of None \<Rightarrow> Inr None | Some r \<Rightarrow> and_then (project r) (\<lambda>x. Inr (Some x)))"

definition get_principal_row :: "string \<Rightarrow> registry \<Rightarrow> principal option outcome" where
  "get_principal_row pid reg = project_opt project_principal (select_one (\<lambda>p. p_id p = pid) (principals reg))"

definition text_ok :: "nat \<Rightarrow> string \<Rightarrow> bool" where
  "text_ok n s = (fits n s \<and> CHR 0x00 \<notin> set s)"

definition insert_principal :: "principal \<Rightarrow> registry \<Rightarrow> registry outcome" where
  "insert_principal p reg =
     and_then (raise_if (\<not> (text_ok 64 (p_id p) \<and> text_ok 16 (p_kind p) \<and> text_ok 200 (p_display_name p) \<and> text_ok 16 (p_status p)))
       (DataError ''principals'')) (\<lambda>_.
     and_then (raise_if (p_kind p \<notin> {''human'', ''agent''}) (IntegrityError ''ck_principals_kind'')) (\<lambda>_.
     and_then (raise_if (p_status p \<notin> {''active'', ''inactive''}) (IntegrityError ''ck_principals_status'')) (\<lambda>_.
     and_then (raise_if (p_updated_at p < p_created_at p) (IntegrityError ''ck_principals_lifecycle'')) (\<lambda>_.
     and_then (raise_if (\<exists>x\<in>set (principals reg). p_id x = p_id p) (IntegrityError ''principals_pkey'')) (\<lambda>_.
     Inr (reg\<lparr>principals := principals reg @ [p]\<rparr>))))))"

definition create_principal_row :: "string \<Rightarrow> string \<Rightarrow> string \<Rightarrow> datetime \<Rightarrow> registry \<Rightarrow> (principal \<times> registry) outcome" where
  "create_principal_row pid kind display_name now reg =
     (let p = \<lparr>p_id = pid, p_kind = kind, p_display_name = display_name, p_status = ''active'',
            p_created_at = now, p_updated_at = now\<rparr>
      in and_then (insert_principal p reg) (\<lambda>reg'. and_then (project_principal p) (\<lambda>x. Inr (x, reg'))))"

definition list_principal_rows :: "nat \<Rightarrow> registry \<Rightarrow> (principal list \<times> bool) outcome" where
  "list_principal_rows limit reg =
     (let rows = take (limit + 1) (sort_key (\<lambda>p. (p_created_at p, p_id p)) (principals reg))
      in and_then (map_raise project_principal (take limit rows)) (\<lambda>items. Inr (items, limit < length rows)))"

text \<open>
  \<^verbatim>\<open>PrincipalRepository.replace_status\<close>: an update guarded by the version the caller saw. The sum
  inside tells the absent row (\<open>None\<close>) from \<^verbatim>\<open>StaleWriteError\<close>.
\<close>

datatype stale_write = StaleWriteError string

definition replace_principal_row ::
  "string \<Rightarrow> string \<Rightarrow> datetime \<Rightarrow> datetime \<Rightarrow> registry \<Rightarrow> ((stale_write + principal option) \<times> registry) outcome" where
  "replace_principal_row pid status expected now reg =
     (let mine = (\<lambda>p. p_id p = pid \<and> p_updated_at p = expected)
      in case select_one mine (principals reg) of
           Some p \<Rightarrow>
             and_then (raise_if (\<not> text_ok 16 status) (DataError ''principals'')) (\<lambda>_.
             and_then (raise_if (status \<notin> {''active'', ''inactive''}) (IntegrityError ''ck_principals_status'')) (\<lambda>_.
             and_then (raise_if (now < p_created_at p) (IntegrityError ''ck_principals_lifecycle'')) (\<lambda>_.
             and_then (project_principal (p\<lparr>p_status := status, p_updated_at := now\<rparr>)) (\<lambda>x.
             Inr (Inr (Some x), reg\<lparr>principals := update_where mine (\<lambda>p. p\<lparr>p_status := status, p_updated_at := now\<rparr>)
               (principals reg)\<rparr>)))))
         | None \<Rightarrow>
             if \<exists>p\<in>set (principals reg). p_id p = pid then Inr (Inl (StaleWriteError pid), reg)
             else Inr (Inr None, reg))"

section \<open>Credentials\<close>

record credential_reference =
  ce_id :: string
  ce_principal_id :: string
  ce_prefix :: string
  ce_status :: string
  ce_created_at :: datetime
  ce_expires_at :: "datetime option"
  ce_revoked_at :: "datetime option"

text \<open>The row adds the encoded hash, which no projection carries.\<close>

record credential_row =
  cr_ref :: credential_reference
  cr_key_hash :: string

abbreviation cr_id :: "credential_row \<Rightarrow> string" where
  "cr_id r \<equiv> ce_id (cr_ref r)"

definition project_credential :: "credential_row \<Rightarrow> credential_reference outcome" where
  "project_credential r =
     (if identifier_pattern (cr_id r) \<and> identifier_pattern (ce_principal_id (cr_ref r)) \<and>
         class_run key_char 4 16 (ce_prefix (cr_ref r)) \<and> ce_status (cr_ref r) \<in> {''active'', ''revoked''}
      then Inr (cr_ref r) else Inl (ValueError ''CredentialReference''))"

definition get_credential :: "string \<Rightarrow> credential_row list \<Rightarrow> credential_reference option outcome" where
  "get_credential cid rows = project_opt project_credential (select_one (\<lambda>r. cr_id r = cid) rows)"

definition unique_prefix :: string where "unique_prefix = ''uq_credentials_prefix''"

definition insert_credential :: "credential_row \<Rightarrow> registry \<Rightarrow> credential_row list \<Rightarrow> credential_row list outcome" where
  "insert_credential r reg rows =
     (let c = cr_ref r
      in and_then (raise_if (\<not> (text_ok 64 (ce_id c) \<and> text_ok 64 (ce_principal_id c) \<and> text_ok 16 (ce_prefix c) \<and>
             text_ok 512 (cr_key_hash r) \<and> text_ok 16 (ce_status c))) (DataError ''credentials'')) (\<lambda>_.
         and_then (raise_if (ce_status c \<notin> {''active'', ''revoked''}) (IntegrityError ''ck_credentials_status'')) (\<lambda>_.
         and_then (raise_if (\<not> ((ce_status c = ''active'' \<and> ce_revoked_at c = None) \<or>
             (ce_status c = ''revoked'' \<and> (case ce_revoked_at c of None \<Rightarrow> False | Some t \<Rightarrow> ce_created_at c \<le> t))))
           (IntegrityError ''ck_credentials_lifecycle'')) (\<lambda>_.
         and_then (raise_if (case ce_expires_at c of None \<Rightarrow> False | Some t \<Rightarrow> t \<le> ce_created_at c)
           (IntegrityError ''ck_credentials_expiry'')) (\<lambda>_.
         and_then (raise_if (\<exists>x\<in>set rows. cr_id x = ce_id c) (IntegrityError ''credentials_pkey'')) (\<lambda>_.
         and_then (raise_if (\<exists>x\<in>set rows. ce_prefix (cr_ref x) = ce_prefix c) (IntegrityError unique_prefix)) (\<lambda>_.
         and_then (raise_if (\<not> (\<exists>p\<in>set (principals reg). p_id p = ce_principal_id c))
           (IntegrityError ''credentials_principal_id_fkey'')) (\<lambda>_.
         Inr (rows @ [r])))))))))"

text \<open>What one attempt of an issuance draws.\<close>

record key_draw =
  kd_credential_id :: string
  kd_key :: string
  kd_salt :: string

record issued_api_key =
  ia_credential :: credential_reference
  ia_key :: string

definition ISSUANCE_ATTEMPTS :: nat where "ISSUANCE_ATTEMPTS = 5"

definition drawn_row :: "(string \<Rightarrow> string \<Rightarrow> string) \<Rightarrow> string \<Rightarrow> datetime option \<Rightarrow> datetime \<Rightarrow> key_draw \<Rightarrow> credential_row" where
  "drawn_row scrypt pid expires now d =
     \<lparr>cr_ref = \<lparr>ce_id = kd_credential_id d, ce_principal_id = pid, ce_prefix = api_key_prefix (kd_key d), ce_status = ''active'',
        ce_created_at = now, ce_expires_at = expires, ce_revoked_at = None\<rparr>, cr_key_hash = hash_api_key scrypt (kd_salt d) (kd_key d)\<rparr>"

text \<open>The loop of \<^verbatim>\<open>CredentialRepository.issue\<close>: a collision of prefixes draws again.\<close>

primrec issue_attempts ::
  "nat \<Rightarrow> (string \<Rightarrow> string \<Rightarrow> string) \<Rightarrow> (nat \<Rightarrow> key_draw) \<Rightarrow> string \<Rightarrow> datetime option \<Rightarrow> datetime \<Rightarrow> registry \<Rightarrow>
     credential_row list \<Rightarrow> (issued_api_key \<times> credential_row list) outcome" where
  "issue_attempts 0 scrypt draw pid expires now reg rows =
     Inl (RuntimeError ''credential issuance exhausted after prefix collisions'')"
| "issue_attempts (Suc n) scrypt draw pid expires now reg rows =
     (let r = drawn_row scrypt pid expires now (draw n)
      in case insert_credential r reg rows of
           Inl e \<Rightarrow> if e = IntegrityError unique_prefix then issue_attempts n scrypt draw pid expires now reg rows else Inl e
         | Inr rows' \<Rightarrow> and_then (project_credential r) (\<lambda>c. Inr (\<lparr>ia_credential = c, ia_key = kd_key (draw n)\<rparr>, rows')))"

definition issue ::
  "(string \<Rightarrow> string \<Rightarrow> string) \<Rightarrow> (nat \<Rightarrow> key_draw) \<Rightarrow> string \<Rightarrow> datetime option \<Rightarrow> datetime \<Rightarrow> registry \<Rightarrow>
     credential_row list \<Rightarrow> (issued_api_key \<times> credential_row list) outcome" where
  "issue = issue_attempts ISSUANCE_ATTEMPTS"

definition revoke_row :: "datetime \<Rightarrow> credential_row \<Rightarrow> credential_row" where
  "revoke_row now r = r\<lparr>cr_ref := (cr_ref r)\<lparr>ce_status := ''revoked'', ce_revoked_at := Some now\<rparr>\<rparr>"

definition revocable :: "string \<Rightarrow> credential_row \<Rightarrow> bool" where
  "revocable cid r = (cr_id r = cid \<and> ce_status (cr_ref r) = ''active'')"

text \<open>\<^verbatim>\<open>CredentialRepository.revoke\<close>: a row that is revoked already stays as it is.\<close>

definition revoke_credential_row ::
  "string \<Rightarrow> datetime \<Rightarrow> credential_row list \<Rightarrow> (credential_reference option \<times> credential_row list) outcome" where
  "revoke_credential_row cid now rows =
     (let rows' = update_where (revocable cid) (revoke_row now) rows
      in and_then (raise_if (\<exists>r\<in>set rows. revocable cid r \<and> now < ce_created_at (cr_ref r)) (IntegrityError ''ck_credentials_lifecycle'')) (\<lambda>_.
         and_then (get_credential cid rows') (\<lambda>c. Inr (c, rows'))))"

definition list_credential_rows :: "string \<Rightarrow> nat \<Rightarrow> credential_row list \<Rightarrow> (credential_reference list \<times> bool) outcome" where
  "list_credential_rows pid limit rows =
     (let found = take (limit + 1) (rev (sort_key (\<lambda>r. (ce_created_at (cr_ref r), cr_id r))
            (filter (\<lambda>r. ce_principal_id (cr_ref r) = pid) rows)))
      in and_then (map_raise project_credential (take limit found)) (\<lambda>items. Inr (items, limit < length found)))"

text \<open>
  \<^verbatim>\<open>CredentialRepository.rotate\<close>: the old row is revoked and its replacement issued in one
  transaction; \<open>None\<close> when the credential is absent, revoked or expired.
\<close>

definition rotate ::
  "(string \<Rightarrow> string \<Rightarrow> string) \<Rightarrow> (nat \<Rightarrow> key_draw) \<Rightarrow> string \<Rightarrow> datetime option \<Rightarrow> datetime \<Rightarrow> registry \<Rightarrow>
     credential_row list \<Rightarrow> (issued_api_key option \<times> credential_row list) outcome" where
  "rotate scrypt draw cid expires now reg rows =
     (case select_one (\<lambda>r. cr_id r = cid) rows of
        None \<Rightarrow> Inr (None, rows)
      | Some r \<Rightarrow>
          if ce_status (cr_ref r) \<noteq> ''active'' \<or> (case ce_expires_at (cr_ref r) of None \<Rightarrow> False | Some t \<Rightarrow> t \<le> now)
          then Inr (None, rows)
          else and_then (raise_if (now < ce_created_at (cr_ref r)) (IntegrityError ''ck_credentials_lifecycle'')) (\<lambda>_.
               and_then (issue scrypt draw (ce_principal_id (cr_ref r)) expires now reg
                 (update_where (\<lambda>x. cr_id x = cid) (revoke_row now) rows)) (\<lambda>(issued, rows').
               Inr (Some issued, rows'))))"

section \<open>Authentication\<close>

record principal_context =
  pc_principal :: principal
  pc_credential_id :: string
  pc_authenticated_at :: datetime

definition usable :: "(string \<Rightarrow> string \<Rightarrow> string) \<Rightarrow> string \<Rightarrow> datetime \<Rightarrow> credential_reference \<Rightarrow> string \<Rightarrow> bool" where
  "usable scrypt key now c hash =
     (ce_status c = ''active'' \<and> (case ce_expires_at c of None \<Rightarrow> True | Some t \<Rightarrow> now < t) \<and> verify_api_key scrypt key hash)"

text \<open>
  \<^verbatim>\<open>resolve_authorization_context\<close>: the credentials whose prefix is one of the key's, joined with
  their principals, in the order of the table.
\<close>

definition matching :: "string \<Rightarrow> registry \<Rightarrow> credential_row list \<Rightarrow> (credential_row \<times> principal) list" where
  "matching key reg rows =
     concat (map (\<lambda>r. map (Pair r) (filter (\<lambda>p. p_id p = ce_principal_id (cr_ref r)) (principals reg)))
       (filter (\<lambda>r. ce_prefix (cr_ref r) \<in> set (candidate_prefixes key)) rows))"

definition resolve_authorization_context ::
  "(string \<Rightarrow> string \<Rightarrow> string) \<Rightarrow> string \<Rightarrow> datetime \<Rightarrow> registry \<Rightarrow> credential_row list \<Rightarrow> principal_context option outcome" where
  "resolve_authorization_context scrypt key now reg rows =
     (case find (\<lambda>(r, p). usable scrypt key now (cr_ref r) (cr_key_hash r)) (matching key reg rows) of
        None \<Rightarrow> Inr None
      | Some (r, p) \<Rightarrow>
          and_then (project_principal p) (\<lambda>pr.
          and_then (raise_if (\<not> identifier_pattern (cr_id r)) (ValueError ''PrincipalContext'')) (\<lambda>_.
          Inr (Some \<lparr>pc_principal = pr, pc_credential_id = cr_id r, pc_authenticated_at = now\<rparr>))))"

definition ascii_lower :: "string \<Rightarrow> string" where
  "ascii_lower s = map (\<lambda>c. if CHR ''A'' \<le> c \<and> c \<le> CHR ''Z'' then char_of (of_char c + 32 :: nat) else c) s"

text \<open>
  \<^verbatim>\<open>_authorization_context\<close>: the header is \<^verbatim>\<open>Bearer <key>\<close>; \<open>None\<close> is \<^verbatim>\<open>AuthenticationFailed\<close>. No
  character outside ASCII casefolds to a letter of \<^verbatim>\<open>bearer\<close>.
\<close>

definition bearer_key :: "string option \<Rightarrow> string option" where
  "bearer_key header =
     (case header of None \<Rightarrow> None
      | Some h \<Rightarrow>
          let scheme = takeWhile (\<lambda>c. c \<noteq> CHR '' '') h; rest = dropWhile (\<lambda>c. c \<noteq> CHR '' '') h
          in if rest = [] \<or> ascii_lower scheme \<noteq> ''bearer'' \<or> \<not> is_api_key (tl rest) then None else Some (tl rest))"

definition authorization_context ::
  "(string \<Rightarrow> string \<Rightarrow> string) \<Rightarrow> string option \<Rightarrow> datetime \<Rightarrow> registry \<Rightarrow> credential_row list \<Rightarrow> principal_context option outcome" where
  "authorization_context scrypt header now reg rows =
     (case bearer_key header of None \<Rightarrow> Inr None | Some key \<Rightarrow> resolve_authorization_context scrypt key now reg rows)"

text \<open>\<^verbatim>\<open>authenticate_principal\<close>, which also refuses an inactive principal.\<close>

definition authenticate_principal ::
  "(string \<Rightarrow> string \<Rightarrow> string) \<Rightarrow> string option \<Rightarrow> datetime \<Rightarrow> registry \<Rightarrow> credential_row list \<Rightarrow> principal_context option outcome" where
  "authenticate_principal scrypt header now reg rows =
     and_then (authorization_context scrypt header now reg rows) (\<lambda>found. Inr (case found of
        None \<Rightarrow> None | Some c \<Rightarrow> if p_status (pc_principal c) = ''active'' then Some c else None))"

text \<open>\<^verbatim>\<open>authorize_governed_access\<close>: authentication, then the engine over the owners' facts.\<close>

definition authorize_governed_access ::
  "(string \<Rightarrow> string \<Rightarrow> string) \<Rightarrow> string option \<Rightarrow> string \<times> string \<times> string \<Rightarrow> datetime \<Rightarrow> registry \<Rightarrow> credential_row list \<Rightarrow>
     (principal_context \<times> evaluation) option outcome" where
  "authorize_governed_access scrypt header scope now reg rows =
     and_then (authorization_context scrypt header now reg rows) (\<lambda>found.
       case found of None \<Rightarrow> Inr None
       | Some c \<Rightarrow> and_then (evaluate (owner_view reg) (find_active reg) (pc_principal c) (fst scope) (fst (snd scope)) (snd (snd scope)))
           (\<lambda>e. Inr (Some (c, e))))"

section \<open>Stored keys\<close>

lemma hex_value_digit: "d < 16 \<Longrightarrow> hex_value (hex_digit d) = Some d \<and> \<not> hex_space (hex_digit d) \<and> hex_digit d \<notin> {CHR ''$'', CHR 0x00}"
proof -
  assume "d < 16"
  moreover have "\<forall>d\<in>set [0..<16]. hex_value (hex_digit d) = Some d \<and> \<not> hex_space (hex_digit d) \<and> hex_digit d \<notin> {CHR ''$'', CHR 0x00}"
    by code_simp
  ultimately show ?thesis by simp
qed

lemma hex_Cons: "hex (b # bs) = hex_digit (of_char b div 16) # hex_digit (of_char b mod 16) # hex bs"
  by (simp add: hex_def)

lemma fromhex_hex [simp]: "fromhex (hex bs) = Some bs"
proof (induction bs)
  case (Cons b bs)
  have "(of_char b :: nat) div 16 < 16" by (simp add: div_less_iff_less_mult)
  with Cons show ?case
    using hex_value_digit [of "of_char b div 16"] hex_value_digit [of "of_char b mod 16"] by (simp add: hex_Cons)
qed (simp add: hex_def)

lemma hex_inject [simp]: "hex a = hex b \<longleftrightarrow> a = b"
  using fromhex_hex [of a] fromhex_hex [of b] by (metis option.inject)

lemma hex_clean: "CHR ''$'' \<notin> set (hex bs)" "CHR 0x00 \<notin> set (hex bs)"
proof -
  have "CHR ''$'' \<notin> set (hex bs) \<and> CHR 0x00 \<notin> set (hex bs)"
  proof (induction bs)
    case (Cons b bs)
    have "(of_char b :: nat) div 16 < 16" by (simp add: div_less_iff_less_mult)
    with Cons show ?case
      using hex_value_digit [of "of_char b div 16"] hex_value_digit [of "of_char b mod 16"] by (auto simp: hex_Cons)
  qed (simp add: hex_def)
  then show "CHR ''$'' \<notin> set (hex bs)" "CHR 0x00 \<notin> set (hex bs)" by simp_all
qed

lemma split_on_word: "d \<notin> set w \<Longrightarrow> split_on d w = [w]"
  by (induction w) auto

lemma split_on_append: "d \<notin> set w \<Longrightarrow> split_on d (w @ d # s) = w # split_on d s"
  by (induction w) auto

lemma nat_str_digits: "c \<in> set (nat_str n) \<Longrightarrow> ascii_digit c"
proof (induction n rule: nat_str.induct)
  case (1 n)
  then show ?case by (subst (asm) (2) nat_str.simps) (auto split: if_splits)
qed

lemma ascii_digit_code: "ascii_digit c \<Longrightarrow> of_char c \<in> {48..57::nat}"
  by (simp add: ascii_digit_def less_eq_char_def)

lemma digit_groups_plain: "95 \<notin> set cps \<Longrightarrow> digit_groups cps = [cps]"
  by (induction cps) auto

lemma strip_cps_plain: "list_all (\<lambda>c. \<not> py_space c) cps \<Longrightarrow> strip_cps cps = cps"
proof -
  assume "list_all (\<lambda>c. \<not> py_space c) cps"
  then have "dropWhile py_space cps = cps" "dropWhile py_space (rev cps) = rev cps"
    by (cases cps, simp_all) (cases "rev cps", auto simp: list_all_iff dest: arg_cong [where f = set])
  then show ?thesis by (simp add: strip_cps_def)
qed

lemma py_int_nat_str: "py_int (nat_str n) = Some (int n)"
proof -
  let ?cps = "map of_char (nat_str n) :: nat list"
  have range: "c \<in> {48..57}" if "c \<in> set ?cps" for c
    using that ascii_digit_code [OF nat_str_digits] by auto
  have "strip_cps ?cps = ?cps"
    by (rule strip_cps_plain) (use range in \<open>force simp: list_all_iff py_space_def\<close>)
  moreover have ne: "?cps \<noteq> []" by simp
  moreover have "95 \<notin> set ?cps" using range [of 95] by auto
  moreover have "hd ?cps \<noteq> 45" "hd ?cps \<noteq> 43" using range [OF hd_in_set [OF ne]] by auto
  ultimately show ?thesis
    by (simp add: py_int_def utf8_decode_ascii ascii_nat_str digit_groups_plain decimal_value_nat_str)
qed

lemma nat_str_clean: "CHR ''$'' \<notin> set (nat_str n)" "CHR 0x00 \<notin> set (nat_str n)"
  using nat_str_digits [of "CHR ''$''" n] nat_str_digits [of "CHR 0x00" n] by (auto simp: ascii_digit_def less_eq_char_def)

lemma verify_hash_iff:
  "verify_api_key scrypt key (hash_api_key scrypt salt issued) \<longleftrightarrow> scrypt key salt = scrypt issued salt"
proof -
  have "split_on CHR ''$'' (hash_api_key scrypt salt issued) =
      [''scrypt'', nat_str SCRYPT_N, nat_str SCRYPT_R, nat_str SCRYPT_P, hex salt, hex (scrypt issued salt)]"
    using hex_clean [of salt] hex_clean [of "scrypt issued salt"]
    by (simp add: hash_api_key_def nat_str_clean split_on_append split_on_word)
  then show ?thesis by (simp add: verify_api_key_def py_int_nat_str)
qed

lemma verify_hash [simp]: "verify_api_key scrypt key (hash_api_key scrypt salt key)"
  by (simp add: verify_hash_iff)

section \<open>Issuing and rotating\<close>

text \<open>The row an issuance leaves.\<close>

lemma insert_credential_Inr:
  assumes "insert_credential r reg rows = Inr rows'"
  shows "rows' = rows @ [r]" and "cr_id r \<notin> cr_id ` set rows" and "ce_prefix (cr_ref r) \<notin> (ce_prefix \<circ> cr_ref) ` set rows"
    and "\<exists>p\<in>set (principals reg). p_id p = ce_principal_id (cr_ref r)"
    and "\<forall>t. ce_expires_at (cr_ref r) = Some t \<longrightarrow> ce_created_at (cr_ref r) < t"
  using assms unfolding insert_credential_def Let_def and_then_Inr_iff raise_if_Inr_iff by auto

lemma issue_attempts_Inr:
  assumes "issue_attempts n scrypt draw pid expires now reg rows = Inr (issued, rows')"
  shows "\<exists>k<n. let r = drawn_row scrypt pid expires now (draw k) in
      insert_credential r reg rows = Inr rows' \<and> project_credential r = Inr (ia_credential issued) \<and> ia_key issued = kd_key (draw k)"
  using assms
proof (induction n)
  case (Suc n)
  let ?r = "drawn_row scrypt pid expires now (draw n)"
  show ?case
  proof (cases "insert_credential ?r reg rows")
    case (Inl e)
    with Suc show ?thesis by (auto simp: Let_def split: if_splits intro: less_SucI)
  next
    case (Inr rows1)
    with Suc.prems show ?thesis by (auto simp: Let_def and_then_Inr_iff intro!: exI [of _ n])
  qed
qed simp

lemma project_credential_Inr: "project_credential r = Inr c \<Longrightarrow> c = cr_ref r"
  by (simp add: project_credential_def split: if_splits)

lemma issue_Inr:
  assumes "issue scrypt draw pid expires now reg rows = Inr (issued, rows')"
  obtains k where "k < ISSUANCE_ATTEMPTS" and "rows' = rows @ [drawn_row scrypt pid expires now (draw k)]"
    and "kd_credential_id (draw k) \<notin> cr_id ` set rows" and "api_key_prefix (kd_key (draw k)) \<notin> (ce_prefix \<circ> cr_ref) ` set rows"
    and "ia_credential issued = cr_ref (drawn_row scrypt pid expires now (draw k))" and "ia_key issued = kd_key (draw k)"
    and "\<exists>p\<in>set (principals reg). p_id p = pid" and "\<forall>t. expires = Some t \<longrightarrow> now < t" and "identifier_pattern (kd_credential_id (draw k))"
proof -
  from issue_attempts_Inr [OF assms [unfolded issue_def]] obtain k where k: "k < ISSUANCE_ATTEMPTS"
    and ins: "insert_credential (drawn_row scrypt pid expires now (draw k)) reg rows = Inr rows'"
    and proj: "project_credential (drawn_row scrypt pid expires now (draw k)) = Inr (ia_credential issued)"
    and key: "ia_key issued = kd_key (draw k)"
    by (auto simp: Let_def)
  show thesis
    by (rule that [OF k]) (use insert_credential_Inr [OF ins] project_credential_Inr [OF proj] proj key in
      \<open>auto simp: drawn_row_def project_credential_def split: if_splits\<close>)
qed

lemma rotate_Inr:
  assumes "rotate scrypt draw cid expires now reg rows = Inr (found, rows')"
  obtains (nothing) "found = None" and "rows' = rows"
  | (rotated) r issued where "select_one (\<lambda>r. cr_id r = cid) rows = Some r" and "ce_status (cr_ref r) = ''active''"
      and "found = Some issued" and "issue scrypt draw (ce_principal_id (cr_ref r)) expires now reg
        (update_where (\<lambda>x. cr_id x = cid) (revoke_row now) rows) = Inr (issued, rows')"
  using assms by (auto simp: rotate_def and_then_Inr_iff and_then_pair_Inr raise_if_Inr_iff split: option.splits if_splits)

section \<open>What authentication rests on\<close>

lemma resolve_Inr:
  assumes "resolve_authorization_context scrypt key now reg rows = Inr (Some c)"
  obtains r where "r \<in> set rows" and "cr_id r = pc_credential_id c" and "usable scrypt key now (cr_ref r) (cr_key_hash r)"
    and "pc_principal c \<in> set (principals reg)" and "p_id (pc_principal c) = ce_principal_id (cr_ref r)"
    and "ce_prefix (cr_ref r) \<in> set (candidate_prefixes key)" and "pc_authenticated_at c = now"
proof -
  from assms obtain r p where f: "find (\<lambda>(r, p). usable scrypt key now (cr_ref r) (cr_key_hash r)) (matching key reg rows) = Some (r, p)"
    and c: "project_principal p = Inr (pc_principal c)" "cr_id r = pc_credential_id c" "pc_authenticated_at c = now"
    by (auto simp: resolve_authorization_context_def and_then_Inr_iff raise_if_Inr_iff split: option.splits)
  from f have "(r, p) \<in> set (matching key reg rows)" "usable scrypt key now (cr_ref r) (cr_key_hash r)"
    by (auto simp: find_Some_iff) (metis nth_mem)
  moreover have "pc_principal c = p" using c(1) by (simp add: project_principal_def split: if_splits)
  ultimately show thesis using that c by (auto simp: matching_def)
qed

lemma authorization_Inr:
  assumes "authorization_context scrypt header now reg rows = Inr (Some c)"
  obtains key where "bearer_key header = Some key" and "resolve_authorization_context scrypt key now reg rows = Inr (Some c)"
  using assms by (auto simp: authorization_context_def split: option.splits)

text \<open>The key just issued is accepted: its prefix is a candidate and its hash verifies.\<close>

lemma candidate_own: "api_key_prefix key \<in> set (candidate_prefixes key)"
  by (force simp: candidate_prefixes_def api_key_prefix_def PREFIX_LENGTH_def)

lemma find_skipped: "\<forall>x\<in>set xs. \<not> P x \<Longrightarrow> find P (xs @ ys) = find P ys"
  by (induction xs) auto

lemma issued_resolves:
  assumes "row = drawn_row scrypt pid expires issued_at d" and "\<forall>r\<in>set rows. \<not> verify_api_key scrypt (kd_key d) (cr_key_hash r)"
    and "\<forall>t. expires = Some t \<longrightarrow> now < t" and "identifier_pattern (kd_credential_id d)"
    and "\<exists>p\<in>set (principals reg). p_id p = pid" and "\<forall>p\<in>set (principals reg). project_principal p = Inr p"
  shows "\<exists>c. resolve_authorization_context scrypt (kd_key d) now reg (rows @ [row]) = Inr (Some c) \<and>
    pc_credential_id c = kd_credential_id d \<and> p_id (pc_principal c) = pid"
proof -
  let ?good = "\<lambda>(r, p). usable scrypt (kd_key d) now (cr_ref r) (cr_key_hash r)"
  obtain p ps where p: "filter (\<lambda>p. p_id p = pid) (principals reg) = p # ps"
    using assms(5) by (metis (mono_tags, lifting) filter_empty_conv list.exhaust)
  then have mine: "p \<in> set (principals reg)" "p_id p = pid" by (metis (mono_tags) filter_eq_ConsD in_set_conv_decomp, metis (mono_tags) Cons_eq_filterD)
  have "matching (kd_key d) reg (rows @ [row]) = matching (kd_key d) reg rows @ map (Pair row) (p # ps)"
    using candidate_own [of "kd_key d"] p by (simp add: matching_def assms(1) drawn_row_def)
  moreover have "\<not> ?good x" if "x \<in> set (matching (kd_key d) reg rows)" for x
    using that assms(2) by (auto simp: matching_def usable_def)
  moreover have "?good (row, p)" using assms(3) by (auto simp: usable_def assms(1) drawn_row_def split: option.splits)
  ultimately have "find ?good (matching (kd_key d) reg (rows @ [row])) = Some (row, p)" by (simp add: find_skipped)
  moreover have "cr_id row = kd_credential_id d" by (simp add: assms(1) drawn_row_def)
  ultimately show ?thesis using assms(4,6) mine by (simp add: resolve_authorization_context_def)
qed

lemma bearer_own: "is_api_key key \<Longrightarrow> bearer_key (Some (''Bearer '' @ key)) = Some key"
proof -
  have "ascii_lower ''Bearer'' = ''bearer''" by code_simp
  then show "is_api_key key \<Longrightarrow> bearer_key (Some (''Bearer '' @ key)) = Some key" by (simp add: bearer_key_def)
qed

end
