(* ===== verification/Decimals.thy ===== *)
theory Decimals
  imports Pytext
begin

text \<open>
  Python's \<^verbatim>\<open>decimal\<close> module as far as the consumption code uses it: finite numbers with a sign, a
  coefficient and an exponent, addition, subtraction and multiplication in a context of given
  precision (ROUND\_HALF\_EVEN, exponents up to 999999, Overflow trapped), exact comparison, and the
  reading of a numeral. The lemmas say when an operation is exact and how far rounding can move a result.
\<close>

section \<open>Numbers\<close>

datatype dec = Dec (dc_neg: bool) (dc_coeff: nat) (dc_exp: int)

text \<open>\<^verbatim>\<open>len(d.as_tuple().digits)\<close> and \<^verbatim>\<open>d.adjusted()\<close>.\<close>

definition digits :: "nat \<Rightarrow> nat" where
  "digits c = length (nat_str c)"

definition dc_adjusted :: "dec \<Rightarrow> int" where
  "dc_adjusted d = dc_exp d + int (digits (dc_coeff d)) - 1"

definition dec_value :: "dec \<Rightarrow> rat" where
  "dec_value d = (if dc_neg d then - 1 else 1) * of_nat (dc_coeff d) * 10 powi (dc_exp d)"

text \<open>Comparison is exact whatever the context.\<close>

definition dec_le :: "dec \<Rightarrow> dec \<Rightarrow> bool" where
  "dec_le a b = (dec_value a \<le> dec_value b)"

definition dec_less :: "dec \<Rightarrow> dec \<Rightarrow> bool" where
  "dec_less a b = (dec_value a < dec_value b)"

definition dec_of_int :: "int \<Rightarrow> dec" where
  "dec_of_int i = Dec (i < 0) (nat \<bar>i\<bar>) 0"

definition copy_negate :: "dec \<Rightarrow> dec" where
  "copy_negate d = Dec (\<not> dc_neg d) (dc_coeff d) (dc_exp d)"

section \<open>Contexts\<close>

definition default_prec :: nat where "default_prec = 28"

definition dec_emax :: int where "dec_emax = 999999"

definition half_even :: "nat \<Rightarrow> nat \<Rightarrow> nat" where
  "half_even c k = (let q = c div 10 ^ k; r = c mod 10 ^ k
     in if 10 ^ k < 2 * r \<or> (2 * r = 10 ^ k \<and> odd q) then q + 1 else q)"

text \<open>The rounding of a result to the context: its precision, then its range of exponents.\<close>

definition dec_fix :: "nat \<Rightarrow> dec \<Rightarrow> dec outcome" where
  "dec_fix prec d =
     (let c = dc_coeff d; e = dc_exp d; etiny = - dec_emax - int prec + 1; etop = dec_emax - int prec + 1
      in if c = 0 then Inr (Dec (dc_neg d) 0 (min (max e etiny) dec_emax))
         else let exp_min = int (digits c) + e - int prec
           in if etop < exp_min then Inl (ArithmeticError ''above Emax'')
              else let m = max exp_min etiny
                in if m \<le> e then Inr d
                   else let q = half_even c (nat (m - e));
                            c' = (if digits q > prec then q div 10 else q); m' = (if digits q > prec then m + 1 else m)
                     in if etop < m' then Inl (ArithmeticError ''above Emax'') else Inr (Dec (dc_neg d) c' m'))"

definition signed :: "dec \<Rightarrow> int \<Rightarrow> int" where
  "signed d e = (if dc_neg d then - 1 else 1) * int (dc_coeff d) * 10 ^ nat (dc_exp d - e)"

text \<open>The exact sum, at the smaller exponent.\<close>

definition dec_sum :: "dec \<Rightarrow> dec \<Rightarrow> dec" where
  "dec_sum a b = (let e = min (dc_exp a) (dc_exp b); n = signed a e + signed b e
     in Dec (if n = 0 then dc_neg a \<and> dc_neg b else n < 0) (nat \<bar>n\<bar>) e)"

definition dec_add :: "nat \<Rightarrow> dec \<Rightarrow> dec \<Rightarrow> dec outcome" where
  "dec_add prec a b = dec_fix prec (dec_sum a b)"

definition dec_sub :: "nat \<Rightarrow> dec \<Rightarrow> dec \<Rightarrow> dec outcome" where
  "dec_sub prec a b = dec_add prec a (copy_negate b)"

definition dec_product :: "dec \<Rightarrow> dec \<Rightarrow> dec" where
  "dec_product a b = Dec (dc_neg a \<noteq> dc_neg b) (dc_coeff a * dc_coeff b) (dc_exp a + dc_exp b)"

definition dec_mul :: "nat \<Rightarrow> dec \<Rightarrow> dec \<Rightarrow> dec outcome" where
  "dec_mul prec a b = dec_fix prec (dec_product a b)"

section \<open>Numerals\<close>

text \<open>
  \<^verbatim>\<open>Decimal(text)\<close> for finite numbers: blanks around and underscores dropped, any Unicode decimal
  digits, at most one point, an optional exponent, within the exponents the C implementation can
  hold. Anything else, the spellings of infinities and NaNs among it, is \<open>None\<close>.
\<close>

definition split_at :: "(nat \<Rightarrow> bool) \<Rightarrow> nat list \<Rightarrow> nat list \<times> nat list option" where
  "split_at p s = (takeWhile (\<lambda>c. \<not> p c) s, case dropWhile (\<lambda>c. \<not> p c) s of [] \<Rightarrow> None | _ # r \<Rightarrow> Some r)"

definition unsigned :: "nat list \<Rightarrow> bool \<times> nat list" where
  "unsigned s = (case s of c # cs \<Rightarrow> if c = 45 then (True, cs) else if c = 43 then (False, cs) else (False, s)
     | [] \<Rightarrow> (False, s))"

definition exponent_value :: "nat list option \<Rightarrow> int option" where
  "exponent_value s = (case s of None \<Rightarrow> Some 0
     | Some t \<Rightarrow> if snd (unsigned t) = [] then None
         else map_option (\<lambda>n. if fst (unsigned t) then - int n else int n) (decimal_value 0 (snd (unsigned t))))"

definition dec_within :: "dec \<Rightarrow> bool" where
  "dec_within d = (dc_adjusted d \<le> 999999999999999999 \<and> - 1999999999999999997 \<le> dc_exp d)"

definition parse_dec :: "string \<Rightarrow> dec option" where
  "parse_dec text =
     (let s = filter (\<lambda>c. c \<noteq> 95) (strip_cps (utf8_decode text)); neg = fst (unsigned s);
          parts = split_at (\<lambda>c. c = 101 \<or> c = 69) (snd (unsigned s));
          mantissa = split_at (\<lambda>c. c = 46) (fst parts); whole = fst mantissa;
          fraction = (case snd mantissa of None \<Rightarrow> [] | Some f \<Rightarrow> f)
      in if whole @ fraction = [] then None
         else case (decimal_value 0 (whole @ fraction), exponent_value (snd parts)) of
           (Some c, Some x) \<Rightarrow>
             (let d = Dec neg c (x - int (length fraction)) in if dec_within d then Some d else None)
         | _ \<Rightarrow> None)"

section \<open>Digits\<close>

lemma digits_pos [simp]: "0 < digits c"
  by (simp add: digits_def)

lemma digits_step: "digits c = (if c < 10 then 1 else Suc (digits (c div 10)))"
  unfolding digits_def by (subst nat_str.simps) simp

lemma digits_le_iff: "digits c \<le> Suc k \<longleftrightarrow> c < 10 ^ Suc k"
proof (induction c arbitrary: k rule: nat_str.induct)
  case (1 c)
  show ?case
  proof (cases "c < 10")
    case True
    then have "c < 10 * 10 ^ k" by (metis less_le_trans mult.right_neutral mult_le_mono2 one_le_numeral one_le_power)
    with True show ?thesis by (simp add: digits_step [of c])
  next
    case False
    then show ?thesis using 1 by (cases k) (auto simp: digits_step [of c] div_less_iff_less_mult mult.commute)
  qed
qed

lemma digits_bounds: "c < 10 ^ digits c" "0 < c \<Longrightarrow> 10 ^ (digits c - 1) \<le> c"
proof -
  obtain k where k: "digits c = Suc k" using digits_pos [of c] by (metis Suc_pred)
  then show "c < 10 ^ digits c" using digits_le_iff [of c k] by simp
  show "10 ^ (digits c - 1) \<le> c" if "0 < c"
  proof (cases k)
    case 0
    then show ?thesis using that k by simp
  next
    case (Suc j)
    then show ?thesis using digits_le_iff [of c j] k by simp
  qed
qed

lemma digits_mult: "digits (a * b) \<le> digits a + digits b"
proof -
  have "a * b < 10 ^ digits a * 10 ^ digits b"
    by (rule mult_strict_mono) (use digits_bounds(1) [of a] digits_bounds(1) [of b] in simp_all)
  then have "a * b < 10 ^ (digits a + digits b)" by (simp add: power_add)
  then show ?thesis
    using digits_le_iff [of "a * b" "digits a + digits b - 1"] digits_pos [of a] by (simp del: digits_pos)
qed

section \<open>Exact results\<close>

lemma fix_exact:
  assumes "digits (dc_coeff d) \<le> prec" and "- dec_emax - int prec + 1 \<le> dc_exp d"
    and "dc_exp d + int (digits (dc_coeff d)) \<le> dec_emax + 1"
  shows "dec_fix prec d = Inr d"
proof (cases "dc_coeff d = 0")
  case True
  then have "digits (dc_coeff d) = 1" by (simp add: digits_step)
  with assms True show ?thesis by (cases d) (simp add: dec_fix_def Let_def)
next
  case False
  with assms show ?thesis by (simp add: dec_fix_def Let_def)
qed

lemma dec_value_product: "dec_value (dec_product a b) = dec_value a * dec_value b"
  by (simp add: dec_value_def dec_product_def power_int_add)

lemma dec_value_signed:
  assumes "e \<le> dc_exp d"
  shows "dec_value d = of_int (signed d e) * 10 powi e"
proof -
  have "(10 :: rat) powi dc_exp d = 10 powi (dc_exp d - e) * 10 powi e" by (simp add: power_int_add [symmetric])
  also have "(10 :: rat) powi (dc_exp d - e) = 10 ^ nat (dc_exp d - e)" using assms by (simp add: power_int_def)
  finally show ?thesis by (simp add: dec_value_def signed_def)
qed

lemma dec_value_Dec_int: "dec_value (Dec (if n = 0 then z else n < 0) (nat \<bar>n\<bar>) e) = of_int n * 10 powi e"
  by (cases "n < 0") (auto simp: dec_value_def)

lemma dec_value_sum: "dec_value (dec_sum a b) = dec_value a + dec_value b"
  unfolding dec_sum_def Let_def dec_value_Dec_int
  by (subst dec_value_signed [of "min (dc_exp a) (dc_exp b)" a], simp)
     (subst dec_value_signed [of "min (dc_exp a) (dc_exp b)" b], simp_all add: distrib_right)

lemma dec_value_negate [simp]: "dec_value (copy_negate d) = - dec_value d"
  by (simp add: dec_value_def copy_negate_def)

lemma dec_value_of_int [simp]: "dec_value (dec_of_int i) = of_int i"
  by (simp add: dec_value_def dec_of_int_def)

lemma signed_bound:
  assumes "e \<le> dc_exp d" and "dc_coeff d = 0 \<or> dc_adjusted d \<le> g" and "e \<le> g"
  shows "\<bar>signed d e\<bar> < 10 ^ nat (g - e + 1)"
proof (cases "dc_coeff d = 0")
  case True
  then show ?thesis by (simp add: signed_def)
next
  case False
  have "int (dc_coeff d) < 10 ^ digits (dc_coeff d)"
    using digits_bounds(1) [of "dc_coeff d"] by (metis of_nat_less_iff of_nat_numeral of_nat_power)
  then have "\<bar>signed d e\<bar> < 10 ^ digits (dc_coeff d) * 10 ^ nat (dc_exp d - e)"
    by (auto simp: signed_def abs_mult)
  also have "\<dots> = 10 ^ (digits (dc_coeff d) + nat (dc_exp d - e))" by (simp add: power_add)
  also have "\<dots> \<le> 10 ^ nat (g - e + 1)"
    using False assms by (intro power_increasing) (auto simp: dc_adjusted_def)
  finally show ?thesis .
qed

text \<open>A sum of numbers below a magnitude has one digit more than that magnitude needs.\<close>

lemma digits_sum:
  assumes "e = min (dc_exp a) (dc_exp b)" and "e \<le> g"
    and "dc_coeff a = 0 \<or> dc_adjusted a \<le> g" and "dc_coeff b = 0 \<or> dc_adjusted b \<le> g"
  shows "digits (dc_coeff (dec_sum a b)) \<le> nat (g - e + 2)"
proof -
  have "\<bar>signed a e\<bar> < 10 ^ nat (g - e + 1)" "\<bar>signed b e\<bar> < 10 ^ nat (g - e + 1)"
    using assms by (auto intro!: signed_bound)
  then have "\<bar>signed a e + signed b e\<bar> < 10 * 10 ^ nat (g - e + 1)" by linarith
  also have "\<dots> = 10 ^ nat (g - e + 2)" using assms(2) by (simp add: nat_add_distrib)
  finally have "nat \<bar>signed a e + signed b e\<bar> < 10 ^ nat (g - e + 2)" by (simp add: nat_less_iff)
  then show ?thesis
    using digits_le_iff [of "dc_coeff (dec_sum a b)" "nat (g - e + 1)"] assms(1,2)
    by (simp add: dec_sum_def Let_def nat_add_distrib)
qed

section \<open>The error of rounding\<close>

lemma half_even_error: "\<bar>of_nat (half_even c k) * 10 ^ k - of_nat c\<bar> * 2 \<le> (10 ^ k :: rat)"
proof -
  define q where "q = c div 10 ^ k"
  define r where "r = c mod 10 ^ k"
  have c: "of_nat c = (of_nat q * 10 ^ k + of_nat r :: rat)"
  proof -
    have "c = q * 10 ^ k + r" unfolding q_def r_def by (rule div_mult_mod_eq [symmetric])
    then have "of_nat c = (of_nat (q * 10 ^ k + r) :: rat)" by (rule arg_cong)
    then show ?thesis by simp
  qed
  have r: "of_nat r \<le> (10 ^ k :: rat)"
  proof -
    have "r \<le> 10 ^ k" by (simp add: r_def order_less_imp_le)
    then have "of_nat r \<le> (of_nat (10 ^ k) :: rat)" by (simp only: of_nat_le_iff)
    then show ?thesis by simp
  qed
  have up: "10 ^ k \<le> (2 * of_nat r :: rat)" if "10 ^ k \<le> 2 * r"
  proof -
    have "of_nat (10 ^ k) \<le> (of_nat (2 * r) :: rat)" using that by (simp only: of_nat_le_iff)
    then show ?thesis by simp
  qed
  have down: "2 * of_nat r \<le> (10 ^ k :: rat)" if "2 * r \<le> 10 ^ k"
  proof -
    have "of_nat (2 * r) \<le> (of_nat (10 ^ k) :: rat)" using that by (simp only: of_nat_le_iff)
    then show ?thesis by simp
  qed
  have "half_even c k = q \<and> 2 * r \<le> 10 ^ k \<or> half_even c k = q + 1 \<and> 10 ^ k \<le> 2 * r"
    by (auto simp: half_even_def Let_def q_def r_def)
  then show ?thesis using c r up down by (auto simp: distrib_right)
qed

text \<open>Rounding to a precision keeps the sign and errs by less than a unit of the last digit.\<close>

lemma fix_error:
  assumes "dec_fix prec d = Inr d'" and "0 < prec" and "- dec_emax - int prec + 1 \<le> dc_exp d"
  shows "\<bar>dec_value d' - dec_value d\<bar> * 10 ^ (prec - 1) \<le> \<bar>dec_value d\<bar>" and "- dec_emax - int prec + 1 \<le> dc_exp d'"
proof -
  let ?c = "dc_coeff d" and ?e = "dc_exp d" and ?tiny = "- dec_emax - int prec + 1"
  let ?m = "int (digits ?c) + ?e - int prec"
  have half: "a * 2 \<le> b \<Longrightarrow> 0 \<le> a \<Longrightarrow> a \<le> b" for a b :: rat by linarith
  have "\<bar>dec_value d' - dec_value d\<bar> * 10 ^ (prec - 1) \<le> \<bar>dec_value d\<bar> \<and> ?tiny \<le> dc_exp d'"
  proof (cases "?c = 0 \<or> max ?m ?tiny \<le> ?e")
    case True
    then have "d' = d \<or> ?c = 0 \<and> dc_coeff d' = 0 \<and> ?tiny \<le> dc_exp d'"
      using assms(1) by (auto simp: dec_fix_def Let_def dec_emax_def split: if_splits)
    then show ?thesis using assms(3) by (auto simp: dec_value_def)
  next
    case False
    then have c: "0 < ?c" and m: "?e < ?m" "max ?m ?tiny = ?m" using assms(3) by auto
    define k where "k = digits ?c - prec"
    have k: "digits ?c = prec + k" "?m = ?e + int k" using m(1) by (auto simp: k_def)
    define q where "q = half_even ?c k"
    have d': "d' = (if digits q > prec then Dec (dc_neg d) (q div 10) (?m + 1) else Dec (dc_neg d) q ?m)"
      using assms(1) c m k(2) by (auto simp: dec_fix_def Let_def q_def split: if_splits)
    have val: "dec_value d' = (if dc_neg d then - 1 else 1) * of_nat q * 10 powi ?m"
    proof (cases "digits q > prec")
      case True
      have "?c div 10 ^ k < 10 ^ prec"
        using digits_bounds(1) [of ?c] by (simp add: k(1) div_less_iff_less_mult power_add)
      then have "q \<le> 10 ^ prec" by (auto simp: q_def half_even_def Let_def)
      moreover have "10 ^ prec \<le> q" using True digits_le_iff [of q "prec - 1"] assms(2) by simp
      ultimately have q: "q = 10 * 10 ^ (prec - 1)" using assms(2) by (cases prec) auto
      have "of_nat (q div 10) * 10 powi (?m + 1) = (of_nat q * 10 powi ?m :: rat)"
        by (simp add: q power_int_add)
      then show ?thesis using True by (simp add: d' dec_value_def mult.assoc)
    qed (simp add: d' dec_value_def)
    have scale: "(10 :: rat) powi ?m = 10 ^ k * 10 powi ?e" by (simp add: k(2) power_int_add)
    have "\<bar>dec_value d' - dec_value d\<bar> = \<bar>of_nat q * 10 ^ k - of_nat ?c\<bar> * 10 powi ?e"
    proof -
      have "dec_value d' - dec_value d = (if dc_neg d then - 1 else 1) * ((of_nat q * 10 ^ k - of_nat ?c) * 10 powi ?e)"
        unfolding val scale by (simp add: dec_value_def algebra_simps)
      then show ?thesis by (simp add: abs_mult)
    qed
    also have "\<dots> * 10 ^ (prec - 1) \<le> (10 ^ k * 10 ^ (prec - 1)) * 10 powi ?e"
    proof -
      have "\<bar>of_nat q * 10 ^ k - of_nat ?c\<bar> \<le> (10 ^ k :: rat)"
        unfolding q_def by (rule half [OF half_even_error abs_ge_zero])
      then have "\<bar>of_nat q * 10 ^ k - of_nat ?c\<bar> * 10 ^ (prec - 1) \<le> (10 ^ k * 10 ^ (prec - 1) :: rat)" by (intro mult_right_mono) simp_all
      then have "\<bar>of_nat q * 10 ^ k - of_nat ?c\<bar> * 10 ^ (prec - 1) * 10 powi ?e \<le> (10 ^ k * 10 ^ (prec - 1)) * (10 powi ?e :: rat)"
        by (intro mult_right_mono) simp_all
      then show ?thesis by (simp add: mult.commute mult.left_commute)
    qed
    also have "\<dots> \<le> of_nat ?c * 10 powi ?e"
    proof -
      have "10 ^ (digits ?c - 1) \<le> ?c" by (rule digits_bounds(2) [OF c])
      moreover have "digits ?c - 1 = k + (prec - 1)" using k(1) assms(2) by simp
      ultimately have "10 ^ k * 10 ^ (prec - 1) \<le> ?c" by (simp only: power_add)
      then have "of_nat (10 ^ k * 10 ^ (prec - 1)) \<le> (of_nat ?c :: rat)" by (simp only: of_nat_le_iff)
      then show ?thesis by simp
    qed
    also have "\<dots> = \<bar>dec_value d\<bar>" by (simp add: dec_value_def abs_mult)
    finally show ?thesis using m by (auto simp: d')
  qed
  then show "\<bar>dec_value d' - dec_value d\<bar> * 10 ^ (prec - 1) \<le> \<bar>dec_value d\<bar>" "?tiny \<le> dc_exp d'" by blast+
qed

end
