(* ===== verification/Affordability.thy ===== *)
theory Affordability
  imports Decimals Idempotency
begin

text \<open>
  What a call to a model provider may cost at most: the capability metadata of the provider's
  endpoints (\<^verbatim>\<open>gateway/endpoint_catalog.py\<close>) and the output ceiling the remaining balances pay for
  (\<^verbatim>\<open>gateway/consumption_affordability.py\<close>). The ceiling is shown to be the greatest number of output
  tokens that every active limit allows.

  \<^verbatim>\<open>str.casefold\<close> is a parameter. The catalog's fields have the types its constructor checks, so
  the \<^verbatim>\<open>isinstance\<close> tests of the callers have nothing to reject; timestamps are aware UTC ones.
\<close>

section \<open>The endpoint catalog\<close>

definition MAX_ENDPOINT_TOKENS :: int where
  "MAX_ENDPOINT_TOKENS = 9223372036854775807"

record endpoint_metadata =
  em_model :: string
  em_provider :: string
  em_max_prompt_tokens :: int
  em_max_completion_tokens :: int
  em_valid_until :: datetime
  em_prompt_price :: "dec option"
  em_completion_price :: "dec option"
  em_request_price :: "dec option"
  em_context_length :: "int option"
  em_tag :: "string option"

record endpoint_catalog_snapshot =
  cs_model :: string
  cs_endpoints :: "endpoint_metadata list"
  cs_observed_at :: datetime
  cs_valid_until :: datetime

text \<open>Python's \<^verbatim>\<open>max\<close> and \<^verbatim>\<open>min\<close> of a nonempty sequence keep the first extreme.\<close>

definition dec_max :: "dec \<Rightarrow> dec \<Rightarrow> dec" where
  "dec_max a b = (if dec_less a b then b else a)"

definition highest :: "dec option list \<Rightarrow> dec option" where
  "highest prices = (if None \<in> set prices then None
     else case map the prices of [] \<Rightarrow> None | p # ps \<Rightarrow> Some (foldl dec_max p ps))"

definition most_conservative :: "endpoint_metadata list \<Rightarrow> endpoint_metadata" where
  "most_conservative matches =
     (let e = hd matches; contexts = map em_context_length matches
      in \<lparr>em_model = em_model e, em_provider = em_provider e,
          em_max_prompt_tokens = foldl max (em_max_prompt_tokens e) (map em_max_prompt_tokens (tl matches)),
          em_max_completion_tokens = foldl min (em_max_completion_tokens e) (map em_max_completion_tokens (tl matches)),
          em_valid_until = foldl min (em_valid_until e) (map em_valid_until (tl matches)),
          em_prompt_price = highest (map em_prompt_price matches),
          em_completion_price = highest (map em_completion_price matches),
          em_request_price = highest (map em_request_price matches),
          em_context_length = (if None \<in> set contexts then None
            else Some (foldl min (the (hd contexts)) (map the (tl contexts)))),
          em_tag = None\<rparr>)"

text \<open>\<^verbatim>\<open>EndpointCatalogSnapshot.select\<close>; \<open>None\<close> is \<^verbatim>\<open>EndpointCatalogUnavailable\<close>.\<close>

definition select_endpoint ::
  "(string \<Rightarrow> string) \<Rightarrow> endpoint_catalog_snapshot \<Rightarrow> string \<Rightarrow> datetime \<Rightarrow> endpoint_metadata option" where
  "select_endpoint casefold snap provider now =
     (if \<not> (cs_observed_at snap \<le> now \<and> now < cs_valid_until snap) \<or> blank provider then None
      else let wanted = casefold provider;
               tag = (\<lambda>e. case em_tag e of None \<Rightarrow> [] | Some t \<Rightarrow> t);
               matches = (if CHR ''/'' \<in> set wanted
                 then filter (\<lambda>e. casefold (tag e) = wanted) (cs_endpoints snap)
                 else filter (\<lambda>e. wanted = casefold (em_provider e) \<or>
                    wanted = casefold (takeWhile (\<lambda>c. c \<noteq> CHR ''/'') (tag e))) (cs_endpoints snap))
           in case matches of [] \<Rightarrow> None | [e] \<Rightarrow> Some e | _ \<Rightarrow> Some (most_conservative matches))"

text \<open>\<^verbatim>\<open>_price\<close> and \<^verbatim>\<open>_endpoint_metadata\<close>; \<open>None\<close> outside is the \<^verbatim>\<open>ValueError\<close> the caller answers.\<close>

definition price_of :: "json \<Rightarrow> dec option option" where
  "price_of v = (case v of JNull \<Rightarrow> Some None
     | JStr s \<Rightarrow> (case parse_dec s of None \<Rightarrow> None
         | Some d \<Rightarrow> if dec_less d (Dec False 0 0) then None else Some (Some d))
     | _ \<Rightarrow> None)"

definition token_count :: "json \<Rightarrow> int option" where
  "token_count v = (case v of JInt n \<Rightarrow> if 0 < n \<and> n \<le> MAX_ENDPOINT_TOKENS then Some n else None | _ \<Rightarrow> None)"

definition endpoint_of :: "json \<Rightarrow> string \<Rightarrow> datetime \<Rightarrow> endpoint_metadata option" where
  "endpoint_of raw model valid_until =
     (if \<not> is_obj raw then None
      else let d = obj raw; context = get d ''context_length'';
               prompt = (if get d ''max_prompt_tokens'' = JNull then context else get d ''max_prompt_tokens'');
               completion = (if get d ''max_completion_tokens'' = JNull then context else get d ''max_completion_tokens'');
               pricing = getd d ''pricing'' (JObj fmempty)
           in case (get d ''provider_name'', token_count prompt, token_count completion) of
                (JStr provider, Some p, Some c) \<Rightarrow>
                  if blank provider \<or> (get d ''tag'' \<noteq> JNull \<and> \<not> is_str (get d ''tag'')) \<or>
                     (context \<noteq> JNull \<and> token_count context = None) \<or> \<not> is_obj pricing then None
                  else (case (price_of (get (obj pricing) ''prompt''), price_of (get (obj pricing) ''completion''),
                          price_of (get (obj pricing) ''request'')) of
                      (Some pp, Some cp, Some rp) \<Rightarrow> Some
                        \<lparr>em_model = model, em_provider = provider, em_max_prompt_tokens = p,
                         em_max_completion_tokens = c, em_valid_until = valid_until, em_prompt_price = pp,
                         em_completion_price = cp,
                         em_request_price = Some (case rp of None \<Rightarrow> Dec False 0 0
                           | Some r \<Rightarrow> if dc_coeff r = 0 then Dec False 0 0 else r),
                         em_context_length = token_count context,
                         em_tag = (case get d ''tag'' of JStr t \<Rightarrow> Some t | _ \<Rightarrow> None)\<rparr>
                    | _ \<Rightarrow> None)
              | _ \<Rightarrow> None)"

text \<open>\<^verbatim>\<open>observed_at + timedelta(seconds=n)\<close>.\<close>

definition plus_seconds :: "nat \<Rightarrow> datetime \<Rightarrow> datetime" where
  "plus_seconds n t =
     (let total = dt_hour t * 3600 + dt_minute t * 60 + dt_second t + n; day = (next_day ^^ (total div 86400)) t;
          rest = total mod 86400
      in Datetime (dt_year day) (dt_month day) (dt_day day) (rest div 3600) (rest mod 3600 div 60) (rest mod 60) (dt_micro t))"

fun split_slash :: "string \<Rightarrow> string list" where
  "split_slash [] = [[]]"
| "split_slash (c # cs) = (if c = CHR ''/'' then [] # split_slash cs
     else case split_slash cs of [] \<Rightarrow> [[c]] | s # ss \<Rightarrow> (c # s) # ss)"

text \<open>
  \<^verbatim>\<open>OpenRouterEndpointCatalog.fetch\<close>. The HTTP call is the parameter \<open>respond\<close>: the decoded body
  for the two segments of the path, or \<open>None\<close> for every transport, status and decoding failure.
\<close>

definition fetch_catalog ::
  "(string list \<Rightarrow> json option) \<Rightarrow> nat \<Rightarrow> datetime \<Rightarrow> string \<Rightarrow> endpoint_catalog_snapshot option" where
  "fetch_catalog respond freshness observed_at model =
     (let segments = split_slash model
      in if model = [] \<or> py_strip model \<noteq> model \<or> length segments \<noteq> 2 \<or>
            list_ex (\<lambda>part. part \<in> {[], ''.'', ''..''}) segments then None
         else case respond segments of None \<Rightarrow> None
         | Some body \<Rightarrow>
             let data = (if is_obj body then get (obj body) ''data'' else JNull);
                 raw = get (obj data) ''endpoints''; valid_until = plus_seconds freshness observed_at
             in if \<not> is_obj data \<or> get (obj data) ''id'' \<noteq> JStr model \<or> \<not> is_list raw \<or> elems raw = [] then None
                else let endpoints = map (\<lambda>e. endpoint_of e model valid_until) (elems raw)
                  in if None \<in> set endpoints then None
                     else Some \<lparr>cs_model = model, cs_endpoints = map the endpoints, cs_observed_at = observed_at,
                                cs_valid_until = valid_until\<rparr>)"

section \<open>Affordability\<close>

definition MESSAGE_OVERHEAD_TOKENS :: nat where "MESSAGE_OVERHEAD_TOKENS = 64"

definition text_input_bound :: "string list \<Rightarrow> nat" where
  "text_input_bound messages = sum_list (map (\<lambda>text. length text + MESSAGE_OVERHEAD_TOKENS) messages)"

datatype afford_error = AffordabilityDenied | Uncaught py_error

record affordability_envelope =
  av_model :: string
  av_provider :: string
  av_max_output_tokens :: int
  av_conservative_input_tokens :: int
  av_conservative_input_cost_usd :: "dec option"
  av_request_fee_usd :: "dec option"

definition bounded_decimal :: "dec \<Rightarrow> bool" where
  "bounded_decimal d = (digits (dc_coeff d) \<le> 128 \<and> \<bar>dc_exp d\<bar> \<le> 128)"

definition validate_endpoint :: "endpoint_metadata \<Rightarrow> string \<Rightarrow> datetime \<Rightarrow> bool" where
  "validate_endpoint e model now = (em_model e = model \<and> \<not> blank (em_provider e) \<and>
     0 < em_max_prompt_tokens e \<and> em_max_prompt_tokens e \<le> MAX_ENDPOINT_TOKENS \<and>
     0 < em_max_completion_tokens e \<and> em_max_completion_tokens e \<le> MAX_ENDPOINT_TOKENS \<and> now < em_valid_until e)"

definition validate_remaining :: "int option \<Rightarrow> dec option \<Rightarrow> bool" where
  "validate_remaining incident_tokens monthly_usd =
     ((case incident_tokens of None \<Rightarrow> True | Some n \<Rightarrow> 0 \<le> n \<and> n \<le> MAX_ENDPOINT_TOKENS) \<and>
      (case monthly_usd of None \<Rightarrow> True | Some d \<Rightarrow> \<not> dec_less d (Dec False 0 0) \<and> bounded_decimal d))"

definition required_price :: "dec option \<Rightarrow> afford_error + dec" where
  "required_price v = (case v of None \<Rightarrow> Inl AffordabilityDenied
     | Some d \<Rightarrow> if dec_less d (Dec False 0 0) \<or> \<not> bounded_decimal d then Inl AffordabilityDenied else Inr d)"

definition uncaught :: "'a outcome \<Rightarrow> afford_error + 'a" where
  "uncaught m = (case m of Inl e \<Rightarrow> Inl (Uncaught e) | Inr x \<Rightarrow> Inr x)"

definition token_cost :: "dec \<Rightarrow> int \<Rightarrow> dec outcome" where
  "token_cost rate tokens =
     dec_mul (max default_prec (digits (dc_coeff rate) + length (int_str tokens) + 1)) (dec_of_int tokens) rate"

definition exact_add_subtract :: "dec \<Rightarrow> dec \<Rightarrow> dec outcome" where
  "exact_add_subtract left right =
     (let minimum_exponent = min (dc_exp left) (dc_exp right);
          greatest_adjusted = max (if dc_coeff left \<noteq> 0 then dc_adjusted left else minimum_exponent)
            (if dc_coeff right \<noteq> 0 then dc_adjusted right else minimum_exponent);
          precision = max 1 (greatest_adjusted - minimum_exponent + 2)
      in dec_add (max default_prec (nat precision)) left right)"

definition exact_sum :: "dec \<Rightarrow> dec \<Rightarrow> dec outcome" where
  "exact_sum left right = exact_add_subtract left right"

definition exact_difference :: "dec \<Rightarrow> dec \<Rightarrow> dec outcome" where
  "exact_difference left right = exact_add_subtract left (copy_negate right)"

text \<open>The loop of \<^verbatim>\<open>_affordable_output_tokens\<close>.\<close>

function search_tokens :: "dec \<Rightarrow> dec \<Rightarrow> int \<Rightarrow> int \<Rightarrow> int outcome" where
  "search_tokens available price low high =
     (if low < high
      then let candidate = (low + high + 1) div 2
           in and_then (token_cost price candidate) (\<lambda>cost.
                if dec_le cost available then search_tokens available price candidate high
                else search_tokens available price low (candidate - 1))
      else Inr low)"
  by pat_completeness auto
termination
  by (relation "measure (\<lambda>(_, _, low, high). nat (high - low))") auto

declare search_tokens.simps [simp del]

definition affordable_output_tokens :: "dec \<Rightarrow> dec \<Rightarrow> int \<Rightarrow> int outcome" where
  "affordable_output_tokens available price cap = search_tokens available price 0 cap"

definition opt_min :: "int \<Rightarrow> int option \<Rightarrow> int" where
  "opt_min n limit = (case limit of None \<Rightarrow> n | Some m \<Rightarrow> min n m)"

text \<open>The monetary part: the input's cost, the fee and the ceiling the balance pays for.\<close>

definition monthly_ceiling ::
  "endpoint_metadata \<Rightarrow> int \<Rightarrow> dec \<Rightarrow> int \<Rightarrow> afford_error + int \<times> dec \<times> dec" where
  "monthly_ceiling e input_bound remaining cap =
     and_then (required_price (em_prompt_price e)) (\<lambda>prompt_price.
     and_then (required_price (em_completion_price e)) (\<lambda>completion_price.
     and_then (required_price (em_request_price e)) (\<lambda>request_fee.
     and_then (uncaught (token_cost prompt_price input_bound)) (\<lambda>input_cost.
     and_then (uncaught (exact_sum input_cost request_fee)) (\<lambda>fixed_cost.
     and_then (uncaught (exact_difference remaining fixed_cost)) (\<lambda>after_input.
     if dec_less after_input (Dec False 0 0) then Inl AffordabilityDenied
     else if dec_less (Dec False 0 0) completion_price
     then and_then (uncaught (affordable_output_tokens after_input completion_price (em_max_completion_tokens e)))
            (\<lambda>n. Inr (min cap n, input_cost, request_fee))
     else Inr (cap, input_cost, request_fee)))))))"

definition calculate_affordability ::
  "(string \<Rightarrow> string) \<Rightarrow> endpoint_catalog_snapshot \<Rightarrow> string \<Rightarrow> int option \<Rightarrow> dec option \<Rightarrow> datetime \<Rightarrow> int option \<Rightarrow>
     afford_error + affordability_envelope" where
  "calculate_affordability casefold snap provider incident_remaining monthly_remaining now input_tokens =
     (case select_endpoint casefold snap provider now of None \<Rightarrow> Inl AffordabilityDenied
      | Some e \<Rightarrow>
          if \<not> validate_endpoint e (cs_model snap) now \<or> \<not> validate_remaining incident_remaining monthly_remaining \<or>
             (case input_tokens of None \<Rightarrow> False | Some n \<Rightarrow> \<not> (0 < n \<and> n \<le> MAX_ENDPOINT_TOKENS))
          then Inl AffordabilityDenied
          else let input_bound = opt_min (em_max_prompt_tokens e) input_tokens;
                   ceiling1 = opt_min (em_max_completion_tokens e) (map_option (\<lambda>c. c - input_bound) (em_context_length e));
                   ceiling2 = opt_min ceiling1 (map_option (\<lambda>r. r - input_bound) incident_remaining)
               in and_then (case monthly_remaining of None \<Rightarrow> Inr (ceiling2, None, None)
                    | Some remaining \<Rightarrow> and_then (monthly_ceiling e input_bound remaining ceiling2)
                        (\<lambda>(n, cost, fee). Inr (n, Some cost, Some fee))) (\<lambda>(output_ceiling, cost, fee).
                  if output_ceiling \<le> 0 then Inl AffordabilityDenied
                  else Inr \<lparr>av_model = em_model e, av_provider = em_provider e, av_max_output_tokens = output_ceiling,
                        av_conservative_input_tokens = input_bound, av_conservative_input_cost_usd = cost,
                        av_request_fee_usd = fee\<rparr>))"

section \<open>The arithmetic is exact\<close>

text \<open>Numbers far inside the exponent range of a context.\<close>

definition small_dec :: "nat \<Rightarrow> dec \<Rightarrow> bool" where
  "small_dec k d = (digits (dc_coeff d) \<le> k \<and> \<bar>dc_exp d\<bar> \<le> int k)"

lemma bounded_small: "bounded_decimal d \<longleftrightarrow> small_dec 128 d"
  by (simp add: bounded_decimal_def small_dec_def)

lemma digits_tokens: "n \<le> MAX_ENDPOINT_TOKENS \<Longrightarrow> digits (nat n) \<le> 19"
  using digits_le_iff [of "nat n" 18] by (simp add: MAX_ENDPOINT_TOKENS_def)

lemma token_cost_exact:
  assumes "bounded_decimal rate" and "0 \<le> n" and "n \<le> MAX_ENDPOINT_TOKENS"
  obtains d where "token_cost rate n = Inr d" and "dec_value d = of_int n * dec_value rate" and "small_dec 147 d"
    and "dc_exp d = dc_exp rate"
proof -
  let ?d = "dec_product (dec_of_int n) rate"
  have len: "length (int_str n) = digits (nat n)" using assms(2) by (simp add: int_str_def digits_def)
  have dig: "digits (dc_coeff ?d) \<le> digits (nat n) + digits (dc_coeff rate)"
    using digits_mult [of "nat n" "dc_coeff rate"] assms(2) by (simp add: dec_product_def dec_of_int_def)
  have "token_cost rate n = Inr ?d"
    unfolding token_cost_def dec_mul_def len
    by (rule fix_exact) (use dig assms(1) digits_tokens [OF assms(3)] in
      \<open>auto simp: bounded_decimal_def dec_product_def dec_of_int_def dec_emax_def default_prec_def\<close>)
  moreover have "small_dec 147 ?d"
    using dig assms(1) digits_tokens [OF assms(3)]
    by (auto simp: small_dec_def bounded_decimal_def) (simp_all add: dec_product_def dec_of_int_def)
  moreover have "dc_exp ?d = dc_exp rate" by (simp add: dec_product_def dec_of_int_def)
  ultimately show thesis using that by (simp add: dec_value_product)
qed

lemma add_subtract_exact:
  assumes "small_dec k a" and "small_dec k b" and "k \<le> 100000"
  obtains d where "exact_add_subtract a b = Inr d" and "dec_value d = dec_value a + dec_value b" and "small_dec (4 * k + 2) d"
proof -
  define e where "e = min (dc_exp a) (dc_exp b)"
  define g where "g = max (if dc_coeff a \<noteq> 0 then dc_adjusted a else e) (if dc_coeff b \<noteq> 0 then dc_adjusted b else e)"
  have adj: "dc_coeff x \<noteq> 0 \<Longrightarrow> dc_exp x \<le> dc_adjusted x" for x using digits_pos [of "dc_coeff x"] by (simp add: dc_adjusted_def)
  have e: "e \<le> dc_exp a" "e \<le> dc_exp b" "- int k \<le> e" "e \<le> int k"
    using assms(1,2) by (auto simp: e_def small_dec_def)
  have "e \<le> g" using adj [of a] adj [of b] e by (auto simp: g_def le_max_iff_disj)
  then have g: "e \<le> g" "dc_coeff a = 0 \<or> dc_adjusted a \<le> g" "dc_coeff b = 0 \<or> dc_adjusted b \<le> g" "g \<le> 2 * int k"
    using adj [of a] adj [of b] e assms(1,2) by (auto simp: g_def dc_adjusted_def small_dec_def)
  have dig: "digits (dc_coeff (dec_sum a b)) \<le> nat (g - e + 2)" by (rule digits_sum [OF e_def g(1-3)])
  have ex: "dc_exp (dec_sum a b) = e" by (simp add: dec_sum_def e_def Let_def)
  have "exact_add_subtract a b = dec_add (max default_prec (nat (max 1 (g - e + 2)))) a b"
    unfolding exact_add_subtract_def Let_def e_def g_def ..
  also have "\<dots> = Inr (dec_sum a b)"
    unfolding dec_add_def
  proof (rule fix_exact)
    show "digits (dc_coeff (dec_sum a b)) \<le> max default_prec (nat (max 1 (g - e + 2)))" using dig by linarith
    show "- dec_emax - int (max default_prec (nat (max 1 (g - e + 2)))) + 1 \<le> dc_exp (dec_sum a b)"
      using e assms(3) unfolding ex by (simp add: dec_emax_def)
    show "dc_exp (dec_sum a b) + int (digits (dc_coeff (dec_sum a b))) \<le> dec_emax + 1"
      using dig e g assms(3) unfolding ex by (simp add: dec_emax_def)
  qed
  finally have "exact_add_subtract a b = Inr (dec_sum a b)" .
  moreover have "small_dec (4 * k + 2) (dec_sum a b)"
    using dig e g by (auto simp: small_dec_def ex)
  ultimately show thesis using that dec_value_sum by blast
qed

lemma small_negate [simp]: "small_dec k (copy_negate d) = small_dec k d"
  by (simp add: small_dec_def copy_negate_def)

lemma small_mono: "small_dec k d \<Longrightarrow> k \<le> j \<Longrightarrow> small_dec j d"
  by (auto simp: small_dec_def)

section \<open>The bisection\<close>

lemma search_tokens_greatest:
  assumes "bounded_decimal price" and "0 \<le> low" and "low \<le> high" and "high \<le> MAX_ENDPOINT_TOKENS"
    and "0 < dec_value price" and "of_int low * dec_value price \<le> dec_value available"
  obtains n where "search_tokens available price low high = Inr n" and "low \<le> n" and "n \<le> high"
    and "of_int n * dec_value price \<le> dec_value available"
    and "\<forall>m. m \<le> high \<and> of_int m * dec_value price \<le> dec_value available \<longrightarrow> m \<le> n"
  using assms
proof (induction available price low high arbitrary: thesis rule: search_tokens.induct)
  case (1 available price low high)
  show ?case
  proof (cases "low < high")
    case False
    then show ?thesis using "1.prems" by (intro "1.prems"(1) [of low]) (auto simp: search_tokens.simps)
  next
    case True
    let ?c = "(low + high + 1) div 2"
    have c: "low < ?c" "?c \<le> high" "0 \<le> ?c" using True "1.prems"(3) by simp_all
    obtain d where d: "token_cost price ?c = Inr d" "dec_value d = of_int ?c * dec_value price"
      by (rule token_cost_exact [OF "1.prems"(2) c(3)]) (use c "1.prems" in auto)
    show ?thesis
    proof (cases "dec_le d available")
      case le: True
      have step: "search_tokens available price low high = search_tokens available price ?c high"
        by (subst search_tokens.simps) (simp add: True d le Let_def)
      show ?thesis
        by (rule "1.IH"(1) [OF True refl le]) (use "1.prems" c le d in \<open>auto simp: step dec_le_def\<close>)
    next
      case le: False
      have step: "search_tokens available price low high = search_tokens available price low (?c - 1)"
        by (subst search_tokens.simps) (simp add: True d le Let_def)
      have above: "m < ?c" if "of_int m * dec_value price \<le> dec_value available" for m
      proof (rule ccontr)
        assume "\<not> m < ?c"
        then have "of_int ?c * dec_value price \<le> of_int m * dec_value price"
          using "1.prems"(6) by (intro mult_right_mono) simp_all
        with that le d show False by (simp add: dec_le_def)
      qed
      show ?thesis
      proof (rule "1.IH"(2) [OF True refl le])
        fix n assume n: "search_tokens available price low (?c - 1) = Inr n" "low \<le> n" "n \<le> ?c - 1"
          "of_int n * dec_value price \<le> dec_value available"
          "\<forall>m. m \<le> ?c - 1 \<and> of_int m * dec_value price \<le> dec_value available \<longrightarrow> m \<le> n"
        show thesis
          by (rule "1.prems"(1) [of n]) (use n c above in \<open>force simp: step\<close>)+
      qed (use "1.prems" c in auto)
    qed
  qed
qed

section \<open>What the ceiling promises\<close>

definition fair_price :: "dec option \<Rightarrow> bool" where
  "fair_price v = (case v of None \<Rightarrow> False | Some d \<Rightarrow> 0 \<le> dec_value d \<and> bounded_decimal d)"

text \<open>The worst cost of a call with \<open>n\<close> output tokens is within the balance.\<close>

definition pays :: "endpoint_metadata \<Rightarrow> int \<Rightarrow> dec \<Rightarrow> int \<Rightarrow> bool" where
  "pays e input remaining n =
     (fair_price (em_prompt_price e) \<and> fair_price (em_completion_price e) \<and> fair_price (em_request_price e) \<and>
      of_int input * dec_value (the (em_prompt_price e)) + dec_value (the (em_request_price e)) +
        of_int n * dec_value (the (em_completion_price e)) \<le> dec_value remaining)"

text \<open>Every limit in force allows a call with at most \<open>n\<close> output tokens.\<close>

definition within_limits :: "endpoint_metadata \<Rightarrow> int \<Rightarrow> int option \<Rightarrow> dec option \<Rightarrow> int \<Rightarrow> bool" where
  "within_limits e input incident monthly n =
     (0 < n \<and> n \<le> em_max_completion_tokens e \<and>
      (case em_context_length e of None \<Rightarrow> True | Some c \<Rightarrow> input + n \<le> c) \<and>
      (case incident of None \<Rightarrow> True | Some r \<Rightarrow> input + n \<le> r) \<and>
      (case monthly of None \<Rightarrow> True | Some r \<Rightarrow> pays e input r n))"

definition affordable ::
  "(string \<Rightarrow> string) \<Rightarrow> endpoint_catalog_snapshot \<Rightarrow> string \<Rightarrow> int option \<Rightarrow> dec option \<Rightarrow> datetime \<Rightarrow> int option \<Rightarrow> int \<Rightarrow> bool" where
  "affordable casefold snap provider incident monthly now input_tokens n =
     (case select_endpoint casefold snap provider now of None \<Rightarrow> False
      | Some e \<Rightarrow> validate_endpoint e (cs_model snap) now \<and> validate_remaining incident monthly \<and>
          (case input_tokens of None \<Rightarrow> True | Some i \<Rightarrow> 0 < i \<and> i \<le> MAX_ENDPOINT_TOKENS) \<and>
          within_limits e (opt_min (em_max_prompt_tokens e) input_tokens) incident monthly n)"

lemma dec_zero [simp]: "dec_value (Dec s 0 x) = 0"
  by (simp add: dec_value_def)

lemma required_price_cases: "required_price v = (if fair_price v then Inr (the v) else Inl AffordabilityDenied)"
  by (auto simp: required_price_def fair_price_def dec_less_def split: option.splits)

lemma uncaught_Inr [simp]: "uncaught (Inr x) = Inr x"
  by (simp add: uncaught_def)

lemma monthly_ceiling_cases:
  assumes "bounded_decimal remaining" and "0 \<le> input" and "input \<le> MAX_ENDPOINT_TOKENS"
    and "0 \<le> em_max_completion_tokens e" and "em_max_completion_tokens e \<le> MAX_ENDPOINT_TOKENS"
  obtains (denied) "monthly_ceiling e input remaining cap = Inl AffordabilityDenied" and "\<forall>m\<ge>0. \<not> pays e input remaining m"
  | (paid) n cost fee where "monthly_ceiling e input remaining cap = Inr (n, cost, fee)"
      and "dec_value cost = of_int input * dec_value (the (em_prompt_price e))" and "em_request_price e = Some fee" and "n \<le> cap"
      and "dc_exp cost = dc_exp (the (em_prompt_price e))"
      and "\<forall>m. 0 \<le> m \<and> m \<le> em_max_completion_tokens e \<longrightarrow> (m \<le> n \<longleftrightarrow> m \<le> cap \<and> pays e input remaining m)"
proof (cases "fair_price (em_prompt_price e) \<and> fair_price (em_completion_price e) \<and> fair_price (em_request_price e)")
  case False
  then have "monthly_ceiling e input remaining cap = Inl AffordabilityDenied"
    by (auto simp: monthly_ceiling_def required_price_cases)
  with False show thesis by (intro denied) (auto simp: pays_def)
next
  case fair: True
  obtain pp cp rf where prices: "em_prompt_price e = Some pp" "em_completion_price e = Some cp" "em_request_price e = Some rf"
    using fair by (auto simp: fair_price_def split: option.splits)
  have b: "bounded_decimal pp" "bounded_decimal cp" "bounded_decimal rf" "0 \<le> dec_value pp" "0 \<le> dec_value cp" "0 \<le> dec_value rf"
    using fair by (auto simp: prices fair_price_def)
  obtain cost where cost: "token_cost pp input = Inr cost" "dec_value cost = of_int input * dec_value pp" "small_dec 147 cost"
      "dc_exp cost = dc_exp pp"
    by (rule token_cost_exact [OF b(1) assms(2,3)])
  obtain fixed where fixed: "exact_add_subtract cost rf = Inr fixed" "dec_value fixed = dec_value cost + dec_value rf" "small_dec 590 fixed"
    by (rule add_subtract_exact [of 147 cost rf]) (use cost b in \<open>auto simp: bounded_small intro: small_mono\<close>)
  obtain after where after: "exact_add_subtract remaining (copy_negate fixed) = Inr after"
      "dec_value after = dec_value remaining - dec_value fixed"
    by (rule add_subtract_exact [of 590 remaining "copy_negate fixed"]) (use fixed assms(1) in \<open>auto simp: bounded_small intro: small_mono\<close>)
  have worst: "pays e input remaining m \<longleftrightarrow> of_int m * dec_value cp \<le> dec_value after" for m
    using fair by (auto simp: pays_def prices after fixed cost)
  have unfolded: "monthly_ceiling e input remaining cap =
      (if dec_less after (Dec False 0 0) then Inl AffordabilityDenied
       else if dec_less (Dec False 0 0) cp
       then and_then (uncaught (affordable_output_tokens after cp (em_max_completion_tokens e))) (\<lambda>n. Inr (min cap n, cost, rf))
       else Inr (cap, cost, rf))"
    using fair by (simp add: monthly_ceiling_def required_price_cases prices cost exact_sum_def exact_difference_def fixed after)
  show thesis
  proof (cases "dec_value after < 0")
    case True
    have "\<not> pays e input remaining m" if "0 \<le> m" for m
    proof -
      have "0 \<le> of_int m * dec_value cp" using that b by simp
      with True show ?thesis unfolding worst by linarith
    qed
    then show thesis using True by (intro denied) (auto simp: unfolded dec_less_def)
  next
    case False
    show thesis
    proof (cases "0 < dec_value cp")
      case pos: True
      obtain n where n: "search_tokens after cp 0 (em_max_completion_tokens e) = Inr n" "0 \<le> n" "n \<le> em_max_completion_tokens e"
        "of_int n * dec_value cp \<le> dec_value after"
        "\<forall>m. m \<le> em_max_completion_tokens e \<and> of_int m * dec_value cp \<le> dec_value after \<longrightarrow> m \<le> n"
        by (rule search_tokens_greatest [OF b(2) order_refl assms(4,5) pos]) (use False in auto)
      have below: "of_int m * dec_value cp \<le> dec_value after" if "m \<le> n" for m
      proof -
        have "of_int m * dec_value cp \<le> of_int n * dec_value cp" using that pos by (intro mult_right_mono) simp_all
        with n(4) show ?thesis by linarith
      qed
      show thesis
        by (rule paid [of "min cap n" cost rf])
           (use False pos n below in \<open>auto simp: unfolded dec_less_def affordable_output_tokens_def cost prices worst\<close>)
    next
      case zero: False
      then have "dec_value cp = 0" using b by simp
      then show thesis
        by (intro paid [of cap cost rf]) (use False in \<open>auto simp: unfolded dec_less_def cost prices worst\<close>)
    qed
  qed
qed

lemma opt_min_iff: "n \<le> opt_min m limit \<longleftrightarrow> n \<le> m \<and> (case limit of None \<Rightarrow> True | Some l \<Rightarrow> n \<le> l)"
  by (auto simp: opt_min_def split: option.splits)

lemma calculate_cases:
  obtains (found) e env where "calculate_affordability casefold snap provider incident monthly now input_tokens = Inr env"
      and "select_endpoint casefold snap provider now = Some e"
      and "av_conservative_input_tokens env = opt_min (em_max_prompt_tokens e) input_tokens"
      and "affordable casefold snap provider incident monthly now input_tokens (av_max_output_tokens env)"
      and "\<forall>m. affordable casefold snap provider incident monthly now input_tokens m \<longrightarrow> m \<le> av_max_output_tokens env"
      and "monthly \<noteq> None \<Longrightarrow> av_request_fee_usd env = em_request_price e \<and> (\<exists>cost. av_conservative_input_cost_usd env = Some cost \<and>
        dec_value cost = of_int (av_conservative_input_tokens env) * dec_value (the (em_prompt_price e)) \<and>
        dc_exp cost = dc_exp (the (em_prompt_price e)))"
  | (denied) "calculate_affordability casefold snap provider incident monthly now input_tokens = Inl AffordabilityDenied"
      and "\<forall>n. \<not> affordable casefold snap provider incident monthly now input_tokens n"
proof (cases "select_endpoint casefold snap provider now")
  case None
  then show thesis by (intro denied) (simp_all add: calculate_affordability_def affordable_def)
next
  case (Some e)
  define input where "input = opt_min (em_max_prompt_tokens e) input_tokens"
  define cap where "cap = opt_min (opt_min (em_max_completion_tokens e) (map_option (\<lambda>c. c - input) (em_context_length e)))
      (map_option (\<lambda>r. r - input) incident)"
  define env where "env = (\<lambda>n cost fee. \<lparr>av_model = em_model e, av_provider = em_provider e, av_max_output_tokens = n,
      av_conservative_input_tokens = input, av_conservative_input_cost_usd = cost, av_request_fee_usd = fee\<rparr>)"
  let ?valid = "validate_endpoint e (cs_model snap) now \<and> validate_remaining incident monthly \<and>
      (case input_tokens of None \<Rightarrow> True | Some i \<Rightarrow> 0 < i \<and> i \<le> MAX_ENDPOINT_TOKENS)"
  show thesis
  proof (cases ?valid)
    case False
    then show thesis
      by (intro denied) (auto simp: calculate_affordability_def affordable_def Some split: option.splits)
  next
    case valid: True
    have ep: "0 \<le> em_max_completion_tokens e" "em_max_completion_tokens e \<le> MAX_ENDPOINT_TOKENS" "0 < input" "input \<le> MAX_ENDPOINT_TOKENS"
      using valid by (auto simp: validate_endpoint_def input_def opt_min_def split: option.splits)
    have aff: "affordable casefold snap provider incident monthly now input_tokens n \<longleftrightarrow>
        0 < n \<and> n \<le> cap \<and> (case monthly of None \<Rightarrow> True | Some r \<Rightarrow> pays e input r n)" for n
      using valid by (auto simp: affordable_def Some within_limits_def input_def [symmetric] cap_def opt_min_iff algebra_simps
          split: option.splits)
    have top: "cap \<le> em_max_completion_tokens e" by (auto simp: cap_def opt_min_def split: option.splits)
    have guard: "\<not> (\<not> validate_endpoint e (cs_model snap) now \<or> \<not> validate_remaining incident monthly \<or>
        (case input_tokens of None \<Rightarrow> False | Some n \<Rightarrow> \<not> (0 < n \<and> n \<le> MAX_ENDPOINT_TOKENS)))"
      using valid by (auto split: option.splits)
    have unfolded: "calculate_affordability casefold snap provider incident monthly now input_tokens =
        and_then (case monthly of None \<Rightarrow> Inr (cap, None, None)
          | Some r \<Rightarrow> and_then (monthly_ceiling e input r cap) (\<lambda>(n, cost, fee). Inr (n, Some cost, Some fee)))
        (\<lambda>(n, cost, fee). if n \<le> 0 then Inl AffordabilityDenied else Inr (env n cost fee))"
      by (simp only: calculate_affordability_def Some option.case if_not_P [OF guard] Let_def input_def cap_def env_def)
    have found': thesis if "calculate_affordability casefold snap provider incident monthly now input_tokens = Inr (env n cost fee)"
        "affordable casefold snap provider incident monthly now input_tokens n"
        "\<forall>m. affordable casefold snap provider incident monthly now input_tokens m \<longrightarrow> m \<le> n"
        "monthly \<noteq> None \<Longrightarrow> fee = em_request_price e \<and> (\<exists>c. cost = Some c \<and> dec_value c = of_int input * dec_value (the (em_prompt_price e)) \<and>
          dc_exp c = dc_exp (the (em_prompt_price e)))"
        for n cost fee
      by (rule found [OF that(1) Some]) (use that in \<open>auto simp: env_def input_def\<close>)
    show thesis
    proof (cases monthly)
      case None
      show thesis
      proof (cases "cap \<le> 0")
        case True
        then show thesis by (intro denied) (auto simp: unfolded [unfolded None] aff [unfolded None] None)
      next
        case False
        then show thesis by (intro found' [of cap]) (auto simp: unfolded [unfolded None] aff [unfolded None] None)
      qed
    next
      case (Some r)
      have "bounded_decimal r" using valid by (simp add: Some validate_remaining_def)
      from this less_imp_le [OF ep(3)] ep(4,1,2) show thesis
      proof (cases rule: monthly_ceiling_cases [where cap = cap])
        case denied
        show thesis by (rule that(2)) (use denied in \<open>auto simp: unfolded [unfolded Some] aff [unfolded Some] Some\<close>)
      next
        case (paid n cost fee)
        show thesis
        proof (cases "n \<le> 0")
          case True
          have "\<not> affordable casefold snap provider incident monthly now input_tokens m" for m
          proof
            assume "affordable casefold snap provider incident monthly now input_tokens m"
            then have "0 < m" "m \<le> cap" "pays e input r m" unfolding aff by (simp_all add: Some)
            then have "m \<le> n" using paid(6) top by simp
            with True \<open>0 < m\<close> show False by simp
          qed
          moreover have "calculate_affordability casefold snap provider incident monthly now input_tokens = Inl AffordabilityDenied"
            using True unfolded paid(1) Some by simp
          ultimately show thesis by (intro that(2)) simp_all
        next
          case False
          have "pays e input r n" using paid(4) paid(6) [rule_format, of n] False top by simp
          then show thesis
            by (intro found' [of n "Some cost" "Some fee"]) (use False paid top in \<open>auto simp: unfolded [unfolded Some] aff [unfolded Some] Some\<close>)
        qed
      qed
    qed
  qed
qed

lemma calculate_Inr:
  assumes "calculate_affordability casefold snap provider incident monthly now input_tokens = Inr env"
    and "select_endpoint casefold snap provider now = Some e"
  shows "av_conservative_input_tokens env = opt_min (em_max_prompt_tokens e) input_tokens"
    and "within_limits e (av_conservative_input_tokens env) incident monthly (av_max_output_tokens env)"
    and "0 < av_conservative_input_tokens env"
    and "monthly \<noteq> None \<Longrightarrow> av_request_fee_usd env = em_request_price e \<and> (\<exists>cost. av_conservative_input_cost_usd env = Some cost \<and>
        dec_value cost = of_int (av_conservative_input_tokens env) * dec_value (the (em_prompt_price e)) \<and>
        dc_exp cost = dc_exp (the (em_prompt_price e)))"
proof -
  have "av_conservative_input_tokens env = opt_min (em_max_prompt_tokens e) input_tokens \<and>
      within_limits e (av_conservative_input_tokens env) incident monthly (av_max_output_tokens env) \<and>
      0 < av_conservative_input_tokens env \<and>
      (monthly \<noteq> None \<longrightarrow> av_request_fee_usd env = em_request_price e \<and> (\<exists>cost. av_conservative_input_cost_usd env = Some cost \<and>
        dec_value cost = of_int (av_conservative_input_tokens env) * dec_value (the (em_prompt_price e)) \<and>
        dc_exp cost = dc_exp (the (em_prompt_price e))))"
  proof (cases rule: calculate_cases [where casefold = casefold and snap = snap and provider = provider and incident = incident
        and monthly = monthly and now = now and input_tokens = input_tokens])
    case (found e' env')
    then have "e' = e" "env' = env" using assms by simp_all
    with found assms(2) show ?thesis
      by (auto simp: affordable_def validate_endpoint_def opt_min_def split: option.splits)
  qed (use assms in simp)
  then show "av_conservative_input_tokens env = opt_min (em_max_prompt_tokens e) input_tokens"
    "within_limits e (av_conservative_input_tokens env) incident monthly (av_max_output_tokens env)"
    "0 < av_conservative_input_tokens env"
    "monthly \<noteq> None \<Longrightarrow> av_request_fee_usd env = em_request_price e \<and> (\<exists>cost. av_conservative_input_cost_usd env = Some cost \<and>
        dec_value cost = of_int (av_conservative_input_tokens env) * dec_value (the (em_prompt_price e)) \<and>
        dc_exp cost = dc_exp (the (em_prompt_price e)))"
    by blast+
qed

text \<open>
  C19. The output ceiling is exactly the greatest number of tokens that every active limit allows:
  the endpoint's own cap, its context window, the incident's remaining tokens and, priced with the
  exact worst cost of input, fee and output, the month's remaining dollars. The calculation denies
  exactly when no positive number is allowed, and no decimal operation of it rounds or overflows.
\<close>

theorem affordability_greatest:
  "(\<exists>env. calculate_affordability casefold snap provider incident monthly now input_tokens = Inr env \<and>
      affordable casefold snap provider incident monthly now input_tokens (av_max_output_tokens env) \<and>
      (\<forall>m. affordable casefold snap provider incident monthly now input_tokens m \<longrightarrow> m \<le> av_max_output_tokens env)) \<or>
   (calculate_affordability casefold snap provider incident monthly now input_tokens = Inl AffordabilityDenied \<and>
      (\<forall>n. \<not> affordable casefold snap provider incident monthly now input_tokens n))"
proof (cases rule: calculate_cases [where casefold = casefold and snap = snap and provider = provider and incident = incident
      and monthly = monthly and now = now and input_tokens = input_tokens])
  case (found e env)
  then show ?thesis by blast
next
  case denied
  then show ?thesis by blast
qed

definition example_endpoint :: endpoint_metadata where
  "example_endpoint = \<lparr>em_model = ''acme/m1'', em_provider = ''acme'', em_max_prompt_tokens = 1000, em_max_completion_tokens = 100,
     em_valid_until = plus_seconds 60 sample_time, em_prompt_price = Some (Dec False 1 (- 3)),
     em_completion_price = Some (Dec False 2 (- 3)), em_request_price = Some (Dec False 0 0), em_context_length = None, em_tag = None\<rparr>"

definition example_snapshot :: endpoint_catalog_snapshot where
  "example_snapshot = \<lparr>cs_model = ''acme/m1'', cs_endpoints = [example_endpoint], cs_observed_at = sample_time,
     cs_valid_until = plus_seconds 60 sample_time\<rparr>"

lemma sample_minute: "sample_time < plus_seconds 60 sample_time"
  by (simp add: plus_seconds_def sample_time_def less_datetime_def dt_key_def Let_def)

lemma example_selected: "select_endpoint (\<lambda>s. s) example_snapshot ''acme'' sample_time = Some example_endpoint"
  using sample_minute
  by (simp add: select_endpoint_def example_snapshot_def example_endpoint_def blank_iff py_space_def utf8_rest_def utf8_lead_def Let_def)

lemma dec_value_thousandths: "dec_value (Dec False n (- 3)) = of_nat n / 1000"
  by (simp add: dec_value_def power_int_minus inverse_eq_divide)

lemma example_affordable:
  "affordable (\<lambda>s. s) example_snapshot ''acme'' None (Some (Dec False 100 (- 3))) sample_time (Some 20) n \<longleftrightarrow> 0 < n \<and> n \<le> 40"
proof -
  have "validate_endpoint example_endpoint (cs_model example_snapshot) sample_time"
    using sample_minute by (simp add: validate_endpoint_def example_endpoint_def example_snapshot_def blank_iff py_space_def utf8_rest_def utf8_lead_def
        MAX_ENDPOINT_TOKENS_def)
  moreover have "validate_remaining None (Some (Dec False 100 (- 3)))"
    by (simp add: validate_remaining_def dec_less_def dec_value_thousandths bounded_decimal_def digits_step)
  moreover have "pays example_endpoint 20 (Dec False 100 (- 3)) n \<longleftrightarrow> n \<le> 40"
  proof -
    have "pays example_endpoint 20 (Dec False 100 (- 3)) n \<longleftrightarrow> (20 / 1000 + of_int n * (2 / 1000) \<le> (100 / 1000 :: rat))"
      by (simp add: pays_def fair_price_def example_endpoint_def dec_value_thousandths bounded_decimal_def digits_step)
    also have "\<dots> \<longleftrightarrow> of_int n \<le> (of_int 40 :: rat)" by auto
    finally show ?thesis by (simp only: of_int_le_iff)
  qed
  ultimately show ?thesis
    by (auto simp: affordable_def example_selected within_limits_def opt_min_def MAX_ENDPOINT_TOKENS_def)
       (simp_all add: example_endpoint_def)
qed

theorem affordability_greatest_witness:
  "\<exists>env. calculate_affordability (\<lambda>s. s) example_snapshot ''acme'' None (Some (Dec False 100 (- 3))) sample_time (Some 20) = Inr env \<and>
     av_max_output_tokens env = 40"
proof -
  have "affordable (\<lambda>s. s) example_snapshot ''acme'' None (Some (Dec False 100 (- 3))) sample_time (Some 20) 40"
    by (simp add: example_affordable)
  then show ?thesis
    using affordability_greatest [of "\<lambda>s. s" example_snapshot "''acme''" None "Some (Dec False 100 (- 3))" sample_time "Some 20"]
    unfolding example_affordable by (metis antisym)
qed

end
