(* ===== verification/Admission.thy ===== *)
theory Admission
  imports Affordability Store
begin

text \<open>
  Admission of calls to model providers against the consumption policy
  (\<^verbatim>\<open>gateway/consumption_admission.py\<close>, \<^verbatim>\<open>persistence/reservations.py\<close>): an admitted call reserves
  its worst exposure before the provider is contacted, and an exact report settles it later.

  Transactions are taken one after the other. An admission takes the advisory lock of the month, a
  settlement takes none: one that commits between the two sums of an admission, which take no common
  snapshot, is not modelled. The catalog is a parameter (\<open>None\<close>: unconfigured or unavailable). Of the
  audit log the month's balance reads the successful responses without a monetary reservation; the
  record \<open>usage_event\<close> has the columns that query names. A \<^verbatim>\<open>NUMERIC(p, s)\<close> column holds its values at scale \<open>s\<close>.
\<close>

section \<open>Data\<close>

definition MAX_BIGINT :: int where "MAX_BIGINT = 9223372036854775807"

record limit_policy =
  lp_version :: int
  lp_incident_token_limit :: "int option"
  lp_monthly_usd_limit :: "dec option"
  lp_updated_at :: datetime

record consumption_reservation =
  rv_reservation_id :: string
  rv_incident_id :: "string option"
  rv_period_start :: datetime
  rv_policy_version :: int
  rv_model :: string
  rv_provider :: string
  rv_token_exposure :: "int option"
  rv_usd_exposure :: "dec option"
  rv_settled_tokens :: "int option"
  rv_settled_usd_cost :: "dec option"
  rv_state :: string
  rv_created_at :: datetime

record usage_event =
  ue_operation :: string
  ue_stage :: string
  ue_outcome :: string
  ue_occurred_at :: datetime
  ue_request_id :: "string option"
  ue_availability :: "string option"
  ue_billed_usd :: "dec option"

record consumption_db =
  cd_policy :: "limit_policy option"
  cd_reservations :: "consumption_reservation list"
  cd_usage :: "usage_event list"
  cd_incidents :: "string list"

record admission_result =
  ad_allowed :: bool
  ad_max_output_tokens :: "int option"
  ad_policy_version :: int
  ad_reservation_id :: "string option"
  ad_denial_reason :: "string option"
  ad_retryable :: bool

section \<open>Numeric columns\<close>

text \<open>Rounding to a scale is half away from zero, and PostgreSQL has no negative zero.\<close>

definition at_scale :: "nat \<Rightarrow> dec \<Rightarrow> dec" where
  "at_scale k d =
     (let c = (if - int k \<le> dc_exp d then dc_coeff d * 10 ^ nat (dc_exp d + int k)
        else let n = nat (- int k - dc_exp d) in (2 * dc_coeff d + 10 ^ n) div (2 * 10 ^ n))
      in Dec (dc_neg d \<and> c \<noteq> 0) c (- int k))"

definition to_numeric :: "nat \<Rightarrow> nat \<Rightarrow> dec \<Rightarrow> dec outcome" where
  "to_numeric precision scale d =
     (let v = at_scale scale d in if dc_coeff v < 10 ^ precision then Inr v else Inl (DataError ''numeric field overflow''))"

definition to_numeric_opt :: "nat \<Rightarrow> nat \<Rightarrow> dec option \<Rightarrow> dec option outcome" where
  "to_numeric_opt precision scale v = (case v of None \<Rightarrow> Inr None
     | Some d \<Rightarrow> and_then (to_numeric precision scale d) (\<lambda>x. Inr (Some x)))"

text \<open>\<^verbatim>\<open>COALESCE(SUM(column), 0)\<close>: nulls are left out, the sum is exact.\<close>

definition sum_usd :: "dec option list \<Rightarrow> dec" where
  "sum_usd vs = foldl dec_sum (Dec False 0 0) (map the (filter (\<lambda>v. v \<noteq> None) vs))"

definition sum_tokens :: "int option list \<Rightarrow> int" where
  "sum_tokens vs = sum_list (map the (filter (\<lambda>v. v \<noteq> None) vs))"

section \<open>Reservations\<close>

definition utc_month :: "datetime \<Rightarrow> datetime outcome" where
  "utc_month t = (if dt_day t \<noteq> 1 \<or> dt_hour t \<noteq> 0 \<or> dt_minute t \<noteq> 0 \<or> dt_second t \<noteq> 0 \<or> dt_micro t \<noteq> 0
     then Inl (ValueError ''period_start must be the first instant of a UTC month'') else Inr t)"

definition bounded_usd :: "dec option \<Rightarrow> dec option outcome" where
  "bounded_usd v = (case v of None \<Rightarrow> Inr None
     | Some d \<Rightarrow>
         if dec_less d (Dec False 0 0)
         then Inl (ValueError ''USD exposure must be a finite nonnegative Decimal or unknown'')
         else let scale = max 0 (- dc_exp d); whole = (if dc_coeff d \<noteq> 0 then max 0 (dc_adjusted d + 1) else 0)
           in if 36 < scale \<or> 20 < whole
              then Inl (ValueError ''USD exposure exceeds the exact Numeric(56,36) bounds'') else Inr (Some d))"

text \<open>
  The insertion of a row: the columns' types, the check constraints, the primary key and the foreign
  key to the incidents, in the order PostgreSQL looks at them.
\<close>

definition fk_reservation :: string where "fk_reservation = ''fk_consumption_reservation_incident''"

definition insert_reservation :: "consumption_reservation \<Rightarrow> consumption_db \<Rightarrow> consumption_db outcome" where
  "insert_reservation r db =
     and_then (raise_if (\<not> (fits 64 (rv_reservation_id r) \<and> fits_opt 64 (rv_incident_id r) \<and> fits 200 (rv_model r) \<and>
         fits 100 (rv_provider r) \<and> (case rv_token_exposure r of None \<Rightarrow> True | Some n \<Rightarrow> n \<le> MAX_BIGINT)))
       (DataError ''consumption_reservations'')) (\<lambda>_.
     and_then (raise_if (rv_policy_version r < 0 \<or> rv_model r = [] \<or> rv_provider r = [] \<or>
         (case rv_token_exposure r of None \<Rightarrow> False | Some n \<Rightarrow> n < 0)) (IntegrityError ''check'')) (\<lambda>_.
     and_then (raise_if (rv_reservation_id r \<in> rv_reservation_id ` set (cd_reservations db)) (IntegrityError ''primary key'')) (\<lambda>_.
     and_then (raise_if (case rv_incident_id r of None \<Rightarrow> False | Some i \<Rightarrow> i \<notin> set (cd_incidents db))
       (IntegrityError fk_reservation)) (\<lambda>_.
     Inr (db\<lparr>cd_reservations := cd_reservations db @ [r]\<rparr>)))))"

definition create_reservation ::
  "string \<Rightarrow> string option \<Rightarrow> datetime \<Rightarrow> int \<Rightarrow> string \<Rightarrow> string \<Rightarrow> int option \<Rightarrow> dec option \<Rightarrow> datetime \<Rightarrow>
     consumption_db \<Rightarrow> consumption_db outcome" where
  "create_reservation rid incident period version model provider tokens usd created db =
     and_then (utc_month period) (\<lambda>start.
     and_then (bounded_usd usd) (\<lambda>exposure.
     and_then (to_numeric_opt 56 36 exposure) (\<lambda>stored.
     insert_reservation \<lparr>rv_reservation_id = rid, rv_incident_id = incident, rv_period_start = start,
        rv_policy_version = version, rv_model = model, rv_provider = provider, rv_token_exposure = tokens,
        rv_usd_exposure = stored, rv_settled_tokens = None, rv_settled_usd_cost = None, rv_state = ''reserved'',
        rv_created_at = created\<rparr> db)))"

section \<open>Balances\<close>

definition month_bounds :: "datetime \<Rightarrow> datetime \<times> datetime" where
  "month_bounds now =
     (Datetime (dt_year now) (dt_month now) 1 0 0 0 0,
      if dt_month now = 12 then Datetime (dt_year now + 1) 1 1 0 0 0 0
      else Datetime (dt_year now) (dt_month now + 1) 1 0 0 0 0)"

definition reservation_state :: "bool \<Rightarrow> string" where
  "reservation_state settled = (if settled then ''settled'' else ''reserved'')"

definition incident_sum ::
  "(consumption_reservation \<Rightarrow> int option) \<Rightarrow> string \<Rightarrow> datetime \<Rightarrow> bool \<Rightarrow> consumption_db \<Rightarrow> int" where
  "incident_sum column incident period settled db = sum_tokens (map column (filter (\<lambda>r. rv_incident_id r = Some incident \<and>
     rv_period_start r = period \<and> rv_state r = reservation_state settled) (cd_reservations db)))"

definition period_sum :: "(consumption_reservation \<Rightarrow> dec option) \<Rightarrow> datetime \<Rightarrow> bool \<Rightarrow> consumption_db \<Rightarrow> dec" where
  "period_sum column period settled db = sum_usd (map column (filter (\<lambda>r.
     rv_period_start r = period \<and> rv_state r = reservation_state settled) (cd_reservations db)))"

text \<open>A monetary reservation accounts for the usage of its request.\<close>

definition accounted :: "string option \<Rightarrow> consumption_db \<Rightarrow> bool" where
  "accounted request db = (\<exists>r\<in>set (cd_reservations db). Some (rv_reservation_id r) = request \<and>
     ((rv_state r = ''reserved'' \<and> rv_usd_exposure r \<noteq> None) \<or> (rv_state r = ''settled'' \<and> rv_settled_usd_cost r \<noteq> None)))"

definition unaccounted_usage :: "datetime \<Rightarrow> datetime \<Rightarrow> consumption_db \<Rightarrow> usage_event list" where
  "unaccounted_usage start until db = filter (\<lambda>e. ue_operation e = ''responses.create'' \<and> ue_stage e = ''response'' \<and>
     ue_outcome e = ''success'' \<and> start \<le> ue_occurred_at e \<and> ue_occurred_at e < until \<and>
     ue_availability e = Some ''complete'' \<and> \<not> accounted (ue_request_id e) db) (cd_usage db)"

text \<open>\<^verbatim>\<open>DISTINCT ON (request_id) ... ORDER BY request_id, occurred_at DESC\<close>, the earliest row on a tie.\<close>

fun latest_event :: "usage_event \<Rightarrow> usage_event list \<Rightarrow> usage_event" where
  "latest_event e [] = e"
| "latest_event e (x # xs) = latest_event (if ue_occurred_at e < ue_occurred_at x then x else e) xs"

definition latest_per_request :: "usage_event list \<Rightarrow> usage_event list" where
  "latest_per_request es = map (\<lambda>k. let mine = filter (\<lambda>e. ue_request_id e = k) es in latest_event (hd mine) (tl mine))
     (remdups (map ue_request_id es))"

definition legacy_usage :: "datetime \<Rightarrow> datetime \<Rightarrow> consumption_db \<Rightarrow> dec" where
  "legacy_usage start until db = sum_usd (map ue_billed_usd (latest_per_request (unaccounted_usage start until db)))"

definition incident_remaining :: "string option \<Rightarrow> int option \<Rightarrow> datetime \<Rightarrow> consumption_db \<Rightarrow> int option" where
  "incident_remaining incident limit period db =
     (case (limit, incident) of (Some n, Some i) \<Rightarrow>
        Some (n - incident_sum rv_settled_tokens i period True db - incident_sum rv_token_exposure i period False db)
      | _ \<Rightarrow> None)"

definition monthly_remaining :: "dec option \<Rightarrow> datetime \<Rightarrow> datetime \<Rightarrow> consumption_db \<Rightarrow> dec option outcome" where
  "monthly_remaining limit period following db =
     (case limit of None \<Rightarrow> Inr None
      | Some l \<Rightarrow>
          and_then (dec_sub default_prec l (legacy_usage period following db)) (\<lambda>a.
          and_then (dec_sub default_prec a (period_sum rv_settled_usd_cost period True db)) (\<lambda>b.
          and_then (dec_sub default_prec b (period_sum rv_usd_exposure period False db)) (\<lambda>c. Inr (Some c)))))"

section \<open>Admission\<close>

definition deny_reason :: "int option \<Rightarrow> dec option \<Rightarrow> string" where
  "deny_reason incident monthly =
     (if incident \<noteq> None \<and> monthly = None then ''incident_limit_exceeded''
      else if monthly \<noteq> None \<and> incident = None then ''monthly_limit_exceeded''
      else if (case monthly of None \<Rightarrow> False | Some d \<Rightarrow> dec_le d (Dec False 0 0)) then ''monthly_limit_exceeded''
      else if incident \<noteq> None then ''incident_limit_exceeded'' else ''monthly_limit_exceeded'')"

definition refusal :: "int \<Rightarrow> string \<Rightarrow> bool \<Rightarrow> admission_result" where
  "refusal version reason retryable = \<lparr>ad_allowed = False, ad_max_output_tokens = None, ad_policy_version = version,
     ad_reservation_id = None, ad_denial_reason = Some reason, ad_retryable = retryable\<rparr>"

text \<open>\<^verbatim>\<open>value or Decimal(0)\<close>.\<close>

definition or_zero :: "dec option \<Rightarrow> dec" where
  "or_zero v = (case v of None \<Rightarrow> Dec False 0 0 | Some d \<Rightarrow> if dc_coeff d = 0 then Dec False 0 0 else d)"

definition usd_exposure_of :: "affordability_envelope \<Rightarrow> endpoint_metadata \<Rightarrow> dec outcome" where
  "usd_exposure_of env e =
     and_then (dec_add default_prec (or_zero (av_conservative_input_cost_usd env)) (or_zero (av_request_fee_usd env))) (\<lambda>fixed.
     and_then (dec_mul default_prec (dec_of_int (av_max_output_tokens env)) (or_zero (em_completion_price e))) (\<lambda>output.
     dec_add default_prec fixed output))"

definition reserve ::
  "limit_policy \<Rightarrow> affordability_envelope \<Rightarrow> endpoint_metadata \<Rightarrow> string \<Rightarrow> string option \<Rightarrow> datetime \<Rightarrow> string \<Rightarrow> string \<Rightarrow> datetime \<Rightarrow>
     consumption_db \<Rightarrow> (admission_result \<times> consumption_db) outcome" where
  "reserve p env e rid incident period model provider now db =
     and_then (usd_exposure_of env e) (\<lambda>usd.
     case create_reservation rid incident period (lp_version p) model provider
         (if lp_incident_token_limit p \<noteq> None then Some (av_conservative_input_tokens env + av_max_output_tokens env) else None)
         (if lp_monthly_usd_limit p \<noteq> None then Some usd else None) now db of
       Inl x \<Rightarrow> if x = IntegrityError fk_reservation then Inr (refusal (lp_version p) ''resource_not_found'' False, db) else Inl x
     | Inr db' \<Rightarrow> Inr (\<lparr>ad_allowed = True, ad_max_output_tokens = Some (av_max_output_tokens env),
           ad_policy_version = lp_version p, ad_reservation_id = Some rid, ad_denial_reason = None, ad_retryable = False\<rparr>, db'))"

definition admit ::
  "(string \<Rightarrow> string) \<Rightarrow> (string \<Rightarrow> endpoint_catalog_snapshot option) \<Rightarrow> string \<Rightarrow> string option \<Rightarrow> string \<Rightarrow> string \<Rightarrow>
     datetime \<Rightarrow> int option \<Rightarrow> consumption_db \<Rightarrow> (admission_result \<times> consumption_db) outcome" where
  "admit casefold fetch rid incident model provider now input_tokens db =
     (case cd_policy db of None \<Rightarrow> Inr (refusal 0 ''policy_unavailable'' True, db)
      | Some p \<Rightarrow>
          if lp_incident_token_limit p = None \<and> lp_monthly_usd_limit p = None
          then Inr (\<lparr>ad_allowed = True, ad_max_output_tokens = None, ad_policy_version = lp_version p,
                     ad_reservation_id = None, ad_denial_reason = None, ad_retryable = False\<rparr>, db)
          else let unavailable = (refusal (lp_version p) ''consumption_bounds_unavailable'' False, db);
                   period = fst (month_bounds now)
            in case fetch model of None \<Rightarrow> Inr unavailable
            | Some snap \<Rightarrow>
                let check_at = (if now < cs_observed_at snap then cs_observed_at snap else now)
                in case select_endpoint casefold snap provider check_at of None \<Rightarrow> Inr unavailable
                | Some e \<Rightarrow>
                    let incident_left = incident_remaining incident (lp_incident_token_limit p) period db
                    in and_then (monthly_remaining (lp_monthly_usd_limit p) period (snd (month_bounds now)) db) (\<lambda>monthly_left.
                       if lp_monthly_usd_limit p \<noteq> None \<and>
                          (em_prompt_price e = None \<or> em_completion_price e = None \<or> em_request_price e = None)
                       then Inr unavailable
                       else case calculate_affordability casefold snap provider incident_left monthly_left check_at input_tokens of
                         Inl AffordabilityDenied \<Rightarrow> Inr (refusal (lp_version p) (deny_reason incident_left monthly_left) False, db)
                       | Inl (Uncaught x) \<Rightarrow> Inl x
                       | Inr env \<Rightarrow> reserve p env e rid incident period model provider now db))"

definition settle_reservation ::
  "string \<Rightarrow> int \<Rightarrow> dec option \<Rightarrow> consumption_db \<Rightarrow> (consumption_reservation \<times> consumption_db) outcome" where
  "settle_reservation rid tokens cost db =
     (case select_one (\<lambda>r. rv_reservation_id r = rid) (cd_reservations db) of
        None \<Rightarrow> Inl (ValueError ''unknown reservation'')
      | Some r \<Rightarrow>
          if rv_state r = ''settled'' then Inr (r, db)
          else and_then (raise_if (tokens < 0) (ValueError ''settled tokens must be nonnegative'')) (\<lambda>_.
               and_then (raise_if (MAX_BIGINT < tokens) (DataError ''settled_tokens'')) (\<lambda>_.
               and_then (to_numeric_opt 56 36 cost) (\<lambda>stored.
               and_then (raise_if (case stored of None \<Rightarrow> False | Some d \<Rightarrow> dec_less d (Dec False 0 0)) (IntegrityError ''check'')) (\<lambda>_.
               let row = r\<lparr>rv_settled_tokens := Some tokens, rv_settled_usd_cost := stored, rv_state := ''settled''\<rparr>
               in Inr (row, db\<lparr>cd_reservations := update_where (\<lambda>x. rv_reservation_id x = rid) (\<lambda>_. row) (cd_reservations db)\<rparr>))))))"

section \<open>What an admission does\<close>

definition new_reservation ::
  "limit_policy \<Rightarrow> affordability_envelope \<Rightarrow> string \<Rightarrow> string option \<Rightarrow> datetime \<Rightarrow> string \<Rightarrow> string \<Rightarrow> dec option \<Rightarrow> datetime \<Rightarrow>
     consumption_reservation" where
  "new_reservation p env rid incident period model provider stored now =
     \<lparr>rv_reservation_id = rid, rv_incident_id = incident, rv_period_start = period, rv_policy_version = lp_version p,
      rv_model = model, rv_provider = provider,
      rv_token_exposure = (if lp_incident_token_limit p \<noteq> None then Some (av_conservative_input_tokens env + av_max_output_tokens env) else None),
      rv_usd_exposure = stored, rv_settled_tokens = None, rv_settled_usd_cost = None, rv_state = ''reserved'', rv_created_at = now\<rparr>"

lemma insert_reservation_Inr:
  assumes "insert_reservation r db = Inr db'"
  shows "db' = db\<lparr>cd_reservations := cd_reservations db @ [r]\<rparr>" and "rv_reservation_id r \<notin> rv_reservation_id ` set (cd_reservations db)"
  using assms by (auto simp: insert_reservation_def outcome_simps)

lemma reserve_Inr:
  assumes "reserve p env e rid incident period model provider now db = Inr (res, db')"
  obtains (refused) "\<not> ad_allowed res" and "db' = db"
  | (reserved) usd stored where "ad_allowed res" and "ad_max_output_tokens res = Some (av_max_output_tokens env)"
      and "ad_reservation_id res = Some rid" and "usd_exposure_of env e = Inr usd"
      and "bounded_usd (if lp_monthly_usd_limit p \<noteq> None then Some usd else None) = Inr (if lp_monthly_usd_limit p \<noteq> None then Some usd else None)"
      and "to_numeric_opt 56 36 (if lp_monthly_usd_limit p \<noteq> None then Some usd else None) = Inr stored"
      and "rid \<notin> rv_reservation_id ` set (cd_reservations db)"
      and "db' = db\<lparr>cd_reservations := cd_reservations db @ [new_reservation p env rid incident period model provider stored now]\<rparr>"
proof -
  obtain usd where usd: "usd_exposure_of env e = Inr usd" using assms by (auto simp: reserve_def outcome_simps)
  let ?create = "create_reservation rid incident period (lp_version p) model provider
         (if lp_incident_token_limit p \<noteq> None then Some (av_conservative_input_tokens env + av_max_output_tokens env) else None)
         (if lp_monthly_usd_limit p \<noteq> None then Some usd else None) now db"
  show thesis
  proof (cases ?create)
    case (Inl x)
    then have "\<not> ad_allowed res" "db' = db"
      using assms unfolding reserve_def usd and_then_simps Inl by (auto simp: refusal_def split: if_splits)
    then show thesis by (rule refused)
  next
    case (Inr db1)
    then have res: "ad_allowed res" "ad_max_output_tokens res = Some (av_max_output_tokens env)" "ad_reservation_id res = Some rid" "db' = db1"
      using assms unfolding reserve_def usd and_then_simps by auto
    from Inr obtain stored where bound: "bounded_usd (if lp_monthly_usd_limit p \<noteq> None then Some usd else None) =
        Inr (if lp_monthly_usd_limit p \<noteq> None then Some usd else None)"
      and num: "to_numeric_opt 56 36 (if lp_monthly_usd_limit p \<noteq> None then Some usd else None) = Inr stored"
      and ins: "insert_reservation (new_reservation p env rid incident period model provider stored now) db = Inr db1"
      unfolding create_reservation_def new_reservation_def
      by (auto simp: outcome_simps utc_month_def bounded_usd_def Let_def split: if_splits option.splits)
    have "rv_reservation_id (new_reservation p env rid incident period model provider stored now) = rid" by (simp add: new_reservation_def)
    with reserved [OF res(1-3) usd bound num] res(4) insert_reservation_Inr [OF ins] show thesis by simp
  qed
qed

definition judged_at :: "datetime \<Rightarrow> endpoint_catalog_snapshot \<Rightarrow> datetime" where
  "judged_at now snap = (if now < cs_observed_at snap then cs_observed_at snap else now)"

lemma admit_Inr:
  assumes "admit casefold fetch rid incident model provider now input_tokens db = Inr (res, db')"
  obtains (refused) "\<not> ad_allowed res" and "db' = db"
  | (unlimited) p where "cd_policy db = Some p" and "lp_incident_token_limit p = None" and "lp_monthly_usd_limit p = None"
      and "ad_allowed res" and "db' = db"
  | (reserved) p snap e env monthly usd stored where "cd_policy db = Some p" and "fetch model = Some snap"
      and "select_endpoint casefold snap provider (judged_at now snap) = Some e"
      and "monthly_remaining (lp_monthly_usd_limit p) (fst (month_bounds now)) (snd (month_bounds now)) db = Inr monthly"
      and "calculate_affordability casefold snap provider
        (incident_remaining incident (lp_incident_token_limit p) (fst (month_bounds now)) db) monthly (judged_at now snap) input_tokens = Inr env"
      and "ad_allowed res" and "ad_max_output_tokens res = Some (av_max_output_tokens env)" and "ad_reservation_id res = Some rid"
      and "usd_exposure_of env e = Inr usd"
      and "bounded_usd (if lp_monthly_usd_limit p \<noteq> None then Some usd else None) = Inr (if lp_monthly_usd_limit p \<noteq> None then Some usd else None)"
      and "to_numeric_opt 56 36 (if lp_monthly_usd_limit p \<noteq> None then Some usd else None) = Inr stored"
      and "rid \<notin> rv_reservation_id ` set (cd_reservations db)"
      and "db' = db\<lparr>cd_reservations := cd_reservations db @
        [new_reservation p env rid incident (fst (month_bounds now)) model provider stored now]\<rparr>"
proof (cases "cd_policy db")
  case None
  then show thesis using assms by (intro refused) (auto simp: admit_def refusal_def)
next
  case (Some p)
  note pol = Some
  show thesis
  proof (cases "lp_incident_token_limit p = None \<and> lp_monthly_usd_limit p = None")
    case True
    then show thesis using assms Some by (intro unlimited [of p]) (auto simp: admit_def)
  next
    case limited: False
    show thesis
    proof (cases "fetch model")
      case None
      then show thesis using assms pol limited by (intro refused) (auto simp: admit_def refusal_def Let_def)
    next
      case (Some snap)
      note fetched = Some
      show thesis
      proof (cases "select_endpoint casefold snap provider (judged_at now snap)")
        case None
        then show thesis using assms pol limited fetched
          by (intro refused) (auto simp: admit_def refusal_def Let_def judged_at_def)
      next
        case (Some e)
        let ?left = "incident_remaining incident (lp_incident_token_limit p) (fst (month_bounds now)) db"
        have step: "and_then (monthly_remaining (lp_monthly_usd_limit p) (fst (month_bounds now)) (snd (month_bounds now)) db) (\<lambda>monthly.
           if lp_monthly_usd_limit p \<noteq> None \<and> (em_prompt_price e = None \<or> em_completion_price e = None \<or> em_request_price e = None)
           then Inr (refusal (lp_version p) ''consumption_bounds_unavailable'' False, db)
           else case calculate_affordability casefold snap provider ?left monthly (judged_at now snap) input_tokens of
                  Inl AffordabilityDenied \<Rightarrow> Inr (refusal (lp_version p) (deny_reason ?left monthly) False, db)
                | Inl (Uncaught x) \<Rightarrow> Inl x
                | Inr env \<Rightarrow> reserve p env e rid incident (fst (month_bounds now)) model provider now db) = Inr (res, db')"
          using assms pol limited fetched Some unfolding admit_def judged_at_def by (simp add: Let_def)
        then obtain monthly where m: "monthly_remaining (lp_monthly_usd_limit p) (fst (month_bounds now)) (snd (month_bounds now)) db = Inr monthly"
          unfolding and_then_Inr_iff by blast
        show thesis
        proof (cases "calculate_affordability casefold snap provider ?left monthly (judged_at now snap) input_tokens")
          case (Inl x)
          have "\<not> ad_allowed res \<and> db' = db"
            using step m Inl by (cases x) (auto simp: refusal_def split: if_splits)
          then show thesis by (intro refused) simp_all
        next
          case (Inr env)
          let ?unpriced = "lp_monthly_usd_limit p \<noteq> None \<and> (em_prompt_price e = None \<or> em_completion_price e = None \<or> em_request_price e = None)"
          have r: "(if ?unpriced then Inr (refusal (lp_version p) ''consumption_bounds_unavailable'' False, db)
              else reserve p env e rid incident (fst (month_bounds now)) model provider now db) = Inr (res, db')"
            using step by (simp only: m Inr and_then_simps sum.case)
          show thesis
          proof (cases ?unpriced)
            case True
            show thesis by (rule refused) (use r [unfolded if_P [OF True]] in \<open>auto simp: refusal_def\<close>)
          next
            case False
            have "reserve p env e rid incident (fst (month_bounds now)) model provider now db = Inr (res, db')"
              using r by (simp only: if_not_P [OF False])
            then show thesis
              by (cases rule: reserve_Inr) (use refused reserved [OF pol fetched Some m Inr] in blast)+
          qed
        qed
      qed
    qed
  qed
qed

section \<open>The incident's tokens\<close>

definition tokens_used :: "string \<Rightarrow> datetime \<Rightarrow> consumption_db \<Rightarrow> int" where
  "tokens_used incident period db =
     incident_sum rv_settled_tokens incident period True db + incident_sum rv_token_exposure incident period False db"

text \<open>What one row counts for.\<close>

definition row_tokens :: "consumption_reservation \<Rightarrow> int" where
  "row_tokens r = (case (if rv_state r = ''settled'' then rv_settled_tokens r else if rv_state r = ''reserved'' then rv_token_exposure r else None)
     of None \<Rightarrow> 0 | Some n \<Rightarrow> n)"

lemma sum_tokens_Cons [simp]: "sum_tokens (v # vs) = (case v of None \<Rightarrow> 0 | Some n \<Rightarrow> n) + sum_tokens vs"
  by (simp add: sum_tokens_def split: option.splits)

lemma sum_tokens_Nil [simp]: "sum_tokens [] = 0"
  by (simp add: sum_tokens_def)

lemma tokens_used_rows:
  "tokens_used incident period db =
     (\<Sum>r\<leftarrow>filter (\<lambda>r. rv_incident_id r = Some incident \<and> rv_period_start r = period) (cd_reservations db). row_tokens r)"
proof -
  have "sum_tokens (map rv_settled_tokens (filter (\<lambda>r. rv_incident_id r = Some incident \<and> rv_period_start r = period \<and> rv_state r = ''settled'') rs)) +
      sum_tokens (map rv_token_exposure (filter (\<lambda>r. rv_incident_id r = Some incident \<and> rv_period_start r = period \<and> rv_state r = ''reserved'') rs)) =
      (\<Sum>r\<leftarrow>filter (\<lambda>r. rv_incident_id r = Some incident \<and> rv_period_start r = period) rs. row_tokens r)" for rs
    by (induction rs) (auto simp: row_tokens_def)
  then show ?thesis by (simp add: tokens_used_def incident_sum_def reservation_state_def)
qed

section \<open>The month's dollars\<close>

definition usd_used :: "datetime \<Rightarrow> consumption_db \<Rightarrow> rat" where
  "usd_used period db = dec_value (period_sum rv_settled_usd_cost period True db) + dec_value (period_sum rv_usd_exposure period False db)"

definition row_usd :: "consumption_reservation \<Rightarrow> rat" where
  "row_usd r = (case (if rv_state r = ''settled'' then rv_settled_usd_cost r else if rv_state r = ''reserved'' then rv_usd_exposure r else None)
     of None \<Rightarrow> 0 | Some d \<Rightarrow> dec_value d)"

lemma foldl_dec_sum: "dec_value (foldl dec_sum a ds) = dec_value a + sum_list (map dec_value ds)"
  by (induction ds arbitrary: a) (simp_all add: dec_value_sum)

lemma sum_usd_value: "dec_value (sum_usd vs) = (\<Sum>v\<leftarrow>vs. case v of None \<Rightarrow> 0 | Some d \<Rightarrow> dec_value d)"
  unfolding sum_usd_def foldl_dec_sum by (induction vs) (auto split: option.splits)

lemma usd_used_rows:
  "usd_used period db = (\<Sum>r\<leftarrow>filter (\<lambda>r. rv_period_start r = period) (cd_reservations db). row_usd r)"
proof -
  have "dec_value (sum_usd (map rv_settled_usd_cost (filter (\<lambda>r. rv_period_start r = period \<and> rv_state r = ''settled'') rs))) +
      dec_value (sum_usd (map rv_usd_exposure (filter (\<lambda>r. rv_period_start r = period \<and> rv_state r = ''reserved'') rs))) =
      (\<Sum>r\<leftarrow>filter (\<lambda>r. rv_period_start r = period) rs. row_usd r)" for rs
    by (induction rs) (auto simp: row_usd_def sum_usd_value)
  then show ?thesis by (simp add: usd_used_def period_sum_def reservation_state_def)
qed

section \<open>Rounding\<close>

text \<open>
  The default context rounds to 28 digits, so a sum or product is off by at most a unit in the 28th.
  Amounts are nonnegative and no finer than a context holds: a \<^verbatim>\<open>NUMERIC(56, 36)\<close> column has 36
  decimals, a catalog price at most 128.
\<close>

definition fine :: "dec \<Rightarrow> bool" where
  "fine d = (- dec_emax \<le> dc_exp d)"

definition money :: "dec \<Rightarrow> bool" where
  "money d = (0 \<le> dec_value d \<and> fine d)"

definition near :: "rat \<Rightarrow> rat \<Rightarrow> bool" where
  "near y x = (\<bar>y - x\<bar> * 10 ^ 27 \<le> \<bar>x\<bar>)"

definition holdable :: "dec \<Rightarrow> bool" where
  "holdable d = (- dec_emax - int default_prec + 1 \<le> dc_exp d)"

lemma fine_holdable [intro]: "fine d \<Longrightarrow> holdable d"
  by (simp add: fine_def holdable_def default_prec_def)

lemma fix_near: "dec_fix default_prec d = Inr d' \<Longrightarrow> holdable d \<Longrightarrow> near (dec_value d') (dec_value d) \<and> holdable d'"
  using fix_error [of default_prec d d'] by (simp add: near_def holdable_def default_prec_def)

lemma add_near:
  "dec_add default_prec a b = Inr c \<Longrightarrow> holdable a \<Longrightarrow> holdable b \<Longrightarrow> near (dec_value c) (dec_value a + dec_value b) \<and> holdable c"
  using fix_near [of "dec_sum a b" c] by (simp add: dec_add_def dec_value_sum) (simp add: holdable_def dec_sum_def Let_def)

lemma sub_near:
  "dec_sub default_prec a b = Inr c \<Longrightarrow> holdable a \<Longrightarrow> holdable b \<Longrightarrow> near (dec_value c) (dec_value a - dec_value b) \<and> holdable c"
  using add_near [of a "copy_negate b" c] by (simp add: dec_sub_def) (simp add: holdable_def copy_negate_def)

lemma times_near:
  "dec_mul default_prec (dec_of_int n) b = Inr c \<Longrightarrow> holdable b \<Longrightarrow> near (dec_value c) (of_int n * dec_value b) \<and> holdable c"
  using fix_near [of "dec_product (dec_of_int n) b" c]
  by (simp add: dec_mul_def dec_value_product) (simp add: holdable_def dec_product_def dec_of_int_def)

lemma near_nonneg: "near y x \<Longrightarrow> 0 \<le> y \<Longrightarrow> 0 \<le> x"
  by (cases "0 \<le> x") (auto simp: near_def)

lemma near_above: "near y x \<Longrightarrow> 0 \<le> x \<Longrightarrow> y * 10 ^ 27 \<le> x * (10 ^ 27 + 1) \<and> 0 \<le> y"
  by (auto simp: near_def abs_if split: if_splits)

text \<open>Three subtractions that leave something nonnegative overstate it by a few units in the 27th digit of the limit.\<close>

lemma remaining_near:
  assumes "near a (l - x)" and "near b (a - y)" and "near c (b - z)" and "0 \<le> c" and "0 \<le> x" "0 \<le> y" "0 \<le> z"
  shows "c * 10 ^ 27 \<le> (l - x - y - z) * 10 ^ 27 + 7 * l" and "0 \<le> l"
proof -
  have c: "0 \<le> b - z" "c * 10 ^ 27 \<le> (b - z) * (10 ^ 27 + 1)" using near_nonneg [OF assms(3,4)] near_above [OF assms(3)] by simp_all
  have b: "0 \<le> a - y" "b * 10 ^ 27 \<le> (a - y) * (10 ^ 27 + 1)"
    using near_nonneg [OF assms(2)] near_above [OF assms(2)] c(1) assms(7) by simp_all
  have a: "0 \<le> l - x" "a * 10 ^ 27 \<le> (l - x) * (10 ^ 27 + 1)"
    using near_nonneg [OF assms(1)] near_above [OF assms(1)] b(1) assms(6) by simp_all
  show "c * 10 ^ 27 \<le> (l - x - y - z) * 10 ^ 27 + 7 * l" using a b c assms(5-7) by simp
  show "0 \<le> l" using a(1) assms(5) by simp
qed

lemma exposure_near:
  assumes "near f (u + v)" and "near q w" and "near t (f + q)" and "0 \<le> u" "0 \<le> v" "0 \<le> w"
  shows "t * 10 ^ 27 \<le> (u + v + w) * (10 ^ 27 + 3)" and "0 \<le> t"
proof -
  have f: "f * 10 ^ 27 \<le> (u + v) * (10 ^ 27 + 1)" "0 \<le> f" using near_above [OF assms(1)] assms(4,5) by simp_all
  have q: "q * 10 ^ 27 \<le> w * (10 ^ 27 + 1)" "0 \<le> q" using near_above [OF assms(2,6)] by simp_all
  have t: "t * 10 ^ 27 \<le> (f + q) * (10 ^ 27 + 1)" "0 \<le> t" using near_above [OF assms(3)] f(2) q(2) by simp_all
  show "t * 10 ^ 27 \<le> (u + v + w) * (10 ^ 27 + 3)" "0 \<le> t" using f q t assms(4-6) by simp_all
qed

lemma admitted_near:
  assumes "c * 10 ^ 27 \<le> (l - spent) * 10 ^ 27 + 7 * l" and "t * 10 ^ 27 \<le> cost * (10 ^ 27 + 3)" and "cost \<le> c" and "0 \<le> spent" "0 \<le> l"
  shows "(spent + t) * 10 ^ 25 \<le> l * (10 ^ 25 + (1 :: rat))"
  using assms by simp

lemma at_scale_value: "- int k \<le> dc_exp d \<Longrightarrow> dec_value (at_scale k d) = dec_value d"
proof -
  assume a: "- int k \<le> dc_exp d"
  have "(10 :: rat) powi dc_exp d = 10 ^ nat (dc_exp d + int k) * 10 powi (- int k)"
  proof -
    have "(10 :: rat) powi dc_exp d = 10 powi (dc_exp d + int k) * 10 powi (- int k)" by (simp add: power_int_add [symmetric])
    then show ?thesis using a by (simp add: power_int_def)
  qed
  with a show ?thesis by (auto simp: at_scale_def dec_value_def Let_def)
qed

lemma to_numeric_exact:
  assumes "to_numeric_opt 56 36 (Some d) = Inr v" and "bounded_usd (Some d) = Inr w"
  obtains x where "v = Some x" and "dec_value x = dec_value d" and "money x"
proof -
  have v: "v = Some (at_scale 36 d)" using assms(1) by (auto simp: to_numeric_opt_def to_numeric_def Let_def outcome_simps split: if_splits)
  have d: "- 36 \<le> dc_exp d" "0 \<le> dec_value d" using assms(2) by (auto simp: bounded_usd_def dec_less_def Let_def split: if_splits)
  then have "dec_value (at_scale 36 d) = dec_value d" by (intro at_scale_value) simp
  moreover from this have "money (at_scale 36 d)" using d by (simp add: money_def) (simp add: fine_def at_scale_def Let_def dec_emax_def)
  ultimately show thesis using that v by blast
qed

section \<open>The month's account\<close>

abbreviation money_opt :: "dec option \<Rightarrow> bool" where
  "money_opt v \<equiv> (\<forall>d. v = Some d \<longrightarrow> money d)"

definition amounts_ok :: "consumption_db \<Rightarrow> bool" where
  "amounts_ok db = ((\<forall>r\<in>set (cd_reservations db). money_opt (rv_usd_exposure r) \<and> money_opt (rv_settled_usd_cost r)) \<and>
     (\<forall>e\<in>set (cd_usage db). money_opt (ue_billed_usd e)))"

lemma sum_usd_money: "list_all money_opt vs \<Longrightarrow> money (sum_usd vs)"
proof -
  have fold: "money (foldl dec_sum a ds)" if "money a" "list_all money ds" for a ds
    using that
  proof (induction ds arbitrary: a)
    case (Cons d ds)
    have "money (dec_sum a d)" using Cons.prems by (simp add: money_def dec_value_sum) (simp add: fine_def dec_sum_def Let_def)
    with Cons show ?case by simp
  qed simp
  have zero: "money (Dec False 0 0)" by (simp add: money_def fine_def dec_emax_def)
  assume "list_all money_opt vs"
  then show ?thesis unfolding sum_usd_def by (intro fold zero) (auto simp: list_all_iff)
qed

lemma latest_event_in: "latest_event e xs \<in> insert e (set xs)"
proof (induction xs arbitrary: e)
  case (Cons x xs)
  show ?case using Cons.IH [of "if ue_occurred_at e < ue_occurred_at x then x else e"] by (auto split: if_splits)
qed simp

lemma latest_per_request_subset: "set (latest_per_request es) \<subseteq> set es"
proof
  fix x assume "x \<in> set (latest_per_request es)"
  then obtain e where e: "e \<in> set es"
      "x = latest_event (hd (filter (\<lambda>y. ue_request_id y = ue_request_id e) es)) (tl (filter (\<lambda>y. ue_request_id y = ue_request_id e) es))"
    by (auto simp: latest_per_request_def Let_def)
  then have "filter (\<lambda>y. ue_request_id y = ue_request_id e) es \<noteq> []" by (auto simp: filter_empty_conv)
  then have "x \<in> set (filter (\<lambda>y. ue_request_id y = ue_request_id e) es)"
    unfolding e(2) using latest_event_in by (metis list.exhaust_sel list.simps(15))
  then show "x \<in> set es" by simp
qed

lemma amounts_money:
  assumes "amounts_ok db"
  shows "money (legacy_usage start until db)" "money (period_sum rv_settled_usd_cost period True db)" "money (period_sum rv_usd_exposure period False db)"
proof -
  have "set (latest_per_request (unaccounted_usage start until db)) \<subseteq> set (cd_usage db)"
    using latest_per_request_subset by (force simp: unaccounted_usage_def)
  then show "money (legacy_usage start until db)"
    unfolding legacy_usage_def using assms by (intro sum_usd_money) (auto simp: amounts_ok_def list_all_iff)
  show "money (period_sum rv_settled_usd_cost period True db)" "money (period_sum rv_usd_exposure period False db)"
    using assms unfolding period_sum_def by (auto intro!: sum_usd_money simp: list_all_iff amounts_ok_def)
qed

lemma remaining_value:
  assumes "monthly_remaining (Some l) period following db = Inr left" and "amounts_ok db" and "fine l"
  obtains r where "left = Some r" and "0 \<le> dec_value r \<Longrightarrow> dec_value r * 10 ^ 27 \<le>
      (dec_value l - (dec_value (legacy_usage period following db) + usd_used period db)) * 10 ^ 27 + 7 * dec_value l \<and> 0 \<le> dec_value l"
proof -
  let ?g = "legacy_usage period following db" and ?s = "period_sum rv_settled_usd_cost period True db"
  let ?o = "period_sum rv_usd_exposure period False db"
  have m: "money ?g" "money ?s" "money ?o" using amounts_money [OF assms(2)] by blast+
  obtain a b c where abc: "dec_sub default_prec l ?g = Inr a" "dec_sub default_prec a ?s = Inr b"
      "dec_sub default_prec b ?o = Inr c" "left = Some c"
    using assms(1) by (auto simp: monthly_remaining_def outcome_simps)
  have h: "holdable l" "holdable ?g" "holdable ?s" "holdable ?o" using m assms(3) by (auto simp: money_def)
  note a = sub_near [OF abc(1) h(1,2)]
  note b = sub_near [OF abc(2) conjunct2 [OF a] h(3)]
  note c = sub_near [OF abc(3) conjunct2 [OF b] h(4)]
  have "dec_value c * 10 ^ 27 \<le> (dec_value l - dec_value ?g - dec_value ?s - dec_value ?o) * 10 ^ 27 + 7 * dec_value l \<and> 0 \<le> dec_value l"
    if "0 \<le> dec_value c"
    using remaining_near [OF conjunct1 [OF a] conjunct1 [OF b] conjunct1 [OF c] that] m by (simp add: money_def)
  then show thesis by (intro that [OF abc(4)]) (simp add: usd_used_def algebra_simps)
qed

lemma or_zero_value: "dec_value (or_zero (Some d)) = dec_value d"
  by (auto simp: or_zero_def) (simp add: dec_value_def)

lemma or_zero_holdable: "holdable d \<Longrightarrow> holdable (or_zero (Some d))"
  by (auto simp: or_zero_def holdable_def default_prec_def dec_emax_def)

lemma exposure_value:
  assumes "usd_exposure_of env e = Inr usd" and "0 \<le> av_max_output_tokens env"
    and "av_conservative_input_cost_usd env = Some cost" and "av_request_fee_usd env = Some fee" and "em_completion_price e = Some price"
    and "money cost" and "money fee" and "money price"
  shows "dec_value usd * 10 ^ 27 \<le> (dec_value cost + dec_value fee + of_int (av_max_output_tokens env) * dec_value price) * (10 ^ 27 + 3)"
proof -
  let ?n = "av_max_output_tokens env" and ?p = "or_zero (Some price)"
  obtain f q where fq: "dec_add default_prec (or_zero (Some cost)) (or_zero (Some fee)) = Inr f"
      "dec_mul default_prec (dec_of_int ?n) ?p = Inr q" "dec_add default_prec f q = Inr usd"
    using assms(1,3-5) by (auto simp: usd_exposure_of_def outcome_simps)
  have h: "holdable (or_zero (Some cost))" "holdable (or_zero (Some fee))" "holdable ?p"
    using assms(6-8) by (auto simp: money_def intro: or_zero_holdable)
  note f = add_near [OF fq(1) h(1,2)] and q = times_near [OF fq(2) h(3)]
  note t = add_near [OF fq(3) conjunct2 [OF f] conjunct2 [OF q]]
  show ?thesis
    using exposure_near(1) [OF conjunct1 [OF f] conjunct1 [OF q] conjunct1 [OF t]] assms(2,6-8) by (simp add: or_zero_value money_def)
qed

lemma admit_usd:
  assumes "admit casefold fetch rid incident model provider now input_tokens db = Inr (res, db')" and "ad_allowed res"
    and "cd_policy db = Some p" and "lp_monthly_usd_limit p = Some limit" and "fine limit" and "amounts_ok db"
    and "period = fst (month_bounds now)" and "following = snd (month_bounds now)"
  shows "(dec_value (legacy_usage period following db) + usd_used period db') * 10 ^ 25 \<le> dec_value limit * (10 ^ 25 + 1) \<and> amounts_ok db'"
  using assms(1)
proof (cases rule: admit_Inr)
  case (reserved p' snap e env monthly usd stored)
  have p: "p' = p" using reserved(1) assms(3) by simp
  note lim = assms(4) [folded p]
  let ?spent = "dec_value (legacy_usage period following db) + usd_used period db"
  obtain left where left: "monthly = Some left" and room: "0 \<le> dec_value left \<Longrightarrow> dec_value left * 10 ^ 27 \<le>
      (dec_value limit - ?spent) * 10 ^ 27 + 7 * dec_value limit \<and> 0 \<le> dec_value limit"
    using reserved(4) [unfolded lim, folded assms(7,8)] assms(5,6) by (auto elim: remaining_value)
  note calc = calculate_Inr [OF reserved(5,3)]
  let ?in = "av_conservative_input_tokens env" and ?out = "av_max_output_tokens env"
  obtain cost where cost: "av_conservative_input_cost_usd env = Some cost" "dec_value cost = of_int ?in * dec_value (the (em_prompt_price e))"
      "dc_exp cost = dc_exp (the (em_prompt_price e))" "av_request_fee_usd env = em_request_price e"
    using calc(4) left by auto
  have out: "0 < ?out" and pays: "pays e ?in left ?out"
    using calc(2) left by (simp_all add: within_limits_def)
  obtain pp cp rf where pr: "em_prompt_price e = Some pp" "em_completion_price e = Some cp" "em_request_price e = Some rf"
    using pays by (auto simp: pays_def fair_price_def split: option.splits)
  have fair: "money pp" "money cp" "money rf"
    using pays by (auto simp: pays_def pr fair_price_def money_def fine_def bounded_decimal_def dec_emax_def)
  have mc: "money cost" using fair(1) cost(2,3) calc(3) by (simp add: money_def fine_def pr)
  let ?cost = "dec_value cost + dec_value rf + of_int ?out * dec_value cp"
  have pos: "0 \<le> ?cost" using mc fair out by (simp add: money_def)
  have fits: "?cost \<le> dec_value left" using pays by (simp add: pays_def pr cost(2))
  with room pos have room': "dec_value left * 10 ^ 27 \<le> (dec_value limit - ?spent) * 10 ^ 27 + 7 * dec_value limit" "0 \<le> dec_value limit"
    by auto
  have usd: "dec_value usd * 10 ^ 27 \<le> ?cost * (10 ^ 27 + 3)"
    by (rule exposure_value [OF reserved(9)]) (use out cost(1,4) pr mc fair in simp_all)
  obtain x where x: "stored = Some x" "dec_value x = dec_value usd" "money x"
    using reserved(10,11) lim by (auto elim: to_numeric_exact)
  have used: "usd_used period db' = usd_used period db + dec_value usd"
    by (simp add: usd_used_rows reserved(13) new_reservation_def row_usd_def x assms(7))
  have "0 \<le> ?spent"
    using amounts_money [OF assms(6), of period] by (simp add: usd_used_def money_def)
  with admitted_near [OF room'(1) usd fits _ room'(2)]
  have "(dec_value (legacy_usage period following db) + usd_used period db') * 10 ^ 25 \<le> dec_value limit * (10 ^ 25 + 1)"
    by (simp add: used algebra_simps)
  moreover have "amounts_ok db'"
    using assms(6) x by (auto simp: amounts_ok_def reserved(13) new_reservation_def)
  ultimately show ?thesis by blast
qed (use assms(2-4) in simp_all)

section \<open>Sequences of calls\<close>

text \<open>By how many tokens the settled reports of an incident's calls exceed what the calls had reserved.\<close>

definition row_overrun :: "consumption_reservation \<Rightarrow> int" where
  "row_overrun r = (if rv_state r = ''settled''
     then max 0 (row_tokens r - (case rv_token_exposure r of None \<Rightarrow> 0 | Some n \<Rightarrow> n)) else 0)"

definition tokens_overrun :: "string \<Rightarrow> datetime \<Rightarrow> consumption_db \<Rightarrow> int" where
  "tokens_overrun incident period db =
     (\<Sum>r\<leftarrow>filter (\<lambda>r. rv_incident_id r = Some incident \<and> rv_period_start r = period) (cd_reservations db). row_overrun r)"

text \<open>The policy in force gives an incident at most \<open>n\<close> tokens, or does not limit incidents.\<close>

definition gives_at_most :: "int \<Rightarrow> limit_policy option \<Rightarrow> bool" where
  "gives_at_most n policy = (\<forall>p l. policy = Some p \<longrightarrow> lp_incident_token_limit p = Some l \<longrightarrow> l \<le> n)"

text \<open>
  Admissions with any catalog, settlements with any report, audit records, new incidents and
  replacements of the policy by another that gives at most \<open>n\<close>, in any order.
\<close>

inductive spending :: "int \<Rightarrow> consumption_db \<Rightarrow> consumption_db \<Rightarrow> bool" for n where
  start: "spending n db db"
| admitted: "spending n db0 db \<Longrightarrow> admit casefold fetch rid incident model provider now input_tokens db = Inr (res, db') \<Longrightarrow>
    spending n db0 db'"
| settled: "spending n db0 db \<Longrightarrow> settle_reservation rid tokens cost db = Inr (row, db') \<Longrightarrow> spending n db0 db'"
| audited: "spending n db0 db \<Longrightarrow> spending n db0 (db\<lparr>cd_usage := cd_usage db @ [e]\<rparr>)"
| opened: "spending n db0 db \<Longrightarrow> spending n db0 (db\<lparr>cd_incidents := is\<rparr>)"
| replaced: "spending n db0 db \<Longrightarrow> gives_at_most n policy \<Longrightarrow> spending n db0 (db\<lparr>cd_policy := policy\<rparr>)"

text \<open>The table's primary key and the check constraint on its state.\<close>

definition ledger_rows :: "consumption_db \<Rightarrow> bool" where
  "ledger_rows db = (distinct (map rv_reservation_id (cd_reservations db)) \<and>
     (\<forall>r\<in>set (cd_reservations db). rv_state r = ''reserved'' \<or> rv_state r = ''settled''))"

lemma overrun_nonneg: "0 \<le> tokens_overrun incident period db"
  unfolding tokens_overrun_def by (rule sum_list_nonneg) (auto simp: row_overrun_def)

definition settled_row :: "int \<Rightarrow> dec option \<Rightarrow> consumption_reservation \<Rightarrow> consumption_reservation" where
  "settled_row tokens stored r = r\<lparr>rv_settled_tokens := Some tokens, rv_settled_usd_cost := stored, rv_state := ''settled''\<rparr>"

lemma settle_Inr:
  assumes "settle_reservation rid tokens cost db = Inr (row, db')" and "distinct (map rv_reservation_id (cd_reservations db))"
  obtains (before) "db' = db"
  | (now) r stored where "r \<in> set (cd_reservations db)" and "rv_reservation_id r = rid" and "rv_state r \<noteq> ''settled''"
      and "to_numeric_opt 56 36 cost = Inr stored" and "0 \<le> tokens"
      and "db' = db\<lparr>cd_reservations := map (\<lambda>x. if x = r then settled_row tokens stored r else x) (cd_reservations db)\<rparr>"
proof -
  obtain r where sel: "select_one (\<lambda>r. rv_reservation_id r = rid) (cd_reservations db) = Some r"
    using assms(1) by (auto simp: settle_reservation_def split: option.splits)
  then have r: "r \<in> set (cd_reservations db)" "rv_reservation_id r = rid" using select_one_Some [OF sel] by simp_all
  have only: "x = r" if "x \<in> set (cd_reservations db)" "rv_reservation_id x = rid" for x
    using that r assms(2) by (auto simp: distinct_map dest: inj_onD)
  show thesis
  proof (cases "rv_state r = ''settled''")
    case True
    then show thesis using assms(1) sel by (intro before) (simp add: settle_reservation_def)
  next
    case False
    obtain stored where st: "to_numeric_opt 56 36 cost = Inr stored" "0 \<le> tokens"
        "db' = db\<lparr>cd_reservations := update_where (\<lambda>x. rv_reservation_id x = rid) (\<lambda>_. settled_row tokens stored r) (cd_reservations db)\<rparr>"
      using assms(1) unfolding settle_reservation_def sel option.case if_not_P [OF False] and_then_Inr_iff raise_if_Inr_iff Let_def
        settled_row_def [symmetric] by (elim exE conjE) auto
    moreover have "update_where (\<lambda>x. rv_reservation_id x = rid) (\<lambda>_. settled_row tokens stored r) (cd_reservations db) =
        map (\<lambda>x. if x = r then settled_row tokens stored r else x) (cd_reservations db)"
      unfolding update_where_def
    proof (rule map_cong [OF refl])
      fix x assume "x \<in> set (cd_reservations db)"
      then show "(if rv_reservation_id x = rid then settled_row tokens stored r else x) = (if x = r then settled_row tokens stored r else x)"
        using only [of x] r(2) by (cases "rv_reservation_id x = rid") auto
    qed
    ultimately show thesis using now [OF r False] by simp
  qed
qed

lemma settled_row_simps [simp]:
  "rv_reservation_id (settled_row t c r) = rv_reservation_id r" "rv_incident_id (settled_row t c r) = rv_incident_id r"
  "rv_period_start (settled_row t c r) = rv_period_start r" "rv_token_exposure (settled_row t c r) = rv_token_exposure r"
  "rv_usd_exposure (settled_row t c r) = rv_usd_exposure r" "rv_state (settled_row t c r) = ''settled''"
  "row_tokens (settled_row t c r) = t" "rv_settled_usd_cost (settled_row t c r) = c" "rv_settled_tokens (settled_row t c r) = Some t"
  by (simp_all add: settled_row_def row_tokens_def)

text \<open>A total over some rows does not grow when one row comes to count for less.\<close>

lemma total_replaced:
  assumes "P s = P r" and "f s \<le> f r"
  shows "(\<Sum>x\<leftarrow>filter P (map (\<lambda>x. if x = r then s else x) rs). f x) \<le> (\<Sum>x\<leftarrow>filter P rs. f x :: 'a :: {ordered_ab_group_add, comm_monoid_add})"
  using assms by (induction rs) (auto intro: add_mono)

lemma ids_replaced:
  assumes "rv_reservation_id s = rv_reservation_id r"
  shows "map rv_reservation_id (map (\<lambda>x. if x = r then s else x) rs) = map rv_reservation_id rs"
  using assms by simp

text \<open>What an incident has used within its reservations.\<close>

definition committed :: "string \<Rightarrow> datetime \<Rightarrow> consumption_db \<Rightarrow> int" where
  "committed incident period db = (\<Sum>r\<leftarrow>filter (\<lambda>r. rv_incident_id r = Some incident \<and> rv_period_start r = period)
     (cd_reservations db). row_tokens r - row_overrun r)"

lemma used_committed: "tokens_used incident period db = committed incident period db + tokens_overrun incident period db"
  by (simp add: tokens_used_rows committed_def tokens_overrun_def sum_list_subtractf)

lemma spending_step:
  assumes "spending n db0 db" and "gives_at_most n (cd_policy db0)" and "ledger_rows db0"
  shows "gives_at_most n (cd_policy db) \<and> ledger_rows db \<and> (\<forall>i period. committed i period db \<le> max n (committed i period db0))"
  using assms
proof (induction rule: spending.induct)
  case (admitted db0 db casefold fetch rid incident model provider now input_tokens res db')
  then have ih: "gives_at_most n (cd_policy db)" "ledger_rows db" "\<And>i period. committed i period db \<le> max n (committed i period db0)"
    by blast+
  from admitted.hyps(2) show ?case
  proof (cases rule: admit_Inr)
    case (reserved p snap e env monthly usd stored)
    let ?month = "fst (month_bounds now)"
    let ?new = "new_reservation p env rid incident ?month model provider stored now"
    have grown: "committed i period db' = committed i period db + (if incident = Some i \<and> ?month = period \<and> lp_incident_token_limit p \<noteq> None
        then av_conservative_input_tokens env + av_max_output_tokens env else 0)" for i period
      by (simp add: committed_def reserved(13) new_reservation_def row_tokens_def row_overrun_def)
    have "committed i period db' \<le> max n (committed i period db0)" for i period
    proof (cases "incident = Some i \<and> ?month = period \<and> lp_incident_token_limit p \<noteq> None")
      case True
      then obtain l where l: "lp_incident_token_limit p = Some l" by auto
      have "av_conservative_input_tokens env + av_max_output_tokens env \<le> l - tokens_used i period db"
        using calculate_Inr(2) [OF reserved(5,3)] True by (simp add: within_limits_def incident_remaining_def l tokens_used_def)
      moreover have "l \<le> n" using ih(1) reserved(1) l by (simp add: gives_at_most_def)
      ultimately show ?thesis using True overrun_nonneg [of i period db] by (simp add: grown used_committed)
    qed (use ih(3) grown in auto)
    moreover have "gives_at_most n (cd_policy db')" using ih(1) by (simp add: reserved(13))
    moreover have "ledger_rows db'" using ih(2) reserved(12) by (auto simp: ledger_rows_def reserved(13) new_reservation_def)
    ultimately show ?thesis by blast
  qed (use ih in simp_all)
next
  case (settled db0 db rid tokens cost row db')
  then have ih: "gives_at_most n (cd_policy db)" "ledger_rows db" "\<And>i period. committed i period db \<le> max n (committed i period db0)"
    by blast+
  then have "distinct (map rv_reservation_id (cd_reservations db))" by (simp add: ledger_rows_def)
  with settled.hyps(2) show ?case
  proof (cases rule: settle_Inr)
    case (now r stored)
    let ?s = "settled_row tokens stored r"
    have "rv_state r = ''reserved''" using ih(2) now(1,3) by (auto simp: ledger_rows_def)
    then have "row_tokens ?s - row_overrun ?s \<le> row_tokens r - row_overrun r"
      by (simp add: row_overrun_def) (simp add: row_tokens_def)
    then have "committed i period db' \<le> committed i period db" for i period
      unfolding committed_def now(6) by (simp add: total_replaced)
    then have "committed i period db' \<le> max n (committed i period db0)" for i period by (rule order_trans) (rule ih(3))
    moreover have "ledger_rows db'"
      using ih(2) ids_replaced [of ?s r "cd_reservations db"] by (auto simp: ledger_rows_def now(6) simp del: map_map)
    moreover have "gives_at_most n (cd_policy db')" using ih(1) by (simp add: now(6))
    ultimately show ?thesis by blast
  qed (use ih in simp)
qed (simp_all add: committed_def ledger_rows_def)

section \<open>The properties\<close>

text \<open>An example: a policy of a thousand tokens and ten cents, and a call that is admitted.\<close>

definition example_policy :: limit_policy where
  "example_policy = \<lparr>lp_version = 1, lp_incident_token_limit = Some 1000,
     lp_monthly_usd_limit = Some (Dec False 100000000000 (- 12)), lp_updated_at = sample_time\<rparr>"

definition example_ledger :: consumption_db where
  "example_ledger = \<lparr>cd_policy = Some example_policy, cd_reservations = [], cd_usage = [], cd_incidents = [''inc_1'']\<rparr>"

lemmas decimal_eval = dec_add_def dec_mul_def dec_sub_def dec_sum_def dec_product_def dec_of_int_def copy_negate_def signed_def dec_fix_def
  dec_emax_def default_prec_def dc_adjusted_def digits_step Let_def exact_sum_def exact_difference_def exact_add_subtract_def
  token_cost_def int_str_def digits_def [symmetric]

lemma example_costs:
  "token_cost (Dec False 1 (- 3)) 20 = Inr (Dec False 20 (- 3))"
  "exact_sum (Dec False 20 (- 3)) (Dec False 0 0) = Inr (Dec False 20 (- 3))"
  "exact_difference (Dec False 100000000000 (- 12)) (Dec False 20 (- 3)) = Inr (Dec False 80000000000 (- 12))"
  "dec_sub default_prec (Dec False 100000000000 (- 12)) (Dec False 0 0) = Inr (Dec False 100000000000 (- 12))"
  "dec_add default_prec (Dec False 20 (- 3)) (Dec False 0 0) = Inr (Dec False 20 (- 3))"
  "dec_mul default_prec (dec_of_int 40) (Dec False 2 (- 3)) = Inr (Dec False 80 (- 3))"
  "dec_add default_prec (Dec False 20 (- 3)) (Dec False 80 (- 3)) = Inr (Dec False 100 (- 3))"
  by (simp_all add: decimal_eval)

lemma dec_value_trillionths: "dec_value (Dec False n (- 12)) = of_nat n / 1000000000000"
  by (simp add: dec_value_def power_int_minus inverse_eq_divide)

lemma example_search: "affordable_output_tokens (Dec False 80000000000 (- 12)) (Dec False 2 (- 3)) 100 = Inr 40"
proof -
  obtain n where n: "search_tokens (Dec False 80000000000 (- 12)) (Dec False 2 (- 3)) 0 100 = Inr n" "0 \<le> n" "n \<le> 100"
      "of_int n * dec_value (Dec False 2 (- 3)) \<le> dec_value (Dec False 80000000000 (- 12))"
      "\<forall>m. m \<le> 100 \<and> of_int m * dec_value (Dec False 2 (- 3)) \<le> dec_value (Dec False 80000000000 (- 12)) \<longrightarrow> m \<le> n"
    by (rule search_tokens_greatest [of "Dec False 2 (- 3)" 0 100 "Dec False 80000000000 (- 12)"])
       (simp_all add: bounded_decimal_def digits_step MAX_ENDPOINT_TOKENS_def dec_value_thousandths dec_value_trillionths)
  have "of_int n \<le> (of_int 40 :: rat)" using n(4) by (simp add: dec_value_thousandths dec_value_trillionths)
  moreover have "40 \<le> n" using n(5) [rule_format, of 40] by (simp add: dec_value_thousandths dec_value_trillionths)
  ultimately show ?thesis using n(1) by (simp add: affordable_output_tokens_def)
qed

lemma example_ceiling: "monthly_ceiling example_endpoint 20 (Dec False 100000000000 (- 12)) 100 = Inr (40, Dec False 20 (- 3), Dec False 0 0)"
proof -
  have "required_price (em_prompt_price example_endpoint) = Inr (Dec False 1 (- 3))"
      "required_price (em_completion_price example_endpoint) = Inr (Dec False 2 (- 3))"
      "required_price (em_request_price example_endpoint) = Inr (Dec False 0 0)" "em_max_completion_tokens example_endpoint = 100"
    by (simp_all add: example_endpoint_def required_price_def dec_less_def dec_value_thousandths bounded_decimal_def digits_step)
  then show ?thesis
    by (simp add: monthly_ceiling_def example_costs example_search dec_less_def dec_value_thousandths dec_value_trillionths
        del: One_nat_def)
qed

definition example_envelope :: affordability_envelope where
  "example_envelope = \<lparr>av_model = ''acme/m1'', av_provider = ''acme'', av_max_output_tokens = 40, av_conservative_input_tokens = 20,
     av_conservative_input_cost_usd = Some (Dec False 20 (- 3)), av_request_fee_usd = Some (Dec False 0 0)\<rparr>"

lemma example_calculated:
  "calculate_affordability (\<lambda>s. s) example_snapshot ''acme'' (Some 1000) (Some (Dec False 100000000000 (- 12))) sample_time (Some 20) =
     Inr example_envelope"
proof -
  have v: "validate_endpoint example_endpoint (cs_model example_snapshot) sample_time"
    using sample_minute by (simp add: validate_endpoint_def example_endpoint_def example_snapshot_def blank_iff py_space_def
        utf8_rest_def utf8_lead_def MAX_ENDPOINT_TOKENS_def)
  have r: "validate_remaining (Some 1000) (Some (Dec False 100000000000 (- 12)))"
    by (simp add: validate_remaining_def dec_less_def dec_value_trillionths bounded_decimal_def digits_step MAX_ENDPOINT_TOKENS_def)
  have f: "em_max_prompt_tokens example_endpoint = 1000" "em_max_completion_tokens example_endpoint = 100"
      "em_context_length example_endpoint = None" "em_model example_endpoint = ''acme/m1''" "em_provider example_endpoint = ''acme''"
    by (simp_all add: example_endpoint_def)
  show ?thesis
    by (simp add: calculate_affordability_def example_selected v r f opt_min_def example_ceiling example_envelope_def MAX_ENDPOINT_TOKENS_def)
qed

lemma example_admitted:
  obtains res db' where "admit (\<lambda>s. s) (\<lambda>_. Some example_snapshot) ''req_1'' (Some ''inc_1'') ''acme/m1'' ''acme'' sample_time (Some 20)
      example_ledger = Inr (res, db')" and "ad_max_output_tokens res = Some 40" and "ad_allowed res"
proof -
  have left: "incident_remaining (Some ''inc_1'') (Some 1000) period example_ledger = Some 1000"
      "monthly_remaining (Some (Dec False 100000000000 (- 12))) period following example_ledger = Inr (Some (Dec False 100000000000 (- 12)))"
    for period following
    by (simp_all add: incident_remaining_def monthly_remaining_def example_ledger_def incident_sum_def period_sum_def sum_usd_def
        legacy_usage_def latest_per_request_def unaccounted_usage_def example_costs)
  have now: "(if sample_time < cs_observed_at example_snapshot then cs_observed_at example_snapshot else sample_time) = sample_time"
    by (simp add: example_snapshot_def)
  have usd: "usd_exposure_of example_envelope example_endpoint = Inr (Dec False 100 (- 3))"
    by (simp add: usd_exposure_of_def example_envelope_def example_endpoint_def or_zero_def example_costs)
  have priced: "em_prompt_price example_endpoint \<noteq> None" "em_completion_price example_endpoint \<noteq> None" "em_request_price example_endpoint \<noteq> None"
    by (simp_all add: example_endpoint_def)
  have month: "utc_month (fst (month_bounds sample_time)) = Inr (fst (month_bounds sample_time))" by (simp add: utc_month_def month_bounds_def)
  have num: "to_numeric_opt 56 36 (Some (Dec False 100 (- 3))) = Inr (Some (Dec False (100 * 10 ^ 33) (- 36)))"
    by (simp add: to_numeric_opt_def to_numeric_def at_scale_def Let_def)
  have bound: "bounded_usd (Some (Dec False 100 (- 3))) = Inr (Some (Dec False 100 (- 3)))"
    by (simp add: bounded_usd_def dec_less_def dec_value_thousandths Let_def dc_adjusted_def digits_step)
  obtain db' where c: "create_reservation ''req_1'' (Some ''inc_1'') (fst (month_bounds sample_time)) 1 ''acme/m1'' ''acme'' (Some 60)
      (Some (Dec False 100 (- 3))) sample_time example_ledger = Inr db'" and "length (cd_reservations db') = 1"
    by (simp add: create_reservation_def month bound num insert_reservation_def fits_def fits_opt_def MAX_BIGINT_def example_ledger_def
        py_len_def utf8_rest_def utf8_lead_def)
  have p: "cd_policy example_ledger = Some example_policy" "lp_incident_token_limit example_policy = Some 1000"
      "lp_monthly_usd_limit example_policy = Some (Dec False 100000000000 (- 12))" "lp_version example_policy = 1"
      "av_conservative_input_tokens example_envelope = 20" "av_max_output_tokens example_envelope = 40"
    by (simp_all add: example_ledger_def example_policy_def example_envelope_def)
  have "admit (\<lambda>s. s) (\<lambda>_. Some example_snapshot) ''req_1'' (Some ''inc_1'') ''acme/m1'' ''acme'' sample_time (Some 20)
      example_ledger = Inr (\<lparr>ad_allowed = True, ad_max_output_tokens = Some 40, ad_policy_version = 1,
        ad_reservation_id = Some ''req_1'', ad_denial_reason = None, ad_retryable = False\<rparr>, db')"
    using c by (simp add: admit_def p Let_def now example_selected left priced example_calculated reserve_def usd)
  then show thesis by (rule that) (use \<open>length (cd_reservations db') = 1\<close> in simp_all)
qed

lemma example_settled:
  assumes "admit (\<lambda>s. s) (\<lambda>_. Some example_snapshot) ''req_1'' (Some ''inc_1'') ''acme/m1'' ''acme'' sample_time (Some 20)
      example_ledger = Inr (res, db)"
  obtains row db' where "settle_reservation ''req_1'' 1500 None db = Inr (row, db')"
proof -
  obtain r where r: "cd_reservations db = [r]" "rv_reservation_id r = ''req_1''" "rv_state r = ''reserved''"
    using assms
  proof (cases rule: admit_Inr)
    case (unlimited p)
    then show thesis by (auto simp: example_ledger_def example_policy_def)
  next
    case refused
    then show thesis using example_admitted assms by (metis Inr_inject prod.inject)
  qed (use that in \<open>simp add: example_ledger_def new_reservation_def\<close>)
  have "select_one (\<lambda>r. rv_reservation_id r = ''req_1'') (cd_reservations db) = Some r" by (simp add: r select_one_def)
  then show thesis by (intro that) (simp add: settle_reservation_def r MAX_BIGINT_def to_numeric_opt_def Let_def)
qed

text \<open>
  C17. An incident's calls never hold and settle more tokens of a month than its limit, except by what
  providers report beyond a call's reservation: after any admissions, settlements, audit records, new
  incidents and replacements of the policy by others that give at most \<open>n\<close> tokens, the tokens settled
  and still reserved exceed \<open>n\<close> at most by the settled excess over the reservations, when they do so at
  the start. Admission stops at the limit; a settlement is recorded as reported, whatever was reserved.
\<close>

theorem incident_limit_kept:
  assumes "spending n db0 db" and "gives_at_most n (cd_policy db0)" and "ledger_rows db0"
    and "tokens_used incident period db0 \<le> n + tokens_overrun incident period db0"
  shows "tokens_used incident period db \<le> n + tokens_overrun incident period db"
proof -
  have "committed incident period db \<le> max n (committed incident period db0)" using spending_step [OF assms(1-3)] by blast
  with assms(4) show ?thesis by (simp add: used_committed)
qed

theorem incident_limit_kept_witness:
  "\<exists>res db row db'. admit (\<lambda>s. s) (\<lambda>_. Some example_snapshot) ''req_1'' (Some ''inc_1'') ''acme/m1'' ''acme'' sample_time (Some 20)
      example_ledger = Inr (res, db) \<and> settle_reservation ''req_1'' 1500 None db = Inr (row, db') \<and>
      tokens_used ''inc_1'' (fst (month_bounds sample_time)) db' \<le> 1000 + tokens_overrun ''inc_1'' (fst (month_bounds sample_time)) db'"
proof -
  obtain res db where a: "admit (\<lambda>s. s) (\<lambda>_. Some example_snapshot) ''req_1'' (Some ''inc_1'') ''acme/m1'' ''acme'' sample_time (Some 20)
      example_ledger = Inr (res, db)" "ad_max_output_tokens res = Some 40" by (rule example_admitted)
  obtain row db' where s: "settle_reservation ''req_1'' 1500 None db = Inr (row, db')" by (rule example_settled [OF a(1)])
  have run: "spending 1000 example_ledger db'" by (rule spending.settled [OF spending.admitted [OF spending.start a(1)] s])
  have "tokens_used ''inc_1'' (fst (month_bounds sample_time)) db' \<le> 1000 + tokens_overrun ''inc_1'' (fst (month_bounds sample_time)) db'"
    by (rule incident_limit_kept [OF run])
       (simp_all add: example_ledger_def example_policy_def gives_at_most_def ledger_rows_def tokens_used_rows tokens_overrun_def)
  with a(1) s show ?thesis by blast
qed

text \<open>
  C18. A call is admitted under a monthly limit only when its worst cost still fits: in any ledger, after
  an admitted call the dollars of the month - the audited usage without a reservation, the settled costs
  and the reserved exposures of all incidents, the new call's included - are within the limit, up to one
  part in ten to the 25th, which is what the roundings of the decimal context to 28 digits can add. The
  amounts of the tables are nonnegative, and the new reservation's is so too. A settlement is recorded as
  reported and may exceed the limit; nothing is admitted from then on.
\<close>

theorem monthly_limit_kept:
  assumes "admit casefold fetch rid incident model provider now input_tokens db = Inr (res, db')" and "ad_allowed res"
    and "cd_policy db = Some p" and "lp_monthly_usd_limit p = Some limit" and "fine limit" and "amounts_ok db"
  shows "(dec_value (legacy_usage (fst (month_bounds now)) (snd (month_bounds now)) db) + usd_used (fst (month_bounds now)) db') * 10 ^ 25
      \<le> dec_value limit * (10 ^ 25 + 1) \<and> amounts_ok db'"
  using admit_usd [OF assms refl refl] by blast

theorem monthly_limit_kept_witness:
  "\<exists>res db. admit (\<lambda>s. s) (\<lambda>_. Some example_snapshot) ''req_1'' (Some ''inc_1'') ''acme/m1'' ''acme'' sample_time (Some 20)
      example_ledger = Inr (res, db) \<and> ad_max_output_tokens res = Some 40 \<and>
      (dec_value (legacy_usage (fst (month_bounds sample_time)) (snd (month_bounds sample_time)) example_ledger) +
        usd_used (fst (month_bounds sample_time)) db) * 10 ^ 25 \<le> 1 / 10 * (10 ^ 25 + 1)"
proof -
  obtain res db where a: "admit (\<lambda>s. s) (\<lambda>_. Some example_snapshot) ''req_1'' (Some ''inc_1'') ''acme/m1'' ''acme'' sample_time (Some 20)
      example_ledger = Inr (res, db)" "ad_max_output_tokens res = Some 40" "ad_allowed res" by (rule example_admitted)
  have "cd_policy example_ledger = Some example_policy" "lp_monthly_usd_limit example_policy = Some (Dec False 100000000000 (- 12))"
      "fine (Dec False 100000000000 (- 12))" "amounts_ok example_ledger"
    by (simp_all add: example_ledger_def example_policy_def fine_def dec_emax_def amounts_ok_def)
  from monthly_limit_kept [OF a(1,3) this] a(1,2) show ?thesis by (simp only: dec_value_trillionths) auto
qed

end
