(* ===== verification/Control.thy ===== *)
theory Control
  imports Identity Admission
begin

text \<open>
  The administrative control plane (\<^verbatim>\<open>control/service.py\<close>, \<^verbatim>\<open>control/scopes.py\<close>): principals,
  credentials and grants behind bearer authentication, exact grants, idempotency keys and an audit
  event per answered request (\<^verbatim>\<open>AuditProjector.control_event\<close>, the contract of \<^verbatim>\<open>AuditEvent\<close>).

  A handler takes the environment, what the request drew from clock and randomness, and the
  database; it returns the response, or the exception it lets through, and the database. The checks
  every handler starts with are the combinators \<open>governed\<close>, \<open>authenticated\<close> and \<open>permitted\<close>, which
  take the rest of the handler as their last argument.
\<close>

section \<open>Environment and database\<close>

text \<open>
  The parameters: scrypt, SHA-256 of a canonical payload, of an idempotency key, of a bundle and of
  a text, the audit HMAC
  (domain, value), the DTO library's reading of an aware timestamp (with its canonical text) and its
  rendering of a UTC timestamp.
\<close>

record control_env =
  ev_scrypt :: "string \<Rightarrow> string \<Rightarrow> string"
  ev_payload_sha256 :: "json \<Rightarrow> string"
  ev_key_digest :: "string \<Rightarrow> string"
  ev_bundle_sha256 :: "json \<Rightarrow> string"
  ev_text_sha256 :: "string \<Rightarrow> string"
  ev_reference :: "string \<Rightarrow> string \<Rightarrow> string"
  ev_aware :: "json \<Rightarrow> (datetime \<times> string) option"
  ev_iso :: "datetime \<Rightarrow> string"

text \<open>Per request: the clock, the request id, whether the audit store accepts writes, the key material.\<close>

record control_call =
  cl_now :: datetime
  cl_request_id :: string
  cl_store_up :: bool
  cl_draw :: "nat \<Rightarrow> key_draw"

record identity_evidence =
  ie_principal_ref :: string
  ie_principal_kind :: string
  ie_principal_status :: string
  ie_credential_ref :: string
  ie_authenticated_at :: datetime

datatype decision_evidence = AllowEvidence (de_grant_ref: string) | DenyEvidence

record audit_event =
  ae_occurred_at :: datetime
  ae_operation :: string
  ae_action :: string
  ae_stage :: string
  ae_outcome :: string
  ae_reason :: "string option"
  ae_cause :: "denial_cause option"
  ae_status :: int
  ae_retryable :: bool
  ae_request_id :: string
  ae_identity :: "identity_evidence option"
  ae_resource :: "(string \<times> string) option"
  ae_decision :: "decision_evidence option"

record control_db =
  cb_registry :: registry
  cb_credentials :: "credential_row list"
  cb_bindings :: "idempotency_row list"
  cb_policy :: "limit_policy option"
  cb_audit :: "audit_event list"

record control_response =
  hr_status :: int
  hr_body :: "json option"

section \<open>Audit events\<close>

definition AUDIT_OPERATIONS :: "string list" where
  "AUDIT_OPERATIONS = [''audit.accept'', ''audit.export'', ''audit.project'', ''audit.redact'', ''credentials.authenticate'',
     ''responses.create'', ''mcp.discovery'', ''mcp.invoke'', ''bok.search'', ''bok.read'', ''usage.read'',
     ''consumption_limits.get'', ''consumption_limits.replace'', ''principals.create'', ''principals.get'',
     ''principals.list'', ''principals.status.replace'', ''credentials.issue'', ''credentials.list'', ''credentials.revoke'',
     ''credentials.rotate'', ''grants.create'', ''grants.list'', ''grants.revoke'', ''aliases.create'', ''aliases.list'',
     ''aliases.get'', ''aliases.assignment.replace'', ''aliases.status.replace'', ''catalog.create'', ''catalog.list'',
     ''catalog.read'', ''catalog.status.replace'', ''skills.resolve'', ''mitigation.execute'']"

definition AUDIT_ACTIONS :: "string list" where
  "AUDIT_ACTIONS = [''authenticate'', ''export'', ''invoke'', ''persist'', ''read_metadata'', ''redact'', ''admin.read'',
     ''admin.write'']"

definition REASON_CODES :: "string list" where
  "REASON_CODES = [''audit_unavailable'', ''authentication_failed'', ''contract_validation_failed'', ''grant_matched'',
     ''no_matching_grant'', ''redaction_failed'', ''redaction_uncertain'', ''routing_unavailable'', ''resource_not_found'',
     ''status_conflict'', ''upstream_failed'', ''upstream_invalid'', ''upstream_unavailable'', ''incident_limit_exceeded'',
     ''monthly_limit_exceeded'', ''consumption_bounds_unavailable'', ''policy_unavailable'', ''index_unavailable'',
     ''storage_unavailable'']"

definition AUDIT_STAGES :: "string list" where
  "AUDIT_STAGES = [''validation'', ''authentication'', ''authorization'', ''routing'', ''upstream'', ''response'', ''audit'']"

text \<open>Who was decided about: the authenticated context, the resource and the engine's decision.\<close>

type_synonym subject = "principal_context \<times> (string \<times> string) \<times> policy_decision"

definition identity_of :: "control_env \<Rightarrow> principal_context \<Rightarrow> identity_evidence" where
  "identity_of env c = \<lparr>ie_principal_ref = ev_reference env ''principal'' (p_id (pc_principal c)),
     ie_principal_kind = p_kind (pc_principal c), ie_principal_status = p_status (pc_principal c),
     ie_credential_ref = ev_reference env ''credential'' (pc_credential_id c), ie_authenticated_at = pc_authenticated_at c\<rparr>"

definition decision_of :: "control_env \<Rightarrow> policy_decision \<Rightarrow> decision_evidence outcome" where
  "decision_of env d =
     (if pd_decision d = ''allow''
      then case pd_policy_id d of None \<Rightarrow> Inl (ValueError ''control allow requires a grant policy_id'')
           | Some g \<Rightarrow> Inr (AllowEvidence (ev_reference env ''grant'' g))
      else Inr DenyEvidence)"

text \<open>
  The contract of \<^verbatim>\<open>AuditEvent\<close> for events that carry no model routing, consumption or content, as
  every control event does, and the check of the table on denial causes.
\<close>

definition valid_event :: "audit_event \<Rightarrow> bool" where
  "valid_event e =
     (ae_operation e \<in> set AUDIT_OPERATIONS \<and> ae_action e \<in> set AUDIT_ACTIONS \<and>
      ae_stage e \<in> set AUDIT_STAGES \<and> ae_outcome e \<in> {''success'', ''denied'', ''error''} \<and>
      (case ae_reason e of None \<Rightarrow> True | Some r \<Rightarrow> r \<in> set REASON_CODES) \<and>
      100 \<le> ae_status e \<and> ae_status e \<le> 599 \<and>
      (case ae_identity e of None \<Rightarrow> True
        | Some i \<Rightarrow> ie_principal_kind i \<in> {''human'', ''agent''} \<and> ie_principal_status i \<in> {''active'', ''inactive''}) \<and>
      (case ae_resource e of None \<Rightarrow> True | Some (t, _) \<Rightarrow> t \<in> set RESOURCE_TYPES) \<and>
      (ae_stage e \<in> {''validation'', ''audit''} \<longrightarrow> ae_identity e = None \<and> ae_resource e = None \<and> ae_decision e = None) \<and>
      (ae_stage e \<in> {''authorization'', ''routing'', ''upstream'', ''response''} \<longrightarrow>
         (case ae_resource e of None \<Rightarrow> False
          | Some (t, _) \<Rightarrow> t \<in> {''administrative_control'', ''mcp_server'', ''mcp_tool'', ''skill'', ''bok_collection'', ''service_operation''} \<and>
              ae_identity e \<noteq> None)) \<and>
      (ae_cause e \<noteq> None \<longrightarrow> ae_stage e = ''authorization'' \<and> ae_outcome e = ''denied'' \<and>
         ae_reason e = Some ''no_matching_grant'' \<and> ae_decision e = Some DenyEvidence \<and>
         (ae_status e = 403 \<or> (ae_status e = 404 \<and> ae_action e = ''admin.read'' \<and>
            map_option fst (ae_resource e) = Some ''administrative_control''))))"

definition control_event ::
  "control_env \<Rightarrow> control_call \<Rightarrow> int \<Rightarrow> string \<Rightarrow> string \<times> string \<Rightarrow> string option \<Rightarrow> bool \<Rightarrow> subject option \<Rightarrow>
     denial_cause option \<Rightarrow> audit_event outcome" where
  "control_event env cl status stage op reason retryable who cause =
     and_then (case who of None \<Rightarrow> Inr None | Some (_, _, d) \<Rightarrow> and_then (decision_of env d) (\<lambda>x. Inr (Some x))) (\<lambda>decision.
     let denied = (decision = Some DenyEvidence);
         outcome = (if denied then ''denied'' else if status < 400 then ''success'' else ''error'');
         e = \<lparr>ae_occurred_at = cl_now cl, ae_operation = fst op, ae_action = snd op, ae_stage = stage, ae_outcome = outcome,
              ae_reason = (if outcome \<noteq> ''denied'' then reason else Some ''no_matching_grant''),
              ae_cause = (if stage = ''authorization'' \<and> status \<in> {403, 404} \<and> denied then cause else None),
              ae_status = status, ae_retryable = retryable, ae_request_id = cl_request_id cl,
              ae_identity = map_option (\<lambda>(c, _, _). identity_of env c) who,
              ae_resource = map_option (\<lambda>(_, r, _). (fst r, ev_reference env ''resource'' (fst r @ ''/'' @ snd r))) who,
              ae_decision = decision\<rparr>
     in if valid_event e then Inr e else Inl (ValueError ''AuditEvent''))"

section \<open>Answers\<close>

definition ERRORS :: "(int \<times> string \<times> string) list" where
  "ERRORS = [(400, ''invalid_idempotency_key'', ''The Idempotency-Key header is missing or invalid.''),
     (401, ''authentication_failed'', ''Authentication failed.''),
     (403, ''resource_unavailable'', ''Resource unavailable.''),
     (404, ''resource_not_found'', ''The requested resource was not found.''),
     (409, ''idempotency_conflict'', ''The Idempotency-Key was already used with another payload.''),
     (422, ''validation_error'', ''The request is invalid.''),
     (500, ''credential_issuance_failed'', ''Credential issuance could not be completed.''),
     (503, ''audit_unavailable'', ''Audit unavailable.'')]"

definition ERROR_MESSAGES :: "(string \<times> string) list" where
  "ERROR_MESSAGES = [(''policy_unavailable'', ''The consumption policy is unavailable.''),
     (''status_conflict'', ''The status was changed by another request.''),
     (''grant_conflict'', ''An active grant with this principal, action and resource already exists.''),
     (''grant_id_conflict'', ''A grant with this grant_id already exists, active or revoked.''),
     (''credential_inactive'', ''The credential is not active.''),
     (''credential_issuance_failed'', ''Credential issuance could not be completed.'')]"

definition AUDIT_REASONS :: "(string \<times> string) list" where
  "AUDIT_REASONS = [(''validation_error'', ''contract_validation_failed''),
     (''invalid_idempotency_key'', ''contract_validation_failed''), (''idempotency_conflict'', ''status_conflict''),
     (''grant_conflict'', ''status_conflict''), (''grant_id_conflict'', ''status_conflict''),
     (''credential_inactive'', ''contract_validation_failed''), (''rotation_failed'', ''upstream_failed''),
     (''credential_issuance_failed'', ''upstream_failed''), (''resource_unavailable'', ''no_matching_grant''),
     (''policy_unavailable'', ''upstream_unavailable'')]"

definition audit_reason :: "string \<Rightarrow> string" where
  "audit_reason code = (case map_of AUDIT_REASONS code of None \<Rightarrow> code | Some r \<Rightarrow> r)"

definition retryable_status :: "int \<Rightarrow> bool" where
  "retryable_status s = (s = 500 \<or> s = 503 \<or> s = 504)"

text \<open>What a handler passes to \<^verbatim>\<open>_finish\<close>.\<close>

record reply =
  rp_status :: int
  rp_stage :: string
  rp_payload :: "dict option"
  rp_error :: "string option"
  rp_subject :: "subject option"
  rp_cause :: "denial_cause option"

text \<open>The end of \<^verbatim>\<open>_finish\<close>: a payload, no content, or the error envelope.\<close>

definition respond :: "string \<Rightarrow> int \<Rightarrow> dict option \<Rightarrow> string option \<Rightarrow> control_response outcome" where
  "respond request_id status payload error =
     (if payload \<noteq> None \<and> status \<noteq> 204 then Inr \<lparr>hr_status = status, hr_body = map_option JObj payload\<rparr>
      else if status = 204 then Inr \<lparr>hr_status = 204, hr_body = None\<rparr>
      else case map_of ERRORS status of None \<Rightarrow> Inl (KeyError (int_str status))
      | Some (fallback, text) \<Rightarrow>
          let code = (case error of None \<Rightarrow> fallback | Some c \<Rightarrow> if c = [] then fallback else c);
              message = (case map_of ERROR_MESSAGES code of None \<Rightarrow> text | Some m \<Rightarrow> m);
              message = (if code = ''audit_unavailable'' then ''Audit unavailable.'' else message)
          in Inr \<lparr>hr_status = status, hr_body = Some (JObj (dict [
               (''error'', JObj (dict [(''code'', JStr code), (''message'', JStr message)])),
               (''request_id'', JStr request_id), (''retryable'', JBool (retryable_status status))]))\<rparr>)"

definition finish ::
  "control_env \<Rightarrow> control_call \<Rightarrow> string \<times> string \<Rightarrow> reply \<Rightarrow> audit_event list \<Rightarrow> control_response outcome \<times> audit_event list" where
  "finish env cl op r audit =
     (let decided = (rp_stage r = ''authorization'');
          stage = (if decided then ''authorization'' else ''audit'');
          who = (if decided then rp_subject r else None);
          cause = (if decided \<and> rp_status r \<in> {403, 404} then rp_cause r else None);
          event = control_event env cl (rp_status r) stage op (map_option audit_reason (rp_error r))
            (retryable_status (rp_status r)) who cause
      in case event of
           Inl e \<Rightarrow> (respond (cl_request_id cl) 503 None (Some ''audit_unavailable''), audit)
         | Inr e \<Rightarrow>
             if cl_store_up cl then (respond (cl_request_id cl) (rp_status r) (rp_payload r) (rp_error r), audit @ [e])
             else (respond (cl_request_id cl) 503 None (Some ''audit_unavailable''), audit))"

definition answer ::
  "control_env \<Rightarrow> control_call \<Rightarrow> string \<times> string \<Rightarrow> reply \<Rightarrow> control_db \<Rightarrow> control_response outcome \<times> control_db" where
  "answer env cl op r db =
     (case finish env cl op r (cb_audit db) of (res, audit) \<Rightarrow> (res, db\<lparr>cb_audit := audit\<rparr>))"

text \<open>
  The handlers that append their event inside the transaction: an event that is refused rolls the
  transaction back to \<open>before\<close>.
\<close>

definition answer_within ::
  "control_env \<Rightarrow> control_call \<Rightarrow> string \<times> string \<Rightarrow> reply \<Rightarrow> control_db \<Rightarrow> control_db \<Rightarrow> control_response outcome \<times> control_db" where
  "answer_within env cl op r before after =
     (case answer env cl op r after of
        (Inl e, _) \<Rightarrow> (Inl e, before)
      | (Inr res, db') \<Rightarrow> if hr_status res = 503 then (Inr res, before) else (Inr res, db'))"

text \<open>The replies that recur.\<close>

definition invalid_request :: "int \<Rightarrow> string \<Rightarrow> reply" where
  "invalid_request status code = \<lparr>rp_status = status, rp_stage = ''validation'', rp_payload = None, rp_error = Some code,
     rp_subject = None, rp_cause = None\<rparr>"

definition unauthenticated :: reply where
  "unauthenticated = \<lparr>rp_status = 401, rp_stage = ''authentication'', rp_payload = None, rp_error = Some ''authentication_failed'',
     rp_subject = None, rp_cause = None\<rparr>"

definition refused :: "subject \<Rightarrow> int \<Rightarrow> string \<Rightarrow> denial_cause option \<Rightarrow> reply" where
  "refused who status code cause = \<lparr>rp_status = status, rp_stage = ''authorization'', rp_payload = None, rp_error = Some code,
     rp_subject = Some who, rp_cause = cause\<rparr>"

definition granted :: "subject \<Rightarrow> int \<Rightarrow> dict option \<Rightarrow> string option \<Rightarrow> reply" where
  "granted who status payload error = \<lparr>rp_status = status, rp_stage = ''authorization'', rp_payload = payload, rp_error = error,
     rp_subject = Some who, rp_cause = None\<rparr>"

section \<open>Request bodies\<close>

text \<open>
  \<^verbatim>\<open>re.match\<close> with a pattern that ends in \<^verbatim>\<open>$\<close> also matches before a final line feed; the patterns of
  the request models match the whole text.
\<close>

definition matches_line :: "(string \<Rightarrow> bool) \<Rightarrow> string \<Rightarrow> bool" where
  "matches_line p s = (p s \<or> (s \<noteq> [] \<and> last s = CHR 0x0A \<and> p (butlast s)))"

definition invalid_key :: "string option \<Rightarrow> bool" where
  "invalid_key key = (case key of None \<Rightarrow> True
     | Some k \<Rightarrow> \<not> matches_line (class_run (\<lambda>c. CHR '' '' \<le> c \<and> c \<le> CHR ''~'') 16 128) k)"

definition text_of :: "json \<Rightarrow> (string \<Rightarrow> bool) \<Rightarrow> string option" where
  "text_of j p = (case j of JStr s \<Rightarrow> if p s then Some s else None | _ \<Rightarrow> None)"

definition sized :: "nat \<Rightarrow> nat \<Rightarrow> string \<Rightarrow> bool" where
  "sized lo hi s = (lo \<le> py_len s \<and> py_len s \<le> hi)"

record principal_create =
  pn_principal_id :: string
  pn_kind :: string
  pn_display_name :: string

definition read_principal_create :: "json \<Rightarrow> principal_create option" where
  "read_principal_create raw =
     (case raw of JObj d \<Rightarrow>
        if \<not> keys_exactly d [''principal_id'', ''kind'', ''display_name''] then None
        else (case (text_of (get d ''principal_id'') identifier_pattern,
                    text_of (get d ''kind'') (\<lambda>k. k = ''human'' \<or> k = ''agent''),
                    text_of (get d ''display_name'') (sized 1 200)) of
             (Some pid, Some kind, Some name) \<Rightarrow> Some \<lparr>pn_principal_id = pid, pn_kind = kind, pn_display_name = name\<rparr>
           | _ \<Rightarrow> None)
      | _ \<Rightarrow> None)"

definition principal_create_document :: "principal_create \<Rightarrow> json" where
  "principal_create_document b = JObj (dict [(''principal_id'', JStr (pn_principal_id b)), (''kind'', JStr (pn_kind b)),
     (''display_name'', JStr (pn_display_name b))])"

definition read_status_replace :: "control_env \<Rightarrow> json \<Rightarrow> (string \<times> datetime) option" where
  "read_status_replace env raw =
     (case raw of JObj d \<Rightarrow>
        if \<not> keys_exactly d [''status'', ''expected_updated_at''] then None
        else (case (text_of (get d ''status'') (\<lambda>s. s = ''active'' \<or> s = ''inactive''), ev_aware env (get d ''expected_updated_at'')) of
             (Some status, Some (t, _)) \<Rightarrow> Some (status, t)
           | _ \<Rightarrow> None)
      | _ \<Rightarrow> None)"

text \<open>\<^verbatim>\<open>CredentialIssue\<close>: no expiry, or a timestamp with the text it is dumped as.\<close>

definition read_credential_issue :: "control_env \<Rightarrow> json \<Rightarrow> (datetime \<times> string) option option" where
  "read_credential_issue env raw =
     (case raw of JObj d \<Rightarrow>
        if \<not> keys_within d [''expires_at''] then None
        else if get d ''expires_at'' = JNull then Some None
        else map_option Some (ev_aware env (get d ''expires_at''))
      | _ \<Rightarrow> None)"

definition expiry_text :: "(datetime \<times> string) option \<Rightarrow> json" where
  "expiry_text x = (case x of None \<Rightarrow> JNull | Some (_, s) \<Rightarrow> JStr s)"

record grant_create =
  gn_grant_id :: string
  gn_principal_id :: string
  gn_action :: string
  gn_resource_type :: string
  gn_resource_id :: string

definition read_grant_create :: "json \<Rightarrow> grant_create option" where
  "read_grant_create raw =
     (case raw of JObj d \<Rightarrow>
        if \<not> keys_exactly d [''grant_id'', ''principal_id'', ''action'', ''resource'', ''effect''] then None
        else (case (text_of (get d ''grant_id'') identifier_pattern, text_of (get d ''principal_id'') identifier_pattern,
                    text_of (get d ''action'') action_pattern, get d ''resource'', get d ''effect'') of
             (Some gid, Some pid, Some action, JObj r, JStr effect) \<Rightarrow>
               if effect \<noteq> ''allow'' \<or> \<not> keys_exactly r [''resource_type'', ''resource_id''] then None
               else (case (text_of (get r ''resource_type'') (\<lambda>t. t \<in> set RESOURCE_TYPES), text_of (get r ''resource_id'') (sized 1 200)) of
                    (Some t, Some rid) \<Rightarrow> Some \<lparr>gn_grant_id = gid, gn_principal_id = pid, gn_action = action,
                       gn_resource_type = t, gn_resource_id = rid\<rparr>
                  | _ \<Rightarrow> None)
           | _ \<Rightarrow> None)
      | _ \<Rightarrow> None)"

definition grant_create_document :: "grant_create \<Rightarrow> json" where
  "grant_create_document b = JObj (dict [(''grant_id'', JStr (gn_grant_id b)), (''principal_id'', JStr (gn_principal_id b)),
     (''action'', JStr (gn_action b)),
     (''resource'', JObj (dict [(''resource_type'', JStr (gn_resource_type b)), (''resource_id'', JStr (gn_resource_id b))])),
     (''effect'', JStr ''allow'')])"

text \<open>\<^verbatim>\<open>int(limit)\<close> and \<^verbatim>\<open>limit.isdigit()\<close> of the query; 0 stands for a refused limit.\<close>

definition parsed_limit :: "string \<Rightarrow> nat" where
  "parsed_limit s = (if s = [] then 0 else case decimal_value 0 (utf8_decode s) of None \<Rightarrow> 0 | Some n \<Rightarrow> n)"

definition limit_ok :: "nat \<Rightarrow> bool" where
  "limit_ok n = (1 \<le> n \<and> n \<le> 100)"

section \<open>Documents\<close>

definition principal_document :: "control_env \<Rightarrow> principal \<Rightarrow> dict" where
  "principal_document env p = dict [(''principal_id'', JStr (p_id p)), (''kind'', JStr (p_kind p)),
     (''display_name'', JStr (p_display_name p)), (''status'', JStr (p_status p)),
     (''created_at'', JStr (ev_iso env (p_created_at p))), (''updated_at'', JStr (ev_iso env (p_updated_at p)))]"

definition jtime :: "control_env \<Rightarrow> datetime option \<Rightarrow> json" where
  "jtime env t = (case t of None \<Rightarrow> JNull | Some x \<Rightarrow> JStr (ev_iso env x))"

definition credential_document :: "control_env \<Rightarrow> json \<Rightarrow> credential_reference \<Rightarrow> dict" where
  "credential_document env expires c = dict [(''credential_id'', JStr (ce_id c)), (''principal_id'', JStr (ce_principal_id c)),
     (''prefix'', JStr (ce_prefix c)), (''status'', JStr (ce_status c)), (''created_at'', JStr (ev_iso env (ce_created_at c))),
     (''expires_at'', expires), (''revoked_at'', jtime env (ce_revoked_at c))]"

abbreviation stored_credential_document :: "control_env \<Rightarrow> credential_reference \<Rightarrow> dict" where
  "stored_credential_document env c \<equiv> credential_document env (jtime env (ce_expires_at c)) c"

definition grant_document :: "control_env \<Rightarrow> grant \<Rightarrow> dict" where
  "grant_document env g = dict [(''grant_id'', JStr (g_id g)), (''principal_id'', JStr (g_principal_id g)),
     (''action'', JStr (g_action g)),
     (''resource'', JObj (dict [(''resource_type'', JStr (g_resource_type g)), (''resource_id'', JStr (g_resource_id g))])),
     (''effect'', JStr (g_effect g)), (''status'', JStr (g_status g)), (''created_at'', JStr (ev_iso env (g_created_at g)))]"

definition page_document :: "dict list \<Rightarrow> nat \<Rightarrow> bool \<Rightarrow> dict" where
  "page_document items limit truncated = dict [(''items'', JList (map JObj items)), (''limit'', JInt (int limit)),
     (''truncated'', JBool truncated)]"

section \<open>The checks every handler starts with\<close>

type_synonym handled = "control_response outcome \<times> control_db"

definition control_resource :: "string \<Rightarrow> string \<times> string" where
  "control_resource name = (''administrative_control'', name)"

definition denied :: "evaluation \<Rightarrow> bool" where
  "denied ev = (pd_decision (au_decision ev) = ''deny'')"

text \<open>\<^verbatim>\<open>authorize_governed_access\<close> and the answers to its two failures.\<close>

definition governed ::
  "control_env \<Rightarrow> control_call \<Rightarrow> string \<times> string \<Rightarrow> string option \<Rightarrow> string \<Rightarrow> control_db \<Rightarrow> (subject \<Rightarrow> handled) \<Rightarrow> handled" where
  "governed env cl op header name db k =
     (case authorize_governed_access (ev_scrypt env) header (snd op, control_resource name) (cl_now cl) (cb_registry db) (cb_credentials db) of
        Inl e \<Rightarrow> (Inl e, db)
      | Inr None \<Rightarrow> answer env cl op unauthenticated db
      | Inr (Some (c, ev)) \<Rightarrow>
          let who = (c, control_resource name, au_decision ev)
          in if denied ev then answer env cl op (refused who 403 ''resource_unavailable'' (au_denial_cause ev)) db else k who)"

text \<open>\<^verbatim>\<open>_authenticate\<close>, and \<^verbatim>\<open>_authorize\<close>, which reads the catalog rather than the owners.\<close>

definition authenticated ::
  "control_env \<Rightarrow> control_call \<Rightarrow> string \<times> string \<Rightarrow> string option \<Rightarrow> control_db \<Rightarrow> (principal_context \<Rightarrow> handled) \<Rightarrow> handled" where
  "authenticated env cl op header db k =
     (case authorization_context (ev_scrypt env) header (cl_now cl) (cb_registry db) (cb_credentials db) of
        Inl e \<Rightarrow> (Inl e, db)
      | Inr None \<Rightarrow> answer env cl op unauthenticated db
      | Inr (Some c) \<Rightarrow> k c)"

definition permitted ::
  "control_env \<Rightarrow> control_call \<Rightarrow> string \<times> string \<Rightarrow> int \<times> string \<Rightarrow> principal_context \<Rightarrow> string \<Rightarrow> control_db \<Rightarrow> (subject \<Rightarrow> handled) \<Rightarrow>
     handled" where
  "permitted env cl op denial c name db k =
     (case evaluate (resource_view (cb_registry db)) (find_active (cb_registry db)) (pc_principal c) (snd op)
         (fst (control_resource name)) (snd (control_resource name)) of
        Inl e \<Rightarrow> (Inl e, db)
      | Inr ev \<Rightarrow>
          let who = (c, control_resource name, au_decision ev)
          in if denied ev then answer env cl op (refused who (fst denial) (snd denial) (au_denial_cause ev)) db else k who)"

text \<open>A claim of the request's idempotency key; a conflict is the answer 409.\<close>

definition binding_scope :: "subject \<Rightarrow> string \<Rightarrow> string \<Rightarrow> string" where
  "binding_scope who verb path = p_id (pc_principal (fst who)) @ ''|'' @ verb @ ''|'' @ path"

definition claim_for ::
  "control_env \<Rightarrow> control_call \<Rightarrow> subject \<Rightarrow> string \<Rightarrow> string \<Rightarrow> string \<Rightarrow> string option \<Rightarrow> json \<Rightarrow> int \<Rightarrow> string \<Rightarrow> claim_request" where
  "claim_for env cl who verb path lifetime key payload status rid =
     \<lparr>cq_scope = binding_scope who verb path, cq_key_digest = ev_key_digest env (case key of None \<Rightarrow> [] | Some k \<Rightarrow> k),
      cq_payload_sha256 = ev_payload_sha256 env payload, cq_principal_id = p_id (pc_principal (fst who)), cq_method = verb,
      cq_canonical_path = path, cq_binding = lifetime,
      cq_outcome = \<lparr>io_response_status = status, io_resource_id = rid, io_replayed = False, io_response_payload = fmempty\<rparr>,
      cq_now = cl_now cl, cq_expires_at = None\<rparr>"

fun uncaught_binding :: "binding_error \<Rightarrow> py_error" where
  "uncaught_binding (IdempotencyConflictError s) = RuntimeError s"
| "uncaught_binding (LookupError s) = KeyError s"
| "uncaught_binding (Unbound e) = e"

definition claimed ::
  "control_env \<Rightarrow> control_call \<Rightarrow> string \<times> string \<Rightarrow> subject \<Rightarrow> claim_request \<Rightarrow> control_db \<Rightarrow>
     (idempotency_binding \<Rightarrow> idempotency_row list \<Rightarrow> handled) \<Rightarrow> handled" where
  "claimed env cl op who q db k =
     (case claim_or_replay q (cb_bindings db) of
        Inl (IdempotencyConflictError s) \<Rightarrow> answer env cl op (refused who 409 ''idempotency_conflict'' None) db
      | Inl e \<Rightarrow> (Inl (uncaught_binding e), db)
      | Inr (b, rows) \<Rightarrow> k b rows)"

section \<open>Principals\<close>

definition create_principal :: "control_env \<Rightarrow> control_call \<Rightarrow> json \<Rightarrow> string option \<Rightarrow> string option \<Rightarrow> control_db \<Rightarrow> handled" where
  "create_principal env cl raw header key db =
     (let op = (''principals.create'', ''admin.write'')
      in if invalid_key key then answer env cl op (invalid_request 400 ''invalid_idempotency_key'') db
         else case read_principal_create raw of None \<Rightarrow> answer env cl op (invalid_request 422 ''validation_error'') db
         | Some b \<Rightarrow>
             governed env cl op header ''principals'' db (\<lambda>who.
             claimed env cl op who (claim_for env cl who ''POST'' ''/v1/principals'' ''at_least_24h'' key
                 (principal_create_document b) 201 (pn_principal_id b)) db (\<lambda>binding rows.
             if ib_replayed binding
             then case get_principal_row (io_resource_id (ib_outcome binding)) (cb_registry db) of
                    Inl e \<Rightarrow> (Inl e, db)
                  | Inr found \<Rightarrow> answer env cl op (granted who (io_response_status (ib_outcome binding))
                      (map_option (principal_document env) found) None) (db\<lparr>cb_bindings := rows\<rparr>)
             else case create_principal_row (pn_principal_id b) (pn_kind b) (pn_display_name b) (cl_now cl) (cb_registry db) of
                    Inl e \<Rightarrow> answer env cl op (refused who 409 ''idempotency_conflict'' None) db
                  | Inr (p, reg) \<Rightarrow> answer env cl op (granted who 201 (Some (principal_document env p)) None)
                      (db\<lparr>cb_registry := reg, cb_bindings := rows\<rparr>))))"

definition list_principals :: "control_env \<Rightarrow> control_call \<Rightarrow> string option \<Rightarrow> string \<Rightarrow> bool \<Rightarrow> control_db \<Rightarrow> handled" where
  "list_principals env cl header limit extra db =
     (let op = (''principals.list'', ''admin.read''); n = parsed_limit limit
      in if extra \<or> \<not> limit_ok n then answer env cl op (invalid_request 422 ''validation_error'') db
         else governed env cl op header ''principals'' db (\<lambda>who.
           case list_principal_rows n (cb_registry db) of
             Inl e \<Rightarrow> (Inl e, db)
           | Inr (items, truncated) \<Rightarrow>
               answer env cl op (granted who 200 (Some (page_document (map (principal_document env) items) n truncated)) None) db))"

definition get_principal :: "control_env \<Rightarrow> control_call \<Rightarrow> string \<Rightarrow> string option \<Rightarrow> control_db \<Rightarrow> handled" where
  "get_principal env cl pid header db =
     (let op = (''principals.get'', ''admin.read'')
      in if \<not> matches_line identifier_pattern pid then answer env cl op (invalid_request 422 ''validation_error'') db
         else governed env cl op header ''principals'' db (\<lambda>who.
           case get_principal_row pid (cb_registry db) of
             Inl e \<Rightarrow> (Inl e, db)
           | Inr None \<Rightarrow> answer env cl op (refused who 404 ''resource_not_found'' None) db
           | Inr (Some p) \<Rightarrow> answer env cl op (granted who 200 (Some (principal_document env p)) None) db))"

definition replace_principal_status :: "control_env \<Rightarrow> control_call \<Rightarrow> string \<Rightarrow> json \<Rightarrow> string option \<Rightarrow> control_db \<Rightarrow> handled" where
  "replace_principal_status env cl pid raw header db =
     (let op = (''principals.status.replace'', ''admin.write'')
      in authenticated env cl op header db (\<lambda>c.
         if \<not> matches_line identifier_pattern pid then answer env cl op (invalid_request 422 ''validation_error'') db
         else case read_status_replace env raw of None \<Rightarrow> answer env cl op (invalid_request 422 ''validation_error'') db
         | Some (status, expected) \<Rightarrow>
             permitted env cl op (403, ''resource_unavailable'') c ''principals'' db (\<lambda>who.
             case replace_principal_row pid status expected (cl_now cl) (cb_registry db) of
               Inl e \<Rightarrow> (Inl e, db)
             | Inr (Inl stale, _) \<Rightarrow> answer env cl op (refused who 409 ''status_conflict'' None) db
             | Inr (Inr None, reg) \<Rightarrow> answer env cl op (refused who 404 ''resource_not_found'' None) (db\<lparr>cb_registry := reg\<rparr>)
             | Inr (Inr (Some p), reg) \<Rightarrow>
                 answer env cl op (granted who 200 (Some (principal_document env p)) None) (db\<lparr>cb_registry := reg\<rparr>))))"

section \<open>Credentials\<close>

text \<open>The answer to an issuance, with the secret revealed, and what is kept of it, without.\<close>

definition issuance_metadata :: "control_env \<Rightarrow> json \<Rightarrow> credential_reference \<Rightarrow> string option \<Rightarrow> dict" where
  "issuance_metadata env expires c replaced = dict [(''credential'', JObj (credential_document env expires c)),
     (''replaced_credential_id'', jopt replaced), (''secret_revealed'', JBool False)]"

definition revealed :: "dict \<Rightarrow> string \<Rightarrow> dict" where
  "revealed metadata key = fmupd ''secret_revealed'' (JBool True) (fmupd ''key'' (JStr key) metadata)"

definition issue_credential ::
  "control_env \<Rightarrow> control_call \<Rightarrow> string \<Rightarrow> json \<Rightarrow> string option \<Rightarrow> string option \<Rightarrow> control_db \<Rightarrow> handled" where
  "issue_credential env cl pid raw header key db =
     (let op = (''credentials.issue'', ''admin.write''); path = ''/v1/principals/'' @ pid @ ''/credentials''
      in authenticated env cl op header db (\<lambda>c.
         if invalid_key key then answer env cl op (invalid_request 400 ''invalid_idempotency_key'') db
         else if \<not> matches_line identifier_pattern pid then answer env cl op (invalid_request 422 ''validation_error'') db
         else case read_credential_issue env raw of None \<Rightarrow> answer env cl op (invalid_request 422 ''validation_error'') db
         | Some expires \<Rightarrow>
             permitted env cl op (403, ''resource_unavailable'') c ''credentials'' db (\<lambda>who.
             case get_principal_row pid (cb_registry db) of
               Inl e \<Rightarrow> (Inl e, db)
             | Inr None \<Rightarrow> answer env cl op (refused who 404 ''resource_not_found'' None) db
             | Inr (Some _) \<Rightarrow>
                 claimed env cl op who (claim_for env cl who ''POST'' path ''principal_lifetime'' key
                     (JObj (dict [(''expires_at'', expiry_text expires)])) 201 pid) db (\<lambda>binding rows.
                 if ib_replayed binding
                 then answer env cl op (granted who 201 (Some (io_response_payload (ib_outcome binding))) None) (db\<lparr>cb_bindings := rows\<rparr>)
                 else case issue (ev_scrypt env) (cl_draw cl) pid (map_option fst expires) (cl_now cl) (cb_registry db) (cb_credentials db) of
                        Inl e \<Rightarrow> answer env cl op (refused who 500 ''credential_issuance_failed'' None) db
                      | Inr (issued, credentials) \<Rightarrow>
                          let metadata = issuance_metadata env (expiry_text expires) (ia_credential issued) None
                          in case set_response_payload (binding_scope who ''POST'' path)
                                 (ev_key_digest env (case key of None \<Rightarrow> [] | Some k \<Rightarrow> k)) metadata rows of
                               Inl e \<Rightarrow> (Inl (uncaught_binding e), db)
                             | Inr rows' \<Rightarrow> answer env cl op (granted who 201 (Some (revealed metadata (ia_key issued))) None)
                                 (db\<lparr>cb_credentials := credentials, cb_bindings := rows'\<rparr>)))))"

definition list_credentials :: "control_env \<Rightarrow> control_call \<Rightarrow> string \<Rightarrow> string option \<Rightarrow> string \<Rightarrow> bool \<Rightarrow> control_db \<Rightarrow> handled" where
  "list_credentials env cl pid header limit extra db =
     (let op = (''credentials.list'', ''admin.read''); n = parsed_limit limit
      in authenticated env cl op header db (\<lambda>c.
         if \<not> matches_line identifier_pattern pid \<or> extra \<or> \<not> limit_ok n
         then answer env cl op (invalid_request 422 ''validation_error'') db
         else permitted env cl op (404, ''resource_not_found'') c ''credentials'' db (\<lambda>who.
           case get_principal_row pid (cb_registry db) of
             Inl e \<Rightarrow> (Inl e, db)
           | Inr None \<Rightarrow> answer env cl op (refused who 404 ''resource_not_found'' None) db
           | Inr (Some _) \<Rightarrow>
               (case list_credential_rows pid n (cb_credentials db) of
                  Inl e \<Rightarrow> (Inl e, db)
                | Inr (items, truncated) \<Rightarrow> answer env cl op (granted who 200
                    (Some (page_document (map (stored_credential_document env) items) n truncated)) None) db))))"

definition revoke_credential :: "control_env \<Rightarrow> control_call \<Rightarrow> string \<Rightarrow> string option \<Rightarrow> control_db \<Rightarrow> handled" where
  "revoke_credential env cl cid header db =
     (let op = (''credentials.revoke'', ''admin.write'')
      in authenticated env cl op header db (\<lambda>c.
         if \<not> matches_line identifier_pattern cid then answer env cl op (invalid_request 422 ''validation_error'') db
         else permitted env cl op (403, ''resource_unavailable'') c ''credentials'' db (\<lambda>who.
           case get_credential cid (cb_credentials db) of
             Inl e \<Rightarrow> (Inl e, db)
           | Inr None \<Rightarrow> answer env cl op (refused who 404 ''resource_not_found'' None) db
           | Inr (Some _) \<Rightarrow>
               (case revoke_credential_row cid (cl_now cl) (cb_credentials db) of
                  Inl e \<Rightarrow> (Inl e, db)
                | Inr (_, credentials) \<Rightarrow> answer env cl op (granted who 204 None None) (db\<lparr>cb_credentials := credentials\<rparr>)))))"

text \<open>\<^verbatim>\<open>_rotation_failure\<close>.\<close>

definition rotation_failure :: "control_env \<Rightarrow> subject \<Rightarrow> credential_reference \<Rightarrow> string \<Rightarrow> reply" where
  "rotation_failure env who old code = granted who 409 (Some (dict [(''result'', JStr ''failure''),
     (''old_credential'', JObj (stored_credential_document env old)), (''replacement_count'', JInt 0), (''transition_count'', JInt 0),
     (''replayed'', JBool False), (''error_code'', JStr code)])) (Some code)"

definition rotation_metadata :: "control_env \<Rightarrow> credential_reference \<Rightarrow> dict \<Rightarrow> dict" where
  "rotation_metadata env old issuance = dict [(''result'', JStr ''success''),
     (''old_credential'', JObj (stored_credential_document env old)), (''issuance'', JObj issuance), (''replacement_count'', JInt 1),
     (''transition_count'', JInt 1), (''replayed'', JBool False)]"

definition rotate_credential ::
  "control_env \<Rightarrow> control_call \<Rightarrow> string \<Rightarrow> json \<Rightarrow> string option \<Rightarrow> string option \<Rightarrow> control_db \<Rightarrow> handled" where
  "rotate_credential env cl cid raw header key db =
     (let op = (''credentials.rotate'', ''admin.write''); path = ''/v1/credentials/'' @ cid @ ''/rotation''
      in authenticated env cl op header db (\<lambda>c.
         if invalid_key key then answer env cl op (invalid_request 400 ''invalid_idempotency_key'') db
         else if \<not> matches_line identifier_pattern cid then answer env cl op (invalid_request 422 ''validation_error'') db
         else case read_credential_issue env raw of None \<Rightarrow> answer env cl op (invalid_request 422 ''validation_error'') db
         | Some expires \<Rightarrow>
             permitted env cl op (403, ''resource_unavailable'') c ''credentials'' db (\<lambda>who.
             case get_credential cid (cb_credentials db) of
               Inl e \<Rightarrow> (Inl e, db)
             | Inr None \<Rightarrow> answer env cl op (refused who 404 ''resource_not_found'' None) db
             | Inr (Some old) \<Rightarrow>
                 claimed env cl op who (claim_for env cl who ''POST'' path ''principal_lifetime'' key
                     (JObj (dict [(''expires_at'', expiry_text expires)])) 201 cid) db (\<lambda>binding rows.
                 if ib_replayed binding
                 then answer env cl op (granted who 201 (Some (fmupd ''replayed'' (JBool True) (io_response_payload (ib_outcome binding)))) None)
                        (db\<lparr>cb_bindings := rows\<rparr>)
                 else if ce_status old \<noteq> ''active'' then answer env cl op (rotation_failure env who old ''credential_inactive'') db
                 else case rotate (ev_scrypt env) (cl_draw cl) cid (map_option fst expires) (cl_now cl) (cb_registry db) (cb_credentials db) of
                        Inl e \<Rightarrow> answer env cl op (rotation_failure env who old ''rotation_failed'') db
                      | Inr (None, _) \<Rightarrow> answer env cl op (rotation_failure env who old ''credential_inactive'') db
                      | Inr (Some issued, credentials) \<Rightarrow>
                          let issuance = issuance_metadata env (expiry_text expires) (ia_credential issued) (Some (ce_id old))
                          in case set_response_payload (binding_scope who ''POST'' path)
                                 (ev_key_digest env (case key of None \<Rightarrow> [] | Some k \<Rightarrow> k))
                                 (rotation_metadata env old issuance) rows of
                               Inl e \<Rightarrow> (Inl (uncaught_binding e), db)
                             | Inr rows' \<Rightarrow> answer env cl op (granted who 201
                                   (Some (rotation_metadata env old (revealed issuance (ia_key issued)))) None)
                                 (db\<lparr>cb_credentials := credentials, cb_bindings := rows'\<rparr>)))))"

section \<open>Grants\<close>

definition GRANT_ADMITTED_ACTIONS :: "(string \<times> string list) list" where
  "GRANT_ADMITTED_ACTIONS = [
     (''llm_model'', [''admin.read'', ''admin.write'', ''invoke'']),
     (''mcp_server'', [''admin.write'', ''mcp.discovery'', ''mcp.invoke'']),
     (''mcp_tool'', [''admin.write'', ''mcp.discovery'', ''mcp.invoke'']),
     (''skill'', [''admin.write'', ''skill.discovery'', ''skill.read'', ''skill.invoke'', ''invoke'']),
     (''bok_collection'', [''admin.write'', ''bok.discovery'', ''bok.search'', ''bok.read'']),
     (''incident_workflow'', [''run.start'', ''run.read'', ''run.command'', ''run.approve'', ''run.read_context'', ''alert.read'',
        ''alert.triage'', ''alert.dismiss'', ''alert.associate'', ''incident.declare'', ''change.read'', ''change.write'']),
     (''administrative_control'', [''admin.read'', ''admin.write'']),
     (''service_operation'', [''mitigation.execute''])]"

definition grant_action_admitted :: "string \<Rightarrow> string \<Rightarrow> bool" where
  "grant_action_admitted rtype action =
     (case map_of GRANT_ADMITTED_ACTIONS rtype of None \<Rightarrow> False | Some actions \<Rightarrow> action \<in> set actions)"

definition grant_conflict_code :: "string option \<Rightarrow> string" where
  "grant_conflict_code constraint =
     (if constraint = Some ''grants_pkey'' then ''grant_id_conflict''
      else if constraint = Some ''uq_grants_active_direct'' then ''grant_conflict'' else ''idempotency_conflict'')"

text \<open>\<^verbatim>\<open>Grant.model_validate_json(...).model_dump(mode="json")\<close> of a stored answer.\<close>

definition reread_grant :: "control_env \<Rightarrow> dict \<Rightarrow> dict option" where
  "reread_grant env d =
     (if \<not> keys_exactly d [''grant_id'', ''principal_id'', ''action'', ''resource'', ''effect'', ''status'', ''created_at''] then None
      else case (text_of (get d ''grant_id'') identifier_pattern, text_of (get d ''principal_id'') identifier_pattern,
                 text_of (get d ''action'') action_pattern, get d ''resource'', text_of (get d ''effect'') (\<lambda>e. e = ''allow''),
                 text_of (get d ''status'') (\<lambda>s. s = ''active'' \<or> s = ''revoked''), ev_aware env (get d ''created_at'')) of
             (Some _, Some _, Some _, JObj r, Some _, Some _, Some (_, text)) \<Rightarrow>
               if keys_exactly r [''resource_type'', ''resource_id''] \<and> text_of (get r ''resource_type'') (\<lambda>t. t \<in> set RESOURCE_TYPES) \<noteq> None \<and>
                  text_of (get r ''resource_id'') (sized 1 200) \<noteq> None
               then Some (fmupd ''created_at'' (JStr text) d) else None
           | _ \<Rightarrow> None)"

text \<open>A grant request seen before is answered again without another audit event.\<close>

definition replayed_grant ::
  "control_env \<Rightarrow> control_call \<Rightarrow> string \<times> string \<Rightarrow> subject \<Rightarrow> idempotency_outcome \<Rightarrow> control_db \<Rightarrow> control_db \<Rightarrow> handled" where
  "replayed_grant env cl op who io before after =
     (case reread_grant env (io_response_payload io) of
        None \<Rightarrow> answer env cl op (refused who 409 ''idempotency_conflict'' None) before
      | Some d \<Rightarrow> (Inr \<lparr>hr_status = io_response_status io, hr_body = Some (JObj d)\<rparr>, after))"

definition store_grant ::
  "control_env \<Rightarrow> control_call \<Rightarrow> string \<times> string \<Rightarrow> subject \<Rightarrow> grant_create \<Rightarrow> string option \<Rightarrow> idempotency_binding \<Rightarrow>
     idempotency_row list \<Rightarrow> control_db \<Rightarrow> handled" where
  "store_grant env cl op who b key binding rows db =
     (case create_grant (gn_grant_id b) (gn_principal_id b) (gn_action b) (gn_resource_type b) (gn_resource_id b) (cl_now cl) (cb_registry db) of
        Inl (IntegrityError constraint) \<Rightarrow> answer env cl op (refused who 409 (grant_conflict_code (Some constraint)) None) db
      | Inl e \<Rightarrow> (Inl e, db)
      | Inr (g, reg) \<Rightarrow>
          (case set_response_payload (binding_scope who ''POST'' ''/v1/grants'')
               (ev_key_digest env (case key of None \<Rightarrow> [] | Some k \<Rightarrow> k)) (grant_document env g) rows of
             Inl e \<Rightarrow> (Inl (uncaught_binding e), db)
           | Inr rows' \<Rightarrow>
               answer_within env cl op (granted who (io_response_status (ib_outcome binding)) (Some (grant_document env g)) (Some ''grant_matched''))
                 db (db\<lparr>cb_registry := reg, cb_bindings := rows'\<rparr>)))"

definition service_create_grant :: "control_env \<Rightarrow> control_call \<Rightarrow> json \<Rightarrow> string option \<Rightarrow> string option \<Rightarrow> control_db \<Rightarrow> handled" where
  "service_create_grant env cl raw header key db =
     (let op = (''grants.create'', ''admin.write'')
      in if invalid_key key then answer env cl op (invalid_request 400 ''invalid_idempotency_key'') db
         else case read_grant_create raw of None \<Rightarrow> answer env cl op (invalid_request 422 ''validation_error'') db
         | Some b \<Rightarrow>
             governed env cl op header ''grants'' db (\<lambda>who.
             let q = claim_for env cl who ''POST'' ''/v1/grants'' ''at_least_24h'' key (grant_create_document b) 201 (gn_grant_id b)
             in case peek (cq_scope q) (cq_key_digest q) (cq_payload_sha256 q) (cl_now cl) (cb_bindings db) of
                  Inl (IdempotencyConflictError s) \<Rightarrow> answer env cl op (refused who 409 (grant_conflict_code None) None) db
                | Inl e \<Rightarrow> (Inl (uncaught_binding e), db)
                | Inr (Some prior) \<Rightarrow> replayed_grant env cl op who (ib_outcome prior) db db
                | Inr None \<Rightarrow>
                    (case get_principal_row (gn_principal_id b) (cb_registry db) of
                       Inl e \<Rightarrow> (Inl e, db)
                     | Inr found \<Rightarrow>
                         if (case found of None \<Rightarrow> True | Some p \<Rightarrow> p_status p \<noteq> ''active'')
                         then answer env cl op (refused who 404 ''resource_not_found'' None) db
                         else if (case resource_view (cb_registry db) (gn_resource_type b) (gn_resource_id b) of
                                    None \<Rightarrow> True | Some r \<Rightarrow> rf_status r \<noteq> ''active'')
                         then answer env cl op (refused who 404 ''resource_not_found'' None) db
                         else if \<not> grant_action_admitted (gn_resource_type b) (gn_action b)
                         then answer env cl op (invalid_request 422 ''validation_error'') db
                         else claimed env cl op who q db (\<lambda>binding rows.
                           if ib_replayed binding
                           then replayed_grant env cl op who (ib_outcome binding) db (db\<lparr>cb_bindings := rows\<rparr>)
                           else store_grant env cl op who b key binding rows db))))"

definition list_grant_rows :: "string option \<Rightarrow> string option \<Rightarrow> nat \<Rightarrow> registry \<Rightarrow> (grant list \<times> bool) outcome" where
  "list_grant_rows pid rid limit reg =
     (let mine = (\<lambda>g. case pid of Some p \<Rightarrow> g_principal_id g = p | None \<Rightarrow> Some (g_resource_id g) = rid);
          found = take (limit + 1) (rev (sort_key (\<lambda>g. (g_created_at g, g_id g)) (filter mine (grants reg))))
      in and_then (raise_if ((pid = None) = (rid = None)) (ValueError ''exactly one grant filter is required'')) (\<lambda>_.
         and_then (map_raise project_grant (take limit found)) (\<lambda>items. Inr (items, limit < length found))))"

definition list_grants ::
  "control_env \<Rightarrow> control_call \<Rightarrow> string option \<Rightarrow> string option \<Rightarrow> string option \<Rightarrow> string \<Rightarrow> bool \<Rightarrow> control_db \<Rightarrow> handled" where
  "list_grants env cl header pid rid limit extra db =
     (let op = (''grants.list'', ''admin.read''); n = parsed_limit limit;
          filter_value = (if pid \<noteq> None then pid else rid)
      in if extra \<or> (pid = None) = (rid = None) \<or>
            (case filter_value of None \<Rightarrow> True | Some v \<Rightarrow> \<not> matches_line identifier_pattern v) \<or> \<not> limit_ok n
         then answer env cl op (invalid_request 422 ''validation_error'') db
         else governed env cl op header ''grants'' db (\<lambda>who.
           case list_grant_rows pid rid n (cb_registry db) of
             Inl e \<Rightarrow> (Inl e, db)
           | Inr (items, truncated) \<Rightarrow> answer env cl op (granted who 200
               (Some (page_document (map (grant_document env) items) n truncated)) (Some ''grant_matched'')) db))"

definition service_revoke_grant :: "control_env \<Rightarrow> control_call \<Rightarrow> string \<Rightarrow> string option \<Rightarrow> control_db \<Rightarrow> handled" where
  "service_revoke_grant env cl gid header db =
     (let op = (''grants.revoke'', ''admin.write'')
      in authenticated env cl op header db (\<lambda>c.
         if \<not> matches_line identifier_pattern gid then answer env cl op (invalid_request 422 ''validation_error'') db
         else permitted env cl op (403, ''resource_unavailable'') c ''grants'' db (\<lambda>who.
           case revoke_grant gid (cb_registry db) of
             Inl e \<Rightarrow> (Inl e, db)
           | Inr (None, reg) \<Rightarrow> answer_within env cl op (refused who 404 ''resource_not_found'' None) db (db\<lparr>cb_registry := reg\<rparr>)
           | Inr (Some g, reg) \<Rightarrow> answer_within env cl op (granted who 204 None (Some ''grant_matched'')) db (db\<lparr>cb_registry := reg\<rparr>))))"

end
