(* ===== verification/LimitPolicy.thy ===== *)
theory LimitPolicy
  imports Control
begin

text \<open>
  The consumption-limit policy of the workspace (\<^verbatim>\<open>control/consumption_limits.py\<close>): one row, read
  under \<^verbatim>\<open>admin.read\<close> and replaced under \<^verbatim>\<open>admin.write\<close> with a compare-and-set on its version, an
  idempotency key and an audit event in the same transaction.
\<close>

section \<open>Amounts\<close>

text \<open>\<^verbatim>\<open>format(d, "f")\<close>.\<close>

definition format_f :: "dec \<Rightarrow> string" where
  "format_f d =
     (let ds = nat_str (dc_coeff d)
      in (if dc_neg d then ''-'' else '''') @
         (if 0 \<le> dc_exp d then if dc_coeff d = 0 then ds else ds @ replicate (nat (dc_exp d)) CHR ''0''
          else let k = nat (- dc_exp d); padded = replicate (k + 1 - length ds) CHR ''0'' @ ds
               in take (length padded - k) padded @ ''.'' @ drop (length padded - k) padded))"

definition rstrip_char :: "char \<Rightarrow> string \<Rightarrow> string" where
  "rstrip_char c s = rev (dropWhile (\<lambda>x. x = c) (rev s))"

definition shown_limit :: "dec \<Rightarrow> string" where
  "shown_limit d =
     (let s = format_f d in if CHR ''.'' \<in> set s then rstrip_char CHR ''.'' (rstrip_char CHR ''0'' s) else s)"

text \<open>\<^verbatim>\<open>MONTHLY_USD_PATTERN\<close>: up to twenty digits without leading zeros, up to twelve decimals.\<close>

definition monthly_usd_pattern :: "string \<Rightarrow> bool" where
  "monthly_usd_pattern s =
     (let whole = takeWhile (\<lambda>c. c \<noteq> CHR ''.'') s; rest = dropWhile (\<lambda>c. c \<noteq> CHR ''.'') s
      in (whole = ''0'' \<or> (class_run ascii_digit 1 20 whole \<and> hd whole \<noteq> CHR ''0'')) \<and>
         (rest = [] \<or> class_run ascii_digit 1 12 (tl rest)))"

section \<open>Requests\<close>

record policy_update =
  pu_expected_version :: int
  pu_incident_token_limit :: "int option"
  pu_monthly_usd_limit :: "string option"

definition bigint_of :: "json \<Rightarrow> int option" where
  "bigint_of j = (case j of JInt n \<Rightarrow> if 0 \<le> n \<and> n \<le> MAX_BIGINT then Some n else None | _ \<Rightarrow> None)"

definition nullable :: "(json \<Rightarrow> 'a option) \<Rightarrow> json \<Rightarrow> 'a option option" where
  "nullable read j = (if j = JNull then Some None else map_option Some (read j))"

definition read_policy_update :: "json \<Rightarrow> policy_update option" where
  "read_policy_update raw =
     (case raw of JObj d \<Rightarrow>
        if \<not> keys_exactly d [''expected_version'', ''incident_token_limit'', ''monthly_usd_limit''] then None
        else (case (bigint_of (get d ''expected_version''), nullable bigint_of (get d ''incident_token_limit''),
                    nullable (\<lambda>j. text_of j monthly_usd_pattern) (get d ''monthly_usd_limit'')) of
             (Some v, Some tokens, Some usd) \<Rightarrow>
               Some \<lparr>pu_expected_version = v, pu_incident_token_limit = tokens, pu_monthly_usd_limit = usd\<rparr>
           | _ \<Rightarrow> None)
      | _ \<Rightarrow> None)"

definition jint_opt :: "int option \<Rightarrow> json" where
  "jint_opt x = (case x of None \<Rightarrow> JNull | Some n \<Rightarrow> JInt n)"

definition policy_update_document :: "policy_update \<Rightarrow> json" where
  "policy_update_document b = JObj (dict [(''expected_version'', JInt (pu_expected_version b)),
     (''incident_token_limit'', jint_opt (pu_incident_token_limit b)), (''monthly_usd_limit'', jopt (pu_monthly_usd_limit b))])"

text \<open>\<^verbatim>\<open>_policy_response\<close>.\<close>

definition policy_response :: "limit_policy \<Rightarrow> dict" where
  "policy_response p = dict [(''version'', JInt (lp_version p)), (''incident_token_limit'', jint_opt (lp_incident_token_limit p)),
     (''monthly_usd_limit'', jopt (map_option shown_limit (lp_monthly_usd_limit p))),
     (''updated_at'', JStr (isoformat (lp_updated_at p)))]"

section \<open>Handlers\<close>

definition policy_gone :: "subject \<Rightarrow> reply" where
  "policy_gone who = \<lparr>rp_status = 503, rp_stage = ''audit'', rp_payload = None, rp_error = Some ''policy_unavailable'',
     rp_subject = Some who, rp_cause = None\<rparr>"

definition get_policy :: "control_env \<Rightarrow> control_call \<Rightarrow> string option \<Rightarrow> control_db \<Rightarrow> handled" where
  "get_policy env cl header db =
     (let op = (''consumption_limits.get'', ''admin.read'')
      in governed env cl op header ''consumption_limits'' db (\<lambda>who.
         case cb_policy db of
           None \<Rightarrow> answer env cl op (policy_gone who) db
         | Some p \<Rightarrow> answer env cl op (granted who 200 (Some (policy_response p)) None) db))"

text \<open>
  The row after a replacement as the session holds it, and as PostgreSQL stores it, with the amount
  at the twelve decimals of its column.
\<close>

definition replaced_policy :: "policy_update \<Rightarrow> datetime \<Rightarrow> limit_policy \<Rightarrow> limit_policy" where
  "replaced_policy b now p = \<lparr>lp_version = lp_version p + 1, lp_incident_token_limit = pu_incident_token_limit b,
     lp_monthly_usd_limit = Option.bind (pu_monthly_usd_limit b) parse_dec, lp_updated_at = now\<rparr>"

definition stored_policy :: "limit_policy \<Rightarrow> limit_policy outcome" where
  "stored_policy p = and_then (to_numeric_opt 32 12 (lp_monthly_usd_limit p)) (\<lambda>usd. Inr (p\<lparr>lp_monthly_usd_limit := usd\<rparr>))"

definition replace_policy :: "control_env \<Rightarrow> control_call \<Rightarrow> json \<Rightarrow> string option \<Rightarrow> string option \<Rightarrow> control_db \<Rightarrow> handled" where
  "replace_policy env cl raw header key db =
     (let op = (''consumption_limits.replace'', ''admin.write''); path = ''/v1/consumption-limits''
      in governed env cl op header ''consumption_limits'' db (\<lambda>who.
         case key of None \<Rightarrow> answer env cl op (invalid_request 400 ''invalid_idempotency_key'') db
         | Some k \<Rightarrow>
             if \<not> class_run (\<lambda>c. CHR '' '' \<le> c \<and> c \<le> CHR ''~'') 16 128 k
             then answer env cl op (invalid_request 400 ''invalid_idempotency_key'') db
             else case read_policy_update raw of None \<Rightarrow> answer env cl op (invalid_request 422 ''validation_error'') db
             | Some b \<Rightarrow>
                 claimed env cl op who (claim_for env cl who ''PUT'' path ''at_least_24h'' key (policy_update_document b) 200 ''workspace'') db
                   (\<lambda>binding rows.
                 let reply = (\<lambda>payload. granted who (io_response_status (ib_outcome binding)) (Some payload) None)
                 in if ib_replayed binding
                    then answer_within env cl op (reply (io_response_payload (ib_outcome binding))) db (db\<lparr>cb_bindings := rows\<rparr>)
                    else case cb_policy db of None \<Rightarrow> answer env cl op (policy_gone who) db
                    | Some p \<Rightarrow>
                        if pu_expected_version b \<noteq> lp_version p \<or> lp_version p = MAX_BIGINT
                        then answer env cl op (refused who 409 ''status_conflict'' None) db
                        else let p' = replaced_policy b (cl_now cl) p
                          in case stored_policy p' of Inl e \<Rightarrow> (Inl e, db)
                          | Inr row \<Rightarrow>
                              (case set_response_payload (binding_scope who ''PUT'' path) (ev_key_digest env k) (policy_response p') rows of
                                 Inl e \<Rightarrow> (Inl (uncaught_binding e), db)
                               | Inr rows' \<Rightarrow> answer_within env cl op (reply (policy_response p')) db
                                   (db\<lparr>cb_policy := Some row, cb_bindings := rows'\<rparr>)))))"

end
