(* ===== verification/Catalog.thy ===== *)
theory Catalog
  imports Control
begin

text \<open>
  The resource table and its three owners: model aliases, the catalog and published skill versions
  (\<^verbatim>\<open>ModelAliasRepository\<close>, \<^verbatim>\<open>CatalogRepository\<close> and \<^verbatim>\<open>SkillVersionRepository\<close> of
  \<^verbatim>\<open>persistence/repositories.py\<close>) with the constraints of \<^verbatim>\<open>ResourceRow\<close> and \<^verbatim>\<open>SkillVersionRow\<close> and the
  contracts of \<^verbatim>\<open>ModelAlias\<close>, \<^verbatim>\<open>ResourceCatalogEntry\<close> and \<^verbatim>\<open>SkillVersionRecord\<close>.
\<close>

section \<open>Patterns\<close>

definition letter_digit :: "char \<Rightarrow> bool" where
  "letter_digit c = (lower_digit c \<or> (CHR ''A'' \<le> c \<and> c \<le> CHR ''Z''))"

text \<open>\<^verbatim>\<open>[a-z][a-z0-9-]{lo,62}[a-z0-9]\<close>.\<close>

definition dashed_pattern :: "nat \<Rightarrow> string \<Rightarrow> bool" where
  "dashed_pattern lo s = (case s of [] \<Rightarrow> False
     | c # cs \<Rightarrow> CHR ''a'' \<le> c \<and> c \<le> CHR ''z'' \<and> cs \<noteq> [] \<and> lower_digit (last cs) \<and>
         class_run (\<lambda>x. lower_digit x \<or> x = CHR ''-'') lo 62 (butlast cs))"

definition alias_pattern :: "string \<Rightarrow> bool" where
  "alias_pattern = dashed_pattern 1"

definition skill_id_pattern :: "string \<Rightarrow> bool" where
  "skill_id_pattern = dashed_pattern 2"

text \<open>\<^verbatim>\<open>[A-Za-z0-9._-]+/[A-Za-z0-9._:-]+\<close>.\<close>

definition model_pattern :: "string \<Rightarrow> bool" where
  "model_pattern s = (case split_on CHR ''/'' s of
       [owner, name] \<Rightarrow> owner \<noteq> [] \<and> list_all (\<lambda>c. letter_digit c \<or> c \<in> set ''._-'') owner \<and>
         name \<noteq> [] \<and> list_all (\<lambda>c. letter_digit c \<or> c \<in> set ''._:-'') name
     | _ \<Rightarrow> False)"

text \<open>\<^verbatim>\<open>[A-Za-z0-9][A-Za-z0-9._:@/-]{0,199}\<close> and the bound of 200 characters.\<close>

definition catalog_id_pattern :: "string \<Rightarrow> bool" where
  "catalog_id_pattern s = (case s of [] \<Rightarrow> False
     | c # cs \<Rightarrow> letter_digit c \<and> class_run (\<lambda>x. letter_digit x \<or> x \<in> set ''._:@/-'') 0 199 cs)"

text \<open>\<^verbatim>\<open>[a-z0-9][a-z0-9._-]*\<close> within 50 characters.\<close>

definition tag_pattern :: "string \<Rightarrow> bool" where
  "tag_pattern s = (case s of [] \<Rightarrow> False
     | c # cs \<Rightarrow> lower_digit c \<and> class_run (\<lambda>x. lower_digit x \<or> x \<in> set ''._-'') 0 49 cs)"

definition tags_ok :: "string list \<Rightarrow> bool" where
  "tags_ok tags = (length tags \<le> 16 \<and> list_all tag_pattern tags)"

text \<open>\<^verbatim>\<open>(0|[1-9][0-9]*)\.(0|[1-9][0-9]*)\.(0|[1-9][0-9]*)\<close> within 32 characters.\<close>

definition semver_part :: "string \<Rightarrow> bool" where
  "semver_part s = (s = ''0'' \<or> (s \<noteq> [] \<and> hd s \<noteq> CHR ''0'' \<and> list_all ascii_digit s))"

definition semver_pattern :: "string \<Rightarrow> bool" where
  "semver_pattern s = (case split_on CHR ''.'' s of
       [major, minor, patch] \<Rightarrow> semver_part major \<and> semver_part minor \<and> semver_part patch
     | _ \<Rightarrow> False)"

definition version_ok :: "string \<Rightarrow> bool" where
  "version_ok s = (semver_pattern s \<and> py_len s \<le> 32)"

section \<open>The resource table\<close>

definition CATALOG_TYPES :: "string list" where
  "CATALOG_TYPES = [''llm_model'', ''mcp_server'', ''mcp_tool'', ''skill'', ''bok_collection'', ''incident_workflow'', ''service_operation'']"

definition CATALOG_STATUSES :: "string list" where
  "CATALOG_STATUSES = [''registered'', ''draft'', ''published'', ''indexing'', ''active'', ''inactive'', ''revoked'']"

definition VISIBILITIES :: "string list" where
  "VISIBILITIES = [''public'', ''private'', ''hidden'']"

definition EXPECTED_SOURCE :: "(string \<times> string) list" where
  "EXPECTED_SOURCE = [(''llm_model'', ''model_alias''), (''mcp_server'', ''mcp''), (''mcp_tool'', ''mcp''), (''skill'', ''skill''),
     (''bok_collection'', ''bok''), (''incident_workflow'', ''incident_workflow''), (''service_operation'', ''deploy_executor'')]"

definition ALLOWED_STATUS :: "(string \<times> string list) list" where
  "ALLOWED_STATUS = [
     (''llm_model'', [''active'', ''inactive'']),
     (''mcp_server'', [''registered'', ''active'', ''inactive'', ''revoked'']),
     (''mcp_tool'', [''registered'', ''active'', ''inactive'', ''revoked'']),
     (''skill'', [''draft'', ''published'', ''active'', ''inactive'', ''revoked'']),
     (''bok_collection'', [''draft'', ''indexing'', ''active'', ''inactive'', ''revoked'']),
     (''incident_workflow'', [''active'', ''inactive'']),
     (''service_operation'', [''active'', ''inactive''])]"

definition text_opt_ok :: "nat \<Rightarrow> string option \<Rightarrow> bool" where
  "text_opt_ok n x = (case x of None \<Rightarrow> True | Some s \<Rightarrow> text_ok n s)"

definition resource_texts :: "resource_row \<Rightarrow> bool" where
  "resource_texts r =
     (text_ok 32 (rs_type r) \<and> text_ok 200 (rs_id r) \<and> text_ok 16 (rs_status r) \<and> text_opt_ok 64 (rs_model_alias_id r) \<and>
      text_opt_ok 64 (rs_alias r) \<and> text_opt_ok 200 (rs_concrete_model r) \<and> text_opt_ok 100 (rs_router r) \<and>
      text_opt_ok 100 (rs_inference_provider r) \<and> text_opt_ok 64 (rs_owner_id r) \<and> text_opt_ok 32 (rs_source r) \<and>
      text_opt_ok 200 (rs_source_ref r) \<and> text_opt_ok 200 (rs_display_name r) \<and> text_opt_ok 16 (rs_visibility r) \<and>
      text_opt_ok 500 (rs_description r) \<and> (case rs_tags r of None \<Rightarrow> True | Some tags \<Rightarrow> list_all (\<lambda>t. CHR 0x00 \<notin> set t) tags))"

text \<open>
  The table's CHECK constraints. A comparison with a null column is neither true nor false and a
  constraint only refuses what is false, so a null router passes its comparison.
\<close>

definition llm_assignment :: "resource_row \<Rightarrow> bool" where
  "llm_assignment r =
     (if rs_type r = ''llm_model''
      then rs_model_alias_id r \<noteq> None \<and> rs_alias r \<noteq> None \<and> rs_concrete_model r \<noteq> None \<and>
        (rs_router r = None \<or> rs_router r = Some ''openrouter'') \<and> rs_inference_provider r \<noteq> None
      else rs_model_alias_id r = None \<and> rs_alias r = None \<and> rs_concrete_model r = None \<and> rs_router r = None \<and>
        rs_inference_provider r = None)"

definition catalog_projection :: "resource_row \<Rightarrow> bool" where
  "catalog_projection r =
     (if rs_type r = ''administrative_control''
      then rs_owner_id r = None \<and> rs_source r = None \<and> rs_source_ref r = None \<and> rs_display_name r = None \<and>
        rs_visibility r = None \<and> rs_description r = None \<and> rs_tags r = None
      else rs_owner_id r \<noteq> None \<and> rs_source r \<noteq> None \<and> rs_source_ref r \<noteq> None \<and> rs_display_name r \<noteq> None \<and>
        rs_visibility r \<noteq> None \<and> rs_description r \<noteq> None)"

definition check_resource :: "resource_row \<Rightarrow> unit outcome" where
  "check_resource r =
     and_then (raise_if (\<not> resource_texts r) (DataError ''resources'')) (\<lambda>_.
     and_then (raise_if (rs_type r \<notin> set RESOURCE_TYPES) (IntegrityError ''ck_resources_type'')) (\<lambda>_.
     and_then (raise_if (rs_status r \<notin> set CATALOG_STATUSES) (IntegrityError ''ck_resources_status'')) (\<lambda>_.
     and_then (raise_if (\<not> llm_assignment r) (IntegrityError ''ck_resources_llm_assignment'')) (\<lambda>_.
     and_then (raise_if (\<not> catalog_projection r) (IntegrityError ''ck_resources_catalog_projection'')) (\<lambda>_.
     and_then (raise_if (case rs_source r of None \<Rightarrow> False | Some s \<Rightarrow> s \<notin> snd ` set EXPECTED_SOURCE)
       (IntegrityError ''ck_resources_catalog_source'')) (\<lambda>_.
     and_then (raise_if (case rs_visibility r of None \<Rightarrow> False | Some v \<Rightarrow> v \<notin> set VISIBILITIES)
       (IntegrityError ''ck_resources_catalog_visibility'')) (\<lambda>_.
     raise_if (case rs_source r of None \<Rightarrow> False | Some s \<Rightarrow> map_of EXPECTED_SOURCE (rs_type r) \<noteq> Some s)
       (IntegrityError ''ck_resources_catalog_owner''))))))))"

definition insert_resource :: "resource_row \<Rightarrow> registry \<Rightarrow> registry outcome" where
  "insert_resource r reg =
     and_then (check_resource r) (\<lambda>_.
     and_then (raise_if (\<exists>x\<in>set (resources reg). rs_type x = rs_type r \<and> rs_id x = rs_id r) (IntegrityError ''resources_pkey'')) (\<lambda>_.
     and_then (raise_if (\<exists>x\<in>set (resources reg). rs_model_alias_id r \<noteq> None \<and> rs_model_alias_id x = rs_model_alias_id r)
       (IntegrityError ''uq_resources_model_alias_id'')) (\<lambda>_.
     and_then (raise_if (\<exists>x\<in>set (resources reg). rs_alias r \<noteq> None \<and> rs_alias x = rs_alias r)
       (IntegrityError ''uq_resources_alias'')) (\<lambda>_.
     Inr (reg\<lparr>resources := resources reg @ [r]\<rparr>)))))"

definition get_resource :: "string \<Rightarrow> string \<Rightarrow> registry \<Rightarrow> resource_row option" where
  "get_resource rtype rid reg = select_one (\<lambda>r. rs_type r = rtype \<and> rs_id r = rid) (resources reg)"

section \<open>Model aliases\<close>

record model_alias =
  ma_id :: string
  ma_alias :: string
  ma_concrete_model :: string
  ma_router :: string
  ma_inference_provider :: string
  ma_status :: string
  ma_updated_at :: datetime

definition project_model_alias :: "resource_row \<Rightarrow> model_alias outcome" where
  "project_model_alias r =
     (case (rs_model_alias_id r, rs_alias r, rs_concrete_model r, rs_router r, rs_inference_provider r) of
        (Some aid, Some alias, Some model, Some router, Some provider) \<Rightarrow>
          if identifier_pattern aid \<and> alias_pattern alias \<and> model_pattern model \<and> sized 1 100 router \<and> sized 1 100 provider \<and>
             rs_status r \<in> {''active'', ''inactive''}
          then Inr \<lparr>ma_id = aid, ma_alias = alias, ma_concrete_model = model, ma_router = router, ma_inference_provider = provider,
            ma_status = rs_status r, ma_updated_at = rs_updated_at r\<rparr>
          else Inl (ValueError ''ModelAlias'')
      | _ \<Rightarrow> Inl (ValueError ''ModelAlias''))"

text \<open>\<^verbatim>\<open>ModelAliasCreate\<close>: the assignment and, all optional, its catalog projection.\<close>

record model_alias_create =
  mn_model_alias_id :: string
  mn_alias :: string
  mn_concrete_model :: string
  mn_router :: string
  mn_inference_provider :: string
  mn_owner_id :: "string option"
  mn_source :: "string option"
  mn_source_ref :: "string option"
  mn_display_name :: "string option"
  mn_visibility :: "string option"
  mn_description :: "string option"
  mn_tags :: "string list option"

definition or_else :: "'a option \<Rightarrow> 'a \<Rightarrow> 'a" where
  "or_else x y = (case x of None \<Rightarrow> y | Some z \<Rightarrow> z)"

definition alias_row :: "model_alias_create \<Rightarrow> datetime \<Rightarrow> resource_row" where
  "alias_row b now = \<lparr>rs_type = ''llm_model'', rs_id = mn_model_alias_id b, rs_status = ''active'', rs_updated_at = now,
     rs_model_alias_id = Some (mn_model_alias_id b), rs_alias = Some (mn_alias b), rs_concrete_model = Some (mn_concrete_model b),
     rs_router = Some (mn_router b), rs_inference_provider = Some (mn_inference_provider b),
     rs_owner_id = Some (or_else (mn_owner_id b) (mn_model_alias_id b)), rs_source = Some ''model_alias'',
     rs_source_ref = Some (or_else (mn_source_ref b) (mn_model_alias_id b)),
     rs_display_name = Some (or_else (mn_display_name b) (mn_alias b)), rs_visibility = Some (or_else (mn_visibility b) ''private''),
     rs_description = Some (or_else (mn_description b) []), rs_tags = Some (or_else (mn_tags b) [])\<rparr>"

definition create_alias_row :: "model_alias_create \<Rightarrow> datetime \<Rightarrow> registry \<Rightarrow> (model_alias \<times> registry) outcome" where
  "create_alias_row b now reg =
     and_then (insert_resource (alias_row b now) reg) (\<lambda>reg'.
     and_then (project_model_alias (alias_row b now)) (\<lambda>a. Inr (a, reg')))"

definition active_alias :: "string \<Rightarrow> resource_row \<Rightarrow> bool" where
  "active_alias aid r = (rs_type r = ''llm_model'' \<and> rs_model_alias_id r = Some aid \<and> rs_status r = ''active'')"

definition get_alias_row :: "string \<Rightarrow> registry \<Rightarrow> model_alias option outcome" where
  "get_alias_row aid reg = project_opt project_model_alias (select_one (active_alias aid) (resources reg))"

definition list_alias_rows :: "nat \<Rightarrow> registry \<Rightarrow> (model_alias list \<times> bool) outcome" where
  "list_alias_rows limit reg =
     (let rows = take (limit + 1) (sort_key (\<lambda>r. (or_else (rs_model_alias_id r) [], or_else (rs_alias r) []))
            (filter (\<lambda>r. rs_type r = ''llm_model'' \<and> rs_status r = ''active'') (resources reg)))
      in and_then (map_raise project_model_alias (take limit rows)) (\<lambda>items. Inr (items, limit < length rows)))"

text \<open>
  \<^verbatim>\<open>replace_assignment\<close> and \<^verbatim>\<open>replace_status\<close>: one update guarded by the version the caller saw. The
  sum tells the absent or inactive alias (\<open>None\<close>) from \<^verbatim>\<open>StaleWriteError\<close>.
\<close>

definition replace_alias_row ::
  "string \<Rightarrow> (resource_row \<Rightarrow> resource_row) \<Rightarrow> datetime \<Rightarrow> registry \<Rightarrow> ((stale_write + model_alias option) \<times> registry) outcome" where
  "replace_alias_row aid f expected reg =
     (let mine = (\<lambda>r. active_alias aid r \<and> rs_updated_at r = expected)
      in case select_one mine (resources reg) of
           Some r \<Rightarrow>
             and_then (check_resource (f r)) (\<lambda>_.
             and_then (project_model_alias (f r)) (\<lambda>a.
             Inr (Inr (Some a), reg\<lparr>resources := update_where mine f (resources reg)\<rparr>)))
         | None \<Rightarrow>
             and_then (get_alias_row aid reg) (\<lambda>found.
             Inr (case found of None \<Rightarrow> Inr None | Some _ \<Rightarrow> Inl (StaleWriteError aid), reg)))"

definition assigned_row :: "string \<Rightarrow> string \<Rightarrow> string \<Rightarrow> datetime \<Rightarrow> resource_row \<Rightarrow> resource_row" where
  "assigned_row model router provider now r =
     r\<lparr>rs_concrete_model := Some model, rs_router := Some router, rs_inference_provider := Some provider, rs_updated_at := now\<rparr>"

definition status_row :: "string \<Rightarrow> datetime \<Rightarrow> resource_row \<Rightarrow> resource_row" where
  "status_row status now r = r\<lparr>rs_status := status, rs_updated_at := now\<rparr>"

section \<open>The catalog\<close>

record catalog_entry =
  ct_type :: string
  ct_id :: string
  ct_owner_id :: string
  ct_status :: string
  ct_source :: string
  ct_source_ref :: string
  ct_display_name :: string
  ct_visibility :: string
  ct_description :: string
  ct_tags :: "string list"

text \<open>\<^verbatim>\<open>ResourceCatalogEntry\<close> with its validator.\<close>

definition valid_entry :: "catalog_entry \<Rightarrow> bool" where
  "valid_entry e =
     (ct_type e \<in> set CATALOG_TYPES \<and> catalog_id_pattern (ct_id e) \<and> identifier_pattern (ct_owner_id e) \<and>
      ct_status e \<in> set CATALOG_STATUSES \<and> ct_source e \<in> snd ` set EXPECTED_SOURCE \<and> catalog_id_pattern (ct_source_ref e) \<and>
      sized 1 200 (ct_display_name e) \<and> ct_visibility e \<in> set VISIBILITIES \<and> sized 0 500 (ct_description e) \<and> tags_ok (ct_tags e) \<and>
      map_of EXPECTED_SOURCE (ct_type e) = Some (ct_source e) \<and>
      (case map_of ALLOWED_STATUS (ct_type e) of None \<Rightarrow> False | Some statuses \<Rightarrow> ct_status e \<in> set statuses) \<and> distinct (ct_tags e))"

definition project_catalog_entry :: "resource_row \<Rightarrow> catalog_entry outcome" where
  "project_catalog_entry r =
     (case (rs_owner_id r, rs_source r, rs_source_ref r, rs_display_name r, rs_visibility r) of
        (Some owner, Some source, Some source_ref, Some name, Some visibility) \<Rightarrow>
          let e = \<lparr>ct_type = rs_type r, ct_id = rs_id r, ct_owner_id = owner, ct_status = rs_status r, ct_source = source,
                ct_source_ref = source_ref, ct_display_name = name, ct_visibility = visibility,
                ct_description = or_else (rs_description r) [], ct_tags = or_else (rs_tags r) []\<rparr>
          in if valid_entry e then Inr e else Inl (ValueError ''ResourceCatalogEntry'')
      | _ \<Rightarrow> Inl (ValueError ''ResourceCatalogEntry''))"

definition catalog_row :: "catalog_entry \<Rightarrow> datetime \<Rightarrow> resource_row" where
  "catalog_row e now = \<lparr>rs_type = ct_type e, rs_id = ct_id e, rs_status = ct_status e, rs_updated_at = now,
     rs_model_alias_id = None, rs_alias = None, rs_concrete_model = None, rs_router = None, rs_inference_provider = None,
     rs_owner_id = Some (ct_owner_id e), rs_source = Some (ct_source e), rs_source_ref = Some (ct_source_ref e),
     rs_display_name = Some (ct_display_name e), rs_visibility = Some (ct_visibility e), rs_description = Some (ct_description e),
     rs_tags = Some (ct_tags e)\<rparr>"

definition create_catalog_row :: "catalog_entry \<Rightarrow> datetime \<Rightarrow> registry \<Rightarrow> (catalog_entry \<times> registry) outcome" where
  "create_catalog_row e now reg =
     and_then (insert_resource (catalog_row e now) reg) (\<lambda>reg'.
     and_then (project_catalog_entry (catalog_row e now)) (\<lambda>x. Inr (x, reg')))"

text \<open>A row whose projection is invalid is not found, and left out of a list.\<close>

definition get_catalog_row :: "string \<Rightarrow> string \<Rightarrow> registry \<Rightarrow> catalog_entry option" where
  "get_catalog_row rtype rid reg =
     (case get_resource rtype rid reg of None \<Rightarrow> None
      | Some r \<Rightarrow> if rs_type r \<notin> set CATALOG_TYPES then None
          else (case project_catalog_entry r of Inl _ \<Rightarrow> None | Inr e \<Rightarrow> Some e))"

record catalog_filter =
  cf_type :: "string option"
  cf_owner_id :: "string option"
  cf_status :: "string option"
  cf_visibility :: "string option"

definition listed :: "catalog_filter \<Rightarrow> resource_row \<Rightarrow> bool" where
  "listed f r =
     (rs_type r \<in> set CATALOG_TYPES \<and> (\<exists>v. rs_visibility r = Some v \<and> v \<noteq> ''hidden'') \<and> rs_status r \<noteq> ''inactive'' \<and>
      (case cf_type f of None \<Rightarrow> True | Some t \<Rightarrow> rs_type r = t) \<and>
      (case cf_owner_id f of None \<Rightarrow> True | Some x \<Rightarrow> rs_owner_id r = Some x) \<and>
      (case cf_status f of None \<Rightarrow> True | Some s \<Rightarrow> rs_status r = s) \<and>
      (case cf_visibility f of None \<Rightarrow> True | Some v \<Rightarrow> rs_visibility r = Some v))"

definition list_catalog_rows :: "catalog_filter \<Rightarrow> nat \<Rightarrow> registry \<Rightarrow> catalog_entry list \<times> bool" where
  "list_catalog_rows f limit reg =
     (if cf_visibility f = Some ''hidden'' then ([], False)
      else let rows = take (limit + 1) (sort_key (\<lambda>r. (rs_type r, rs_id r)) (filter (listed f) (resources reg)))
           in (List.map_filter (\<lambda>r. case project_catalog_entry r of Inl _ \<Rightarrow> None | Inr e \<Rightarrow> Some e) (take limit rows),
               limit < length rows))"

section \<open>Skill versions\<close>

record skill_manifest =
  mf_display_name :: string
  mf_description :: string
  mf_instructions :: string
  mf_dependencies :: "(string \<times> string) list"

definition read_dependency :: "json \<Rightarrow> (string \<times> string) option" where
  "read_dependency j =
     (case j of JObj d \<Rightarrow>
        if \<not> keys_exactly d [''skill_id'', ''version''] then None
        else (case (text_of (get d ''skill_id'') skill_id_pattern, text_of (get d ''version'') version_ok) of
             (Some sid, Some v) \<Rightarrow> Some (sid, v) | _ \<Rightarrow> None)
      | _ \<Rightarrow> None)"

fun read_all :: "('a \<Rightarrow> 'b option) \<Rightarrow> 'a list \<Rightarrow> 'b list option" where
  "read_all f [] = Some []"
| "read_all f (x # xs) = (case (f x, read_all f xs) of (Some y, Some ys) \<Rightarrow> Some (y # ys) | _ \<Rightarrow> None)"

text \<open>\<^verbatim>\<open>SkillManifest\<close>: the bound on the instructions counts characters and encoded bytes.\<close>

definition read_manifest :: "json \<Rightarrow> skill_manifest option" where
  "read_manifest j =
     (case j of JObj d \<Rightarrow>
        if \<not> keys_exactly d [''display_name'', ''description'', ''instructions'', ''dependencies''] then None
        else (case (text_of (get d ''display_name'') (sized 1 200), text_of (get d ''description'') (sized 1 500),
                    text_of (get d ''instructions'') (\<lambda>s. sized 1 16384 s \<and> length s \<le> 16384), get d ''dependencies'') of
             (Some name, Some description, Some instructions, JList deps) \<Rightarrow>
               if 16 < length deps then None
               else map_option (\<lambda>ds. \<lparr>mf_display_name = name, mf_description = description, mf_instructions = instructions,
                      mf_dependencies = ds\<rparr>) (read_all read_dependency deps)
           | _ \<Rightarrow> None)
      | _ \<Rightarrow> None)"

definition manifest_document :: "skill_manifest \<Rightarrow> dict" where
  "manifest_document m = dict [(''display_name'', JStr (mf_display_name m)), (''description'', JStr (mf_description m)),
     (''instructions'', JStr (mf_instructions m)),
     (''dependencies'', JList (map (\<lambda>(sid, v). JObj (dict [(''skill_id'', JStr sid), (''version'', JStr v)])) (mf_dependencies m)))]"

record skill_publish =
  sp_skill_id :: string
  sp_version :: string
  sp_owner_id :: string
  sp_manifest :: skill_manifest

definition skill_resource_id :: "string \<Rightarrow> string \<Rightarrow> string" where
  "skill_resource_id sid version = sid @ ''@'' @ version"

text \<open>\<^verbatim>\<open>SkillVersionRepository._project\<close>: the contract of \<^verbatim>\<open>SkillVersionRecord\<close>.\<close>

definition project_skill :: "skill_version_row \<Rightarrow> skill_version_row outcome" where
  "project_skill v =
     (if skill_id_pattern (sv_skill_id v) \<and> version_ok (sv_version v) \<and> identifier_pattern (sv_owner_id v) \<and>
         catalog_id_pattern (sv_resource_id v) \<and> read_manifest (JObj (sv_manifest v)) \<noteq> None \<and>
         class_run hex_char 64 64 (sv_content_sha256 v) \<and> sv_resource_id v = skill_resource_id (sv_skill_id v) (sv_version v)
      then Inr v else Inl (ValueError ''SkillVersionRecord''))"

definition get_skill_row :: "string \<Rightarrow> string \<Rightarrow> registry \<Rightarrow> skill_version_row option" where
  "get_skill_row sid version reg = select_one (\<lambda>v. sv_skill_id v = sid \<and> sv_version v = version) (skill_versions reg)"

definition insert_skill :: "skill_version_row \<Rightarrow> registry \<Rightarrow> registry outcome" where
  "insert_skill v reg =
     and_then (jsonb (sv_manifest v)) (\<lambda>_.
     and_then (raise_if (\<not> (text_ok 64 (sv_skill_id v) \<and> text_ok 32 (sv_version v) \<and> text_ok 200 (sv_resource_id v) \<and>
         text_ok 64 (sv_owner_id v) \<and> text_ok 64 (sv_content_sha256 v))) (DataError ''skill_versions'')) (\<lambda>_.
     and_then (raise_if (sv_resource_id v \<noteq> skill_resource_id (sv_skill_id v) (sv_version v))
       (IntegrityError ''ck_skill_versions_resource_id'')) (\<lambda>_.
     and_then (raise_if (\<not> skill_id_pattern (sv_skill_id v)) (IntegrityError ''ck_skill_versions_skill_id'')) (\<lambda>_.
     and_then (raise_if (\<not> semver_pattern (sv_version v)) (IntegrityError ''ck_skill_versions_version'')) (\<lambda>_.
     and_then (raise_if (\<not> class_run hex_char 64 64 (sv_content_sha256 v)) (IntegrityError ''ck_skill_versions_hash'')) (\<lambda>_.
     and_then (raise_if (get_skill_row (sv_skill_id v) (sv_version v) reg \<noteq> None) (IntegrityError ''skill_versions_pkey'')) (\<lambda>_.
     and_then (raise_if (get_resource ''skill'' (sv_resource_id v) reg = None) (IntegrityError ''skill_versions_resource_fkey'')) (\<lambda>_.
     Inr (reg\<lparr>skill_versions := skill_versions reg @ [v]\<rparr>)))))))))"

datatype publish_error = SkillVersionConflictError string | Unpublished py_error

definition unpublished :: "'a outcome \<Rightarrow> publish_error + 'a" where
  "unpublished r = (case r of Inl e \<Rightarrow> Inl (Unpublished e) | Inr x \<Rightarrow> Inr x)"

text \<open>The catalog row of a published skill, over a draft of the same owner or new.\<close>

definition published_row :: "skill_publish \<Rightarrow> datetime \<Rightarrow> resource_row \<Rightarrow> resource_row" where
  "published_row b now r = (let m = sp_manifest b
     in r\<lparr>rs_source := Some ''skill'', rs_source_ref := Some (skill_resource_id (sp_skill_id b) (sp_version b)), rs_status := ''published'',
        rs_display_name := Some (mf_display_name m), rs_visibility := Some ''private'', rs_description := Some (mf_description m),
        rs_tags := Some [], rs_updated_at := now\<rparr>)"

definition skill_entry :: "skill_publish \<Rightarrow> catalog_entry" where
  "skill_entry b = (let rid = skill_resource_id (sp_skill_id b) (sp_version b); m = sp_manifest b
     in \<lparr>ct_type = ''skill'', ct_id = rid, ct_owner_id = sp_owner_id b, ct_status = ''published'', ct_source = ''skill'',
         ct_source_ref = rid, ct_display_name = mf_display_name m, ct_visibility = ''private'', ct_description = mf_description m,
         ct_tags = []\<rparr>)"

definition project_skill_catalog :: "skill_publish \<Rightarrow> datetime \<Rightarrow> registry \<Rightarrow> publish_error + registry" where
  "project_skill_catalog b now reg =
     (let rid = skill_resource_id (sp_skill_id b) (sp_version b)
      in case get_resource ''skill'' rid reg of
           Some r \<Rightarrow>
             if rs_owner_id r \<noteq> Some (sp_owner_id b) \<or> rs_status r \<notin> {''draft'', ''published''}
             then Inl (SkillVersionConflictError rid)
             else unpublished (and_then (check_resource (published_row b now r)) (\<lambda>_.
               Inr (reg\<lparr>resources := update_where (\<lambda>x. rs_type x = ''skill'' \<and> rs_id x = rid) (published_row b now) (resources reg)\<rparr>)))
         | None \<Rightarrow> unpublished (and_then (create_catalog_row (skill_entry b) now reg) (\<lambda>(_, reg'). Inr reg')))"

definition publish_skill :: "skill_publish \<Rightarrow> string \<Rightarrow> datetime \<Rightarrow> registry \<Rightarrow> publish_error + skill_version_row \<times> registry" where
  "publish_skill b sha now reg =
     (let rid = skill_resource_id (sp_skill_id b) (sp_version b);
          row = \<lparr>sv_skill_id = sp_skill_id b, sv_version = sp_version b, sv_resource_id = rid, sv_owner_id = sp_owner_id b,
            sv_manifest = manifest_document (sp_manifest b), sv_content_sha256 = sha, sv_created_at = now\<rparr>
      in case get_skill_row (sp_skill_id b) (sp_version b) reg of
           Some v \<Rightarrow>
             if sv_owner_id v \<noteq> sp_owner_id b \<or> sv_content_sha256 v \<noteq> sha then Inl (SkillVersionConflictError rid)
             else unpublished (and_then (project_skill v) (\<lambda>x. Inr (x, reg)))
         | None \<Rightarrow>
             and_then (project_skill_catalog b now reg) (\<lambda>reg1.
             unpublished (and_then (insert_skill row reg1) (\<lambda>reg2. and_then (project_skill row) (\<lambda>x. Inr (x, reg2))))))"

definition get_skill :: "string \<Rightarrow> string \<Rightarrow> registry \<Rightarrow> skill_version_row option outcome" where
  "get_skill sid version reg = project_opt project_skill (get_skill_row sid version reg)"

text \<open>\<^verbatim>\<open>replace_status\<close>: a repeated status under the current version answers the row as it is.\<close>

definition replace_skill_row ::
  "string \<Rightarrow> string \<Rightarrow> string \<Rightarrow> datetime \<Rightarrow> datetime \<Rightarrow> registry \<Rightarrow> ((stale_write + (catalog_entry \<times> datetime) option) \<times> registry) outcome" where
  "replace_skill_row sid version status expected now reg =
     (let rid = skill_resource_id sid version;
          mine = (\<lambda>r. rs_type r = ''skill'' \<and> rs_id r = rid \<and> rs_updated_at r = expected \<and> rs_status r \<noteq> status)
      in and_then (get_skill sid version reg) (\<lambda>found.
         case found of None \<Rightarrow> Inr (Inr None, reg)
         | Some _ \<Rightarrow>
             (case select_one mine (resources reg) of
                Some r \<Rightarrow>
                  and_then (check_resource (status_row status now r)) (\<lambda>_.
                  and_then (project_catalog_entry (status_row status now r)) (\<lambda>e.
                  Inr (Inr (Some (e, now)), reg\<lparr>resources := update_where mine (status_row status now) (resources reg)\<rparr>)))
              | None \<Rightarrow>
                  (case get_resource ''skill'' rid reg of
                     None \<Rightarrow> Inr (Inr None, reg)
                   | Some r \<Rightarrow>
                       if rs_updated_at r \<noteq> expected then Inr (Inl (StaleWriteError rid), reg)
                       else and_then (project_catalog_entry r) (\<lambda>e. Inr (Inr (Some (e, rs_updated_at r)), reg))))))"

definition get_skill_status_row :: "string \<Rightarrow> string \<Rightarrow> registry \<Rightarrow> (catalog_entry \<times> datetime) option outcome" where
  "get_skill_status_row sid version reg =
     and_then (get_skill sid version reg) (\<lambda>found.
     case found of None \<Rightarrow> Inr None
     | Some _ \<Rightarrow>
         (case get_resource ''skill'' (skill_resource_id sid version) reg of
            None \<Rightarrow> Inr None
          | Some r \<Rightarrow> and_then (project_catalog_entry r) (\<lambda>e. Inr (Some (e, rs_updated_at r)))))"

end
