(* ===== verification/Knowledge.thy ===== *)
theory Knowledge
  imports Catalog "HOL-Library.Multiset"
begin

text \<open>
  The body of knowledge: publication of one immutable collection version by a person
  (\<^verbatim>\<open>bok/publication.py\<close>) over the owner's tables (\<^verbatim>\<open>bok/owner.py\<close>). The digests of a bundle and of a
  document's text are parameters.
\<close>

section \<open>Bundles\<close>

record bok_chunk =
  ck_section_id :: string
  ck_chunk_index :: int
  ck_content :: string

record bok_document =
  do_document_id :: string
  do_title :: string
  do_source_ref :: string
  do_chunks :: "bok_chunk list"

record bok_publish =
  bp_collection_id :: string
  bp_version :: string
  bp_display_name :: string
  bp_description :: string
  bp_documents :: "bok_document list"

definition MAX_DOCUMENTS :: nat where
  "MAX_DOCUMENTS = 20"

definition MAX_CHUNKS :: nat where
  "MAX_CHUNKS = 50"

definition BOK_OWNER_ID :: string where
  "BOK_OWNER_ID = ''bok-platform''"

text \<open>\<^verbatim>\<open>[a-z0-9][a-z0-9-]{0,99}\<close>.\<close>

definition bok_slug_pattern :: "string \<Rightarrow> bool" where
  "bok_slug_pattern s = (case s of [] \<Rightarrow> False
     | c # cs \<Rightarrow> lower_digit c \<and> class_run (\<lambda>x. lower_digit x \<or> x = CHR ''-'') 0 99 cs)"

text \<open>\<^verbatim>\<open>[a-z][a-z0-9-]{1,31}(:[A-Za-z0-9._-]{1,64})?\<close>.\<close>

definition origin_pattern :: "string \<Rightarrow> bool" where
  "origin_pattern s =
     (let name = (\<lambda>x. case x of [] \<Rightarrow> False
            | c # cs \<Rightarrow> CHR ''a'' \<le> c \<and> c \<le> CHR ''z'' \<and> class_run (\<lambda>y. lower_digit y \<or> y = CHR ''-'') 1 31 cs)
      in case split_on CHR '':'' s of
           [x] \<Rightarrow> name x
         | [x, y] \<Rightarrow> name x \<and> class_run (\<lambda>c. letter_digit c \<or> c \<in> set ''._-'') 1 64 y
         | _ \<Rightarrow> False)"

definition read_chunk :: "json \<Rightarrow> bok_chunk option" where
  "read_chunk j =
     (case j of JObj d \<Rightarrow>
        if \<not> keys_exactly d [''section_id'', ''chunk_index'', ''content''] then None
        else (case (text_of (get d ''section_id'') bok_slug_pattern, get d ''chunk_index'', text_of (get d ''content'') (sized 1 4000)) of
             (Some sid, JInt n, Some content) \<Rightarrow>
               if 0 \<le> n \<and> n \<le> int MAX_CHUNKS - 1 then Some \<lparr>ck_section_id = sid, ck_chunk_index = n, ck_content = content\<rparr> else None
           | _ \<Rightarrow> None)
      | _ \<Rightarrow> None)"

definition read_document :: "json \<Rightarrow> bok_document option" where
  "read_document j =
     (case j of JObj d \<Rightarrow>
        if \<not> keys_exactly d [''document_id'', ''title'', ''source_ref'', ''chunks''] then None
        else (case (text_of (get d ''document_id'') bok_slug_pattern, text_of (get d ''title'') (sized 1 300),
                    text_of (get d ''source_ref'') (sized 1 500), get d ''chunks'') of
             (Some did, Some title, Some source_ref, JList chunks) \<Rightarrow>
               if 1 \<le> length chunks \<and> length chunks \<le> MAX_CHUNKS
               then map_option (\<lambda>cs. \<lparr>do_document_id = did, do_title = title, do_source_ref = source_ref, do_chunks = cs\<rparr>)
                 (read_all read_chunk chunks)
               else None
           | _ \<Rightarrow> None)
      | _ \<Rightarrow> None)"

text \<open>The validator of \<^verbatim>\<open>BoKPublishRequest\<close>: unique keys and no blank chunk.\<close>

definition version_is_complete :: "bok_document list \<Rightarrow> bool" where
  "version_is_complete docs =
     (distinct (map do_document_id docs) \<and>
      list_all (\<lambda>d. distinct (map (\<lambda>c. (ck_section_id c, ck_chunk_index c)) (do_chunks d)) \<and>
        list_all (\<lambda>c. \<not> blank (ck_content c)) (do_chunks d)) docs)"

definition read_bok_publish :: "json \<Rightarrow> bok_publish option" where
  "read_bok_publish raw =
     (case raw of JObj d \<Rightarrow>
        if \<not> keys_exactly d [''collection_id'', ''version'', ''display_name'', ''description'', ''documents''] then None
        else (case (text_of (get d ''collection_id'') bok_slug_pattern, text_of (get d ''version'') version_ok,
                    text_of (get d ''display_name'') (sized 1 200), text_of (get d ''description'') (sized 0 500), get d ''documents'') of
             (Some cid, Some version, Some name, Some description, JList documents) \<Rightarrow>
               if 1 \<le> length documents \<and> length documents \<le> MAX_DOCUMENTS
               then (case read_all read_document documents of None \<Rightarrow> None
                     | Some docs \<Rightarrow> if version_is_complete docs
                         then Some \<lparr>bp_collection_id = cid, bp_version = version, bp_display_name = name,
                           bp_description = description, bp_documents = docs\<rparr>
                         else None)
               else None
           | _ \<Rightarrow> None)
      | _ \<Rightarrow> None)"

definition chunk_document :: "bok_chunk \<Rightarrow> json" where
  "chunk_document c = JObj (dict [(''section_id'', JStr (ck_section_id c)), (''chunk_index'', JInt (ck_chunk_index c)),
     (''content'', JStr (ck_content c))])"

definition document_document :: "bok_document \<Rightarrow> json" where
  "document_document d = JObj (dict [(''document_id'', JStr (do_document_id d)), (''title'', JStr (do_title d)),
     (''source_ref'', JStr (do_source_ref d)), (''chunks'', JList (map chunk_document (do_chunks d)))])"

definition bok_publish_document :: "bok_publish \<Rightarrow> dict" where
  "bok_publish_document b = dict [(''collection_id'', JStr (bp_collection_id b)), (''version'', JStr (bp_version b)),
     (''display_name'', JStr (bp_display_name b)), (''description'', JStr (bp_description b)),
     (''documents'', JList (map document_document (bp_documents b)))]"

section \<open>The owner's tables\<close>

text \<open>The bundle is the request with the owner and the visibility; the digest is taken of its canonical text.\<close>

record bok_bundle =
  bu_publish :: bok_publish
  bu_owner_id :: string
  bu_visibility :: string

definition bundle_document :: "bok_bundle \<Rightarrow> json" where
  "bundle_document u = JObj (fmupd ''visibility'' (JStr (bu_visibility u)) (fmupd ''owner_id'' (JStr (bu_owner_id u))
     (bok_publish_document (bu_publish u))))"

record digests =
  dg_bundle :: "json \<Rightarrow> string"
  dg_text :: "string \<Rightarrow> string"

datatype bok_error = BoKVersionCollision string | BoKAuthorRefused string | Unowned py_error

definition unowned :: "'a outcome \<Rightarrow> bok_error + 'a" where
  "unowned r = (case r of Inl e \<Rightarrow> Inl (Unowned e) | Inr x \<Rightarrow> Inr x)"

definition bundle_is_ready :: "bok_publish \<Rightarrow> bool" where
  "bundle_is_ready b =
     (bp_documents b \<noteq> [] \<and> list_all (\<lambda>d. do_chunks d \<noteq> []) (bp_documents b) \<and>
      list_all (\<lambda>d. list_all (\<lambda>c. \<not> blank (ck_content c)) (do_chunks d)) (bp_documents b))"

definition document_rows :: "digests \<Rightarrow> bok_publish \<Rightarrow> bok_document_row list" where
  "document_rows dg b = map (\<lambda>d. \<lparr>bd_collection_id = bp_collection_id b, bd_version = bp_version b, bd_document_id = do_document_id d,
     bd_title = do_title d, bd_source_ref = do_source_ref d,
     bd_content_sha256 = dg_text dg (join_with [CHR 0x0A] (map ck_content (do_chunks d)))\<rparr>) (bp_documents b)"

definition chunk_rows :: "bok_publish \<Rightarrow> bok_chunk_row list" where
  "chunk_rows b = concat (map (\<lambda>d. map (\<lambda>c. \<lparr>bc_collection_id = bp_collection_id b, bc_version = bp_version b,
     bc_document_id = do_document_id d, bc_section_id = ck_section_id c, bc_chunk_index = ck_chunk_index c,
     bc_content = ck_content c\<rparr>) (do_chunks d)) (bp_documents b))"

definition get_bok_version_row :: "string \<Rightarrow> string \<Rightarrow> registry \<Rightarrow> bok_version_row option" where
  "get_bok_version_row cid version reg = select_one (\<lambda>v. bv_collection_id v = cid \<and> bv_version v = version) (bok_versions reg)"

definition documents_of :: "string \<Rightarrow> string \<Rightarrow> registry \<Rightarrow> bok_document_row list" where
  "documents_of cid version reg = filter (\<lambda>d. bd_collection_id d = cid \<and> bd_version d = version) (bok_documents reg)"

definition chunks_of :: "string \<Rightarrow> string \<Rightarrow> registry \<Rightarrow> bok_chunk_row list" where
  "chunks_of cid version reg = filter (\<lambda>c. bc_collection_id c = cid \<and> bc_version c = version) (bok_chunks reg)"

text \<open>Two sorted lists are equal exactly when the rows are the same as multisets.\<close>

definition children_match :: "digests \<Rightarrow> bok_publish \<Rightarrow> registry \<Rightarrow> bool" where
  "children_match dg b reg =
     (mset (document_rows dg b) = mset (documents_of (bp_collection_id b) (bp_version b) reg) \<and>
      mset (chunk_rows b) = mset (chunks_of (bp_collection_id b) (bp_version b) reg))"

definition check_bok_version :: "bok_version_row \<Rightarrow> unit outcome" where
  "check_bok_version v =
     and_then (raise_if (\<not> (text_ok 100 (bv_collection_id v) \<and> text_ok 64 (bv_version v) \<and> text_ok 64 (bv_owner_id v) \<and>
         text_ok 16 (bv_status v) \<and> text_ok 64 (bv_manifest_sha256 v) \<and> text_ok 200 (bv_display_name v) \<and>
         text_ok 500 (bv_description v) \<and> text_ok 16 (bv_visibility v) \<and> text_opt_ok 64 (bv_published_by v) \<and>
         text_opt_ok 97 (bv_origin v))) (DataError ''bok_collection_versions'')) (\<lambda>_.
     and_then (raise_if (bv_status v \<notin> {''indexing'', ''ready'', ''active'', ''inactive'', ''revoked''})
       (IntegrityError ''ck_bok_versions_status'')) (\<lambda>_.
     and_then (raise_if (bv_visibility v \<notin> set VISIBILITIES) (IntegrityError ''ck_bok_versions_visibility'')) (\<lambda>_.
     and_then (raise_if (bv_updated_at v < bv_created_at v) (IntegrityError ''ck_bok_versions_lifecycle'')) (\<lambda>_.
     and_then (raise_if (case bv_origin v of None \<Rightarrow> False | Some x \<Rightarrow> \<not> origin_pattern x) (IntegrityError ''ck_bok_versions_origin'')) (\<lambda>_.
     raise_if ((bv_published_by v = None) \<noteq> (bv_origin v = None)) (IntegrityError ''ck_bok_versions_provenance''))))))"

definition document_key :: "bok_document_row \<Rightarrow> string \<times> string \<times> string" where
  "document_key d = (bd_collection_id d, bd_version d, bd_document_id d)"

definition chunk_key :: "bok_chunk_row \<Rightarrow> string \<times> string \<times> string \<times> string \<times> int" where
  "chunk_key c = (bc_collection_id c, bc_version c, bc_document_id c, bc_section_id c, bc_chunk_index c)"

definition document_text_ok :: "bok_document_row \<Rightarrow> bool" where
  "document_text_ok d = (text_ok 100 (bd_collection_id d) \<and> text_ok 64 (bd_version d) \<and> text_ok 100 (bd_document_id d) \<and>
     text_ok 300 (bd_title d) \<and> text_ok 500 (bd_source_ref d) \<and> text_ok 64 (bd_content_sha256 d))"

definition chunk_text_ok :: "bok_chunk_row \<Rightarrow> bool" where
  "chunk_text_ok c = (text_ok 100 (bc_collection_id c) \<and> text_ok 64 (bc_version c) \<and> text_ok 100 (bc_document_id c) \<and>
     text_ok 100 (bc_section_id c) \<and> CHR 0x00 \<notin> set (bc_content c))"

text \<open>The flush of a new version: its row, then its documents, then its chunks, with the keys of each table.\<close>

definition insert_bok ::
  "bok_version_row \<Rightarrow> bok_document_row list \<Rightarrow> bok_chunk_row list \<Rightarrow> registry \<Rightarrow> registry outcome" where
  "insert_bok v docs chunks reg =
     and_then (check_bok_version v) (\<lambda>_.
     and_then (raise_if (get_bok_version_row (bv_collection_id v) (bv_version v) reg \<noteq> None)
       (IntegrityError ''bok_collection_versions_pkey'')) (\<lambda>_.
     and_then (raise_if (\<not> list_all document_text_ok docs) (DataError ''bok_documents'')) (\<lambda>_.
     and_then (raise_if (\<not> distinct (map document_key (docs @ documents_of (bv_collection_id v) (bv_version v) reg)))
       (IntegrityError ''bok_documents_pkey'')) (\<lambda>_.
     and_then (raise_if (\<not> list_all chunk_text_ok chunks) (DataError ''bok_section_chunks'')) (\<lambda>_.
     and_then (raise_if (\<not> list_all (\<lambda>c. 0 \<le> bc_chunk_index c) chunks) (IntegrityError ''ck_bok_chunks_index'')) (\<lambda>_.
     and_then (raise_if (\<not> distinct (map chunk_key (chunks @ chunks_of (bv_collection_id v) (bv_version v) reg)))
       (IntegrityError ''bok_section_chunks_pkey'')) (\<lambda>_.
     Inr (reg\<lparr>bok_versions := bok_versions reg @ [v], bok_documents := bok_documents reg @ docs,
       bok_chunks := bok_chunks reg @ chunks\<rparr>))))))))"

definition ingest_bundle ::
  "digests \<Rightarrow> bok_bundle \<Rightarrow> (string \<times> string) option \<Rightarrow> datetime \<Rightarrow> registry \<Rightarrow> bok_error + bool \<times> registry" where
  "ingest_bundle dg u provenance now reg =
     (let b = bu_publish u; digest = dg_bundle dg (bundle_document u)
      in case get_bok_version_row (bp_collection_id b) (bp_version b) reg of
           Some v \<Rightarrow>
             if bv_manifest_sha256 v \<noteq> digest \<or> \<not> children_match dg b reg
             then Inl (BoKVersionCollision ''collection_version_collision'')
             else Inr (False, reg)
         | None \<Rightarrow>
             and_then (unowned (insert_bok
               \<lparr>bv_collection_id = bp_collection_id b, bv_version = bp_version b, bv_owner_id = bu_owner_id u,
                bv_status = (if bundle_is_ready b then ''ready'' else ''indexing''), bv_manifest_sha256 = digest,
                bv_display_name = bp_display_name b, bv_description = bp_description b, bv_visibility = bu_visibility u,
                bv_created_at = now, bv_updated_at = now, bv_published_by = map_option fst provenance,
                bv_origin = map_option snd provenance\<rparr>
               (document_rows dg b) (chunk_rows b) reg)) (\<lambda>reg'. Inr (True, reg')))"

definition activated :: "datetime \<Rightarrow> bok_version_row \<Rightarrow> bok_version_row" where
  "activated now v = v\<lparr>bv_status := ''active'', bv_updated_at := now\<rparr>"

definition bok_resource_id :: "bok_publish \<Rightarrow> string" where
  "bok_resource_id b = bp_collection_id b @ ''@'' @ bp_version b"

definition activate_version :: "digests \<Rightarrow> bok_bundle \<Rightarrow> datetime \<Rightarrow> registry \<Rightarrow> bok_error + registry" where
  "activate_version dg u now reg =
     (let b = bu_publish u; mine = (\<lambda>v. bv_collection_id v = bp_collection_id b \<and> bv_version v = bp_version b);
          projection = (\<lambda>r. rs_type r = ''bok_collection'' \<and> rs_id r = bok_resource_id b)
      in case get_bok_version_row (bp_collection_id b) (bp_version b) reg of
           None \<Rightarrow> Inl (Unowned (ValueError ''bok_version_not_ready''))
         | Some v \<Rightarrow>
             if bv_status v \<notin> {''ready'', ''active''} \<or> \<not> bundle_is_ready b then Inl (Unowned (ValueError ''bok_version_not_ready''))
             else if bv_manifest_sha256 v \<noteq> dg_bundle dg (bundle_document u) \<or> \<not> children_match dg b reg
             then Inl (BoKVersionCollision ''collection_version_collision'')
             else and_then (unowned (check_bok_version (activated now v))) (\<lambda>_.
               Inr (reg\<lparr>bok_versions := update_where mine (activated now) (bok_versions reg),
                 resources := update_where projection (status_row ''active'' now) (resources reg)\<rparr>)))"

definition bok_entry :: "bok_bundle \<Rightarrow> string list \<Rightarrow> catalog_entry" where
  "bok_entry u tags = (let b = bu_publish u
     in \<lparr>ct_type = ''bok_collection'', ct_id = bok_resource_id b, ct_owner_id = bu_owner_id u, ct_status = ''active'', ct_source = ''bok'',
         ct_source_ref = bok_resource_id b, ct_display_name = bp_display_name b, ct_visibility = bu_visibility u,
         ct_description = bp_description b, ct_tags = tags\<rparr>)"

text \<open>Ingest, activate and project: the catalog row is new or holds exactly the expected columns.\<close>

definition publish_bundle ::
  "digests \<Rightarrow> bok_bundle \<Rightarrow> string list \<Rightarrow> (string \<times> string) option \<Rightarrow> datetime \<Rightarrow> registry \<Rightarrow> bok_error + bool \<times> registry" where
  "publish_bundle dg u tags provenance now reg =
     and_then (ingest_bundle dg u provenance now reg) (\<lambda>(created, reg1).
     and_then (activate_version dg u now reg1) (\<lambda>reg2.
     let expected = catalog_row (bok_entry u tags) now
     in case get_resource ''bok_collection'' (bok_resource_id (bu_publish u)) reg2 of
          None \<Rightarrow> and_then (unowned (insert_resource expected reg2)) (\<lambda>reg3. Inr (True, reg3))
        | Some r \<Rightarrow>
            if (rs_type r, rs_id r, rs_status r, rs_owner_id r, rs_source r, rs_source_ref r, rs_display_name r, rs_visibility r,
                rs_description r, rs_tags r) =
               (rs_type expected, rs_id expected, rs_status expected, rs_owner_id expected, rs_source expected, rs_source_ref expected,
                rs_display_name expected, rs_visibility expected, rs_description expected, rs_tags expected)
            then Inr (created, reg2) else Inl (BoKVersionCollision ''bok_catalog_projection_conflict'')))"

section \<open>Publication by a person\<close>

definition bok_summary :: "bok_publish \<Rightarrow> dict" where
  "bok_summary b = dict [(''resource_id'', JStr (bok_resource_id b)), (''collection_id'', JStr (bp_collection_id b)),
     (''version'', JStr (bp_version b)), (''owner_id'', JStr BOK_OWNER_ID), (''display_name'', JStr (bp_display_name b)),
     (''description'', JStr (bp_description b)), (''visibility'', JStr ''private''), (''status'', JStr ''active''),
     (''document_count'', JInt (int (length (bp_documents b)))),
     (''chunk_count'', JInt (int (sum_list (map (\<lambda>d. length (do_chunks d)) (bp_documents b)))))]"

definition bundle_of :: "bok_publish \<Rightarrow> bok_bundle" where
  "bundle_of b = \<lparr>bu_publish = b, bu_owner_id = BOK_OWNER_ID, bu_visibility = ''private''\<rparr>"

definition publish_bok :: "digests \<Rightarrow> bok_publish \<Rightarrow> principal \<Rightarrow> string \<Rightarrow> datetime \<Rightarrow> registry \<Rightarrow> bok_error + (dict \<times> bool) \<times> registry" where
  "publish_bok dg b author origin now reg =
     (if p_kind author \<noteq> ''human'' \<or> p_status author \<noteq> ''active'' then Inl (BoKAuthorRefused ''bok_author_not_active_human'')
      else if \<not> origin_pattern origin then Inl (Unowned (ValueError ''bok_origin_invalid''))
      else and_then (publish_bundle dg (bundle_of b) [''bok''] (Some (p_id author, origin)) now reg) (\<lambda>(created, reg').
        Inr ((bok_summary b, created), reg')))"

text \<open>\<^verbatim>\<open>read_bok_version\<close>: the owner's view within the publication limits, documents and chunks in the order of their keys.\<close>

definition published_document :: "bok_chunk_row list \<Rightarrow> bok_document_row \<Rightarrow> bok_document" where
  "published_document chunks d = \<lparr>do_document_id = bd_document_id d, do_title = bd_title d, do_source_ref = bd_source_ref d,
     do_chunks = take MAX_CHUNKS (map (\<lambda>c. \<lparr>ck_section_id = bc_section_id c, ck_chunk_index = bc_chunk_index c, ck_content = bc_content c\<rparr>)
       (filter (\<lambda>c. bc_document_id c = bd_document_id d) chunks))\<rparr>"

definition read_bok_version :: "string \<Rightarrow> string \<Rightarrow> registry \<Rightarrow> dict option" where
  "read_bok_version cid version reg =
     (case get_bok_version_row cid version reg of None \<Rightarrow> None
      | Some v \<Rightarrow>
          let documents = take MAX_DOCUMENTS (sort_key bd_document_id (documents_of cid version reg));
              chunks = take (MAX_DOCUMENTS * MAX_CHUNKS)
                (sort_key (\<lambda>c. (bc_document_id c, bc_section_id c, bc_chunk_index c)) (chunks_of cid version reg));
              published = map (published_document chunks) documents
          in Some (dict [(''resource_id'', JStr (cid @ ''@'' @ version)), (''collection_id'', JStr cid), (''version'', JStr version),
               (''owner_id'', JStr (bv_owner_id v)), (''display_name'', JStr (bv_display_name v)),
               (''description'', JStr (bv_description v)), (''visibility'', JStr (bv_visibility v)), (''status'', JStr (bv_status v)),
               (''document_count'', JInt (int (length published))),
               (''chunk_count'', JInt (int (sum_list (map (\<lambda>d. length (do_chunks d)) published)))),
               (''published_by'', jopt (bv_published_by v)), (''origin'', jopt (bv_origin v)),
               (''documents'', JList (map document_document published))]))"

end
