(* ===== verification/ControlCatalog.thy ===== *)
theory ControlCatalog
  imports LimitPolicy Knowledge
begin

text \<open>
  The administrative handlers of model aliases, the resource catalog, skill versions and versions of a
  body of knowledge (\<^verbatim>\<open>control/service.py\<close>), over the repositories of \<open>Catalog\<close> and \<open>Knowledge\<close>.
\<close>

section \<open>Request bodies and documents\<close>

definition read_tags :: "json \<Rightarrow> string list option" where
  "read_tags j = (case j of JList xs \<Rightarrow> if 16 < length xs then None else read_all (\<lambda>x. text_of x tag_pattern) xs | _ \<Rightarrow> None)"

definition jtags :: "string list \<Rightarrow> json" where
  "jtags tags = JList (map JStr tags)"

definition nullable_text :: "dict \<Rightarrow> string \<Rightarrow> (string \<Rightarrow> bool) \<Rightarrow> string option option" where
  "nullable_text d k p = nullable (\<lambda>j. text_of j p) (get d k)"

definition read_alias_create :: "json \<Rightarrow> model_alias_create option" where
  "read_alias_create raw =
     (case raw of JObj d \<Rightarrow>
        if \<not> keys_within d [''model_alias_id'', ''alias'', ''concrete_model'', ''router'', ''inference_provider'', ''owner_id'', ''source'',
            ''source_ref'', ''display_name'', ''visibility'', ''description'', ''tags''] then None
        else (case (text_of (get d ''model_alias_id'') identifier_pattern, text_of (get d ''alias'') alias_pattern,
                    text_of (get d ''concrete_model'') model_pattern, text_of (get d ''router'') (\<lambda>s. s = ''openrouter''),
                    text_of (get d ''inference_provider'') (sized 1 100)) of
             (Some aid, Some alias, Some model, Some router, Some provider) \<Rightarrow>
               (case (nullable_text d ''owner_id'' identifier_pattern, nullable_text d ''source'' (\<lambda>s. s = ''model_alias''),
                      nullable_text d ''source_ref'' catalog_id_pattern, nullable_text d ''display_name'' (sized 1 200),
                      nullable_text d ''visibility'' (\<lambda>v. v \<in> set VISIBILITIES), nullable_text d ''description'' (sized 0 500),
                      nullable read_tags (get d ''tags'')) of
                  (Some owner, Some source, Some source_ref, Some name, Some visibility, Some description, Some tags) \<Rightarrow>
                    Some \<lparr>mn_model_alias_id = aid, mn_alias = alias, mn_concrete_model = model, mn_router = router,
                      mn_inference_provider = provider, mn_owner_id = owner, mn_source = source, mn_source_ref = source_ref,
                      mn_display_name = name, mn_visibility = visibility, mn_description = description, mn_tags = tags\<rparr>
                | _ \<Rightarrow> None)
           | _ \<Rightarrow> None)
      | _ \<Rightarrow> None)"

definition alias_create_document :: "model_alias_create \<Rightarrow> json" where
  "alias_create_document b = JObj (dict [(''model_alias_id'', JStr (mn_model_alias_id b)), (''alias'', JStr (mn_alias b)),
     (''concrete_model'', JStr (mn_concrete_model b)), (''router'', JStr (mn_router b)),
     (''inference_provider'', JStr (mn_inference_provider b)), (''owner_id'', jopt (mn_owner_id b)), (''source'', jopt (mn_source b)),
     (''source_ref'', jopt (mn_source_ref b)), (''display_name'', jopt (mn_display_name b)), (''visibility'', jopt (mn_visibility b)),
     (''description'', jopt (mn_description b)), (''tags'', case mn_tags b of None \<Rightarrow> JNull | Some tags \<Rightarrow> jtags tags)])"

definition alias_document :: "control_env \<Rightarrow> model_alias \<Rightarrow> dict" where
  "alias_document env a = dict [(''model_alias_id'', JStr (ma_id a)), (''alias'', JStr (ma_alias a)),
     (''concrete_model'', JStr (ma_concrete_model a)), (''router'', JStr (ma_router a)),
     (''inference_provider'', JStr (ma_inference_provider a)), (''status'', JStr (ma_status a)),
     (''updated_at'', JStr (ev_iso env (ma_updated_at a)))]"

text \<open>\<^verbatim>\<open>ModelAlias.model_validate_json(...).model_dump(mode="json")\<close> of a stored answer; the version is optional.\<close>

definition reread_alias :: "control_env \<Rightarrow> dict \<Rightarrow> dict option" where
  "reread_alias env d =
     (if \<not> keys_within d [''model_alias_id'', ''alias'', ''concrete_model'', ''router'', ''inference_provider'', ''status'', ''updated_at''] then None
      else case (text_of (get d ''model_alias_id'') identifier_pattern, text_of (get d ''alias'') alias_pattern,
                 text_of (get d ''concrete_model'') model_pattern, text_of (get d ''router'') (sized 1 100),
                 text_of (get d ''inference_provider'') (sized 1 100), text_of (get d ''status'') (\<lambda>s. s = ''active'' \<or> s = ''inactive''),
                 nullable (ev_aware env) (get d ''updated_at'')) of
             (Some _, Some _, Some _, Some _, Some _, Some _, Some at_time) \<Rightarrow> Some (fmupd ''updated_at'' (expiry_text at_time) d)
           | _ \<Rightarrow> None)"

definition entry_document :: "catalog_entry \<Rightarrow> dict" where
  "entry_document e = dict [(''resource_type'', JStr (ct_type e)), (''resource_id'', JStr (ct_id e)), (''owner_id'', JStr (ct_owner_id e)),
     (''status'', JStr (ct_status e)), (''source'', JStr (ct_source e)), (''source_ref'', JStr (ct_source_ref e)),
     (''discoverability'', JObj (dict [(''display_name'', JStr (ct_display_name e)), (''visibility'', JStr (ct_visibility e)),
        (''description'', JStr (ct_description e)), (''tags'', jtags (ct_tags e))]))]"

text \<open>The fields of a catalog entry, with the types and sources a reader admits.\<close>

definition read_entry :: "string list \<Rightarrow> string list \<Rightarrow> json \<Rightarrow> catalog_entry option" where
  "read_entry types sources j =
     (case j of JObj d \<Rightarrow>
        if \<not> keys_exactly d [''resource_type'', ''resource_id'', ''owner_id'', ''status'', ''source'', ''source_ref'', ''discoverability''] then None
        else (case (text_of (get d ''resource_type'') (\<lambda>t. t \<in> set types), text_of (get d ''resource_id'') catalog_id_pattern,
                    text_of (get d ''owner_id'') identifier_pattern, text_of (get d ''status'') (\<lambda>s. s \<in> set CATALOG_STATUSES),
                    text_of (get d ''source'') (\<lambda>s. s \<in> set sources), text_of (get d ''source_ref'') catalog_id_pattern,
                    get d ''discoverability'') of
             (Some t, Some rid, Some owner, Some status, Some source, Some source_ref, JObj s) \<Rightarrow>
               if \<not> keys_exactly s [''display_name'', ''visibility'', ''description'', ''tags''] then None
               else (case (text_of (get s ''display_name'') (sized 1 200), text_of (get s ''visibility'') (\<lambda>v. v \<in> set VISIBILITIES),
                           text_of (get s ''description'') (sized 0 500), read_tags (get s ''tags'')) of
                    (Some name, Some visibility, Some description, Some tags) \<Rightarrow>
                      Some \<lparr>ct_type = t, ct_id = rid, ct_owner_id = owner, ct_status = status, ct_source = source,
                        ct_source_ref = source_ref, ct_display_name = name, ct_visibility = visibility, ct_description = description,
                        ct_tags = tags\<rparr>
                  | _ \<Rightarrow> None)
           | _ \<Rightarrow> None)
      | _ \<Rightarrow> None)"

text \<open>\<^verbatim>\<open>CatalogCreate\<close> leaves out the language models, which only their aliases create.\<close>

definition read_catalog_create :: "json \<Rightarrow> catalog_entry option" where
  "read_catalog_create = read_entry (tl CATALOG_TYPES) [''mcp'', ''skill'', ''bok'', ''incident_workflow'', ''deploy_executor'']"

definition reread_entry :: "dict \<Rightarrow> dict option" where
  "reread_entry d = (case read_entry CATALOG_TYPES (map snd EXPECTED_SOURCE) (JObj d) of None \<Rightarrow> None
     | Some e \<Rightarrow> if valid_entry e then Some (entry_document e) else None)"

text \<open>\<^verbatim>\<open>len(json.dumps(...).encode("utf-8"))\<close> with escapes for everything outside printable ASCII.\<close>

definition escaped_size :: "nat \<Rightarrow> nat" where
  "escaped_size c = (if c \<in> {34, 92, 10, 13, 9, 8, 12} then 2 else if 32 \<le> c \<and> c \<le> 126 then 1 else if c < 65536 then 6 else 12)"

definition text_size :: "string \<Rightarrow> nat" where
  "text_size s = 2 + sum_list (map escaped_size (utf8_decode s))"

definition list_size :: "nat list \<Rightarrow> nat" where
  "list_size ns = 2 + sum_list ns + (length ns - 1)"

definition object_size :: "(string \<times> nat) list \<Rightarrow> nat" where
  "object_size kvs = list_size (map (\<lambda>(k, n). length k + 3 + n) kvs)"

definition publication_size :: "skill_publish \<Rightarrow> nat" where
  "publication_size b = (let m = sp_manifest b
     in object_size [(''skill_id'', text_size (sp_skill_id b)), (''version'', text_size (sp_version b)),
       (''owner_id'', text_size (sp_owner_id b)),
       (''manifest'', object_size [(''display_name'', text_size (mf_display_name m)), (''description'', text_size (mf_description m)),
          (''instructions'', text_size (mf_instructions m)),
          (''dependencies'', list_size (map (\<lambda>(sid, v). object_size [(''skill_id'', text_size sid), (''version'', text_size v)])
             (mf_dependencies m)))])])"

definition read_skill_publish :: "json \<Rightarrow> skill_publish option" where
  "read_skill_publish raw =
     (case raw of JObj d \<Rightarrow>
        if \<not> keys_exactly d [''skill_id'', ''version'', ''owner_id'', ''manifest''] then None
        else (case (text_of (get d ''skill_id'') skill_id_pattern, text_of (get d ''version'') version_ok,
                    text_of (get d ''owner_id'') identifier_pattern, read_manifest (get d ''manifest'')) of
             (Some sid, Some version, Some owner, Some m) \<Rightarrow>
               let b = \<lparr>sp_skill_id = sid, sp_version = version, sp_owner_id = owner, sp_manifest = m\<rparr>
               in if publication_size b \<le> 32768 then Some b else None
           | _ \<Rightarrow> None)
      | _ \<Rightarrow> None)"

definition skill_publish_document :: "skill_publish \<Rightarrow> json" where
  "skill_publish_document b = JObj (dict [(''skill_id'', JStr (sp_skill_id b)), (''version'', JStr (sp_version b)),
     (''owner_id'', JStr (sp_owner_id b)), (''manifest'', JObj (manifest_document (sp_manifest b)))])"

definition skill_document :: "control_env \<Rightarrow> skill_version_row \<Rightarrow> dict" where
  "skill_document env v = dict [(''skill_id'', JStr (sv_skill_id v)), (''version'', JStr (sv_version v)), (''owner_id'', JStr (sv_owner_id v)),
     (''resource_id'', JStr (sv_resource_id v)), (''manifest'', JObj (sv_manifest v)), (''content_sha256'', JStr (sv_content_sha256 v)),
     (''created_at'', JStr (ev_iso env (sv_created_at v)))]"

definition reread_skill :: "control_env \<Rightarrow> dict \<Rightarrow> dict option" where
  "reread_skill env d =
     (if \<not> keys_exactly d [''skill_id'', ''version'', ''owner_id'', ''resource_id'', ''manifest'', ''content_sha256'', ''created_at''] then None
      else case (text_of (get d ''skill_id'') skill_id_pattern, text_of (get d ''version'') version_ok,
                 text_of (get d ''owner_id'') identifier_pattern, text_of (get d ''resource_id'') catalog_id_pattern,
                 read_manifest (get d ''manifest''), text_of (get d ''content_sha256'') (class_run hex_char 64 64),
                 ev_aware env (get d ''created_at'')) of
             (Some sid, Some version, Some _, Some rid, Some _, Some _, Some (_, text)) \<Rightarrow>
               if rid = skill_resource_id sid version then Some (fmupd ''created_at'' (JStr text) d) else None
           | _ \<Rightarrow> None)"

definition skill_status_document :: "control_env \<Rightarrow> catalog_entry \<Rightarrow> datetime \<Rightarrow> dict" where
  "skill_status_document env e at_time = dict [(''resource_type'', JStr ''skill''), (''resource_id'', JStr (ct_id e)),
     (''status'', JStr (ct_status e)), (''updated_at'', JStr (ev_iso env at_time))]"

section \<open>Creating an alias or a catalog resource\<close>

text \<open>A request seen before is answered again without another audit event.\<close>

definition replayed_as ::
  "control_env \<Rightarrow> control_call \<Rightarrow> string \<times> string \<Rightarrow> subject \<Rightarrow> (dict \<Rightarrow> dict option) \<Rightarrow> idempotency_outcome \<Rightarrow> control_db \<Rightarrow>
     control_db \<Rightarrow> handled" where
  "replayed_as env cl op who reread io before after =
     (case reread (io_response_payload io) of
        None \<Rightarrow> answer env cl op (refused who 409 ''idempotency_conflict'' None) before
      | Some d \<Rightarrow> (Inr \<lparr>hr_status = io_response_status io, hr_body = Some (JObj d)\<rparr>, after))"

text \<open>The end of a creating transaction: the answer is kept for the key, then the event is appended.\<close>

definition answer_created ::
  "control_env \<Rightarrow> control_call \<Rightarrow> string \<times> string \<Rightarrow> subject \<Rightarrow> claim_request \<Rightarrow> int \<Rightarrow> dict \<Rightarrow> idempotency_row list \<Rightarrow> registry \<Rightarrow>
     control_db \<Rightarrow> handled" where
  "answer_created env cl op who q status d rows reg db =
     (case set_response_payload (cq_scope q) (cq_key_digest q) d rows of
        Inl e \<Rightarrow> (Inl (uncaught_binding e), db)
      | Inr rows' \<Rightarrow> answer_within env cl op (granted who status (Some d) (Some ''grant_matched'')) db
          (db\<lparr>cb_registry := reg, cb_bindings := rows'\<rparr>))"

definition create_alias :: "control_env \<Rightarrow> control_call \<Rightarrow> json \<Rightarrow> string option \<Rightarrow> string option \<Rightarrow> control_db \<Rightarrow> handled" where
  "create_alias env cl raw header key db =
     (let op = (''aliases.create'', ''admin.write'')
      in if invalid_key key then answer env cl op (invalid_request 400 ''invalid_idempotency_key'') db
         else case read_alias_create raw of None \<Rightarrow> answer env cl op (invalid_request 422 ''validation_error'') db
         | Some b \<Rightarrow>
             if (case mn_tags b of None \<Rightarrow> False | Some tags \<Rightarrow> \<not> distinct tags)
             then answer env cl op (invalid_request 422 ''validation_error'') db
             else governed env cl op header ''model_aliases'' db (\<lambda>who.
               let q = claim_for env cl who ''POST'' ''/v1/model-aliases'' ''at_least_24h'' key (alias_create_document b) 201 (mn_model_alias_id b)
               in claimed env cl op who q db (\<lambda>binding rows.
                 if ib_replayed binding
                 then replayed_as env cl op who (reread_alias env) (ib_outcome binding) db (db\<lparr>cb_bindings := rows\<rparr>)
                 else case create_alias_row b (cl_now cl) (cb_registry db) of
                        Inl e \<Rightarrow>
                          (case e of IntegrityError constraint \<Rightarrow> answer env cl op (refused who 409 ''idempotency_conflict'' None) db
                           | _ \<Rightarrow> (Inl e, db))
                      | Inr (a, reg) \<Rightarrow>
                          answer_created env cl op who q (io_response_status (ib_outcome binding)) (alias_document env a) rows reg db)))"

definition create_catalog_resource :: "control_env \<Rightarrow> control_call \<Rightarrow> json \<Rightarrow> string option \<Rightarrow> string option \<Rightarrow> control_db \<Rightarrow> handled" where
  "create_catalog_resource env cl raw header key db =
     (let op = (''catalog.create'', ''admin.write'')
      in if invalid_key key then answer env cl op (invalid_request 400 ''invalid_idempotency_key'') db
         else case read_catalog_create raw of None \<Rightarrow> answer env cl op (invalid_request 422 ''validation_error'') db
         | Some b \<Rightarrow>
             if \<not> distinct (ct_tags b) \<or> map_of EXPECTED_SOURCE (ct_type b) \<noteq> Some (ct_source b) \<or>
                (case map_of ALLOWED_STATUS (ct_type b) of None \<Rightarrow> True | Some statuses \<Rightarrow> ct_status b \<notin> set statuses)
             then answer env cl op (invalid_request 422 ''validation_error'') db
             else governed env cl op header ''catalog'' db (\<lambda>who.
               let q = claim_for env cl who ''POST'' ''/v1/catalog/resources'' ''at_least_24h'' key (JObj (entry_document b)) 201
                 (ct_type b @ ''/'' @ ct_id b)
               in claimed env cl op who q db (\<lambda>binding rows.
                 if ib_replayed binding
                 then replayed_as env cl op who reread_entry (ib_outcome binding) db (db\<lparr>cb_bindings := rows\<rparr>)
                 else case create_catalog_row b (cl_now cl) (cb_registry db) of
                        Inl e \<Rightarrow>
                          (case e of IntegrityError constraint \<Rightarrow> answer env cl op (refused who 409 ''idempotency_conflict'' None) db
                           | _ \<Rightarrow> (Inl e, db))
                      | Inr (e, reg) \<Rightarrow>
                          answer_created env cl op who q (io_response_status (ib_outcome binding)) (entry_document e) rows reg db)))"

section \<open>Model aliases\<close>

definition list_aliases :: "control_env \<Rightarrow> control_call \<Rightarrow> string option \<Rightarrow> string \<Rightarrow> bool \<Rightarrow> control_db \<Rightarrow> handled" where
  "list_aliases env cl header limit extra db =
     (let op = (''aliases.list'', ''admin.read''); n = parsed_limit limit
      in if extra \<or> \<not> limit_ok n then answer env cl op (invalid_request 422 ''validation_error'') db
         else governed env cl op header ''model_aliases'' db (\<lambda>who.
           case list_alias_rows n (cb_registry db) of
             Inl e \<Rightarrow> (Inl e, db)
           | Inr (items, truncated) \<Rightarrow> answer env cl op (granted who 200
               (Some (page_document (map (alias_document env) items) n truncated)) (Some ''grant_matched'')) db))"

definition get_alias :: "control_env \<Rightarrow> control_call \<Rightarrow> string \<Rightarrow> string option \<Rightarrow> control_db \<Rightarrow> handled" where
  "get_alias env cl aid header db =
     (let op = (''aliases.get'', ''admin.read'')
      in authenticated env cl op header db (\<lambda>c.
         if \<not> matches_line identifier_pattern aid then answer env cl op (invalid_request 422 ''validation_error'') db
         else permitted env cl op (403, ''resource_unavailable'') c ''model_aliases'' db (\<lambda>who.
           case get_alias_row aid (cb_registry db) of
             Inl e \<Rightarrow> (Inl e, db)
           | Inr None \<Rightarrow> answer env cl op (refused who 404 ''resource_not_found'' None) db
           | Inr (Some a) \<Rightarrow> answer env cl op (granted who 200 (Some (alias_document env a)) (Some ''grant_matched'')) db)))"

record alias_assignment =
  as_concrete_model :: string
  as_router :: string
  as_inference_provider :: string
  as_expected_updated_at :: datetime

definition read_alias_assignment :: "control_env \<Rightarrow> json \<Rightarrow> alias_assignment option" where
  "read_alias_assignment env raw =
     (case raw of JObj d \<Rightarrow>
        if \<not> keys_exactly d [''concrete_model'', ''router'', ''inference_provider'', ''expected_updated_at''] then None
        else (case (text_of (get d ''concrete_model'') model_pattern, text_of (get d ''router'') (\<lambda>s. s = ''openrouter''),
                    text_of (get d ''inference_provider'') (sized 1 100), ev_aware env (get d ''expected_updated_at'')) of
             (Some model, Some router, Some provider, Some (t, _)) \<Rightarrow>
               Some \<lparr>as_concrete_model = model, as_router = router, as_inference_provider = provider, as_expected_updated_at = t\<rparr>
           | _ \<Rightarrow> None)
      | _ \<Rightarrow> None)"

text \<open>The common end of the two alias replacements; only a stale version leaves the transaction by an exception.\<close>

definition answer_alias ::
  "control_env \<Rightarrow> control_call \<Rightarrow> string \<times> string \<Rightarrow> subject \<Rightarrow> control_db \<Rightarrow> ((stale_write + model_alias option) \<times> registry) outcome \<Rightarrow>
     handled" where
  "answer_alias env cl op who db replaced =
     (case replaced of
        Inl e \<Rightarrow> (Inl e, db)
      | Inr (Inl stale, _) \<Rightarrow> answer env cl op (refused who 409 ''status_conflict'' None) db
      | Inr (Inr None, reg) \<Rightarrow> answer_within env cl op (refused who 404 ''resource_not_found'' None) db (db\<lparr>cb_registry := reg\<rparr>)
      | Inr (Inr (Some a), reg) \<Rightarrow>
          answer_within env cl op (granted who 200 (Some (alias_document env a)) (Some ''grant_matched'')) db (db\<lparr>cb_registry := reg\<rparr>))"

definition replace_alias_assignment :: "control_env \<Rightarrow> control_call \<Rightarrow> string \<Rightarrow> json \<Rightarrow> string option \<Rightarrow> control_db \<Rightarrow> handled" where
  "replace_alias_assignment env cl aid raw header db =
     (let op = (''aliases.assignment.replace'', ''admin.write'')
      in authenticated env cl op header db (\<lambda>c.
         if \<not> matches_line identifier_pattern aid then answer env cl op (invalid_request 422 ''validation_error'') db
         else case read_alias_assignment env raw of None \<Rightarrow> answer env cl op (invalid_request 422 ''validation_error'') db
         | Some b \<Rightarrow>
             permitted env cl op (403, ''resource_unavailable'') c ''model_aliases'' db (\<lambda>who.
             answer_alias env cl op who db (replace_alias_row aid
               (assigned_row (as_concrete_model b) (as_router b) (as_inference_provider b) (cl_now cl)) (as_expected_updated_at b) (cb_registry db)))))"

definition replace_alias_status :: "control_env \<Rightarrow> control_call \<Rightarrow> string \<Rightarrow> json \<Rightarrow> string option \<Rightarrow> control_db \<Rightarrow> handled" where
  "replace_alias_status env cl aid raw header db =
     (let op = (''aliases.status.replace'', ''admin.write'')
      in authenticated env cl op header db (\<lambda>c.
         if \<not> matches_line identifier_pattern aid then answer env cl op (invalid_request 422 ''validation_error'') db
         else case read_status_replace env raw of None \<Rightarrow> answer env cl op (invalid_request 422 ''validation_error'') db
         | Some (status, expected) \<Rightarrow>
             permitted env cl op (403, ''resource_unavailable'') c ''model_aliases'' db (\<lambda>who.
             answer_alias env cl op who db (replace_alias_row aid (status_row status (cl_now cl)) expected (cb_registry db)))))"

section \<open>The catalog\<close>

definition filter_ok :: "catalog_filter \<Rightarrow> bool" where
  "filter_ok f =
     ((case cf_type f of None \<Rightarrow> True | Some t \<Rightarrow> t \<in> set CATALOG_TYPES) \<and>
      (case cf_owner_id f of None \<Rightarrow> True | Some x \<Rightarrow> matches_line identifier_pattern x) \<and>
      (case cf_status f of None \<Rightarrow> True | Some s \<Rightarrow> s \<in> set CATALOG_STATUSES) \<and>
      (case cf_visibility f of None \<Rightarrow> True | Some v \<Rightarrow> v \<in> set VISIBILITIES))"

definition list_catalog_resources ::
  "control_env \<Rightarrow> control_call \<Rightarrow> string option \<Rightarrow> catalog_filter \<Rightarrow> string \<Rightarrow> bool \<Rightarrow> control_db \<Rightarrow> handled" where
  "list_catalog_resources env cl header f limit extra db =
     (let op = (''catalog.list'', ''admin.read''); n = parsed_limit limit
      in if \<not> limit_ok n \<or> extra \<or> \<not> filter_ok f then answer env cl op (invalid_request 422 ''validation_error'') db
         else governed env cl op header ''catalog'' db (\<lambda>who.
           case list_catalog_rows f n (cb_registry db) of
             (items, truncated) \<Rightarrow> answer env cl op (granted who 200
               (Some (page_document (map entry_document items) n truncated)) (Some ''grant_matched'')) db))"

definition get_catalog_resource :: "control_env \<Rightarrow> control_call \<Rightarrow> string \<Rightarrow> string \<Rightarrow> string option \<Rightarrow> control_db \<Rightarrow> handled" where
  "get_catalog_resource env cl rtype rid header db =
     (let op = (''catalog.read'', ''admin.read'')
      in authenticated env cl op header db (\<lambda>c.
         if rtype \<notin> set CATALOG_TYPES \<or> \<not> matches_line catalog_id_pattern rid
         then answer env cl op (invalid_request 422 ''validation_error'') db
         else permitted env cl op (403, ''resource_unavailable'') c ''catalog'' db (\<lambda>who.
           case get_catalog_row rtype rid (cb_registry db) of
             None \<Rightarrow> answer env cl op (refused who 404 ''resource_not_found'' None) db
           | Some e \<Rightarrow>
               if ct_visibility e = ''hidden'' \<or> ct_status e = ''inactive''
               then answer env cl op (refused who 404 ''resource_not_found'' None) db
               else answer env cl op (granted who 200 (Some (entry_document e)) (Some ''grant_matched'')) db)))"

section \<open>Skill versions\<close>

definition publish_skill_version :: "control_env \<Rightarrow> control_call \<Rightarrow> json \<Rightarrow> string option \<Rightarrow> string option \<Rightarrow> control_db \<Rightarrow> handled" where
  "publish_skill_version env cl raw header key db =
     (let op = (''catalog.create'', ''admin.write'')
      in if invalid_key key then answer env cl op (invalid_request 400 ''invalid_idempotency_key'') db
         else case read_skill_publish raw of None \<Rightarrow> answer env cl op (invalid_request 422 ''validation_error'') db
         | Some b \<Rightarrow>
             governed env cl op header ''catalog'' db (\<lambda>who.
             let q = claim_for env cl who ''POST'' ''/v1/skills/versions'' ''at_least_24h'' key (skill_publish_document b) 201
               (skill_resource_id (sp_skill_id b) (sp_version b))
             in claimed env cl op who q db (\<lambda>binding rows.
               if ib_replayed binding
               then case reread_skill env (io_response_payload (ib_outcome binding)) of
                      None \<Rightarrow> (Inl (ValueError ''SkillVersionRecord''), db)
                    | Some d \<Rightarrow> answer_within env cl op (granted who 201 (Some d) (Some ''grant_matched'')) db (db\<lparr>cb_bindings := rows\<rparr>)
               else case publish_skill b (cq_payload_sha256 q) (cl_now cl) (cb_registry db) of
                      Inl (SkillVersionConflictError rid) \<Rightarrow> answer env cl op (refused who 409 ''status_conflict'' None) db
                    | Inl (Unpublished e) \<Rightarrow>
                        (case e of IntegrityError constraint \<Rightarrow> answer env cl op (refused who 409 ''status_conflict'' None) db
                         | _ \<Rightarrow> (Inl e, db))
                    | Inr (v, reg) \<Rightarrow> answer_created env cl op who q 201 (skill_document env v) rows reg db)))"

definition get_skill_version :: "control_env \<Rightarrow> control_call \<Rightarrow> string \<Rightarrow> string \<Rightarrow> string option \<Rightarrow> control_db \<Rightarrow> handled" where
  "get_skill_version env cl sid version header db =
     (let op = (''catalog.read'', ''admin.read'')
      in authenticated env cl op header db (\<lambda>c.
         if \<not> skill_id_pattern sid \<or> \<not> version_ok version then answer env cl op (invalid_request 422 ''validation_error'') db
         else permitted env cl op (403, ''resource_unavailable'') c ''catalog'' db (\<lambda>who.
           case get_skill sid version (cb_registry db) of
             Inl e \<Rightarrow> (Inl e, db)
           | Inr found \<Rightarrow>
               (case (found, get_catalog_row ''skill'' (skill_resource_id sid version) (cb_registry db)) of
                  (Some v, Some e) \<Rightarrow>
                    if ct_status e = ''inactive'' then answer env cl op (refused who 404 ''resource_not_found'' None) db
                    else answer env cl op (granted who 200 (Some (skill_document env v)) (Some ''grant_matched'')) db
                | _ \<Rightarrow> answer env cl op (refused who 404 ''resource_not_found'' None) db))))"

text \<open>Reading the status needs the right to write, as its scope says.\<close>

definition get_skill_status :: "control_env \<Rightarrow> control_call \<Rightarrow> string \<Rightarrow> string \<Rightarrow> string option \<Rightarrow> control_db \<Rightarrow> handled" where
  "get_skill_status env cl sid version header db =
     (let op = (''catalog.read'', ''admin.write'')
      in authenticated env cl op header db (\<lambda>c.
         if \<not> skill_id_pattern sid \<or> \<not> version_ok version then answer env cl op (invalid_request 422 ''validation_error'') db
         else permitted env cl op (403, ''resource_unavailable'') c ''catalog'' db (\<lambda>who.
           case get_skill_status_row sid version (cb_registry db) of
             Inl e \<Rightarrow> (Inl e, db)
           | Inr None \<Rightarrow> answer env cl op (refused who 404 ''resource_not_found'' None) db
           | Inr (Some (e, at_time)) \<Rightarrow>
               if ct_status e \<noteq> ''active'' \<and> ct_status e \<noteq> ''inactive''
               then answer env cl op (refused who 404 ''resource_not_found'' None) db
               else answer env cl op (granted who 200 (Some (skill_status_document env e at_time)) (Some ''grant_matched'')) db)))"

definition replace_skill_status :: "control_env \<Rightarrow> control_call \<Rightarrow> string \<Rightarrow> string \<Rightarrow> json \<Rightarrow> string option \<Rightarrow> control_db \<Rightarrow> handled" where
  "replace_skill_status env cl sid version raw header db =
     (let op = (''catalog.status.replace'', ''admin.write'')
      in authenticated env cl op header db (\<lambda>c.
         if \<not> skill_id_pattern sid \<or> \<not> version_ok version then answer env cl op (invalid_request 422 ''validation_error'') db
         else case read_status_replace env raw of None \<Rightarrow> answer env cl op (invalid_request 422 ''validation_error'') db
         | Some (status, expected) \<Rightarrow>
             permitted env cl op (403, ''resource_unavailable'') c ''catalog'' db (\<lambda>who.
             case replace_skill_row sid version status expected (cl_now cl) (cb_registry db) of
               Inl e \<Rightarrow> (Inl e, db)
             | Inr (Inl stale, _) \<Rightarrow> answer env cl op (refused who 409 ''status_conflict'' None) db
             | Inr (Inr None, reg) \<Rightarrow> answer_within env cl op (refused who 404 ''resource_not_found'' None) db (db\<lparr>cb_registry := reg\<rparr>)
             | Inr (Inr (Some (e, at_time)), reg) \<Rightarrow>
                 answer_within env cl op (granted who 200 (Some (skill_status_document env e at_time)) (Some ''grant_matched'')) db
                   (db\<lparr>cb_registry := reg\<rparr>))))"

section \<open>Body of knowledge\<close>

definition env_digests :: "control_env \<Rightarrow> digests" where
  "env_digests env = \<lparr>dg_bundle = ev_bundle_sha256 env, dg_text = ev_text_sha256 env\<rparr>"

definition publish_bok_version :: "control_env \<Rightarrow> control_call \<Rightarrow> json \<Rightarrow> string option \<Rightarrow> string option \<Rightarrow> control_db \<Rightarrow> handled" where
  "publish_bok_version env cl raw header key db =
     (let op = (''catalog.create'', ''admin.write'')
      in if invalid_key key then answer env cl op (invalid_request 400 ''invalid_idempotency_key'') db
         else case read_bok_publish raw of None \<Rightarrow> answer env cl op (invalid_request 422 ''validation_error'') db
         | Some b \<Rightarrow>
             governed env cl op header ''catalog'' db (\<lambda>who.
             let q = claim_for env cl who ''POST'' ''/v1/bok/collections/versions'' ''at_least_24h'' key (JObj (bok_publish_document b)) 201
               (bok_resource_id b)
             in claimed env cl op who q db (\<lambda>binding rows.
               if ib_replayed binding
               then answer_within env cl op (granted who 200 (Some (io_response_payload (ib_outcome binding))) (Some ''grant_matched'')) db
                 (db\<lparr>cb_bindings := rows\<rparr>)
               else case publish_bok (env_digests env) b (pc_principal (fst who)) ''console'' (cl_now cl) (cb_registry db) of
                      Inl (BoKVersionCollision reason) \<Rightarrow> answer env cl op (refused who 409 ''status_conflict'' None) db
                    | Inl (BoKAuthorRefused reason) \<Rightarrow> answer env cl op (refused who 403 ''resource_unavailable'' None) db
                    | Inl (Unowned e) \<Rightarrow>
                        (case e of IntegrityError constraint \<Rightarrow> answer env cl op (refused who 409 ''status_conflict'' None) db
                         | _ \<Rightarrow> (Inl e, db))
                    | Inr ((summary, created), reg) \<Rightarrow>
                        answer_created env cl op who q (if created then 201 else 200) summary rows reg db)))"

definition get_bok_version :: "control_env \<Rightarrow> control_call \<Rightarrow> string \<Rightarrow> string \<Rightarrow> string option \<Rightarrow> control_db \<Rightarrow> handled" where
  "get_bok_version env cl cid version header db =
     (let op = (''catalog.read'', ''admin.read'')
      in authenticated env cl op header db (\<lambda>c.
         if \<not> bok_slug_pattern cid \<or> \<not> version_ok version then answer env cl op (invalid_request 422 ''validation_error'') db
         else permitted env cl op (403, ''resource_unavailable'') c ''catalog'' db (\<lambda>who.
           case read_bok_version cid version (cb_registry db) of
             None \<Rightarrow> answer env cl op (refused who 404 ''resource_not_found'' None) db
           | Some d \<Rightarrow> answer env cl op (granted who 200 (Some d) (Some ''grant_matched'')) db)))"

end
