(* ===== verification/Changes.thy ===== *)
theory Changes
  imports ControlCatalog
begin

text \<open>
  What a control request may change. \<open>serve\<close> routes a request to its handler; \<open>change\<close> lists the kinds of
  change an authorized request can make, each with the reply that reports it, and \<open>served\<close> says that a
  handler either leaves the tables as they are or makes one such change. The rules about \<open>served\<close>
  follow the branches of a handler.
\<close>

section \<open>Routes\<close>

datatype control_request =
    CreatePrincipal json "string option"
  | ListPrincipals string bool
  | GetPrincipal string
  | ReplacePrincipalStatus string json
  | IssueCredential string json "string option"
  | ListCredentials string string bool
  | RevokeCredential string
  | RotateCredential string json "string option"
  | CreateGrant json "string option"
  | ListGrants "string option" "string option" string bool
  | RevokeGrant string
  | GetPolicy
  | ReplacePolicy json "string option"
  | CreateAlias json "string option"
  | ListAliases string bool
  | GetAlias string
  | ReplaceAliasAssignment string json
  | ReplaceAliasStatus string json
  | CreateCatalogResource json "string option"
  | ListCatalogResources catalog_filter string bool
  | GetCatalogResource string string
  | PublishSkill json "string option"
  | GetSkill string string
  | GetSkillStatus string string
  | ReplaceSkillStatus string string json
  | PublishBok json "string option"
  | GetBok string string

fun serve :: "control_env \<Rightarrow> control_call \<Rightarrow> string option \<Rightarrow> control_request \<Rightarrow> control_db \<Rightarrow> handled" where
  "serve env cl header (CreatePrincipal raw key) = create_principal env cl raw header key"
| "serve env cl header (ListPrincipals limit extra) = list_principals env cl header limit extra"
| "serve env cl header (GetPrincipal pid) = get_principal env cl pid header"
| "serve env cl header (ReplacePrincipalStatus pid raw) = replace_principal_status env cl pid raw header"
| "serve env cl header (IssueCredential pid raw key) = issue_credential env cl pid raw header key"
| "serve env cl header (ListCredentials pid limit extra) = list_credentials env cl pid header limit extra"
| "serve env cl header (RevokeCredential cid) = revoke_credential env cl cid header"
| "serve env cl header (RotateCredential cid raw key) = rotate_credential env cl cid raw header key"
| "serve env cl header (CreateGrant raw key) = service_create_grant env cl raw header key"
| "serve env cl header (ListGrants pid rid limit extra) = list_grants env cl header pid rid limit extra"
| "serve env cl header (RevokeGrant gid) = service_revoke_grant env cl gid header"
| "serve env cl header GetPolicy = get_policy env cl header"
| "serve env cl header (ReplacePolicy raw key) = replace_policy env cl raw header key"
| "serve env cl header (CreateAlias raw key) = create_alias env cl raw header key"
| "serve env cl header (ListAliases limit extra) = list_aliases env cl header limit extra"
| "serve env cl header (GetAlias aid) = get_alias env cl aid header"
| "serve env cl header (ReplaceAliasAssignment aid raw) = replace_alias_assignment env cl aid raw header"
| "serve env cl header (ReplaceAliasStatus aid raw) = replace_alias_status env cl aid raw header"
| "serve env cl header (CreateCatalogResource raw key) = create_catalog_resource env cl raw header key"
| "serve env cl header (ListCatalogResources f limit extra) = list_catalog_resources env cl header f limit extra"
| "serve env cl header (GetCatalogResource rtype rid) = get_catalog_resource env cl rtype rid header"
| "serve env cl header (PublishSkill raw key) = publish_skill_version env cl raw header key"
| "serve env cl header (GetSkill sid version) = get_skill_version env cl sid version header"
| "serve env cl header (GetSkillStatus sid version) = get_skill_status env cl sid version header"
| "serve env cl header (ReplaceSkillStatus sid version raw) = replace_skill_status env cl sid version raw header"
| "serve env cl header (PublishBok raw key) = publish_bok_version env cl raw header key"
| "serve env cl header (GetBok cid version) = get_bok_version env cl cid version header"

text \<open>The operation and the administrative resource of a route (\<^verbatim>\<open>CONTROL_OPERATIONS\<close>, \<^verbatim>\<open>CONTROL_SCOPES\<close>).\<close>

fun route :: "control_request \<Rightarrow> (string \<times> string) \<times> string" where
  "route (CreatePrincipal _ _) = ((''principals.create'', ''admin.write''), ''principals'')"
| "route (ListPrincipals _ _) = ((''principals.list'', ''admin.read''), ''principals'')"
| "route (GetPrincipal _) = ((''principals.get'', ''admin.read''), ''principals'')"
| "route (ReplacePrincipalStatus _ _) = ((''principals.status.replace'', ''admin.write''), ''principals'')"
| "route (IssueCredential _ _ _) = ((''credentials.issue'', ''admin.write''), ''credentials'')"
| "route (ListCredentials _ _ _) = ((''credentials.list'', ''admin.read''), ''credentials'')"
| "route (RevokeCredential _) = ((''credentials.revoke'', ''admin.write''), ''credentials'')"
| "route (RotateCredential _ _ _) = ((''credentials.rotate'', ''admin.write''), ''credentials'')"
| "route (CreateGrant _ _) = ((''grants.create'', ''admin.write''), ''grants'')"
| "route (ListGrants _ _ _ _) = ((''grants.list'', ''admin.read''), ''grants'')"
| "route (RevokeGrant _) = ((''grants.revoke'', ''admin.write''), ''grants'')"
| "route GetPolicy = ((''consumption_limits.get'', ''admin.read''), ''consumption_limits'')"
| "route (ReplacePolicy _ _) = ((''consumption_limits.replace'', ''admin.write''), ''consumption_limits'')"
| "route (CreateAlias _ _) = ((''aliases.create'', ''admin.write''), ''model_aliases'')"
| "route (ListAliases _ _) = ((''aliases.list'', ''admin.read''), ''model_aliases'')"
| "route (GetAlias _) = ((''aliases.get'', ''admin.read''), ''model_aliases'')"
| "route (ReplaceAliasAssignment _ _) = ((''aliases.assignment.replace'', ''admin.write''), ''model_aliases'')"
| "route (ReplaceAliasStatus _ _) = ((''aliases.status.replace'', ''admin.write''), ''model_aliases'')"
| "route (CreateCatalogResource _ _) = ((''catalog.create'', ''admin.write''), ''catalog'')"
| "route (ListCatalogResources _ _ _) = ((''catalog.list'', ''admin.read''), ''catalog'')"
| "route (GetCatalogResource _ _) = ((''catalog.read'', ''admin.read''), ''catalog'')"
| "route (PublishSkill _ _) = ((''catalog.create'', ''admin.write''), ''catalog'')"
| "route (GetSkill _ _) = ((''catalog.read'', ''admin.read''), ''catalog'')"
| "route (GetSkillStatus _ _) = ((''catalog.read'', ''admin.write''), ''catalog'')"
| "route (ReplaceSkillStatus _ _ _) = ((''catalog.status.replace'', ''admin.write''), ''catalog'')"
| "route (PublishBok _ _) = ((''catalog.create'', ''admin.write''), ''catalog'')"
| "route (GetBok _ _) = ((''catalog.read'', ''admin.read''), ''catalog'')"

text \<open>The tables other than the audit trail.\<close>

definition tables :: "control_db \<Rightarrow> registry \<times> credential_row list \<times> idempotency_row list \<times> limit_policy option" where
  "tables db = (cb_registry db, cb_credentials db, cb_bindings db, cb_policy db)"

section \<open>Changes\<close>

definition authorized ::
  "control_env \<Rightarrow> control_call \<Rightarrow> string option \<Rightarrow> (string \<times> string) \<times> string \<Rightarrow> control_db \<Rightarrow> subject \<Rightarrow> bool" where
  "authorized env cl header rt db who =
     (authorization_context (ev_scrypt env) header (cl_now cl) (cb_registry db) (cb_credentials db) = Inr (Some (fst who)) \<and>
      fst (snd who) = control_resource (snd rt) \<and> p_status (pc_principal (fst who)) = ''active'' \<and>
      active_grant (cb_registry db) (p_id (pc_principal (fst who))) (snd (fst rt)) ''administrative_control'' (snd rt) \<and>
      pd_decision (snd (snd who)) = ''allow'' \<and> pd_policy_id (snd (snd who)) \<noteq> None)"

definition fresh_claim :: "claim_request \<Rightarrow> control_db \<Rightarrow> idempotency_row list \<Rightarrow> bool" where
  "fresh_claim q db rows = (\<exists>b. claim_or_replay q (cb_bindings db) = Inr (b, rows) \<and> \<not> ib_replayed b)"

definition answered_claim :: "claim_request \<Rightarrow> dict \<Rightarrow> control_db \<Rightarrow> idempotency_row list \<Rightarrow> bool" where
  "answered_claim q payload db rows =
     (\<exists>rows1. fresh_claim q db rows1 \<and> set_response_payload (cq_scope q) (cq_key_digest q) payload rows1 = Inr rows)"

text \<open>The kinds of change, with the reply that reports each.\<close>

datatype change_kind =
    PrincipalCreation
  | StatusReplacement string
  | CredentialIssue string json "string option"
  | CredentialRevocation string
  | CredentialRotation string
  | GrantCreation
  | GrantRevocation string
  | PolicyReplacement json
  | AliasCreation
  | AliasReplacement string
  | CatalogCreation
  | SkillPublication
  | SkillStatusReplacement string string
  | BokPublication

inductive change :: "control_env \<Rightarrow> control_call \<Rightarrow> subject \<Rightarrow> control_db \<Rightarrow> change_kind \<Rightarrow> reply \<Rightarrow> control_db \<Rightarrow> bool" for env cl who db where
  principal_created: "create_principal_row pid kind name (cl_now cl) (cb_registry db) = Inr (p, reg) \<Longrightarrow> fresh_claim q db rows \<Longrightarrow>
    change env cl who db PrincipalCreation (granted who 201 (Some (principal_document env p)) None) (db\<lparr>cb_registry := reg, cb_bindings := rows\<rparr>)"
| status_replaced: "replace_principal_row pid status expected (cl_now cl) (cb_registry db) = Inr (Inr (Some p), reg) \<Longrightarrow>
    change env cl who db (StatusReplacement pid) (granted who 200 (Some (principal_document env p)) None) (db\<lparr>cb_registry := reg\<rparr>)"
| credential_issued: "read_credential_issue env raw = Some expires \<Longrightarrow>
    q = claim_for env cl who ''POST'' (''/v1/principals/'' @ pid @ ''/credentials'') ''principal_lifetime'' key
      (JObj (dict [(''expires_at'', expiry_text expires)])) 201 pid \<Longrightarrow>
    issue (ev_scrypt env) (cl_draw cl) pid (map_option fst expires) (cl_now cl) (cb_registry db) (cb_credentials db) =
      Inr (issued, credentials) \<Longrightarrow> metadata = issuance_metadata env (expiry_text expires) (ia_credential issued) None \<Longrightarrow>
    answered_claim q metadata db rows \<Longrightarrow>
    change env cl who db (CredentialIssue pid raw key) (granted who 201 (Some (revealed metadata (ia_key issued))) None)
      (db\<lparr>cb_credentials := credentials, cb_bindings := rows\<rparr>)"
| credential_revoked: "revoke_credential_row cid (cl_now cl) (cb_credentials db) = Inr (found, credentials) \<Longrightarrow>
    change env cl who db (CredentialRevocation cid) (granted who 204 None None) (db\<lparr>cb_credentials := credentials\<rparr>)"
| credential_rotated: "get_credential cid (cb_credentials db) = Inr (Some old) \<Longrightarrow>
    rotate (ev_scrypt env) (cl_draw cl) cid (map_option fst expires) (cl_now cl) (cb_registry db) (cb_credentials db) =
      Inr (Some issued, credentials) \<Longrightarrow>
    issuance = issuance_metadata env (expiry_text expires) (ia_credential issued) (Some (ce_id old)) \<Longrightarrow>
    answered_claim q (rotation_metadata env old issuance) db rows \<Longrightarrow>
    change env cl who db (CredentialRotation cid) (granted who 201 (Some (rotation_metadata env old (revealed issuance (ia_key issued)))) None)
      (db\<lparr>cb_credentials := credentials, cb_bindings := rows\<rparr>)"
| grant_created: "create_grant gid pid action rtype rid (cl_now cl) (cb_registry db) = Inr (g, reg) \<Longrightarrow>
    grant_action_admitted rtype action \<Longrightarrow> answered_claim q (grant_document env g) db rows \<Longrightarrow>
    change env cl who db GrantCreation (granted who 201 (Some (grant_document env g)) (Some ''grant_matched''))
      (db\<lparr>cb_registry := reg, cb_bindings := rows\<rparr>)"
| grant_revoked: "revoke_grant gid (cb_registry db) = Inr (Some g, reg) \<Longrightarrow>
    change env cl who db (GrantRevocation gid) (granted who 204 None (Some ''grant_matched'')) (db\<lparr>cb_registry := reg\<rparr>)"
| policy_replaced: "read_policy_update raw = Some b \<Longrightarrow> cb_policy db = Some p \<Longrightarrow> pu_expected_version b = lp_version p \<Longrightarrow> lp_version p \<noteq> MAX_BIGINT \<Longrightarrow>
    stored_policy (replaced_policy b (cl_now cl) p) = Inr row \<Longrightarrow>
    answered_claim q (policy_response (replaced_policy b (cl_now cl) p)) db rows \<Longrightarrow>
    change env cl who db (PolicyReplacement raw) (granted who 200 (Some (policy_response (replaced_policy b (cl_now cl) p))) None)
      (db\<lparr>cb_policy := Some row, cb_bindings := rows\<rparr>)"
| alias_created: "create_alias_row b (cl_now cl) (cb_registry db) = Inr (a, reg) \<Longrightarrow> answered_claim q (alias_document env a) db rows \<Longrightarrow>
    change env cl who db AliasCreation (granted who 201 (Some (alias_document env a)) (Some ''grant_matched''))
      (db\<lparr>cb_registry := reg, cb_bindings := rows\<rparr>)"
| alias_replaced: "f = assigned_row model router provider (cl_now cl) \<or> f = status_row status (cl_now cl) \<Longrightarrow>
    replace_alias_row aid f expected (cb_registry db) = Inr (Inr (Some a), reg) \<Longrightarrow>
    change env cl who db (AliasReplacement aid) (granted who 200 (Some (alias_document env a)) (Some ''grant_matched'')) (db\<lparr>cb_registry := reg\<rparr>)"
| catalog_created: "create_catalog_row b (cl_now cl) (cb_registry db) = Inr (e, reg) \<Longrightarrow> answered_claim q (entry_document e) db rows \<Longrightarrow>
    change env cl who db CatalogCreation (granted who 201 (Some (entry_document e)) (Some ''grant_matched''))
      (db\<lparr>cb_registry := reg, cb_bindings := rows\<rparr>)"
| skill_published: "publish_skill p sha (cl_now cl) (cb_registry db) = Inr (v, reg) \<Longrightarrow> answered_claim q (skill_document env v) db rows \<Longrightarrow>
    change env cl who db SkillPublication (granted who 201 (Some (skill_document env v)) (Some ''grant_matched''))
      (db\<lparr>cb_registry := reg, cb_bindings := rows\<rparr>)"
| skill_status_replaced: "replace_skill_row sid version status expected (cl_now cl) (cb_registry db) = Inr (Inr (Some (e, at_time)), reg) \<Longrightarrow>
    change env cl who db (SkillStatusReplacement sid version) (granted who 200 (Some (skill_status_document env e at_time)) (Some ''grant_matched''))
      (db\<lparr>cb_registry := reg\<rparr>)"
| bok_published: "publish_bok (env_digests env) u (pc_principal (fst who)) ''console'' (cl_now cl) (cb_registry db) = Inr ((summary, created), reg) \<Longrightarrow>
    answered_claim q summary db rows \<Longrightarrow> s = (if created then 201 else 200) \<Longrightarrow>
    change env cl who db BokPublication (granted who s (Some summary) (Some ''grant_matched'')) (db\<lparr>cb_registry := reg, cb_bindings := rows\<rparr>)"

text \<open>The one kind of change a route may make.\<close>

fun kind_of :: "control_request \<Rightarrow> change_kind option" where
  "kind_of (CreatePrincipal _ _) = Some PrincipalCreation"
| "kind_of (ReplacePrincipalStatus pid _) = Some (StatusReplacement pid)"
| "kind_of (IssueCredential pid raw key) = Some (CredentialIssue pid raw key)"
| "kind_of (RevokeCredential cid) = Some (CredentialRevocation cid)"
| "kind_of (RotateCredential cid _ _) = Some (CredentialRotation cid)"
| "kind_of (CreateGrant _ _) = Some GrantCreation"
| "kind_of (RevokeGrant gid) = Some (GrantRevocation gid)"
| "kind_of (ReplacePolicy raw _) = Some (PolicyReplacement raw)"
| "kind_of (CreateAlias _ _) = Some AliasCreation"
| "kind_of (ReplaceAliasAssignment aid _) = Some (AliasReplacement aid)"
| "kind_of (ReplaceAliasStatus aid _) = Some (AliasReplacement aid)"
| "kind_of (CreateCatalogResource _ _) = Some CatalogCreation"
| "kind_of (PublishSkill _ _) = Some SkillPublication"
| "kind_of (ReplaceSkillStatus sid version _) = Some (SkillStatusReplacement sid version)"
| "kind_of (PublishBok _ _) = Some BokPublication"
| "kind_of _ = None"

text \<open>The routes that append their audit event in the transaction of the change.\<close>

fun transactional :: "control_request \<Rightarrow> bool" where
  "transactional (CreateGrant _ _) = True"
| "transactional (RevokeGrant _) = True"
| "transactional (ReplacePolicy _ _) = True"
| "transactional (CreateAlias _ _) = True"
| "transactional (ReplaceAliasAssignment _ _) = True"
| "transactional (ReplaceAliasStatus _ _) = True"
| "transactional (CreateCatalogResource _ _) = True"
| "transactional (PublishSkill _ _) = True"
| "transactional (ReplaceSkillStatus _ _ _) = True"
| "transactional (PublishBok _ _) = True"
| "transactional _ = False"

definition served ::
  "control_env \<Rightarrow> control_call \<Rightarrow> string option \<Rightarrow> (string \<times> string) \<times> string \<Rightarrow> change_kind option \<Rightarrow> bool \<Rightarrow> control_db \<Rightarrow> handled \<Rightarrow> bool" where
  "served env cl header rt kind atomic db h =
     (tables (snd h) = tables db \<or>
      (\<exists>k who r db1. kind = Some k \<and> authorized env cl header rt db who \<and> change env cl who db k r db1 \<and>
         h = (if atomic then answer_within env cl (fst rt) r db db1 else answer env cl (fst rt) r db1)))"

lemma tables_audit [simp]: "tables (db\<lparr>cb_audit := a\<rparr>) = tables db"
  by (simp add: tables_def)

lemma tables_answer [simp]: "tables (snd (answer env cl op r db)) = tables db"
  by (simp add: answer_def split: prod.splits)

lemma tables_answer_within: "tables db1 = tables db \<Longrightarrow> tables (snd (answer_within env cl op r db db1)) = tables db"
  using tables_answer [of env cl op r db1] by (cases "answer env cl op r db1") (auto simp: answer_within_def split: sum.splits)

lemma served_quiet: "tables (snd h) = tables db \<Longrightarrow> served env cl header rt kind atomic db h"
  by (simp add: served_def)

lemma served_raised [simp]: "served env cl header rt kind atomic db (Inl e, db)"
  by (simp add: served_def)

lemma served_answer [simp]: "served env cl header rt kind atomic db (answer env cl op r db)"
  by (simp add: served_def)

lemma served_change:
  assumes "authorized env cl header (op, name) db who" and "change env cl who db kind r db1"
  shows "served env cl header (op, name) (Some kind) False db (answer env cl op r db1)"
  unfolding served_def using assms by (metis fst_conv)

lemma served_atomic:
  assumes "authorized env cl header (op, name) db who" and "change env cl who db kind r db1"
  shows "served env cl header (op, name) (Some kind) True db (answer_within env cl op r db db1)"
  unfolding served_def using assms by (metis fst_conv)

text \<open>Following the branches of a handler.\<close>

lemma served_if:
  "(c \<Longrightarrow> served env cl header rt kind atomic db a) \<Longrightarrow> (\<not> c \<Longrightarrow> served env cl header rt kind atomic db b) \<Longrightarrow>
     served env cl header rt kind atomic db (if c then a else b)"
  by simp

lemma served_option:
  "(x = None \<Longrightarrow> served env cl header rt kind atomic db a) \<Longrightarrow> (\<And>y. x = Some y \<Longrightarrow> served env cl header rt kind atomic db (b y)) \<Longrightarrow>
     served env cl header rt kind atomic db (case x of None \<Rightarrow> a | Some y \<Rightarrow> b y)"
  by (cases x) simp_all

lemma served_sum:
  "(\<And>e. x = Inl e \<Longrightarrow> served env cl header rt kind atomic db (a e)) \<Longrightarrow> (\<And>y. x = Inr y \<Longrightarrow> served env cl header rt kind atomic db (b y)) \<Longrightarrow>
     served env cl header rt kind atomic db (case x of Inl e \<Rightarrow> a e | Inr y \<Rightarrow> b y)"
  by (cases x) simp_all

lemma served_pair:
  "(\<And>y z. x = (y, z) \<Longrightarrow> served env cl header rt kind atomic db (f y z)) \<Longrightarrow> served env cl header rt kind atomic db (case x of (y, z) \<Rightarrow> f y z)"
  by (cases x) simp_all

section \<open>The checks\<close>

lemma evaluate_decision:
  assumes "evaluate view find_grant pr action rtype rid = Inr ev" and "\<not> denied ev"
  shows "allowed ev" and "pd_decision (au_decision ev) = ''allow''" and "pd_policy_id (au_decision ev) \<noteq> None"
  using assms by (auto simp: evaluate_def denied_def allowed_def deny_eq make_decision_def make_evaluation_def outcome_simps
      split: option.splits if_splits)

lemma authorizedI:
  assumes "authorization_context (ev_scrypt env) header (cl_now cl) (cb_registry db) (cb_credentials db) = Inr (Some c)"
    and "evaluate view (find_active (cb_registry db)) (pc_principal c) (snd op) (fst (control_resource name)) (snd (control_resource name)) = Inr ev"
    and "\<not> denied ev" and "view = owner_view (cb_registry db) \<or> view = resource_view (cb_registry db)"
  shows "authorized env cl header (op, name) db (c, control_resource name, au_decision ev)"
proof -
  have "p_status (pc_principal c) = ''active'' \<and>
      active_grant (cb_registry db) (p_id (pc_principal c)) (snd op) ''administrative_control'' name"
    using assms(4) owners.decided(1) catalog.decided(1) assms(2) evaluate_decision(1) [OF assms(2,3)]
    by (auto simp: control_resource_def)
  then show ?thesis using assms(1) evaluate_decision [OF assms(2,3)] by (simp add: authorized_def)
qed

lemma served_governed:
  assumes "\<And>who. authorized env cl header (op, name) db who \<Longrightarrow> served env cl header (op, name) kind atomic db (k who)"
  shows "served env cl header (op, name) kind atomic db (governed env cl op header name db k)"
proof (cases "authorize_governed_access (ev_scrypt env) header (snd op, control_resource name) (cl_now cl) (cb_registry db) (cb_credentials db)")
  case (Inr found)
  show ?thesis
  proof (cases found)
    case (Some ce)
    obtain c ev where ce: "ce = (c, ev)" by (cases ce)
    have ctx: "authorization_context (ev_scrypt env) header (cl_now cl) (cb_registry db) (cb_credentials db) = Inr (Some c)"
      and eval: "evaluate (owner_view (cb_registry db)) (find_active (cb_registry db)) (pc_principal c) (snd op)
        (fst (control_resource name)) (snd (control_resource name)) = Inr ev"
      using Inr Some ce by (auto simp: authorize_governed_access_def and_then_Inr_iff split: option.splits)
    show ?thesis
    proof (cases "denied ev")
      case True
      then show ?thesis using Inr Some ce by (simp add: governed_def)
    next
      case False
      have "authorized env cl header (op, name) db (c, control_resource name, au_decision ev)"
        by (rule authorizedI [OF ctx eval False]) simp
      with False assms show ?thesis using Inr Some ce by (simp add: governed_def)
    qed
  qed (simp add: governed_def Inr)
qed (simp add: governed_def)

lemma served_authenticated:
  assumes "\<And>c. authorization_context (ev_scrypt env) header (cl_now cl) (cb_registry db) (cb_credentials db) = Inr (Some c) \<Longrightarrow>
    served env cl header rt kind atomic db (k c)"
  shows "served env cl header rt kind atomic db (authenticated env cl op header db k)"
  using assms by (auto simp: authenticated_def split: sum.splits option.splits)

lemma served_permitted:
  assumes "authorization_context (ev_scrypt env) header (cl_now cl) (cb_registry db) (cb_credentials db) = Inr (Some c)"
    and "\<And>who. authorized env cl header (op, name) db who \<Longrightarrow> served env cl header (op, name) kind atomic db (k who)"
  shows "served env cl header (op, name) kind atomic db (permitted env cl op denial c name db k)"
proof (cases "evaluate (resource_view (cb_registry db)) (find_active (cb_registry db)) (pc_principal c) (snd op)
    (fst (control_resource name)) (snd (control_resource name))")
  case (Inr ev)
  then show ?thesis
    using assms(2) [OF authorizedI [OF assms(1) Inr]] by (cases "denied ev") (simp_all add: permitted_def)
qed (simp add: permitted_def)

lemma claim_replay_same: "claim_or_replay q rows = Inr (b, rows') \<Longrightarrow> ib_replayed b \<Longrightarrow> rows' = rows"
  by (erule claim_replay_Inr)

lemma served_claimed:
  assumes "\<And>b rows. claim_or_replay q (cb_bindings db) = Inr (b, rows) \<Longrightarrow> served env cl header rt kind atomic db (k b rows)"
  shows "served env cl header rt kind atomic db (claimed env cl op who q db k)"
  using assms by (auto simp: claimed_def split: sum.splits binding_error.splits)

lemma bindings_same: "rows = cb_bindings db \<Longrightarrow> tables (db\<lparr>cb_bindings := rows\<rparr>) = tables db"
  by (simp add: tables_def)

lemma fresh_claimI: "claim_or_replay q (cb_bindings db) = Inr (b, rows) \<Longrightarrow> \<not> ib_replayed b \<Longrightarrow> fresh_claim q db rows"
  by (auto simp: fresh_claim_def)

lemma fresh_outcome: "claim_or_replay q rows = Inr (b, rows') \<Longrightarrow> \<not> ib_replayed b \<Longrightarrow> ib_outcome b = cq_outcome q"
  by (auto simp: claim_or_replay_def Let_def replay_binding_def outcome_simps split: option.splits if_splits)

section \<open>The handlers\<close>

lemma served_replay:
  assumes "claim_or_replay q (cb_bindings db) = Inr (b, rows)" and "ib_replayed b"
  shows "served env cl header rt kind atomic db (answer env cl op r (db\<lparr>cb_bindings := rows\<rparr>))"
  by (rule served_quiet) (simp add: bindings_same claim_replay_same [OF assms])

lemmas served_rules = served_governed served_authenticated served_permitted served_claimed served_if served_option served_sum
  served_pair served_raised served_answer

lemma create_principal_served:
  "served env cl header (route (CreatePrincipal raw key)) (kind_of (CreatePrincipal raw key)) False db (create_principal env cl raw header key db)"
  unfolding create_principal_def Let_def route.simps kind_of.simps
  by (intro served_rules)
     (erule (1) served_replay | (rule served_change, assumption, auto intro: change.principal_created fresh_claimI))+

lemma reads_served:
  "served env cl header (route (ListPrincipals limit extra)) (kind_of (ListPrincipals limit extra)) False db (list_principals env cl header limit extra db)"
  "served env cl header (route (GetPrincipal pid)) (kind_of (GetPrincipal pid)) False db (get_principal env cl pid header db)"
  "served env cl header (route (ListCredentials pid limit extra)) (kind_of (ListCredentials pid limit extra)) False db (list_credentials env cl pid header limit extra db)"
  "served env cl header (route (ListGrants pid' rid limit extra)) (kind_of (ListGrants pid' rid limit extra)) False db (list_grants env cl header pid' rid limit extra db)"
  "served env cl header (route GetPolicy) (kind_of GetPolicy) False db (get_policy env cl header db)"
  "served env cl header (route (ListAliases limit extra)) (kind_of (ListAliases limit extra)) False db (list_aliases env cl header limit extra db)"
  "served env cl header (route (GetAlias aid)) (kind_of (GetAlias aid)) False db (get_alias env cl aid header db)"
  "served env cl header (route (ListCatalogResources f limit extra)) (kind_of (ListCatalogResources f limit extra)) False db
     (list_catalog_resources env cl header f limit extra db)"
  "served env cl header (route (GetCatalogResource rtype rid')) (kind_of (GetCatalogResource rtype rid')) False db
     (get_catalog_resource env cl rtype rid' header db)"
  "served env cl header (route (GetSkill sid version)) (kind_of (GetSkill sid version)) False db (get_skill_version env cl sid version header db)"
  "served env cl header (route (GetSkillStatus sid version)) (kind_of (GetSkillStatus sid version)) False db
     (get_skill_status env cl sid version header db)"
  "served env cl header (route (GetBok cid version)) (kind_of (GetBok cid version)) False db (get_bok_version env cl cid version header db)"
  unfolding list_principals_def get_principal_def list_credentials_def list_grants_def get_policy_def list_aliases_def get_alias_def
    list_catalog_resources_def get_catalog_resource_def get_skill_version_def get_skill_status_def get_bok_version_def Let_def route.simps kind_of.simps
  by (intro served_rules; assumption)+

lemma registry_same: "reg = cb_registry db \<Longrightarrow> tables (db\<lparr>cb_registry := reg\<rparr>) = tables db"
  by (simp add: tables_def)

lemma replace_principal_row_None:
  "replace_principal_row pid status expected now reg = Inr (Inr None, reg') \<Longrightarrow> reg' = reg"
  by (auto simp: replace_principal_row_def Let_def outcome_simps split: option.splits if_splits)

lemma replace_principal_status_served:
  "served env cl header (route (ReplacePrincipalStatus pid raw)) (kind_of (ReplacePrincipalStatus pid raw)) False db (replace_principal_status env cl pid raw header db)"
  unfolding replace_principal_status_def Let_def route.simps kind_of.simps
  by (intro served_rules)
     (assumption | (rule served_change, assumption, rule change.status_replaced, simp) |
      (rule served_quiet, simp add: registry_same replace_principal_row_None))+

lemma answered_claimI:
  assumes "claim_or_replay q (cb_bindings db) = Inr (b, rows1)" and "\<not> ib_replayed b"
    and "set_response_payload (cq_scope q) (cq_key_digest q) payload rows1 = Inr rows"
  shows "answered_claim q payload db rows"
  using assms by (auto simp: answered_claim_def fresh_claim_def)

lemma claim_for_keys [simp]:
  "cq_scope (claim_for env cl who verb path lifetime key payload status rid) = binding_scope who verb path"
  "cq_key_digest (claim_for env cl who verb path lifetime key payload status rid) =
     ev_key_digest env (case key of None \<Rightarrow> [] | Some k \<Rightarrow> k)"
  "io_response_status (cq_outcome (claim_for env cl who verb path lifetime key payload status rid)) = status"
  by (simp_all add: claim_for_def)

lemma issue_credential_served:
  "served env cl header (route (IssueCredential pid raw key)) (kind_of (IssueCredential pid raw key)) False db (issue_credential env cl pid raw header key db)"
  unfolding issue_credential_def Let_def route.simps kind_of.simps
  by (intro served_rules)
     (assumption | erule (1) served_replay |
      (rule served_change, assumption, rule change.credential_issued, assumption, rule refl, simp, simp, erule (1) answered_claimI, simp))+

lemma revoke_credential_served:
  "served env cl header (route (RevokeCredential cid)) (kind_of (RevokeCredential cid)) False db (revoke_credential env cl cid header db)"
  unfolding revoke_credential_def Let_def route.simps kind_of.simps
  by (intro served_rules) (assumption | (rule served_change, assumption, rule change.credential_revoked, simp))+

lemma rotate_credential_served:
  "served env cl header (route (RotateCredential cid raw key)) (kind_of (RotateCredential cid raw key)) False db (rotate_credential env cl cid raw header key db)"
  unfolding rotate_credential_def Let_def route.simps kind_of.simps
  by (intro served_rules)
     (assumption | erule (1) served_replay |
      (rule served_change, assumption, rule change.credential_rotated, simp, simp, simp, erule (1) answered_claimI, simp))+

lemma served_unchanged: "tables db' = tables db \<Longrightarrow> served env cl header rt kind atomic db (res, db')"
  by (simp add: served_def)

lemma replayed_grant_served:
  "tables db' = tables db \<Longrightarrow> served env cl header rt kind atomic db (replayed_grant env cl op who io db db')"
  unfolding replayed_grant_def by (intro served_rules) (rule served_unchanged)

lemma served_binding_error:
  "(\<And>s. e = IdempotencyConflictError s \<Longrightarrow> served env cl header rt kind atomic db (a s)) \<Longrightarrow>
   (\<And>s. e = LookupError s \<Longrightarrow> served env cl header rt kind atomic db (b s)) \<Longrightarrow>
   (\<And>x. e = Unbound x \<Longrightarrow> served env cl header rt kind atomic db (c x)) \<Longrightarrow>
     served env cl header rt kind atomic db (case e of IdempotencyConflictError s \<Rightarrow> a s | LookupError s \<Rightarrow> b s | Unbound x \<Rightarrow> c x)"
  by (cases e) simp_all

lemma store_grant_served:
  assumes "authorized env cl header (op, name) db who" and "claim_or_replay q (cb_bindings db) = Inr (binding, rows)"
    and "\<not> ib_replayed binding" and "grant_action_admitted (gn_resource_type b) (gn_action b)"
    and "cq_scope q = binding_scope who ''POST'' ''/v1/grants''"
    and "cq_key_digest q = ev_key_digest env (case key of None \<Rightarrow> [] | Some k \<Rightarrow> k)" and "io_response_status (cq_outcome q) = 201"
  shows "served env cl header (op, name) (Some GrantCreation) True db (store_grant env cl op who b key binding rows db)"
proof -
  have status: "io_response_status (ib_outcome binding) = 201" using assms(2,3,7) fresh_outcome by metis
  show ?thesis
  proof (cases "create_grant (gn_grant_id b) (gn_principal_id b) (gn_action b) (gn_resource_type b) (gn_resource_id b) (cl_now cl) (cb_registry db)")
    case (Inl e)
    then show ?thesis by (cases e) (simp_all add: store_grant_def)
  next
    case (Inr made)
    obtain g reg where made: "made = (g, reg)" by (cases made)
    show ?thesis
      unfolding store_grant_def Inr made sum.case prod.case status
      by (intro served_rules) (rule served_atomic [OF assms(1)], rule change.grant_created [OF Inr [unfolded made] assms(4)],
          rule answered_claimI [OF assms(2,3)], simp add: assms(5,6))
  qed
qed

lemma service_create_grant_served:
  "served env cl header (route (CreateGrant raw key)) (kind_of (CreateGrant raw key)) True db (service_create_grant env cl raw header key db)"
  unfolding service_create_grant_def Let_def route.simps kind_of.simps
  by (intro served_rules served_binding_error)
     (assumption | (rule replayed_grant_served, simp add: bindings_same claim_replay_same) |
      (rule store_grant_served, assumption, assumption, assumption, simp_all add: claim_for_keys))+

lemma revoke_grant_None: "revoke_grant gid reg = Inr (None, reg') \<Longrightarrow> reg' = reg"
proof -
  assume "revoke_grant gid reg = Inr (None, reg')"
  then have reg': "reg' = reg\<lparr>grants := update_where (\<lambda>g. g_id g = gid \<and> g_status g = ''active'') (\<lambda>g. g\<lparr>g_status := ''revoked''\<rparr>) (grants reg)\<rparr>"
    and none: "\<forall>g\<in>set (grants reg'). g_id g \<noteq> gid"
    by (auto simp: revoke_grant_def Let_def outcome_simps select_one_None split: option.splits)
  have "map g_id (grants reg') = map g_id (grants reg)" by (simp add: reg')
  then have "g_id ` set (grants reg') = g_id ` set (grants reg)" by (metis list.set_map)
  with none have "g_id g \<noteq> gid" if "g \<in> set (grants reg)" for g using that by (metis image_iff)
  then have "update_where (\<lambda>g. g_id g = gid \<and> g_status g = ''active'') (\<lambda>g. g\<lparr>g_status := ''revoked''\<rparr>) (grants reg) = grants reg"
    unfolding update_where_def by (intro map_idI) simp
  then show ?thesis by (simp add: reg')
qed

lemma service_revoke_grant_served:
  "served env cl header (route (RevokeGrant gid)) (kind_of (RevokeGrant gid)) True db (service_revoke_grant env cl gid header db)"
  unfolding service_revoke_grant_def Let_def route.simps kind_of.simps
  by (intro served_rules)
     (assumption | (rule served_atomic, assumption, rule change.grant_revoked, simp) |
      (rule served_quiet, rule tables_answer_within, rule registry_same, simp add: revoke_grant_None))+

lemma policy_row_served:
  assumes "authorized env cl header (op, name) db who" and "claim_or_replay q (cb_bindings db) = Inr (binding, rows1)"
    and "\<not> ib_replayed binding" and "cb_policy db = Some p" and "\<not> (pu_expected_version b \<noteq> lp_version p \<or> lp_version p = MAX_BIGINT)"
    and "stored_policy (replaced_policy b (cl_now cl) p) = Inr row" and "io_response_status (cq_outcome q) = 200"
    and "read_policy_update raw = Some b"
    and "set_response_payload (cq_scope q) (cq_key_digest q) (policy_response (replaced_policy b (cl_now cl) p)) rows1 = Inr rows"
  shows "served env cl header (op, name) (Some (PolicyReplacement raw)) True db (answer_within env cl op (granted who (io_response_status (ib_outcome binding))
      (Some (policy_response (replaced_policy b (cl_now cl) p))) None) db (db\<lparr>cb_policy := Some row, cb_bindings := rows\<rparr>))"
  unfolding fresh_outcome [OF assms(2,3)] assms(7)
  by (rule served_atomic [OF assms(1)], rule change.policy_replaced [OF assms(8,4) _ _ assms(6)])
     (use assms(5) answered_claimI [OF assms(2,3,9)] in simp_all)

lemma replace_policy_served:
  "served env cl header (route (ReplacePolicy raw key)) (kind_of (ReplacePolicy raw key)) True db (replace_policy env cl raw header key db)"
  unfolding replace_policy_def Let_def route.simps kind_of.simps
  by (intro served_rules)
     (assumption | (rule served_quiet, rule tables_answer_within, rule bindings_same, erule (1) claim_replay_same) |
      (rule policy_row_served, assumption, assumption, assumption, assumption, assumption, assumption, simp, assumption, simp))+

end
