(* ===== verification/Administration.thy ===== *)
theory Administration
  imports Changes
begin

text \<open>
  What the control plane as a whole guarantees: every handler of the catalog, too, is an authorized
  change or leaves the tables as they are; from that, the outcome of any request (\<open>serve_cases\<close>), with
  the audit event of a change.
\<close>

section \<open>The handlers of the catalog\<close>

lemma served_error:
  "(\<And>c. e = IntegrityError c \<Longrightarrow> served env cl header rt kind atomic db (a c)) \<Longrightarrow> served env cl header rt kind atomic db b \<Longrightarrow>
     served env cl header rt kind atomic db (case e of IntegrityError c \<Rightarrow> a c | _ \<Rightarrow> b)"
  by (cases e) simp_all

lemma served_publish_error:
  "(\<And>rid. e = SkillVersionConflictError rid \<Longrightarrow> served env cl header rt kind atomic db (a rid)) \<Longrightarrow>
   (\<And>x. e = Unpublished x \<Longrightarrow> served env cl header rt kind atomic db (b x)) \<Longrightarrow>
     served env cl header rt kind atomic db (case e of SkillVersionConflictError rid \<Rightarrow> a rid | Unpublished x \<Rightarrow> b x)"
  by (cases e) simp_all

lemma served_bok_error:
  "(\<And>s. e = BoKVersionCollision s \<Longrightarrow> served env cl header rt kind atomic db (a s)) \<Longrightarrow>
   (\<And>s. e = BoKAuthorRefused s \<Longrightarrow> served env cl header rt kind atomic db (b s)) \<Longrightarrow>
   (\<And>x. e = Unowned x \<Longrightarrow> served env cl header rt kind atomic db (c x)) \<Longrightarrow>
     served env cl header rt kind atomic db (case e of BoKVersionCollision s \<Rightarrow> a s | BoKAuthorRefused s \<Rightarrow> b s | Unowned x \<Rightarrow> c x)"
  by (cases e) simp_all

lemma served_again:
  assumes "claim_or_replay q (cb_bindings db) = Inr (b, rows)" and "ib_replayed b"
  shows "served env cl header rt kind atomic db (replayed_as env cl op who reread (ib_outcome b) db (db\<lparr>cb_bindings := rows\<rparr>))"
    and "served env cl header rt kind atomic db (answer_within env cl op r db (db\<lparr>cb_bindings := rows\<rparr>))"
proof -
  have same: "tables (db\<lparr>cb_bindings := rows\<rparr>) = tables db" by (simp add: bindings_same claim_replay_same [OF assms])
  show "served env cl header rt kind atomic db (replayed_as env cl op who reread (ib_outcome b) db (db\<lparr>cb_bindings := rows\<rparr>))"
    unfolding replayed_as_def by (intro served_rules) (rule served_unchanged [OF same])
  show "served env cl header rt kind atomic db (answer_within env cl op r db (db\<lparr>cb_bindings := rows\<rparr>))"
    by (rule served_quiet, rule tables_answer_within [OF same])
qed

lemma served_created:
  assumes "authorized env cl header (op, name) db who" and "claim_or_replay q (cb_bindings db) = Inr (b, rows)" and "\<not> ib_replayed b"
    and "\<And>rows'. answered_claim q d db rows' \<Longrightarrow>
      change env cl who db kind (granted who s (Some d) (Some ''grant_matched'')) (db\<lparr>cb_registry := reg, cb_bindings := rows'\<rparr>)"
  shows "served env cl header (op, name) (Some kind) True db (answer_created env cl op who q s d rows reg db)"
  unfolding answer_created_def
  by (intro served_rules) (rule served_atomic [OF assms(1)], rule assms(4), rule answered_claimI [OF assms(2,3)])

lemma fresh_status: "claim_or_replay q rows = Inr (b, rows') \<Longrightarrow> \<not> ib_replayed b \<Longrightarrow> io_response_status (cq_outcome q) = s \<Longrightarrow>
    io_response_status (ib_outcome b) = s"
  using fresh_outcome by metis

lemmas catalog_rules = served_rules served_error served_publish_error served_bok_error

lemma create_alias_served:
  "served env cl header (route (CreateAlias raw key)) (kind_of (CreateAlias raw key)) True db (create_alias env cl raw header key db)"
  unfolding create_alias_def Let_def route.simps kind_of.simps
  by (intro catalog_rules)
     (erule (1) served_again | (rule served_created, assumption, assumption, assumption, simp add: fresh_status change.alias_created))+

lemma create_catalog_resource_served:
  "served env cl header (route (CreateCatalogResource raw key)) (kind_of (CreateCatalogResource raw key)) True db
     (create_catalog_resource env cl raw header key db)"
  unfolding create_catalog_resource_def Let_def route.simps kind_of.simps
  by (intro catalog_rules)
     (erule (1) served_again | (rule served_created, assumption, assumption, assumption, simp add: fresh_status change.catalog_created))+

lemma replace_alias_row_None: "replace_alias_row aid f expected reg = Inr (Inr None, reg') \<Longrightarrow> reg' = reg"
  by (auto simp: replace_alias_row_def Let_def outcome_simps split: option.splits)

lemma answer_alias_served:
  assumes "authorized env cl header (op, name) db who"
    and "f = assigned_row model router provider (cl_now cl) \<or> f = status_row status (cl_now cl)"
  shows "served env cl header (op, name) (Some (AliasReplacement aid)) True db
    (answer_alias env cl op who db (replace_alias_row aid f expected (cb_registry db)))"
  unfolding answer_alias_def
  by (intro served_rules)
     ((rule served_atomic [OF assms(1)], rule change.alias_replaced [OF assms(2)], simp) |
      (rule served_quiet, rule tables_answer_within, rule registry_same, simp add: replace_alias_row_None))+

lemma replace_alias_assignment_served:
  "served env cl header (route (ReplaceAliasAssignment aid raw)) (kind_of (ReplaceAliasAssignment aid raw)) True db
     (replace_alias_assignment env cl aid raw header db)"
  unfolding replace_alias_assignment_def Let_def route.simps kind_of.simps
  by (intro served_rules) (assumption | (rule answer_alias_served, assumption, blast))+

lemma replace_alias_status_served:
  "served env cl header (route (ReplaceAliasStatus aid raw)) (kind_of (ReplaceAliasStatus aid raw)) True db
     (replace_alias_status env cl aid raw header db)"
  unfolding replace_alias_status_def Let_def route.simps kind_of.simps
  by (intro served_rules) (assumption | (rule answer_alias_served, assumption, blast))+

lemma publish_skill_version_served:
  "served env cl header (route (PublishSkill raw key)) (kind_of (PublishSkill raw key)) True db (publish_skill_version env cl raw header key db)"
  unfolding publish_skill_version_def Let_def route.simps kind_of.simps
  by (intro catalog_rules)
     (erule (1) served_again(2) | (rule served_created, assumption, assumption, assumption, simp add: change.skill_published))+

lemma replace_skill_row_None: "replace_skill_row sid version status expected now reg = Inr (Inr None, reg') \<Longrightarrow> reg' = reg"
  by (auto simp: replace_skill_row_def Let_def outcome_simps split: option.splits if_splits)

lemma replace_skill_status_served:
  "served env cl header (route (ReplaceSkillStatus sid version raw)) (kind_of (ReplaceSkillStatus sid version raw)) True db
     (replace_skill_status env cl sid version raw header db)"
  unfolding replace_skill_status_def Let_def route.simps kind_of.simps
  by (intro served_rules)
     (assumption | (rule served_atomic, assumption, rule change.skill_status_replaced, simp) |
      (rule served_quiet, rule tables_answer_within, rule registry_same, simp add: replace_skill_row_None))+

lemma publish_bok_version_served:
  "served env cl header (route (PublishBok raw key)) (kind_of (PublishBok raw key)) True db (publish_bok_version env cl raw header key db)"
  unfolding publish_bok_version_def Let_def route.simps kind_of.simps
  by (intro catalog_rules)
     (erule (1) served_again(2) | (rule served_created, assumption, assumption, assumption, rule change.bok_published, simp, assumption, simp))+

lemma serve_served: "served env cl header (route rq) (kind_of rq) (transactional rq) db (serve env cl header rq db)"
  by (cases rq) (simp_all only: serve.simps transactional.simps create_principal_served reads_served replace_principal_status_served
      issue_credential_served revoke_credential_served rotate_credential_served service_create_grant_served service_revoke_grant_served
      replace_policy_served create_alias_served create_catalog_resource_served replace_alias_assignment_served replace_alias_status_served publish_skill_version_served
      replace_skill_status_served publish_bok_version_served)

section \<open>Answers to changes\<close>

lemma change_reply:
  assumes "change env cl who db kind r db1"
  obtains s payload err where "r = granted who s payload err" and "s = 200 \<or> s = 201 \<or> s = 204"
    and "err = None \<or> err = Some ''grant_matched''" and "payload \<noteq> None \<or> s = 204"
  using assms by (rule change.cases) (rule that, assumption, simp, simp, simp)+

lemma change_audit: "change env cl who db kind r db1 \<Longrightarrow> cb_audit db1 = cb_audit db"
  by (erule change.cases) simp_all

lemma context_principal:
  assumes "authorization_context scrypt header now reg rows = Inr (Some c)"
  shows "p_kind (pc_principal c) \<in> {''human'', ''agent''}" and "p_status (pc_principal c) \<in> {''active'', ''inactive''}"
  using assms by (auto simp: authorization_context_def resolve_authorization_context_def project_principal_def outcome_simps
      split: option.splits if_splits)

lemma respond_granted:
  assumes "s = 200 \<or> s = 201 \<or> s = 204" and "payload \<noteq> None \<or> s = 204"
  shows "\<exists>body. respond rid s payload err = Inr \<lparr>hr_status = s, hr_body = body\<rparr>"
  using assms by (auto simp: respond_def)

lemma route_audited: "fst (fst (route rq)) \<in> set AUDIT_OPERATIONS \<and> snd (fst (route rq)) \<in> set AUDIT_ACTIONS"
  by (cases rq) (simp_all add: AUDIT_OPERATIONS_def AUDIT_ACTIONS_def)

text \<open>The event of an authorized change: the contract of the trail accepts it.\<close>

definition change_event :: "control_env \<Rightarrow> control_call \<Rightarrow> string \<times> string \<Rightarrow> subject \<Rightarrow> int \<Rightarrow> string option \<Rightarrow> audit_event" where
  "change_event env cl op who s err =
     \<lparr>ae_occurred_at = cl_now cl, ae_operation = fst op, ae_action = snd op, ae_stage = ''authorization'', ae_outcome = ''success'',
      ae_reason = map_option audit_reason err, ae_cause = None, ae_status = s, ae_retryable = False, ae_request_id = cl_request_id cl,
      ae_identity = Some (identity_of env (fst who)),
      ae_resource = Some (fst (fst (snd who)), ev_reference env ''resource'' (fst (fst (snd who)) @ ''/'' @ snd (fst (snd who)))),
      ae_decision = map_option (\<lambda>g. AllowEvidence (ev_reference env ''grant'' g)) (pd_policy_id (snd (snd who)))\<rparr>"

lemma change_event_accepted:
  assumes "authorized env cl header rt db who" and "fst (fst rt) \<in> set AUDIT_OPERATIONS" and "snd (fst rt) \<in> set AUDIT_ACTIONS"
    and "s = 200 \<or> s = 201 \<or> s = 204" and "err = None \<or> err = Some ''grant_matched''"
  shows "control_event env cl s ''authorization'' (fst rt) (map_option audit_reason err) (retryable_status s) (Some who) None =
    Inr (change_event env cl (fst rt) who s err)"
proof -
  obtain c res d where who: "who = (c, res, d)" by (cases who)
  obtain g where g: "pd_decision d = ''allow''" "pd_policy_id d = Some g" using assms(1) who by (auto simp: authorized_def)
  have res: "res = control_resource (snd rt)" and ctx: "authorization_context (ev_scrypt env) header (cl_now cl) (cb_registry db) (cb_credentials db) = Inr (Some c)"
    using assms(1) who by (auto simp: authorized_def)
  have reason: "case map_option audit_reason err of None \<Rightarrow> True | Some r \<Rightarrow> r \<in> set REASON_CODES"
    using assms(5) by (auto simp: audit_reason_def AUDIT_REASONS_def REASON_CODES_def)
  have stage: "''authorization'' \<in> set AUDIT_STAGES" "''administrative_control'' \<in> set RESOURCE_TYPES"
    by (simp_all add: AUDIT_STAGES_def RESOURCE_TYPES_def)
  have status: "100 \<le> s" "s \<le> 599" "s < 400" "\<not> retryable_status s" "s \<noteq> 403" "s \<noteq> 404" using assms(4) by (auto simp: retryable_status_def)
  have "valid_event (change_event env cl (fst rt) who s err)"
    using context_principal [OF ctx] reason stage status assms(2,3)
    unfolding valid_event_def change_event_def who res by (simp add: identity_of_def control_resource_def)
  moreover have "control_event env cl s ''authorization'' (fst rt) (map_option audit_reason err) (retryable_status s) (Some who) None =
      (if valid_event (change_event env cl (fst rt) who s err) then Inr (change_event env cl (fst rt) who s err) else Inl (ValueError ''AuditEvent''))"
    using status unfolding control_event_def who by (simp add: decision_of_def g change_event_def Let_def)
  ultimately show ?thesis by simp
qed

lemma finish_granted:
  "finish env cl op (granted who s payload err) audit =
     (case control_event env cl s ''authorization'' op (map_option audit_reason err) (retryable_status s) (Some who) None of
        Inl e \<Rightarrow> (respond (cl_request_id cl) 503 None (Some ''audit_unavailable''), audit)
      | Inr e \<Rightarrow> if cl_store_up cl then (respond (cl_request_id cl) s payload err, audit @ [e])
          else (respond (cl_request_id cl) 503 None (Some ''audit_unavailable''), audit))"
  by (simp add: finish_def granted_def Let_def split: sum.split)

lemma respond_unavailable: "\<exists>body. respond rid 503 None (Some ''audit_unavailable'') = Inr \<lparr>hr_status = 503, hr_body = body\<rparr>"
  by (simp add: respond_def ERRORS_def ERROR_MESSAGES_def)

lemma control_event_valid: "control_event env cl status stage op reason retryable who cause = Inr e \<Longrightarrow> valid_event e"
  by (auto simp: control_event_def Let_def and_then_Inr_iff split: if_splits)

lemma change_answered:
  assumes "authorized env cl header (route rq) db who" and "change env cl who db kind r db1"
  obtains (up) s err body where "cl_store_up cl" and "answer env cl (fst (route rq)) r db1 =
      (Inr \<lparr>hr_status = s, hr_body = body\<rparr>, db1\<lparr>cb_audit := cb_audit db @ [change_event env cl (fst (route rq)) who s err]\<rparr>)"
      and "s = rp_status r" and "s = 200 \<or> s = 201 \<or> s = 204" and "body = (if s = 204 then None else map_option JObj (rp_payload r))"
      and "valid_event (change_event env cl (fst (route rq)) who s err)"
  | (down) res where "\<not> cl_store_up cl" and "answer env cl (fst (route rq)) r db1 = (Inr res, db1)" and "hr_status res = 503"
      and "respond (cl_request_id cl) 503 None (Some ''audit_unavailable'') = Inr res"
proof -
  from assms(2) obtain s payload err where r: "r = granted who s payload err" and s: "s = 200 \<or> s = 201 \<or> s = 204"
    and err: "err = None \<or> err = Some ''grant_matched''" and payload: "payload \<noteq> None \<or> s = 204" by (rule change_reply)
  have e: "control_event env cl s ''authorization'' (fst (route rq)) (map_option audit_reason err) (retryable_status s) (Some who) None =
      Inr (change_event env cl (fst (route rq)) who s err)"
    by (rule change_event_accepted [OF assms(1) _ _ s err]) (use route_audited in auto)
  have audit: "cb_audit db1 = cb_audit db" by (rule change_audit [OF assms(2)])
  show thesis
  proof (cases "cl_store_up cl")
    case True
    have "respond (cl_request_id cl) s payload err = Inr \<lparr>hr_status = s, hr_body = (if s = 204 then None else map_option JObj payload)\<rparr>"
      using s payload by (auto simp: respond_def)
    then have "answer env cl (fst (route rq)) r db1 = (Inr \<lparr>hr_status = s, hr_body = (if s = 204 then None else map_option JObj payload)\<rparr>,
        db1\<lparr>cb_audit := cb_audit db @ [change_event env cl (fst (route rq)) who s err]\<rparr>)"
      by (simp only: answer_def r finish_granted e sum.case True if_True audit prod.case)
    then show thesis by (rule up [OF True]) (use s control_event_valid [OF e] in \<open>simp_all add: r granted_def\<close>)
  next
    case False
    obtain body where body: "respond (cl_request_id cl) 503 None (Some ''audit_unavailable'') = Inr \<lparr>hr_status = 503, hr_body = body\<rparr>"
      using respond_unavailable by blast
    from body have "answer env cl (fst (route rq)) r db1 = (Inr \<lparr>hr_status = 503, hr_body = body\<rparr>, db1)"
      by (simp add: answer_def r finish_granted e False)
    then show thesis by (rule down [OF False]) (simp_all add: body)
  qed
qed

section \<open>Outcomes of a request\<close>

lemma serve_cases:
  assumes "serve env cl header rq db = (res, db')"
  obtains (kept) "tables db' = tables db"
  | (audited) k who r db1 s err body where "kind_of rq = Some k" and "authorized env cl header (route rq) db who"
      and "change env cl who db k r db1" and "cl_store_up cl" and "res = Inr \<lparr>hr_status = s, hr_body = body\<rparr>"
      and "db' = db1\<lparr>cb_audit := cb_audit db @ [change_event env cl (fst (route rq)) who s err]\<rparr>"
      and "s = rp_status r" and "s = 200 \<or> s = 201 \<or> s = 204" and "body = (if s = 204 then None else map_option JObj (rp_payload r))"
      and "valid_event (change_event env cl (fst (route rq)) who s err)"
  | (unaudited) k who r resp where "kind_of rq = Some k" and "authorized env cl header (route rq) db who"
      and "change env cl who db k r db'" and "\<not> cl_store_up cl" and "\<not> transactional rq" and "res = Inr resp" and "hr_status resp = 503"
      and "respond (cl_request_id cl) 503 None (Some ''audit_unavailable'') = Inr resp" and "cb_audit db' = cb_audit db"
proof (cases "tables db' = tables db")
  case False
  then obtain k who r db1 where k: "kind_of rq = Some k" and a: "authorized env cl header (route rq) db who"
    and c: "change env cl who db k r db1"
    and h: "(res, db') = (if transactional rq then answer_within env cl (fst (route rq)) r db db1 else answer env cl (fst (route rq)) r db1)"
    using serve_served [of env cl header rq db] assms by (auto simp: served_def)
  from a c show thesis
  proof (cases rule: change_answered)
    case (up s err body)
    then have "(res, db') = (Inr \<lparr>hr_status = s, hr_body = body\<rparr>,
        db1\<lparr>cb_audit := cb_audit db @ [change_event env cl (fst (route rq)) who s err]\<rparr>)"
      using h by (auto simp: answer_within_def split: if_splits)
    then show thesis by (intro audited [OF k a c up(1) _ _ up(3-6)]) simp_all
  next
    case (down resp)
    show thesis
    proof (cases "transactional rq")
      case True
      then have "db' = db" using h down by (simp add: answer_within_def)
      with False show thesis by simp
    next
      case nt: False
      then show thesis using h down c change_audit [OF c] by (intro unaudited [OF k a _ down(1) nt]) simp_all
    qed
  qed
qed (rule kept)

end
