(* ===== verification/ControlSample.thy ===== *)
theory ControlSample
  imports Administration Progress
begin

text \<open>
  A concrete control plane for the witnesses: one administrator with one credential and grants on
  credentials and on the consumption limits, and the requests the witnesses replay on it. The
  parameters are simple concrete functions.
\<close>

definition sample_env :: control_env where
  "sample_env = \<lparr>ev_scrypt = (\<lambda>key salt. key), ev_payload_sha256 = (\<lambda>j. case j of JObj d \<Rightarrow> ''sha'' | _ \<Rightarrow> []),
     ev_key_digest = (\<lambda>k. k), ev_bundle_sha256 = (\<lambda>j. ''bundle''), ev_text_sha256 = (\<lambda>s. s), ev_reference = (\<lambda>domain value. domain @ '':'' @ value),
     ev_aware = (\<lambda>j. case j of JStr s \<Rightarrow> Some (next_day sample_time, s) | _ \<Rightarrow> None), ev_iso = isoformat\<rparr>"

definition admin_key :: string where "admin_key = ''sre_'' @ replicate 24 CHR ''a''"

definition next_key :: string where "next_key = ''sre_'' @ replicate 24 CHR ''b''"

definition admin_draw :: key_draw where
  "admin_draw = \<lparr>kd_credential_id = ''cred_admin'', kd_key = admin_key, kd_salt = ''salt''\<rparr>"

definition admin_row :: credential_row where
  "admin_row = drawn_row (ev_scrypt sample_env) ''root_admin'' None sample_time admin_draw"

definition admin :: principal where
  "admin = \<lparr>p_id = ''root_admin'', p_kind = ''human'', p_display_name = ''Root'', p_status = ''active'',
     p_created_at = sample_time, p_updated_at = sample_time\<rparr>"

definition admin_grant :: "string \<Rightarrow> string \<Rightarrow> grant" where
  "admin_grant gid name = \<lparr>g_id = gid, g_principal_id = ''root_admin'', g_action = ''admin.write'',
     g_resource_type = ''administrative_control'', g_resource_id = name, g_effect = ''allow'', g_status = ''active'', g_created_at = sample_time\<rparr>"

definition admin_resource :: "string \<Rightarrow> resource_row" where
  "admin_resource name = \<lparr>rs_type = ''administrative_control'', rs_id = name, rs_status = ''active'', rs_updated_at = sample_time,
     rs_model_alias_id = None, rs_alias = None, rs_concrete_model = None, rs_router = None, rs_inference_provider = None,
     rs_owner_id = None, rs_source = None, rs_source_ref = None, rs_display_name = None, rs_visibility = None, rs_description = None,
     rs_tags = None\<rparr>"

definition admin_registry :: registry where
  "admin_registry = \<lparr>principals = [admin],
     resources = [admin_resource ''credentials'', admin_resource ''consumption_limits'', admin_resource ''catalog''],
     grants = [admin_grant ''grant_cred'' ''credentials'', admin_grant ''grant_limit'' ''consumption_limits'', admin_grant ''grant_cat'' ''catalog''],
     mcp_servers = [], mcp_tools = [],
     skill_versions = [], bok_versions = [], bok_documents = [], bok_chunks = []\<rparr>"

definition admin_db :: control_db where
  "admin_db = \<lparr>cb_registry = admin_registry, cb_credentials = [admin_row], cb_bindings = [],
     cb_policy = Some \<lparr>lp_version = 0, lp_incident_token_limit = None, lp_monthly_usd_limit = None, lp_updated_at = sample_time\<rparr>,
     cb_audit = []\<rparr>"

definition admin_call :: control_call where
  "admin_call = \<lparr>cl_now = sample_time, cl_request_id = ''req'', cl_store_up = True,
     cl_draw = (\<lambda>n. \<lparr>kd_credential_id = ''cred_next'', kd_key = next_key, kd_salt = ''salt''\<rparr>)\<rparr>"

definition admin_header :: "string option" where
  "admin_header = Some (''Bearer '' @ admin_key)"

definition admin_context :: principal_context where
  "admin_context = \<lparr>pc_principal = admin, pc_credential_id = ''cred_admin'', pc_authenticated_at = sample_time\<rparr>"

lemma admin_bearer: "bearer_key admin_header = Some admin_key"
  by code_simp

lemma admin_identifiers: "identifier_pattern ''root_admin''" "identifier_pattern ''cred_admin''" "identifier_pattern ''cred_next''"
    "identifier_pattern ''grant_cred''" "identifier_pattern ''grant_limit''" "identifier_pattern ''grant_cat''" "action_pattern ''admin.write''"
  by code_simp+

lemma py_len_ascii: "ascii s \<Longrightarrow> py_len s = length s"
  by (simp add: py_len_def utf8_decode_ascii)

lemma admin_lengths: "py_len ''Root'' = 4" "py_len ''credentials'' = 11" "py_len ''consumption_limits'' = 18"
    "py_len ''catalog'' = 7"
  by (simp_all add: py_len_ascii ascii_def)

lemma admin_projected: "project_principal admin = Inr admin"
  by (simp add: project_principal_def admin_def admin_identifiers admin_lengths)

lemma admin_resolved:
  "authorization_context (ev_scrypt sample_env) admin_header sample_time admin_registry (admin_row # rows) = Inr (Some admin_context)"
proof -
  have "matching admin_key admin_registry (admin_row # rows) = (admin_row, admin) # matching admin_key admin_registry rows"
    using candidate_own [of admin_key] by (simp add: matching_def admin_row_def drawn_row_def admin_draw_def admin_registry_def admin_def)
  moreover have "usable (ev_scrypt sample_env) admin_key sample_time (cr_ref admin_row) (cr_key_hash admin_row)"
    by (simp add: usable_def admin_row_def drawn_row_def admin_draw_def)
  ultimately show ?thesis
    by (simp add: authorization_context_def admin_bearer resolve_authorization_context_def admin_projected admin_context_def
        admin_row_def drawn_row_def admin_draw_def admin_identifiers)
qed

definition admin_decision :: "string \<Rightarrow> policy_decision" where
  "admin_decision gid = \<lparr>pd_decision = ''allow'', pd_reason_code = ''grant_matched'', pd_policy_id = Some gid\<rparr>"

lemma admin_allowed:
  assumes "view = owner_view admin_registry \<or> view = resource_view admin_registry"
  shows "evaluate view (find_active admin_registry) admin ''admin.write'' ''administrative_control'' ''credentials'' =
      Inr \<lparr>au_decision = admin_decision ''grant_cred'', au_denial_cause = None\<rparr>"
    and "evaluate view (find_active admin_registry) admin ''admin.write'' ''administrative_control'' ''consumption_limits'' =
      Inr \<lparr>au_decision = admin_decision ''grant_limit'', au_denial_cause = None\<rparr>"
    and "evaluate view (find_active admin_registry) admin ''admin.write'' ''administrative_control'' ''catalog'' =
      Inr \<lparr>au_decision = admin_decision ''grant_cat'', au_denial_cause = None\<rparr>"
  using assms
  by (auto simp: evaluate_def owner_view_def resource_view_def select_one_def find_active_def project_grant_def admin_registry_def admin_resource_def
      admin_def admin_grant_def is_exact_active_grant_def make_decision_def make_evaluation_def admin_decision_def admin_identifiers
      admin_lengths RESOURCE_TYPES_def)

definition admin_subject :: "string \<Rightarrow> string \<Rightarrow> subject" where
  "admin_subject gid name = (admin_context, control_resource name, admin_decision gid)"

lemma admin_authenticated:
  assumes "cb_registry db = admin_registry" and "cb_credentials db = admin_row # rows" and "cl_now cl = sample_time"
  shows "authenticated sample_env cl op admin_header db k = k admin_context"
  by (simp add: authenticated_def assms admin_resolved)

lemma admin_permitted:
  assumes "cb_registry db = admin_registry"
  shows "permitted sample_env cl (o1, ''admin.write'') denial admin_context ''credentials'' db k = k (admin_subject ''grant_cred'' ''credentials'')"
  using admin_allowed(1) [of "resource_view admin_registry"]
  by (simp add: permitted_def assms control_resource_def admin_context_def denied_def admin_decision_def admin_subject_def)

lemma admin_governed:
  assumes "cb_registry db = admin_registry" and "cb_credentials db = admin_row # rows" and "cl_now cl = sample_time"
  shows "governed sample_env cl (o1, ''admin.write'') admin_header ''consumption_limits'' db k =
    k (admin_subject ''grant_limit'' ''consumption_limits'')"
    and "governed sample_env cl (o1, ''admin.write'') admin_header ''catalog'' db k = k (admin_subject ''grant_cat'' ''catalog'')"
  using admin_allowed(2,3) [of "owner_view admin_registry"]
  by (simp_all add: governed_def authorize_governed_access_def assms admin_resolved control_resource_def admin_context_def
      denied_def admin_decision_def admin_subject_def)

lemma admin_authorized:
  assumes "cb_registry db = admin_registry" and "cb_credentials db = admin_row # rows"
  shows "authorized sample_env admin_call admin_header ((o1, ''admin.write''), ''credentials'') db (admin_subject ''grant_cred'' ''credentials'')"
    and "authorized sample_env admin_call admin_header ((o1, ''admin.write''), ''consumption_limits'') db
      (admin_subject ''grant_limit'' ''consumption_limits'')"
    and "authorized sample_env admin_call admin_header ((o1, ''admin.write''), ''catalog'') db (admin_subject ''grant_cat'' ''catalog'')"
  using admin_resolved [of rows]
  by (simp_all add: authorized_def admin_subject_def assms admin_call_def admin_decision_def active_grant_def)
     (simp_all add: admin_context_def admin_def admin_registry_def admin_grant_def is_exact_active_grant_def)

lemma admin_granted:
  assumes "authorized sample_env admin_call admin_header (op, name) db0 who" and "fst op \<in> set AUDIT_OPERATIONS" and "snd op \<in> set AUDIT_ACTIONS"
    and "s = 200 \<or> s = 201 \<or> s = 204" and "payload \<noteq> None \<or> s = 204" and "err = None \<or> err = Some ''grant_matched''"
  shows "answer sample_env admin_call op (granted who s payload err) db =
    (Inr \<lparr>hr_status = s, hr_body = (if s = 204 then None else map_option JObj payload)\<rparr>,
     db\<lparr>cb_audit := cb_audit db @ [change_event sample_env admin_call op who s err]\<rparr>)"
proof -
  have "control_event sample_env admin_call s ''authorization'' op (map_option audit_reason err) (retryable_status s) (Some who) None =
      Inr (change_event sample_env admin_call op who s err)"
    using change_event_accepted [OF assms(1), where s = s and err = err] assms(2-4,6) by simp
  moreover have "respond (cl_request_id admin_call) s payload err = Inr \<lparr>hr_status = s, hr_body = (if s = 204 then None else map_option JObj payload)\<rparr>"
    using assms(4,5) by (auto simp: respond_def)
  moreover have "cl_store_up admin_call" by (simp add: admin_call_def)
  ultimately show ?thesis by (simp only: answer_def finish_granted sum.case if_True prod.case)
qed

lemma sample_operations:
  "''credentials.revoke'' \<in> set AUDIT_OPERATIONS" "''credentials.rotate'' \<in> set AUDIT_OPERATIONS"
  "''credentials.issue'' \<in> set AUDIT_OPERATIONS" "''consumption_limits.replace'' \<in> set AUDIT_OPERATIONS"
  "''catalog.create'' \<in> set AUDIT_OPERATIONS" "''admin.write'' \<in> set AUDIT_ACTIONS"
  by (simp_all add: AUDIT_OPERATIONS_def AUDIT_ACTIONS_def)

section \<open>A revocation\<close>

definition keyed_db :: "credential_row list \<Rightarrow> control_db" where
  "keyed_db rows = admin_db\<lparr>cb_credentials := admin_row # rows\<rparr>"

definition revoked_db :: "credential_row list \<Rightarrow> control_db" where
  "revoked_db rows = admin_db\<lparr>cb_credentials := revoke_row sample_time admin_row # rows, cb_audit :=
     [change_event sample_env admin_call (''credentials.revoke'', ''admin.write'') (admin_subject ''grant_cred'' ''credentials'') 204 None]\<rparr>"

lemma admin_tables: "cb_registry admin_db = admin_registry" "cb_credentials admin_db = [admin_row]" "cb_bindings admin_db = []" "cb_audit admin_db = []"
  by (simp_all add: admin_db_def)

lemma admin_row_simps: "cr_id admin_row = ''cred_admin''" "ce_status (cr_ref admin_row) = ''active''" "ce_created_at (cr_ref admin_row) = sample_time"
    "ce_principal_id (cr_ref admin_row) = ''root_admin''" "ce_expires_at (cr_ref admin_row) = None"
  by (simp_all add: admin_row_def drawn_row_def admin_draw_def)

lemma admin_prefix: "api_key_prefix admin_key = ''sre_aaaaaaaaaaaa''" "api_key_prefix next_key = ''sre_bbbbbbbbbbbb''"
  by code_simp+

lemma admin_row_projected: "project_credential admin_row = Inr (cr_ref admin_row)"
    "project_credential (revoke_row sample_time admin_row) = Inr (cr_ref (revoke_row sample_time admin_row))"
  by (simp_all add: project_credential_def admin_row_def drawn_row_def admin_draw_def admin_identifiers admin_prefix revoke_row_def
      class_run_def key_char_def slug_char_def lower_digit_def)

lemma keyed_tables: "cb_registry (keyed_db rows) = admin_registry" "cb_credentials (keyed_db rows) = admin_row # rows"
  by (simp_all add: keyed_db_def admin_db_def)

lemma admin_revoked:
  assumes "\<forall>r\<in>set rows. cr_id r \<noteq> ''cred_admin''"
  shows "serve sample_env admin_call admin_header (RevokeCredential ''cred_admin'') (keyed_db rows) =
    (Inr \<lparr>hr_status = 204, hr_body = None\<rparr>, revoked_db rows)"
proof -
  have line: "matches_line identifier_pattern ''cred_admin''" by (simp add: matches_line_def admin_identifiers)
  have found: "get_credential ''cred_admin'' (admin_row # rows) = Inr (Some (cr_ref admin_row))"
    by (simp add: get_credential_def project_opt_def select_one_def admin_row_simps admin_row_projected)
  have others: "update_where (revocable ''cred_admin'') (revoke_row sample_time) rows = rows"
    unfolding update_where_def by (intro map_idI) (use assms in \<open>auto simp: revocable_def\<close>)
  have upd: "update_where (revocable ''cred_admin'') (revoke_row sample_time) (admin_row # rows) = revoke_row sample_time admin_row # rows"
    using others by (simp add: update_where_def revocable_def admin_row_simps)
  have "cr_id (revoke_row sample_time admin_row) = ''cred_admin''" by (simp add: revoke_row_def admin_row_simps)
  then have row: "revoke_credential_row ''cred_admin'' sample_time (admin_row # rows) =
      Inr (Some (cr_ref (revoke_row sample_time admin_row)), revoke_row sample_time admin_row # rows)"
    using assms unfolding revoke_credential_row_def Let_def upd
    by (auto simp: get_credential_def project_opt_def select_one_def admin_row_projected admin_row_simps raise_if_def revocable_def)
  have now: "cl_now admin_call = sample_time" by (simp add: admin_call_def)
  show ?thesis
    by (simp add: revoke_credential_def Let_def admin_authenticated [OF keyed_tables now] line admin_permitted [OF keyed_tables(1)]
        keyed_tables found row now admin_granted [OF admin_authorized(1) [OF keyed_tables]] sample_operations revoked_db_def)
       (simp add: keyed_db_def admin_db_def)
qed

section \<open>An issuance and a rotation\<close>

definition sample_key :: "string option" where
  "sample_key = Some ''0123456789abcdef''"

definition next_row :: credential_row where
  "next_row = drawn_row (ev_scrypt sample_env) ''root_admin'' None sample_time (cl_draw admin_call 0)"

lemma sample_key_valid: "\<not> invalid_key sample_key"
  by code_simp

lemma next_row_id: "cr_id next_row = ''cred_next''"
  by (simp add: next_row_def drawn_row_def admin_call_def)

lemma next_resolved:
  "\<exists>c. authorization_context (ev_scrypt sample_env) (Some (''Bearer '' @ next_key)) sample_time admin_registry
     [revoke_row sample_time admin_row, next_row] = Inr (Some c)"
proof -
  let ?good = "\<lambda>(r, p). usable (ev_scrypt sample_env) next_key sample_time (cr_ref r) (cr_key_hash r)"
  have bearer: "bearer_key (Some (''Bearer '' @ next_key)) = Some next_key" by code_simp
  have mine: "matching next_key admin_registry (r # rows) = (if ce_prefix (cr_ref r) \<in> set (candidate_prefixes next_key) then [(r, admin)] else []) @
      matching next_key admin_registry rows" if "ce_principal_id (cr_ref r) = ''root_admin''" for r rows
    using that by (simp add: matching_def admin_registry_def admin_def)
  have rows: "ce_principal_id (cr_ref (revoke_row sample_time admin_row)) = ''root_admin''" "ce_principal_id (cr_ref next_row) = ''root_admin''"
      "ce_status (cr_ref (revoke_row sample_time admin_row)) \<noteq> ''active''" "ce_prefix (cr_ref next_row) = api_key_prefix next_key"
    by (simp_all add: revoke_row_def admin_row_simps next_row_def drawn_row_def admin_call_def)
  have "\<not> ?good (revoke_row sample_time admin_row, admin)" using rows(3) by (simp add: usable_def)
  moreover have "?good (next_row, admin)" by (simp add: usable_def next_row_def drawn_row_def admin_call_def)
  ultimately have "find ?good (matching next_key admin_registry [revoke_row sample_time admin_row, next_row]) = Some (next_row, admin)"
    by (simp add: mine [OF rows(1)] mine [OF rows(2)] rows(4) candidate_own)
  then show ?thesis
    unfolding authorization_context_def bearer option.case
    by (simp add: resolve_authorization_context_def admin_projected next_row_id admin_identifiers)
qed

lemma length_hex: "length (hex bs) = 2 * length bs"
  by (induction bs) (simp_all add: hex_def)

lemma length_nat_str_samples: "length (nat_str 16384) = 5" "length (nat_str 8) = 1" "length (nat_str (Suc 0)) = 1"
  by (simp_all add: nat_str.simps)

lemma next_row_inserted:
  assumes "rows = [admin_row] \<or> rows = [revoke_row sample_time admin_row]"
  shows "insert_credential next_row admin_registry rows = Inr (rows @ [next_row])"
    and "project_credential next_row = Inr (cr_ref next_row)"
proof -
  have hash: "cr_key_hash next_row = hash_api_key (\<lambda>key salt. key) ''salt'' next_key"
    by (simp add: next_row_def drawn_row_def admin_call_def sample_env_def)
  have ok: "text_ok 512 (hash_api_key (\<lambda>key salt. key) ''salt'' next_key)"
    by (simp add: text_ok_def hash_api_key_def fits_length length_hex next_key_def SCRYPT_N_def SCRYPT_R_def SCRYPT_P_def
        length_nat_str_samples hex_clean nat_str_clean)
  show "insert_credential next_row admin_registry rows = Inr (rows @ [next_row])"
    using assms ok unfolding insert_credential_def Let_def hash
    by (auto simp: next_row_def drawn_row_def admin_call_def admin_prefix text_ok_def fits_length admin_row_simps
        admin_row_def admin_draw_def admin_registry_def admin_def revoke_row_def unique_prefix_def)
  show "project_credential next_row = Inr (cr_ref next_row)"
    by (simp add: project_credential_def next_row_def drawn_row_def admin_call_def admin_identifiers admin_prefix
        class_run_def key_char_def slug_char_def lower_digit_def)
qed

lemma next_row_issued:
  assumes "rows = [admin_row] \<or> rows = [revoke_row sample_time admin_row]"
  shows "issue (ev_scrypt sample_env) (cl_draw admin_call) ''root_admin'' None sample_time admin_registry rows =
    Inr (\<lparr>ia_credential = cr_ref next_row, ia_key = kd_key (cl_draw admin_call 0)\<rparr>, rows @ [next_row])"
proof -
  have "drawn_row (ev_scrypt sample_env) ''root_admin'' None sample_time (cl_draw admin_call n) = next_row" for n
    by (simp add: next_row_def admin_call_def)
  then show ?thesis
    using next_row_inserted [OF assms]
    by (simp add: issue_def ISSUANCE_ATTEMPTS_def numeral_eq_Suc Let_def) (simp add: admin_call_def)
qed

lemma sample_claim:
  assumes "who = admin_subject gid name" and "verb = ''POST'' \<or> verb = ''PUT''" and "length path \<le> 200" and "CHR 0x00 \<notin> set rid"
    and "lifetime = ''principal_lifetime'' \<or> lifetime = ''at_least_24h''"
  shows "\<exists>rows. (\<forall>payload. set_response_payload (binding_scope who verb path) ''0123456789abcdef'' payload rows \<noteq>
        Inl (LookupError ''idempotency binding is absent'')) \<and>
    claim_or_replay (claim_for sample_env cl who verb path lifetime sample_key (JObj d) status rid) [] =
      Inr (\<lparr>ib_outcome = cq_outcome (claim_for sample_env cl who verb path lifetime sample_key (JObj d) status rid), ib_replayed = False\<rparr>, rows)"
proof -
  let ?q = "claim_for sample_env cl who verb path lifetime sample_key (JObj d) status rid"
  have "storable_claim ?q"
    using assms by (auto simp: storable_claim_def claim_for_def sample_env_def sample_key_def binding_scope_def admin_subject_def
        admin_context_def admin_def outcome_document_def jsonb_ok_upd intro!: fits_length)
  moreover obtain until where "retained_until lifetime (cl_now cl) None = Inr until" using assms(5) by (auto simp: retained_until_def)
  ultimately have "claim_or_replay ?q [] = Inr (\<lparr>ib_outcome = cq_outcome ?q, ib_replayed = False\<rparr>, [claim_row ?q until])"
    by (simp add: claim_or_replay_def get_binding_def select_one_def) (simp add: claim_for_def)
  moreover have "set_response_payload (binding_scope who verb path) ''0123456789abcdef'' payload [claim_row ?q until] \<noteq>
      Inl (LookupError ''idempotency binding is absent'')" for payload
    by (simp add: set_response_payload_def get_binding_def select_one_def claim_row_def claim_for_def sample_key_def sample_env_def)
  ultimately show ?thesis by blast
qed

lemma sample_stored:
  assumes "\<forall>payload. set_response_payload scope k payload rows \<noteq> Inl (LookupError ''idempotency binding is absent'')" and "jsonb_ok (JObj d)"
  shows "\<exists>rows'. set_response_payload scope k d rows = Inr rows'"
  using assms(1) [THEN spec, of d] assms(2) by (auto simp: set_response_payload_def split: option.splits if_splits)

lemma sample_body: "read_credential_issue sample_env (JObj fmempty) = Some None"
  by (simp add: read_credential_issue_def keys_within_def)

lemma admin_now: "cl_now admin_call = sample_time"
  by (simp add: admin_call_def)

lemma next_document:
  "(case replaced of None \<Rightarrow> True | Some r \<Rightarrow> CHR 0x00 \<notin> set r) \<Longrightarrow> jsonb_ok (JObj (issuance_metadata sample_env JNull (cr_ref next_row) replaced))"
  by (cases replaced) (simp_all add: issuance_metadata_def credential_document_def jsonb_ok_upd jtime_def sample_env_def next_row_def
      drawn_row_def admin_call_def admin_prefix)

lemma sample_digest: "ev_key_digest sample_env k = k"
  by (simp add: sample_env_def)

lemma admin_found: "get_principal_row ''root_admin'' admin_registry = Inr (Some admin)"
  using admin_projected by (simp add: get_principal_row_def project_opt_def select_one_def admin_registry_def admin_def)

lemma admin_issued:
  obtains resp db where "serve sample_env admin_call admin_header (IssueCredential ''root_admin'' (JObj fmempty) sample_key) admin_db = (Inr resp, db)"
    and "cb_credentials db = [admin_row, next_row]" and "cb_registry db = admin_registry" and "hr_status resp = 201"
proof -
  let ?who = "admin_subject ''grant_cred'' ''credentials''" and ?path = "''/v1/principals/root_admin/credentials''"
  let ?q = "claim_for sample_env admin_call ?who ''POST'' ?path ''principal_lifetime'' sample_key (JObj (dict [(''expires_at'', JNull)])) 201 ''root_admin''"
  obtain rows where keyed: "\<forall>payload. set_response_payload (binding_scope ?who ''POST'' ?path) ''0123456789abcdef'' payload rows \<noteq>
        Inl (LookupError ''idempotency binding is absent'')"
    and claim: "claim_or_replay ?q [] = Inr (\<lparr>ib_outcome = cq_outcome ?q, ib_replayed = False\<rparr>, rows)"
    using sample_claim [of ?who "''grant_cred''" "''credentials''" "''POST''" ?path "''root_admin''" "''principal_lifetime''" admin_call
        "dict [(''expires_at'', JNull)]" 201] by auto
  obtain rows' where stored: "set_response_payload (binding_scope ?who ''POST'' ?path) ''0123456789abcdef''
      (issuance_metadata sample_env JNull (cr_ref next_row) None) rows = Inr rows'"
    using sample_stored [OF keyed next_document [of None]] by auto
  have line: "matches_line identifier_pattern ''root_admin''" by (simp add: matches_line_def admin_identifiers)
  have k: "(case sample_key of None \<Rightarrow> [] | Some k \<Rightarrow> k) = ''0123456789abcdef''" by (simp add: sample_key_def)
  have path: "''/v1/principals/'' @ ''root_admin'' @ ''/credentials'' = ?path" by simp
  have "\<exists>resp db. serve sample_env admin_call admin_header (IssueCredential ''root_admin'' (JObj fmempty) sample_key) admin_db = (Inr resp, db) \<and>
      cb_credentials db = [admin_row, next_row] \<and> cb_registry db = admin_registry \<and> hr_status resp = 201"
    unfolding serve.simps issue_credential_def Let_def admin_authenticated [OF admin_tables(1,2) admin_now] sample_body option.case path
      admin_permitted [OF admin_tables(1)] admin_tables admin_found sum.case claimed_def expiry_text_def k sample_digest claim
    using stored next_row_issued [of "[admin_row]"]
    by (simp add: sample_key_valid line admin_now admin_granted [OF admin_authorized(1) [OF admin_tables(1,2)]] sample_operations admin_tables)
  then show thesis using that by blast
qed

lemma admin_rotated:
  obtains resp db where "serve sample_env admin_call admin_header (RotateCredential ''cred_admin'' (JObj fmempty) sample_key) admin_db = (Inr resp, db)"
    and "cb_credentials db = [revoke_row sample_time admin_row, next_row]"
proof -
  let ?who = "admin_subject ''grant_cred'' ''credentials''" and ?path = "''/v1/credentials/cred_admin/rotation''"
  let ?q = "claim_for sample_env admin_call ?who ''POST'' ?path ''principal_lifetime'' sample_key (JObj (dict [(''expires_at'', JNull)])) 201 ''cred_admin''"
  let ?issuance = "issuance_metadata sample_env JNull (cr_ref next_row) (Some ''cred_admin'')"
  obtain rows where keyed: "\<forall>payload. set_response_payload (binding_scope ?who ''POST'' ?path) ''0123456789abcdef'' payload rows \<noteq>
        Inl (LookupError ''idempotency binding is absent'')"
    and claim: "claim_or_replay ?q [] = Inr (\<lparr>ib_outcome = cq_outcome ?q, ib_replayed = False\<rparr>, rows)"
    using sample_claim [of ?who "''grant_cred''" "''credentials''" "''POST''" ?path "''cred_admin''" "''principal_lifetime''" admin_call
        "dict [(''expires_at'', JNull)]" 201] by auto
  have "jsonb_ok (JObj ?issuance)" by (rule next_document) simp
  moreover have "jsonb_ok (JObj (stored_credential_document sample_env (cr_ref admin_row)))"
    by (simp add: credential_document_def jsonb_ok_upd jtime_def sample_env_def admin_row_def drawn_row_def admin_draw_def admin_prefix)
  ultimately have "jsonb_ok (JObj (rotation_metadata sample_env (cr_ref admin_row) ?issuance))"
    by (simp add: rotation_metadata_def jsonb_ok_upd)
  then obtain rows' where stored: "set_response_payload (binding_scope ?who ''POST'' ?path) ''0123456789abcdef''
      (rotation_metadata sample_env (cr_ref admin_row) ?issuance) rows = Inr rows'"
    using sample_stored [OF keyed] by auto
  have line: "matches_line identifier_pattern ''cred_admin''" by (simp add: matches_line_def admin_identifiers)
  have found: "get_credential ''cred_admin'' [admin_row] = Inr (Some (cr_ref admin_row))"
    by (simp add: get_credential_def project_opt_def select_one_def admin_row_simps admin_row_projected)
  have rot: "rotate (ev_scrypt sample_env) (cl_draw admin_call) ''cred_admin'' None sample_time admin_registry [admin_row] =
      Inr (Some \<lparr>ia_credential = cr_ref next_row, ia_key = kd_key (cl_draw admin_call 0)\<rparr>, [revoke_row sample_time admin_row, next_row])"
    using next_row_issued [of "[revoke_row sample_time admin_row]"]
    by (simp add: rotate_def select_one_def admin_row_simps update_where_def)
  have k: "(case sample_key of None \<Rightarrow> [] | Some k \<Rightarrow> k) = ''0123456789abcdef''" by (simp add: sample_key_def)
  have path: "''/v1/credentials/'' @ ''cred_admin'' @ ''/rotation'' = ?path" by simp
  have "\<exists>resp db. serve sample_env admin_call admin_header (RotateCredential ''cred_admin'' (JObj fmempty) sample_key) admin_db = (Inr resp, db) \<and>
      cb_credentials db = [revoke_row sample_time admin_row, next_row]"
    unfolding serve.simps rotate_credential_def Let_def admin_authenticated [OF admin_tables(1,2) admin_now] sample_body option.case path
      admin_permitted [OF admin_tables(1)] admin_tables found sum.case claimed_def expiry_text_def k sample_digest claim
    using stored rot
    by (simp add: sample_key_valid line admin_now admin_row_simps admin_granted [OF admin_authorized(1) [OF admin_tables(1,2)]] sample_operations)
  then show thesis using that by blast
qed

section \<open>A policy\<close>

definition sample_update :: json where
  "sample_update = JObj (dict [(''expected_version'', JInt 0), (''incident_token_limit'', JInt 1000), (''monthly_usd_limit'', JNull)])"

lemma sample_update_read:
  "read_policy_update sample_update = Some \<lparr>pu_expected_version = 0, pu_incident_token_limit = Some 1000, pu_monthly_usd_limit = None\<rparr>"
  by (auto simp: sample_update_def read_policy_update_def keys_exactly_def bigint_of_def nullable_def MAX_BIGINT_def)

definition updated_policy :: limit_policy where
  "updated_policy = \<lparr>lp_version = 1, lp_incident_token_limit = Some 1000, lp_monthly_usd_limit = None, lp_updated_at = sample_time\<rparr>"

lemma admin_policy:
  obtains resp db where "serve sample_env admin_call admin_header (ReplacePolicy sample_update sample_key) admin_db = (Inr resp, db)"
    and "cb_policy db = Some updated_policy"
proof -
  let ?who = "admin_subject ''grant_limit'' ''consumption_limits''" and ?path = "''/v1/consumption-limits''"
  let ?b = "\<lparr>pu_expected_version = 0, pu_incident_token_limit = Some 1000, pu_monthly_usd_limit = None\<rparr>"
  obtain d where d: "policy_update_document ?b = JObj d" by (simp add: policy_update_document_def)
  let ?q = "claim_for sample_env admin_call ?who ''PUT'' ?path ''at_least_24h'' sample_key (JObj d) 200 ''workspace''"
  obtain rows where keyed: "\<forall>payload. set_response_payload (binding_scope ?who ''PUT'' ?path) ''0123456789abcdef'' payload rows \<noteq>
        Inl (LookupError ''idempotency binding is absent'')"
    and claim: "claim_or_replay ?q [] = Inr (\<lparr>ib_outcome = cq_outcome ?q, ib_replayed = False\<rparr>, rows)"
    using sample_claim [of ?who "''grant_limit''" "''consumption_limits''" "''PUT''" ?path "''workspace''" "''at_least_24h''" admin_call d 200] by auto
  have "jsonb_ok (JObj (policy_response updated_policy))" by (simp add: policy_response_def updated_policy_def jint_opt_def jsonb_ok_upd)
  then obtain rows' where stored: "set_response_payload (binding_scope ?who ''PUT'' ?path) ''0123456789abcdef'' (policy_response updated_policy) rows = Inr rows'"
    using sample_stored [OF keyed] by auto
  have pol: "cb_policy admin_db = Some \<lparr>lp_version = 0, lp_incident_token_limit = None, lp_monthly_usd_limit = None, lp_updated_at = sample_time\<rparr>"
    by (simp add: admin_db_def)
  have new: "replaced_policy ?b sample_time \<lparr>lp_version = 0, lp_incident_token_limit = None, lp_monthly_usd_limit = None, lp_updated_at = sample_time\<rparr> = updated_policy"
    by (simp add: replaced_policy_def updated_policy_def)
  have row: "stored_policy updated_policy = Inr updated_policy" by (simp add: stored_policy_def to_numeric_opt_def updated_policy_def)
  have key: "sample_key = Some ''0123456789abcdef''" "class_run (\<lambda>c. CHR '' '' \<le> c \<and> c \<le> CHR ''~'') 16 128 ''0123456789abcdef''"
    by (simp add: sample_key_def) code_simp
  have "\<exists>resp db. serve sample_env admin_call admin_header (ReplacePolicy sample_update sample_key) admin_db = (Inr resp, db) \<and>
      cb_policy db = Some updated_policy"
    unfolding serve.simps replace_policy_def Let_def admin_governed(1) [OF admin_tables(1,2) admin_now] key(1) option.case sample_update_read
      d admin_tables claim [unfolded key(1)] claimed_def sum.case prod.case sample_digest
    using stored
    by (simp add: key(2) pol new row MAX_BIGINT_def admin_now answer_within_def claim_for_keys
        admin_granted [OF admin_authorized(2) [OF admin_tables(1,2)]] sample_operations)
  then show thesis using that by blast
qed

end
