(* ===== verification/ControlGuarantees.thy ===== *)
theory ControlGuarantees
  imports ControlSample
begin

text \<open>
  The guarantees of the control plane: who can change what, that a refused request changes nothing,
  that changes are on the audit trail, that revocation and rotation are final, and that the policy
  row is replaced by compare-and-set.
\<close>

section \<open>Requests\<close>

lemma revoked_changes: "tables (revoked_db rows) \<noteq> tables (keyed_db rows)"
  by (simp add: tables_def revoked_db_def keyed_db_def admin_db_def revoke_row_def admin_row_def drawn_row_def)

text \<open>
  C34. A request that is refused changes nothing: when the answer is an error, or an exception gets
  through, every table but the audit trail is as before. The routes for grants and for the policy keep
  this even when the audit store is down.
\<close>

theorem refused_request_changes_nothing:
  assumes "serve env cl header rq db = (res, db')" and "cl_store_up cl \<or> transactional rq"
    and "case res of Inl _ \<Rightarrow> True | Inr resp \<Rightarrow> 400 \<le> hr_status resp"
  shows "tables db' = tables db"
  using assms(1)
proof (cases rule: serve_cases)
  case (audited k who r db1 s err body)
  with assms(3) show ?thesis by auto
qed (use assms(2) in auto)

theorem refused_request_changes_nothing_witness:
  "\<exists>res db. serve sample_env admin_call None (RevokeCredential ''cred_admin'') admin_db = (Inr res, db) \<and> hr_status res = 401 \<and> tables db = tables admin_db"
proof -
  obtain res db where s: "serve sample_env admin_call None (RevokeCredential ''cred_admin'') admin_db = (Inr res, db)" and "hr_status res = 401"
    by (simp add: revoke_credential_def Let_def authenticated_def authorization_context_def bearer_key_def answer_def finish_def
        unauthenticated_def control_event_def valid_event_def AUDIT_OPERATIONS_def AUDIT_ACTIONS_def AUDIT_STAGES_def REASON_CODES_def
        audit_reason_def AUDIT_REASONS_def admin_call_def respond_def ERRORS_def ERROR_MESSAGES_def)
  then have "tables db = tables admin_db" by (intro refused_request_changes_nothing [OF s]) (simp_all add: admin_call_def)
  with s \<open>hr_status res = 401\<close> show ?thesis by blast
qed

text \<open>
  C32. Only administrators change anything: a request after which a table differs was authenticated by a
  live, unexpired credential of an active principal that holds an active \<^verbatim>\<open>admin.write\<close> grant on exactly
  the administrative resource of the route.
\<close>

theorem changes_need_admin:
  assumes "serve env cl header rq db = (res, db')" and "tables db' \<noteq> tables db"
  shows "\<exists>c r. authorization_context (ev_scrypt env) header (cl_now cl) (cb_registry db) (cb_credentials db) = Inr (Some c) \<and>
    r \<in> set (cb_credentials db) \<and> cr_id r = pc_credential_id c \<and> ce_status (cr_ref r) = ''active'' \<and>
    (\<forall>t. ce_expires_at (cr_ref r) = Some t \<longrightarrow> cl_now cl < t) \<and>
    pc_principal c \<in> set (principals (cb_registry db)) \<and> p_status (pc_principal c) = ''active'' \<and>
    snd (fst (route rq)) = ''admin.write'' \<and>
    active_grant (cb_registry db) (p_id (pc_principal c)) ''admin.write'' ''administrative_control'' (snd (route rq))"
proof -
  from assms(1) assms(2) obtain k who where k: "kind_of rq = Some k" and a: "authorized env cl header (route rq) db who"
    by (cases rule: serve_cases) blast+
  have w: "snd (fst (route rq)) = ''admin.write''" using k by (cases rq) simp_all
  have ctx: "authorization_context (ev_scrypt env) header (cl_now cl) (cb_registry db) (cb_credentials db) = Inr (Some (fst who))"
    using a by (simp add: authorized_def)
  then obtain key where "resolve_authorization_context (ev_scrypt env) key (cl_now cl) (cb_registry db) (cb_credentials db) = Inr (Some (fst who))"
    by (rule authorization_Inr)
  then obtain r where "r \<in> set (cb_credentials db)" "cr_id r = pc_credential_id (fst who)"
      "usable (ev_scrypt env) key (cl_now cl) (cr_ref r) (cr_key_hash r)" "pc_principal (fst who) \<in> set (principals (cb_registry db))"
    by (rule resolve_Inr)
  with ctx a w show ?thesis by (intro exI [of _ "fst who"] exI [of _ r]) (auto simp: authorized_def usable_def)
qed

theorem changes_need_admin_witness:
  "\<exists>c. authorization_context (ev_scrypt sample_env) admin_header (cl_now admin_call) (cb_registry (keyed_db [])) (cb_credentials (keyed_db [])) =
       Inr (Some c) \<and>
     active_grant (cb_registry (keyed_db [])) (p_id (pc_principal c)) ''admin.write'' ''administrative_control'' ''credentials''"
  using changes_need_admin [OF admin_revoked revoked_changes, of "[]"] by auto

text \<open>
  C33. Every change is on the audit trail or is answered as unaudited: after a request that changed a table
  either the request is answered with success and the trail has exactly one event more, which names its
  operation, its status, the principal and credential that made it and the grant that allowed it; or the
  audit store was down, the route is one that commits before it audits, the trail is as it was and the
  answer is \<^verbatim>\<open>503 audit_unavailable\<close>. So an answer of success never hides a change without its event.
\<close>

theorem changes_are_audited:
  assumes "serve env cl header rq db = (res, db')" and "tables db' \<noteq> tables db"
  shows "(cl_store_up cl \<and> (\<exists>resp e c g. res = Inr resp \<and> hr_status resp \<in> {200, 201, 204} \<and> cb_audit db' = cb_audit db @ [e] \<and>
      ae_operation e = fst (fst (route rq)) \<and> ae_outcome e = ''success'' \<and> ae_status e = hr_status resp \<and>
      authorization_context (ev_scrypt env) header (cl_now cl) (cb_registry db) (cb_credentials db) = Inr (Some c) \<and>
      ae_identity e = Some (identity_of env c) \<and> ae_decision e = Some (AllowEvidence (ev_reference env ''grant'' g)) \<and> valid_event e)) \<or>
    (\<not> cl_store_up cl \<and> \<not> transactional rq \<and> cb_audit db' = cb_audit db \<and>
      (\<exists>resp. res = Inr resp \<and> hr_status resp = 503 \<and> respond (cl_request_id cl) 503 None (Some ''audit_unavailable'') = Inr resp))"
  using assms(1)
proof (cases rule: serve_cases)
  case (audited k who r db1 s err body)
  obtain g where g: "pd_policy_id (snd (snd who)) = Some g" using audited(2) by (auto simp: authorized_def)
  have "authorization_context (ev_scrypt env) header (cl_now cl) (cb_registry db) (cb_credentials db) = Inr (Some (fst who))"
    using audited(2) by (simp add: authorized_def)
  then show ?thesis using g audited(4-6,8,10)
    by (intro disjI1 conjI exI [of _ "\<lparr>hr_status = s, hr_body = body\<rparr>"] exI [of _ "change_event env cl (fst (route rq)) who s err"]
        exI [of _ "fst who"] exI [of _ g]) (simp_all add: change_event_def)
qed (use assms(2) in auto)

theorem changes_are_audited_witness:
  "\<exists>e. cb_audit (revoked_db []) = cb_audit (keyed_db []) @ [e] \<and> ae_operation e = ''credentials.revoke'' \<and> valid_event e"
  using changes_are_audited [OF admin_revoked revoked_changes, of "[]"] by (auto simp: admin_call_def)

section \<open>Credentials over time\<close>

text \<open>The states a sequence of requests leads to, whatever each of them draws.\<close>

inductive administered :: "control_env \<Rightarrow> control_db \<Rightarrow> control_db \<Rightarrow> bool" for env db0 where
  start: "administered env db0 db0"
| request: "administered env db0 db \<Longrightarrow> serve env cl header rq db = (res, db') \<Longrightarrow> administered env db0 db'"

definition keyring_ok :: "control_db \<Rightarrow> bool" where
  "keyring_ok db = distinct (map cr_id (cb_credentials db))"

definition is_revoked :: "string \<Rightarrow> control_db \<Rightarrow> bool" where
  "is_revoked cid db = (\<exists>r\<in>set (cb_credentials db). cr_id r = cid \<and> ce_status (cr_ref r) = ''revoked'')"

lemma revoke_row_id [simp]: "cr_id (revoke_row now r) = cr_id r"
  by (simp add: revoke_row_def)

lemma ids_revoked [simp]: "cr_id ` set (update_where p (revoke_row now) rows) = cr_id ` set rows"
proof -
  have "map cr_id (update_where p (revoke_row now) rows) = map cr_id rows" by simp
  then show ?thesis by (metis list.set_map)
qed

lemma revoke_credential_row_Inr:
  "revoke_credential_row cid now rows = Inr (c, rows') \<Longrightarrow> rows' = update_where (revocable cid) (revoke_row now) rows"
  by (auto simp: revoke_credential_row_def Let_def outcome_simps)

lemma revoked_kept_revoke:
  "r \<in> set rows \<Longrightarrow> ce_status (cr_ref r) = ''revoked'' \<Longrightarrow> r \<in> set (update_where (revocable cid) (revoke_row now) rows)"
  by (auto simp: set_update_where revocable_def intro!: bexI [of _ r])

lemma revoked_kept_rotate:
  assumes "distinct (map cr_id rows)" and "select_one (\<lambda>r. cr_id r = cid) rows = Some old" and "ce_status (cr_ref old) = ''active''"
    and "r \<in> set rows" and "ce_status (cr_ref r) = ''revoked''"
  shows "r \<in> set (update_where (\<lambda>x. cr_id x = cid) (revoke_row now) rows)"
proof -
  have "cr_id r \<noteq> cid"
  proof
    assume "cr_id r = cid"
    then have "r = old" using assms(1,2,4) select_one_Some [OF assms(2)] by (auto simp: distinct_map inj_on_def)
    with assms(3,5) show False by simp
  qed
  with assms(4) show ?thesis by (auto simp: set_update_where intro!: bexI [of _ r])
qed

text \<open>A change keeps credential ids distinct and revoked credentials revoked.\<close>

lemma change_keyring:
  assumes "change env cl who db k r db1" and "keyring_ok db"
  shows "keyring_ok db1" and "is_revoked cid db \<Longrightarrow> is_revoked cid db1"
proof -
  have "keyring_ok db1 \<and> (is_revoked cid db \<longrightarrow> is_revoked cid db1)"
    using assms(1)
  proof (cases rule: change.cases)
    case (credential_issued raw expires q pid key issued credentials metadata rows)
    from credential_issued(6) show ?thesis
      by (rule issue_Inr) (use assms(2) in \<open>auto simp: keyring_ok_def is_revoked_def credential_issued(3) drawn_row_def\<close>)
  next
    case (credential_revoked cid' found credentials)
    then have rows: "cb_credentials db1 = update_where (revocable cid') (revoke_row (cl_now cl)) (cb_credentials db)"
      by (simp add: revoke_credential_row_Inr)
    show ?thesis using assms(2) revoked_kept_revoke
      by (auto simp: keyring_ok_def is_revoked_def rows intro!: revoked_kept_revoke)
  next
    case (credential_rotated cid' old expires issued credentials issuance q rows)
    from credential_rotated(5) show ?thesis
    proof (cases rule: rotate_Inr)
      case (rotated old' issued')
      from rotated(4) show ?thesis
      proof (rule issue_Inr)
        fix n assume n: "credentials = update_where (\<lambda>x. cr_id x = cid') (revoke_row (cl_now cl)) (cb_credentials db) @
            [drawn_row (ev_scrypt env) (ce_principal_id (cr_ref old')) (map_option fst expires) (cl_now cl) (cl_draw cl n)]"
          and fresh: "kd_credential_id (cl_draw cl n) \<notin> cr_id ` set (update_where (\<lambda>x. cr_id x = cid') (revoke_row (cl_now cl)) (cb_credentials db))"
        have "keyring_ok db1" using assms(2) fresh by (simp add: keyring_ok_def credential_rotated(3) n drawn_row_def)
        moreover have "is_revoked cid db1" if "is_revoked cid db"
          using that revoked_kept_rotate [OF assms(2) [unfolded keyring_ok_def] rotated(1,2)]
          by (auto simp: is_revoked_def credential_rotated(3) n)
        ultimately show ?thesis by simp
      qed
    qed simp
  qed (use assms(2) in \<open>simp_all add: keyring_ok_def is_revoked_def\<close>)
  then show "keyring_ok db1" and "is_revoked cid db \<Longrightarrow> is_revoked cid db1" by simp_all
qed

lemma keyring_audit [simp]:
  "keyring_ok (db\<lparr>cb_audit := a\<rparr>) = keyring_ok db" "is_revoked cid (db\<lparr>cb_audit := a\<rparr>) = is_revoked cid db"
  by (simp_all add: keyring_ok_def is_revoked_def)

lemma serve_keyring:
  assumes "serve env cl header rq db = (res, db')" and "keyring_ok db"
  shows "keyring_ok db'" and "is_revoked cid db \<Longrightarrow> is_revoked cid db'"
proof -
  have "keyring_ok db' \<and> (is_revoked cid db \<longrightarrow> is_revoked cid db')"
    using assms(1)
  proof (cases rule: serve_cases)
    case kept
    then show ?thesis using assms(2) by (simp add: tables_def keyring_ok_def is_revoked_def)
  qed (use change_keyring assms(2) in auto)
  then show "keyring_ok db'" and "is_revoked cid db \<Longrightarrow> is_revoked cid db'" by simp_all
qed

lemma administered_keyring:
  assumes "administered env db0 db" and "keyring_ok db0"
  shows "keyring_ok db \<and> (is_revoked cid db0 \<longrightarrow> is_revoked cid db)"
  using assms by induction (auto dest: serve_keyring)

text \<open>A revoked credential authenticates nobody.\<close>

lemma revoked_refused:
  assumes "keyring_ok db" and "is_revoked cid db"
    and "authorization_context scrypt header now reg (cb_credentials db) = Inr (Some c)"
  shows "pc_credential_id c \<noteq> cid"
proof
  assume c: "pc_credential_id c = cid"
  from assms(3) obtain key where "resolve_authorization_context scrypt key now reg (cb_credentials db) = Inr (Some c)"
    by (rule authorization_Inr)
  then obtain r where r: "r \<in> set (cb_credentials db)" "cr_id r = cid" "ce_status (cr_ref r) = ''active''"
    by (rule resolve_Inr) (use c in \<open>auto simp: usable_def\<close>)
  with assms(1,2) show False by (auto simp: keyring_ok_def is_revoked_def distinct_map inj_on_def)
qed

lemma respond_status: "respond rid s payload err = Inr resp \<Longrightarrow> hr_status resp = s"
  by (auto simp: respond_def Let_def split: if_splits option.splits prod.splits)

lemma finish_status: "finish env cl op r audit = (Inr resp, a) \<Longrightarrow> hr_status resp = rp_status r \<or> hr_status resp = 503"
  unfolding finish_def Let_def by (auto dest: respond_status split: sum.splits if_splits)

lemma answer_Inr:
  "answer env cl op r db = (Inr resp, db') \<Longrightarrow> (hr_status resp = rp_status r \<or> hr_status resp = 503) \<and> (\<exists>a. db' = db\<lparr>cb_audit := a\<rparr>)"
  unfolding answer_def by (auto dest: finish_status split: prod.splits)

lemma revoke_row_revoked:
  assumes "get_credential cid rows = Inr (Some c)"
  shows "\<exists>r\<in>set (update_where (revocable cid) (revoke_row now) rows). cr_id r = cid \<and> ce_status (cr_ref r) = ''revoked''"
proof -
  obtain r where r: "r \<in> set rows" "cr_id r = cid" and p: "project_credential r = Inr c"
    using assms by (auto simp: get_credential_def project_opt_def outcome_simps dest: select_one_Some split: option.splits)
  let ?r = "if revocable cid r then revoke_row now r else r"
  have "?r \<in> set (update_where (revocable cid) (revoke_row now) rows)" using r(1) by (auto simp: set_update_where)
  moreover have "cr_id ?r = cid" "ce_status (cr_ref ?r) = ''revoked''"
    using r p by (auto simp: revocable_def revoke_row_def project_credential_def split: if_splits)
  ultimately show ?thesis by blast
qed

lemma revoke_credential_204:
  assumes "revoke_credential env cl cid header db = (Inr resp, db')" and "hr_status resp = 204"
  shows "is_revoked cid db'"
proof -
  have "\<exists>c credentials a. get_credential cid (cb_credentials db) = Inr (Some c) \<and> db' = db\<lparr>cb_credentials := credentials, cb_audit := a\<rparr> \<and>
      credentials = update_where (revocable cid) (revoke_row (cl_now cl)) (cb_credentials db)"
    using assms
    by (auto simp: revoke_credential_def authenticated_def permitted_def Let_def invalid_request_def refused_def unauthenticated_def
        dest!: answer_Inr revoke_credential_row_Inr split: sum.splits option.splits if_splits)
  then show ?thesis using revoke_row_revoked by (fastforce simp: is_revoked_def)
qed

text \<open>
  C35. A revocation is final: once a credential's revocation is answered, no request ever authenticates
  with that credential again, whatever requests, issuances and rotations follow.
\<close>

theorem revocation_final:
  assumes "serve env cl header (RevokeCredential cid) db = (Inr resp, db1)" and "hr_status resp = 204" and "keyring_ok db"
    and "administered env db1 db2"
    and "authorization_context (ev_scrypt env) header' now (cb_registry db2) (cb_credentials db2) = Inr (Some c)"
  shows "pc_credential_id c \<noteq> cid"
proof -
  have "is_revoked cid db1" using revoke_credential_204 assms(1,2) by simp
  moreover have "keyring_ok db1" by (rule serve_keyring [OF assms(1,3)])
  ultimately have "keyring_ok db2" "is_revoked cid db2" using administered_keyring [OF assms(4)] by blast+
  then show ?thesis by (rule revoked_refused) (rule assms(5))
qed

theorem revocation_final_witness:
  "\<exists>c. authorization_context (ev_scrypt sample_env) (Some (''Bearer '' @ next_key)) sample_time (cb_registry (revoked_db [next_row]))
      (cb_credentials (revoked_db [next_row])) = Inr (Some c) \<and> pc_credential_id c \<noteq> ''cred_admin''"
proof -
  have "serve sample_env admin_call admin_header (RevokeCredential ''cred_admin'') (keyed_db [next_row]) =
      (Inr \<lparr>hr_status = 204, hr_body = None\<rparr>, revoked_db [next_row])"
    by (rule admin_revoked) (simp add: next_row_id)
  moreover obtain c where "authorization_context (ev_scrypt sample_env) (Some (''Bearer '' @ next_key)) sample_time (cb_registry (revoked_db [next_row]))
      (cb_credentials (revoked_db [next_row])) = Inr (Some c)"
    using next_resolved by (auto simp: revoked_db_def admin_db_def)
  moreover have "keyring_ok (keyed_db [next_row])" by (simp add: keyring_ok_def keyed_tables admin_row_simps next_row_id)
  ultimately show ?thesis using revocation_final [OF _ _ _ administered.start] by fastforce
qed

section \<open>Rotation\<close>

inductive_cases change_rotationE: "change env cl who db (CredentialRotation cid) r db1"

lemma change_rotation:
  assumes "change env cl who db (CredentialRotation cid) r db1"
  obtains old expires issued draw where "select_one (\<lambda>r. cr_id r = cid) (cb_credentials db) = Some old" and "ce_status (cr_ref old) = ''active''"
    and "cb_credentials db1 = update_where (\<lambda>x. cr_id x = cid) (revoke_row (cl_now cl)) (cb_credentials db) @
      [drawn_row (ev_scrypt env) (ce_principal_id (cr_ref old)) expires (cl_now cl) draw]"
    and "get (obj (get (the (rp_payload r)) ''issuance'')) ''key'' = JStr (kd_key draw)" and "rp_payload r \<noteq> None" and "rp_status r = 201"
    and "\<exists>n. draw = cl_draw cl n" and "\<exists>p\<in>set (principals (cb_registry db)). p_id p = ce_principal_id (cr_ref old)"
    and "\<forall>t. expires = Some t \<longrightarrow> cl_now cl < t" and "identifier_pattern (kd_credential_id draw)" and "cb_registry db1 = cb_registry db"
proof -
  obtain old' issued credentials issuance rows and expires :: "(datetime \<times> string) option" where
    rot: "rotate (ev_scrypt env) (cl_draw cl) cid (map_option fst expires) (cl_now cl) (cb_registry db) (cb_credentials db) = Inr (Some issued, credentials)"
    and r: "r = granted who 201 (Some (rotation_metadata env old' (revealed issuance (ia_key issued)))) None"
    and db1: "db1 = db\<lparr>cb_credentials := credentials, cb_bindings := rows\<rparr>"
    using assms by (auto elim!: change_rotationE)
  from rot show thesis
  proof (cases rule: rotate_Inr)
    case (rotated old issued')
    from rotated(4) obtain n where "credentials = update_where (\<lambda>x. cr_id x = cid) (revoke_row (cl_now cl)) (cb_credentials db) @
        [drawn_row (ev_scrypt env) (ce_principal_id (cr_ref old)) (map_option fst expires) (cl_now cl) (cl_draw cl n)]"
        "ia_key issued' = kd_key (cl_draw cl n)" "\<exists>p\<in>set (principals (cb_registry db)). p_id p = ce_principal_id (cr_ref old)"
        "\<forall>t. map_option fst expires = Some t \<longrightarrow> cl_now cl < t" "identifier_pattern (kd_credential_id (cl_draw cl n))"
      by (rule issue_Inr)
    then show thesis using rotated(3)
      by (intro that [OF rotated(1,2), of "map_option fst expires" "cl_draw cl n"])
         (auto simp: db1 r granted_def rotation_metadata_def revealed_def)
  qed simp
qed

text \<open>
  The keys a rotation draws are new: well-formed, and none of them opens a credential that is already
  stored. Principals are stored as the contract of a principal allows.
\<close>

definition new_keys :: "control_env \<Rightarrow> control_call \<Rightarrow> control_db \<Rightarrow> bool" where
  "new_keys env cl db = (\<forall>n. is_api_key (kd_key (cl_draw cl n)) \<and>
     (\<forall>r\<in>set (cb_credentials db). \<not> verify_api_key (ev_scrypt env) (kd_key (cl_draw cl n)) (cr_key_hash r)))"

text \<open>
  C36. A rotation replaces a credential: a rotation that changed the credentials revoked exactly the one it
  names, which authenticates nobody from then on, and added one active credential of the same principal.
  The key in the answer works: as a bearer token it authenticates that principal with the new credential
  at once and until the credential expires.
\<close>

theorem rotation_replaces_key:
  assumes "serve env cl header (RotateCredential cid raw key) db = (Inr resp, db1)" and "cb_credentials db1 \<noteq> cb_credentials db"
    and "cl_store_up cl" and "keyring_ok db" and "new_keys env cl db" and "\<forall>p\<in>set (principals (cb_registry db)). project_principal p = Inr p"
  shows "\<exists>old new d secret. old \<in> set (cb_credentials db) \<and> cr_id old = cid \<and> ce_status (cr_ref old) = ''active'' \<and>
    cb_credentials db1 = update_where (\<lambda>r. cr_id r = cid) (revoke_row (cl_now cl)) (cb_credentials db) @ [new] \<and>
    ce_principal_id (cr_ref new) = ce_principal_id (cr_ref old) \<and> ce_status (cr_ref new) = ''active'' \<and>
    hr_status resp = 201 \<and> hr_body resp = Some (JObj d) \<and> get (obj (get d ''issuance'')) ''key'' = JStr secret \<and>
    (\<forall>t. ce_expires_at (cr_ref new) = Some t \<longrightarrow> cl_now cl < t) \<and>
    (\<forall>now. (\<forall>t. ce_expires_at (cr_ref new) = Some t \<longrightarrow> now < t) \<longrightarrow>
       (\<exists>c. authorization_context (ev_scrypt env) (Some (''Bearer '' @ secret)) now (cb_registry db1) (cb_credentials db1) = Inr (Some c) \<and>
          pc_credential_id c = cr_id new \<and> p_id (pc_principal c) = ce_principal_id (cr_ref old))) \<and>
    (\<forall>db2 header' now c. administered env db1 db2 \<longrightarrow>
       authorization_context (ev_scrypt env) header' now (cb_registry db2) (cb_credentials db2) = Inr (Some c) \<longrightarrow> pc_credential_id c \<noteq> cid)"
  using assms(1)
proof (cases rule: serve_cases)
  case kept
  then show ?thesis using assms(2) by (simp add: tables_def)
next
  case (audited k who r db0 s err body)
  from audited(1) have k: "k = CredentialRotation cid" by simp
  from audited(3) [unfolded k] obtain old expires draw where old: "select_one (\<lambda>r. cr_id r = cid) (cb_credentials db) = Some old"
      "ce_status (cr_ref old) = ''active''"
    and rows: "cb_credentials db0 = update_where (\<lambda>x. cr_id x = cid) (revoke_row (cl_now cl)) (cb_credentials db) @
      [drawn_row (ev_scrypt env) (ce_principal_id (cr_ref old)) expires (cl_now cl) draw]"
    and key: "get (obj (get (the (rp_payload r)) ''issuance'')) ''key'' = JStr (kd_key draw)" "rp_payload r \<noteq> None" "rp_status r = 201"
    and drawn: "\<exists>n. draw = cl_draw cl n" "\<exists>p\<in>set (principals (cb_registry db)). p_id p = ce_principal_id (cr_ref old)"
      "\<forall>t. expires = Some t \<longrightarrow> cl_now cl < t" "identifier_pattern (kd_credential_id draw)" "cb_registry db0 = cb_registry db"
    by (rule change_rotation)
  let ?new = "drawn_row (ev_scrypt env) (ce_principal_id (cr_ref old)) expires (cl_now cl) draw"
  let ?rest = "update_where (\<lambda>x. cr_id x = cid) (revoke_row (cl_now cl)) (cb_credentials db)"
  have mine: "old \<in> set (cb_credentials db)" "cr_id old = cid" using select_one_Some [OF old(1)] by auto
  have "revoke_row (cl_now cl) old \<in> set (cb_credentials db0)" using mine by (auto simp: rows set_update_where intro!: bexI [of _ old])
  then have revoked: "is_revoked cid db1" using mine by (auto simp: audited(6) is_revoked_def revoke_row_def intro!: bexI [of _ "revoke_row (cl_now cl) old"])
  have gone: "pc_credential_id c \<noteq> cid" if "administered env db1 db2"
      "authorization_context (ev_scrypt env) header' now (cb_registry db2) (cb_credentials db2) = Inr (Some c)" for db2 header' now c
    using administered_keyring [OF that(1) serve_keyring(1) [OF assms(1,4)]] revoked revoked_refused [OF _ _ that(2)] by blast
  have valid: "is_api_key (kd_key draw)" and others: "\<forall>r\<in>set ?rest. \<not> verify_api_key (ev_scrypt env) (kd_key draw) (cr_key_hash r)"
    using assms(5) drawn(1) by (auto simp: new_keys_def set_update_where revoke_row_def split: if_splits)
  have opens: "\<exists>c. authorization_context (ev_scrypt env) (Some (''Bearer '' @ kd_key draw)) now (cb_registry db1) (cb_credentials db1) = Inr (Some c) \<and>
      pc_credential_id c = cr_id ?new \<and> p_id (pc_principal c) = ce_principal_id (cr_ref old)"
    if "\<forall>t. ce_expires_at (cr_ref ?new) = Some t \<longrightarrow> now < t" for now
    using issued_resolves [OF refl others, where now = now and expires = expires and reg = "cb_registry db" and pid = "ce_principal_id (cr_ref old)" and
        issued_at = "cl_now cl"] that drawn(2,4,5) assms(6)
      bearer_own [OF valid]
    by (simp add: authorization_context_def audited(6) rows) (simp add: drawn_row_def)
  have "ce_principal_id (cr_ref ?new) = ce_principal_id (cr_ref old)" "ce_status (cr_ref ?new) = ''active''" "ce_expires_at (cr_ref ?new) = expires"
    by (simp_all add: drawn_row_def)
  moreover have "resp = \<lparr>hr_status = 201, hr_body = Some (JObj (the (rp_payload r)))\<rparr>" using audited(5,7,9) key by auto
  ultimately show ?thesis
    using mine old(2) rows gone key(1) opens drawn(3)
    by (intro exI [of _ old] exI [of _ ?new] exI [of _ "the (rp_payload r)"] exI [of _ "kd_key draw"]) (simp add: audited(6))
qed (use assms(3) in simp)

lemma sample_new_keys: "new_keys sample_env admin_call admin_db"
proof -
  have "is_api_key next_key" by code_simp
  moreover have "admin_key \<noteq> next_key" by (simp add: admin_key_def next_key_def)
  ultimately show ?thesis
    by (simp add: new_keys_def admin_call_def admin_tables admin_row_def drawn_row_def admin_draw_def verify_hash_iff sample_env_def)
qed

theorem rotation_replaces_key_witness:
  "\<exists>resp db new d secret c. serve sample_env admin_call admin_header (RotateCredential ''cred_admin'' (JObj fmempty) sample_key) admin_db = (Inr resp, db) \<and>
     hr_status resp = 201 \<and> hr_body resp = Some (JObj d) \<and> get (obj (get d ''issuance'')) ''key'' = JStr secret \<and>
     cb_credentials db = [revoke_row sample_time admin_row, new] \<and> ce_principal_id (cr_ref new) = ''root_admin'' \<and>
     authorization_context (ev_scrypt sample_env) (Some (''Bearer '' @ secret)) sample_time (cb_registry db) (cb_credentials db) = Inr (Some c) \<and>
     p_id (pc_principal c) = ''root_admin''"
proof -
  obtain resp db where s: "serve sample_env admin_call admin_header (RotateCredential ''cred_admin'' (JObj fmempty) sample_key) admin_db = (Inr resp, db)"
    and rows: "cb_credentials db = [revoke_row sample_time admin_row, next_row]" by (rule admin_rotated)
  then have changed: "cb_credentials db \<noteq> cb_credentials admin_db" by (simp add: admin_tables)
  have "cl_store_up admin_call" "keyring_ok admin_db" "\<forall>p\<in>set (principals (cb_registry admin_db)). project_principal p = Inr p"
    using admin_projected by (simp_all add: admin_call_def keyring_ok_def admin_tables admin_registry_def)
  from rotation_replaces_key [OF s changed this(1,2) sample_new_keys this(3)] obtain old new d secret where
    got: "old \<in> set (cb_credentials admin_db)"
      "cb_credentials db = update_where (\<lambda>r. cr_id r = ''cred_admin'') (revoke_row (cl_now admin_call)) (cb_credentials admin_db) @ [new]"
      "ce_principal_id (cr_ref new) = ce_principal_id (cr_ref old)"
      "hr_status resp = 201" "hr_body resp = Some (JObj d)" "get (obj (get d ''issuance'')) ''key'' = JStr secret"
      "\<forall>t. ce_expires_at (cr_ref new) = Some t \<longrightarrow> cl_now admin_call < t"
      "\<forall>now. (\<forall>t. ce_expires_at (cr_ref new) = Some t \<longrightarrow> now < t) \<longrightarrow>
       (\<exists>c. authorization_context (ev_scrypt sample_env) (Some (''Bearer '' @ secret)) now (cb_registry db) (cb_credentials db) = Inr (Some c) \<and>
          pc_credential_id c = cr_id new \<and> p_id (pc_principal c) = ce_principal_id (cr_ref old))" by blast
  have "old = admin_row" using got(1) by (simp add: admin_tables)
  moreover obtain c where "authorization_context (ev_scrypt sample_env) (Some (''Bearer '' @ secret)) sample_time (cb_registry db) (cb_credentials db) =
      Inr (Some c)" "p_id (pc_principal c) = ce_principal_id (cr_ref old)"
    using got(8) [rule_format, of sample_time] got(7) by (auto simp: admin_now)
  ultimately show ?thesis using s got rows by (auto simp: admin_row_simps admin_tables admin_now update_where_def)
qed

end
