(* ===== verification/ControlRetries.thy ===== *)
theory ControlRetries
  imports ControlGuarantees
begin

text \<open>
  Concurrent and repeated control requests: of two policy replacements that saw the same version one
  takes effect, and a repeated issuance neither issues again nor reveals the secret again.
\<close>

section \<open>The policy row\<close>

inductive_cases change_policyE: "change env cl who db (PolicyReplacement raw) r db1"

lemma change_other_policy: "change env cl who db k r db1 \<Longrightarrow> \<nexists>raw. k = PolicyReplacement raw \<Longrightarrow> cb_policy db1 = cb_policy db"
  by (erule change.cases) simp_all

lemma serve_policy:
  assumes "serve env cl header rq db = (res, db')"
  obtains (same) "cb_policy db' = cb_policy db"
  | (replaced) raw key b p p' where "rq = ReplacePolicy raw key" and "read_policy_update raw = Some b" and "cb_policy db = Some p"
      and "pu_expected_version b = lp_version p" and "stored_policy (replaced_policy b (cl_now cl) p) = Inr p'" and "cb_policy db' = Some p'"
proof -
  have by_change: thesis if "kind_of rq = Some k" "change env cl who db k r db1" "cb_policy db' = cb_policy db1" for k who r db1
  proof (cases "\<exists>raw. k = PolicyReplacement raw")
    case True
    then obtain raw where k: "k = PolicyReplacement raw" ..
    with that(1) obtain key where "rq = ReplacePolicy raw key" by (cases rq) simp_all
    with that(2,3) k replaced show thesis by (auto elim!: change_policyE)
  next
    case False
    then show thesis using change_other_policy [OF that(2)] that(3) same by simp
  qed
  from assms show thesis
    by (cases rule: serve_cases) (auto simp: tables_def intro: same by_change)
qed

lemma stored_version: "stored_policy (replaced_policy b now p) = Inr p' \<Longrightarrow>
    lp_version p' = lp_version p + 1 \<and> lp_incident_token_limit p' = pu_incident_token_limit b"
  by (auto simp: stored_policy_def replaced_policy_def outcome_simps)

lemma administered_version:
  assumes "administered env db0 db" and "cb_policy db0 = Some p0"
  shows "\<exists>p. cb_policy db = Some p \<and> lp_version p0 \<le> lp_version p"
  using assms
proof induction
  case (request db cl header rq res db')
  then obtain p where p: "cb_policy db = Some p" "lp_version p0 \<le> lp_version p" by blast
  from request.hyps(2) show ?case by (cases rule: serve_policy) (use p stored_version in fastforce)+
qed simp

text \<open>
  C38. No policy update is lost: when a replacement took effect, the row holds its limits under the next
  version, and a later replacement that expects the same version changes nothing, whatever happens between.
\<close>

theorem no_lost_policy_update:
  assumes "serve env cl header (ReplacePolicy raw key) db = (res, db1)" and "cb_policy db1 \<noteq> cb_policy db"
    and "administered env db1 db2" and "serve env cl' header' (ReplacePolicy raw' key') db2 = (res', db3)"
    and "read_policy_update raw = Some b" and "read_policy_update raw' = Some b'" and "pu_expected_version b' = pu_expected_version b"
  shows "(\<exists>p. cb_policy db1 = Some p \<and> lp_version p = pu_expected_version b + 1 \<and> lp_incident_token_limit p = pu_incident_token_limit b) \<and>
    cb_policy db3 = cb_policy db2"
proof -
  from assms(1) obtain p p1 where p: "pu_expected_version b = lp_version p" "stored_policy (replaced_policy b (cl_now cl) p) = Inr p1"
      "cb_policy db1 = Some p1"
    by (cases rule: serve_policy) (use assms(2,5) in auto)
  have p1: "lp_version p1 = pu_expected_version b + 1" "lp_incident_token_limit p1 = pu_incident_token_limit b" using stored_version [OF p(2)] p(1) by auto
  obtain p2 where p2: "cb_policy db2 = Some p2" "lp_version p1 \<le> lp_version p2" using administered_version [OF assms(3) p(3)] by blast
  from assms(4) have "cb_policy db3 = cb_policy db2"
    by (cases rule: serve_policy) (use p2 p1 assms(6,7) in auto)
  with p(3) p1 show ?thesis by simp
qed

theorem no_lost_policy_update_witness:
  "\<exists>res db1 res' db2. serve sample_env admin_call admin_header (ReplacePolicy sample_update sample_key) admin_db = (res, db1) \<and>
     cb_policy db1 = Some updated_policy \<and>
     serve sample_env admin_call admin_header (ReplacePolicy sample_update None) db1 = (res', db2) \<and> cb_policy db2 = Some updated_policy"
proof -
  obtain res db1 where s: "serve sample_env admin_call admin_header (ReplacePolicy sample_update sample_key) admin_db = (Inr res, db1)"
    and p: "cb_policy db1 = Some updated_policy" by (rule admin_policy)
  obtain res' db2 where s': "serve sample_env admin_call admin_header (ReplacePolicy sample_update None) db1 = (res', db2)"
    by (cases "serve sample_env admin_call admin_header (ReplacePolicy sample_update None) db1")
  have "cb_policy db1 \<noteq> cb_policy admin_db" using p by (simp add: admin_db_def updated_policy_def)
  then have "cb_policy db2 = cb_policy db1"
    using no_lost_policy_update [OF s _ administered.start s' sample_update_read sample_update_read refl] by simp
  with s s' p show ?thesis by auto
qed

section \<open>Repeated issuances\<close>

definition lasting :: "string \<Rightarrow> string \<Rightarrow> idempotency_row \<Rightarrow> control_db \<Rightarrow> bool" where
  "lasting scope key r db = (get_binding scope key (cb_bindings db) = Some r \<and> ik_expires_at r = None)"

lemma fresh_claim_keeps:
  assumes "fresh_claim q db rows" and "lasting scope key r db"
  shows "(cq_scope q, cq_key_digest q) \<noteq> (scope, key)" and "get_binding scope key rows = Some r"
proof -
  obtain b where b: "claim_or_replay q (cb_bindings db) = Inr (b, rows)" "\<not> ib_replayed b" using assms(1) by (auto simp: fresh_claim_def)
  have r: "get_binding scope key (cb_bindings db) = Some r" "\<not> expired (cq_now q) r" using assms(2) by (auto simp: lasting_def expired_def)
  have differs: "(cq_scope q, cq_key_digest q) \<noteq> (scope, key)"
    using b r by (auto elim!: claim_fresh_Inr)
  then show "(cq_scope q, cq_key_digest q) \<noteq> (scope, key)" and "get_binding scope key rows = Some r"
    using claim_other [OF b(1) differs] r(1) by simp_all
qed

lemma answered_claim_keeps:
  assumes "answered_claim q payload db rows" and "lasting scope key r db"
  shows "(cq_scope q, cq_key_digest q) \<noteq> (scope, key)" and "get_binding scope key rows = Some r"
proof -
  obtain rows1 where f: "fresh_claim q db rows1" and s: "set_response_payload (cq_scope q) (cq_key_digest q) payload rows1 = Inr rows"
    using assms(1) by (auto simp: answered_claim_def)
  show differs: "(cq_scope q, cq_key_digest q) \<noteq> (scope, key)" by (rule fresh_claim_keeps [OF f assms(2)])
  from s show "get_binding scope key rows = Some r"
    by (rule set_payload_Inr) (use fresh_claim_keeps [OF f assms(2)] differs in auto)
qed

lemma change_keeps: "change env cl who db k r db1 \<Longrightarrow> lasting scope key row db \<Longrightarrow> lasting scope key row db1"
  by (erule change.cases) (auto simp: lasting_def dest: fresh_claim_keeps(2) answered_claim_keeps(2))

lemma serve_keeps:
  assumes "serve env cl header rq db = (res, db')" and "lasting scope key row db"
  shows "lasting scope key row db'"
  using assms(1)
proof (cases rule: serve_cases)
  case (audited k who r db1 s err body)
  then show ?thesis using change_keeps [OF audited(3) assms(2)] by (simp add: lasting_def)
qed (use assms(2) change_keeps in \<open>auto simp: tables_def lasting_def\<close>)

lemma administered_keeps: "administered env db0 db \<Longrightarrow> lasting scope key row db0 \<Longrightarrow> lasting scope key row db"
  by (induction rule: administered.induct) (auto dest: serve_keeps)

inductive_cases change_issueE: "change env cl who db (CredentialIssue pid raw key) r db1"

definition issue_claim :: "control_env \<Rightarrow> control_call \<Rightarrow> subject \<Rightarrow> string \<Rightarrow> string option \<Rightarrow> (datetime \<times> string) option \<Rightarrow> claim_request" where
  "issue_claim env cl who pid key expires = claim_for env cl who ''POST'' (''/v1/principals/'' @ pid @ ''/credentials'') ''principal_lifetime'' key
     (JObj (dict [(''expires_at'', expiry_text expires)])) 201 pid"

lemma issue_claim_binding: "cq_binding (issue_claim env cl who pid key expires) = ''principal_lifetime''"
  by (simp add: issue_claim_def claim_for_def)

lemma issue_claim_same:
  assumes "p_id (pc_principal (fst who')) = p_id (pc_principal (fst who))"
  shows "cq_scope (issue_claim env cl' who' pid key expires) = cq_scope (issue_claim env cl who pid key expires)"
    and "cq_key_digest (issue_claim env cl' who' pid key expires) = cq_key_digest (issue_claim env cl who pid key expires)"
    and "cq_principal_id (issue_claim env cl' who' pid key expires) = cq_principal_id (issue_claim env cl who pid key expires)"
    and "cq_payload_sha256 (issue_claim env cl' who' pid key expires) = cq_payload_sha256 (issue_claim env cl who pid key expires)"
  using assms by (simp_all add: issue_claim_def claim_for_def binding_scope_def)

lemma change_issued:
  assumes "change env cl who db (CredentialIssue pid raw key) r db1"
  obtains expires issued credentials rows where "read_credential_issue env raw = Some expires"
    and "issue (ev_scrypt env) (cl_draw cl) pid (map_option fst expires) (cl_now cl) (cb_registry db) (cb_credentials db) = Inr (issued, credentials)"
    and "answered_claim (issue_claim env cl who pid key expires) (issuance_metadata env (expiry_text expires) (ia_credential issued) None) db rows"
    and "db1 = db\<lparr>cb_credentials := credentials, cb_bindings := rows\<rparr>"
  using assms by (rule change_issueE) (simp add: that issue_claim_def)

text \<open>The binding an answered claim without expiry leaves, and what it makes of the same claim later.\<close>

definition answered_row :: "claim_request \<Rightarrow> dict \<Rightarrow> idempotency_row \<Rightarrow> bool" where
  "answered_row q payload r = (ik_expires_at r = None \<and> ik_principal_id r = cq_principal_id q \<and> ik_payload_sha256 r = cq_payload_sha256 q \<and>
     ik_outcome r = fmupd ''response_payload'' (JObj payload) (outcome_document (cq_outcome q)))"

lemma answered_lasting:
  assumes "answered_claim q payload db rows" and "cq_binding q = ''principal_lifetime''"
  obtains r where "get_binding (cq_scope q) (cq_key_digest q) rows = Some r" and "answered_row q payload r"
proof -
  obtain rows1 b where c: "claim_or_replay q (cb_bindings db) = Inr (b, rows1)" "\<not> ib_replayed b"
    and s: "set_response_payload (cq_scope q) (cq_key_digest q) payload rows1 = Inr rows"
    using assms(1) by (auto simp: answered_claim_def fresh_claim_def)
  from c obtain kept until where rows1: "rows1 = kept @ [claim_row q until]" and none: "get_binding (cq_scope q) (cq_key_digest q) kept = None"
    and until: "retained_until (cq_binding q) (cq_now q) (cq_expires_at q) = Inr until" by (rule claim_fresh_Inr)
  have "until = None" using until assms(2) by (simp add: retained_until_def)
  then have got: "get_binding (cq_scope q) (cq_key_digest q) rows1 = Some (claim_row q None)"
    using none unfolding rows1 get_binding_def by (simp add: select_one_append) (simp add: select_one_def claim_row_def)
  from s obtain r where r: "get_binding (cq_scope q) (cq_key_digest q) rows1 = Some r"
    and new: "get_binding (cq_scope q) (cq_key_digest q) rows = Some (r\<lparr>ik_outcome := fmupd ''response_payload'' (JObj payload) (ik_outcome r)\<rparr>)"
    by (rule set_payload_Inr)
  from r got have "r = claim_row q None" by simp
  then show thesis by (intro that [OF new]) (simp add: answered_row_def claim_row_def)
qed

lemma answered_again:
  assumes "get_binding (cq_scope q') (cq_key_digest q') rows = Some r" and "answered_row q payload r"
    and "cq_principal_id q' = cq_principal_id q" and "cq_payload_sha256 q' = cq_payload_sha256 q" and "cq_binding q' = ''principal_lifetime''"
  shows "\<exists>b. claim_or_replay q' rows = Inr (b, rows) \<and> ib_replayed b \<and> io_response_payload (ib_outcome b) = payload"
  using assms
  by (auto simp: answered_row_def claim_or_replay_def retained_until_def Let_def replay_binding_def stored_outcome_def expired_def
      outcome_document_def int_item_def str_item_def item_def getd_def)

lemma answer_body:
  assumes "answer env cl op (granted who 201 (Some d) err) db = (Inr resp, db')" and "hr_status resp = 201"
  shows "hr_body resp = Some (JObj d)"
proof -
  have "respond (cl_request_id cl) 201 (Some d) err = Inr \<lparr>hr_status = 201, hr_body = Some (JObj d)\<rparr>" by (simp add: respond_def)
  moreover have "resp \<noteq> \<lparr>hr_status = 503, hr_body = x\<rparr>" for x using assms(2) by auto
  ultimately show ?thesis
    using assms(1) respond_unavailable [of "cl_request_id cl"]
    by (auto simp: answer_def finish_granted split: prod.splits sum.splits if_splits)
qed

lemma issue_credential_replayed:
  assumes "issue_credential env cl pid raw header key db = (Inr resp, db')" and "hr_status resp = 201"
    and "authorization_context (ev_scrypt env) header (cl_now cl) (cb_registry db) (cb_credentials db) = Inr (Some c)"
    and "read_credential_issue env raw = Some expires"
    and "\<And>who. fst who = c \<Longrightarrow> \<exists>b. claim_or_replay (issue_claim env cl who pid key expires) (cb_bindings db) = Inr (b, cb_bindings db) \<and>
      ib_replayed b \<and> io_response_payload (ib_outcome b) = payload"
  shows "hr_body resp = Some (JObj payload)"
proof -
  let ?op = "(''credentials.issue'', ''admin.write'')"
  have c: "claimed env cl ?op (c, x) (issue_claim env cl (c, x) pid key expires) db (\<lambda>binding rows.
        if ib_replayed binding then answer env cl ?op (granted (c, x) 201 (Some (io_response_payload (ib_outcome binding))) None) (db\<lparr>cb_bindings := rows\<rparr>)
        else k binding rows) =
      answer env cl ?op (granted (c, x) 201 (Some payload) None) db" for x k
    using assms(5) [of "(c, x)"] by (auto simp: claimed_def)
  have other: "answer env cl ?op r db \<noteq> (Inr resp, db')" if "rp_status r \<noteq> 201" for r
    using that assms(2) answer_Inr [of env cl ?op r db resp db'] by auto
  define digest where "digest = ev_key_digest env (case key of None \<Rightarrow> [] | Some k \<Rightarrow> k)"
  show ?thesis
    using assms(1) answer_body [OF _ assms(2)]
    unfolding issue_credential_def Let_def authenticated_def permitted_def assms(3,4) sum.case option.case issue_claim_def [symmetric] digest_def [symmetric]
    by (auto simp: c other invalid_request_def refused_def split: sum.splits option.splits if_splits)
qed

lemma serve_changed:
  assumes "serve env cl header rq db = (res, db')" and "cb_credentials db' \<noteq> cb_credentials db" and "kind_of rq = Some k"
    and "authorization_context (ev_scrypt env) header (cl_now cl) (cb_registry db) (cb_credentials db) = Inr (Some c)"
  obtains who r db1 where "change env cl who db k r db1" and "fst who = c" and "tables db' = tables db1"
  using assms(1)
proof (cases rule: serve_cases)
  case (audited k' who r db1 s err body)
  then show thesis using that [of who r db1] assms(3,4) by (simp add: authorized_def tables_def)
next
  case (unaudited k' who r resp)
  then show thesis using that [of who r db'] assms(3,4) by (simp add: authorized_def)
qed (use assms(2) in \<open>simp add: tables_def\<close>)

text \<open>
  C39. A secret is revealed once: when an issuance took effect, the same request of the same principal at any
  later time issues no other credential, and an answer 201 to it describes the credential issued first,
  without its key.
\<close>

theorem secret_revealed_once:
  assumes "serve env cl header (IssueCredential pid raw key) db = (res, db1)" and "cb_credentials db1 \<noteq> cb_credentials db"
    and "authorization_context (ev_scrypt env) header (cl_now cl) (cb_registry db) (cb_credentials db) = Inr (Some c)"
    and "administered env db1 db2"
    and "authorization_context (ev_scrypt env) header' (cl_now cl') (cb_registry db2) (cb_credentials db2) = Inr (Some c')"
    and "p_id (pc_principal c') = p_id (pc_principal c)"
    and "serve env cl' header' (IssueCredential pid raw key) db2 = (res', db3)"
  shows "cb_credentials db3 = cb_credentials db2 \<and>
    (\<forall>resp. res' = Inr resp \<and> hr_status resp = 201 \<longrightarrow> (\<exists>d. hr_body resp = Some (JObj d) \<and> get d ''key'' = JNull \<and>
       get d ''secret_revealed'' = JBool False \<and> get (obj (get d ''credential'')) ''credential_id'' = JStr (cr_id (last (cb_credentials db1)))))"
proof -
  from assms(1,2) _ assms(3) obtain who r db0 where ch: "change env cl who db (CredentialIssue pid raw key) r db0"
    and who: "fst who = c" and t: "tables db1 = tables db0" by (rule serve_changed) simp
  from ch obtain expires issued credentials rows where body: "read_credential_issue env raw = Some expires"
    and iss: "issue (ev_scrypt env) (cl_draw cl) pid (map_option fst expires) (cl_now cl) (cb_registry db) (cb_credentials db) = Inr (issued, credentials)"
    and ans: "answered_claim (issue_claim env cl who pid key expires) (issuance_metadata env (expiry_text expires) (ia_credential issued) None) db rows"
    and db0: "db0 = db\<lparr>cb_credentials := credentials, cb_bindings := rows\<rparr>"
    by (rule change_issued)
  let ?m = "issuance_metadata env (expiry_text expires) (ia_credential issued) None" and ?q = "issue_claim env cl who pid key expires"
  from iss have last: "ia_credential issued = cr_ref (last (cb_credentials db1))"
    by (rule issue_Inr) (use t db0 in \<open>auto simp: tables_def\<close>)
  from ans obtain row where row: "get_binding (cq_scope ?q) (cq_key_digest ?q) rows = Some row" "answered_row ?q ?m row"
    by (rule answered_lasting) (rule issue_claim_binding)
  then have "lasting (cq_scope ?q) (cq_key_digest ?q) row db1" using t db0 by (simp add: lasting_def tables_def answered_row_def)
  then have last2: "lasting (cq_scope ?q) (cq_key_digest ?q) row db2" by (rule administered_keeps [OF assms(4)])
  have same: "p_id (pc_principal (fst w)) = p_id (pc_principal (fst who))" if "fst w = c'" for w using that who assms(6) by simp
  have "cb_credentials db3 = cb_credentials db2"
  proof (rule ccontr)
    assume "cb_credentials db3 \<noteq> cb_credentials db2"
    from assms(7) this _ assms(5) obtain who' r' db' where ch': "change env cl' who' db2 (CredentialIssue pid raw key) r' db'" and who': "fst who' = c'"
      by (rule serve_changed) simp
    from ch' show False
      by (rule change_issued) (use body answered_claim_keeps(1) [OF _ last2] issue_claim_same(1,2) [OF same [OF who'], of env cl' pid key expires cl] in force)
  qed
  moreover have again: "\<exists>b. claim_or_replay (issue_claim env cl' w pid key expires) (cb_bindings db2) = Inr (b, cb_bindings db2) \<and>
      ib_replayed b \<and> io_response_payload (ib_outcome b) = ?m" if "fst w = c'" for w
    by (rule answered_again [OF _ row(2)])
       (use last2 issue_claim_same [OF same [OF that], of env cl' pid key expires cl] in \<open>simp_all add: lasting_def issue_claim_binding\<close>)
  have "hr_body resp = Some (JObj ?m)" if "res' = Inr resp" "hr_status resp = 201" for resp
    using assms(7) that by (intro issue_credential_replayed [OF _ that(2) assms(5) body again]) simp_all
  moreover have "get ?m ''key'' = JNull" "get ?m ''secret_revealed'' = JBool False"
      "get (obj (get ?m ''credential'')) ''credential_id'' = JStr (cr_id (last (cb_credentials db1)))"
    by (simp_all add: issuance_metadata_def credential_document_def last)
  ultimately show ?thesis by blast
qed

theorem secret_revealed_once_witness:
  "\<exists>res db1 res' db2. serve sample_env admin_call admin_header (IssueCredential ''root_admin'' (JObj fmempty) sample_key) admin_db = (res, db1) \<and>
     length (cb_credentials db1) = 2 \<and>
     serve sample_env admin_call admin_header (IssueCredential ''root_admin'' (JObj fmempty) sample_key) db1 = (res', db2) \<and>
     length (cb_credentials db2) = 2"
proof -
  obtain res db1 where s: "serve sample_env admin_call admin_header (IssueCredential ''root_admin'' (JObj fmempty) sample_key) admin_db = (Inr res, db1)"
    and rows: "cb_credentials db1 = [admin_row, next_row]" and reg: "cb_registry db1 = admin_registry" by (rule admin_issued)
  obtain res' db2 where s': "serve sample_env admin_call admin_header (IssueCredential ''root_admin'' (JObj fmempty) sample_key) db1 = (res', db2)"
    by (cases "serve sample_env admin_call admin_header (IssueCredential ''root_admin'' (JObj fmempty) sample_key) db1")
  have "cb_credentials db1 \<noteq> cb_credentials admin_db" using rows by (simp add: admin_tables)
  then have "cb_credentials db2 = cb_credentials db1"
    using secret_revealed_once [OF s _ _ administered.start _ refl s'] admin_resolved rows reg by (simp add: admin_tables admin_now)
  with s s' rows show ?thesis by auto
qed

end
