(* ===== verification/Publications.thy ===== *)
theory Publications
  imports ControlGuarantees
begin

text \<open>
  Published contents are immutable: what a version of a skill or of a body of knowledge holds is fixed by
  its publication, whatever the control plane serves afterwards.
\<close>

section \<open>What stays\<close>

text \<open>The columns of a version that activation leaves alone.\<close>

definition bok_content ::
  "bok_version_row \<Rightarrow> string \<times> string \<times> string \<times> string \<times> string \<times> string \<times> string \<times> datetime \<times> string option \<times> string option" where
  "bok_content v = (bv_collection_id v, bv_version v, bv_owner_id v, bv_manifest_sha256 v, bv_display_name v, bv_description v,
     bv_visibility v, bv_created_at v, bv_published_by v, bv_origin v)"

definition contents :: "registry \<Rightarrow> skill_version_row list \<times> bok_version_row list \<times> bok_document_row list \<times> bok_chunk_row list" where
  "contents reg = (skill_versions reg, bok_versions reg, bok_documents reg, bok_chunks reg)"

definition skills_kept :: "registry \<Rightarrow> registry \<Rightarrow> bool" where
  "skills_kept old new = (\<forall>sid version v. get_skill_row sid version old = Some v \<longrightarrow> get_skill_row sid version new = Some v)"

definition bok_kept :: "registry \<Rightarrow> registry \<Rightarrow> bool" where
  "bok_kept old new =
     (\<forall>cid version v. get_bok_version_row cid version old = Some v \<longrightarrow>
        map_option bok_content (get_bok_version_row cid version new) = Some (bok_content v) \<and>
        documents_of cid version new = documents_of cid version old \<and> chunks_of cid version new = chunks_of cid version old)"

definition kept :: "registry \<Rightarrow> registry \<Rightarrow> bool" where
  "kept old new = (skills_kept old new \<and> bok_kept old new)"

lemma contents_cong:
  "contents reg' = contents reg \<Longrightarrow> get_skill_row sid version reg' = get_skill_row sid version reg"
  "contents reg' = contents reg \<Longrightarrow> get_bok_version_row cid version reg' = get_bok_version_row cid version reg"
  "contents reg' = contents reg \<Longrightarrow> documents_of cid version reg' = documents_of cid version reg"
  "contents reg' = contents reg \<Longrightarrow> chunks_of cid version reg' = chunks_of cid version reg"
  by (simp_all add: contents_def get_skill_row_def get_bok_version_row_def documents_of_def chunks_of_def)

lemma kept_same: "contents new = contents old \<Longrightarrow> kept old new"
  using contents_cong [of new old] by (simp add: kept_def skills_kept_def bok_kept_def)

lemma kept_trans: "kept a b \<Longrightarrow> kept b c \<Longrightarrow> kept a c"
proof -
  assume ab: "kept a b" and bc: "kept b c"
  have "map_option bok_content (get_bok_version_row cid version c) = Some (bok_content v) \<and>
      documents_of cid version c = documents_of cid version a \<and> chunks_of cid version c = chunks_of cid version a"
    if "get_bok_version_row cid version a = Some v" for cid version v
  proof -
    have b: "map_option bok_content (get_bok_version_row cid version b) = Some (bok_content v)" "documents_of cid version b = documents_of cid version a"
        "chunks_of cid version b = chunks_of cid version a" using ab that by (simp_all add: kept_def bok_kept_def)
    then obtain w where w: "get_bok_version_row cid version b = Some w" "bok_content w = bok_content v" by auto
    then have "map_option bok_content (get_bok_version_row cid version c) = Some (bok_content w) \<and>
        documents_of cid version c = documents_of cid version b \<and> chunks_of cid version c = chunks_of cid version b"
      using bc unfolding kept_def bok_kept_def by blast
    with w(2) b(2,3) show ?thesis by simp
  qed
  then show "kept a c" using ab bc by (simp add: kept_def skills_kept_def bok_kept_def)
qed

lemma kept_if_same: "contents reg' = contents reg \<Longrightarrow> kept old reg \<Longrightarrow> kept old reg'"
  by (erule kept_trans [rotated, OF kept_same])

section \<open>The operations of the registry\<close>

lemma create_principal_contents: "create_principal_row pid kind name now reg = Inr (p, reg') \<Longrightarrow> contents reg' = contents reg"
  by (auto simp: create_principal_row_def insert_principal_def Let_def outcome_simps contents_def)

lemma replace_principal_contents: "replace_principal_row pid status expected now reg = Inr (r, reg') \<Longrightarrow> contents reg' = contents reg"
  by (auto simp: replace_principal_row_def Let_def outcome_simps contents_def split: option.splits if_splits)

lemma create_grant_contents: "create_grant gid pid action rtype rid now reg = Inr (g, reg') \<Longrightarrow> contents reg' = contents reg"
  by (auto simp: create_grant_def Let_def outcome_simps contents_def)

lemma revoke_grant_contents: "revoke_grant gid reg = Inr (g, reg') \<Longrightarrow> contents reg' = contents reg"
  by (auto simp: revoke_grant_def Let_def outcome_simps contents_def split: option.splits)

lemma insert_resource_contents: "insert_resource r reg = Inr reg' \<Longrightarrow> contents reg' = contents reg"
  by (auto simp: insert_resource_def outcome_simps contents_def)

lemma create_alias_contents: "create_alias_row b now reg = Inr (a, reg') \<Longrightarrow> contents reg' = contents reg"
  by (auto simp: create_alias_row_def outcome_simps dest: insert_resource_contents)

lemma replace_alias_contents: "replace_alias_row aid f expected reg = Inr (r, reg') \<Longrightarrow> contents reg' = contents reg"
  by (auto simp: replace_alias_row_def Let_def outcome_simps contents_def split: option.splits)

lemma create_catalog_contents: "create_catalog_row e now reg = Inr (x, reg') \<Longrightarrow> contents reg' = contents reg"
  by (auto simp: create_catalog_row_def outcome_simps dest: insert_resource_contents)

lemma replace_skill_contents: "replace_skill_row sid version status expected now reg = Inr (r, reg') \<Longrightarrow> contents reg' = contents reg"
  by (auto simp: replace_skill_row_def Let_def outcome_simps contents_def split: option.splits if_splits)

lemma unpublished_Inr: "unpublished r = Inr x \<longleftrightarrow> r = Inr x"
  by (auto simp: unpublished_def split: sum.splits)

lemma unowned_Inr: "unowned r = Inr x \<longleftrightarrow> r = Inr x"
  by (auto simp: unowned_def split: sum.splits)

lemma project_skill_catalog_contents: "project_skill_catalog b now reg = Inr reg' \<Longrightarrow> contents reg' = contents reg"
  by (auto simp: project_skill_catalog_def Let_def unpublished_Inr outcome_simps contents_def
      dest!: create_catalog_contents split: option.splits if_splits)

lemma publish_skill_kept:
  assumes "publish_skill b sha now reg = Inr (v, reg')"
  shows "kept reg reg'"
proof (cases "get_skill_row (sp_skill_id b) (sp_version b) reg")
  case (Some w)
  then have "reg' = reg" using assms by (auto simp: publish_skill_def Let_def unpublished_Inr outcome_simps split: if_splits)
  then show ?thesis by (simp add: kept_same)
next
  case None
  then obtain reg1 row where c: "project_skill_catalog b now reg = Inr reg1" and i: "insert_skill row reg1 = Inr reg'"
    using assms by (auto simp: publish_skill_def Let_def unpublished_Inr outcome_simps)
  have reg': "reg' = reg1\<lparr>skill_versions := skill_versions reg1 @ [row]\<rparr>"
    using i by (auto simp: insert_skill_def outcome_simps)
  have "kept reg1 reg'"
    by (auto simp: reg' kept_def skills_kept_def bok_kept_def get_skill_row_def get_bok_version_row_def documents_of_def chunks_of_def
        select_one_append)
  then show ?thesis using kept_trans [OF kept_same [OF project_skill_catalog_contents [OF c]]] by simp
qed

lemma insert_bok_kept:
  assumes "insert_bok v docs chunks reg = Inr reg'" and "\<forall>d\<in>set docs. bd_collection_id d = bv_collection_id v \<and> bd_version d = bv_version v"
    and "\<forall>c\<in>set chunks. bc_collection_id c = bv_collection_id v \<and> bc_version c = bv_version v"
  shows "kept reg reg'"
proof -
  have new: "get_bok_version_row (bv_collection_id v) (bv_version v) reg = None"
    and reg': "reg' = reg\<lparr>bok_versions := bok_versions reg @ [v], bok_documents := bok_documents reg @ docs, bok_chunks := bok_chunks reg @ chunks\<rparr>"
    using assms(1) by (auto simp: insert_bok_def outcome_simps)
  have "documents_of cid version reg' = documents_of cid version reg" "chunks_of cid version reg' = chunks_of cid version reg"
    if "get_bok_version_row cid version reg = Some w" for cid version w
  proof -
    have "\<not> (bv_collection_id v = cid \<and> bv_version v = version)" using that new by auto
    then have "filter (\<lambda>d. bd_collection_id d = cid \<and> bd_version d = version) docs = []"
        "filter (\<lambda>c. bc_collection_id c = cid \<and> bc_version c = version) chunks = []"
      using assms(2,3) by (auto simp: filter_empty_conv)
    then show "documents_of cid version reg' = documents_of cid version reg" "chunks_of cid version reg' = chunks_of cid version reg"
      by (simp_all add: reg' documents_of_def chunks_of_def)
  qed
  then show ?thesis
    by (auto simp: reg' kept_def skills_kept_def bok_kept_def get_skill_row_def get_bok_version_row_def select_one_append)
qed

lemma ingest_kept:
  assumes "ingest_bundle dg u provenance now reg = Inr (created, reg')"
  shows "kept reg reg'"
proof (cases "get_bok_version_row (bp_collection_id (bu_publish u)) (bp_version (bu_publish u)) reg")
  case (Some v)
  then have "reg' = reg" using assms by (auto simp: ingest_bundle_def Let_def split: if_splits)
  then show ?thesis by (simp add: kept_same)
next
  case None
  then obtain v where i: "insert_bok v (document_rows dg (bu_publish u)) (chunk_rows (bu_publish u)) reg = Inr reg'"
    and v: "bv_collection_id v = bp_collection_id (bu_publish u)" "bv_version v = bp_version (bu_publish u)"
    using assms by (auto simp: ingest_bundle_def Let_def unowned_Inr outcome_simps)
  show ?thesis by (rule insert_bok_kept [OF i]) (auto simp: v document_rows_def chunk_rows_def)
qed

lemma activate_kept:
  assumes "activate_version dg u now reg = Inr reg'"
  shows "kept reg reg'"
proof -
  obtain mine rows where reg': "reg' = reg\<lparr>bok_versions := update_where mine (activated now) (bok_versions reg), resources := rows\<rparr>"
    using assms by (auto simp: activate_version_def Let_def outcome_simps split: option.splits if_splits)
  have key: "bv_collection_id (if mine x then activated now x else x) = bv_collection_id x"
      "bv_version (if mine x then activated now x else x) = bv_version x"
      "bok_content (if mine x then activated now x else x) = bok_content x" for x
    by (simp_all add: activated_def bok_content_def)
  have "map_option bok_content (find p (map (\<lambda>x. if mine x then activated now x else x) rows')) = map_option bok_content (find p rows')"
    if "p = (\<lambda>v. bv_collection_id v = cid \<and> bv_version v = version)" for cid version p rows'
    unfolding that by (induction rows') (simp_all add: key)
  then show ?thesis
    by (auto simp: reg' kept_def skills_kept_def bok_kept_def get_skill_row_def get_bok_version_row_def documents_of_def chunks_of_def
        select_one_def update_where_def)
qed

lemma publish_bundle_kept:
  assumes "publish_bundle dg u tags provenance now reg = Inr (created, reg')"
  shows "kept reg reg'"
proof -
  obtain made reg1 reg2 where i: "ingest_bundle dg u provenance now reg = Inr (made, reg1)" and a: "activate_version dg u now reg1 = Inr reg2"
    and r: "contents reg' = contents reg2"
    using assms by (auto simp: publish_bundle_def Let_def unowned_Inr outcome_simps dest: insert_resource_contents split: option.splits if_splits)
  show ?thesis by (rule kept_if_same [OF r kept_trans [OF ingest_kept [OF i] activate_kept [OF a]]])
qed

lemma publish_bok_kept: "publish_bok dg b author origin now reg = Inr (r, reg') \<Longrightarrow> kept reg reg'"
  by (auto simp: publish_bok_def outcome_simps split: if_splits dest: publish_bundle_kept)

lemmas contents_rules = create_principal_contents replace_principal_contents create_grant_contents revoke_grant_contents
  create_alias_contents replace_alias_contents create_catalog_contents replace_skill_contents

lemma change_kept: "change env cl who db k r db1 \<Longrightarrow> kept (cb_registry db) (cb_registry db1)"
  by (erule change.cases) (auto dest: publish_skill_kept publish_bok_kept kept_same [OF contents_rules(1)] kept_same [OF contents_rules(2)]
      kept_same [OF contents_rules(3)] kept_same [OF contents_rules(4)] kept_same [OF contents_rules(5)] kept_same [OF contents_rules(6)]
      kept_same [OF contents_rules(7)] kept_same [OF contents_rules(8)] intro: kept_same)

lemma serve_kept:
  assumes "serve env cl header rq db = (res, db')"
  shows "kept (cb_registry db) (cb_registry db')"
  using assms by (cases rule: serve_cases) (auto simp: tables_def dest: change_kept intro: kept_same)

section \<open>A publication\<close>

definition sample_chunk :: bok_chunk where
  "sample_chunk = \<lparr>ck_section_id = ''steps'', ck_chunk_index = 0, ck_content = ''Drain''\<rparr>"

definition sample_bok :: bok_publish where
  "sample_bok = \<lparr>bp_collection_id = ''runbooks'', bp_version = ''1.0.0'', bp_display_name = ''Runbooks'', bp_description = [],
     bp_documents = [\<lparr>do_document_id = ''restart'', do_title = ''Restart'', do_source_ref = ''wiki'', do_chunks = [sample_chunk]\<rparr>]\<rparr>"

definition sample_body :: json where
  "sample_body = JObj (bok_publish_document sample_bok)"

definition stored_chunk :: bok_chunk_row where
  "stored_chunk = \<lparr>bc_collection_id = ''runbooks'', bc_version = ''1.0.0'', bc_document_id = ''restart'', bc_section_id = ''steps'',
     bc_chunk_index = 0, bc_content = ''Drain''\<rparr>"

definition stored_document :: bok_document_row where
  "stored_document = \<lparr>bd_collection_id = ''runbooks'', bd_version = ''1.0.0'', bd_document_id = ''restart'', bd_title = ''Restart'',
     bd_source_ref = ''wiki'', bd_content_sha256 = ''Drain''\<rparr>"

lemma sample_patterns: "bok_slug_pattern ''runbooks''" "bok_slug_pattern ''restart''" "bok_slug_pattern ''steps''" "version_ok ''1.0.0''"
    "origin_pattern ''console''"
  by code_simp+

lemma sample_sizes: "sized (Suc 0) 200 ''Runbooks''" "sized (Suc 0) 300 ''Restart''" "sized (Suc 0) 500 ''wiki''" "sized (Suc 0) 4000 ''Drain''"
    "sized 0 500 []"
  by (simp_all add: sized_def py_len_ascii ascii_def)

lemma sample_not_blank: "\<not> blank ''Drain''"
  by (subst blank_iff, subst utf8_decode_ascii) (simp_all add: ascii_def py_space_def)

lemma text_okI: "length s \<le> n \<Longrightarrow> CHR 0x00 \<notin> set s \<Longrightarrow> text_ok n s"
  by (simp add: text_ok_def fits_length)

lemma sample_body_read: "read_bok_publish sample_body = Some sample_bok"
  by (simp add: sample_body_def sample_bok_def sample_chunk_def bok_publish_document_def document_document_def chunk_document_def
      read_bok_publish_def read_document_def read_chunk_def keys_exactly_def text_of_def sample_patterns sample_sizes sample_not_blank version_is_complete_def
      MAX_DOCUMENTS_def MAX_CHUNKS_def)

lemma sample_rows: "document_rows (env_digests sample_env) sample_bok = [stored_document]" "chunk_rows sample_bok = [stored_chunk]"
  by (simp_all add: document_rows_def chunk_rows_def sample_bok_def sample_chunk_def stored_document_def stored_chunk_def
      env_digests_def sample_env_def)

lemma sample_ready: "bundle_is_ready sample_bok"
  by (simp add: bundle_is_ready_def sample_bok_def sample_chunk_def sample_not_blank)

definition sample_version :: bok_version_row where
  "sample_version = \<lparr>bv_collection_id = ''runbooks'', bv_version = ''1.0.0'', bv_owner_id = BOK_OWNER_ID, bv_status = ''ready'',
     bv_manifest_sha256 = ''bundle'', bv_display_name = ''Runbooks'', bv_description = [], bv_visibility = ''private'',
     bv_created_at = sample_time, bv_updated_at = sample_time, bv_published_by = Some ''root_admin'', bv_origin = Some ''console''\<rparr>"

lemma sample_version_ok: "check_bok_version sample_version = Inr ()" "check_bok_version (activated sample_time sample_version) = Inr ()"
  by (simp_all add: check_bok_version_def sample_version_def activated_def BOK_OWNER_ID_def VISIBILITIES_def text_opt_ok_def
      sample_patterns text_okI raise_if_def)

lemma sample_resource_ok: "check_resource (catalog_row (bok_entry (bundle_of sample_bok) [''bok'']) sample_time) = Inr ()"
  by (simp add: check_resource_def catalog_row_def bok_entry_def bundle_of_def sample_bok_def bok_resource_id_def resource_texts_def
      text_opt_ok_def text_okI BOK_OWNER_ID_def RESOURCE_TYPES_def CATALOG_STATUSES_def llm_assignment_def catalog_projection_def
      EXPECTED_SOURCE_def VISIBILITIES_def raise_if_def)

lemma sample_published:
  "\<exists>reg. publish_bok (env_digests sample_env) sample_bok admin ''console'' sample_time admin_registry = Inr ((bok_summary sample_bok, True), reg) \<and>
     bok_versions reg = [activated sample_time sample_version] \<and> bok_documents reg = [stored_document] \<and> bok_chunks reg = [stored_chunk]"
proof -
  let ?dg = "env_digests sample_env" and ?u = "bundle_of sample_bok"
  let ?reg1 = "admin_registry\<lparr>bok_versions := [sample_version], bok_documents := [stored_document], bok_chunks := [stored_chunk]\<rparr>"
  have empty: "bok_versions admin_registry = []" "bok_documents admin_registry = []" "bok_chunks admin_registry = []"
    by (simp_all add: admin_registry_def)
  have key: "bp_collection_id sample_bok = ''runbooks''" "bp_version sample_bok = ''1.0.0''" by (simp_all add: sample_bok_def)
  have v: "bv_collection_id sample_version = ''runbooks''" "bv_version sample_version = ''1.0.0''" "bv_status sample_version = ''ready''"
      "bv_manifest_sha256 sample_version = ''bundle''" by (simp_all add: sample_version_def)
  have texts: "document_text_ok stored_document" "chunk_text_ok stored_chunk"
    by (simp_all add: document_text_ok_def chunk_text_ok_def stored_document_def stored_chunk_def text_okI)
  have "insert_bok sample_version [stored_document] [stored_chunk] admin_registry = Inr ?reg1"
    by (simp add: insert_bok_def sample_version_ok empty texts get_bok_version_row_def select_one_def documents_of_def chunks_of_def raise_if_def)
       (simp add: stored_chunk_def)
  moreover have "\<lparr>bv_collection_id = bp_collection_id sample_bok, bv_version = bp_version sample_bok, bv_owner_id = bu_owner_id ?u,
      bv_status = (if bundle_is_ready sample_bok then ''ready'' else ''indexing''), bv_manifest_sha256 = dg_bundle ?dg (bundle_document ?u),
      bv_display_name = bp_display_name sample_bok, bv_description = bp_description sample_bok, bv_visibility = bu_visibility ?u,
      bv_created_at = sample_time, bv_updated_at = sample_time, bv_published_by = map_option fst (Some (''root_admin'', ''console'')),
      bv_origin = map_option snd (Some (''root_admin'', ''console''))\<rparr> = sample_version"
    using sample_ready by (simp add: sample_version_def bundle_of_def env_digests_def sample_env_def) (simp add: sample_bok_def)
  ultimately have i: "ingest_bundle ?dg ?u (Some (''root_admin'', ''console'')) sample_time admin_registry = Inr (True, ?reg1)"
    by (simp add: ingest_bundle_def bundle_of_def get_bok_version_row_def select_one_def empty sample_rows unowned_def)
  have row1: "get_bok_version_row ''runbooks'' ''1.0.0'' ?reg1 = Some sample_version" by (simp add: get_bok_version_row_def select_one_def v)
  have "children_match ?dg sample_bok ?reg1"
    by (simp add: children_match_def sample_rows key documents_of_def chunks_of_def) (simp add: stored_document_def stored_chunk_def)
  moreover have "dg_bundle ?dg j = ''bundle''" for j by (simp add: env_digests_def sample_env_def)
  ultimately have a: "activate_version ?dg ?u sample_time ?reg1 = Inr (?reg1\<lparr>bok_versions := [activated sample_time sample_version],
      resources := update_where (\<lambda>r. rs_type r = ''bok_collection'' \<and> rs_id r = bok_resource_id sample_bok) (status_row ''active'' sample_time)
        (resources admin_registry)\<rparr>)"
    using sample_ready sample_version_ok(2)
    by (simp add: activate_version_def bundle_of_def key row1 v unowned_def update_where_def)
  define reg2 where "reg2 = ?reg1\<lparr>bok_versions := [activated sample_time sample_version], resources := resources admin_registry\<rparr>"
  have same: "update_where (\<lambda>r. rs_type r = ''bok_collection'' \<and> rs_id r = bok_resource_id sample_bok) (status_row ''active'' sample_time)
      (resources admin_registry) = resources admin_registry"
    by (simp add: update_where_def admin_registry_def admin_resource_def)
  have a2: "activate_version ?dg ?u sample_time ?reg1 = Inr reg2" by (simp add: a same reg2_def)
  have reg2: "resources reg2 = resources admin_registry" "bok_versions reg2 = [activated sample_time sample_version]"
      "bok_documents reg2 = [stored_document]" "bok_chunks reg2 = [stored_chunk]" by (simp_all add: reg2_def)
  have none: "get_resource ''bok_collection'' rid reg2 = None" "\<forall>x\<in>set (resources reg2). rs_type x = ''administrative_control''" for rid
    by (simp_all add: reg2 get_resource_def select_one_def admin_registry_def admin_resource_def)
  let ?row = "catalog_row (bok_entry ?u [''bok'']) sample_time"
  have row: "rs_type ?row = ''bok_collection''" "rs_model_alias_id ?row = None" "rs_alias ?row = None"
    by (simp_all add: catalog_row_def bok_entry_def Let_def)
  have "insert_resource ?row reg2 = Inr (reg2\<lparr>resources := resources reg2 @ [?row]\<rparr>)"
    unfolding insert_resource_def row sample_resource_ok using none(2) by (auto simp: raise_if_def)
  then have "publish_bundle ?dg ?u [''bok''] (Some (''root_admin'', ''console'')) sample_time admin_registry =
      Inr (True, reg2\<lparr>resources := resources reg2 @ [?row]\<rparr>)"
    unfolding publish_bundle_def i and_then_simps prod.case a2 Let_def none(1) option.case by (simp add: unowned_def)
  moreover have "p_kind admin = ''human''" "p_status admin = ''active''" "p_id admin = ''root_admin''" by (simp_all add: admin_def)
  ultimately show ?thesis by (simp add: publish_bok_def sample_patterns reg2)
qed

lemma admin_published:
  obtains resp db where "serve sample_env admin_call admin_header (PublishBok sample_body sample_key) admin_db = (Inr resp, db)"
    and "hr_status resp = 201" and "bok_versions (cb_registry db) = [activated sample_time sample_version]"
    and "bok_documents (cb_registry db) = [stored_document]" and "bok_chunks (cb_registry db) = [stored_chunk]"
proof -
  let ?who = "admin_subject ''grant_cat'' ''catalog''" and ?path = "''/v1/bok/collections/versions''" and ?rid = "bok_resource_id sample_bok"
  let ?q = "claim_for sample_env admin_call ?who ''POST'' ?path ''at_least_24h'' sample_key (JObj (bok_publish_document sample_bok)) 201 ?rid"
  have "CHR 0x00 \<notin> set ?rid" by (simp add: bok_resource_id_def sample_bok_def)
  then obtain rows where keyed: "\<forall>payload. set_response_payload (binding_scope ?who ''POST'' ?path) ''0123456789abcdef'' payload rows \<noteq>
        Inl (LookupError ''idempotency binding is absent'')"
    and claim: "claim_or_replay ?q [] = Inr (\<lparr>ib_outcome = cq_outcome ?q, ib_replayed = False\<rparr>, rows)"
    using sample_claim [of ?who "''grant_cat''" "''catalog''" "''POST''" ?path ?rid "''at_least_24h''" admin_call "bok_publish_document sample_bok" 201]
    by auto
  have "jsonb_ok (JObj (bok_summary sample_bok))"
    by (simp add: bok_summary_def sample_bok_def bok_resource_id_def BOK_OWNER_ID_def jsonb_ok_upd)
  then obtain rows' where stored: "set_response_payload (binding_scope ?who ''POST'' ?path) ''0123456789abcdef'' (bok_summary sample_bok) rows = Inr rows'"
    using sample_stored [OF keyed] by auto
  obtain reg where pub: "publish_bok (env_digests sample_env) sample_bok admin ''console'' sample_time admin_registry = Inr ((bok_summary sample_bok, True), reg)"
    and reg: "bok_versions reg = [activated sample_time sample_version]" "bok_documents reg = [stored_document]" "bok_chunks reg = [stored_chunk]"
    using sample_published by blast
  have author: "pc_principal (fst ?who) = admin" by (simp add: admin_subject_def admin_context_def)
  have key: "sample_key = Some ''0123456789abcdef''" by (simp add: sample_key_def)
  have digest: "cq_key_digest ?q = ''0123456789abcdef''" by (simp add: key sample_env_def)
  have "\<exists>resp db. serve sample_env admin_call admin_header (PublishBok sample_body sample_key) admin_db = (Inr resp, db) \<and>
      hr_status resp = 201 \<and> cb_registry db = reg"
    unfolding serve.simps publish_bok_version_def Let_def admin_governed(2) [OF admin_tables(1,2) admin_now] sample_body_read option.case
      admin_tables claim claimed_def sum.case prod.case author
    using stored
    by (simp add: sample_key_valid pub admin_now answer_created_def digest [unfolded claim_for_keys] answer_within_def
        admin_granted [OF admin_authorized(3) [OF admin_tables(1,2)]] sample_operations)
  then show thesis using that reg by metis
qed

section \<open>The property\<close>

text \<open>
  C37. A published version never changes: whatever requests follow, a published skill version stays the
  row it was, and a version of a body of knowledge keeps its documents, its chunks, its digest and its
  provenance.
\<close>

theorem published_contents_immutable:
  assumes "administered env db0 db"
  shows "(\<forall>v. get_skill_row sid version (cb_registry db0) = Some v \<longrightarrow> get_skill_row sid version (cb_registry db) = Some v) \<and>
    (\<forall>v. get_bok_version_row cid version (cb_registry db0) = Some v \<longrightarrow>
       map_option bok_content (get_bok_version_row cid version (cb_registry db)) = Some (bok_content v) \<and>
       documents_of cid version (cb_registry db) = documents_of cid version (cb_registry db0) \<and>
       chunks_of cid version (cb_registry db) = chunks_of cid version (cb_registry db0))"
proof -
  from assms have "kept (cb_registry db0) (cb_registry db)"
    by induction (auto intro: kept_same kept_trans [OF _ serve_kept])
  then show ?thesis by (simp add: kept_def skills_kept_def bok_kept_def)
qed

theorem published_contents_immutable_witness:
  "\<exists>res db1 res' db2. serve sample_env admin_call admin_header (PublishBok sample_body sample_key) admin_db = (res, db1) \<and>
     serve sample_env admin_call admin_header (RevokeCredential ''cred_admin'') db1 = (res', db2) \<and>
     documents_of ''runbooks'' ''1.0.0'' (cb_registry db2) = [stored_document] \<and> chunks_of ''runbooks'' ''1.0.0'' (cb_registry db2) = [stored_chunk]"
proof -
  obtain res db1 where s: "serve sample_env admin_call admin_header (PublishBok sample_body sample_key) admin_db = (Inr res, db1)"
    and rows: "bok_versions (cb_registry db1) = [activated sample_time sample_version]" "bok_documents (cb_registry db1) = [stored_document]"
      "bok_chunks (cb_registry db1) = [stored_chunk]" by (rule admin_published)
  obtain res' db2 where s': "serve sample_env admin_call admin_header (RevokeCredential ''cred_admin'') db1 = (res', db2)"
    by (cases "serve sample_env admin_call admin_header (RevokeCredential ''cred_admin'') db1")
  have "get_bok_version_row ''runbooks'' ''1.0.0'' (cb_registry db1) = Some (activated sample_time sample_version)"
    by (simp add: get_bok_version_row_def select_one_def rows activated_def sample_version_def)
  moreover have "documents_of ''runbooks'' ''1.0.0'' (cb_registry db1) = [stored_document]" "chunks_of ''runbooks'' ''1.0.0'' (cb_registry db1) = [stored_chunk]"
    by (simp_all add: documents_of_def chunks_of_def rows stored_document_def stored_chunk_def)
  ultimately show ?thesis
    using s s' published_contents_immutable [OF administered.request [OF administered.start s'], of sid "''1.0.0''" "''runbooks''"] by auto
qed

end
