(* ===== verification/Journal.thy ===== *)
theory Journal
  imports Workflow
begin

text \<open>
  The deploy executor's effects and its journal (\<^verbatim>\<open>Journal\<close> of \<^verbatim>\<open>executor/app.py\<close>): actions on the
  executor's state that may end in an exception, the HTTP calls they make, and the append-only file of
  intents and results that a start reads back.
\<close>

section \<open>Actions\<close>

text \<open>
  The exceptions of the executor. \<open>Escaped\<close> are those of the language that no handler names.
\<close>

datatype exec_error =
    ExecutionError (xe_status: int) (xe_code: string) (xe_message: string) (xe_retryable: bool)
  | DockerUnavailable string
  | DockerTimeout string
  | DockerInvalid string
  | DockerNotFound string
  | JournalUnwritable string
  | Escaped py_error

type_synonym ('s, 'a) action = "'s \<Rightarrow> (exec_error + 'a) \<times> 's"

definition pass :: "'a \<Rightarrow> ('s, 'a) action" where
  "pass x s = (Inr x, s)"

definition fail :: "exec_error \<Rightarrow> ('s, 'a) action" where
  "fail e s = (Inl e, s)"

definition run_then :: "('s, 'a) action \<Rightarrow> ('a \<Rightarrow> ('s, 'b) action) \<Rightarrow> ('s, 'b) action" where
  "run_then m f s = (case m s of (Inl e, s') \<Rightarrow> (Inl e, s') | (Inr x, s') \<Rightarrow> f x s')"

text \<open>\<^verbatim>\<open>try: ... except: ...\<close>: the state is the one the exception left.\<close>

definition rescue :: "('s, 'a) action \<Rightarrow> (exec_error \<Rightarrow> ('s, 'a) action) \<Rightarrow> ('s, 'a) action" where
  "rescue m h s = (case m s of (Inl e, s') \<Rightarrow> h e s' | (Inr x, s') \<Rightarrow> (Inr x, s'))"

text \<open>A computation without effects, and one that raises only what the language raises.\<close>

definition lift :: "exec_error + 'a \<Rightarrow> ('s, 'a) action" where
  "lift r s = (r, s)"

definition escaping :: "'a outcome \<Rightarrow> exec_error + 'a" where
  "escaping r = (case r of Inl e \<Rightarrow> Inl (Escaped e) | Inr x \<Rightarrow> Inr x)"

lemma action_simps [simp]:
  "run_then (pass x) f = f x" "run_then (fail e) f = fail e" "rescue (pass x) h = pass x" "rescue (fail e) h = h e"
  by (auto simp: run_then_def rescue_def pass_def fail_def)

lemma run_then_Inr: "run_then m f s = (Inr y, s'') \<longleftrightarrow> (\<exists>x s'. m s = (Inr x, s') \<and> f x s' = (Inr y, s''))"
  by (auto simp: run_then_def split: prod.splits sum.splits)

lemma run_then_cases:
  assumes "run_then m f s = (r, s'')"
  obtains (raised) e where "m s = (Inl e, s'')" "r = Inl e"
  | (went_on) x s' where "m s = (Inr x, s')" "f x s' = (r, s'')"
  using assms by (auto simp: run_then_def split: prod.splits sum.splits)

lemma rescue_cases:
  assumes "rescue m h s = (r, s'')"
  obtains (raised) e s' where "m s = (Inl e, s')" "h e s' = (r, s'')"
  | (returned) x where "m s = (Inr x, s'')" "r = Inr x"
  using assms by (auto simp: rescue_def split: prod.splits sum.splits)

lemma escaping_Inr [outcome_simps]: "escaping r = Inr x \<longleftrightarrow> r = Inr x"
  by (cases r) (simp_all add: escaping_def)

section \<open>The executor's state\<close>

text \<open>
  The services around the executor (the Docker Engine behind its proxy, the flag listener, the change
  log) are one party \<open>'w\<close> that answers requests. \<open>mc_seen\<close> is what leaves the process, in order: the
  requests sent and the bytes appended to the journal's file; no definition reads it.
\<close>

datatype http_answer = TimedOut | Unreachable | Answered (ha_status: int) (ha_json: bool) (ha_body: "json option")

record http_request =
  hq_method :: string
  hq_url :: string
  hq_params :: "(string \<times> string) list"
  hq_body :: "json option"

datatype observation = Sent http_request http_answer | Wrote string

record journal =
  jn_file :: string
  jn_records :: "(string, dict) fmap"
  jn_results :: "dict list"
  jn_problem :: "(string \<times> string) option"

record 'w machine =
  mc_world :: 'w
  mc_journal :: journal
  mc_own_project :: "string option"
  mc_seen :: "observation list"

text \<open>
  The parameters: the answering party; \<^verbatim>\<open>json.loads\<close> of bytes (None: a ValueError), \<^verbatim>\<open>json.dumps\<close> with
  compact separators, with the default ones and with sorted keys; SHA-256 and HMAC-SHA256 in hexadecimal;
  UTF-8 decoding with replacement; which code points past ASCII are word characters; \<^verbatim>\<open>str\<close> of floats and
  containers. Then the configuration, with times in milliseconds and the signature's window in
  microseconds.
\<close>

record 'w exec_env =
  xv_answer :: "http_request \<Rightarrow> 'w \<Rightarrow> http_answer \<times> 'w"
  xv_loads :: "string \<Rightarrow> json option"
  xv_compact :: "json \<Rightarrow> string"
  xv_dumps :: "json \<Rightarrow> string"
  xv_sorted_dumps :: "json \<Rightarrow> string"
  xv_sha256 :: "string \<Rightarrow> string"
  xv_hmac :: "string \<Rightarrow> string \<Rightarrow> string"
  xv_decode :: "string \<Rightarrow> string"
  xv_wide_word :: "nat \<Rightarrow> bool"
  xv_render :: "json \<Rightarrow> string"
  xv_docker_url :: string
  xv_own_container :: "string option"
  xv_settle :: int
  xv_flags :: "(string option \<times> string option) option"
  xv_signing_key :: "string option"
  xv_window :: int
  xv_changes :: "string option"

definition send :: "'w exec_env \<Rightarrow> http_request \<Rightarrow> ('w machine, http_answer) action" where
  "send env q mc = (case xv_answer env q (mc_world mc) of (a, w) \<Rightarrow>
     (Inr a, mc\<lparr>mc_world := w, mc_seen := mc_seen mc @ [Sent q a]\<rparr>))"

section \<open>Indexing a record\<close>

text \<open>
  \<^verbatim>\<open>self.records[record["binding"]] = record\<close>. A key that is not a string is never looked up.
\<close>

definition keyed :: "json \<Rightarrow> dict \<Rightarrow> journal \<Rightarrow> journal outcome" where
  "keyed b d jn = (case b of
       JStr s \<Rightarrow> Inr (jn\<lparr>jn_records := fmupd s d (jn_records jn)\<rparr>)
     | JList _ \<Rightarrow> Inl (TypeError ''unhashable type: list'')
     | JObj _ \<Rightarrow> Inl (TypeError ''unhashable type: dict'')
     | _ \<Rightarrow> Inr jn)"

definition unknown_execution :: "dict \<Rightarrow> dict" where
  "unknown_execution d =
     dict [(''status'', JInt 409),
       (''error'', JObj (dict [(''code'', JStr ''execution_unknown''),
          (''message'', JStr ''the journal's last line was cut off; this may have run'')]))] ++\<^sub>f
     fmfilter (\<lambda>k. k \<in> {''execution_id'', ''operation'', ''service'', ''parameters'', ''recovered_at''}) d"

text \<open>The journal is also returned with an exception: the record may have been stored before.\<close>

definition index_record :: "json \<Rightarrow> journal \<Rightarrow> unit outcome \<times> journal" where
  "index_record j jn =
     (case j of
        JObj d \<Rightarrow>
          (case item d ''kind'' of
             Inl e \<Rightarrow> (Inl e, jn)
           | Inr kind \<Rightarrow>
               if kind = JStr ''truncated'' then
                 (case (case fmlookup d ''binding'' of None \<Rightarrow> Inr jn | Some b \<Rightarrow> keyed b d jn) of
                    Inl e \<Rightarrow> (Inl e, jn)
                  | Inr jn' \<Rightarrow> (Inr (), jn'\<lparr>jn_results := jn_results jn' @ [unknown_execution d]\<rparr>))
               else
                 (case and_then (item d ''binding'') (\<lambda>b. keyed b d jn) of
                    Inl e \<Rightarrow> (Inl e, jn)
                  | Inr jn' \<Rightarrow>
                      if kind = JStr ''result'' then
                        (case and_then (item d ''status'') (\<lambda>status. and_then (item d ''response'') (\<lambda>response.
                                case response of JObj body \<Rightarrow> Inr (dict [(''status'', status)] ++\<^sub>f body)
                                | _ \<Rightarrow> Inl (TypeError ''argument after ** must be a mapping''))) of
                           Inl e \<Rightarrow> (Inl e, jn')
                         | Inr entry \<Rightarrow> (Inr (), jn'\<lparr>jn_results := jn_results jn' @ [entry]\<rparr>))
                      else (Inr (), jn')))
      | _ \<Rightarrow> (Inl (TypeError ''not a journal record''), jn))"

section \<open>Appending\<close>

text \<open>
  What the file system did with a line: it is there; nothing is there and the write failed; it failed
  with \<open>n\<close> bytes left (the truncation failed as well, or the directory could not be synced).
\<close>

datatype write_fault = Stored | Refused string | Left nat string

definition newline :: string where
  "newline = [CHR 0x0A]"

definition append_record :: "'w exec_env \<Rightarrow> write_fault \<Rightarrow> dict \<Rightarrow> ('w machine, unit) action" where
  "append_record env fault d mc =
     (let line = xv_compact env (JObj d) @ newline; jn = mc_journal mc;
          written = (\<lambda>bytes jn. mc\<lparr>mc_journal := jn\<lparr>jn_file := jn_file jn @ bytes\<rparr>, mc_seen := mc_seen mc @ [Wrote bytes]\<rparr>)
      in case fault of
           Refused message \<Rightarrow> (Inl (JournalUnwritable message), mc)
         | Left n message \<Rightarrow> (Inl (JournalUnwritable message), written (take n line) jn)
         | Stored \<Rightarrow> (case index_record (JObj d) jn of
              (Inl e, jn') \<Rightarrow> (Inl (Escaped e), written line jn')
            | (Inr _, jn') \<Rightarrow> (Inr (), written line jn')))"

section \<open>Reading the file at start\<close>

text \<open>\<^verbatim>\<open>raw.split(b"\n")\<close>, and \<^verbatim>\<open>bytes.strip\<close>.\<close>

fun split_bytes :: "string \<Rightarrow> string list" where
  "split_bytes [] = [[]]"
| "split_bytes (c # cs) =
     (if c = CHR 0x0A then [] # split_bytes cs
      else case split_bytes cs of l # ls \<Rightarrow> (c # l) # ls | [] \<Rightarrow> [[c]])"

definition byte_space :: "char \<Rightarrow> bool" where
  "byte_space c = (c \<in> {CHR '' '', CHR 0x09, CHR 0x0A, CHR 0x0B, CHR 0x0C, CHR 0x0D})"

definition nonblank_lines :: "string \<Rightarrow> (nat \<times> string) list" where
  "nonblank_lines raw = filter (\<lambda>(_, line). \<not> list_all byte_space line) (enumerate 1 (split_bytes raw))"

text \<open>\<^verbatim>\<open>raw[: raw.rstrip().rfind(b"\n") + 1]\<close>.\<close>

definition before_last_line :: "string \<Rightarrow> string" where
  "before_last_line raw = rev (dropWhile (\<lambda>c. c \<noteq> CHR 0x0A) (dropWhile byte_space (rev raw)))"

text \<open>
  \<^verbatim>\<open>"(name|...)":"([^"\\]*)"\<close> at the start of a text: the name, the value and what follows.
\<close>

definition plain_char :: "char \<Rightarrow> bool" where
  "plain_char c = (c \<noteq> CHR 0x22 \<and> c \<noteq> CHR 0x5C)"

definition quoted_value :: "string \<Rightarrow> (string \<times> string) option" where
  "quoted_value s = (case dropWhile plain_char s of
     c # rest \<Rightarrow> if c = CHR 0x22 then Some (takeWhile plain_char s, rest) else None | [] \<Rightarrow> None)"

fun quoted_pair :: "string list \<Rightarrow> string \<Rightarrow> (string \<times> string \<times> string) option" where
  "quoted_pair [] s = None"
| "quoted_pair (name # names) s =
     (case after_prefix ([CHR 0x22] @ name @ [CHR 0x22, CHR '':'', CHR 0x22]) s of
        Some t \<Rightarrow> (case quoted_value t of Some (v, rest) \<Rightarrow> Some (name, v, rest) | None \<Rightarrow> quoted_pair names s)
      | None \<Rightarrow> quoted_pair names s)"

lemma length_after_prefix: "after_prefix p s = Some t \<Longrightarrow> length t = length s - length p \<and> length p \<le> length s"
  using after_prefix_Some [of p s t] by auto

lemma length_quoted_value: "quoted_value s = Some (v, rest) \<Longrightarrow> length rest < length s"
  using length_dropWhile_le [of plain_char s] by (auto simp: quoted_value_def split: list.splits if_splits)

lemma length_quoted_pair: "quoted_pair names s = Some (n, v, rest) \<Longrightarrow> length rest < length s"
  by (induction names) (auto split: option.splits dest!: length_after_prefix length_quoted_value)

text \<open>\<^verbatim>\<open>findall\<close>: left to right, without overlaps.\<close>

function salvaged_pairs :: "string list \<Rightarrow> string \<Rightarrow> (string \<times> string) list" where
  "salvaged_pairs names [] = []"
| "salvaged_pairs names (c # cs) =
     (case quoted_pair names (c # cs) of
        Some (n, v, rest) \<Rightarrow> (n, v) # salvaged_pairs names rest
      | None \<Rightarrow> salvaged_pairs names cs)"
  by pat_completeness auto
termination
  by (relation "measure (\<lambda>(_, s). length s)") (auto dest: length_quoted_pair)

text \<open>The items \<^verbatim>\<open>"\w+":"[^"\\]*",?\<close> as many as follow one another.\<close>

definition word_point :: "'w exec_env \<Rightarrow> nat \<Rightarrow> bool" where
  "word_point env n = (if n < 128 then (48 \<le> n \<and> n \<le> 57) \<or> (65 \<le> n \<and> n \<le> 90) \<or> n = 95 \<or> (97 \<le> n \<and> n \<le> 122)
     else xv_wide_word env n)"

definition word_pair :: "'w exec_env \<Rightarrow> string \<Rightarrow> (string \<times> string \<times> string) option" where
  "word_pair env s = (case s of [] \<Rightarrow> None
     | c # cs \<Rightarrow>
         let key = takeWhile (\<lambda>x. x \<noteq> CHR 0x22) cs
         in if c = CHR 0x22 \<and> key \<noteq> [] \<and> list_all (word_point env) (utf8_decode key) then quoted_pair [key] s else None)"

lemma length_word_pair: "word_pair env s = Some (n, v, rest) \<Longrightarrow> length rest < length s"
  using length_quoted_pair by (fastforce simp: word_pair_def Let_def simp del: quoted_pair.simps split: list.splits if_splits)

function word_pairs :: "'w exec_env \<Rightarrow> string \<Rightarrow> (string \<times> string) list" where
  "word_pairs env s =
     (case word_pair env s of
        Some (n, v, rest) \<Rightarrow> (n, v) # word_pairs env (case rest of c # cs \<Rightarrow> if c = CHR '','' then cs else rest | [] \<Rightarrow> rest)
      | None \<Rightarrow> [])"
  by pat_completeness auto
termination
  by (relation "measure (\<lambda>(_, s). length s)") (auto dest!: length_word_pair split: list.splits)

declare word_pairs.simps [simp del]

text \<open>\<^verbatim>\<open>_SALVAGED_PARAMETERS.search\<close>: the first occurrence of the opening.\<close>

fun salvaged_parameters :: "'w exec_env \<Rightarrow> string \<Rightarrow> (string \<times> string) list" where
  "salvaged_parameters env [] = []"
| "salvaged_parameters env (c # cs) =
     (case after_prefix ([CHR 0x22] @ ''parameters'' @ [CHR 0x22, CHR '':'', CHR ''{'']) (c # cs) of
        Some t \<Rightarrow> word_pairs env t
      | None \<Rightarrow> salvaged_parameters env cs)"

text \<open>\<^verbatim>\<open>dict(pairs)\<close>: the last pair of a key counts.\<close>

definition last_wins :: "(string \<times> string) list \<Rightarrow> dict" where
  "last_wins kvs = dict (map (\<lambda>(k, v). (k, JStr v)) (rev kvs))"

definition truncated_record :: "'w exec_env \<Rightarrow> string \<Rightarrow> string \<Rightarrow> dict" where
  "truncated_record env now line =
     (let fragment = xv_decode env line; parameters = last_wins (salvaged_parameters env fragment)
      in dict [(''kind'', JStr ''truncated'')] ++\<^sub>f
         last_wins (salvaged_pairs [''binding'', ''payload_digest'', ''execution_id'', ''operation'', ''service''] fragment) ++\<^sub>f
         (if parameters = fmempty then fmempty else dict [(''parameters'', JObj parameters)]) ++\<^sub>f
         dict [(''fragment'', JStr fragment), (''recovered_at'', JStr now)])"

text \<open>
  What fails while a start reads the file: the directory or the file; replacing the cut line, before or
  after the rename; completing the last line, with or without the newline written.
\<close>

record start_faults =
  sf_open :: "string option"
  sf_replace :: "(bool \<times> string) option"
  sf_newline :: "(bool \<times> string) option"

definition unwritable :: "string \<Rightarrow> string \<times> string" where
  "unwritable message = (''journal_unwritable'', ''the journal cannot be written: '' @ message)"

definition recover_tail :: "'w exec_env \<Rightarrow> start_faults \<Rightarrow> string \<Rightarrow> string \<Rightarrow> string \<Rightarrow> journal \<Rightarrow> journal" where
  "recover_tail env faults now raw line jn =
     (let d = truncated_record env now line; file = before_last_line raw @ xv_compact env (JObj d) @ newline
      in case sf_replace faults of
           Some (replaced, message) \<Rightarrow>
             jn\<lparr>jn_file := (if replaced then file else jn_file jn), jn_problem := Some (unwritable message)\<rparr>
         | None \<Rightarrow> snd (index_record (JObj d) (jn\<lparr>jn_file := file\<rparr>)))"

text \<open>Only the first problem is kept.\<close>

definition note_problem :: "string \<Rightarrow> journal \<Rightarrow> journal" where
  "note_problem reason jn = (case jn_problem jn of None \<Rightarrow> jn\<lparr>jn_problem := Some (''journal_corrupt'', reason)\<rparr> | Some _ \<Rightarrow> jn)"

text \<open>The loop over the lines; True when the cut last line ended it.\<close>

fun load_lines :: "'w exec_env \<Rightarrow> start_faults \<Rightarrow> string \<Rightarrow> string \<Rightarrow> (nat \<times> string) list \<Rightarrow> journal \<Rightarrow> bool \<times> journal" where
  "load_lines env faults now raw [] jn = (False, jn)"
| "load_lines env faults now raw ((n, line) # rest) jn =
     (case xv_loads env line of
        None \<Rightarrow>
          if rest = [] then (True, recover_tail env faults now raw line jn)
          else load_lines env faults now raw rest (note_problem (''line '' @ nat_str n @ '' of the journal is not a complete record'') jn)
      | Some j \<Rightarrow>
          (case index_record j jn of
             (Inl _, jn') \<Rightarrow> load_lines env faults now raw rest (note_problem (''line '' @ nat_str n @ '' of the journal is not a journal record'') jn')
           | (Inr _, jn') \<Rightarrow> load_lines env faults now raw rest jn'))"

definition complete_last_line :: "start_faults \<Rightarrow> string \<Rightarrow> journal \<Rightarrow> journal" where
  "complete_last_line faults raw jn =
     (if nonblank_lines raw \<noteq> [] \<and> jn_problem jn = None \<and> \<not> ends_with newline raw then
        (case sf_newline faults of
           None \<Rightarrow> jn\<lparr>jn_file := raw @ newline\<rparr>
         | Some (written, message) \<Rightarrow> jn\<lparr>jn_file := (if written then raw @ newline else raw), jn_problem := Some (unwritable message)\<rparr>)
      else jn)"

text \<open>\<^verbatim>\<open>Journal(path)\<close> over a file's bytes; a file that does not exist is empty.\<close>

definition open_journal :: "'w exec_env \<Rightarrow> start_faults \<Rightarrow> string \<Rightarrow> string \<Rightarrow> journal" where
  "open_journal env faults now raw =
     (let jn = \<lparr>jn_file = raw, jn_records = fmempty, jn_results = [], jn_problem = None\<rparr>
      in case sf_open faults of
           Some message \<Rightarrow> jn\<lparr>jn_problem := Some (unwritable message)\<rparr>
         | None \<Rightarrow> (case load_lines env faults now raw (nonblank_lines raw) jn of
              (ended, jn') \<Rightarrow> if ended then jn' else complete_last_line faults raw jn'))"

end
