(* ===== verification/Executor.thy ===== *)
theory Executor
  imports Journal
begin

text \<open>
  The deploy executor's parts: the signature on every request (\<^verbatim>\<open>executor/signature.py\<close>), the enrolled
  services (\<^verbatim>\<open>executor/catalog.py\<close>), the Docker Engine calls (\<^verbatim>\<open>executor/docker.py\<close>), the restart and the
  rollback (\<^verbatim>\<open>executor/operations.py\<close>) and the flag listener (\<^verbatim>\<open>executor/flags.py\<close>).

  The Engine's answers are read with the exceptions Python raises on missing keys and on values of the
  wrong kind. An answer in place of an object is taken to be none of the lists of pairs \<^verbatim>\<open>dict()\<close> also
  accepts, and equal documents to be of the same kinds (\<^verbatim>\<open>1\<close> and \<^verbatim>\<open>True\<close> are not compared).
\<close>

section \<open>Signature\<close>

definition MIN_KEY_LENGTH :: nat where
  "MIN_KEY_LENGTH = 32"

definition usable_key :: "string option \<Rightarrow> string option" where
  "usable_key value = (case value of None \<Rightarrow> None
     | Some v \<Rightarrow> if py_len v < MIN_KEY_LENGTH \<or> CHR ''<'' \<in> set v \<or> CHR ''>'' \<in> set v then None else Some v)"

text \<open>\<^verbatim>\<open>method.upper()\<close>: a method is ASCII.\<close>

definition upper_char :: "char \<Rightarrow> char" where
  "upper_char c = (if CHR ''a'' \<le> c \<and> c \<le> CHR ''z'' then char_of (of_char c - 32 :: nat) else c)"

definition sign :: "'w exec_env \<Rightarrow> string \<Rightarrow> string \<Rightarrow> string \<Rightarrow> string \<Rightarrow> string \<Rightarrow> string \<Rightarrow> string" where
  "sign env key method path idempotency_key body timestamp =
     ''v1='' @ xv_hmac env key (join_with newline [map upper_char method, path, idempotency_key, xv_sha256 env body, timestamp])"

text \<open>
  \<^verbatim>\<open>int(timestamp)\<close> reads at most 4300 digits; \<^verbatim>\<open>time() - n\<close> converts \<open>n\<close> to a double. Times are in
  microseconds. \<^verbatim>\<open>hmac.compare_digest\<close> takes only ASCII strings.
\<close>

definition double_overflow :: nat where
  "double_overflow = 2 ^ 1024 - 2 ^ 970"

definition verify_signature ::
  "'w exec_env \<Rightarrow> string \<Rightarrow> int \<Rightarrow> string \<Rightarrow> string \<Rightarrow> string \<Rightarrow> string \<Rightarrow> string \<Rightarrow> string \<Rightarrow> string option outcome" where
  "verify_signature env key now method path idempotency_key body timestamp signature =
     (if timestamp = [] \<or> signature = [] then Inr (Some ''signature_missing'')
      else if \<not> list_all ascii_digit timestamp then Inr (Some ''signature_invalid'')
      else if 4300 < length timestamp then Inl (ValueError ''Exceeds the limit for integer string conversion'')
      else let n = digits_value timestamp
      in if double_overflow \<le> n then Inl (ArithmeticError ''int too large to convert to float'')
      else if xv_window env < \<bar>now - int n * 1000000\<bar> then Inr (Some ''signature_expired'')
      else if \<not> ascii signature then Inl (TypeError ''comparing strings with non-ASCII characters is not supported'')
      else if sign env key method path idempotency_key body timestamp \<noteq> signature then Inr (Some ''signature_invalid'')
      else Inr None)"

section \<open>Operations and enrolled services\<close>

definition alnum_char :: "char \<Rightarrow> bool" where
  "alnum_char c = ((CHR ''A'' \<le> c \<and> c \<le> CHR ''Z'') \<or> (CHR ''a'' \<le> c \<and> c \<le> CHR ''z'') \<or> ascii_digit c)"

definition head_and_run :: "(char \<Rightarrow> bool) \<Rightarrow> (char \<Rightarrow> bool) \<Rightarrow> nat \<Rightarrow> string \<Rightarrow> bool" where
  "head_and_run p q hi s = (case s of [] \<Rightarrow> False | c # cs \<Rightarrow> p c \<and> class_run q 0 hi cs)"

definition service_pattern :: "string \<Rightarrow> bool" where
  "service_pattern = head_and_run (\<lambda>c. CHR ''a'' \<le> c \<and> c \<le> CHR ''z'') (\<lambda>c. lower_digit c \<or> c = CHR ''-'') 62"

definition tag_name_pattern :: "string \<Rightarrow> bool" where
  "tag_name_pattern = head_and_run (\<lambda>c. alnum_char c \<or> c = CHR ''_'') (\<lambda>c. alnum_char c \<or> c \<in> {CHR ''_'', CHR ''.'', CHR ''-''}) 127"

definition flag_pattern :: "string \<Rightarrow> bool" where
  "flag_pattern = head_and_run (\<lambda>c. alnum_char c \<and> \<not> ascii_digit c) (\<lambda>c. alnum_char c \<or> c = CHR ''_'') 63"

definition variant_pattern :: "string \<Rightarrow> bool" where
  "variant_pattern = head_and_run (\<lambda>c. alnum_char c \<or> c = CHR ''%'')
     (\<lambda>c. alnum_char c \<or> c \<in> {CHR ''%'', CHR ''_'', CHR ''.'', CHR ''-''}) 31"

text \<open>The input models, each as the names it demands with their patterns; nothing else is allowed.\<close>

definition OPERATIONS :: "(string \<times> (string \<times> (string \<Rightarrow> bool)) list) list" where
  "OPERATIONS = [(''deployment.rollback'', [(''service'', service_pattern), (''to_tag'', tag_name_pattern)]),
     (''deployment.restart'', [(''service'', service_pattern)]),
     (''flag.set'', [(''service'', service_pattern), (''flag'', flag_pattern), (''variant'', variant_pattern)])]"

definition DOCKER_OPERATIONS :: "string list" where
  "DOCKER_OPERATIONS = [''deployment.rollback'', ''deployment.restart'']"

definition operation_risk :: "string \<Rightarrow> dict" where
  "operation_risk name =
     (let risk = [(''touches_data'', JBool False), (''blast_radius'', JStr ''service'')]
      in if name = ''deployment.rollback'' then dict ([(''reversible'', JBool True), (''downtime'', JStr ''seconds'')] @ risk)
         else if name = ''deployment.restart'' then dict ([(''reversible'', JBool False), (''downtime'', JStr ''seconds'')] @ risk)
         else dict ([(''reversible'', JBool True), (''downtime'', JStr ''none'')] @ risk))"

definition describe_operation :: "string \<Rightarrow> json" where
  "describe_operation name = JObj (dict [(''operation'', JStr name),
     (''parameters'', JList (map (JStr \<circ> fst) (tl (case map_of OPERATIONS name of None \<Rightarrow> [] | Some names \<Rightarrow> names)))),
     (''risk'', JObj (operation_risk name))])"

record enrolled_service =
  es_service :: string
  es_compose_service :: string
  es_compose_project :: "string option"
  es_image_repository :: "string option"
  es_operations :: "string list"
  es_flags :: "(string, string list) fmap"

definition describe_service :: "enrolled_service \<Rightarrow> dict" where
  "describe_service svc =
     dict [(''service'', JStr (es_service svc)), (''image_repository'', jopt (es_image_repository svc)),
       (''operations'', JList (map describe_operation (sort (es_operations svc))))] ++\<^sub>f
     (if es_flags svc = fmempty then fmempty
      else dict [(''flags'', JObj (fmmap (\<lambda>vs. JObj (dict [(''allowed'', JList (map JStr vs))])) (es_flags svc)))])"

text \<open>\<^verbatim>\<open>x or {}\<close> used as a mapping, \<^verbatim>\<open>x or ()\<close> used as an iterable, \<^verbatim>\<open>d[k]\<close> and \<^verbatim>\<open>dict(x)\<close>.\<close>

definition dict_or_empty :: "json \<Rightarrow> exec_error + dict" where
  "dict_or_empty j = (if \<not> truthy j then Inr fmempty
     else case j of JObj d \<Rightarrow> Inr d | _ \<Rightarrow> Inl (Escaped (AttributeError ''object has no attribute of a mapping'')))"

definition items_or_empty :: "json \<Rightarrow> exec_error + json list" where
  "items_or_empty j = (if \<not> truthy j then Inr [] else escaping (py_iter j))"

definition field :: "dict \<Rightarrow> string \<Rightarrow> exec_error + json" where
  "field d k = escaping (item d k)"

definition as_dict :: "json \<Rightarrow> exec_error + dict" where
  "as_dict j = (case j of JObj d \<Rightarrow> Inr d | JList [] \<Rightarrow> Inr fmempty | JStr [] \<Rightarrow> Inr fmempty
     | _ \<Rightarrow> Inl (Escaped (TypeError ''not a mapping'')))"

definition object_of :: "json \<Rightarrow> exec_error + dict" where
  "object_of j = (case j of JObj d \<Rightarrow> Inr d | _ \<Rightarrow> Inl (Escaped (AttributeError ''object has no attribute of a mapping'')))"

lemma dict_or_empty_JObj [simp]: "dict_or_empty (JObj d) = Inr d" "dict_or_empty JNull = Inr fmempty"
  by (simp_all add: dict_or_empty_def)

lemma items_or_empty_simps [simp]: "items_or_empty (JList xs) = Inr xs" "items_or_empty JNull = Inr []"
  by (auto simp: items_or_empty_def escaping_def)

text \<open>\<^verbatim>\<open>load_catalog\<close> of the parsed file; a \<^verbatim>\<open>CatalogError\<close> is a ValueError.\<close>

definition service_flags :: "'w exec_env \<Rightarrow> dict \<Rightarrow> exec_error + (string, string list) fmap" where
  "service_flags env raw =
     and_then (dict_or_empty (get raw ''flags'')) (\<lambda>flags.
     and_then (map_raise (\<lambda>flag. and_then (escaping (py_iter (get flags flag))) (\<lambda>vs. Inr (flag, map (py_str (xv_render env)) vs)))
       (sorted_list_of_fset (fmdom flags))) (\<lambda>kvs. Inr (fmap_of_list kvs)))"

definition enroll ::
  "'w exec_env \<Rightarrow> json \<Rightarrow> json \<Rightarrow> (string \<times> enrolled_service) list \<Rightarrow> exec_error + (string \<times> enrolled_service) list" where
  "enroll env defaults raw services =
     and_then (case raw of JObj d \<Rightarrow> Inr d | _ \<Rightarrow> Inl (Escaped (TypeError ''object is not subscriptable''))) (\<lambda>d.
     and_then (field d ''service'') (\<lambda>service.
     and_then (items_or_empty (get d ''operations'')) (\<lambda>ops.
       let str = py_str (xv_render env); name = str service; operations = remdups (map str ops); repository = get d ''image_repository''
       in and_then (raise_if (map_of services name \<noteq> None \<or> \<not> set operations \<subseteq> fst ` set OPERATIONS)
            (Escaped (ValueError ''service is duplicated or names an unknown operation''))) (\<lambda>_.
          and_then (raise_if (''deployment.rollback'' \<in> set operations \<and> \<not> truthy repository)
            (Escaped (ValueError ''service offers rollback without an image_repository''))) (\<lambda>_.
          and_then (service_flags env d) (\<lambda>flags.
          and_then (raise_if ((''flag.set'' \<in> set operations) \<noteq> (flags \<noteq> fmempty) \<or>
              \<not> list_all (\<lambda>flag. let vs = case fmlookup flags flag of None \<Rightarrow> [] | Some vs \<Rightarrow> vs in flag_pattern flag \<and> vs \<noteq> [] \<and> list_all variant_pattern vs)
                  (sorted_list_of_fset (fmdom flags)))
            (Escaped (ValueError ''service needs flags exactly when it offers flag.set''))) (\<lambda>_.
          and_then (object_of defaults) (\<lambda>ds.
            let project = getd d ''compose_project'' (getd ds ''compose_project'' (JStr ''self''))
            in Inr (services @ [(name,
                 \<lparr>es_service = name, es_compose_service = str (getd d ''compose_service'' (JStr name)),
                  es_compose_project = (if project = JStr ''self'' then None else Some (str project)),
                  es_image_repository = (if truthy repository then Some (str repository) else None),
                  es_operations = operations, es_flags = flags\<rparr>)])))))))))"

definition load_catalog :: "'w exec_env \<Rightarrow> json \<Rightarrow> exec_error + (string \<times> enrolled_service) list" where
  "load_catalog env document =
     (case document of
        JObj d \<Rightarrow>
          if get d ''schema_version'' \<noteq> JStr ''v1'' then Inl (Escaped (ValueError ''catalog must be a v1 document''))
          else and_then (items_or_empty (get d ''services''))
            (\<lambda>raws. fold_raise (enroll env (py_or (get d ''defaults'') (JObj fmempty))) raws [])
      | _ \<Rightarrow> Inl (Escaped (ValueError ''catalog must be a v1 document'')))"

section \<open>Docker Engine calls\<close>

definition docker_call ::
  "'w exec_env \<Rightarrow> string \<Rightarrow> string \<Rightarrow> (string \<times> string) list \<Rightarrow> json option \<Rightarrow> int list \<Rightarrow> ('w machine, json) action" where
  "docker_call env method path params body expected =
     run_then (send env \<lparr>hq_method = method, hq_url = rev (dropWhile (\<lambda>c. c = CHR ''/'') (rev (xv_docker_url env))) @ path,
       hq_params = params, hq_body = body\<rparr>) (\<lambda>a.
     case a of
       TimedOut \<Rightarrow> fail (DockerTimeout path)
     | Unreachable \<Rightarrow> fail (DockerUnavailable path)
     | Answered status is_json document \<Rightarrow>
         if status = 404 then fail (DockerNotFound path)
         else if 500 \<le> status then fail (DockerUnavailable (method @ '' '' @ path @ '' -> '' @ int_str status))
         else if status \<notin> set expected then fail (DockerInvalid (method @ '' '' @ path @ '' -> '' @ int_str status))
         else if \<not> is_json then pass JNull
         else case document of Some j \<Rightarrow> pass j | None \<Rightarrow> fail (DockerInvalid (method @ '' '' @ path @ '' -> non-JSON body'')))"

definition docker_do :: "'w exec_env \<Rightarrow> string \<Rightarrow> string \<Rightarrow> (string \<times> string) list \<Rightarrow> int list \<Rightarrow> ('w machine, unit) action" where
  "docker_do env method path params expected = run_then (docker_call env method path params None expected) (\<lambda>_. pass ())"

definition ping :: "'w exec_env \<Rightarrow> ('w machine, unit) action" where
  "ping env = docker_do env ''GET'' ''/_ping'' [] [200]"

definition list_containers :: "'w exec_env \<Rightarrow> (string \<times> string) list \<Rightarrow> ('w machine, json list) action" where
  "list_containers env labels =
     (let filters = xv_dumps env (JObj (dict [(''label'', JList (map (\<lambda>(k, v). JStr (k @ ''='' @ v)) labels))]))
      in run_then (docker_call env ''GET'' ''/containers/json'' [(''all'', ''true''), (''filters'', filters)] None [200])
           (\<lambda>j. pass (elems j)))"

definition inspect_container :: "'w exec_env \<Rightarrow> string \<Rightarrow> ('w machine, dict) action" where
  "inspect_container env cid =
     run_then (docker_call env ''GET'' (''/containers/'' @ cid @ ''/json'') [] None [200]) (\<lambda>j. lift (as_dict j))"

definition inspect_image :: "'w exec_env \<Rightarrow> string \<Rightarrow> ('w machine, dict) action" where
  "inspect_image env reference =
     run_then (docker_call env ''GET'' (''/images/'' @ reference @ ''/json'') [] None [200]) (\<lambda>j. lift (as_dict j))"

definition tags_of_image :: "string \<Rightarrow> json \<Rightarrow> exec_error + string list" where
  "tags_of_image prefix entry =
     and_then (object_of entry) (\<lambda>d. and_then (items_or_empty (get d ''RepoTags'')) (\<lambda>tags.
     and_then (map_raise (\<lambda>t. case t of JStr s \<Rightarrow> Inr s
         | _ \<Rightarrow> Inl (Escaped (AttributeError ''object has no attribute startswith''))) tags) (\<lambda>texts.
     Inr (map (drop (length prefix)) (filter (starts_with prefix) texts)))))"

definition list_image_tags :: "'w exec_env \<Rightarrow> string \<Rightarrow> ('w machine, string list) action" where
  "list_image_tags env repository =
     run_then (docker_call env ''GET'' ''/images/json''
         [(''filters'', xv_dumps env (JObj (dict [(''reference'', JList [JStr repository])])))] None [200]) (\<lambda>images.
       lift (and_then (items_or_empty images) (\<lambda>xs.
         and_then (map_raise (tags_of_image (repository @ '':'')) xs) (\<lambda>tagss. Inr (sort (remdups (concat tagss)))))))"

definition create_container :: "'w exec_env \<Rightarrow> string \<Rightarrow> json \<Rightarrow> ('w machine, string) action" where
  "create_container env name body =
     run_then (docker_call env ''POST'' ''/containers/create'' [(''name'', name)] (Some body) [201]) (\<lambda>created.
       lift (case created of JObj d \<Rightarrow> and_then (field d ''Id'') (\<lambda>cid. Inr (py_str (xv_render env) cid))
             | _ \<Rightarrow> Inl (Escaped (TypeError ''object is not subscriptable''))))"

definition start_container :: "'w exec_env \<Rightarrow> string \<Rightarrow> ('w machine, unit) action" where
  "start_container env cid = docker_do env ''POST'' (''/containers/'' @ cid @ ''/start'') [] [204, 304]"

definition stop_container :: "'w exec_env \<Rightarrow> string \<Rightarrow> ('w machine, unit) action" where
  "stop_container env cid = docker_do env ''POST'' (''/containers/'' @ cid @ ''/stop'') [(''t'', ''10'')] [204, 304]"

definition restart_container :: "'w exec_env \<Rightarrow> string \<Rightarrow> ('w machine, unit) action" where
  "restart_container env cid = docker_do env ''POST'' (''/containers/'' @ cid @ ''/restart'') [(''t'', ''10'')] [204]"

definition rename_container :: "'w exec_env \<Rightarrow> string \<Rightarrow> string \<Rightarrow> ('w machine, unit) action" where
  "rename_container env cid name = docker_do env ''POST'' (''/containers/'' @ cid @ ''/rename'') [(''name'', name)] [204]"

definition remove_container :: "'w exec_env \<Rightarrow> string \<Rightarrow> ('w machine, unit) action" where
  "remove_container env cid = docker_do env ''DELETE'' (''/containers/'' @ cid) [] [204]"

section \<open>Finding and waiting for a container\<close>

definition COMPOSE :: string where
  "COMPOSE = ''com.docker.compose.''"

definition EXECUTION_LABEL :: string where
  "EXECUTION_LABEL = ''io.sre-agent.deploy-executor.execution''"

definition strip_slashes :: "string \<Rightarrow> string" where
  "strip_slashes s = dropWhile (\<lambda>c. c = CHR ''/'') s"

definition container_view :: "'w exec_env \<Rightarrow> dict \<Rightarrow> exec_error + dict" where
  "container_view env d =
     and_then (dict_or_empty (get d ''State'')) (\<lambda>state.
     and_then (field d ''Id'') (\<lambda>cid.
     and_then (field d ''Name'') (\<lambda>name.
     and_then (field d ''Config'') (\<lambda>config.
     and_then (case config of JObj c \<Rightarrow> field c ''Image'' | _ \<Rightarrow> Inl (Escaped (TypeError ''object is not subscriptable''))) (\<lambda>image.
     Inr (dict [(''container_id'', cid), (''name'', JStr (strip_slashes (py_str (xv_render env) name))), (''image'', image),
       (''state'', get state ''Status''),
       (''health'', case py_or (get state ''Health'') (JObj fmempty) of JObj h \<Rightarrow> get h ''Status'' | _ \<Rightarrow> JNull),
       (''started_at'', get state ''StartedAt'')]))))))"

text \<open>\<^verbatim>\<open>_project\<close>: read once, from the executor's own container.\<close>

definition own_project :: "'w exec_env \<Rightarrow> ('w machine, string) action" where
  "own_project env mc =
     (case mc_own_project mc of
        Some p \<Rightarrow> (Inr p, mc)
      | None \<Rightarrow>
          (case xv_own_container env of
             None \<Rightarrow> (Inl (ExecutionError 409 ''container_not_found'' ''the executor's project is unknown'' False), mc)
           | Some cid \<Rightarrow>
               if cid = [] then (Inl (ExecutionError 409 ''container_not_found'' ''the executor's project is unknown'' False), mc)
               else run_then (inspect_container env cid) (\<lambda>own.
                 run_then (lift (and_then (field own ''Config'') (\<lambda>config. and_then (object_of config) (\<lambda>c.
                     and_then (dict_or_empty (get c ''Labels'')) (\<lambda>labels.
                     and_then (field labels (COMPOSE @ ''project'')) (\<lambda>p. Inr (py_str (xv_render env) p))))))) (\<lambda>p mc'.
                 (Inr p, mc'\<lparr>mc_own_project := Some p\<rparr>))) mc))"

definition long_lived :: "json \<Rightarrow> exec_error + bool" where
  "long_lived row = and_then (object_of row) (\<lambda>d. and_then (dict_or_empty (get d ''Labels''))
     (\<lambda>labels. Inr (getd labels (COMPOSE @ ''oneoff'') (JStr ''False'') \<noteq> JStr ''True'')))"

definition find_container :: "'w exec_env \<Rightarrow> enrolled_service \<Rightarrow> ('w machine, dict) action" where
  "find_container env svc =
     run_then (case es_compose_project svc of Some p \<Rightarrow> if p \<noteq> [] then pass p else own_project env | None \<Rightarrow> own_project env) (\<lambda>project.
     run_then (list_containers env [(COMPOSE @ ''project'', project), (COMPOSE @ ''service'', es_compose_service svc)]) (\<lambda>all.
     run_then (lift (map_raise (\<lambda>row. and_then (long_lived row) (\<lambda>keep. Inr (row, keep))) all)) (\<lambda>judged.
       case map fst (filter snd judged) of
         [] \<Rightarrow> fail (ExecutionError 409 ''container_not_found'' ''no container runs the service'' False)
       | [row] \<Rightarrow> run_then (lift (field (obj row) ''Id'')) (\<lambda>cid. inspect_container env (py_str (xv_render env) cid))
       | _ \<Rightarrow> fail (ExecutionError 409 ''service_ambiguous'' ''the service has several containers'' False))))"

definition available_tags :: "'w exec_env \<Rightarrow> enrolled_service \<Rightarrow> ('w machine, string list) action" where
  "available_tags env svc = (case es_image_repository svc of None \<Rightarrow> pass [] | Some repository \<Rightarrow> list_image_tags env repository)"

text \<open>
  \<^verbatim>\<open>_settled\<close>. A turn of the loop sleeps half a second and at least as long: \<open>waits k\<close> is what turn \<open>k\<close> took
  beyond, \<open>now\<close> the clock at the turn, counted from the first reading.
\<close>

datatype settling = Up | Down | Pending

definition settling_of :: "dict \<Rightarrow> exec_error + settling \<times> json \<times> json" where
  "settling_of d =
     and_then (dict_or_empty (get d ''State'')) (\<lambda>state.
     and_then (dict_or_empty (get state ''Health'')) (\<lambda>h.
       let health = get h ''Status''; status = get state ''Status''
       in Inr (if truthy (get state ''Running'') \<and> health \<in> {JNull, JStr ''healthy''} then Up
               else if status \<in> {JStr ''exited'', JStr ''dead''} then Down else Pending, status, health)))"

function settled_container :: "'w exec_env \<Rightarrow> string \<Rightarrow> (nat \<Rightarrow> nat) \<Rightarrow> nat \<Rightarrow> int \<Rightarrow> ('w machine, dict) action" where
  "settled_container env cid waits k now mc =
     (case run_then (inspect_container env cid) (\<lambda>d. run_then (lift (settling_of d)) (\<lambda>s. pass (d, s))) mc of
        (Inl e, mc') \<Rightarrow> (Inl e, mc')
      | (Inr (d, s, status, health), mc') \<Rightarrow>
          if s = Up then (Inr d, mc')
          else if s = Down \<or> xv_settle env < now
          then (Inl (Escaped (RuntimeError (''container is '' @ py_str (xv_render env) status @ '', health '' @ py_str (xv_render env) health))), mc')
          else settled_container env cid waits (Suc k) (now + 500 + int (waits (Suc k))) mc')"
  by pat_completeness auto
termination
  by (relation "measure (\<lambda>(env, _, _, _, now, _). nat (xv_settle env - now + 1))") auto

declare settled_container.simps [simp del]

section \<open>Restart and rollback\<close>

type_synonym effect = "string \<times> dict \<times> dict"

definition restart_operation ::
  "'w exec_env \<Rightarrow> enrolled_service \<Rightarrow> (nat \<Rightarrow> nat) \<Rightarrow> ('w machine, unit) action \<Rightarrow> ('w machine, effect) action" where
  "restart_operation env svc waits intent =
     run_then (find_container env svc) (\<lambda>before.
     run_then intent (\<lambda>_.
     run_then (lift (field before ''Id'')) (\<lambda>cid.
       let target = py_str (xv_render env) cid
       in run_then (restart_container env target) (\<lambda>_.
          run_then (rescue (settled_container env target waits 0 (int (waits 0)))
            (\<lambda>e. fail (case e of Escaped (RuntimeError message) \<Rightarrow> ExecutionError 502 ''execution_failed'' message False | _ \<Rightarrow> e))) (\<lambda>after.
          run_then (lift (container_view env before)) (\<lambda>b.
          run_then (lift (container_view env after)) (\<lambda>a. pass (''restarted'', b, a))))))))"

text \<open>\<^verbatim>\<open>_clone\<close>: the container's own configuration with the target image, nothing else.\<close>

definition own_labels :: "dict \<Rightarrow> dict \<Rightarrow> dict" where
  "own_labels image_labels labels = fmfilter (\<lambda>k. starts_with COMPOSE k \<or> get image_labels k \<noteq> get labels k) labels"

definition clone_entry :: "dict \<Rightarrow> string \<Rightarrow> json \<Rightarrow> exec_error + json option" where
  "clone_entry inherited key v =
     (if key \<in> {''Hostname'', ''Image''} then Inr None
      else if key = ''Env'' then
        and_then (items_or_empty v) (\<lambda>xs. and_then (items_or_empty (get inherited ''Env'')) (\<lambda>theirs.
        Inr (Some (JList (filter (\<lambda>x. x \<notin> set theirs) xs)))))
      else if key = ''Labels'' then
        and_then (dict_or_empty (get inherited ''Labels'')) (\<lambda>image_labels. and_then (dict_or_empty v) (\<lambda>labels.
        Inr (Some (JObj (own_labels image_labels labels)))))
      else if v = get inherited key then Inr None else Inr (Some v))"

definition clone_labels :: "dict \<Rightarrow> json \<Rightarrow> string \<Rightarrow> dict" where
  "clone_labels config image_id eid =
     (let labels = fmupd EXECUTION_LABEL (JStr eid) (obj (get config ''Labels''))
      in if COMPOSE @ ''image'' \<in> fmdom' labels then fmupd (COMPOSE @ ''image'') image_id labels else labels)"

definition second_part :: "string \<Rightarrow> string" where
  "second_part bind = takeWhile (\<lambda>c. c \<noteq> CHR '':'') (tl (dropWhile (\<lambda>c. c \<noteq> CHR '':'') bind))"

definition bind_target :: "json \<Rightarrow> exec_error + json option" where
  "bind_target b = (case b of JStr s \<Rightarrow> Inr (if CHR '':'' \<in> set s then Some (JStr (second_part s)) else None)
     | _ \<Rightarrow> Inl (Escaped (TypeError ''not a bind'')))"

definition volume_bind :: "'w exec_env \<Rightarrow> json list \<Rightarrow> json \<Rightarrow> exec_error + json option" where
  "volume_bind env covered mount =
     and_then (object_of mount) (\<lambda>m.
       if get m ''Type'' \<noteq> JStr ''volume'' then Inr None
       else and_then (field m ''Destination'') (\<lambda>destination.
         if destination \<in> set covered then Inr None
         else and_then (field m ''Name'') (\<lambda>name.
           Inr (Some (JStr (py_str (xv_render env) name @ '':'' @ py_str (xv_render env) destination @
             (if truthy (getd m ''RW'' (JBool True)) then [] else '':ro'')))))))"

definition given :: "'a option list \<Rightarrow> 'a list" where
  "given xs = map the (filter (\<lambda>x. x \<noteq> None) xs)"

definition clone_host :: "'w exec_env \<Rightarrow> dict \<Rightarrow> exec_error + dict" where
  "clone_host env d =
     and_then (field d ''HostConfig'') (\<lambda>raw. and_then (as_dict raw) (\<lambda>host.
     and_then (items_or_empty (get host ''Binds'')) (\<lambda>binds.
     and_then (map_raise bind_target binds) (\<lambda>targets.
     and_then (items_or_empty (get host ''Mounts'')) (\<lambda>mounts.
     and_then (map_raise (\<lambda>m. and_then (object_of m) (\<lambda>x. field x ''Target'')) mounts) (\<lambda>more.
     and_then (items_or_empty (get d ''Mounts'')) (\<lambda>volumes.
     and_then (map_raise (volume_bind env (given targets @ more)) volumes) (\<lambda>extra.
     Inr (fmupd ''Binds'' (JList (binds @ given extra)) host)))))))))"

definition clone_endpoint :: "string \<Rightarrow> json \<Rightarrow> exec_error + json" where
  "clone_endpoint short settings =
     and_then (object_of settings) (\<lambda>s.
     and_then (items_or_empty (get s ''Aliases'')) (\<lambda>aliases.
       let kvs = [(''Aliases'', JList (filter (\<lambda>a. a \<noteq> JStr short) aliases)), (''IPAMConfig'', get s ''IPAMConfig''),
         (''Links'', get s ''Links''), (''DriverOpts'', get s ''DriverOpts'')]
       in Inr (JObj (dict (filter (\<lambda>(_, v). truthy v) kvs)))))"

definition for_items :: "(string \<Rightarrow> json \<Rightarrow> exec_error + 'a) \<Rightarrow> dict \<Rightarrow> exec_error + (string \<times> 'a) list" where
  "for_items f d = map_raise (\<lambda>k. and_then (f k (get d k)) (\<lambda>x. Inr (k, x))) (sorted_list_of_fset (fmdom d))"

definition clone_config :: "'w exec_env \<Rightarrow> dict \<Rightarrow> json \<Rightarrow> string \<Rightarrow> json \<Rightarrow> string \<Rightarrow> exec_error + json" where
  "clone_config env d inherited target image_id eid =
     and_then (and_then (field d ''Config'') object_of) (\<lambda>own.
     and_then (object_of inherited) (\<lambda>inh.
     and_then (for_items (clone_entry inh) own) (\<lambda>entries.
       let config = dict (map (\<lambda>(k, v). (k, the v)) (filter (\<lambda>(_, v). v \<noteq> None) entries));
           config' = config ++\<^sub>f dict [(''Image'', JStr target), (''Labels'', JObj (clone_labels config image_id eid))]
       in and_then (clone_host env d) (\<lambda>host.
          and_then (field d ''Id'') (\<lambda>cid.
          and_then (case cid of JStr s \<Rightarrow> Inr (take 12 s) | _ \<Rightarrow> Inl (Escaped (TypeError ''unhashable type: slice''))) (\<lambda>short.
          and_then (and_then (field d ''NetworkSettings'') object_of) (\<lambda>network.
          and_then (dict_or_empty (get network ''Networks'')) (\<lambda>networks.
          and_then (for_items (\<lambda>_. clone_endpoint short) networks) (\<lambda>endpoints.
          Inr (JObj (config' ++\<^sub>f dict [(''HostConfig'', JObj host),
            (''NetworkingConfig'', JObj (dict [(''EndpointsConfig'', JObj (dict endpoints))]))])))))))))))"

definition best_effort :: "('w machine, unit) action \<Rightarrow> ('w machine, unit) action" where
  "best_effort m = rescue m (\<lambda>_. pass ())"

definition recover_container :: "'w exec_env \<Rightarrow> string \<Rightarrow> string \<Rightarrow> string \<Rightarrow> ('w machine, unit) action" where
  "recover_container env old_id new_id name =
     run_then (best_effort (stop_container env new_id)) (\<lambda>_.
     run_then (best_effort (remove_container env new_id)) (\<lambda>_.
     run_then (best_effort (rename_container env old_id name)) (\<lambda>_.
     best_effort (start_container env old_id))))"

text \<open>The steps inside the rollback's \<^verbatim>\<open>try\<close>.\<close>

definition replace_container :: "'w exec_env \<Rightarrow> string \<Rightarrow> string \<Rightarrow> string \<Rightarrow> (nat \<Rightarrow> nat) \<Rightarrow> ('w machine, dict) action" where
  "replace_container env old_id new_id name waits =
     run_then (stop_container env old_id) (\<lambda>_.
     run_then (rename_container env old_id (name @ ''.previous'')) (\<lambda>_.
     run_then (rename_container env new_id name) (\<lambda>_.
     run_then (start_container env new_id) (\<lambda>_.
     settled_container env new_id waits 0 (int (waits 0))))))"

definition not_up :: exec_error where
  "not_up = ExecutionError 502 ''execution_failed'' ''the target did not come up; the previous container is back'' False"

definition swap_containers ::
  "'w exec_env \<Rightarrow> string \<Rightarrow> string \<Rightarrow> string \<Rightarrow> (nat \<Rightarrow> nat) \<Rightarrow> ('w machine, dict) action" where
  "swap_containers env old_id new_id name waits =
     rescue (replace_container env old_id new_id name waits)
       (\<lambda>_. run_then (recover_container env old_id new_id name) (\<lambda>_. fail not_up))"

definition target_image :: "'w exec_env \<Rightarrow> string \<Rightarrow> ('w machine, dict) action" where
  "target_image env target = rescue (inspect_image env target) (\<lambda>e. fail (case e of
     DockerNotFound _ \<Rightarrow> ExecutionError 422 ''image_tag_unknown'' ''the image is not present in the local image store'' False | _ \<Rightarrow> e))"

definition rollback_operation ::
  "'w exec_env \<Rightarrow> enrolled_service \<Rightarrow> string \<Rightarrow> string \<Rightarrow> (nat \<Rightarrow> nat) \<Rightarrow> ('w machine, unit) action \<Rightarrow> ('w machine, effect) action" where
  "rollback_operation env svc tag eid waits intent =
     (let str = py_str (xv_render env);
          target = (case es_image_repository svc of Some r \<Rightarrow> r | None \<Rightarrow> ''None'') @ '':'' @ tag
      in run_then (find_container env svc) (\<lambda>before.
         run_then (target_image env target) (\<lambda>image.
         run_then (lift (field before ''Image'')) (\<lambda>old_image.
         run_then (lift (field image ''Id'')) (\<lambda>new_image.
         run_then (if old_image = new_image
                   then lift (and_then (dict_or_empty (get before ''State'')) (\<lambda>s. Inr (truthy (get s ''Running'')))) else pass False) (\<lambda>there.
           if there then run_then (lift (container_view env before)) (\<lambda>v. pass (''already_at_target'', v, v))
           else run_then (lift (field before ''Name'')) (\<lambda>raw_name.
             let name = strip_slashes (str raw_name)
             in run_then (inspect_image env (str old_image)) (\<lambda>old.
                run_then intent (\<lambda>_.
                run_then (lift (clone_config env before (py_or (get old ''Config'') (JObj fmempty)) target (JStr (str new_image)) eid)) (\<lambda>config.
                run_then (create_container env (name @ ''.next'') config) (\<lambda>new_id.
                run_then (lift (field before ''Id'')) (\<lambda>cid.
                run_then (swap_containers env (str cid) new_id name waits) (\<lambda>after.
                run_then (remove_container env (str cid)) (\<lambda>_.
                run_then (lift (container_view env before)) (\<lambda>b.
                run_then (lift (container_view env after)) (\<lambda>a. pass (''rolled_back'', b, a)))))))))))))))))"

section \<open>Flags\<close>

text \<open>
  The listener's address and token as configured; a call's answer is parsed whatever its content type,
  and \<^verbatim>\<open>response.json()\<close> of a body that is not JSON raises.
\<close>

definition flags_configured :: "string option \<times> string option \<Rightarrow> bool" where
  "flags_configured cfg = (case cfg of (url, token) \<Rightarrow>
     (case url of Some u \<Rightarrow> dropWhile (\<lambda>c. c = CHR ''/'') (rev u) \<noteq> [] | None \<Rightarrow> False) \<and>
     (case token of Some t \<Rightarrow> t \<noteq> [] | None \<Rightarrow> False))"

definition flag_call ::
  "'w exec_env \<Rightarrow> string option \<times> string option \<Rightarrow> string \<Rightarrow> string \<Rightarrow> json option \<Rightarrow> ('w machine, json) action" where
  "flag_call env cfg method path body =
     (if \<not> flags_configured cfg
      then fail (ExecutionError 503 ''flags_unavailable'' ''the demo's flag listener is not configured'' True)
      else run_then (send env \<lparr>hq_method = method,
          hq_url = (case fst cfg of Some u \<Rightarrow> rev (dropWhile (\<lambda>c. c = CHR ''/'') (rev u)) | None \<Rightarrow> []) @ path, hq_params = [], hq_body = body\<rparr>) (\<lambda>a.
        case a of
          Answered status is_json document \<Rightarrow>
            if status \<noteq> 200 then fail (ExecutionError 502 ''execution_failed'' (''the flag listener answered '' @ int_str status) False)
            else (case document of Some j \<Rightarrow> pass j | None \<Rightarrow> fail (Escaped (ValueError ''Expecting value'')))
        | _ \<Rightarrow> fail (ExecutionError 503 ''flags_unavailable'' ''the demo's flag listener did not answer'' True)))"

definition subscript :: "json \<Rightarrow> string \<Rightarrow> exec_error + json" where
  "subscript j k = (case j of JObj d \<Rightarrow> field d k | _ \<Rightarrow> Inl (Escaped (TypeError ''object is not subscriptable'')))"

definition current_variants :: "'w exec_env \<Rightarrow> string option \<times> string option \<Rightarrow> ('w machine, (string, string) fmap) action" where
  "current_variants env cfg =
     run_then (flag_call env cfg ''GET'' ''/flags'' None) (\<lambda>body.
       lift (and_then (subscript body ''flags'') (\<lambda>j. and_then (object_of j) (\<lambda>d.
         Inr (fmmap (py_str (xv_render env)) d)))))"

definition variant_view :: "string \<Rightarrow> string \<Rightarrow> dict" where
  "variant_view flag variant = dict [(''flag'', JStr flag), (''variant'', JStr variant)]"

definition allowed_variants :: "enrolled_service \<Rightarrow> string \<Rightarrow> string list" where
  "allowed_variants svc flag = (case fmlookup (es_flags svc) flag of None \<Rightarrow> [] | Some vs \<Rightarrow> vs)"

definition set_flag ::
  "'w exec_env \<Rightarrow> string option \<times> string option \<Rightarrow> enrolled_service \<Rightarrow> string \<Rightarrow> string \<Rightarrow> ('w machine, unit) action \<Rightarrow>
     ('w machine, effect) action" where
  "set_flag env cfg svc flag variant intent =
     (if variant \<notin> set (allowed_variants svc flag)
      then fail (ExecutionError 422 ''flag_not_allowed'' ''the service may not set this'' False)
      else run_then (current_variants env cfg) (\<lambda>variants.
        case fmlookup variants flag of
          None \<Rightarrow> fail (ExecutionError 422 ''flag_not_allowed'' ''the demo does not offer the flag'' False)
        | Some current \<Rightarrow>
            if current = variant then pass (''already_at_target'', variant_view flag current, variant_view flag current)
            else run_then intent (\<lambda>_.
              run_then (flag_call env cfg ''PUT'' (''/flags/'' @ flag) (Some (JObj (dict [(''variant'', JStr variant)])))) (\<lambda>written.
              run_then (lift (subscript written ''variant'')) (\<lambda>v.
              pass (''flag_set'', variant_view flag current, variant_view flag (py_str (xv_render env) v)))))))"

end
