(* ===== verification/Deployments.thy ===== *)
theory Deployments
  imports Executor
begin

text \<open>
  The deploy executor itself (\<^verbatim>\<open>Executor\<close> and the application of \<^verbatim>\<open>executor/app.py\<close>): a request is
  verified, checked against the enrolled services, bound to its idempotency key and then executed once,
  with an intent in the journal before the first change and the result after it.

  The locks per key and per service make the requests that share one wait for each other; requests are
  served one after the other here.
\<close>

section \<open>Requests and answers\<close>

record op_request =
  oq_operation :: string
  oq_method :: string
  oq_path :: string
  oq_key :: "string option"
  oq_timestamp :: "string option"
  oq_signature :: "string option"
  oq_body :: string

record op_response =
  or_status :: int
  or_body :: json

text \<open>
  What one request draws: identifiers, the wall clock in microseconds and as text, the measured duration,
  the waits of the polling loop, and what the file system does with the two lines.
\<close>

record exec_draw =
  xd_execution_id :: string
  xd_request_id :: string
  xd_now :: int
  xd_executed_at :: string
  xd_duration_ms :: int
  xd_waits :: "nat \<Rightarrow> nat"
  xd_intent :: write_fault
  xd_result :: write_fault

definition error_response :: "exec_draw \<Rightarrow> int \<Rightarrow> string \<Rightarrow> string \<Rightarrow> bool \<Rightarrow> op_response" where
  "error_response d status code message retryable =
     \<lparr>or_status = status, or_body = JObj (dict [(''error'', JObj (dict [(''code'', JStr code), (''message'', JStr message)])),
        (''request_id'', JStr (xd_request_id d)), (''retryable'', JBool retryable)])\<rparr>"

definition signature_message :: "string \<Rightarrow> string" where
  "signature_message code =
     (if code = ''signature_missing'' then ''X-Executor-Timestamp and X-Executor-Signature are required''
      else if code = ''signature_expired'' then ''the signature timestamp is outside the accepted window''
      else ''the signature does not cover this method, path, key and body'')"

definition answerable :: "exec_error \<Rightarrow> bool" where
  "answerable e = (case e of ExecutionError _ _ _ _ \<Rightarrow> True | DockerTimeout _ \<Rightarrow> True | DockerUnavailable _ \<Rightarrow> True
     | DockerInvalid _ \<Rightarrow> True | _ \<Rightarrow> False)"

definition docker_error :: "exec_draw \<Rightarrow> exec_error \<Rightarrow> op_response" where
  "docker_error d e =
     (case e of
        ExecutionError status code message retryable \<Rightarrow> error_response d status code message retryable
      | DockerTimeout _ \<Rightarrow> error_response d 504 ''docker_timeout'' ''the Docker Engine did not answer in time'' True
      | DockerUnavailable _ \<Rightarrow> error_response d 503 ''docker_unavailable'' ''the socket proxy or the daemon is unavailable'' True
      | DockerInvalid what \<Rightarrow> error_response d 502 ''docker_invalid'' (''unexpected Docker Engine answer: '' @ what) False
      | _ \<Rightarrow> error_response d 502 ''docker_invalid'' ''unexpected Docker Engine answer'' False)"

text \<open>\<^verbatim>\<open>input_model.model_validate\<close>: exactly the named texts, each of its pattern.\<close>

definition read_input :: "(string \<times> (string \<Rightarrow> bool)) list \<Rightarrow> json \<Rightarrow> dict option" where
  "read_input names j =
     (case j of
        JObj d \<Rightarrow>
          if keys_exactly d (map fst names) \<and>
             list_all (\<lambda>(k, p). case get d k of JStr s \<Rightarrow> p s | _ \<Rightarrow> False) names then Some d else None
      | _ \<Rightarrow> None)"

definition text_at :: "dict \<Rightarrow> string \<Rightarrow> string" where
  "text_at d k = (case get d k of JStr s \<Rightarrow> s | _ \<Rightarrow> [])"

definition idempotency_key_ok :: "string \<Rightarrow> bool" where
  "idempotency_key_ok key = class_run (\<lambda>c. CHR '' '' \<le> c \<and> c \<le> CHR ''~'') 16 128 key"

definition or_empty :: "string option \<Rightarrow> string" where
  "or_empty x = (case x of None \<Rightarrow> [] | Some s \<Rightarrow> s)"

definition binding_of :: "'w exec_env \<Rightarrow> op_request \<Rightarrow> string" where
  "binding_of env q = oq_operation q @ '':'' @ xv_sha256 env (or_empty (oq_key q))"

section \<open>One execution\<close>

definition base_record :: "exec_draw \<Rightarrow> string \<Rightarrow> enrolled_service \<Rightarrow> dict \<Rightarrow> string \<Rightarrow> string \<Rightarrow> dict" where
  "base_record d op svc payload binding digest =
     dict [(''binding'', JStr binding), (''payload_digest'', JStr digest), (''execution_id'', JStr (xd_execution_id d)),
       (''operation'', JStr op), (''service'', JStr (es_service svc)), (''parameters'', JObj (fmdrop ''service'' payload))]"

definition intent_record :: "exec_draw \<Rightarrow> dict \<Rightarrow> dict" where
  "intent_record d base = fmupd ''requested_at'' (JStr (xd_executed_at d)) (fmupd ''kind'' (JStr ''intent'') base)"

definition result_record :: "dict \<Rightarrow> op_response \<Rightarrow> dict" where
  "result_record base r = fmupd ''response'' (or_body r) (fmupd ''status'' (JInt (or_status r)) (fmupd ''kind'' (JStr ''result'') base))"

definition perform ::
  "'w exec_env \<Rightarrow> exec_draw \<Rightarrow> string \<Rightarrow> enrolled_service \<Rightarrow> dict \<Rightarrow> ('w machine, unit) action \<Rightarrow> ('w machine, effect) action" where
  "perform env d op svc payload intent =
     (if op = ''deployment.rollback'' then rollback_operation env svc (text_at payload ''to_tag'') (xd_execution_id d) (xd_waits d) intent
      else if op = ''flag.set'' then
        (case xv_flags env of
           None \<Rightarrow> fail (ExecutionError 503 ''flags_unavailable'' ''this executor has no flag listener'' True)
         | Some cfg \<Rightarrow> set_flag env cfg svc (text_at payload ''flag'') (text_at payload ''variant'') intent)
      else restart_operation env svc (xd_waits d) intent)"

definition effect_body :: "exec_draw \<Rightarrow> string \<Rightarrow> enrolled_service \<Rightarrow> dict \<Rightarrow> effect \<Rightarrow> dict" where
  "effect_body d op svc payload done =
     (case done of (outcome, before, after) \<Rightarrow>
        dict [(''execution_id'', JStr (xd_execution_id d)), (''operation'', JStr op), (''service'', JStr (es_service svc)),
          (''parameters'', JObj (fmdrop ''service'' payload)), (''outcome'', JStr outcome), (''replayed'', JBool False),
          (''before'', JObj before), (''after'', JObj after), (''executed_at'', JStr (xd_executed_at d)),
          (''duration_ms'', JInt (xd_duration_ms d))])"

text \<open>\<^verbatim>\<open>record_change\<close> runs after the answer and ignores every failure.\<close>

definition record_change :: "'w exec_env \<Rightarrow> exec_draw \<Rightarrow> enrolled_service \<Rightarrow> effect \<Rightarrow> ('w machine, unit) action" where
  "record_change env d svc done =
     (case (done, xv_changes env) of
        ((outcome, before, after), Some url) \<Rightarrow>
          if outcome = ''rolled_back'' then
            run_then (send env \<lparr>hq_method = ''POST'', hq_url = url @ ''/v1/changes'', hq_params = [],
              hq_body = Some (JObj (dict [(''source'', JStr ''deploy-executor''), (''external_id'', JStr (xd_execution_id d)),
                (''kind'', JStr ''rollback''), (''service'', JStr (es_service svc)), (''version'', get after ''image'')]))\<rparr>) (\<lambda>_. pass ())
          else pass ()
      | _ \<Rightarrow> pass ())"

definition intent_kept :: "string \<Rightarrow> journal \<Rightarrow> bool" where
  "intent_kept binding jn = (case fmlookup (jn_records jn) binding of Some r \<Rightarrow> get r ''kind'' = JStr ''intent'' | None \<Rightarrow> False)"

text \<open>The definitive answer: a failure is kept only for a key its intent has bound.\<close>

definition report_outcome ::
  "'w exec_env \<Rightarrow> exec_draw \<Rightarrow> string \<Rightarrow> enrolled_service \<Rightarrow> dict \<Rightarrow> string \<Rightarrow> dict \<Rightarrow> exec_error + effect \<Rightarrow>
     ('w machine, op_response) action" where
  "report_outcome env d op svc payload binding base outcome mc =
     (case outcome of
        Inl e \<Rightarrow>
          if intent_kept binding (mc_journal mc)
          then run_then (append_record env (xd_result d) (result_record base (docker_error d e))) (\<lambda>_. pass (docker_error d e)) mc
          else (Inr (docker_error d e), mc)
      | Inr x \<Rightarrow>
          let response = \<lparr>or_status = 200, or_body = JObj (effect_body d op svc payload x)\<rparr>
          in run_then (append_record env (xd_result d) (result_record base response)) (\<lambda>_.
             run_then (record_change env d svc x) (\<lambda>_. pass response)) mc)"

definition run_operation ::
  "'w exec_env \<Rightarrow> exec_draw \<Rightarrow> string \<Rightarrow> enrolled_service \<Rightarrow> dict \<Rightarrow> string \<Rightarrow> string \<Rightarrow> ('w machine, op_response) action" where
  "run_operation env d op svc payload binding digest =
     (let base = base_record d op svc payload binding digest;
          intent = append_record env (xd_intent d) (intent_record d base)
      in run_then (rescue (run_then (perform env d op svc payload intent) (\<lambda>x. pass (Inr x)))
             (\<lambda>e. if answerable e then pass (Inl e) else fail e)) (report_outcome env d op svc payload binding base))"

section \<open>A request\<close>

text \<open>The stored answer of a bound key.\<close>

definition replayed_response :: "exec_draw \<Rightarrow> string \<Rightarrow> dict \<Rightarrow> exec_error + op_response" where
  "replayed_response d digest r =
     (if getd r ''payload_digest'' (JStr digest) \<noteq> JStr digest
      then Inr (error_response d 409 ''idempotency_conflict'' ''the key was used with another payload'' False)
      else and_then (field r ''kind'') (\<lambda>kind.
        if kind \<in> {JStr ''intent'', JStr ''truncated''}
        then Inr (error_response d 409 ''execution_unknown'' ''that attempt recorded no result'' False)
        else and_then (field r ''status'') (\<lambda>status. and_then (field r ''response'') (\<lambda>body.
          case status of JInt n \<Rightarrow>
            if n = 200 then (case body of JObj b \<Rightarrow> Inr \<lparr>or_status = n, or_body = JObj (fmupd ''replayed'' (JBool True) b)\<rparr>
              | _ \<Rightarrow> Inl (Escaped (TypeError ''argument after ** must be a mapping'')))
            else Inr \<lparr>or_status = n, or_body = body\<rparr>
          | _ \<Rightarrow> Inl (Escaped (TypeError ''status_code is not an integer''))))))"

definition bound_execution ::
  "'w exec_env \<Rightarrow> exec_draw \<Rightarrow> op_request \<Rightarrow> enrolled_service \<Rightarrow> dict \<Rightarrow> ('w machine, op_response) action" where
  "bound_execution env d q svc payload mc =
     (let digest = xv_sha256 env (xv_sorted_dumps env (JObj payload)); binding = binding_of env q
      in case fmlookup (jn_records (mc_journal mc)) binding of
           Some r \<Rightarrow> lift (replayed_response d digest r) mc
         | None \<Rightarrow> rescue (run_operation env d (oq_operation q) svc payload binding digest)
             (\<lambda>e. case e of
                JournalUnwritable message \<Rightarrow>
                  pass (error_response d 503 ''journal_unwritable'' (''the journal could not be written: '' @ message) False)
              | _ \<Rightarrow> fail e) mc)"

text \<open>What precedes the key's lock: the answer that refuses the request, or the service and the payload.\<close>

definition accept ::
  "'w exec_env \<Rightarrow> (string \<times> enrolled_service) list \<Rightarrow> exec_draw \<Rightarrow> op_request \<Rightarrow> journal \<Rightarrow>
     exec_error + op_response + enrolled_service \<times> dict" where
  "accept env services d q jn =
     (let refuse = (\<lambda>status code message. Inr (Inl (error_response d status code message False))); key = or_empty (oq_key q)
      in case xv_signing_key env of
           None \<Rightarrow> refuse 503 ''signing_key_unconfigured'' ''DEPLOY_EXECUTOR_SIGNING_KEY is unset or a placeholder''
         | Some secret \<Rightarrow>
             and_then (escaping (verify_signature env secret (xd_now d) (oq_method q) (oq_path q) key (oq_body q)
               (or_empty (oq_timestamp q)) (or_empty (oq_signature q)))) (\<lambda>rejection.
             case rejection of Some code \<Rightarrow> refuse 401 code (signature_message code)
             | None \<Rightarrow>
             case jn_problem jn of Some (code, reason) \<Rightarrow> refuse 503 code reason
             | None \<Rightarrow>
             case map_of OPERATIONS (oq_operation q) of None \<Rightarrow> refuse 404 ''operation_not_enrolled'' ''not an operation''
             | Some names \<Rightarrow>
             if \<not> idempotency_key_ok key then refuse 400 ''invalid_idempotency_key'' ''Idempotency-Key must be 16-128 ASCII''
             else case xv_loads env (oq_body q) of
               None \<Rightarrow> refuse 422 ''contract_validation_failed'' ''the body must be a JSON object''
             | Some body \<Rightarrow>
             case read_input names body of None \<Rightarrow> refuse 422 ''contract_validation_failed'' ''invalid body''
             | Some payload \<Rightarrow>
             case map_of services (text_at payload ''service'') of None \<Rightarrow> refuse 404 ''service_not_enrolled'' ''the service is not enrolled''
             | Some svc \<Rightarrow>
             if oq_operation q \<notin> set (es_operations svc)
             then refuse 404 ''operation_not_enrolled'' ''the service does not offer the operation''
             else Inr (Inr (svc, payload))))"

definition execute_operation ::
  "'w exec_env \<Rightarrow> (string \<times> enrolled_service) list \<Rightarrow> exec_draw \<Rightarrow> op_request \<Rightarrow> ('w machine, op_response) action" where
  "execute_operation env services d q mc =
     (case accept env services d q (mc_journal mc) of
        Inl e \<Rightarrow> (Inl e, mc)
      | Inr (Inl refusal) \<Rightarrow> (Inr refusal, mc)
      | Inr (Inr (svc, payload)) \<Rightarrow> bound_execution env d q svc payload mc)"

section \<open>Start and reads\<close>

definition start_executor :: "'w exec_env \<Rightarrow> start_faults \<Rightarrow> string \<Rightarrow> string \<Rightarrow> 'w \<Rightarrow> 'w machine" where
  "start_executor env faults now raw w =
     \<lparr>mc_world = w, mc_journal = open_journal env faults now raw, mc_own_project = None, mc_seen = []\<rparr>"

definition unavailable :: "string \<Rightarrow> op_response" where
  "unavailable dependency = \<lparr>or_status = 503, or_body = JObj (dict [(''status'', JStr ''unavailable''), (''dependency'', JStr dependency)])\<rparr>"

definition ready :: "'w exec_env \<Rightarrow> (string \<times> enrolled_service) list \<Rightarrow> ('w machine, op_response) action" where
  "ready env services mc =
     (let uses_docker = list_ex (\<lambda>(_, svc). set (es_operations svc) \<inter> set DOCKER_OPERATIONS \<noteq> {}) services;
          uses_flags = list_ex (\<lambda>(_, svc). es_flags svc \<noteq> fmempty) services;
          docker_check = (if uses_docker then ping env else pass ());
          flags_check = (if uses_flags then run_then (current_variants env (case xv_flags env of None \<Rightarrow> (None, None) | Some cfg \<Rightarrow> cfg)) (\<lambda>_. pass ())
            else pass ());
          names = (if uses_docker \<and> uses_flags then ''docker,flags'' else if uses_docker then ''docker'' else if uses_flags then ''flags'' else ''none'')
      in if xv_signing_key env = None then (Inr (unavailable ''signing_key''), mc)
         else case jn_problem (mc_journal mc) of
           Some (_, reason) \<Rightarrow> (Inr \<lparr>or_status = 503, or_body = JObj (dict [(''status'', JStr ''unavailable''), (''dependency'', JStr ''journal''),
             (''reason'', JStr reason)])\<rparr>, mc)
         | None \<Rightarrow>
             (case docker_check mc of
                (Inl _, mc') \<Rightarrow> (Inr (unavailable ''docker''), mc')
              | (Inr (), mc') \<Rightarrow> (case flags_check mc' of
                   (Inl _, mc'') \<Rightarrow> (Inr (unavailable ''flags''), mc'')
                 | (Inr (), mc'') \<Rightarrow> (Inr \<lparr>or_status = 200, or_body = JObj (dict [(''status'', JStr ''ok''), (''dependency'', JStr names)])\<rparr>, mc''))))"

definition read_executor_catalog :: "(string \<times> enrolled_service) list \<Rightarrow> dict" where
  "read_executor_catalog services = dict [(''contract_version'', JStr ''1.0.0''),
     (''services'', JList (map (\<lambda>(_, svc). JObj (describe_service svc)) services))]"

definition read_executions :: "journal \<Rightarrow> dict" where
  "read_executions jn = dict [(''executions'', JList (map JObj (jn_results jn)))]"

definition with_variants :: "(string, string) fmap \<Rightarrow> dict \<Rightarrow> json" where
  "with_variants current flags = JObj (fmmap_keys (\<lambda>name offer. JObj (fmupd ''variant'' (jopt (fmlookup current name)) (obj offer))) flags)"

definition read_service ::
  "'w exec_env \<Rightarrow> (string \<times> enrolled_service) list \<Rightarrow> exec_draw \<Rightarrow> string \<Rightarrow> ('w machine, op_response) action" where
  "read_service env services d name =
     (let answered = (\<lambda>view. \<lparr>or_status = 200, or_body = JObj view\<rparr>);
          errors = (\<lambda>e. if answerable e then pass (docker_error d e) else fail e)
      in case map_of services name of
           None \<Rightarrow> pass (error_response d 404 ''service_not_enrolled'' ''the service is not enrolled'' False)
         | Some svc \<Rightarrow>
             if set (es_operations svc) \<inter> set DOCKER_OPERATIONS = {} then
               rescue (run_then (current_variants env (case xv_flags env of None \<Rightarrow> (None, None) | Some cfg \<Rightarrow> cfg)) (\<lambda>current.
                   lift (and_then (field (describe_service svc) ''flags'') (\<lambda>flags.
                     Inr (answered (describe_service svc ++\<^sub>f dict [(''container'', JNull), (''available_tags'', JList []),
                       (''flags'', with_variants current (obj flags))])))))) (\<lambda>e. case e of ExecutionError _ _ _ _ \<Rightarrow> errors e | _ \<Rightarrow> fail e)
             else run_then (rescue (run_then (find_container env svc) (\<lambda>d. run_then (available_tags env svc) (\<lambda>tags. pass (Inr (d, tags)))))
                   (\<lambda>e. if answerable e then pass (Inl e) else fail e)) (\<lambda>found.
                 case found of Inl e \<Rightarrow> pass (docker_error d e)
                 | Inr (seen, tags) \<Rightarrow> run_then (lift (container_view env seen)) (\<lambda>view.
                     pass (answered (describe_service svc ++\<^sub>f dict [(''container'', JObj view), (''available_tags'', JList (map JStr tags))])))))"

end
