(* ===== verification/DeploymentLaws.thy ===== *)
theory DeploymentLaws
  imports Deployments
begin

text \<open>
  What the actions of the deploy executor do to the outside. \<open>looks\<close>: an action only asks; \<open>acts\<close>: it
  sends requests but does not write; \<open>guarded\<close>: it asks, records the intent, and acts only when the
  intent is recorded. The operations are guarded by the intent they are given, and so the request that
  ran them is.
\<close>

section \<open>Observations\<close>

definition asks :: "observation \<Rightarrow> bool" where
  "asks x = (case x of Sent q _ \<Rightarrow> hq_method q = ''GET'' | Wrote _ \<Rightarrow> False)"

definition mutates :: "observation \<Rightarrow> bool" where
  "mutates x = (case x of Sent q _ \<Rightarrow> hq_method q \<noteq> ''GET'' | Wrote _ \<Rightarrow> False)"

definition sends :: "observation \<Rightarrow> bool" where
  "sends x = (case x of Sent _ _ \<Rightarrow> True | Wrote _ \<Rightarrow> False)"

lemma asks_facts: "asks x \<Longrightarrow> sends x" "asks x \<Longrightarrow> \<not> mutates x" "mutates x \<Longrightarrow> sends x" "\<not> sends (Wrote b)" "\<not> mutates (Wrote b)"
  by (auto simp: asks_def sends_def mutates_def split: observation.splits)

text \<open>A stretch of a run: what was seen, and the journal left alone.\<close>

definition stretch :: "(observation \<Rightarrow> bool) \<Rightarrow> 'w machine \<Rightarrow> 'w machine \<Rightarrow> bool" where
  "stretch p mc mc' = (mc_journal mc' = mc_journal mc \<and> (\<exists>l. mc_seen mc' = mc_seen mc @ l \<and> list_all p l))"

lemma stretch_refl [intro, simp]: "stretch p mc mc"
  by (auto simp: stretch_def)

lemma stretch_trans: "stretch p mc mc' \<Longrightarrow> stretch p mc' mc'' \<Longrightarrow> stretch p mc mc''"
  by (auto simp: stretch_def)

lemma stretch_mono: "stretch p mc mc' \<Longrightarrow> (\<And>x. p x \<Longrightarrow> q x) \<Longrightarrow> stretch q mc mc'"
  by (auto simp: stretch_def list_all_iff)

definition does :: "(observation \<Rightarrow> bool) \<Rightarrow> ('w machine, 'a) action \<Rightarrow> bool" where
  "does p m = (\<forall>mc r mc'. m mc = (r, mc') \<longrightarrow> stretch p mc mc')"

abbreviation looks :: "('w machine, 'a) action \<Rightarrow> bool" where
  "looks \<equiv> does asks"

abbreviation acts :: "('w machine, 'a) action \<Rightarrow> bool" where
  "acts \<equiv> does sends"

named_theorems does_intros \<open>what an action does, by its parts\<close>

lemma does_pure [does_intros]: "does p (pass x)" "does p (fail e)" "does p (lift r)"
  by (auto simp: does_def pass_def fail_def lift_def)

lemma does_run_then [does_intros]: "does p m \<Longrightarrow> (\<And>x. does p (f x)) \<Longrightarrow> does p (run_then m f)"
  unfolding does_def by (blast elim: run_then_cases intro: stretch_trans)

lemma does_rescue [does_intros]: "does p m \<Longrightarrow> (\<And>e. does p (h e)) \<Longrightarrow> does p (rescue m h)"
  unfolding does_def by (blast elim: rescue_cases intro: stretch_trans)

lemma does_send: "(\<And>a. p (Sent q a)) \<Longrightarrow> does p (send env q)"
  by (auto simp: does_def send_def stretch_def split: prod.splits)

lemma looks_acts: "looks m \<Longrightarrow> acts m"
  unfolding does_def using stretch_mono asks_facts(1) by blast

lemma looks_send: "hq_method q = ''GET'' \<Longrightarrow> looks (send env q)"
  by (rule does_send) (simp add: asks_def)

lemma acts_send [does_intros]: "acts (send env q)"
  by (rule does_send) (simp add: sends_def)

lemma does_cases [does_intros]:
  "(\<And>x. does p (f x)) \<Longrightarrow> does p g \<Longrightarrow> does p (case v of None \<Rightarrow> g | Some x \<Rightarrow> f x)"
  "does p m \<Longrightarrow> does p n \<Longrightarrow> does p (if b then m else n)"
  "(\<And>x y. does p (h x y)) \<Longrightarrow> does p (case xy of (x, y) \<Rightarrow> h x y)"
  by (auto split: option.splits prod.splits)

lemma does_answer [does_intros]:
  "does p a \<Longrightarrow> does p b \<Longrightarrow> (\<And>n j d. does p (c n j d)) \<Longrightarrow>
     does p (case x of TimedOut \<Rightarrow> a | Unreachable \<Rightarrow> b | Answered n j d \<Rightarrow> c n j d)"
  by (auto split: http_answer.splits)

section \<open>Calls\<close>

lemma docker_call_looks: "looks (docker_call env ''GET'' path params body expected)"
  unfolding docker_call_def by (intro does_intros looks_send) simp

lemma docker_call_acts: "acts (docker_call env method path params body expected)"
  unfolding docker_call_def by (intro does_intros)

lemma docker_do_acts: "acts (docker_do env method path params expected)"
  unfolding docker_do_def by (intro does_intros docker_call_acts)

lemmas calls_looks = docker_call_looks

lemma container_calls [does_intros]:
  "acts (create_container env name body)" "acts (start_container env cid)" "acts (stop_container env cid)" "acts (restart_container env cid)"
  "acts (rename_container env cid name)" "acts (remove_container env cid)"
  unfolding create_container_def start_container_def stop_container_def restart_container_def rename_container_def remove_container_def
  by (intro does_intros docker_call_acts docker_do_acts)+

lemma reading_calls [does_intros]:
  "looks (list_containers env labels)" "looks (inspect_container env cid)" "looks (inspect_image env reference)" "looks (list_image_tags env repository)"
  unfolding list_containers_def inspect_container_def inspect_image_def list_image_tags_def Let_def
  by (intro does_intros docker_call_looks)+

lemma own_project_looks [does_intros]: "looks (own_project env)"
proof -
  have "looks (\<lambda>mc. (Inr p, mc\<lparr>mc_own_project := Some p\<rparr>))" for p
    by (auto simp: does_def stretch_def)
  then have "looks (run_then (inspect_container env cid) (\<lambda>own. run_then (lift (g own)) (\<lambda>p mc'. (Inr p, mc'\<lparr>mc_own_project := Some p\<rparr>))))" for cid and g :: "dict \<Rightarrow> exec_error + string"
    by (intro does_intros)
  then show ?thesis
    unfolding does_def own_project_def by (auto split: option.splits if_splits)
qed

lemma does_list_cases [does_intros]:
  "does p a \<Longrightarrow> (\<And>x. does p (b x)) \<Longrightarrow> (\<And>x y ys. does p (c x y ys)) \<Longrightarrow>
     does p (case xs of [] \<Rightarrow> a | [x] \<Rightarrow> b x | x # y # ys \<Rightarrow> c x y ys)"
  by (auto split: list.splits)

lemma find_container_looks [does_intros]: "looks (find_container env svc)"
  unfolding find_container_def by (intro does_intros)

lemma settled_looks [does_intros]: "looks (settled_container (env :: 'w exec_env) cid waits k now)"
proof -
  have m: "looks (run_then (inspect_container env cid) (\<lambda>d. run_then (lift (settling_of d)) (\<lambda>s. pass (d, s))))" for env :: "'w exec_env" and cid
    by (intro does_intros)
  have "settled_container env cid waits k now mc = (r, mc') \<Longrightarrow> stretch asks mc mc'" for mc r mc'
  proof (induction env cid waits k now mc arbitrary: r mc' rule: settled_container.induct)
    case (1 env cid waits k now mc)
    let ?m = "run_then (inspect_container env cid) (\<lambda>d. run_then (lift (settling_of d)) (\<lambda>s. pass (d, s)))"
    obtain r1 mc1 where run: "?m mc = (r1, mc1)" by (cases "?m mc")
    have here: "stretch asks mc mc1" using m [of env cid, unfolded does_def] run by blast
    show ?case
    proof (cases r1)
      case (Inl e)
      then show ?thesis using "1.prems" here by (subst (asm) settled_container.simps) (simp add: run)
    next
      case (Inr x)
      obtain d s status health where x: "x = (d, s, status, health)" by (cases x)
      show ?thesis
      proof (cases "s = Up \<or> s = Down \<or> xv_settle env < now")
        case True
        then show ?thesis using "1.prems" here by (subst (asm) settled_container.simps) (auto simp: run Inr x split: if_splits)
      next
        case False
        then have "settled_container env cid waits (Suc k) (now + 500 + int (waits (Suc k))) mc1 = (r, mc')"
          using "1.prems" by (subst (asm) settled_container.simps) (simp add: run Inr x)
        then have "stretch asks mc1 mc'"
          using False by (intro "1.IH" [OF run [symmetric] Inr, of d _ s _ status health]) (simp_all add: x)
        then show ?thesis using here by (rule stretch_trans [rotated])
      qed
    qed
  qed
  then show ?thesis by (simp add: does_def)
qed

lemma flag_call_looks: "looks (flag_call env cfg ''GET'' path body)"
  unfolding flag_call_def by (intro does_intros looks_send) simp

lemma flag_call_acts [does_intros]: "acts (flag_call env cfg method path body)"
  unfolding flag_call_def by (intro does_intros)

lemma current_variants_looks [does_intros]: "looks (current_variants env cfg)"
  unfolding current_variants_def by (intro does_intros flag_call_looks)

lemma target_image_looks [does_intros]: "looks (target_image env target)"
  unfolding target_image_def by (intro does_intros)

section \<open>The intent comes first\<close>

text \<open>Up to the intent the action looks; once the intent is recorded it acts.\<close>

definition guarded :: "('a \<Rightarrow> bool) \<Rightarrow> ('w machine, unit) action \<Rightarrow> ('w machine, 'a) action \<Rightarrow> bool" where
  "guarded p intent m = (\<forall>mc r mc'. m mc = (r, mc') \<longrightarrow>
     stretch asks mc mc' \<and> (\<forall>x. r = Inr x \<longrightarrow> p x) \<or>
     (\<exists>mc1. stretch asks mc mc1 \<and>
        ((\<exists>e. intent mc1 = (Inl e, mc') \<and> r = Inl e) \<or>
         (\<exists>mc2. intent mc1 = (Inr (), mc2) \<and> stretch sends mc2 mc'))))"

text \<open>What an action that returns can return.\<close>

definition yields :: "('a \<Rightarrow> bool) \<Rightarrow> ('s, 'a) action \<Rightarrow> bool" where
  "yields p m = (\<forall>s x s'. m s = (Inr x, s') \<longrightarrow> p x)"

lemma yields_intros: "p x \<Longrightarrow> yields p (pass x)" "yields p (fail e)" "(\<And>x. yields p (f x)) \<Longrightarrow> yields p (run_then m f)"
  by (auto simp: yields_def pass_def fail_def run_then_Inr)

named_theorems guarded_intros \<open>what an intent guards, by its parts\<close>

lemma guarded_looks: "looks m \<Longrightarrow> yields p m \<Longrightarrow> guarded p intent m"
  unfolding does_def guarded_def yields_def by blast

lemma guarded_intent [guarded_intros]: "acts (f ()) \<Longrightarrow> guarded p intent (run_then intent f)"
  unfolding guarded_def does_def by (intro allI impI, elim run_then_cases) (fastforce intro: stretch_refl)+

lemma guarded_run_then [guarded_intros]:
  assumes "looks m" and "\<And>x. guarded p intent (f x)"
  shows "guarded p intent (run_then m f)"
  unfolding guarded_def
proof (intro allI impI)
  fix mc r mc' assume "run_then m f mc = (r, mc')"
  then show "stretch asks mc mc' \<and> (\<forall>x. r = Inr x \<longrightarrow> p x) \<or> (\<exists>mc1. stretch asks mc mc1 \<and>
        ((\<exists>e. intent mc1 = (Inl e, mc') \<and> r = Inl e) \<or> (\<exists>mc2. intent mc1 = (Inr (), mc2) \<and> stretch sends mc2 mc')))"
  proof (cases rule: run_then_cases)
    case (raised e)
    then show ?thesis using assms(1) by (auto simp: does_def)
  next
    case (went_on x mc0)
    then have "stretch asks mc mc0" using assms(1) by (auto simp: does_def)
    then show ?thesis using assms(2) [of x, unfolded guarded_def, rule_format, OF went_on(2)] by (blast intro: stretch_trans)
  qed
qed

lemma guarded_cases [guarded_intros]:
  "(\<And>x. guarded p i (f x)) \<Longrightarrow> guarded p i g \<Longrightarrow> guarded p i (case v of None \<Rightarrow> g | Some x \<Rightarrow> f x)"
  "guarded p i m \<Longrightarrow> guarded p i n \<Longrightarrow> guarded p i (if b then m else n)"
  by (auto split: option.splits)

text \<open>An effect that was not one: the outcome of a request that left the intent out.\<close>

definition no_effect :: "effect \<Rightarrow> bool" where
  "no_effect x = (fst x = ''already_at_target'')"

lemma recover_acts [does_intros]: "acts (recover_container env old_id new_id name)"
  unfolding recover_container_def best_effort_def by (intro does_intros)

lemma swap_acts [does_intros]: "acts (swap_containers env old_id new_id name waits)"
  unfolding swap_containers_def replace_container_def by (intro does_intros looks_acts [OF settled_looks])

lemma restart_guarded: "guarded no_effect intent (restart_operation env svc waits intent)"
  unfolding restart_operation_def Let_def
  by (intro guarded_run_then find_container_looks guarded_intent does_intros looks_acts [OF settled_looks])

lemma rollback_guarded: "guarded no_effect intent (rollback_operation env svc tag eid waits intent)"
  unfolding rollback_operation_def Let_def
  by (intro guarded_run_then guarded_cases guarded_intent find_container_looks does_intros guarded_looks yields_intros) (simp add: no_effect_def)

lemma set_flag_guarded: "guarded no_effect intent (set_flag env cfg svc flag variant intent)"
  unfolding set_flag_def
  by (intro guarded_run_then guarded_cases guarded_intent does_intros guarded_looks yields_intros) (simp add: no_effect_def)

lemma perform_guarded: "guarded no_effect intent (perform env d op svc payload intent)"
  unfolding perform_def
  by (intro guarded_cases rollback_guarded set_flag_guarded restart_guarded guarded_looks does_intros yields_intros)

section \<open>What a request writes\<close>

definition appended :: "observation list \<Rightarrow> string" where
  "appended l = concat (map (\<lambda>x. case x of Wrote b \<Rightarrow> b | Sent _ _ \<Rightarrow> []) l)"

definition line_of :: "'w exec_env \<Rightarrow> dict \<Rightarrow> string" where
  "line_of env d = xv_compact env (JObj d) @ newline"

definition whole :: "'w exec_env \<Rightarrow> observation \<Rightarrow> bool" where
  "whole env x = (case x of Wrote b \<Rightarrow> \<exists>d. b = line_of env d | Sent _ _ \<Rightarrow> True)"

text \<open>The file grows by the lines seen, the journal keeps what it has indexed.\<close>

definition grows :: "'w exec_env \<Rightarrow> 'w machine \<Rightarrow> observation list \<Rightarrow> 'w machine \<Rightarrow> bool" where
  "grows env mc l mc' =
     (mc_seen mc' = mc_seen mc @ l \<and> jn_file (mc_journal mc') = jn_file (mc_journal mc) @ appended l \<and> list_all (whole env) l \<and>
      fmdom' (jn_records (mc_journal mc)) \<subseteq> fmdom' (jn_records (mc_journal mc')) \<and>
      jn_problem (mc_journal mc') = jn_problem (mc_journal mc))"

lemma appended_simps [simp]:
  "appended [] = []" "appended (l @ l') = appended l @ appended l'" "appended (Wrote b # l) = b @ appended l" "appended (Sent q a # l) = appended l"
  by (simp_all add: appended_def)

lemma grows_refl [simp]: "grows env mc [] mc"
  by (simp add: grows_def)

lemma grows_trans: "grows env mc l mc1 \<Longrightarrow> grows env mc1 l' mc2 \<Longrightarrow> grows env mc (l @ l') mc2"
  by (auto simp: grows_def)

lemma appended_sends: "list_all sends l \<Longrightarrow> appended l = []"
  by (induction l) (auto simp: sends_def split: observation.splits)

lemma grows_stretch:
  assumes "stretch p mc mc'" and "\<And>x. p x \<Longrightarrow> sends x"
  obtains l where "grows env mc l mc'" "list_all p l"
proof -
  from assms(1) obtain l where l: "mc_seen mc' = mc_seen mc @ l" "list_all p l" "mc_journal mc' = mc_journal mc"
    by (auto simp: stretch_def)
  then have "list_all sends l" using assms(2) by (auto simp: list_all_iff)
  then have "grows env mc l mc'"
    using l by (auto simp: grows_def appended_sends list_all_iff whole_def sends_def split: observation.splits)
  then show thesis using that l(2) by blast
qed

lemma keyed_Inr: "keyed b d jn = Inr jn' \<Longrightarrow> jn_file jn' = jn_file jn \<and> jn_problem jn' = jn_problem jn \<and>
    fmdom' (jn_records jn) \<subseteq> fmdom' (jn_records jn') \<and> (\<forall>s. b = JStr s \<longrightarrow> s \<in> fmdom' (jn_records jn'))"
  by (auto simp: keyed_def split: json.splits)

lemma keyed_JStr: "keyed (JStr s) d jn = Inr (jn\<lparr>jn_records := fmupd s d (jn_records jn)\<rparr>)"
  by (simp add: keyed_def)

lemma index_record_keeps:
  assumes "index_record j jn = (r, jn')"
  shows "jn_file jn' = jn_file jn" "jn_problem jn' = jn_problem jn" "fmdom' (jn_records jn) \<subseteq> fmdom' (jn_records jn')"
  using assms
  by (auto simp: index_record_def and_then_Inr_iff split: json.splits sum.splits if_splits option.splits dest!: keyed_Inr)

lemma index_record_binds:
  assumes "index_record (JObj d) jn = (Inr (), jn')" and "get d ''binding'' = JStr b"
  shows "b \<in> fmdom' (jn_records jn')"
proof -
  have look: "fmlookup d ''binding'' = Some (JStr b)"
    using assms(2) by (auto simp: get_def getd_def split: option.splits)
  then show ?thesis
    using assms(1) by (auto simp: index_record_def item_def keyed_JStr split: sum.splits if_splits option.splits json.splits)
qed

text \<open>The journal's file system keeps nothing of a line it refuses.\<close>

definition clean_fault :: "write_fault \<Rightarrow> bool" where
  "clean_fault f = (case f of Left _ _ \<Rightarrow> False | _ \<Rightarrow> True)"

definition clean_draw :: "exec_draw \<Rightarrow> bool" where
  "clean_draw d = (clean_fault (xd_intent d) \<and> clean_fault (xd_result d))"

lemma append_record_cases:
  assumes "append_record env fault d mc = (r, mc')" and "clean_fault fault"
  obtains (refused) message where "r = Inl (JournalUnwritable message)" "mc' = mc"
  | (written) "grows env mc [Wrote (line_of env d)] mc'"
      "\<And>b. r = Inr () \<Longrightarrow> get d ''binding'' = JStr b \<Longrightarrow> b \<in> fmdom' (jn_records (mc_journal mc'))"
proof (cases fault)
  case Stored
  obtain r' jn' where i: "index_record (JObj d) (mc_journal mc) = (r', jn')" by (cases "index_record (JObj d) (mc_journal mc)")
  define mc2 where "mc2 = mc\<lparr>mc_journal := jn'\<lparr>jn_file := jn_file jn' @ line_of env d\<rparr>, mc_seen := mc_seen mc @ [Wrote (line_of env d)]\<rparr>"
  have "append_record env fault d mc = (case r' of Inl e \<Rightarrow> (Inl (Escaped e), mc2) | Inr u \<Rightarrow> (Inr (), mc2))"
    unfolding append_record_def Stored Let_def write_fault.case i prod.case line_of_def [symmetric] mc2_def by (cases r') simp_all
  then have eq: "mc' = mc2" and r: "r = Inr () \<Longrightarrow> r' = Inr ()"
    using assms(1) by (auto split: sum.splits)
  have index: "jn_file jn' = jn_file (mc_journal mc)" "jn_problem jn' = jn_problem (mc_journal mc)"
      "fmdom' (jn_records (mc_journal mc)) \<subseteq> fmdom' (jn_records jn')" using index_record_keeps [OF i] by auto
  have "grows env mc [Wrote (line_of env d)] mc'"
    using index by (auto simp: eq mc2_def grows_def whole_def)
  moreover have "b \<in> fmdom' (jn_records (mc_journal mc'))" if "r = Inr ()" "get d ''binding'' = JStr b" for b
    using index_record_binds [of d "mc_journal mc" jn' b] i r that by (simp add: eq mc2_def)
  ultimately show thesis by (rule written)
qed (use assms refused in \<open>auto simp: append_record_def clean_fault_def Let_def\<close>)

end
