(* ===== verification/Executions.thy ===== *)
theory Executions
  imports DeploymentLaws
begin

text \<open>
  The deploy executor over its life: requests one after the other, the process killed anywhere between two
  of their observations and started again on what the file then holds. A key's intent is on the file
  before the first change it causes, a start finds every intent the file holds, and so a key changes
  something in at most one of its requests.
\<close>

section \<open>What one request leaves\<close>

text \<open>
  The observations of a request, with the intent's line: what mutates comes after that line, and a
  recorded intent binds the key.
\<close>

definition intent_first :: "string \<Rightarrow> observation list \<Rightarrow> bool" where
  "intent_first line l = (list_ex mutates l \<longrightarrow> (\<exists>l1 l2. l = l1 @ Wrote line # l2 \<and> list_all asks l1))"

lemma list_all_asks_not_mutates: "list_all asks l \<Longrightarrow> \<not> list_ex mutates l"
  by (induction l) (auto dest: asks_facts(2))

lemma intent_first_asks [simp]: "list_all asks l \<Longrightarrow> intent_first line l"
  by (simp add: intent_first_def list_all_asks_not_mutates)

lemma intent_first_after: "list_all asks l1 \<Longrightarrow> intent_first line (l1 @ Wrote line # l2)"
  by (auto simp: intent_first_def)

lemma intent_first_wrote: "list_all asks l \<Longrightarrow> intent_first line (l @ [Wrote b])"
  using list_all_asks_not_mutates [of l] by (simp add: intent_first_def asks_facts(5))

text \<open>A cut of the observations has the intent as soon as it has a change.\<close>

lemma intent_first_cut:
  assumes "intent_first line (l @ l3)" and "list_ex mutates l"
  shows "Wrote line \<in> set l"
proof -
  obtain l1 l2 where l: "l @ l3 = l1 @ Wrote line # l2" and asks: "list_all asks l1"
    using assms by (auto simp: intent_first_def)
  have "length l1 < length l"
  proof (rule ccontr)
    assume "\<not> length l1 < length l"
    then have "l = take (length l) l1" using arg_cong [OF l, of "take (length l)"] by simp
    then have "list_all asks l" using asks by (metis append_take_drop_id list_all_append)
    then show False using assms(2) list_all_asks_not_mutates by blast
  qed
  then have "l ! length l1 = Wrote line" using arg_cong [OF l, of "\<lambda>x. x ! length l1"] by (simp add: nth_append)
  then show ?thesis using \<open>length l1 < length l\<close> nth_mem by metis
qed

definition request_shape :: "'w exec_env \<Rightarrow> string \<Rightarrow> dict \<Rightarrow> 'w machine \<Rightarrow> 'w machine \<Rightarrow> bool" where
  "request_shape env b d mc mc' = (\<exists>l. grows env mc l mc' \<and> intent_first (line_of env d) l \<and>
     (list_ex mutates l \<longrightarrow> b \<in> fmdom' (jn_records (mc_journal mc'))))"

lemma record_change_acts: "acts (record_change env d svc x)"
  unfolding record_change_def by (auto split: prod.splits option.splits intro!: does_intros)

lemma record_change_idle: "fst x = ''already_at_target'' \<Longrightarrow> record_change env d svc x mc = (Inr (), mc)"
  by (auto simp: record_change_def pass_def split: prod.splits option.splits)

lemma intent_record_binding: "get (intent_record d (base_record d op svc payload b digest)) ''binding'' = JStr b"
  by (simp add: intent_record_def base_record_def)

lemma report_outcome_grows:
  assumes "report_outcome env d op svc payload b base outcome mc = (r, mc')" and "clean_draw d"
  obtains l where "grows env mc l mc'" "\<And>x. outcome = Inr x \<Longrightarrow> no_effect x \<Longrightarrow> l = [] \<or> (\<exists>c. l = [Wrote c])"
    "\<And>e. outcome = Inl e \<Longrightarrow> l = [] \<or> (\<exists>c. l = [Wrote c])"
proof -
  have clean: "clean_fault (xd_result d)" using assms(2) by (simp add: clean_draw_def)
  have append: "\<exists>l. grows env mc l mc1 \<and> (l = [] \<or> (\<exists>c. l = [Wrote c]))"
    if "append_record env (xd_result d) rec mc = (r1, mc1)" for rec r1 mc1
    using that by (cases rule: append_record_cases [OF that clean]) (blast intro: grows_refl)+
  show thesis
  proof (cases outcome)
    case (Inl e)
    have "\<exists>l. grows env mc l mc' \<and> (l = [] \<or> (\<exists>c. l = [Wrote c]))"
    proof (cases "intent_kept b (mc_journal mc)")
      case True
      then have "run_then (append_record env (xd_result d) (result_record base (docker_error d e))) (\<lambda>_. pass (docker_error d e)) mc = (r, mc')"
        using assms(1) by (simp add: report_outcome_def Inl)
      then show ?thesis by (cases rule: run_then_cases) (auto simp: pass_def dest: append)
    next
      case False
      then show ?thesis using assms(1) by (auto simp: report_outcome_def Inl intro: exI [of _ "[]"])
    qed
    then show thesis using that Inl by auto
  next
    case (Inr x)
    let ?resp = "\<lparr>or_status = 200, or_body = JObj (effect_body d op svc payload x)\<rparr>"
    have "run_then (append_record env (xd_result d) (result_record base ?resp)) (\<lambda>_.
             run_then (record_change env d svc x) (\<lambda>_. pass ?resp)) mc = (r, mc')"
      using assms(1) by (simp add: report_outcome_def Inr Let_def)
    then show thesis
    proof (cases rule: run_then_cases)
      case (raised e)
      then show thesis using append that Inr by (metis Inl_Inr_False)
    next
      case (went_on u mc1)
      obtain l1 where l1: "grows env mc l1 mc1" "l1 = [] \<or> (\<exists>c. l1 = [Wrote c])" using append [OF went_on(1)] by blast
      have "acts (run_then (record_change env d svc x) (\<lambda>_. pass ?resp))" by (intro does_intros record_change_acts)
      then have "stretch sends mc1 mc'" using went_on(2) by (auto simp: does_def)
      then obtain l2 where l2: "grows env mc1 l2 mc'" "list_all sends l2" by (rule grows_stretch) auto
      show thesis
      proof (cases "no_effect x")
        case True
        then have "mc' = mc1" using went_on(2) by (simp add: run_then_def record_change_idle no_effect_def pass_def)
        then show thesis using that [of l1] l1 by (simp add: Inr)
      next
        case False
        then show thesis using that [of "l1 @ l2"] grows_trans [OF l1(1) l2(1)] by (simp add: Inr)
      qed
    qed
  qed
qed

lemma run_operation_shape:
  assumes "run_operation env d op svc payload b digest mc = (r, mc')" and "clean_draw d"
  shows "request_shape env b (intent_record d (base_record d op svc payload b digest)) mc mc'"
proof -
  let ?base = "base_record d op svc payload b digest"
  let ?i = "intent_record d ?base"
  let ?intent = "append_record env (xd_intent d) ?i"
  obtain pr mc1 where p: "perform env d op svc payload ?intent mc = (pr, mc1)" by (cases "perform env d op svc payload ?intent mc")
  have last: "(\<exists>e. pr = Inl e \<and> \<not> answerable e \<and> mc' = mc1) \<or> report_outcome env d op svc payload b ?base pr mc1 = (r, mc')"
    using assms(1) p
    by (cases pr) (auto simp: run_operation_def Let_def run_then_def rescue_def pass_def fail_def split: if_splits)
  have tail: "\<exists>l. grows env mc1 l mc' \<and> ((\<forall>x. pr = Inr x \<longrightarrow> no_effect x) \<longrightarrow> l = [] \<or> (\<exists>c. l = [Wrote c]))"
    using last
  proof
    assume "report_outcome env d op svc payload b ?base pr mc1 = (r, mc')"
    from this assms(2) obtain l where "grows env mc1 l mc'" "\<And>x. pr = Inr x \<Longrightarrow> no_effect x \<Longrightarrow> l = [] \<or> (\<exists>c. l = [Wrote c])"
      "\<And>e. pr = Inl e \<Longrightarrow> l = [] \<or> (\<exists>c. l = [Wrote c])" by (rule report_outcome_grows) blast
    then show ?thesis by (cases pr) auto
  qed (auto intro: exI [of _ "[]"])
  have clean: "clean_fault (xd_intent d)" using assms(2) by (simp add: clean_draw_def)
  from perform_guarded [unfolded guarded_def, rule_format, OF p]
  consider (idle) "stretch asks mc mc1" "\<forall>x. pr = Inr x \<longrightarrow> no_effect x"
    | (refused) mc2 e where "stretch asks mc mc2" "?intent mc2 = (Inl e, mc1)" "pr = Inl e"
    | (acted) mc2 mc3 where "stretch asks mc mc2" "?intent mc2 = (Inr (), mc3)" "stretch sends mc3 mc1"
    by blast
  then show ?thesis
  proof cases
    case idle
    obtain l1 where l1: "grows env mc l1 mc1" "list_all asks l1" using idle(1) by (rule grows_stretch) (auto dest: asks_facts(1))
    obtain l2 where l2: "grows env mc1 l2 mc'" "l2 = [] \<or> (\<exists>c. l2 = [Wrote c])" using tail idle(2) by blast
    have "\<not> list_ex mutates (l1 @ l2)" using l2(2) list_all_asks_not_mutates [OF l1(2)] by (auto simp: asks_facts(5))
    then show ?thesis using grows_trans [OF l1(1) l2(1)] unfolding request_shape_def intent_first_def by blast
  next
    case refused
    obtain l1 where l1: "grows env mc l1 mc2" "list_all asks l1" using refused(1) by (rule grows_stretch) (auto dest: asks_facts(1))
    obtain l2 where l2: "grows env mc2 l2 mc1" "l2 = [] \<or> (\<exists>c. l2 = [Wrote c])"
      using refused(2) by (cases rule: append_record_cases [OF refused(2) clean]) (auto intro: that [of "[]"] that)
    obtain l3 where l3: "grows env mc1 l3 mc'" "l3 = [] \<or> (\<exists>c. l3 = [Wrote c])" using tail refused(3) by auto
    have "\<not> list_ex mutates (l1 @ l2 @ l3)" using l2(2) l3(2) list_all_asks_not_mutates [OF l1(2)] by (auto simp: asks_facts(5))
    then show ?thesis
      using grows_trans [OF l1(1) grows_trans [OF l2(1) l3(1)]] unfolding request_shape_def intent_first_def by blast
  next
    case acted
    obtain l1 where l1: "grows env mc l1 mc2" "list_all asks l1" using acted(1) by (rule grows_stretch) (auto dest: asks_facts(1))
    have l2: "grows env mc2 [Wrote (line_of env ?i)] mc3" and b: "b \<in> fmdom' (jn_records (mc_journal mc3))"
      using append_record_cases [OF acted(2) clean] intent_record_binding by (metis Inl_Inr_False)+
    obtain l3 where l3: "grows env mc3 l3 mc1" "list_all sends l3" using acted(3) by (rule grows_stretch) auto
    obtain l4 where l4: "grows env mc1 l4 mc'" using tail by blast
    have g: "grows env mc (l1 @ [Wrote (line_of env ?i)] @ l3 @ l4) mc'"
      by (rule grows_trans [OF l1(1) grows_trans [OF l2 grows_trans [OF l3(1) l4]]])
    have "b \<in> fmdom' (jn_records (mc_journal mc'))" using b l3(1) l4 by (auto simp: grows_def)
    then show ?thesis
      using g intent_first_after [OF l1(2), of "line_of env ?i" "l3 @ l4"] unfolding request_shape_def by auto
  qed
qed

text \<open>A request that leaves anything was accepted, and its key was free.\<close>

lemma execute_operation_shape:
  assumes "execute_operation env services d q mc = (r, mc')" and "clean_draw d"
  shows "mc' = mc \<or> (jn_problem (mc_journal mc) = None \<and> binding_of env q \<notin> fmdom' (jn_records (mc_journal mc)) \<and>
    (\<exists>i. get i ''kind'' = JStr ''intent'' \<and> get i ''binding'' = JStr (binding_of env q) \<and> request_shape env (binding_of env q) i mc mc'))"
proof (cases "accept env services d q (mc_journal mc)")
  case (Inl e)
  then show ?thesis using assms(1) by (simp add: execute_operation_def)
next
  case (Inr a)
  show ?thesis
  proof (cases a)
    case (Inl refusal)
    then show ?thesis using assms(1) Inr by (simp add: execute_operation_def)
  next
    case ok: (Inr sp)
    obtain svc payload where sp: "sp = (svc, payload)" by (cases sp)
    let ?digest = "xv_sha256 env (xv_sorted_dumps env (JObj payload))"
    have bound: "bound_execution env d q svc payload mc = (r, mc')"
      using assms(1) Inr ok sp by (simp add: execute_operation_def)
    have problem: "jn_problem (mc_journal mc) = None"
      using Inr ok by (auto simp: accept_def Let_def and_then_Inr_iff split: option.splits prod.splits if_splits)
    show ?thesis
    proof (cases "fmlookup (jn_records (mc_journal mc)) (binding_of env q)")
      case (Some rec)
      then show ?thesis using bound by (simp add: bound_execution_def Let_def lift_def)
    next
      case None
      obtain r1 where "run_operation env d (oq_operation q) svc payload (binding_of env q) ?digest mc = (r1, mc')"
        using bound None by (auto simp: bound_execution_def Let_def pass_def fail_def split: exec_error.splits elim!: rescue_cases)
      from run_operation_shape [OF this assms(2)] show ?thesis
        using problem None intent_record_binding [of d "oq_operation q" svc payload "binding_of env q" ?digest]
        by (auto simp: fmdom'_notI intent_record_def base_record_def intro!: exI)
    qed
  qed
qed

end
