(* ===== verification/JournalFile.thy ===== *)
theory JournalFile
  imports Executions
begin

text \<open>
  The journal's file across starts. Its complete lines are what a start can count on: appending adds
  lines, a cut tail is replaced without touching the lines before it, and a start without a problem has
  indexed every intent among them.
\<close>

section \<open>Lines\<close>

definition complete_lines :: "string \<Rightarrow> string list" where
  "complete_lines f = butlast (split_bytes f)"

definition ended :: "string \<Rightarrow> bool" where
  "ended f = (last (split_bytes f) = [])"

lemma split_bytes_not_Nil [simp]: "split_bytes f \<noteq> []"
  by (induction f) (auto split: list.splits)

lemma split_bytes_append:
  "split_bytes (f @ g) = butlast (split_bytes f) @ (last (split_bytes f) @ hd (split_bytes g)) # tl (split_bytes g)"
proof (induction f)
  case (Cons c f)
  obtain l ls where f: "split_bytes f = l # ls" by (cases "split_bytes f") auto
  show ?case using Cons by (cases ls) (auto simp: f)
qed simp

lemma split_bytes_plain: "CHR 0x0A \<notin> set l \<Longrightarrow> split_bytes l = [l]"
  by (induction l) auto

lemma split_bytes_newline: "split_bytes newline = [[], []]"
  by (simp add: newline_def)

lemma split_bytes_line: "CHR 0x0A \<notin> set l \<Longrightarrow> split_bytes (l @ newline @ g) = l # split_bytes g"
  by (simp add: split_bytes_append [of l] split_bytes_plain newline_def)

lemma ended_append: "ended f \<Longrightarrow> split_bytes (f @ g) = complete_lines f @ split_bytes g"
  using list.collapse [OF split_bytes_not_Nil, of g] by (simp add: split_bytes_append ended_def complete_lines_def)

lemma ended_iff: "ended f \<longleftrightarrow> f = [] \<or> last f = CHR 0x0A"
proof (cases f rule: rev_exhaust)
  case (snoc g c)
  then show ?thesis by (simp add: ended_def split_bytes_append)
qed (simp add: ended_def)

lemma complete_lines_append: "set (complete_lines f) \<subseteq> set (complete_lines (f @ g))"
  by (auto simp: complete_lines_def split_bytes_append butlast_append)

lemma complete_lines_end: "ended f \<Longrightarrow> CHR 0x0A \<notin> set l \<Longrightarrow> complete_lines (f @ l @ newline) = complete_lines f @ [l] \<and> ended (f @ l @ newline)"
  using split_bytes_line [of l "[]"] by (simp add: ended_append complete_lines_def ended_def butlast_append)

lemma split_bytes_lines: "l \<in> set (split_bytes f) \<Longrightarrow> CHR 0x0A \<notin> set l"
proof (induction f arbitrary: l)
  case (Cons c f)
  then show ?case by (cases "split_bytes f") (auto split: if_splits)
qed simp

lemma split_bytes_concat: "concat (map (\<lambda>l. l @ newline) (complete_lines f)) @ last (split_bytes f) = f"
proof (induction f)
  case (Cons c f)
  obtain l ls where f: "split_bytes f = l # ls" by (cases "split_bytes f") auto
  show ?case using Cons by (cases ls) (auto simp: f complete_lines_def newline_def)
qed (simp add: complete_lines_def)

lemma ended_lines: "ended (concat (map (\<lambda>l. l @ newline) ls))"
  by (induction ls rule: rev_induct) (auto simp: ended_iff newline_def)

lemma complete_lineE:
  assumes "x \<in> set (complete_lines f)"
  obtains u v where "f = u @ x @ newline @ v" "ended u" "CHR 0x0A \<notin> set x"
proof -
  obtain pre post where ls: "complete_lines f = pre @ x # post" using assms by (auto dest: split_list)
  have "CHR 0x0A \<notin> set x" using assms split_bytes_lines [of x f] by (auto simp: complete_lines_def dest: in_set_butlastD)
  moreover have "f = concat (map (\<lambda>l. l @ newline) pre) @ x @ newline @ (concat (map (\<lambda>l. l @ newline) post) @ last (split_bytes f))"
    using split_bytes_concat [of f] by (simp add: ls)
  ultimately show thesis using that ended_lines by blast
qed

section \<open>Blank lines\<close>

lemma blank_lines_iff: "(\<forall>l\<in>set (split_bytes f). list_all byte_space l) \<longleftrightarrow> list_all byte_space f"
proof (induction f)
  case (Cons c f)
  obtain l ls where f: "split_bytes f = l # ls" by (cases "split_bytes f") auto
  then show ?case using Cons by (auto simp: byte_space_def)
qed simp

definition markless :: "string \<Rightarrow> bool" where
  "markless f = list_all byte_space f"

lemma nonblank_lines_Nil: "nonblank_lines f = [] \<longleftrightarrow> markless f"
proof -
  have "nonblank_lines f = [] \<longleftrightarrow> (\<forall>x\<in>set (enumerate 1 (split_bytes f)). list_all byte_space (snd x))"
    by (auto simp: nonblank_lines_def filter_empty_conv)
  also have "\<dots> \<longleftrightarrow> (\<forall>l\<in>set (split_bytes f). list_all byte_space l)"
    by (metis (no_types, lifting) imageE imageI list.set_map map_snd_enumerate)
  finally show ?thesis by (simp add: blank_lines_iff markless_def)
qed

lemma nonblank_lines_mem: "x \<in> set (complete_lines f) \<Longrightarrow> \<not> list_all byte_space x \<Longrightarrow> \<exists>n. (n, x) \<in> set (nonblank_lines f)"
proof -
  assume x: "x \<in> set (complete_lines f)" "\<not> list_all byte_space x"
  then have "x \<in> snd ` set (enumerate 1 (split_bytes f))"
    by (metis complete_lines_def in_set_butlastD list.set_map map_snd_enumerate)
  then show ?thesis using x(2) by (auto simp: nonblank_lines_def)
qed

lemma last_nonblank:
  assumes "f = u @ x @ newline @ v" and "ended u" and "CHR 0x0A \<notin> set x" and "list_all byte_space v" and "\<not> list_all byte_space x"
  shows "snd (last (nonblank_lines f)) = x"
proof -
  have s: "split_bytes f = complete_lines u @ x # split_bytes v"
    using assms(1,2) split_bytes_line [OF assms(3), of v] by (simp add: ended_append)
  have "filter (\<lambda>(_, line). \<not> list_all byte_space line) (enumerate n (split_bytes v)) = []" for n
    using assms(4) blank_lines_iff [of v] by (auto simp: filter_empty_conv in_set_enumerate_eq)
  then show ?thesis using assms(5) by (simp add: nonblank_lines_def s enumerate_append_eq)
qed

lemma dropWhile_found: "\<exists>c\<in>set p. \<not> P c \<Longrightarrow> dropWhile P (p @ q) = dropWhile P p @ q"
  by (induction p) auto

lemma dropWhile_reaches: "\<not> P c \<Longrightarrow> \<exists>w'. dropWhile P (w @ c # q) = w' @ c # q"
proof (induction w)
  case (Cons a w)
  then show ?case by (cases "P a") (auto intro: exI [of _ "a # w"])
qed (auto intro: exI [of _ "[]"])

lemma ended_before_last_line: "ended (before_last_line f)"
proof (cases "dropWhile (\<lambda>c. c \<noteq> CHR 0x0A) (dropWhile byte_space (rev f))")
  case (Cons c cs)
  then have "c = CHR 0x0A" using hd_dropWhile [of "\<lambda>c. c \<noteq> CHR 0x0A" "dropWhile byte_space (rev f)"] by simp
  then show ?thesis by (simp add: before_last_line_def Cons ended_iff)
qed (simp add: before_last_line_def ended_iff)

text \<open>Every complete line but the last one with a mark on it is before the last.\<close>

lemma before_last_line_keeps:
  assumes "x \<in> set (complete_lines f)" and "\<not> list_all byte_space x" and "snd (last (nonblank_lines f)) \<noteq> x"
  shows "x \<in> set (complete_lines (before_last_line f))"
proof -
  obtain u v where f: "f = u @ x @ newline @ v" and u: "ended u" and x: "CHR 0x0A \<notin> set x" by (rule complete_lineE [OF assms(1)])
  have "\<not> list_all byte_space v" using last_nonblank [OF f u x _ assms(2)] assms(3) by blast
  then have "dropWhile byte_space (rev f) = dropWhile byte_space (rev v) @ rev (u @ x @ newline)"
    using dropWhile_found [of "rev v" byte_space "rev (u @ x @ newline)"] by (auto simp: f list_all_iff)
  then obtain w where w: "dropWhile byte_space (rev f) = w @ CHR 0x0A # rev (u @ x)" by (simp add: newline_def)
  obtain w' where "dropWhile (\<lambda>c. c \<noteq> CHR 0x0A) (w @ CHR 0x0A # rev (u @ x)) = w' @ CHR 0x0A # rev (u @ x)"
    using dropWhile_reaches [of "\<lambda>c. c \<noteq> CHR 0x0A" "CHR 0x0A" w "rev (u @ x)"] that by blast
  then have "before_last_line f = u @ x @ newline @ rev w'" by (simp add: before_last_line_def w newline_def)
  then show ?thesis
    using complete_lines_end [OF u x] complete_lines_append [of "u @ x @ newline" "rev w'"] by auto
qed

section \<open>Reading at start\<close>

text \<open>
  Documented of \<^verbatim>\<open>json\<close>: an object's compact text is one line that starts with a brace and reads back;
  of what it reads back as, only the kind and the key are needed.
\<close>

definition codec :: "'w exec_env \<Rightarrow> bool" where
  "codec env = ((\<forall>d. CHR 0x0A \<notin> set (xv_compact env (JObj d)) \<and> (\<exists>t. xv_compact env (JObj d) = CHR ''{'' # t)) \<and>
     (\<forall>d k b. get d ''kind'' = JStr k \<longrightarrow> get d ''binding'' = JStr b \<longrightarrow>
       (\<exists>d'. xv_loads env (xv_compact env (JObj d)) = Some (JObj d') \<and> get d' ''kind'' = JStr k \<and> get d' ''binding'' = JStr b)))"

text \<open>The file holds an intent of the key.\<close>

definition holds :: "'w exec_env \<Rightarrow> string \<Rightarrow> string \<Rightarrow> bool" where
  "holds env b f = (\<exists>i. xv_compact env (JObj i) \<in> set (complete_lines f) \<and> get i ''kind'' = JStr ''intent'' \<and> get i ''binding'' = JStr b)"

lemma codecD:
  assumes "codec env"
  shows "CHR 0x0A \<notin> set (xv_compact env (JObj d))" "\<not> list_all byte_space (xv_compact env (JObj d))"
    "get d ''kind'' = JStr k \<Longrightarrow> get d ''binding'' = JStr b \<Longrightarrow>
       \<exists>d'. xv_loads env (xv_compact env (JObj d)) = Some (JObj d') \<and> get d' ''kind'' = JStr k \<and> get d' ''binding'' = JStr b"
proof -
  obtain t where t: "xv_compact env (JObj d) = CHR ''{'' # t" using assms unfolding codec_def by blast
  show "\<not> list_all byte_space (xv_compact env (JObj d))" by (simp add: t byte_space_def)
qed (use assms in \<open>auto simp: codec_def\<close>)

lemma holds_append: "holds env b f \<Longrightarrow> holds env b (f @ g)"
  using complete_lines_append [of f g] by (auto simp: holds_def)

lemma index_intent:
  "get i ''kind'' = JStr ''intent'' \<Longrightarrow> get i ''binding'' = JStr b \<Longrightarrow>
     index_record (JObj i) jn = (Inr (), jn\<lparr>jn_records := fmupd b i (jn_records jn)\<rparr>)"
  by (auto simp: index_record_def item_def get_def getd_def keyed_JStr split: option.splits)

lemma note_problem_keeps [simp]:
  "jn_file (note_problem reason jn) = jn_file jn" "jn_records (note_problem reason jn) = jn_records jn"
  by (auto simp: note_problem_def split: option.splits)

lemma load_lines_spec:
  assumes "load_lines env faults now raw lines jn = (cut_off, jn')"
  shows "\<exists>jn0. jn_file jn0 = jn_file jn \<and> fmdom' (jn_records jn) \<subseteq> fmdom' (jn_records jn0) \<and>
    (\<forall>n line i b. (n, line) \<in> set lines \<longrightarrow> xv_loads env line = Some (JObj i) \<longrightarrow> get i ''kind'' = JStr ''intent'' \<longrightarrow>
       get i ''binding'' = JStr b \<longrightarrow> b \<in> fmdom' (jn_records jn0)) \<and>
    (if cut_off then lines \<noteq> [] \<and> xv_loads env (snd (last lines)) = None \<and> jn' = recover_tail env faults now raw (snd (last lines)) jn0
     else jn' = jn0)"
  using assms
proof (induction lines arbitrary: jn)
  case (Cons x lines)
  obtain n line where x: "x = (n, line)" by (cases x)
  show ?case
  proof (cases "xv_loads env line")
    case None
    show ?thesis
    proof (cases "lines = []")
      case True
      then show ?thesis using Cons.prems by (auto simp: x None)
    next
      case False
      then have "load_lines env faults now raw lines (note_problem (''line '' @ nat_str n @ '' of the journal is not a complete record'') jn) = (cut_off, jn')"
        using Cons.prems by (simp add: x None)
      from Cons.IH [OF this] show ?thesis using False None by (auto simp: x)
    qed
  next
    case (Some j)
    obtain r jn1 where i: "index_record j jn = (r, jn1)" by (cases "index_record j jn")
    define jn2 where "jn2 = (case r of Inl _ \<Rightarrow> note_problem (''line '' @ nat_str n @ '' of the journal is not a journal record'') jn1 | Inr _ \<Rightarrow> jn1)"
    have jn2: "jn_file jn2 = jn_file jn" "fmdom' (jn_records jn) \<subseteq> fmdom' (jn_records jn2)" "jn_records jn2 = jn_records jn1"
      using index_record_keeps [OF i] by (auto simp: jn2_def split: sum.splits)
    have bound: "b \<in> fmdom' (jn_records jn2)"
      if "j = JObj d" "get d ''kind'' = JStr ''intent''" "get d ''binding'' = JStr b" for d b
      using index_intent [OF that(2,3), of jn] i that(1) by (auto simp: jn2(3))
    have "load_lines env faults now raw lines jn2 = (cut_off, jn')"
      using Cons.prems by (cases r) (simp_all add: x Some i jn2_def)
    from Cons.IH [OF this] obtain jn0 where jn0: "jn_file jn0 = jn_file jn2" "fmdom' (jn_records jn2) \<subseteq> fmdom' (jn_records jn0)"
      "\<forall>n line i b. (n, line) \<in> set lines \<longrightarrow> xv_loads env line = Some (JObj i) \<longrightarrow> get i ''kind'' = JStr ''intent'' \<longrightarrow>
         get i ''binding'' = JStr b \<longrightarrow> b \<in> fmdom' (jn_records jn0)"
      "if cut_off then lines \<noteq> [] \<and> xv_loads env (snd (last lines)) = None \<and> jn' = recover_tail env faults now raw (snd (last lines)) jn0
       else jn' = jn0" by blast
    have "\<forall>n' line' i b. (n', line') \<in> set (x # lines) \<longrightarrow> xv_loads env line' = Some (JObj i) \<longrightarrow> get i ''kind'' = JStr ''intent'' \<longrightarrow>
         get i ''binding'' = JStr b \<longrightarrow> b \<in> fmdom' (jn_records jn0)"
      using jn0(2,3) bound Some by (fastforce simp: x)
    then show ?thesis using jn0 jn2 by (intro exI [of _ jn0]) (auto split: if_splits)
  qed
qed auto

text \<open>A file a start can complete: it ends with a newline, or something is on its last line.\<close>

definition completable :: "string \<Rightarrow> bool" where
  "completable f = (ended f \<or> \<not> markless f)"

lemma recover_tail_spec:
  assumes "jn_file jn0 = raw"
  shows "jn_problem (recover_tail env faults now raw line jn0) = None \<Longrightarrow>
      jn_file (recover_tail env faults now raw line jn0) = before_last_line raw @ line_of env (truncated_record env now line) \<and>
      fmdom' (jn_records jn0) \<subseteq> fmdom' (jn_records (recover_tail env faults now raw line jn0))"
    and "jn_file (recover_tail env faults now raw line jn0) = raw \<or>
      jn_file (recover_tail env faults now raw line jn0) = before_last_line raw @ line_of env (truncated_record env now line)"
proof -
  let ?d = "truncated_record env now line" and ?jn = "jn0\<lparr>jn_file := before_last_line raw @ line_of env (truncated_record env now line)\<rparr>"
  obtain r jn1 where i: "index_record (JObj ?d) ?jn = (r, jn1)" by (cases "index_record (JObj ?d) ?jn")
  note k = index_record_keeps [OF i]
  show "jn_problem (recover_tail env faults now raw line jn0) = None \<Longrightarrow>
      jn_file (recover_tail env faults now raw line jn0) = before_last_line raw @ line_of env ?d \<and>
      fmdom' (jn_records jn0) \<subseteq> fmdom' (jn_records (recover_tail env faults now raw line jn0))"
    using i k by (auto simp: recover_tail_def Let_def line_of_def split: option.splits)
  show "jn_file (recover_tail env faults now raw line jn0) = raw \<or>
      jn_file (recover_tail env faults now raw line jn0) = before_last_line raw @ line_of env ?d"
    using i k assms by (auto simp: recover_tail_def Let_def line_of_def split: option.splits)
qed

end
