(* ===== verification/ExecutorGuarantees.thy ===== *)
theory ExecutorGuarantees
  imports JournalFile
begin

text \<open>
  The guarantees of the deploy executor: an idempotency key changes something at most once, over kills and
  restarts; nothing is changed without a signed request for what the catalog enrols; a failed rollback
  puts the previous container back; a stored answer is replayed.
\<close>

section \<open>A life of the executor\<close>

lemma open_journal_spec:
  assumes "codec env" and "completable raw" and jn_def: "open_journal env faults now raw = jn"
  shows "completable (jn_file jn) \<and> (holds env b raw \<longrightarrow> holds env b (jn_file jn)) \<and>
    (jn_problem jn = None \<longrightarrow> ended (jn_file jn) \<and> (holds env b raw \<longrightarrow> b \<in> fmdom' (jn_records jn)))"
proof (cases "sf_open faults")
  case (Some message)
  then show ?thesis using assms(2) by (auto simp: open_journal_def Let_def simp flip: jn_def)
next
  case None
  let ?start = "\<lparr>jn_file = raw, jn_records = fmempty, jn_results = [], jn_problem = None\<rparr>"
  obtain cut_off jn' where l: "load_lines env faults now raw (nonblank_lines raw) ?start = (cut_off, jn')"
    by (cases "load_lines env faults now raw (nonblank_lines raw) ?start")
  have jn: "jn = (if cut_off then jn' else complete_last_line faults raw jn')" by (simp add: open_journal_def None l flip: jn_def)
  obtain jn0 where bytes: "jn_file jn0 = raw"
    and found: "\<forall>n line i b. (n, line) \<in> set (nonblank_lines raw) \<longrightarrow> xv_loads env line = Some (JObj i) \<longrightarrow> get i ''kind'' = JStr ''intent'' \<longrightarrow>
       get i ''binding'' = JStr b \<longrightarrow> b \<in> fmdom' (jn_records jn0)"
    and res: "if cut_off then nonblank_lines raw \<noteq> [] \<and> xv_loads env (snd (last (nonblank_lines raw))) = None \<and>
         jn' = recover_tail env faults now raw (snd (last (nonblank_lines raw))) jn0 else jn' = jn0"
    using load_lines_spec [OF l] by auto
  have bound: "b \<in> fmdom' (jn_records jn0)" if "holds env b raw"
    using that found codecD(2,3) [OF assms(1)] nonblank_lines_mem unfolding holds_def by metis
  show ?thesis
  proof (cases cut_off)
    case True
    let ?line = "snd (last (nonblank_lines raw))" and ?new = "before_last_line raw @ line_of env (truncated_record env now (snd (last (nonblank_lines raw))))"
    have new: "ended ?new"
      using complete_lines_end [OF ended_before_last_line codecD(1) [OF assms(1)]] by (simp add: line_of_def)
    have keep: "holds env b ?new" if "holds env b raw"
    proof -
      obtain i where i: "xv_compact env (JObj i) \<in> set (complete_lines raw)" "get i ''kind'' = JStr ''intent''" "get i ''binding'' = JStr b"
        using \<open>holds env b raw\<close> by (auto simp: holds_def)
      have "?line \<noteq> xv_compact env (JObj i)" using res True codecD(3) [OF assms(1) i(2,3)] by auto
      then have "xv_compact env (JObj i) \<in> set (complete_lines (before_last_line raw))"
        by (intro before_last_line_keeps i(1) codecD(2) [OF assms(1)])
      then show ?thesis using i(2,3) by (intro holds_append) (auto simp: holds_def)
    qed
    note spec = recover_tail_spec [OF bytes, of env faults now ?line]
    have eq: "jn = recover_tail env faults now raw ?line jn0" using res True jn by simp
    show ?thesis
      using spec(1) spec(2) new keep bound assms(2) unfolding eq [symmetric] by (auto simp: completable_def)
  next
    case False
    have e: "jn = complete_last_line faults raw jn0" using res False jn by simp
    have added: "ended (raw @ newline)" by (simp add: ended_iff newline_def)
    have blank: "nonblank_lines raw = [] \<Longrightarrow> ended raw" using assms(2) by (simp add: completable_def nonblank_lines_Nil)
    have tail: "ended raw" if "ends_with newline raw"
      using that last_drop [of "length raw - 1" raw] by (cases "raw = []") (auto simp: ends_with_def newline_def ended_iff)
    have cases: "jn_file jn = raw \<or> jn_file jn = raw @ newline" "jn_problem jn = None \<Longrightarrow> ended (jn_file jn)" "jn_records jn = jn_records jn0"
      using bytes added blank tail by (auto simp: e complete_last_line_def split: option.splits if_splits)
    show ?thesis
      using cases bound added assms(2) holds_append [of env b raw newline] by (auto simp: completable_def)
  qed
qed

text \<open>
  A life: a start on a file, requests, and kills. A kill comes after \<open>done\<close> of what the request would
  have left, possibly in the middle of writing its next line. The catalog may change between requests;
  the file system keeps nothing of a line it refuses.
\<close>

definition torn_line :: "string \<Rightarrow> observation list \<Rightarrow> bool" where
  "torn_line torn rest = (torn = [] \<or> (\<exists>line l n. rest = Wrote line # l \<and> torn = take n line))"

inductive serving :: "'w exec_env \<Rightarrow> 'w machine \<Rightarrow> (op_request \<times> observation list) list \<Rightarrow> bool" for env where
  start: "completable raw \<Longrightarrow> serving env (start_executor env faults now raw w) []"
| request: "serving env mc hist \<Longrightarrow> clean_draw d \<Longrightarrow> execute_operation env services d q mc = (r, mc') \<Longrightarrow>
    mc_seen mc' = mc_seen mc @ l \<Longrightarrow> serving env mc' (hist @ [(q, l)])"
| killed: "serving env mc hist \<Longrightarrow> clean_draw d \<Longrightarrow> execute_operation env services d q mc = (r, mc') \<Longrightarrow>
    mc_seen mc' = mc_seen mc @ l @ rest \<Longrightarrow> torn_line torn rest \<Longrightarrow>
    serving env (start_executor env faults now (jn_file (mc_journal mc) @ appended l @ torn) w) (hist @ [(q, l)])"
| restarted: "serving env mc hist \<Longrightarrow> serving env (start_executor env faults now (jn_file (mc_journal mc)) w) hist"

definition bound_by :: "'w exec_env \<Rightarrow> (string \<Rightarrow> bool) \<Rightarrow> (op_request \<times> observation list) list \<Rightarrow> bool" where
  "bound_by env p hist = (\<forall>(q, l)\<in>set hist. list_ex mutates l \<longrightarrow> p (binding_of env q))"

definition settled_life :: "'w exec_env \<Rightarrow> 'w machine \<Rightarrow> (op_request \<times> observation list) list \<Rightarrow> bool" where
  "settled_life env mc hist =
     (let jn = mc_journal mc
      in completable (jn_file jn) \<and> bound_by env (\<lambda>b. holds env b (jn_file jn)) hist \<and>
         (jn_problem jn = None \<longrightarrow> ended (jn_file jn) \<and> bound_by env (\<lambda>b. b \<in> fmdom' (jn_records jn)) hist))"

lemma bound_by_mono: "bound_by env p hist \<Longrightarrow> (\<And>b. p b \<Longrightarrow> p' b) \<Longrightarrow> bound_by env p' hist"
  unfolding bound_by_def by blast

lemma bound_by_snoc: "bound_by env p (hist @ [(q, l)]) \<longleftrightarrow> bound_by env p hist \<and> (list_ex mutates l \<longrightarrow> p (binding_of env q))"
  by (auto simp: bound_by_def)

lemma settled_start:
  assumes "codec env" and "completable raw" and "bound_by env (\<lambda>b. holds env b raw) hist"
  shows "settled_life env (start_executor env faults now raw w) hist"
  using open_journal_spec [OF assms(1,2) refl, of faults now] assms(3)
  unfolding settled_life_def Let_def start_executor_def by (auto intro: bound_by_mono)

text \<open>Appending whole lines to a file that ends with one.\<close>

lemma append_lines:
  assumes "codec env" and "ended f" and "list_all (whole env) l"
  shows "ended (f @ appended l) \<and> (\<forall>i. Wrote (line_of env i) \<in> set l \<longrightarrow> xv_compact env (JObj i) \<in> set (complete_lines (f @ appended l)))"
  using assms(2,3)
proof (induction l arbitrary: f)
  case (Cons x l)
  show ?case
  proof (cases x)
    case (Sent q a)
    then show ?thesis using Cons by auto
  next
    case (Wrote b)
    then obtain d where b: "b = line_of env d" using Cons.prems by (auto simp: whole_def)
    have f: "complete_lines (f @ b) = complete_lines f @ [xv_compact env (JObj d)]" "ended (f @ b)"
      using complete_lines_end [OF Cons.prems(1) codecD(1) [OF assms(1)]] by (simp_all add: b line_of_def)
    have rest: "ended ((f @ b) @ appended l)"
        "Wrote (line_of env i) \<in> set l \<longrightarrow> xv_compact env (JObj i) \<in> set (complete_lines ((f @ b) @ appended l))" for i
      using Cons.IH [OF f(2)] Cons.prems(2) by auto
    have same: "xv_compact env (JObj i) = xv_compact env (JObj d)" if "line_of env i = b" for i
      using that by (simp add: b line_of_def)
    have "xv_compact env (JObj d) \<in> set (complete_lines ((f @ b) @ appended l))"
      using complete_lines_append [of "f @ b" "appended l"] f(1) by auto
    then show ?thesis using rest same by (auto simp: Wrote)
  qed
qed simp

lemma settled_request:
  assumes "codec env" and "settled_life env mc hist" and "clean_draw d" and "execute_operation env services d q mc = (r, mc')"
    and "mc_seen mc' = mc_seen mc @ l @ rest"
  shows "bound_by env (\<lambda>b. holds env b (jn_file (mc_journal mc) @ appended l)) (hist @ [(q, l)])"
    "list_ex mutates l \<Longrightarrow> bound_by env (\<lambda>b. b \<noteq> binding_of env q) hist"
    "l @ rest = [] \<or> (ended (jn_file (mc_journal mc) @ appended l) \<and> list_all (whole env) rest)"
    "rest = [] \<Longrightarrow> settled_life env mc' (hist @ [(q, l)])"
proof -
  let ?f = "jn_file (mc_journal mc)" and ?b = "binding_of env q"
  have old: "completable ?f" "bound_by env (\<lambda>b. holds env b ?f) hist"
    "jn_problem (mc_journal mc) = None \<Longrightarrow> ended ?f \<and> bound_by env (\<lambda>b. b \<in> fmdom' (jn_records (mc_journal mc))) hist"
    using assms(2) by (simp_all add: settled_life_def Let_def)
  have grown: "bound_by env (\<lambda>b. holds env b (?f @ g)) hist" for g using old(2) by (rule bound_by_mono) (rule holds_append)
  consider (idle) "mc' = mc"
    | (ran) i where "jn_problem (mc_journal mc) = None" "?b \<notin> fmdom' (jn_records (mc_journal mc))" "get i ''kind'' = JStr ''intent''"
        "get i ''binding'' = JStr ?b" "request_shape env ?b i mc mc'"
    using execute_operation_shape [OF assms(4,3)] by blast
  then have "bound_by env (\<lambda>b. holds env b (?f @ appended l)) (hist @ [(q, l)]) \<and> (list_ex mutates l \<longrightarrow> bound_by env (\<lambda>b. b \<noteq> ?b) hist) \<and>
    (l @ rest = [] \<or> (ended (?f @ appended l) \<and> list_all (whole env) rest)) \<and> (rest = [] \<longrightarrow> settled_life env mc' (hist @ [(q, l)]))"
  proof cases
    case idle
    then have "l = []" "rest = []" using assms(5) by simp_all
    then show ?thesis using idle assms(2) grown [of "[]"] by (simp add: settled_life_def Let_def bound_by_snoc)
  next
    case ran
    obtain l0 where g: "grows env mc l0 mc'" "intent_first (line_of env i) l0" "list_ex mutates l0 \<Longrightarrow> ?b \<in> fmdom' (jn_records (mc_journal mc'))"
      using ran(5) by (auto simp: request_shape_def)
    have l0: "l0 = l @ rest" using g(1) assms(5) by (simp add: grows_def)
    have whole: "list_all (whole env) l" "list_all (whole env) rest" using g(1) l0 by (auto simp: grows_def)
    have e: "ended ?f" and known: "bound_by env (\<lambda>b. b \<in> fmdom' (jn_records (mc_journal mc))) hist" using old(3) ran(1) by simp_all
    have lines: "ended (?f @ appended l)" "Wrote (line_of env i) \<in> set l \<Longrightarrow> xv_compact env (JObj i) \<in> set (complete_lines (?f @ appended l))"
      using append_lines [OF assms(1) e whole(1)] by blast+
    have here: "holds env ?b (?f @ appended l)" if "list_ex mutates l"
      using lines(2) intent_first_cut [OF g(2) [unfolded l0] that] ran(3,4) by (auto simp: holds_def)
    have b1: "bound_by env (\<lambda>b. holds env b (?f @ appended l)) (hist @ [(q, l)])" using grown here by (simp add: bound_by_snoc)
    have "settled_life env mc' (hist @ [(q, l)])" if "rest = []"
    proof -
      have f: "jn_file (mc_journal mc') = ?f @ appended l" and sub: "fmdom' (jn_records (mc_journal mc)) \<subseteq> fmdom' (jn_records (mc_journal mc'))"
        using g(1) l0 that by (simp_all add: grows_def)
      have "bound_by env (\<lambda>b. b \<in> fmdom' (jn_records (mc_journal mc'))) (hist @ [(q, l)])"
        using known sub g(3) l0 that by (auto simp: bound_by_def)
      then show ?thesis using b1 lines(1) by (simp add: settled_life_def Let_def f completable_def)
    qed
    moreover have "bound_by env (\<lambda>b. b \<noteq> ?b) hist" using known by (rule bound_by_mono) (use ran(2) in auto)
    ultimately show ?thesis using b1 lines(1) whole(2) by simp
  qed
  then show "bound_by env (\<lambda>b. holds env b (?f @ appended l)) (hist @ [(q, l)])"
    "list_ex mutates l \<Longrightarrow> bound_by env (\<lambda>b. b \<noteq> ?b) hist"
    "l @ rest = [] \<or> (ended (?f @ appended l) \<and> list_all (whole env) rest)"
    "rest = [] \<Longrightarrow> settled_life env mc' (hist @ [(q, l)])" by simp_all
qed

text \<open>A torn line starts with a brace, so the next start can tell it from an empty file.\<close>

lemma completable_torn:
  assumes "codec env" and "ended f" and "torn_line torn rest" and "list_all (whole env) rest"
  shows "completable (f @ torn)"
proof (cases "torn = []")
  case False
  then obtain line l n where t: "rest = Wrote line # l" "torn = take n line" using assms(3) by (auto simp: torn_line_def)
  then obtain d where "line = line_of env d" using assms(4) by (auto simp: whole_def)
  then obtain t where "line = CHR ''{'' # t" using assms(1) unfolding codec_def line_of_def by (metis append_Cons)
  then have "CHR ''{'' \<in> set torn" using t(2) False by (cases n) auto
  then show ?thesis by (auto simp: completable_def markless_def list_all_iff byte_space_def)
qed (use assms(2) in \<open>simp add: completable_def\<close>)

lemma serving_settled:
  assumes "serving env mc hist" and "codec env"
  shows "settled_life env mc hist \<and>
    (\<forall>i j. i < j \<longrightarrow> j < length hist \<longrightarrow> binding_of env (fst (hist ! i)) = binding_of env (fst (hist ! j)) \<longrightarrow>
       list_ex mutates (snd (hist ! i)) \<longrightarrow> \<not> list_ex mutates (snd (hist ! j)))"
  using assms(1)
proof induction
  case (start raw faults now w)
  show ?case using settled_start [OF assms(2) start, of "[]"] by (simp add: bound_by_def)
next
  case (request mc hist d services q r mc' l)
  have l: "mc_seen mc' = mc_seen mc @ l @ []" using request by simp
  have "settled_life env mc hist" using request.IH by simp
  note s = settled_request [OF assms(2) this request.hyps(2,3) l]
  have "\<not> list_ex mutates l" if "i < length hist" "binding_of env (fst (hist ! i)) = binding_of env q" "list_ex mutates (snd (hist ! i))" for i
    using s(2) that nth_mem [OF that(1)] by (fastforce simp: bound_by_def split: prod.splits)
  then show ?case using s(4) request.IH by (auto simp: nth_append less_Suc_eq)
next
  case (killed mc hist d services q r mc' l rest torn faults now w)
  have "settled_life env mc hist" using killed.IH by simp
  note s = settled_request [OF assms(2) this killed.hyps(2,3,4)]
  let ?raw = "jn_file (mc_journal mc) @ appended l @ torn"
  have "completable ?raw"
  proof (cases "l @ rest = []")
    case True
    then show ?thesis using killed.IH killed.hyps(5) by (auto simp: settled_life_def Let_def torn_line_def)
  next
    case False
    then show ?thesis using s(3) completable_torn [OF assms(2) _ killed.hyps(5), of "jn_file (mc_journal mc) @ appended l"] by auto
  qed
  moreover have "bound_by env (\<lambda>b. holds env b ?raw) (hist @ [(q, l)])"
    using s(1) by (rule bound_by_mono) (use holds_append in \<open>simp flip: append_assoc\<close>)
  ultimately have "settled_life env (start_executor env faults now ?raw w) (hist @ [(q, l)])" by (rule settled_start [OF assms(2)])
  moreover have "\<not> list_ex mutates l" if "i < length hist" "binding_of env (fst (hist ! i)) = binding_of env q" "list_ex mutates (snd (hist ! i))" for i
    using s(2) that nth_mem [OF that(1)] by (fastforce simp: bound_by_def split: prod.splits)
  ultimately show ?case using killed.IH by (auto simp: nth_append less_Suc_eq)
next
  case (restarted mc hist faults now w)
  then show ?case using settled_start [OF assms(2), of "jn_file (mc_journal mc)" hist] by (simp add: settled_life_def Let_def)
qed

section \<open>The previous container\<close>

definition no_delete :: "observation \<Rightarrow> bool" where
  "no_delete x = (case x of Sent q _ \<Rightarrow> hq_method q \<noteq> ''DELETE'' | Wrote _ \<Rightarrow> True)"

definition engine_request :: "'w exec_env \<Rightarrow> string \<Rightarrow> string \<Rightarrow> (string \<times> string) list \<Rightarrow> http_request" where
  "engine_request env method path params =
     \<lparr>hq_method = method, hq_url = rev (dropWhile (\<lambda>c. c = CHR ''/'') (rev (xv_docker_url env))) @ path, hq_params = params, hq_body = None\<rparr>"

text \<open>Observations that leave every existing container as it is: reading, creating another one, writing the journal.\<close>

definition untouched :: "'w exec_env \<Rightarrow> observation \<Rightarrow> bool" where
  "untouched env x = (case x of Wrote _ \<Rightarrow> True
     | Sent q _ \<Rightarrow> hq_method q = ''GET'' \<or> (\<exists>params. q\<lparr>hq_body := None\<rparr> = engine_request env ''POST'' ''/containers/create'' params))"

text \<open>The creation of the replacement \<open>new\<close> beside the container called \<open>name\<close>.\<close>

definition created :: "'w exec_env \<Rightarrow> string \<Rightarrow> string \<Rightarrow> observation \<Rightarrow> bool" where
  "created env name new x = (\<exists>body status is_json d. x =
     Sent ((engine_request env ''POST'' ''/containers/create'' [(''name'', name @ ''.next'')])\<lparr>hq_body := Some body\<rparr>) (Answered status is_json (Some (JObj d))) \<and>
     new = py_str (xv_render env) (get d ''Id''))"

text \<open>The four requests that put the previous container back, and the two that end a rollback that went well.\<close>

definition put_back :: "'w exec_env \<Rightarrow> string \<Rightarrow> string \<Rightarrow> string \<Rightarrow> observation list \<Rightarrow> bool" where
  "put_back env old new name l = (\<exists>a1 a2 a3 a4. l =
     [Sent (engine_request env ''POST'' (''/containers/'' @ new @ ''/stop'') [(''t'', ''10'')]) a1,
      Sent (engine_request env ''DELETE'' (''/containers/'' @ new) []) a2,
      Sent (engine_request env ''POST'' (''/containers/'' @ old @ ''/rename'') [(''name'', name)]) a3,
      Sent (engine_request env ''POST'' (''/containers/'' @ old @ ''/start'') []) a4])"

definition seen_up_then_removed :: "'w exec_env \<Rightarrow> string \<Rightarrow> string \<Rightarrow> observation list \<Rightarrow> bool" where
  "seen_up_then_removed env old new l = (\<exists>status is_json d info a.
     l = [Sent (engine_request env ''GET'' (''/containers/'' @ new @ ''/json'') []) (Answered status is_json (Some (JObj d))),
          Sent (engine_request env ''DELETE'' (''/containers/'' @ old) []) a] \<and> settling_of d = Inr (Up, info))"

text \<open>How the replacement of a container ends, and how a rollback does.\<close>

definition swap_end :: "'w exec_env \<Rightarrow> string \<Rightarrow> string \<Rightarrow> string \<Rightarrow> exec_error + 'a \<Rightarrow> observation list \<Rightarrow> bool" where
  "swap_end env old new name r l = (\<exists>tries ends. l = tries @ ends \<and> list_all no_delete tries \<and>
     (put_back env old new name ends \<and> r = Inl not_up \<or> seen_up_then_removed env old new ends))"

definition safe_end :: "'w exec_env \<Rightarrow> string \<Rightarrow> string \<Rightarrow> exec_error + 'a \<Rightarrow> observation list \<Rightarrow> bool" where
  "safe_end env old name r l = (list_all (untouched env) l \<or>
     (\<exists>l0 x new l1. l = l0 @ x # l1 \<and> list_all (untouched env) l0 \<and> created env name new x \<and> swap_end env old new name r l1))"

lemma safe_end_append: "list_all (untouched env) l1 \<Longrightarrow> safe_end env old name r l2 \<Longrightarrow> safe_end env old name r (l1 @ l2)"
  unfolding safe_end_def by (metis append.assoc list_all_append)

text \<open>\<open>emits p\<close>: every observation of the action is a \<open>p\<close>, whatever it does to the journal.\<close>

definition emits :: "(observation \<Rightarrow> bool) \<Rightarrow> ('w machine, 'a) action \<Rightarrow> bool" where
  "emits p m = (\<forall>mc r mc'. m mc = (r, mc') \<longrightarrow> (\<exists>l. mc_seen mc' = mc_seen mc @ l \<and> list_all p l))"

lemma emits_does: "does p m \<Longrightarrow> (\<And>x. p x \<Longrightarrow> q x) \<Longrightarrow> emits q m"
  unfolding does_def emits_def stretch_def list_all_iff by blast

lemma emits_looks: "looks m \<Longrightarrow> emits no_delete m" "looks m \<Longrightarrow> emits (untouched env) m"
  by (erule emits_does; auto simp: asks_def no_delete_def untouched_def split: observation.splits)+

lemma emits_run_then: "emits p m \<Longrightarrow> (\<And>x. emits p (f x)) \<Longrightarrow> emits p (run_then m f)"
  unfolding emits_def
proof (intro allI impI)
  fix mc r mc' assume m: "\<forall>mc r mc'. m mc = (r, mc') \<longrightarrow> (\<exists>l. mc_seen mc' = mc_seen mc @ l \<and> list_all p l)"
    and f: "\<And>x. \<forall>mc r mc'. f x mc = (r, mc') \<longrightarrow> (\<exists>l. mc_seen mc' = mc_seen mc @ l \<and> list_all p l)" and run: "run_then m f mc = (r, mc')"
  from run show "\<exists>l. mc_seen mc' = mc_seen mc @ l \<and> list_all p l"
  proof (cases rule: run_then_cases)
    case (raised e)
    then show ?thesis using m by blast
  next
    case (went_on x mc1)
    obtain l1 where l1: "mc_seen mc1 = mc_seen mc @ l1" "list_all p l1" using m went_on(1) by blast
    obtain l2 where "mc_seen mc' = mc_seen mc1 @ l2" "list_all p l2" using f went_on(2) by blast
    then show ?thesis using l1 by (intro exI [of _ "l1 @ l2"]) simp
  qed
qed

lemma emits_pure: "emits p (pass x)" "emits p (fail e)" "emits p (lift r)"
  by (auto simp: emits_def pass_def fail_def lift_def)

lemma emits_append: "emits (untouched env) (append_record env fault d)"
proof -
  have "mc_seen mc' = mc_seen mc \<or> (\<exists>b. mc_seen mc' = mc_seen mc @ [Wrote b])" if "append_record env fault d mc = (r, mc')" for mc r mc'
    using that by (auto simp: append_record_def Let_def split: write_fault.splits prod.splits sum.splits)
  then show ?thesis unfolding emits_def by (fastforce simp: untouched_def)
qed

definition leads :: "(exec_error + 'a \<Rightarrow> observation list \<Rightarrow> bool) \<Rightarrow> ('w machine, 'a) action \<Rightarrow> bool" where
  "leads q m = (\<forall>mc r mc'. m mc = (r, mc') \<longrightarrow> (\<exists>l. mc_seen mc' = mc_seen mc @ l \<and> q r l))"

lemma leads_emits: "emits (untouched env) m \<Longrightarrow> leads (safe_end env old name) m"
  unfolding leads_def emits_def safe_end_def by blast

lemma leads_run_then:
  assumes "emits (untouched env) m" and "\<And>x. leads (safe_end env old name) (f x)"
  shows "leads (safe_end env old name) (run_then m f)"
  unfolding leads_def
proof (intro allI impI)
  fix mc r mc' assume "run_then m f mc = (r, mc')"
  then show "\<exists>l. mc_seen mc' = mc_seen mc @ l \<and> safe_end env old name r l"
  proof (cases rule: run_then_cases)
    case (raised e)
    then show ?thesis using assms(1) unfolding emits_def safe_end_def by blast
  next
    case (went_on x mc1)
    obtain l1 where l1: "mc_seen mc1 = mc_seen mc @ l1" "list_all (untouched env) l1" using assms(1) went_on(1) unfolding emits_def by blast
    obtain l2 where "mc_seen mc' = mc_seen mc1 @ l2" "safe_end env old name r l2" using assms(2) went_on(2) unfolding leads_def by blast
    then show ?thesis using l1 safe_end_append [OF l1(2)] by (intro exI [of _ "l1 @ l2"]) simp
  qed
qed

lemma leads_field: "leads (safe_end env old name) (f (get d k)) \<Longrightarrow> leads (safe_end env old name) (run_then (lift (field d k)) f)"
  using leads_emits [OF emits_pure(2)] unfolding leads_def
  by (auto simp: run_then_def lift_def field_def escaping_def item_def get_def getd_def safe_end_def split: option.splits)

lemma docker_call_sends: "docker_call env method path params body expected mc = (r, mc') \<Longrightarrow>
    \<exists>a. mc_seen mc' = mc_seen mc @ [Sent ((engine_request env method path params)\<lparr>hq_body := body\<rparr>) a] \<and>
      (\<forall>j. r = Inr j \<longrightarrow> j = JNull \<or> (\<exists>status is_json. a = Answered status is_json (Some j)))"
  by (auto simp: docker_call_def run_then_def send_def pass_def fail_def engine_request_def
      split: prod.splits sum.splits http_answer.splits if_splits option.splits)

lemma docker_do_sends: "docker_do env method path params expected mc = (r, mc') \<Longrightarrow>
    \<exists>a. mc_seen mc' = mc_seen mc @ [Sent (engine_request env method path params) a]"
  unfolding docker_do_def
  by (elim run_then_cases) (auto dest!: docker_call_sends simp: pass_def engine_request_def)

lemma emits_docker_call: "method \<noteq> ''DELETE'' \<Longrightarrow> emits no_delete (docker_call env method path params body expected)"
  unfolding emits_def by (auto dest!: docker_call_sends simp: no_delete_def engine_request_def)

lemma emits_docker_do: "method \<noteq> ''DELETE'' \<Longrightarrow> emits no_delete (docker_do env method path params expected)"
  unfolding docker_do_def by (intro emits_run_then emits_docker_call emits_pure)

lemma emits_calls:
  "emits no_delete (create_container env name body)" "emits no_delete (start_container env cid)" "emits no_delete (stop_container env cid)"
  "emits no_delete (rename_container env cid name)"
  unfolding create_container_def start_container_def stop_container_def rename_container_def
  by (intro emits_run_then emits_docker_call emits_docker_do emits_pure; simp)+

text \<open>Waiting: a container that is reported up was seen up by the last request.\<close>

lemma settled_seen_up:
  assumes "settled_container env cid waits k now mc = (Inr d, mc')"
  shows "\<exists>l status is_json info. mc_seen mc' = mc_seen mc @ l @
      [Sent (engine_request env ''GET'' (''/containers/'' @ cid @ ''/json'') []) (Answered status is_json (Some (JObj d)))] \<and>
      list_all no_delete l \<and> settling_of d = Inr (Up, info)"
  using assms
proof (induction env cid waits k now mc arbitrary: d mc' rule: settled_container.induct)
  case (1 env cid waits k now mc)
  let ?m = "run_then (inspect_container env cid) (\<lambda>d. run_then (lift (settling_of d)) (\<lambda>s. pass (d, s)))"
  obtain r1 mc1 where run: "?m mc = (r1, mc1)" by (cases "?m mc")
  obtain x where r1: "r1 = Inr x" using "1.prems" by (subst (asm) settled_container.simps) (cases r1; simp add: run)
  obtain d1 s status health where x: "x = (d1, s, status, health)" by (cases x)
  have inspected: "inspect_container env cid mc = (Inr d1, mc1)" and s: "settling_of d1 = Inr (s, status, health)"
    using run by (auto simp: r1 x run_then_Inr lift_def pass_def)
  show ?case
  proof (cases "s = Up")
    case True
    then have d: "d1 = d" "mc1 = mc'" using "1.prems" by (subst (asm) settled_container.simps; simp add: run r1 x)+
    obtain j where j: "docker_call env ''GET'' (''/containers/'' @ cid @ ''/json'') [] None [200] mc = (Inr j, mc1)" "as_dict j = Inr d1"
      using inspected by (auto simp: inspect_container_def run_then_Inr lift_def)
    have "d1 \<noteq> fmempty" using s True by (auto simp: settling_of_def)
    then have "j = JObj d1" using j(2) by (auto simp: as_dict_def split: json.splits list.splits)
    then show ?thesis using docker_call_sends [OF j(1)] s True by (auto simp: d engine_request_def intro!: exI [of _ "[]"])
  next
    case False
    then have later: "settled_container env cid waits (Suc k) (now + 500 + int (waits (Suc k))) mc1 = (Inr d, mc')"
      and go: "\<not> (s = Down \<or> xv_settle env < now)"
      using "1.prems" by (subst (asm) settled_container.simps; auto simp: run r1 x split: if_splits)+
    have "looks (inspect_container env cid)" by (rule reading_calls)
    then obtain l1 where l1: "mc_seen mc1 = mc_seen mc @ l1" "list_all no_delete l1"
      using emits_looks(1) [of "inspect_container env cid"] inspected unfolding emits_def by blast
    obtain l status' is_json info where "mc_seen mc' = mc_seen mc1 @ l @
        [Sent (engine_request env ''GET'' (''/containers/'' @ cid @ ''/json'') []) (Answered status' is_json (Some (JObj d)))]"
      "list_all no_delete l" "settling_of d = Inr (Up, info)"
      using "1.IH" [OF run [symmetric] r1 x [symmetric] refl refl False go later] by blast
    then show ?thesis using l1 by (intro exI [of _ "l1 @ l"]) auto
  qed
qed

lemma best_effort_sends:
  assumes "best_effort (docker_do env method path params expected) mc = (r, mc')"
  shows "r = Inr () \<and> (\<exists>a. mc_seen mc' = mc_seen mc @ [Sent (engine_request env method path params) a])"
  using assms unfolding best_effort_def
  by (cases rule: rescue_cases) (auto simp: pass_def dest: docker_do_sends)

lemma recover_sends:
  assumes "recover_container env old new name mc = (r, mc')"
  shows "r = Inr () \<and> (\<exists>l. mc_seen mc' = mc_seen mc @ l \<and> put_back env old new name l)"
proof -
  obtain mc1 mc2 mc3 where
      "best_effort (stop_container env new) mc = (Inr (), mc1)" "best_effort (remove_container env new) mc1 = (Inr (), mc2)"
      "best_effort (rename_container env old name) mc2 = (Inr (), mc3)" "best_effort (start_container env old) mc3 = (r, mc')"
    using assms unfolding recover_container_def stop_container_def remove_container_def rename_container_def
    by (elim run_then_cases) (auto dest: best_effort_sends)
  note steps = this [unfolded stop_container_def remove_container_def rename_container_def start_container_def, THEN best_effort_sends]
  then show ?thesis unfolding put_back_def by fastforce
qed

lemma replace_seen_up:
  assumes "replace_container env old new name waits mc = (Inr d, mc')"
  shows "\<exists>l status is_json info. mc_seen mc' = mc_seen mc @ l @
      [Sent (engine_request env ''GET'' (''/containers/'' @ new @ ''/json'') []) (Answered status is_json (Some (JObj d)))] \<and>
      list_all no_delete l \<and> settling_of d = Inr (Up, info)"
proof -
  let ?steps = "run_then (stop_container env old) (\<lambda>_. run_then (rename_container env old (name @ ''.previous'')) (\<lambda>_.
     run_then (rename_container env new name) (\<lambda>_. start_container env new)))"
  obtain mc1 where steps: "?steps mc = (Inr (), mc1)" and wait: "settled_container env new waits 0 (int (waits 0)) mc1 = (Inr d, mc')"
    using assms by (auto simp: replace_container_def run_then_Inr)
  have "emits no_delete ?steps" by (intro emits_run_then emits_calls)
  then obtain l1 where l1: "mc_seen mc1 = mc_seen mc @ l1" "list_all no_delete l1" using steps unfolding emits_def by blast
  obtain l status is_json info where "mc_seen mc' = mc_seen mc1 @ l @
      [Sent (engine_request env ''GET'' (''/containers/'' @ new @ ''/json'') []) (Answered status is_json (Some (JObj d)))]"
    "list_all no_delete l" "settling_of d = Inr (Up, info)" using settled_seen_up [OF wait] by blast
  then show ?thesis using l1 by (intro exI [of _ "l1 @ l"] exI [of _ status] exI [of _ is_json] exI [of _ info]) simp
qed

lemma replace_emits: "emits no_delete (replace_container env old new name waits)"
  unfolding replace_container_def by (intro emits_run_then emits_calls emits_looks settled_looks)

lemma swap_leads:
  assumes "\<And>after. emits (\<lambda>_. False) (g after)"
  shows "leads (swap_end env old new name) (run_then (swap_containers env old new name waits) (\<lambda>after. run_then (remove_container env old) (\<lambda>_. g after)))"
  unfolding leads_def
proof (intro allI impI)
  fix mc r mc'
  assume "run_then (swap_containers env old new name waits) (\<lambda>after. run_then (remove_container env old) (\<lambda>_. g after)) mc = (r, mc')"
  then show "\<exists>l. mc_seen mc' = mc_seen mc @ l \<and> swap_end env old new name r l"
  proof (cases rule: run_then_cases)
    case (raised e)
    from raised(1) [unfolded swap_containers_def] show ?thesis
    proof (cases rule: rescue_cases)
      case undone: (raised e1 mc1)
      obtain l0 where l0: "mc_seen mc1 = mc_seen mc @ l0" "list_all no_delete l0"
        using replace_emits undone(1) unfolding emits_def by blast
      from undone(2) obtain l1 where "mc_seen mc' = mc_seen mc1 @ l1" "put_back env old new name l1" "e = not_up"
        by (cases rule: run_then_cases) (auto dest: recover_sends simp: fail_def)
      then show ?thesis using l0 raised(2) unfolding swap_end_def by (intro exI [of _ "l0 @ l1"]) auto
    qed simp
  next
    case (went_on d mc1)
    have "replace_container env old new name waits mc = (Inr d, mc1)"
      using went_on(1) [unfolded swap_containers_def] by (rule rescue_cases) (auto simp: fail_def run_then_Inr)
    from replace_seen_up [OF this] obtain l status is_json info where up: "mc_seen mc1 = mc_seen mc @ l @
        [Sent (engine_request env ''GET'' (''/containers/'' @ new @ ''/json'') []) (Answered status is_json (Some (JObj d)))]"
      "list_all no_delete l" "settling_of d = Inr (Up, info)" by blast
    have "\<exists>a. mc_seen mc' = mc_seen mc1 @ [Sent (engine_request env ''DELETE'' (''/containers/'' @ old) []) a]"
      using went_on(2)
    proof (cases rule: run_then_cases)
      case (raised e)
      then show ?thesis by (simp add: remove_container_def docker_do_sends)
    next
      case step: (went_on u mc2)
      have "mc_seen mc' = mc_seen mc2" using assms [of d] step(2) unfolding emits_def by (fastforce simp: list_all_iff)
      then show ?thesis using docker_do_sends [OF step(1) [unfolded remove_container_def]] by simp
    qed
    then obtain a where "mc_seen mc' = mc_seen mc @ l @ [Sent (engine_request env ''GET'' (''/containers/'' @ new @ ''/json'') [])
        (Answered status is_json (Some (JObj d))), Sent (engine_request env ''DELETE'' (''/containers/'' @ old) []) a]"
      using up(1) by auto
    moreover have "seen_up_then_removed env old new [Sent (engine_request env ''GET'' (''/containers/'' @ new @ ''/json'') [])
        (Answered status is_json (Some (JObj d))), Sent (engine_request env ''DELETE'' (''/containers/'' @ old) []) a]"
      unfolding seen_up_then_removed_def using up(3) by blast
    ultimately show ?thesis using up(2) unfolding swap_end_def by blast
  qed
qed

lemma create_sends:
  assumes "create_container env (name @ ''.next'') config mc = (r, mc')"
  obtains (failed) e where "r = Inl e" and "\<exists>l. mc_seen mc' = mc_seen mc @ l \<and> list_all (untouched env) l"
  | (made) new x where "r = Inr new" and "mc_seen mc' = mc_seen mc @ [x]" and "created env name new x"
proof -
  let ?call = "docker_call env ''POST'' ''/containers/create'' [(''name'', name @ ''.next'')] (Some config) [201]"
  obtain c mc1 where call: "?call mc = (c, mc1)" by (cases "?call mc")
  obtain a where a: "mc_seen mc1 = mc_seen mc @
      [Sent ((engine_request env ''POST'' ''/containers/create'' [(''name'', name @ ''.next'')])\<lparr>hq_body := Some config\<rparr>) a]"
      "\<And>j. c = Inr j \<Longrightarrow> j = JNull \<or> (\<exists>status is_json. a = Answered status is_json (Some j))"
    using docker_call_sends [OF call] by blast
  have mc': "mc' = mc1" using assms by (auto simp: create_container_def run_then_def call lift_def split: sum.splits)
  show thesis
  proof (cases r)
    case (Inl e)
    then show thesis using a(1) by (intro failed) (auto simp: mc' untouched_def engine_request_def)
  next
    case (Inr new)
    then obtain d where d: "c = Inr (JObj d)" "new = py_str (xv_render env) (get d ''Id'')"
      using assms by (auto simp: create_container_def run_then_def call lift_def field_def escaping_def item_def get_def getd_def
          split: sum.splits json.splits option.splits)
    then obtain status is_json where "a = Answered status is_json (Some (JObj d))" using a(2) by blast
    then show thesis using Inr a(1) d(2) by (intro made) (auto simp: mc' created_def)
  qed
qed

lemma create_leads:
  assumes "\<And>new. leads (swap_end env old new name) (f new)"
  shows "leads (safe_end env old name) (run_then (create_container env (name @ ''.next'') config) f)"
  unfolding leads_def
proof (intro allI impI)
  fix mc r mc' assume "run_then (create_container env (name @ ''.next'') config) f mc = (r, mc')"
  then show "\<exists>l. mc_seen mc' = mc_seen mc @ l \<and> safe_end env old name r l"
  proof (cases rule: run_then_cases)
    case (raised e)
    from raised(1) show ?thesis by (cases rule: create_sends) (auto simp: safe_end_def)
  next
    case (went_on new mc1)
    from went_on(1) obtain x where x: "mc_seen mc1 = mc_seen mc @ [x]" "created env name new x" by (cases rule: create_sends) auto
    obtain l where "mc_seen mc' = mc_seen mc1 @ l" "swap_end env old new name r l" using assms went_on(2) unfolding leads_def by blast
    then show ?thesis using x by (intro exI [of _ "x # l"]) (auto simp: safe_end_def intro!: exI [of _ "[]"])
  qed
qed

lemma leads_cases: "leads q m \<Longrightarrow> leads q n \<Longrightarrow> leads q (if b then m else n)" "emits p k \<Longrightarrow> emits p k' \<Longrightarrow> emits p (if b then k else k')"
  by auto

lemmas leads_pure = leads_emits [OF emits_pure(1)] leads_emits [OF emits_pure(2)]

lemmas emits_reading = emits_looks(2) [OF reading_calls(2)] emits_looks(2) [OF reading_calls(3)] emits_looks(2) [OF target_image_looks]

end
