(* ===== verification/ExecutorProperties.thy ===== *)
theory ExecutorProperties
  imports ExecutorGuarantees
begin

text \<open>
  The properties of the deploy executor, with a small Docker Engine that answers by method and address
  as their example.
\<close>

section \<open>Confinement\<close>

text \<open>The only flag requests are those for an allowed variant of the flag asked for.\<close>

definition confined :: "enrolled_service \<Rightarrow> dict \<Rightarrow> observation \<Rightarrow> bool" where
  "confined svc payload x = (case x of
       Sent q _ \<Rightarrow> hq_method q = ''PUT'' \<longrightarrow>
         text_at payload ''variant'' \<in> set (allowed_variants svc (text_at payload ''flag'')) \<and>
         hq_body q = Some (JObj (dict [(''variant'', JStr (text_at payload ''variant''))])) \<and>
         (\<exists>base. hq_url q = base @ ''/flags/'' @ text_at payload ''flag'')
     | Wrote _ \<Rightarrow> True)"

lemma confined_looks: "looks m \<Longrightarrow> emits (confined svc payload) m"
  by (erule emits_does) (auto simp: asks_def confined_def split: observation.splits)

lemma emits_send: "(\<And>a. p (Sent q a)) \<Longrightarrow> emits p (send env q)"
  by (auto simp: emits_def send_def split: prod.splits)

lemma emits_rescue: "emits p m \<Longrightarrow> (\<And>e. emits p (h e)) \<Longrightarrow> emits p (rescue m h)"
  unfolding emits_def
proof (intro allI impI)
  fix mc r mc' assume m: "\<forall>mc r mc'. m mc = (r, mc') \<longrightarrow> (\<exists>l. mc_seen mc' = mc_seen mc @ l \<and> list_all p l)"
    and h: "\<And>e. \<forall>mc r mc'. h e mc = (r, mc') \<longrightarrow> (\<exists>l. mc_seen mc' = mc_seen mc @ l \<and> list_all p l)" and run: "rescue m h mc = (r, mc')"
  from run show "\<exists>l. mc_seen mc' = mc_seen mc @ l \<and> list_all p l"
  proof (cases rule: rescue_cases)
    case (raised e mc1)
    obtain l1 where l1: "mc_seen mc1 = mc_seen mc @ l1" "list_all p l1" using m raised(1) by blast
    obtain l2 where "mc_seen mc' = mc_seen mc1 @ l2" "list_all p l2" using h raised(2) by blast
    then show ?thesis using l1 by (intro exI [of _ "l1 @ l2"]) simp
  next
    case (returned x)
    then show ?thesis using m by blast
  qed
qed

lemma emits_writes: "(\<And>b. p (Wrote b)) \<Longrightarrow> emits p (append_record env fault d)"
proof -
  assume p: "\<And>b. p (Wrote b)"
  have "mc_seen mc' = mc_seen mc \<or> (\<exists>b. mc_seen mc' = mc_seen mc @ [Wrote b])" if "append_record env fault d mc = (r, mc')" for mc r mc'
    using that by (auto simp: append_record_def Let_def split: write_fault.splits prod.splits sum.splits)
  then show ?thesis unfolding emits_def using p by fastforce
qed

lemma confined_docker: "method \<noteq> ''PUT'' \<Longrightarrow> emits (confined svc payload) (docker_call env method path params body expected)"
  unfolding emits_def by (auto dest!: docker_call_sends simp: confined_def engine_request_def)

lemma confined_docker_do: "method \<noteq> ''PUT'' \<Longrightarrow> emits (confined svc payload) (docker_do env method path params expected)"
  unfolding docker_do_def by (intro emits_run_then confined_docker emits_pure)

lemma confined_calls:
  "emits (confined svc payload) (create_container env name body)" "emits (confined svc payload) (start_container env cid)"
  "emits (confined svc payload) (stop_container env cid)" "emits (confined svc payload) (rename_container env cid name)"
  "emits (confined svc payload) (restart_container env cid)" "emits (confined svc payload) (remove_container env cid)"
  unfolding create_container_def start_container_def stop_container_def rename_container_def restart_container_def remove_container_def
  by (intro emits_run_then confined_docker confined_docker_do emits_pure; simp)+

lemmas confined_reading = reading_calls [THEN confined_looks] find_container_looks [THEN confined_looks]
  target_image_looks [THEN confined_looks] settled_looks [THEN confined_looks] current_variants_looks [THEN confined_looks]

lemma confined_append: "emits (confined svc payload) (append_record env fault d)"
  by (rule emits_writes) (simp add: confined_def)

lemma confined_swap: "emits (confined svc payload) (swap_containers env old new name waits)"
  unfolding swap_containers_def replace_container_def recover_container_def best_effort_def
  by (intro emits_run_then emits_rescue emits_pure confined_calls confined_reading)

lemma emits_options: "emits p m \<Longrightarrow> (\<And>x. emits p (f x)) \<Longrightarrow> emits p (case v of None \<Rightarrow> m | Some x \<Rightarrow> f x)"
  by (auto split: option.splits)

lemma confined_set_flag:
  "emits (confined svc payload) (set_flag env cfg svc (text_at payload ''flag'') (text_at payload ''variant'') (append_record env fault i))"
proof (cases "text_at payload ''variant'' \<in> set (allowed_variants svc (text_at payload ''flag''))")
  case True
  have put: "emits (confined svc payload) (flag_call env cfg ''PUT'' (''/flags/'' @ text_at payload ''flag'')
      (Some (JObj (dict [(''variant'', JStr (text_at payload ''variant''))]))))"
    unfolding flag_call_def using True
    by (auto simp: confined_def intro!: emits_run_then emits_send emits_pure emits_options split: http_answer.splits)
  show ?thesis
    unfolding set_flag_def by (rule leads_cases emits_options emits_run_then emits_pure confined_append confined_reading put)+
qed (simp add: set_flag_def emits_pure)

lemma confined_perform: "emits (confined svc payload) (perform env d op svc payload (append_record env fault i))"
  unfolding perform_def rollback_operation_def restart_operation_def Let_def
  by (rule leads_cases emits_options emits_run_then emits_rescue emits_pure confined_append confined_reading confined_calls confined_swap
        confined_set_flag)+

lemma confined_report: "emits (confined svc payload) (report_outcome env d op svc payload b base outcome)"
proof -
  have change: "emits (confined svc payload) (record_change env d svc x)" for x
    unfolding record_change_def
    by (auto simp: confined_def intro!: emits_run_then emits_send emits_pure split: prod.splits option.splits)
  have "emits (confined svc payload) (run_then (append_record env (xd_result d) rec) (\<lambda>_. pass resp))" for rec and resp :: op_response
    by (intro emits_run_then confined_append emits_pure)
  moreover have "emits (confined svc payload) (run_then (append_record env (xd_result d) rec) (\<lambda>_. run_then (record_change env d svc x) (\<lambda>_. pass resp)))"
    for rec x and resp :: op_response
    by (intro emits_run_then confined_append emits_pure change)
  ultimately show ?thesis
    unfolding emits_def report_outcome_def Let_def by (auto split: sum.splits if_splits)
qed

lemma confined_bound: "emits (confined svc payload) (bound_execution env d q svc payload)"
proof -
  have run: "emits (confined svc payload) (rescue (run_operation env d op svc payload b digest) h)"
    if "\<And>e. emits (confined svc payload) (h e)" for op b digest h
    unfolding run_operation_def Let_def
    by (rule emits_rescue emits_run_then leads_cases emits_pure confined_perform confined_report that)+
  have "emits (confined svc payload) (rescue (run_operation env d op svc payload b digest) (\<lambda>e. case e of
      JournalUnwritable message \<Rightarrow> pass (error_response d 503 ''journal_unwritable'' (''the journal could not be written: '' @ message) False)
      | _ \<Rightarrow> fail e))" for op b digest
    by (rule run) (auto intro: emits_pure split: exec_error.splits)
  then show ?thesis
    unfolding emits_def bound_execution_def Let_def by (auto simp: lift_def split: option.splits)
qed

text \<open>
  C11. The executor does nothing for a request that is not signed for exactly its method, path, key and
  body within the window, or that asks for what the catalog does not offer; and it sets a flag only to a
  variant the catalog allows.
\<close>

theorem executor_confined:
  assumes "execute_operation env services d q mc = (r, mc')" and "mc_seen mc' = mc_seen mc @ l" and "l \<noteq> []"
  shows "\<exists>secret svc payload. xv_signing_key env = Some secret \<and>
    or_empty (oq_signature q) = sign env secret (oq_method q) (oq_path q) (or_empty (oq_key q)) (oq_body q) (or_empty (oq_timestamp q)) \<and>
    \<bar>xd_now d - int (digits_value (or_empty (oq_timestamp q))) * 1000000\<bar> \<le> xv_window env \<and>
    xv_loads env (oq_body q) = Some (JObj payload) \<and> map_of services (text_at payload ''service'') = Some svc \<and>
    oq_operation q \<in> set (es_operations svc) \<and> list_all (confined svc payload) l"
proof -
  obtain svc payload where a: "accept env services d q (mc_journal mc) = Inr (Inr (svc, payload))"
    and b: "bound_execution env d q svc payload mc = (r, mc')"
    using assms by (auto simp: execute_operation_def split: sum.splits prod.splits)
  obtain l' where "mc_seen mc' = mc_seen mc @ l'" "list_all (confined svc payload) l'" using confined_bound b unfolding emits_def by blast
  then have "list_all (confined svc payload) l" using assms(2) by simp
  moreover have "\<exists>secret. xv_signing_key env = Some secret \<and>
      verify_signature env secret (xd_now d) (oq_method q) (oq_path q) (or_empty (oq_key q)) (oq_body q) (or_empty (oq_timestamp q))
        (or_empty (oq_signature q)) = Inr None \<and> xv_loads env (oq_body q) = Some (JObj payload) \<and>
      map_of services (text_at payload ''service'') = Some svc \<and> oq_operation q \<in> set (es_operations svc)"
    using a by (auto simp: accept_def Let_def and_then_Inr_iff escaping_Inr read_input_def split: option.splits prod.splits if_splits json.splits)
  ultimately show ?thesis
    by (auto simp: verify_signature_def Let_def split: if_splits intro!: exI)
qed

section \<open>Replays\<close>

lemma result_indexed:
  assumes "append_record env fault (result_record base \<lparr>or_status = 200, or_body = JObj b\<rparr>) mc = (Inr u, mc')"
    and "get base ''binding'' = JStr k"
  shows "fmlookup (jn_records (mc_journal mc')) k = Some (result_record base \<lparr>or_status = 200, or_body = JObj b\<rparr>)"
proof -
  have look: "fmlookup base ''binding'' = Some (JStr k)" using assms(2) by (auto simp: get_def getd_def split: option.splits)
  show ?thesis
    using assms(1)
    by (auto simp: append_record_def Let_def index_record_def result_record_def item_def keyed_JStr look split: write_fault.splits)
qed

lemma executed_kept:
  assumes "run_operation env d op svc payload k digest mc = (Inr resp, mc')" and "or_body resp = JObj b" and "get b ''outcome'' \<noteq> JNull"
  shows "or_status resp = 200 \<and> fmlookup (jn_records (mc_journal mc')) k = Some (result_record (base_record d op svc payload k digest) resp)"
proof -
  let ?base = "base_record d op svc payload k digest"
  obtain outcome mc1 where o: "report_outcome env d op svc payload k ?base outcome mc1 = (Inr resp, mc')"
    using assms(1) by (auto simp: run_operation_def Let_def run_then_Inr)
  have fails: "get (obj (or_body (docker_error d e))) ''outcome'' = JNull" for e
    by (cases e) (auto simp: docker_error_def error_response_def)
  have "resp \<noteq> docker_error d e" for e using fails [of e] assms(2,3) by auto
  then obtain x where x: "outcome = Inr x"
    using o by (cases outcome) (auto simp: report_outcome_def run_then_Inr pass_def split: if_splits)
  let ?resp = "\<lparr>or_status = 200, or_body = JObj (effect_body d op svc payload x)\<rparr>"
  obtain mc2 u where s: "append_record env (xd_result d) (result_record ?base ?resp) mc1 = (Inr u, mc2)"
    and c: "run_then (record_change env d svc x) (\<lambda>_. pass ?resp) mc2 = (Inr resp, mc')"
    using o by (auto simp: report_outcome_def x Let_def run_then_Inr)
  have "resp = ?resp" using c by (auto simp: run_then_Inr pass_def)
  moreover have "mc_journal mc' = mc_journal mc2"
    using c record_change_acts [of env d svc x] by (auto simp: run_then_Inr pass_def does_def stretch_def)
  ultimately show ?thesis using result_indexed [OF s, of k] by (simp add: base_record_def)
qed

text \<open>
  C12. A request that was executed is answered again with the stored answer, marked replayed, and changes
  nothing, when it comes again with its key and its payload.
\<close>

theorem executor_replays:
  assumes "execute_operation env services d q mc = (Inr resp, mc')" and "or_body resp = JObj b" and "get b ''outcome'' \<noteq> JNull"
    and "accept env services d q (mc_journal mc) = Inr (Inr (svc, payload))"
    and "accept env services' d' q' (mc_journal mc') = Inr (Inr (svc', payload))"
    and "oq_operation q' = oq_operation q" and "oq_key q' = oq_key q"
    and "fmlookup (jn_records (mc_journal mc)) (binding_of env q) = None"
  shows "execute_operation env services' d' q' mc' = (Inr \<lparr>or_status = 200, or_body = JObj (fmupd ''replayed'' (JBool True) b)\<rparr>, mc')"
proof -
  let ?digest = "xv_sha256 env (xv_sorted_dumps env (JObj payload))"
  have binding: "binding_of env q' = binding_of env q" using assms(6,7) by (simp add: binding_of_def)
  have bound: "bound_execution env d q svc payload mc = (Inr resp, mc')" using assms(1,4) by (simp add: execute_operation_def)
  have unwritten: "error_response d 503 ''journal_unwritable'' t False \<noteq> resp" for t
    using assms(2,3) by (auto simp: error_response_def)
  have "run_operation env d (oq_operation q) svc payload (binding_of env q) ?digest mc = (Inr resp, mc')"
    using bound assms(8) unwritten
    by (auto simp: bound_execution_def Let_def pass_def fail_def split: exec_error.splits elim!: rescue_cases)
  from executed_kept [OF this assms(2,3)]
  have "or_status resp = 200"
    "fmlookup (jn_records (mc_journal mc')) (binding_of env q) = Some (result_record (base_record d (oq_operation q) svc payload (binding_of env q) ?digest) resp)"
    by simp_all
  then show ?thesis
    using assms(2,5)
    by (simp add: execute_operation_def bound_execution_def binding Let_def lift_def replayed_response_def result_record_def base_record_def
        field_def escaping_def item_def getd_def)
qed

section \<open>The previous container\<close>

text \<open>
  C10. A rollback never leaves the service without its container. Either it only reads, writes its journal
  and creates other containers, so that the container it found is never touched; or it created a replacement
  beside it, and then it ends in one of two ways: the replacement - the one it created - was seen running and
  healthy and the previous container is deleted by the very next and last request; or the last four requests
  stop and delete that replacement, give the previous container its own name back and start it, whatever each
  of them answers, and the rollback is answered as failed. Nothing else is ever deleted.
\<close>

theorem previous_container_kept:
  assumes "find_container env svc mc = (Inr before, mc0)" and "get before ''Id'' = JStr old"
    and "name = strip_slashes (py_str (xv_render env) (get before ''Name''))"
    and "rollback_operation env svc tag eid waits (append_record env fault i) mc = (r, mc')"
  shows "\<exists>l. mc_seen mc' = mc_seen mc0 @ l \<and>
    (list_all (untouched env) l \<or>
     (\<exists>l0 x new tries ends. l = l0 @ x # tries @ ends \<and> list_all (untouched env) l0 \<and> created env name new x \<and> list_all no_delete tries \<and>
        (put_back env old new name ends \<and> r = Inl not_up \<or> seen_up_then_removed env old new ends)))"
proof -
  have cid: "lift (field before ''Id'') = pass (JStr old)"
    using assms(2) by (auto simp: fun_eq_iff lift_def pass_def field_def escaping_def item_def get_def getd_def split: option.splits)
  have "\<exists>rest. rollback_operation env svc tag eid waits (append_record env fault i) = run_then (find_container env svc) rest \<and>
      leads (safe_end env old name) (rest before)"
    unfolding rollback_operation_def Let_def
    by (rule exI, rule conjI, rule refl, simp only: cid action_simps py_str.simps(1) assms(3))
      (rule create_leads swap_leads leads_field leads_cases leads_pure leads_run_then emits_run_then emits_pure emits_append emits_reading)+
  then obtain rest where rest: "rollback_operation env svc tag eid waits (append_record env fault i) = run_then (find_container env svc) rest"
    "leads (safe_end env old name) (rest before)" by blast
  have "rest before mc0 = (r, mc')" using assms(1,4) by (simp add: rest(1) run_then_def)
  then obtain l where "mc_seen mc' = mc_seen mc0 @ l" "safe_end env old name r l" using rest(2) unfolding leads_def by blast
  then show ?thesis unfolding safe_end_def swap_end_def by blast
qed

section \<open>At most once\<close>

text \<open>
  C9. An idempotency key changes something at most once: of the requests of one operation that carry the
  same key, at most one sends anything but reads, however often the executor is killed, even in the middle
  of a request or of a line, and started again.
\<close>

theorem executor_at_most_once:
  assumes "serving env mc hist" and "codec env" and "i < j" and "j < length hist"
    and "oq_operation (fst (hist ! i)) = oq_operation (fst (hist ! j))" and "oq_key (fst (hist ! i)) = oq_key (fst (hist ! j))"
  shows "\<not> (list_ex mutates (snd (hist ! i)) \<and> list_ex mutates (snd (hist ! j)))"
proof -
  have "binding_of env (fst (hist ! i)) = binding_of env (fst (hist ! j))" using assms(5,6) by (simp add: binding_of_def)
  then show ?thesis using serving_settled [OF assms(1,2)] assms(3,4) by blast
qed

section \<open>An example\<close>

text \<open>
  A text is written as its bytes, a newline behind another mark, and ended; a record as its kind and its
  key. The body of the requests is a single letter.
\<close>

fun marked :: "string \<Rightarrow> string" where
  "marked [] = ''e''"
| "marked (c # cs) = (if c = CHR 0x0A then CHR ''n'' # CHR '' '' # marked cs else CHR ''c'' # c # marked cs)"

fun unmarked :: "string \<Rightarrow> string \<times> string" where
  "unmarked (t # x # rest) =
     (if t = CHR ''e'' then ([], x # rest)
      else case unmarked rest of (s, r) \<Rightarrow> ((if t = CHR ''n'' then CHR 0x0A else x) # s, r))"
| "unmarked s = ([], [])"

lemma unmarked_marked: "unmarked (marked s @ t # r) = (s, t # r)"
  by (induction s) auto

lemma marked_line: "CHR 0x0A \<notin> set (marked s)"
  by (induction s) auto

definition sample_compact :: "json \<Rightarrow> string" where
  "sample_compact j = (case j of JObj d \<Rightarrow> ''{'' @ marked (text_at d ''kind'') @ marked (text_at d ''binding'') @ ''.'' | _ \<Rightarrow> [])"

definition sample_loads :: "string \<Rightarrow> json option" where
  "sample_loads s =
     (if s = ''p'' then Some (JObj (dict [(''service'', JStr ''probe'')]))
      else if s = ''r'' then Some (JObj (dict [(''service'', JStr ''probe''), (''to_tag'', JStr ''1'')]))
      else case s of [] \<Rightarrow> None
      | _ # t \<Rightarrow> (case unmarked t of (k, r) \<Rightarrow> Some (JObj (dict [(''kind'', JStr k), (''binding'', JStr (fst (unmarked r)))]))))"

text \<open>An Engine with one container, which creates containers but starts and stops none.\<close>

definition sample_container :: dict where
  "sample_container = dict [(''Id'', JStr ''c1''), (''Name'', JStr ''/probe''), (''Image'', JStr ''i1''), (''Config'', JObj (dict [(''Image'', JStr ''demo'')])),
     (''State'', JObj (dict [(''Running'', JBool True), (''Status'', JStr ''running'')])), (''HostConfig'', JObj fmempty),
     (''NetworkSettings'', JObj fmempty)]"

definition sample_engine :: "http_request \<Rightarrow> unit \<Rightarrow> http_answer \<times> unit" where
  "sample_engine q w =
     (if hq_url q = ''/containers/json'' then Answered 200 True (Some (JList [JObj (dict [(''Id'', JStr ''c1'')])]))
      else if hq_url q = ''/containers/c1/json'' then Answered 200 True (Some (JObj sample_container))
      else if hq_url q = ''/containers/c1/restart'' then Answered 204 False None
      else if hq_url q = ''/images/demo:1/json'' then Answered 200 True (Some (JObj (dict [(''Id'', JStr ''i2'')])))
      else if hq_url q = ''/images/i1/json'' then Answered 200 True (Some (JObj (dict [(''Id'', JStr ''i1'')])))
      else if hq_url q = ''/containers/create'' then Answered 201 True (Some (JObj (dict [(''Id'', JStr ''c2'')])))
      else Unreachable, w)"

definition executor_env :: "unit exec_env" where
  "executor_env = \<lparr>xv_answer = sample_engine, xv_loads = sample_loads, xv_compact = sample_compact, xv_dumps = (\<lambda>_. []),
     xv_sorted_dumps = (\<lambda>_. []), xv_sha256 = (\<lambda>s. s), xv_hmac = (\<lambda>_ _. ''0''), xv_decode = (\<lambda>s. s), xv_wide_word = (\<lambda>_. False),
     xv_render = (\<lambda>_. []), xv_docker_url = [], xv_own_container = None, xv_settle = 0, xv_flags = None, xv_signing_key = Some ''k'',
     xv_window = 0, xv_changes = None\<rparr>"

lemma sample_codec: "codec executor_env"
proof -
  have get_text: "text_at d k = s" if "get d k = JStr s" for d k s using that by (simp add: text_at_def)
  have "sample_loads (sample_compact (JObj d)) = Some (JObj (dict [(''kind'', JStr k), (''binding'', JStr b)]))"
    if "get d ''kind'' = JStr k" "get d ''binding'' = JStr b" for d k b
  proof -
    obtain x y where "marked b @ ''.'' = x # y" by (cases "marked b @ ''.''") auto
    then have "unmarked (marked k @ marked b @ ''.'') = (k, marked b @ ''.'')" using unmarked_marked [of k x y] by simp
    then show ?thesis
      using unmarked_marked [of b "CHR ''.''" "[]"] by (simp add: sample_loads_def sample_compact_def get_text [OF that(1)] get_text [OF that(2)])
  qed
  then show ?thesis
    by (auto simp: codec_def executor_env_def sample_compact_def marked_line)
qed

definition sample_service :: enrolled_service where
  "sample_service = \<lparr>es_service = ''probe'', es_compose_service = ''probe'', es_compose_project = Some ''demo'', es_image_repository = Some ''demo'',
     es_operations = [''deployment.rollback'', ''deployment.restart''], es_flags = fmempty\<rparr>"

definition sample_draw :: exec_draw where
  "sample_draw = \<lparr>xd_execution_id = ''exe'', xd_request_id = ''id'', xd_now = 0, xd_executed_at = ''t'', xd_duration_ms = 1,
     xd_waits = (\<lambda>_. 0), xd_intent = Stored, xd_result = Stored\<rparr>"

definition sample_restart :: op_request where
  "sample_restart = \<lparr>oq_operation = ''deployment.restart'', oq_method = ''POST'', oq_path = ''/v1/operations/deployment.restart'',
     oq_key = Some ''0123456789abcdef'', oq_timestamp = Some ''0'', oq_signature = Some ''v1=0'', oq_body = ''p''\<rparr>"

definition sample_executor :: "unit machine" where
  "sample_executor = start_executor executor_env \<lparr>sf_open = None, sf_replace = None, sf_newline = None\<rparr> ''now'' [] ()"

lemma sample_executor_new:
  "jn_problem (mc_journal sample_executor) = None" "jn_records (mc_journal sample_executor) = fmempty" "mc_seen sample_executor = []"
  "completable []"
  by (simp_all add: sample_executor_def start_executor_def open_journal_def nonblank_lines_def byte_space_def complete_last_line_def
      completable_def ended_def)

lemma sample_accepts:
  assumes "jn_problem jn = None"
  shows "accept executor_env [(''probe'', sample_service)] sample_draw sample_restart jn =
    Inr (Inr (sample_service, dict [(''service'', JStr ''probe'')]))"
proof -
  have "verify_signature executor_env ''k'' 0 ''POST'' ''/v1/operations/deployment.restart'' ''0123456789abcdef'' ''p'' ''0'' ''v1=0'' = Inr None"
    by (simp add: verify_signature_def executor_env_def sign_def ascii_digit_def digits_value_def digit_value_def double_overflow_def ascii_def)
  moreover have "idempotency_key_ok ''0123456789abcdef''" "service_pattern ''probe''" by code_simp+
  ultimately show ?thesis
    using assms
    by (simp add: accept_def Let_def sample_restart_def sample_draw_def or_empty_def escaping_def OPERATIONS_def read_input_def keys_exactly_def
        text_at_def sample_service_def executor_env_def sample_loads_def)
qed

lemma unit_world: "mc_world_update f (mc :: unit machine) = mc"
  by (cases mc) simp

lemma sample_found: "\<exists>l. find_container executor_env sample_service mc = (Inr sample_container, mc\<lparr>mc_seen := mc_seen mc @ l\<rparr>)"
  by (auto simp: find_container_def sample_service_def run_then_def pass_def list_containers_def docker_call_def send_def executor_env_def
      sample_engine_def lift_def long_lived_def object_of_def field_def escaping_def item_def inspect_container_def as_dict_def getd_def
      unit_world)

lemma sample_settled: "settled_container executor_env ''c1'' waits k now mc =
    (Inr sample_container, mc\<lparr>mc_seen := mc_seen mc @ [Sent (engine_request executor_env ''GET'' ''/containers/c1/json'' [])
       (Answered 200 True (Some (JObj sample_container)))]\<rparr>)"
proof -
  have "settling_of sample_container = Inr (Up, JStr ''running'', JNull)"
    by (simp add: settling_of_def sample_container_def Let_def)
  then show ?thesis
    by (subst settled_container.simps)
      (simp add: run_then_def inspect_container_def docker_call_def send_def executor_env_def sample_engine_def as_dict_def pass_def lift_def
        engine_request_def unit_world)
qed

lemma sample_restarting: "restart_container executor_env ''c1'' mc =
    (Inr (), mc\<lparr>mc_seen := mc_seen mc @ [Sent (engine_request executor_env ''POST'' ''/containers/c1/restart'' [(''t'', ''10'')]) (Answered 204 False None)]\<rparr>)"
  by (simp add: restart_container_def docker_do_def docker_call_def send_def executor_env_def sample_engine_def engine_request_def pass_def
      run_then_def unit_world)

definition sample_view :: dict where
  "sample_view = dict [(''container_id'', JStr ''c1''), (''name'', JStr ''probe''), (''image'', JStr ''demo''), (''state'', JStr ''running''),
     (''health'', JNull), (''started_at'', JNull)]"

lemma sample_viewed: "container_view executor_env sample_container = Inr sample_view"
  by (simp add: container_view_def sample_container_def sample_view_def field_def escaping_def item_def strip_slashes_def py_or_def)

text \<open>The restart: the intent, the restart, the result.\<close>

lemma sample_performed:
  assumes "intent = append_record executor_env Stored i"
    and "get i ''kind'' = JStr ''intent''" and "get i ''binding'' = JStr b"
  shows "\<exists>mc'. restart_operation executor_env sample_service waits intent mc = (Inr (''restarted'', sample_view, sample_view), mc') \<and>
    (\<exists>l. mc_seen mc' = mc_seen mc @ l \<and> list_ex mutates l)"
proof -
  obtain l where found: "find_container executor_env sample_service mc = (Inr sample_container, mc\<lparr>mc_seen := mc_seen mc @ l\<rparr>)"
    using sample_found by blast
  let ?mc = "mc\<lparr>mc_seen := mc_seen mc @ l\<rparr>"
  obtain mc1 where i: "intent ?mc = (Inr (), mc1)" and seen: "mc_seen mc1 = mc_seen mc @ l @ [Wrote (line_of executor_env i)]"
    using index_intent [OF assms(2,3)] by (auto simp: assms(1) append_record_def Let_def line_of_def)
  have cid: "field sample_container ''Id'' = Inr (JStr ''c1'')" by (simp add: field_def escaping_def item_def sample_container_def)
  have "restart_operation executor_env sample_service waits intent mc =
      (let mc2 = snd (settled_container executor_env ''c1'' waits 0 (int (waits 0)) (snd (restart_container executor_env ''c1'' mc1)))
       in (Inr (''restarted'', sample_view, sample_view), mc2))"
    unfolding restart_operation_def run_then_def rescue_def found prod.case sum.case i cid Let_def lift_def pass_def sample_viewed
      py_str.simps sample_restarting sample_settled by simp
  then show ?thesis
    by (simp add: sample_restarting sample_settled Let_def seen mutates_def engine_request_def)
qed

lemma sample_executed:
  assumes "jn_problem (mc_journal mc) = None" and "fmlookup (jn_records (mc_journal mc)) (binding_of executor_env sample_restart) = None"
  shows "\<exists>b mc' l. execute_operation executor_env [(''probe'', sample_service)] sample_draw sample_restart mc = (Inr \<lparr>or_status = 200, or_body = JObj b\<rparr>, mc') \<and>
    get b ''outcome'' = JStr ''restarted'' \<and> mc_seen mc' = mc_seen mc @ l \<and> list_ex mutates l \<and> jn_problem (mc_journal mc') = None"
proof -
  let ?payload = "dict [(''service'', JStr ''probe'')]" and ?b = "binding_of executor_env sample_restart"
  let ?digest = "xv_sha256 executor_env (xv_sorted_dumps executor_env (JObj ?payload))"
  let ?base = "base_record sample_draw ''deployment.restart'' sample_service ?payload ?b ?digest"
  let ?x = "(''restarted'', sample_view, sample_view)"
  let ?resp = "\<lparr>or_status = 200, or_body = JObj (effect_body sample_draw ''deployment.restart'' sample_service ?payload ?x)\<rparr>"
  define intent where "intent = append_record executor_env Stored (intent_record sample_draw ?base)"
  have "get (intent_record sample_draw ?base) ''kind'' = JStr ''intent''" "get (intent_record sample_draw ?base) ''binding'' = JStr ?b"
    by (simp_all add: intent_record_def base_record_def)
  from sample_performed [OF intent_def this, of "\<lambda>_. 0" mc] obtain mc1 l1 where
      run: "restart_operation executor_env sample_service (\<lambda>_. 0) intent mc = (Inr ?x, mc1)" and seen: "mc_seen mc1 = mc_seen mc @ l1" "list_ex mutates l1"
    by blast
  obtain mc2 where stored: "append_record executor_env Stored (result_record ?base ?resp) mc1 = (Inr (), mc2)"
    and seen2: "mc_seen mc2 = mc_seen mc1 @ [Wrote (line_of executor_env (result_record ?base ?resp))]"
    by (auto simp: append_record_def Let_def line_of_def index_record_def result_record_def base_record_def item_def keyed_def)
  have report: "report_outcome executor_env sample_draw ''deployment.restart'' sample_service ?payload ?b ?base (Inr ?x) mc1 = (Inr ?resp, mc2)"
    using stored by (simp add: report_outcome_def run_then_def record_change_def pass_def sample_draw_def executor_env_def Let_def)
  have "run_operation executor_env sample_draw ''deployment.restart'' sample_service ?payload ?b ?digest mc = (Inr ?resp, mc2)"
    using run report by (simp add: run_operation_def Let_def perform_def run_then_def rescue_def pass_def intent_def sample_draw_def)
  then have ran: "execute_operation executor_env [(''probe'', sample_service)] sample_draw sample_restart mc = (Inr ?resp, mc2)"
    using sample_accepts [OF assms(1)] assms(2)
    by (simp add: execute_operation_def bound_execution_def Let_def rescue_def sample_restart_def)
  have "clean_draw sample_draw" by (simp add: clean_draw_def clean_fault_def sample_draw_def)
  then have "jn_problem (mc_journal mc2) = None"
    using execute_operation_shape [OF ran] assms(1) by (auto simp: request_shape_def grows_def)
  then show ?thesis
    using ran seen seen2
    by (intro exI [of _ "effect_body sample_draw ''deployment.restart'' sample_service ?payload ?x"] exI [of _ mc2]
          exI [of _ "l1 @ [Wrote (line_of executor_env (result_record ?base ?resp))]"])
      (simp add: effect_body_def)
qed

lemma sample_key_free: "fmlookup (jn_records (mc_journal sample_executor)) (binding_of executor_env sample_restart) = None"
  by (simp add: sample_executor_new)

lemma sample_cid: "get sample_container ''Id'' = JStr ''c1''"
  by (simp add: sample_container_def)

lemma sample_clean: "clean_draw sample_draw"
  by (simp add: clean_draw_def clean_fault_def sample_draw_def)

theorem executor_at_most_once_witness:
  "\<exists>mc hist. serving executor_env mc hist \<and> length hist = 2 \<and> fst (hist ! 0) = fst (hist ! 1) \<and>
     list_ex mutates (snd (hist ! 0)) \<and> \<not> list_ex mutates (snd (hist ! 1))"
proof -
  let ?services = "[(''probe'', sample_service)]" and ?q = sample_restart
  obtain b mc1 l1 where run: "execute_operation executor_env ?services sample_draw ?q sample_executor = (Inr \<lparr>or_status = 200, or_body = JObj b\<rparr>, mc1)"
    and l1: "mc_seen mc1 = mc_seen sample_executor @ l1" "list_ex mutates l1"
    using sample_executed [OF sample_executor_new(1) sample_key_free] by blast
  have "serving executor_env sample_executor []" unfolding sample_executor_def by (rule serving.start) (rule sample_executor_new(4))
  then have "serving executor_env mc1 ([] @ [(?q, l1)])" using sample_clean run l1(1) by (rule serving.request)
  then obtain mc2 where mc2: "serving executor_env mc2 [(?q, l1)]"
    using serving.restarted [of executor_env mc1 "[(?q, l1)]"] by auto
  obtain r mc3 where again: "execute_operation executor_env ?services sample_draw ?q mc2 = (r, mc3)"
    by (cases "execute_operation executor_env ?services sample_draw ?q mc2")
  obtain l2 where l2: "mc_seen mc3 = mc_seen mc2 @ l2"
    using execute_operation_shape [OF again sample_clean] by (auto simp: request_shape_def grows_def)
  have life: "serving executor_env mc3 ([(?q, l1)] @ [(?q, l2)])" by (rule serving.request [OF mc2 sample_clean again l2])
  then have "\<not> list_ex mutates l2"
    using executor_at_most_once [OF life sample_codec, of 0 1] l1(2) by simp
  then show ?thesis using life l1(2) by (intro exI [of _ mc3] exI [of _ "[(?q, l1)] @ [(?q, l2)]"]) simp
qed

theorem executor_confined_witness:
  "\<exists>r mc' l. execute_operation executor_env [(''probe'', sample_service)] sample_draw sample_restart sample_executor = (r, mc') \<and>
     list_ex mutates l \<and> mc_seen mc' = l \<and>
     (\<exists>secret svc payload. xv_signing_key executor_env = Some secret \<and> map_of [(''probe'', sample_service)] (text_at payload ''service'') = Some svc \<and>
        list_all (confined svc payload) l)"
proof -
  obtain b mc1 l1 where run: "execute_operation executor_env [(''probe'', sample_service)] sample_draw sample_restart sample_executor =
      (Inr \<lparr>or_status = 200, or_body = JObj b\<rparr>, mc1)"
    and l1: "mc_seen mc1 = mc_seen sample_executor @ l1" "list_ex mutates l1"
    using sample_executed [OF sample_executor_new(1) sample_key_free] by blast
  have "l1 \<noteq> []" using l1(2) by auto
  moreover have "mc_seen mc1 = l1" using l1(1) sample_executor_new(3) by simp
  ultimately show ?thesis using executor_confined [OF run l1(1)] run l1(2) by blast
qed

theorem executor_replays_witness:
  "\<exists>b mc'. execute_operation executor_env [(''probe'', sample_service)] sample_draw sample_restart sample_executor =
       (Inr \<lparr>or_status = 200, or_body = JObj b\<rparr>, mc') \<and>
     execute_operation executor_env [(''probe'', sample_service)] sample_draw sample_restart mc' =
       (Inr \<lparr>or_status = 200, or_body = JObj (fmupd ''replayed'' (JBool True) b)\<rparr>, mc')"
proof -
  obtain b mc1 where run: "execute_operation executor_env [(''probe'', sample_service)] sample_draw sample_restart sample_executor =
      (Inr \<lparr>or_status = 200, or_body = JObj b\<rparr>, mc1)"
    and b: "get b ''outcome'' = JStr ''restarted''" and p: "jn_problem (mc_journal mc1) = None"
    using sample_executed [OF sample_executor_new(1) sample_key_free] by blast
  have "execute_operation executor_env [(''probe'', sample_service)] sample_draw sample_restart mc1 =
      (Inr \<lparr>or_status = 200, or_body = JObj (fmupd ''replayed'' (JBool True) b)\<rparr>, mc1)"
    by (rule executor_replays [OF run _ _ sample_accepts [OF sample_executor_new(1)] sample_accepts [OF p] refl refl sample_key_free])
      (simp_all add: b)
  then show ?thesis using run by blast
qed

text \<open>A rollback whose replacement cannot be started.\<close>

lemma sample_container_fields:
  "field sample_container ''Id'' = Inr (JStr ''c1'')" "field sample_container ''Name'' = Inr (JStr ''/probe'')"
  "field sample_container ''Image'' = Inr (JStr ''i1'')"
  by (simp_all add: field_def escaping_def item_def sample_container_def)

lemma sample_clone: "\<exists>j. clone_config executor_env sample_container (JObj fmempty) target image_id eid = Inr j"
proof -
  have "sorted_list_of_fset {|''Image'' :: string|} = [''Image'']" "sorted_list_of_fset {||} = ([] :: string list)"
    by (simp_all add: sorted_list_of_fset.rep_eq)
  then show ?thesis
    by (simp add: clone_config_def sample_container_def field_def escaping_def item_def object_of_def for_items_def clone_entry_def
        clone_host_def as_dict_def Let_def)
qed

lemma sample_calls:
  "target_image executor_env ''demo:1'' mc = (Inr (dict [(''Id'', JStr ''i2'')]), mc\<lparr>mc_seen := mc_seen mc @
     [Sent (engine_request executor_env ''GET'' ''/images/demo:1/json'' []) (Answered 200 True (Some (JObj (dict [(''Id'', JStr ''i2'')]))))]\<rparr>)"
  "inspect_image executor_env ''i1'' mc = (Inr (dict [(''Id'', JStr ''i1'')]), mc\<lparr>mc_seen := mc_seen mc @
     [Sent (engine_request executor_env ''GET'' ''/images/i1/json'' []) (Answered 200 True (Some (JObj (dict [(''Id'', JStr ''i1'')]))))]\<rparr>)"
  "\<exists>mc'. create_container executor_env ''probe.next'' j mc = (Inr ''c2'', mc')"
  "\<exists>e mc'. replace_container executor_env ''c1'' ''c2'' ''probe'' waits mc = (Inl e, mc')"
  by (auto simp: target_image_def rescue_def inspect_image_def docker_call_def run_then_def send_def executor_env_def sample_engine_def pass_def
      lift_def as_dict_def engine_request_def unit_world create_container_def field_def escaping_def item_def replace_container_def
      stop_container_def docker_do_def fail_def)

lemma sample_rolled_back:
  "\<exists>mc'. rollback_operation executor_env sample_service ''1'' eid waits (append_record executor_env Stored (dict [(''kind'', JStr ''intent''), (''binding'', JStr ''b'')]))
     mc = (Inl not_up, mc')"
proof -
  let ?i = "dict [(''kind'', JStr ''intent''), (''binding'', JStr ''b'')]"
  obtain l where found: "find_container executor_env sample_service mc = (Inr sample_container, mc\<lparr>mc_seen := mc_seen mc @ l\<rparr>)"
    using sample_found by blast
  have stored: "\<exists>mc'. append_record executor_env Stored ?i mc1 = (Inr (), mc')" for mc1
    by (simp add: append_record_def Let_def index_record_def item_def keyed_def)
  obtain config where clone: "clone_config executor_env sample_container (JObj fmempty) ''demo:1'' (JStr ''i2'') eid = Inr config" using sample_clone by blast
  have swap: "\<exists>mc'. swap_containers executor_env ''c1'' ''c2'' ''probe'' waits mc1 = (Inl not_up, mc')" for mc1
  proof -
    obtain e mc2 where f: "replace_container executor_env ''c1'' ''c2'' ''probe'' waits mc1 = (Inl e, mc2)" using sample_calls(4) by blast
    obtain r mc3 where g: "recover_container executor_env ''c1'' ''c2'' ''probe'' mc2 = (r, mc3)"
      by (cases "recover_container executor_env ''c1'' ''c2'' ''probe'' mc2")
    then have "r = Inr ()" using recover_sends by blast
    then show ?thesis by (simp add: swap_containers_def rescue_def f run_then_def g fail_def)
  qed
  have target: "(case es_image_repository sample_service of Some r \<Rightarrow> r | None \<Rightarrow> ''None'') @ '':'' @ ''1'' = ''demo:1''"
    by (simp add: sample_service_def)
  have name: "strip_slashes ''/probe'' = ''probe''" "''probe'' @ ''.next'' = ''probe.next''" by (simp_all add: strip_slashes_def)
  have ids: "field (dict [(''Id'', JStr ''i2'')]) ''Id'' = Inr (JStr ''i2'')" "(JStr ''i1'' = JStr ''i2'') = False"
      "py_or (get (dict [(''Id'', JStr ''i1'')]) ''Config'') (JObj fmempty) = JObj fmempty"
    by (simp_all add: field_def escaping_def item_def py_or_def)
  obtain mc1 where one: "append_record executor_env Stored ?i (snd (inspect_image executor_env ''i1'' (snd (target_image executor_env ''demo:1''
      (mc\<lparr>mc_seen := mc_seen mc @ l\<rparr>))))) = (Inr (), mc1)" using stored by blast
  obtain mc2 where two: "create_container executor_env ''probe.next'' config mc1 = (Inr ''c2'', mc2)" using sample_calls(3) by blast
  obtain mc3 where three: "swap_containers executor_env ''c1'' ''c2'' ''probe'' waits mc2 = (Inl not_up, mc3)" using swap by blast
  have "rollback_operation executor_env sample_service ''1'' eid waits (append_record executor_env Stored ?i) mc = (Inl not_up, mc3)"
    unfolding rollback_operation_def Let_def run_then_def found prod.case sum.case target lift_def pass_def sample_container_fields ids if_False
      py_str.simps name clone
    using one by (simp add: sample_calls(1,2) two three clone field_def escaping_def item_def py_or_def)
  then show ?thesis by blast
qed

theorem previous_container_kept_witness:
  "\<exists>mc0 mc' l. find_container executor_env sample_service sample_executor = (Inr sample_container, mc0) \<and>
     rollback_operation executor_env sample_service ''1'' ''exe'' (\<lambda>_. 0)
       (append_record executor_env Stored (dict [(''kind'', JStr ''intent''), (''binding'', JStr ''b'')])) sample_executor = (Inl not_up, mc') \<and>
     mc_seen mc' = mc_seen mc0 @ l \<and>
     (list_all (untouched executor_env) l \<or>
      (\<exists>l0 x new tries ends. l = l0 @ x # tries @ ends \<and> list_all (untouched executor_env) l0 \<and> created executor_env ''probe'' new x \<and>
         list_all no_delete tries \<and> (put_back executor_env ''c1'' new ''probe'' ends \<or> seen_up_then_removed executor_env ''c1'' new ends)))"
proof -
  obtain l where found: "find_container executor_env sample_service sample_executor =
      (Inr sample_container, sample_executor\<lparr>mc_seen := mc_seen sample_executor @ l\<rparr>)" using sample_found by blast
  obtain mc' where rolled: "rollback_operation executor_env sample_service ''1'' ''exe'' (\<lambda>_. 0)
      (append_record executor_env Stored (dict [(''kind'', JStr ''intent''), (''binding'', JStr ''b'')])) sample_executor = (Inl not_up, mc')"
    using sample_rolled_back by blast
  have name: "''probe'' = strip_slashes (py_str (xv_render executor_env) (get sample_container ''Name''))"
    by (simp add: sample_container_def strip_slashes_def)
  from previous_container_kept [OF found sample_cid name rolled] show ?thesis using found rolled by blast
qed

end
