(* ===== verification/Spec2Isabelle.thy ===== *)
theory Spec2Isabelle
  imports Commands Title Projections PostmortemDraft Dispatch Replay TriageProperties ControlRetries Publications ExecutorProperties
begin

text \<open>
  A verification library of the Midnight SRE agent: the governed incident response, the triage that
  feeds it, the budget its model calls are admitted against, the administrative control plane and the
  deploy executor that carries out approved changes.
  File names are relative to \<^verbatim>\<open>src/src/sre_agent/\<close>.

  \<^bold>\<open>The program.\<close> An alert is triaged by people or by an automatic decider (\<^verbatim>\<open>triage/\<close>). A declaration
  opens an incident and starts an investigation run. From then on the incident moves only by named
  transitions of the pinned workflow \<^verbatim>\<open>incident-response.yaml\<close>, executed by \<^verbatim>\<open>IncidentRuntime\<close>
  (\<^verbatim>\<open>incident/runtime.py\<close>): it plans a transition on the rows it read and commits it with decision, event
  and snapshot in one transaction of the unit of work (\<^verbatim>\<open>persistence/incidents.py\<close>). Runs are handed to
  workers by dispatches. A resolved incident gets a reviewed postmortem and, closed, a memory for later
  investigations. Readers see safe projections. Calls to language models are admitted against limits
  (\<^verbatim>\<open>gateway/consumption_*.py\<close>). The control plane (\<^verbatim>\<open>control/service.py\<close>) administers principals,
  credentials, grants, resources, published versions and the limits, behind bearer keys, exact grants,
  idempotency keys and an audit event per answered request. The deploy executor (\<^verbatim>\<open>executor/\<close>) is the only
  process with hands on the deployment: for a signed request it restarts a container, rolls one back to an
  earlier image or sets a feature flag, through the Docker Engine and a flag listener, and keeps an
  append-only journal of intents and results.
\<close>

section \<open>The theories and the code\<close>

text \<open>
  \<^bold>\<open>Foundations.\<close>
  \<^item> \<open>Prelude\<close>: Python exceptions as values (\<open>'a outcome\<close> is an exception or a value, sequenced by
    \<open>and_then\<close>), JSON documents and the operations the code applies to them, tables as lists of rows
    with \<open>select_one\<close> and \<open>update_where\<close>, and the proof collection \<open>outcome_simps\<close>.
  \<^item> \<open>Pytext\<close>: text as UTF-8 bytes, its length in code points, stripping, cutting, replacing; aware
    datetimes and their linear order. \<open>Decimals\<close>: the \<^verbatim>\<open>decimal\<close> module with its context and rounding.

  \<^bold>\<open>The incident plane.\<close>
  \<^item> \<open>Workflow\<close>: \<^verbatim>\<open>incident/workflow.py\<close> and the pinned artifact as a document; \<open>from_document\<close> is the loader.
  \<^item> \<open>Store\<close>, \<open>Memory\<close>, \<open>Postmortem\<close>: the tables of \<^verbatim>\<open>incident/persistence.py\<close>, \<^verbatim>\<open>persistence/incidents.py\<close>,
    \<^verbatim>\<open>persistence/memories.py\<close> and \<^verbatim>\<open>persistence/postmortems.py\<close> as one record \<open>store\<close>, with their
    constraints and repositories; one definition per repository method.
  \<^item> \<open>UnitOfWork\<close>: \<^verbatim>\<open>PostgresIncidentUnitOfWork\<close>: claiming and completing dispatches, run records,
    \<open>persist_transition\<close>, loading a replay page by page.
  \<^item> \<open>Runtime\<close>: \<^verbatim>\<open>incident/runtime.py\<close>: \<open>execute\<close>, \<open>start_run\<close>, \<open>reconstruct\<close>, with the guards (\<open>validate\<close>,
    \<open>check_review\<close>) and the state change (\<open>reduce\<close>). The runtime record holds clock and identifiers.
  \<^item> \<open>Commands\<close>, \<open>Title\<close>, \<open>Projections\<close>, \<open>PostmortemDraft\<close>: \<^verbatim>\<open>incident/commands.py\<close>, \<^verbatim>\<open>title.py\<close>,
    \<^verbatim>\<open>projections.py\<close> with \<^verbatim>\<open>reasons.py\<close>, and \<^verbatim>\<open>postmortem_draft.py\<close>.

  \<^bold>\<open>Triage and governance.\<close>
  \<^item> \<open>Authorization\<close>: \<^verbatim>\<open>governance/authorization.py\<close>, the readers of its facts and direct grants; the
    record \<open>registry\<close> holds the administrative tables.
  \<^item> \<open>Idempotency\<close>: \<^verbatim>\<open>IdempotencyRepository\<close>. \<open>Triage\<close>: \<^verbatim>\<open>triage/service.py\<close> and \<^verbatim>\<open>triage/store.py\<close>;
    \<open>execute_triage\<close> is the service's \<^verbatim>\<open>execute\<close>.

  \<^bold>\<open>Consumption.\<close>
  \<^item> \<open>Affordability\<close>: the endpoint catalog and the output ceiling of a call (\<^verbatim>\<open>gateway/endpoint_catalog.py\<close>,
    \<^verbatim>\<open>gateway/consumption_affordability.py\<close>). \<open>Admission\<close>: \<^verbatim>\<open>gateway/consumption_admission.py\<close> and
    \<^verbatim>\<open>persistence/reservations.py\<close>.

  \<^bold>\<open>The control plane.\<close>
  \<^item> \<open>Identity\<close>: keys, principals and credentials (\<^verbatim>\<open>persistence/api_keys.py\<close>, \<^verbatim>\<open>persistence/repositories.py\<close>,
    \<^verbatim>\<open>gateway/authentication.py\<close>). \<open>Catalog\<close> and \<open>Knowledge\<close>: the resource table, model aliases, skill
    versions and the body of knowledge (\<^verbatim>\<open>bok/owner.py\<close>, \<^verbatim>\<open>bok/publication.py\<close>).
  \<^item> \<open>Control\<close>, \<open>LimitPolicy\<close>, \<open>ControlCatalog\<close>: the handlers of \<^verbatim>\<open>control/service.py\<close> and
    \<^verbatim>\<open>control/consumption_limits.py\<close>, in the order of the files, and \<^verbatim>\<open>AuditProjector.control_event\<close>. A
    handler maps the environment, the request's draws and the database \<open>control_db\<close> to a response, or the
    exception it lets through, and the database.
  \<^item> \<open>Changes\<close>: \<open>serve\<close> routes the 27 requests to their handlers.

  \<^bold>\<open>The deploy executor.\<close>
  \<^item> \<open>Journal\<close>: actions on the executor's state (\<open>action\<close>, sequenced by \<open>run_then\<close>, caught by \<open>rescue\<close>) that log
    what they send and write, and \<^verbatim>\<open>Journal\<close> of \<^verbatim>\<open>executor/app.py\<close>: reading the file, repairing its tail,
    indexing and appending records.
  \<^item> \<open>Executor\<close>: \<^verbatim>\<open>executor/signature.py\<close>, \<^verbatim>\<open>catalog.py\<close>, \<^verbatim>\<open>docker.py\<close>, \<^verbatim>\<open>operations.py\<close> and \<^verbatim>\<open>flags.py\<close>.
  \<^item> \<open>Deployments\<close>: \<^verbatim>\<open>Executor\<close> and the routes of \<^verbatim>\<open>executor/app.py\<close>: \<open>accept\<close> are the checks before the key's
    lock, \<open>bound_execution\<close> what happens under it, \<open>execute_operation\<close> the whole request.
\<close>

section \<open>What the lemmas show\<close>

text \<open>
  \<^item> \<open>StoreLaws\<close>, \<open>EventLog\<close>, \<open>Commits\<close>, \<open>Lifecycle\<close>: the normal form of every write; the log of a run read
    in pages as a list that only grows (\<open>paged_log\<close>); a command's result stored, read back and replayed
    (\<open>command_log\<close>, interpreted on \<open>execute\<close> and on \<open>start_run\<close>); \<open>reach\<close>, the stores any sequence of
    operations can lead to.
  \<^item> \<open>Invariants\<close> has the interface \<open>store_invariant\<close>: a predicate the few kinds of write keep holds of
    every reachable store. \<open>Governance\<close>, \<open>Soundness\<close>, \<open>Guarantees\<close>, \<open>Replay\<close> and \<open>TriageLaws\<close> interpret it:
    approval before verification, well-formed incidents, runs and snapshots, gapless logs, movement along
    the workflow, versions ordered with the log, commits known to triage. \<open>Replay\<close> shows, along the histories
    \<open>driven\<close> in which a run drives its incident, that reconstruction gives what the rows hold.
  \<^item> \<open>Progress\<close> and \<open>Liveness\<close>: an enabled command commits, unless it closes the incident, opens a dispatch or
    brings events or turn contexts, which these lemmas leave out. \<open>Dispatch\<close>: a dispatch is claimed once and
    ends once.
  \<^item> \<open>TriageLaws\<close>, \<open>TriageProperties\<close>: final decisions stand, retries return the first answer, a declaration
    needs an operator's right, opens what it says and is attributed to the operator or, an automatic one, to
    the system responsible.
  \<^item> \<open>Affordability\<close> and \<open>Admission\<close> also hold their results: the ceiling is the greatest affordable count; a
    call is admitted only within the month's dollars, with the rounding of the decimal context bounded; and
    over any admissions and settlements an incident exceeds its tokens at most by what settlements reported
    beyond their reservations.
  \<^item> \<open>Authorization\<close>: the engine decides the stated policy, for every reader of facts (\<open>fact_readers\<close>, three
    interpretations). \<open>Idempotency\<close>: \<open>request_bindings\<close>, interpreted on the repository.
  \<^item> \<open>Changes\<close> classifies what a request may change (\<open>change\<close>); \<open>Administration\<close> proves that every handler
    stays within it (\<open>serve_cases\<close>); \<open>ControlGuarantees\<close>, \<open>ControlRetries\<close> and \<open>Publications\<close> draw the
    guarantees from it: grants needed, changes audited or answered as unaudited, refusals without effect,
    revocation final, rotation to a key that authenticates,
    compare-and-set, secrets shown once, published contents immutable. \<open>ControlSample\<close> is the concrete
    control plane of the witnesses.
  \<^item> \<open>DeploymentLaws\<close> says what each action does to the outside (\<open>looks\<close>, \<open>acts\<close>, \<open>guarded\<close>): no operation sends
    anything but reads before its intent is recorded. \<open>JournalFile\<close> shows that appending and repairing keep
    the complete lines and that a start indexes every intent among them; \<open>Executions\<close> and
    \<open>ExecutorGuarantees\<close> join the two over \<open>serving\<close>, the executor's life of requests, kills and restarts.
    \<open>ExecutorProperties\<close>: a key changes something at most once, a rollback deletes the previous container
    only after its replacement was seen running and otherwise puts it back, unsigned or unenrolled requests do nothing, executed requests are replayed.
\<close>

section \<open>Bounds\<close>

text \<open>
  No definition takes fuel. The loops that are not structural terminate by a measure: \<open>search_tokens\<close> by
  the width of its interval, \<open>replay_pages\<close> by the events left after the cursor, \<open>settled_container\<close> by the
  time left until its deadline, of which every turn takes at least the half second it sleeps, and the
  decoding, replacing and salvaging of text by the bytes left. The attempts of issuing a key are a structural
  recursion over \<open>ISSUANCE_ATTEMPTS\<close>. Token counts are bounded as the code bounds them
  (\<open>MAX_ENDPOINT_TOKENS\<close>, \<open>MAX_BIGINT\<close>), columns at their declared length and scale; Python's own integers
  are unbounded and so are the model's. Decimals round to 28 digits (\<open>default_prec\<close>) with the exponents of
  the context; \<open>fix_error\<close> bounds what one rounding adds, and the bound of the monthly limit sums them.
\<close>

section \<open>Modelling notes\<close>

text \<open>
  \<^item> \<^bold>\<open>Data.\<close> A \<^verbatim>\<open>str\<close> is its UTF-8 bytes, a \<^verbatim>\<open>dict\<close> a finite map; datetimes are aware and in UTC, before
    the year 9999. \<^verbatim>\<open>ORDER BY\<close> of a text column is byte order, \<^verbatim>\<open>DISTINCT ON\<close> takes the earliest row of a
    tie, \<^verbatim>\<open>NUMERIC(p, s)\<close> holds values at its scale. Decimals follow the General Decimal Arithmetic with
    half-even rounding. A test of membership of an unhashable document raises only where it is modelled.
  \<^item> \<^bold>\<open>Transactions.\<close> A transaction is one step. What the code reads before the transaction it writes in may
    be out of date: a command or run start of \<open>reach\<close> is planned on an earlier store. Advisory locks make
    the transactions under them serial; collisions of the lock's hash only make more of them serial. A
    settlement takes no such lock: one that commits between the two sums an admission reads is not modelled.
    Requests of the control plane and of the executor are served one after the other.
  \<^item> \<^bold>\<open>Kills.\<close> The executor's process may be killed between any two of its requests and writes, and in the
    middle of a line; what it wrote before stays written. The theorem on kills assumes that a refused write
    leaves no part of its line; \<open>append_record\<close> itself also models a write whose line stays.
  \<^item> \<^bold>\<open>Clock and randomness.\<close> A request of the control plane reads the clock once, which is also the
    database's \<^verbatim>\<open>now()\<close>; triage and the runtime read it as often as the code does. Identifiers and key
    material are arguments, drawn at most once per prefix and call (\<open>draws\<close>); nothing is assumed of them
    where a theorem does not say so.
  \<^item> \<^bold>\<open>Errors.\<close> Every exception the code raises is a value. Interpolated details of a message are left
    out. A response has its status and body, not its headers.
  \<^item> \<^bold>\<open>Numbers.\<close> Documents compare as JSON, which tells integers, booleans and floats apart where Python's
    \<^verbatim>\<open>==\<close> takes \<^verbatim>\<open>True\<close>, \<^verbatim>\<open>1\<close> and \<^verbatim>\<open>1.0\<close> as equal. The age of a signature is computed exactly where
    \<^verbatim>\<open>signature.py\<close> subtracts doubles, which agree to the microsecond.
  \<^item> \<^bold>\<open>Parameters.\<close> SHA-256, scrypt and the audit HMAC, the fetched endpoint catalog, PostgreSQL's text
    search, \<^verbatim>\<open>casefold\<close>, number rendering, and the DTO library's reading and printing of timestamps. For the
    executor also \<^verbatim>\<open>json\<close>, the signature's HMAC, and the Docker Engine, the flag listener and the change log
    as one party that answers requests and keeps a state of its own.
  \<^item> \<^bold>\<open>Rows.\<close> \<^verbatim>\<open>latency_ms\<close> is not kept in an audit event; \<^verbatim>\<open>skill_versions.resource_type\<close> is the constant the
    code writes; owners of MCP servers and tools are their identifier and status.
\<close>

section \<open>Not modelled\<close>

text \<open>
  HTTP framing, start-up and configuration (\<^verbatim>\<open>main.py\<close>, \<^verbatim>\<open>application.py\<close>, \<^verbatim>\<open>settings.py\<close>), engine set-up
  and seed data, since they call libraries only. The investigator's loop around a language model, the
  model and MCP gateways and the chat channel, whose work is traffic with other services. The retrieval from the body of knowledge, which is PostgreSQL's text search. The dispatcher
  (\<^verbatim>\<open>gateway/investigation.py\<close>), whose store operations are modelled in \<open>UnitOfWork\<close>; the HTTP adapters
  over triage and runtime; the reads of audit events and usage; the static catalogs; resolving a model
  alias for a call. \<^verbatim>\<open>list_recent\<close> and \<^verbatim>\<open>latest_for\<close> of the incident repositories serve listings only.
\<close>

end
